(* ===== verification/Prelude.thy ===== *)
theory Prelude
  imports Main "HOL-Library.Word" "HOL-Library.AList" "HOL-Library.Sublist" "HOL-Library.Multiset"
    "HOL-Library.Char_ord" "HOL-Library.List_Lexorder"
begin

text \<open>
  Shared vocabulary of the development: Go's fixed-width integers, Go's \<open>map[string]string\<close>,
  the parts of the packages \<open>fmt\<close>, \<open>strings\<close> and \<open>sort\<close> that the operator uses, the outcome of
  a call that may panic, and the lemma collections the component theories extend.

  A Go map is an association list with distinct keys: the list order is one order in which a
  \<open>range\<close> loop may visit the entries, which Go leaves open. Whatever depends on that order is
  therefore visible in the model.
\<close>

section \<open>Lemma collections\<close>

named_theorems frame
  \<open>operations that leave a part of the state unchanged\<close>

named_theorems go_fmt
  \<open>facts about the strings that the fmt and strings packages produce\<close>

section \<open>Machine integers, time and panics\<close>

type_synonym int32 = "32 word"
type_synonym int64 = "64 word"
type_synonym uint16 = "16 word"

text \<open>An address, as \<open>%v\<close> prints it for a pointer inside a struct.\<close>

type_synonym addr = "64 word"

text \<open>Nanoseconds since Go's zero time \<open>time.Time{}\<close>.\<close>

type_synonym time = int

abbreviation zero_time :: time where
  "zero_time \<equiv> 0"

text \<open>A call returns or panics; a panic unwinds to the caller.\<close>

datatype 'a outcome = Returned (returned: 'a) | Panicked

fun outcome_bind :: "'a outcome \<Rightarrow> ('a \<Rightarrow> 'b outcome) \<Rightarrow> 'b outcome" where
  "outcome_bind (Returned x) f = f x"
| "outcome_bind Panicked f = Panicked"

lemma outcome_bind_Returned [simp]:
  "outcome_bind m f = Returned y \<longleftrightarrow> (\<exists>x. m = Returned x \<and> f x = Returned y)"
  by (cases m) auto

section \<open>Maps from strings to strings\<close>

type_synonym go_map = "(string \<times> string) list"

definition go_map_wf :: "go_map \<Rightarrow> bool" where
  "go_map_wf m \<longleftrightarrow> distinct (map fst m)"

text \<open>\<open>m[k]\<close> yields the zero value, the empty string, for an absent key.\<close>

definition go_get :: "go_map \<Rightarrow> string \<Rightarrow> string" where
  "go_get m k = (case map_of m k of Some v \<Rightarrow> v | None \<Rightarrow> [])"

definition go_has :: "go_map \<Rightarrow> string \<Rightarrow> bool" where
  "go_has m k \<longleftrightarrow> map_of m k \<noteq> None"

definition go_put :: "go_map \<Rightarrow> string \<Rightarrow> string \<Rightarrow> go_map" where
  "go_put m k v = AList.update k v m"

text \<open>\<open>reflect.DeepEqual\<close> on two non-nil maps compares them as maps, not as lists.\<close>

definition go_map_eq :: "go_map \<Rightarrow> go_map \<Rightarrow> bool" where
  "go_map_eq m n \<longleftrightarrow> length m = length n \<and> list_all (\<lambda>(k, v). map_of n k = Some v) m"

lemma go_get_put [simp]: "go_get (go_put m k v) k' = (if k' = k then v else go_get m k')"
  by (simp add: go_get_def go_put_def update_conv)

lemma go_has_put [simp]: "go_has (go_put m k v) k' \<longleftrightarrow> k' = k \<or> go_has m k'"
  by (auto simp: go_has_def go_put_def update_conv)

lemma go_map_wf_put [simp]: "go_map_wf m \<Longrightarrow> go_map_wf (go_put m k v)"
  by (simp add: go_map_wf_def go_put_def distinct_update)

lemma map_of_mset_eq:
  assumes "distinct (map fst m)" and "mset m = mset n"
  shows "map_of m = map_of n"
proof -
  from assms(2) have "mset (map fst m) = mset (map fst n)" by simp
  with assms(1) have "distinct (map fst n)" by (metis mset_eq_imp_distinct_iff)
  moreover from assms(2) have "set m = set n" by (rule mset_eq_setD)
  ultimately show ?thesis using assms(1) by (simp add: map_of_inject_set)
qed

lemma go_map_eq_refl [simp]: "go_map_wf m \<Longrightarrow> go_map_eq m m"
  by (auto simp: go_map_eq_def go_map_wf_def list_all_iff map_of_is_SomeI)

section \<open>The fmt package\<close>

definition digit_char :: "nat \<Rightarrow> char" where
  "digit_char d = char_of (if d < 10 then 48 + d else 87 + d)"

definition char_digit :: "char \<Rightarrow> nat" where
  "char_digit c = (let n = of_char c :: nat in if n < 58 then n - 48 else n - 87)"

fun fmt_base :: "nat \<Rightarrow> nat \<Rightarrow> string" where
  "fmt_base b n = (if n < b \<or> b < 2 then [digit_char n] else fmt_base b (n div b) @ [digit_char (n mod b)])"

declare fmt_base.simps [simp del]

definition parse_base :: "nat \<Rightarrow> string \<Rightarrow> nat" where
  "parse_base b s = foldl (\<lambda>a c. a * b + char_digit c) 0 s"

lemma char_digit_digit_char [simp]: "d < 16 \<Longrightarrow> char_digit (digit_char d) = d"
  by (simp add: char_digit_def digit_char_def Let_def)

text \<open>The digits read back as the number they were printed from, in every base used.\<close>

lemma parse_fmt_base: "2 \<le> b \<Longrightarrow> b \<le> 16 \<Longrightarrow> parse_base b (fmt_base b n) = n"
proof (induction b n rule: fmt_base.induct)
  case (1 b n)
  show ?case
  proof (cases "n < b")
    case True
    with 1 show ?thesis by (subst fmt_base.simps) (simp add: parse_base_def)
  next
    case False
    from 1(2) have "n mod b < b" by (intro mod_less_divisor) simp
    with 1(3) have digit: "n mod b < 16" by simp
    from False 1 have "parse_base b (fmt_base b (n div b)) = n div b" by simp
    with False 1 digit show ?thesis
      by (subst fmt_base.simps) (simp add: parse_base_def)
  qed
qed

text \<open>\<open>%d\<close>, \<open>%t\<close>, lower-case \<open>%x\<close> and the zero-padded upper-case \<open>%04X\<close>.\<close>

definition fmt_d :: "int \<Rightarrow> string" where
  "fmt_d i = (if i < 0 then CHR ''-'' # fmt_base 10 (nat (- i)) else fmt_base 10 (nat i))"

definition fmt_t :: "bool \<Rightarrow> string" where
  "fmt_t b = (if b then ''true'' else ''false'')"

definition fmt_x :: "nat \<Rightarrow> string" where
  "fmt_x n = fmt_base 16 n"

definition upper_hex :: "char \<Rightarrow> char" where
  "upper_hex c = (let n = of_char c :: nat in if 97 \<le> n \<and> n \<le> 102 then char_of (n - 32) else c)"

definition fmt_04X :: "nat \<Rightarrow> string" where
  "fmt_04X n = (let s = map upper_hex (fmt_base 16 n) in replicate (4 - length s) CHR ''0'' @ s)"

text \<open>A pointer below the top level of a \<open>%v\<close> argument prints as its address.\<close>

definition fmt_ptr :: "addr \<Rightarrow> string" where
  "fmt_ptr a = ''0x'' @ fmt_x (unat a)"

text \<open>\<open>%q\<close> on 7-bit text.\<close>

definition quote_char :: "char \<Rightarrow> string" where
  "quote_char c = (let n = of_char c :: nat in
     if n = 34 \<or> n = 92 then [char_of (92 :: nat), c]
     else if n = 7 then [char_of (92 :: nat), CHR ''a''] else if n = 8 then [char_of (92 :: nat), CHR ''b'']
     else if n = 9 then [char_of (92 :: nat), CHR ''t''] else if n = 10 then [char_of (92 :: nat), CHR ''n'']
     else if n = 11 then [char_of (92 :: nat), CHR ''v''] else if n = 12 then [char_of (92 :: nat), CHR ''f'']
     else if n = 13 then [char_of (92 :: nat), CHR ''r'']
     else if n < 32 \<or> n = 127 then [char_of (92 :: nat), CHR ''x'', digit_char (n div 16), digit_char (n mod 16)]
     else [c])"

definition fmt_q :: "string \<Rightarrow> string" where
  "fmt_q s = char_of (34 :: nat) # concat (map quote_char s) @ [char_of (34 :: nat)]"

section \<open>The strings and sort packages\<close>

definition strings_HasPrefix :: "string \<Rightarrow> string \<Rightarrow> bool" where
  "strings_HasPrefix s p = prefix p s"

fun strings_Join :: "string list \<Rightarrow> string \<Rightarrow> string" where
  "strings_Join [] sep = []"
| "strings_Join [x] sep = x"
| "strings_Join (x # y # ys) sep = x @ sep @ strings_Join (y # ys) sep"

definition strings_Count :: "string \<Rightarrow> char \<Rightarrow> nat" where
  "strings_Count s c = length (filter (\<lambda>x. x = c) s)"

fun strings_Split :: "string \<Rightarrow> char \<Rightarrow> string list" where
  "strings_Split [] c = [[]]"
| "strings_Split (x # xs) c =
     (if x = c then [] # strings_Split xs c
      else (case strings_Split xs c of [] \<Rightarrow> [[x]] | p # ps \<Rightarrow> (x # p) # ps))"

text \<open>\<open>sort.Strings\<close> orders by bytes, which is the lexicographic order of \<open>char\<close> here.\<close>

abbreviation sort_Strings :: "string list \<Rightarrow> string list" where
  "sort_Strings \<equiv> sort"

lemma strings_Split_no_sep: "c \<notin> set s \<Longrightarrow> strings_Split s c = [s]"
  by (induction s) auto

lemma strings_Split_one: "c \<notin> set s \<Longrightarrow> strings_Split (s @ c # t) c = s # strings_Split t c"
  by (induction s) (auto simp: strings_Split_no_sep)

section \<open>Which characters the formats produce\<close>

lemma digit_char_range: "d < 16 \<Longrightarrow> of_char (digit_char d) \<in> {48 .. 57 :: nat} \<union> {97 .. 102}"
  by (auto simp: digit_char_def)

lemma fmt_base_digits:
  "2 \<le> b \<Longrightarrow> b \<le> 16 \<Longrightarrow> c \<in> set (fmt_base b n) \<Longrightarrow> \<exists>d < b. c = digit_char d"
proof (induction b n rule: fmt_base.induct)
  case (1 b n)
  show ?case
  proof (cases "n < b")
    case True
    with 1(4) show ?thesis by (subst (asm) fmt_base.simps) auto
  next
    case False
    with 1(2) have step: "fmt_base b n = fmt_base b (n div b) @ [digit_char (n mod b)]"
      by (subst fmt_base.simps) simp
    from False 1(2) have "\<not> (n < b \<or> b < 2)" by simp
    from 1(4) step consider "c \<in> set (fmt_base b (n div b))" | "c = digit_char (n mod b)" by auto
    then show ?thesis
    proof cases
      case 1
      with "1.IH" \<open>\<not> (n < b \<or> b < 2)\<close> \<open>2 \<le> b\<close> \<open>b \<le> 16\<close> show ?thesis by blast
    next
      case 2
      moreover from \<open>2 \<le> b\<close> have "n mod b < b" by (intro mod_less_divisor) simp
      ultimately show ?thesis by blast
    qed
  qed
qed

lemma fmt_base_nonempty [simp]: "fmt_base b n \<noteq> []"
  by (subst fmt_base.simps) simp

lemma fmt_base_plain:
  assumes "2 \<le> b" and "b \<le> 16" and "c \<in> set (fmt_base b n)"
  shows "of_char c \<in> {48 .. 57 :: nat} \<union> {97 .. 102}"
  using fmt_base_digits [OF assms] assms(2) digit_char_range by (metis less_le_trans)

text \<open>A printed number holds neither a comma nor a blank nor an equals sign.\<close>

lemma fmt_d_chars [go_fmt]: "CHR '','' \<notin> set (fmt_d i)" "CHR '' '' \<notin> set (fmt_d i)"
  "CHR ''='' \<notin> set (fmt_d i)"
  using fmt_base_plain [of 10 "CHR '',''"] fmt_base_plain [of 10 "CHR '' ''"]
    fmt_base_plain [of 10 "CHR ''=''"]
  by (auto simp: fmt_d_def)

lemma fmt_t_chars [go_fmt]: "CHR '','' \<notin> set (fmt_t b)"
  by (simp add: fmt_t_def)

lemma fmt_base_inject: "2 \<le> b \<Longrightarrow> b \<le> 16 \<Longrightarrow> fmt_base b m = fmt_base b n \<longleftrightarrow> m = n"
  by (metis parse_fmt_base)

lemma fmt_d_inject [simp]: "fmt_d i = fmt_d j \<longleftrightarrow> i = j"
proof -
  have minus: "CHR ''-'' \<notin> set (fmt_base 10 n)" for n
    using fmt_base_plain [of 10 "CHR ''-''" n] by auto
  have "fmt_base 10 m \<noteq> CHR ''-'' # s" for m s
    using minus [of m] by auto
  then show ?thesis
    by (auto simp: fmt_d_def fmt_base_inject dest: sym)
qed

lemma fmt_t_inject [simp]: "fmt_t a = fmt_t b \<longleftrightarrow> a = b"
  by (simp add: fmt_t_def)

lemma fmt_ptr_inject [simp]: "fmt_ptr a = fmt_ptr b \<longleftrightarrow> a = b"
  by (simp add: fmt_ptr_def fmt_x_def fmt_base_inject word_unat_eq_iff)

text \<open>Two fields separated by a character neither holds can be told apart.\<close>

lemma append_sep_eq:
  "c \<notin> set a \<Longrightarrow> c \<notin> set b \<Longrightarrow> a @ c # x = b @ c # y \<longleftrightarrow> a = b \<and> x = y"
proof (induction a arbitrary: b)
  case Nil
  then show ?case by (cases b) auto
next
  case (Cons d a)
  then show ?case by (cases b) auto
qed

end
