(* ===== verification/Kube.thy ===== *)
theory Kube
  imports Prelude
begin

text \<open>
  The Kubernetes data the operator handles: errors, object and type metadata, and the built-in
  kinds it creates or reads, with the fields the source sets or inspects. The metadata helpers of
  apimachinery that the operator calls are translated from their vendored source.

  Every kind extends the record \<open>Object\<close> (its embedded \<open>TypeMeta\<close> and \<open>ObjectMeta\<close>), so an operation
  on \<open>metav1.Object\<close> is a function on \<open>'a Object_scheme\<close>. A nil and an empty label or annotation
  map are identified, as are a nil and an empty owner reference slice: the source reads both the
  same way and only writes to a map it has just made non-nil.
\<close>

section \<open>Errors\<close>

text \<open>
  An error of the API machinery (\<open>StatusError\<close>: reason, HTTP code, message), one made by
  \<open>errors.New\<close> or \<open>fmt.Errorf\<close>, and one made by \<open>fmt.Errorf\<close> with \<open>%w\<close>, which \<open>errors.As\<close> looks
  through.
\<close>

datatype error =
    StatusError string int string
  | ErrorString string
  | WrapError string error

fun Error :: "error \<Rightarrow> string" where
  "Error (StatusError reason code msg) = msg"
| "Error (ErrorString msg) = msg"
| "Error (WrapError msg e) = msg"

fun reasonAndCodeForError :: "error \<Rightarrow> string \<times> int" where
  "reasonAndCodeForError (StatusError reason code msg) = (reason, code)"
| "reasonAndCodeForError (ErrorString msg) = ([], 0)"
| "reasonAndCodeForError (WrapError msg e) = reasonAndCodeForError e"

definition knownReasons :: "string list" where
  "knownReasons = [''Unauthorized'', ''Forbidden'', ''NotFound'', ''AlreadyExists'', ''Conflict'',
     ''Gone'', ''Invalid'', ''ServerTimeout'', ''StoreReadError'', ''Timeout'', ''TooManyRequests'',
     ''BadRequest'', ''MethodNotAllowed'', ''NotAcceptable'', ''RequestEntityTooLarge'',
     ''UnsupportedMediaType'', ''InternalError'', ''Expired'', ''ServiceUnavailable'']"

definition IsNotFound :: "error \<Rightarrow> bool" where
  "IsNotFound e = (let (reason, code) = reasonAndCodeForError e
     in reason = ''NotFound'' \<or> reason \<notin> set knownReasons \<and> code = 404)"

definition IsAlreadyExists :: "error \<Rightarrow> bool" where
  "IsAlreadyExists e = (fst (reasonAndCodeForError e) = ''AlreadyExists'')"

text \<open>The optional error the switch statements of the handlers test.\<close>

definition IsNotFound_opt :: "error option \<Rightarrow> bool" where
  "IsNotFound_opt e = (case e of None \<Rightarrow> False | Some e \<Rightarrow> IsNotFound e)"

lemma IsNotFound_exclusive: "IsNotFound e \<Longrightarrow> \<not> IsAlreadyExists e"
  by (auto simp: IsNotFound_def IsAlreadyExists_def knownReasons_def split: prod.splits)

lemma IsNotFound_opt_simps [simp]:
  "IsNotFound_opt None = False" "IsNotFound_opt (Some e) = IsNotFound e"
  by (simp_all add: IsNotFound_opt_def)

lemma IsNotFound_ErrorString [simp]: "\<not> IsNotFound (ErrorString m)"
  by (simp add: IsNotFound_def)

lemma IsNotFound_NotFound [simp]: "IsNotFound (StatusError ''NotFound'' code m)"
  by (simp add: IsNotFound_def)

section \<open>Type and object metadata\<close>

record TypeMeta =
  tm_Kind :: string
  tm_APIVersion :: string

record OwnerReference =
  or_APIVersion :: string
  or_Kind :: string
  or_Name :: string
  or_UID :: string
  or_BlockOwnerDeletion :: "bool option"
  or_Controller :: "bool option"

record ObjectMeta =
  om_Name :: string
  om_Namespace :: string
  om_UID :: string
  om_ResourceVersion :: string
  om_Generation :: int64
  om_Labels :: go_map
  om_Annotations :: go_map
  om_OwnerReferences :: "OwnerReference list"

record Object =
  o_TypeMeta :: TypeMeta
  o_Meta :: ObjectMeta

definition empty_TypeMeta :: TypeMeta where
  "empty_TypeMeta = \<lparr>tm_Kind = [], tm_APIVersion = []\<rparr>"

definition new_ObjectMeta :: "string \<Rightarrow> string \<Rightarrow> go_map \<Rightarrow> go_map \<Rightarrow> ObjectMeta" where
  "new_ObjectMeta name ns labels annotations = \<lparr>om_Name = name, om_Namespace = ns, om_UID = [],
     om_ResourceVersion = [], om_Generation = 0, om_Labels = labels, om_Annotations = annotations,
     om_OwnerReferences = []\<rparr>"

record GroupVersionKind =
  gvk_Group :: string
  gvk_Version :: string
  gvk_Kind :: string

record GroupVersionResource =
  gvr_Group :: string
  gvr_Version :: string
  gvr_Resource :: string

definition GroupVersion_String :: "string \<Rightarrow> string \<Rightarrow> string" where
  "GroupVersion_String g v = (if g \<noteq> [] then g @ ''/'' @ v else v)"

fun ParseGroupVersion :: "string \<Rightarrow> error + (string \<times> string)" where
  "ParseGroupVersion gv =
     (if gv = [] \<or> gv = ''/'' then Inr ([], [])
      else (case strings_Split gv CHR ''/'' of
        [v] \<Rightarrow> Inr ([], v)
      | [g, v] \<Rightarrow> Inr (g, v)
      | _ \<Rightarrow> Inl (ErrorString (''unexpected GroupVersion string: '' @ gv))))"

definition FromAPIVersionAndKind :: "string \<Rightarrow> string \<Rightarrow> GroupVersionKind" where
  "FromAPIVersionAndKind apiVersion kind = (case ParseGroupVersion apiVersion of
     Inr (g, v) \<Rightarrow> \<lparr>gvk_Group = g, gvk_Version = v, gvk_Kind = kind\<rparr>
   | Inl _ \<Rightarrow> \<lparr>gvk_Group = [], gvk_Version = [], gvk_Kind = kind\<rparr>)"

definition gvk_Empty :: "GroupVersionKind \<Rightarrow> bool" where
  "gvk_Empty gvk \<longleftrightarrow> gvk_Group gvk = [] \<and> gvk_Version gvk = [] \<and> gvk_Kind gvk = []"

definition ToAPIVersionAndKind :: "GroupVersionKind \<Rightarrow> string \<times> string" where
  "ToAPIVersionAndKind gvk = (if gvk_Empty gvk then ([], [])
     else (GroupVersion_String (gvk_Group gvk) (gvk_Version gvk), gvk_Kind gvk))"

definition GetGroupVersionKind :: "'a Object_scheme \<Rightarrow> GroupVersionKind" where
  "GetGroupVersionKind obj =
     FromAPIVersionAndKind (tm_APIVersion (o_TypeMeta obj)) (tm_Kind (o_TypeMeta obj))"

definition SetGroupVersionKind :: "GroupVersionKind \<Rightarrow> 'a Object_scheme \<Rightarrow> 'a Object_scheme" where
  "SetGroupVersionKind gvk obj = (let (av, k) = ToAPIVersionAndKind gvk
     in obj\<lparr>o_TypeMeta := \<lparr>tm_Kind = k, tm_APIVersion = av\<rparr>\<rparr>)"

lemma ParseGroupVersion_String:
  assumes "CHR ''/'' \<notin> set g" and "CHR ''/'' \<notin> set v" and "v \<noteq> []"
  shows "ParseGroupVersion (GroupVersion_String g v) = Inr (g, v)"
proof (cases "g = []")
  case True
  with assms show ?thesis
    by (auto simp: GroupVersion_String_def strings_Split_no_sep simp del: strings_Split.simps)
next
  case False
  with assms have "GroupVersion_String g v = g @ CHR ''/'' # v" and "g @ CHR ''/'' # v \<noteq> ''/''"
    by (auto simp: GroupVersion_String_def append_eq_Cons_conv)
  with assms show ?thesis
    by (simp add: strings_Split_one strings_Split_no_sep del: strings_Split.simps)
qed

text \<open>Setting a kind on an object and reading it back is the identity for proper group versions.\<close>

lemma Get_SetGroupVersionKind:
  assumes "CHR ''/'' \<notin> set (gvk_Group gvk)" and "CHR ''/'' \<notin> set (gvk_Version gvk)"
    and "gvk_Version gvk \<noteq> []"
  shows "GetGroupVersionKind (SetGroupVersionKind gvk obj) = gvk"
  using assms ParseGroupVersion_String [of "gvk_Group gvk" "gvk_Version gvk"]
  by (simp add: GetGroupVersionKind_def SetGroupVersionKind_def ToAPIVersionAndKind_def
      FromAPIVersionAndKind_def gvk_Empty_def del: ParseGroupVersion.simps)

lemma SetGroupVersionKind_Meta [simp]: "o_Meta (SetGroupVersionKind gvk obj) = o_Meta obj"
  by (simp add: SetGroupVersionKind_def split: prod.splits)

lemma SetGroupVersionKind_more [simp]: "Object.more (SetGroupVersionKind gvk obj) = Object.more obj"
  by (simp add: SetGroupVersionKind_def split: prod.splits)

section \<open>Selectors, tolerations and pods\<close>

record LabelSelectorRequirement =
  lsr_Key :: string
  lsr_Operator :: string
  lsr_Values :: "string list"

record LabelSelector =
  ls_MatchLabels :: go_map
  ls_MatchExpressions :: "LabelSelectorRequirement list"

text \<open>A pointer is its address and what it points to.\<close>

datatype 'a ptr = Ptr (addr_of: addr) (deref: 'a)

record Toleration =
  tol_Key :: string
  tol_Operator :: string
  tol_Value :: string
  tol_Effect :: string
  tol_TolerationSeconds :: "int64 ptr option"

record SecurityContext =
  sc_AllowPrivilegeEscalation :: bool
  sc_CapabilitiesDrop :: "string list"
  sc_RunAsNonRoot :: bool
  sc_SeccompProfileType :: string

record VolumeMount =
  vm_Name :: string
  vm_MountPath :: string
  vm_SubPath :: string

record HTTPGetProbe =
  probe_Path :: string
  probe_Port :: int32
  probe_Scheme :: string

record Container =
  ctr_Name :: string
  ctr_Image :: string
  ctr_ImagePullPolicy :: string
  ctr_Command :: "string list"
  ctr_Args :: "string list"
  ctr_Env :: "(string \<times> string) list"
  ctr_Ports :: "int32 list"
  ctr_SecurityContext :: SecurityContext
  ctr_VolumeMounts :: "VolumeMount list"
  ctr_ReadinessProbe :: HTTPGetProbe

datatype VolumeSource = SecretVolume string int32 | ConfigMapVolume string

record Volume =
  vol_Name :: string
  vol_Source :: VolumeSource

record PodAffinityTerm =
  pat_LabelSelector :: LabelSelector
  pat_TopologyKey :: string

record PodSpec =
  pod_NodeSelector :: go_map
  pod_ServiceAccountName :: string
  pod_Containers :: "Container list"
  pod_Volumes :: "Volume list"
  pod_Tolerations :: "Toleration list"
  pod_AntiAffinity :: "PodAffinityTerm list"

record PodTemplateSpec =
  pt_Meta :: ObjectMeta
  pt_Spec :: PodSpec

section \<open>Deployments\<close>

record DeploymentCondition =
  dc_Type :: string
  dc_Status :: string
  dc_Reason :: string

record DeploymentStatus =
  ds_ObservedGeneration :: int64
  ds_Replicas :: int32
  ds_UpdatedReplicas :: int32
  ds_AvailableReplicas :: int32
  ds_Conditions :: "DeploymentCondition list"

record DeploymentSpec =
  dep_Replicas :: "int32 option"
  dep_Selector :: LabelSelector
  dep_StrategyType :: string
  dep_MaxUnavailable :: int32
  dep_MaxSurge :: int32
  dep_Template :: PodTemplateSpec

record Deployment = Object +
  dep_Spec :: DeploymentSpec
  dep_Status :: DeploymentStatus

section \<open>The other kinds\<close>

record ConfigMap = Object +
  cm_Data :: go_map

record Secret = Object +
  sec_Type :: string
  sec_Data :: "(string \<times> string) list"

record ServicePort =
  sp_Port :: int32
  sp_TargetPort :: int32

record Service = Object +
  svc_Selector :: go_map
  svc_Ports :: "ServicePort list"

record APIServiceCondition =
  asc_Type :: string
  asc_Status :: string
  asc_Message :: string

record APIService = Object +
  as_Version :: string
  as_Group :: string
  as_GroupPriorityMinimum :: int32
  as_VersionPriority :: int32
  as_ServiceNamespace :: string
  as_ServiceName :: string
  as_CABundle :: string
  as_Conditions :: "APIServiceCondition list"

record Rule =
  rule_Operations :: "string list"
  rule_APIGroups :: "string list"
  rule_APIVersions :: "string list"
  rule_Resources :: "string list"

record MutatingWebhook =
  mw_Name :: string
  mw_NamespaceSelector :: LabelSelector
  mw_MatchPolicy :: string
  mw_CABundle :: string
  mw_ServiceName :: string
  mw_ServiceNamespace :: string
  mw_ServicePath :: string
  mw_Rules :: "Rule list"
  mw_FailurePolicy :: string
  mw_TimeoutSeconds :: int32
  mw_SideEffects :: string
  mw_ReinvocationPolicy :: string
  mw_AdmissionReviewVersions :: "string list"

record MutatingWebhookConfiguration = Object +
  mwc_Webhooks :: "MutatingWebhook list"

record Validation =
  val_Expression :: string
  val_Message :: string

record ValidatingAdmissionPolicy = Object +
  vap_FailurePolicy :: string
  vap_ResourceRules :: "Rule list"
  vap_Validations :: "Validation list"

record ValidatingAdmissionPolicyBinding = Object +
  vapb_PolicyName :: string
  vapb_ValidationActions :: "string list"

record ServiceAccount = Object +
  sa_Secrets :: "string list"
  sa_ImagePullSecrets :: "string list"

record Subject =
  sub_Kind :: string
  sub_Namespace :: string
  sub_Name :: string

record RoleRef =
  rr_APIGroup :: string
  rr_Kind :: string
  rr_Name :: string

record RoleBinding = Object +
  rb_RoleRef :: RoleRef
  rb_Subjects :: "Subject list"

record PolicyRule =
  pr_APIGroups :: "string list"
  pr_Resources :: "string list"
  pr_Verbs :: "string list"

record ClusterRole = Object +
  cr_Rules :: "PolicyRule list"

record ClusterRoleBinding = Object +
  crb_RoleRef :: RoleRef
  crb_Subjects :: "Subject list"

text \<open>A namespace's labels are compared with \<open>reflect.DeepEqual\<close>, which tells nil from empty.\<close>

record Namespace =
  ns_Name :: string
  ns_Labels :: "go_map option"

section \<open>The typed objects that are sent to the API server\<close>

datatype runtime_object =
    RtConfigMap ConfigMap
  | RtService Service
  | RtDeployment Deployment
  | RtAPIService APIService
  | RtMutatingWebhookConfiguration MutatingWebhookConfiguration
  | RtValidatingAdmissionPolicy ValidatingAdmissionPolicy
  | RtValidatingAdmissionPolicyBinding ValidatingAdmissionPolicyBinding
  | RtServiceAccount ServiceAccount
  | RtRoleBinding RoleBinding
  | RtClusterRole ClusterRole
  | RtClusterRoleBinding ClusterRoleBinding

section \<open>References\<close>

record ObjectReference =
  ref_Kind :: string
  ref_APIVersion :: string
  ref_Name :: string
  ref_Namespace :: string
  ref_UID :: string
  ref_ResourceVersion :: string

text \<open>The Go type of an object, by which the client scheme knows its kind.\<close>

datatype go_type = GoConfigMap | GoService | GoDeployment | GoAPIService
  | GoMutatingWebhookConfiguration | GoValidatingAdmissionPolicy
  | GoValidatingAdmissionPolicyBinding

text \<open>
  \<open>GetReference\<close> of client-go for an object with object metadata: the kind comes from the object's
  own type metadata, and from the scheme when that is empty.
\<close>

definition GetReference ::
  "(go_type \<Rightarrow> error + GroupVersionKind list) \<Rightarrow> go_type \<Rightarrow> 'a Object_scheme \<Rightarrow> error + ObjectReference"
where
  "GetReference ObjectKinds ty obj =
     (let gvk = GetGroupVersionKind obj; meta = o_Meta obj;
          mk = (\<lambda>gvk. \<lparr>ref_Kind = gvk_Kind gvk,
             ref_APIVersion = GroupVersion_String (gvk_Group gvk) (gvk_Version gvk),
             ref_Name = om_Name meta, ref_Namespace = om_Namespace meta, ref_UID = om_UID meta,
             ref_ResourceVersion = om_ResourceVersion meta\<rparr>)
      in if gvk_Empty gvk then
           (case ObjectKinds ty of
              Inl e \<Rightarrow> Inl e
            | Inr gvks \<Rightarrow>
                (case gvks of
                   [] \<Rightarrow> Inl (ErrorString ''unexpected gvks registered for object'')
                 | g # _ \<Rightarrow> if gvk_Empty g then Inl (ErrorString ''unexpected gvks registered for object'')
                     else Inr (mk g)))
         else Inr (mk gvk))"

lemma GetReference_ResourceVersion:
  "GetReference K ty obj = Inr ref \<Longrightarrow> ref_ResourceVersion ref = om_ResourceVersion (o_Meta obj)"
  by (auto simp: GetReference_def Let_def split: if_splits sum.splits list.splits)

lemma GetReference_identity:
  "GetReference K ty obj = Inr ref \<Longrightarrow>
     ref_Name ref = om_Name (o_Meta obj) \<and> ref_Namespace ref = om_Namespace (o_Meta obj)
     \<and> ref_UID ref = om_UID (o_Meta obj)"
  by (auto simp: GetReference_def Let_def split: if_splits sum.splits list.splits)

end
