(* ===== verification/StoreIndex.thy ===== *)
theory StoreIndex
  imports Kube
begin

text \<open>
  The indexed store behind every informer of the operator (client-go tools/cache
  thread_safe_store.go): the items by key and, for every named index function, the keys of the items
  by indexed value.

  The lock makes each operation atomic, so an operation is a function on the store; metrics are left
  out. An index function that fails makes the store panic. The order in which a \<open>range\<close> loop visits a
  map or a set is open in Go; here it is the order of the association list, or ascending.
\<close>

section \<open>State\<close>

text \<open>
  Index functions take any val: a stored object, or a bare \<open>ObjectMeta\<close> as the listers pass one.
\<close>

datatype 'o interface = Stored 'o | BareMeta ObjectMeta

type_synonym 'o index_func = "'o interface \<Rightarrow> error + string list"
type_synonym index = "string \<Rightarrow> string set option"

record 'o storeIndex =
  si_indexers :: "(string \<times> 'o index_func) list"
  si_indices :: "string \<Rightarrow> index option"

record 'o threadSafeMap =
  tsm_items :: "(string \<times> 'o) list"
  tsm_index :: "'o storeIndex"
  tsm_rv :: string

definition NewThreadSafeStore :: "(string \<times> 'o index_func) list \<Rightarrow> 'o threadSafeMap" where
  "NewThreadSafeStore indexers =
     \<lparr>tsm_items = [], tsm_index = \<lparr>si_indexers = indexers, si_indices = Map.empty\<rparr>, tsm_rv = []\<rparr>"

section \<open>Indices\<close>

text \<open>Reading a nil map yields nil, and ranging over a nil set visits nothing.\<close>

definition the_index :: "'o storeIndex \<Rightarrow> string \<Rightarrow> index" where
  "the_index i name = (case si_indices i name of None \<Rightarrow> Map.empty | Some idx \<Rightarrow> idx)"

definition keys_at :: "index \<Rightarrow> string \<Rightarrow> string set" where
  "keys_at idx val = (case idx val of None \<Rightarrow> {} | Some s \<Rightarrow> s)"

definition no_index :: "string \<Rightarrow> error" where
  "no_index name = ErrorString (''Index with name '' @ name @ '' does not exist'')"

definition getKeysFromIndex :: "string \<Rightarrow> 'o interface \<Rightarrow> 'o storeIndex \<Rightarrow> error + string set" where
  "getKeysFromIndex name obj i = (case map_of (si_indexers i) name of
     None \<Rightarrow> Inl (no_index name)
   | Some indexFunc \<Rightarrow> (case indexFunc obj of
       Inl err \<Rightarrow> Inl err
     | Inr values \<Rightarrow>
         (let idx = the_index i name
          in Inr (if length values = 1 then keys_at idx (hd values)
                  else (\<Union>val \<in> set values. keys_at idx val)))))"

definition getKeysByIndex :: "string \<Rightarrow> string \<Rightarrow> 'o storeIndex \<Rightarrow> error + string set" where
  "getKeysByIndex name val i = (case map_of (si_indexers i) name of
     None \<Rightarrow> Inl (no_index name)
   | Some indexFunc \<Rightarrow> Inr (keys_at (the_index i name) val))"

definition addKeyToIndex :: "string \<Rightarrow> string \<Rightarrow> index \<Rightarrow> index" where
  "addKeyToIndex key val idx = (case idx val of
     None \<Rightarrow> idx(val \<mapsto> {key})
   | Some s \<Rightarrow> idx(val \<mapsto> insert key s))"

definition deleteKeyFromIndex :: "string \<Rightarrow> string \<Rightarrow> index \<Rightarrow> index" where
  "deleteKeyFromIndex key val idx = (case idx val of
     None \<Rightarrow> idx
   | Some s \<Rightarrow> (let s' = s - {key} in if s' = {} then idx(val := None) else idx(val \<mapsto> s')))"

text \<open>The indexed values of an object; none for a nil object.\<close>

definition index_values :: "'o index_func \<Rightarrow> 'o option \<Rightarrow> string list outcome" where
  "index_values indexFunc obj = (case obj of
     None \<Rightarrow> Returned []
   | Some o' \<Rightarrow> (case indexFunc (Stored o') of Inl err \<Rightarrow> Panicked | Inr values \<Rightarrow> Returned values))"

definition updateSingleIndex ::
  "string \<Rightarrow> 'o option \<Rightarrow> 'o option \<Rightarrow> string \<Rightarrow> 'o storeIndex \<Rightarrow> 'o storeIndex outcome" where
  "updateSingleIndex name oldObj newObj key i = (case map_of (si_indexers i) name of
     None \<Rightarrow> Panicked
   | Some indexFunc \<Rightarrow>
       outcome_bind (index_values indexFunc oldObj) (\<lambda>oldIndexValues.
       outcome_bind (index_values indexFunc newObj) (\<lambda>indexValues.
         let i = (if si_indices i name = None then i\<lparr>si_indices := (si_indices i)(name \<mapsto> Map.empty)\<rparr> else i);
             idx = the_index i name
         in if length indexValues = 1 \<and> length oldIndexValues = 1 \<and> hd indexValues = hd oldIndexValues
            then Returned i
            else Returned (i\<lparr>si_indices := (si_indices i)(name \<mapsto>
              fold (addKeyToIndex key) indexValues (fold (deleteKeyFromIndex key) oldIndexValues idx))\<rparr>))))"

fun updateIndices_loop ::
  "string list \<Rightarrow> 'o option \<Rightarrow> 'o option \<Rightarrow> string \<Rightarrow> 'o storeIndex \<Rightarrow> 'o storeIndex outcome" where
  "updateIndices_loop [] oldObj newObj key i = Returned i"
| "updateIndices_loop (name # names) oldObj newObj key i =
     outcome_bind (updateSingleIndex name oldObj newObj key i) (updateIndices_loop names oldObj newObj key)"

definition updateIndices :: "'o option \<Rightarrow> 'o option \<Rightarrow> string \<Rightarrow> 'o storeIndex \<Rightarrow> 'o storeIndex outcome" where
  "updateIndices oldObj newObj key i = updateIndices_loop (map fst (si_indexers i)) oldObj newObj key i"

section \<open>The store\<close>

definition updateLocked :: "string \<Rightarrow> 'o \<Rightarrow> 'o threadSafeMap \<Rightarrow> 'o threadSafeMap outcome" where
  "updateLocked key obj c =
     outcome_bind (updateIndices (map_of (tsm_items c) key) (Some obj) key (tsm_index c))
       (\<lambda>i. Returned (c\<lparr>tsm_items := AList.update key obj (tsm_items c), tsm_index := i\<rparr>))"

definition deleteLocked :: "string \<Rightarrow> 'o threadSafeMap \<Rightarrow> 'o threadSafeMap outcome" where
  "deleteLocked key c = (case map_of (tsm_items c) key of
     None \<Rightarrow> Returned c
   | Some obj \<Rightarrow> outcome_bind (updateIndices (Some obj) None key (tsm_index c))
       (\<lambda>i. Returned (c\<lparr>tsm_index := i, tsm_items := AList.delete key (tsm_items c)\<rparr>)))"

text \<open>\<open>rv\<close> is the resource version of the object; every object of the operator's stores has one.\<close>

definition store_Update :: "('o \<Rightarrow> string) \<Rightarrow> string \<Rightarrow> 'o \<Rightarrow> 'o threadSafeMap \<Rightarrow> 'o threadSafeMap outcome" where
  "store_Update rv key obj c = outcome_bind (updateLocked key obj c) (\<lambda>c. Returned (c\<lparr>tsm_rv := rv obj\<rparr>))"

definition store_Add :: "('o \<Rightarrow> string) \<Rightarrow> string \<Rightarrow> 'o \<Rightarrow> 'o threadSafeMap \<Rightarrow> 'o threadSafeMap outcome" where
  "store_Add = store_Update"

definition store_DeleteWithObject ::
  "('o \<Rightarrow> string) \<Rightarrow> string \<Rightarrow> 'o option \<Rightarrow> 'o threadSafeMap \<Rightarrow> 'o threadSafeMap outcome" where
  "store_DeleteWithObject rv key obj c = outcome_bind (deleteLocked key c) (\<lambda>c. Returned (case obj of
     None \<Rightarrow> c | Some o' \<Rightarrow> c\<lparr>tsm_rv := rv o'\<rparr>))"

definition store_Get :: "string \<Rightarrow> 'o threadSafeMap \<Rightarrow> 'o option" where
  "store_Get key c = map_of (tsm_items c) key"

definition store_List :: "'o threadSafeMap \<Rightarrow> 'o list" where
  "store_List c = map snd (tsm_items c)"

definition store_ListKeys :: "'o threadSafeMap \<Rightarrow> string list" where
  "store_ListKeys c = map fst (tsm_items c)"

fun rebuild :: "(string \<times> 'o) list \<Rightarrow> 'o storeIndex \<Rightarrow> 'o storeIndex outcome" where
  "rebuild [] i = Returned i"
| "rebuild ((key, item) # items) i = outcome_bind (updateIndices None (Some item) key i) (rebuild items)"

definition store_Replace :: "(string \<times> 'o) list \<Rightarrow> string \<Rightarrow> 'o threadSafeMap \<Rightarrow> 'o threadSafeMap outcome" where
  "store_Replace items resourceVersion c =
     outcome_bind (rebuild items ((tsm_index c)\<lparr>si_indices := Map.empty\<rparr>))
       (\<lambda>i. Returned (c\<lparr>tsm_items := items, tsm_rv := resourceVersion, tsm_index := i\<rparr>))"

text \<open>A key of the index without an item would be appended as nil.\<close>

definition store_Index :: "string \<Rightarrow> 'o interface \<Rightarrow> 'o threadSafeMap \<Rightarrow> error + 'o option list" where
  "store_Index name obj c = (case getKeysFromIndex name obj (tsm_index c) of
     Inl err \<Rightarrow> Inl err
   | Inr keys \<Rightarrow> Inr (map (map_of (tsm_items c)) (sorted_list_of_set keys)))"

definition store_ByIndex :: "string \<Rightarrow> string \<Rightarrow> 'o threadSafeMap \<Rightarrow> error + 'o option list" where
  "store_ByIndex name val c = (case getKeysByIndex name val (tsm_index c) of
     Inl err \<Rightarrow> Inl err
   | Inr keys \<Rightarrow> Inr (map (map_of (tsm_items c)) (sorted_list_of_set keys)))"

section \<open>The invariant: every index agrees with the items\<close>

text \<open>The values of an object under an index function that does not fail.\<close>

definition values_of :: "'o index_func \<Rightarrow> 'o \<Rightarrow> string set" where
  "values_of f o' = (case f (Stored o') of Inl err \<Rightarrow> {} | Inr values \<Rightarrow> set values)"

definition index_agrees :: "'o index_func \<Rightarrow> (string \<Rightarrow> 'o option) \<Rightarrow> index \<Rightarrow> bool" where
  "index_agrees f items idx \<longleftrightarrow>
     (\<forall>val. idx val \<noteq> Some {})
     \<and> (\<forall>val key. key \<in> keys_at idx val \<longleftrightarrow> (\<exists>o'. items key = Some o' \<and> val \<in> values_of f o'))"

text \<open>No index function fails: the condition under which the store does not panic.\<close>

definition index_func_total :: "'o index_func \<Rightarrow> bool" where
  "index_func_total f \<longleftrightarrow> (\<forall>o'. \<exists>values. f (Stored o') = Inr values)"

definition index_inv :: "(string \<Rightarrow> 'o option) \<Rightarrow> 'o storeIndex \<Rightarrow> bool" where
  "index_inv items i \<longleftrightarrow> distinct (map fst (si_indexers i))
     \<and> (\<forall>(name, f) \<in> set (si_indexers i). index_func_total f \<and> index_agrees f items (the_index i name))"

definition store_inv :: "'o threadSafeMap \<Rightarrow> bool" where
  "store_inv c \<longleftrightarrow> distinct (map fst (tsm_items c)) \<and> index_inv (map_of (tsm_items c)) (tsm_index c)"

lemma keys_at_simps [simp]: "keys_at Map.empty val = {}"
  "keys_at (idx(v \<mapsto> s)) val = (if val = v then s else keys_at idx val)"
  "keys_at (idx(v := None)) val = (if val = v then {} else keys_at idx val)"
  by (simp_all add: keys_at_def)

lemma keys_addKeyToIndex:
  "keys_at (addKeyToIndex key v idx) val = keys_at idx val \<union> (if val = v then {key} else {})"
  by (auto simp: addKeyToIndex_def keys_at_def split: option.split)

lemma keys_deleteKeyFromIndex:
  "keys_at (deleteKeyFromIndex key v idx) val = keys_at idx val - (if val = v then {key} else {})"
  by (auto simp: deleteKeyFromIndex_def keys_at_def Let_def split: option.split)

lemma keys_fold_add: "keys_at (fold (addKeyToIndex key) vs idx) val =
    keys_at idx val \<union> (if val \<in> set vs then {key} else {})"
  by (induction vs arbitrary: idx) (auto simp: keys_addKeyToIndex)

lemma keys_fold_delete: "keys_at (fold (deleteKeyFromIndex key) vs idx) val =
    keys_at idx val - (if val \<in> set vs then {key} else {})"
  by (induction vs arbitrary: idx) (auto simp: keys_deleteKeyFromIndex)

lemma fold_add_nonempty: "(\<forall>val. idx val \<noteq> Some {}) \<Longrightarrow> fold (addKeyToIndex key) vs idx val \<noteq> Some {}"
  by (induction vs arbitrary: idx) (auto simp: addKeyToIndex_def split: option.splits)

lemma fold_delete_nonempty:
  "(\<forall>val. idx val \<noteq> Some {}) \<Longrightarrow> fold (deleteKeyFromIndex key) vs idx val \<noteq> Some {}"
  by (induction vs arbitrary: idx) (auto simp: deleteKeyFromIndex_def Let_def split: option.splits)

lemma index_agrees_empty: "index_agrees f Map.empty Map.empty"
  by (simp add: index_agrees_def)

lemma the_index_fresh [simp]:
  "the_index (i\<lparr>si_indices := (si_indices i)(name \<mapsto> idx)\<rparr>) n = (if n = name then idx else the_index i n)"
  by (simp add: the_index_def)

lemma the_index_made:
  "the_index (if si_indices i name = None then i\<lparr>si_indices := (si_indices i)(name \<mapsto> Map.empty)\<rparr> else i) n
    = the_index i n"
  by (simp add: the_index_def)

lemma index_values_total:
  assumes "index_func_total f"
  obtains vs where "index_values f obj = Returned vs"
    and "set vs = (case obj of None \<Rightarrow> {} | Some o' \<Rightarrow> values_of f o')"
proof (cases obj)
  case (Some o')
  with assms obtain vs where "f (Stored o') = Inr vs" by (auto simp: index_func_total_def)
  with Some show thesis by (intro that [of vs]) (simp_all add: index_values_def values_of_def)
qed (simp add: that index_values_def)

text \<open>One index, for a key whose object changes from \<open>items key\<close> to \<open>newObj\<close>.\<close>

lemma updateSingleIndex_agrees:
  assumes f: "map_of (si_indexers i) name = Some f" "index_func_total f"
    and agrees: "index_agrees f items (the_index i name)"
  obtains i' where "updateSingleIndex name (items key) newObj key i = Returned i'"
    and "si_indexers i' = si_indexers i"
    and "index_agrees f (items(key := newObj)) (the_index i' name)"
    and "\<And>n. n \<noteq> name \<Longrightarrow> the_index i' n = the_index i n"
proof -
  obtain olds where olds: "index_values f (items key) = Returned olds"
      "set olds = (case items key of None \<Rightarrow> {} | Some o' \<Rightarrow> values_of f o')"
    using index_values_total [OF f(2)] by metis
  obtain news where news: "index_values f newObj = Returned news"
      "set news = (case newObj of None \<Rightarrow> {} | Some o' \<Rightarrow> values_of f o')"
    using index_values_total [OF f(2)] by metis
  define i1 where "i1 = (if si_indices i name = None then i\<lparr>si_indices := (si_indices i)(name \<mapsto> Map.empty)\<rparr> else i)"
  have i1: "si_indexers i1 = si_indexers i" "the_index i1 n = the_index i n" for n
    by (simp_all add: i1_def the_index_made)
  show thesis
  proof (cases "length news = 1 \<and> length olds = 1 \<and> hd news = hd olds")
    case True
    then have "set news = set olds" by (cases news; cases olds) auto
    then have "index_agrees f (items(key := newObj)) (the_index i name)"
      using agrees olds(2) news(2) by (auto simp: index_agrees_def split: option.splits)
    then show thesis
      using True f olds(1) news(1) i1
      by (intro that [of i1]) (simp_all add: updateSingleIndex_def Let_def flip: i1_def)
  next
    case False
    define idx where "idx = fold (addKeyToIndex key) news (fold (deleteKeyFromIndex key) olds (the_index i name))"
    have "keys_at idx val = keys_at (the_index i name) val
        - (if val \<in> set olds then {key} else {}) \<union> (if val \<in> set news then {key} else {})" for val
      by (simp add: idx_def keys_fold_add keys_fold_delete)
    moreover have "idx val \<noteq> Some {}" for val
      using agrees unfolding idx_def index_agrees_def by (intro fold_add_nonempty allI fold_delete_nonempty) blast
    ultimately have "index_agrees f (items(key := newObj)) idx"
      using agrees olds(2) news(2) by (auto simp: index_agrees_def split: option.splits if_splits)
    moreover have "updateSingleIndex name (items key) newObj key i
        = Returned (i1\<lparr>si_indices := (si_indices i1)(name \<mapsto> idx)\<rparr>)"
      by (simp add: updateSingleIndex_def f olds(1) news(1) Let_def idx_def i1(2) flip: i1_def) (use False in auto)
    ultimately show thesis
      using i1 by (intro that [of "i1\<lparr>si_indices := (si_indices i1)(name \<mapsto> idx)\<rparr>"]) simp_all
  qed
qed

lemma updateIndices_loop_agrees:
  assumes "distinct names" and "set names \<subseteq> fst ` set (si_indexers i)" and "distinct (map fst (si_indexers i))"
    and "\<And>name f. (name, f) \<in> set (si_indexers i) \<Longrightarrow> index_func_total f
      \<and> index_agrees f (if name \<in> set names then items else items(key := newObj)) (the_index i name)"
  shows "\<exists>i'. updateIndices_loop names (items key) newObj key i = Returned i'
    \<and> si_indexers i' = si_indexers i \<and> index_inv (items(key := newObj)) i'"
  using assms
proof (induction names arbitrary: i)
  case Nil
  then show ?case by (auto simp: index_inv_def)
next
  case (Cons name names)
  then obtain f where f: "(name, f) \<in> set (si_indexers i)" by auto
  then have lookup: "map_of (si_indexers i) name = Some f" using Cons.prems(3) by simp
  have "index_func_total f" "index_agrees f items (the_index i name)"
    using Cons.prems(4) [OF f] by simp_all
  then obtain i1 where i1: "updateSingleIndex name (items key) newObj key i = Returned i1"
      "si_indexers i1 = si_indexers i" "index_agrees f (items(key := newObj)) (the_index i1 name)"
      "\<And>n. n \<noteq> name \<Longrightarrow> the_index i1 n = the_index i n"
    using updateSingleIndex_agrees [OF lookup] by metis
  have "index_func_total g \<and> index_agrees g (if n \<in> set names then items else items(key := newObj)) (the_index i1 n)"
    if "(n, g) \<in> set (si_indexers i1)" for n g
  proof (cases "n = name")
    case True
    with that lookup Cons.prems(3) have "g = f" by (simp add: i1(2))
    then show ?thesis using True i1(3) Cons.prems(1) Cons.prems(4) [OF f] by simp
  next
    case False
    then show ?thesis using Cons.prems(4) [of n g] that i1(2,4) by simp
  qed
  then show ?case using Cons.IH [of i1] Cons.prems i1(1,2) by auto
qed

lemma updateIndices_inv:
  assumes "index_inv items i"
  obtains i' where "updateIndices (items key) newObj key i = Returned i'"
    and "si_indexers i' = si_indexers i" and "index_inv (items(key := newObj)) i'"
proof -
  have "\<exists>i'. updateIndices_loop (map fst (si_indexers i)) (items key) newObj key i = Returned i'
      \<and> si_indexers i' = si_indexers i \<and> index_inv (items(key := newObj)) i'"
    using assms by (intro updateIndices_loop_agrees) (auto simp: index_inv_def rev_image_eqI split_beta)
  then show thesis using that by (auto simp: updateIndices_def)
qed

section \<open>What the operations do\<close>

text \<open>The contents of the store as a finite map.\<close>

abbreviation items_of :: "'o threadSafeMap \<Rightarrow> string \<Rightarrow> 'o option" where
  "items_of c \<equiv> map_of (tsm_items c)"

abbreviation indexers_of :: "'o threadSafeMap \<Rightarrow> (string \<times> 'o index_func) list" where
  "indexers_of c \<equiv> si_indexers (tsm_index c)"

lemma NewThreadSafeStore_inv:
  assumes "distinct (map fst indexers)" and "\<forall>(name, f) \<in> set indexers. index_func_total f"
  shows "store_inv (NewThreadSafeStore indexers)"
  using assms by (auto simp: store_inv_def index_inv_def NewThreadSafeStore_def the_index_def index_agrees_empty)

lemma store_Update_inv:
  assumes "store_inv c"
  obtains c' where "store_Update rv key obj c = Returned c'" and "store_inv c'"
    and "items_of c' = (items_of c)(key \<mapsto> obj)" and "indexers_of c' = indexers_of c" and "tsm_rv c' = rv obj"
proof -
  have inv: "index_inv (items_of c) (tsm_index c)" and dist: "distinct (map fst (tsm_items c))"
    using assms by (simp_all add: store_inv_def)
  obtain i where i: "updateIndices (items_of c key) (Some obj) key (tsm_index c) = Returned i"
      "si_indexers i = indexers_of c" "index_inv ((items_of c)(key := Some obj)) i"
    using updateIndices_inv [OF inv, of key "Some obj"] by metis
  let ?c = "c\<lparr>tsm_items := AList.update key obj (tsm_items c), tsm_index := i, tsm_rv := rv obj\<rparr>"
  have "store_Update rv key obj c = Returned ?c"
    using i(1) by (simp add: store_Update_def updateLocked_def del: outcome_bind_Returned)
  moreover have "store_inv ?c"
    using i(3) dist by (simp add: store_inv_def update_conv' distinct_update)
  ultimately show thesis using i(2) by (intro that [of ?c]) (simp_all add: update_conv')
qed

lemma store_Delete_inv:
  assumes "store_inv c"
  obtains c' where "store_DeleteWithObject rv key obj c = Returned c'" and "store_inv c'"
    and "items_of c' = (items_of c)(key := None)" and "indexers_of c' = indexers_of c"
proof -
  have inv: "index_inv (items_of c) (tsm_index c)" and dist: "distinct (map fst (tsm_items c))"
    using assms by (simp_all add: store_inv_def)
  have "\<exists>c'. deleteLocked key c = Returned c' \<and> store_inv c' \<and> items_of c' = (items_of c)(key := None)
      \<and> indexers_of c' = indexers_of c"
  proof (cases "items_of c key")
    case None
    then show ?thesis using assms by (auto simp: deleteLocked_def)
  next
    case (Some x)
    obtain i where i: "updateIndices (items_of c key) None key (tsm_index c) = Returned i"
        "si_indexers i = indexers_of c" "index_inv ((items_of c)(key := None)) i"
      using updateIndices_inv [OF inv, of key None] by metis
    let ?c = "c\<lparr>tsm_index := i, tsm_items := AList.delete key (tsm_items c)\<rparr>"
    have "deleteLocked key c = Returned ?c"
      using i(1) Some by (simp add: deleteLocked_def del: outcome_bind_Returned)
    moreover have "store_inv ?c"
      using i(3) dist by (simp add: store_inv_def delete_conv' distinct_delete)
    ultimately show ?thesis using i(2) by (intro exI [of _ ?c]) (simp add: delete_conv')
  qed
  then obtain c' where c': "deleteLocked key c = Returned c'" "store_inv c'"
      "items_of c' = (items_of c)(key := None)" "indexers_of c' = indexers_of c" by metis
  have "store_inv (c'\<lparr>tsm_rv := r\<rparr>)" for r using c'(2) by (simp add: store_inv_def)
  with c' show thesis
    by (intro that [of "case obj of None \<Rightarrow> c' | Some o' \<Rightarrow> c'\<lparr>tsm_rv := rv o'\<rparr>"])
      (simp_all add: store_DeleteWithObject_def split: option.split)
qed

lemma rebuild_inv:
  assumes "index_inv items0 i" and "distinct (map fst items)"
    and "\<And>key. key \<in> fst ` set items \<Longrightarrow> items0 key = None"
  shows "\<exists>i'. rebuild items i = Returned i' \<and> si_indexers i' = si_indexers i
    \<and> index_inv (items0 ++ map_of items) i'"
  using assms
proof (induction items arbitrary: i items0)
  case (Cons x items)
  obtain key item where x: "x = (key, item)" by (cases x)
  have "items0 key = None" using Cons.prems(3) by (simp add: x)
  then obtain i1 where i1: "updateIndices None (Some item) key i = Returned i1"
      "si_indexers i1 = si_indexers i" "index_inv (items0(key := Some item)) i1"
    using updateIndices_inv [OF Cons.prems(1), of key "Some item"] by metis
  have "\<And>k. k \<in> fst ` set items \<Longrightarrow> (items0(key := Some item)) k = None"
    and "distinct (map fst items)"
    using Cons.prems(2,3) by (auto simp: x)
  with Cons.IH [OF i1(3)]
  obtain i2 where "rebuild items i1 = Returned i2" "si_indexers i2 = si_indexers i1"
      "index_inv (items0(key := Some item) ++ map_of items) i2"
    by metis
  moreover have "items0(key := Some item) ++ map_of items = items0 ++ map_of (x # items)"
    using Cons.prems(2) by (simp add: x map_add_upd_left dom_map_of_conv_image_fst)
  ultimately have "rebuild (x # items) i = Returned i2 \<and> si_indexers i2 = si_indexers i
      \<and> index_inv (items0 ++ map_of (x # items)) i2"
    using i1(1,2) by (simp add: x del: map_of.simps)
  then show ?case by blast
qed (simp add: map_add_def)

lemma store_Replace_inv:
  assumes "store_inv c" and "distinct (map fst items)"
  obtains c' where "store_Replace items rv c = Returned c'" and "store_inv c'"
    and "tsm_items c' = items" and "indexers_of c' = indexers_of c" and "tsm_rv c' = rv"
proof -
  have "index_inv Map.empty ((tsm_index c)\<lparr>si_indices := Map.empty\<rparr>)"
    using assms(1) by (auto simp: store_inv_def index_inv_def the_index_def index_agrees_empty)
  from rebuild_inv [OF this assms(2)] obtain i where
    "rebuild items ((tsm_index c)\<lparr>si_indices := Map.empty\<rparr>) = Returned i"
    "si_indexers i = indexers_of c" "index_inv (map_of items) i" by auto
  then show thesis
    using assms(2)
    by (intro that [of "c\<lparr>tsm_items := items, tsm_rv := rv, tsm_index := i\<rparr>"])
      (simp_all add: store_Replace_def store_inv_def)
qed

text \<open>The objects found through an index are those of the items with one of the values.\<close>

lemma keys_of_index:
  assumes "store_inv c" and "map_of (indexers_of c) name = Some f"
  shows "keys_at (the_index (tsm_index c) name) val = {key. \<exists>o'. items_of c key = Some o' \<and> val \<in> values_of f o'}"
  using assms by (force simp: store_inv_def index_inv_def index_agrees_def dest: map_of_SomeD)

lemma store_Index_items:
  assumes inv: "store_inv c" and name: "map_of (indexers_of c) name = Some f" and "f obj = Inr vals"
  defines "found \<equiv> {key. \<exists>o'. items_of c key = Some o' \<and> values_of f o' \<inter> set vals \<noteq> {}}"
  shows "store_Index name obj c = Inr (map (items_of c) (sorted_list_of_set found))" and "finite found"
proof -
  have "(if length vals = 1 then keys_at idx (hd vals) else (\<Union>val \<in> set vals. keys_at idx val))
      = (\<Union>val \<in> set vals. keys_at idx val)" for idx
    by (cases vals) auto
  moreover have "(\<Union>val \<in> set vals. keys_at (the_index (tsm_index c) name) val) = found"
    by (auto simp: keys_of_index [OF inv name] found_def)
  ultimately show "store_Index name obj c = Inr (map (items_of c) (sorted_list_of_set found))"
    using assms by (simp add: store_Index_def getKeysFromIndex_def Let_def)
  have "found \<subseteq> dom (items_of c)" by (auto simp: found_def)
  then show "finite found" using finite_dom_map_of finite_subset by metis
qed

section \<open>Any sequence of changes\<close>

text \<open>
  A state that is changed by events and read by lookups, and what each event does to the lookups: a
  sequence of events does to them what the effects do one after the other.
\<close>

locale object_store =
  fixes inv :: "'s \<Rightarrow> bool" and lookup :: "'s \<Rightarrow> 'k \<Rightarrow> 'o option"
    and change :: "'e \<Rightarrow> 's \<Rightarrow> 's outcome" and effect :: "'e \<Rightarrow> ('k \<Rightarrow> 'o option) \<Rightarrow> 'k \<Rightarrow> 'o option"
    and admissible :: "'e \<Rightarrow> bool"
  assumes step: "inv s \<Longrightarrow> admissible e
    \<Longrightarrow> \<exists>s'. change e s = Returned s' \<and> inv s' \<and> lookup s' = effect e (lookup s)"
begin

fun changes :: "'e list \<Rightarrow> 's \<Rightarrow> 's outcome" where
  "changes [] s = Returned s"
| "changes (e # es) s = outcome_bind (change e s) (changes es)"

lemma changes_lookup:
  "inv s \<Longrightarrow> list_all admissible es
   \<Longrightarrow> \<exists>s'. changes es s = Returned s' \<and> inv s' \<and> lookup s' = fold effect es (lookup s)"
proof (induction es arbitrary: s)
  case (Cons e es)
  then obtain s1 where "change e s = Returned s1" "inv s1" "lookup s1 = effect e (lookup s)"
    using step [of s e] by auto
  then show ?case using Cons.IH [of s1] Cons.prems by auto
qed simp

end

datatype 'o store_op = StoreUpdate string 'o | StoreDelete string "'o option" | StoreReplace "(string \<times> 'o) list" string

fun apply_store_op :: "('o \<Rightarrow> string) \<Rightarrow> 'o store_op \<Rightarrow> 'o threadSafeMap \<Rightarrow> 'o threadSafeMap outcome" where
  "apply_store_op rv (StoreUpdate key obj) c = store_Update rv key obj c"
| "apply_store_op rv (StoreDelete key obj) c = store_DeleteWithObject rv key obj c"
| "apply_store_op rv (StoreReplace items resourceVersion) c = store_Replace items resourceVersion c"

fun store_effect :: "'o store_op \<Rightarrow> (string \<Rightarrow> 'o option) \<Rightarrow> string \<Rightarrow> 'o option" where
  "store_effect (StoreUpdate key obj) m = m(key \<mapsto> obj)"
| "store_effect (StoreDelete key obj) m = m(key := None)"
| "store_effect (StoreReplace items resourceVersion) m = map_of items"

text \<open>The items of a replacement are a Go map, with distinct keys.\<close>

fun store_op_ok :: "'o store_op \<Rightarrow> bool" where
  "store_op_ok (StoreReplace items resourceVersion) = distinct (map fst items)"
| "store_op_ok op = True"

interpretation thread_safe_store: object_store "\<lambda>c. store_inv c \<and> indexers_of c = indexers" "\<lambda>c. items_of c"
  "apply_store_op rv" store_effect store_op_ok for rv :: "'o \<Rightarrow> string" and indexers
proof
  fix c :: "'o threadSafeMap" and op :: "'o store_op"
  assume "store_inv c \<and> indexers_of c = indexers" and ok: "store_op_ok op"
  then have inv: "store_inv c" "indexers_of c = indexers" by simp_all
  show "\<exists>c'. apply_store_op rv op c = Returned c' \<and> (store_inv c' \<and> indexers_of c' = indexers)
      \<and> items_of c' = store_effect op (items_of c)"
  proof (cases op)
    case (StoreUpdate key obj)
    then show ?thesis using store_Update_inv [OF inv(1), of rv key obj] inv(2) by auto
  next
    case (StoreDelete key obj)
    then show ?thesis using store_Delete_inv [OF inv(1), of rv key obj] inv(2) by auto
  next
    case (StoreReplace items resourceVersion)
    then show ?thesis using store_Replace_inv [OF inv(1), of items resourceVersion] ok inv(2) by auto
  qed
qed

fun apply_store_ops :: "('o \<Rightarrow> string) \<Rightarrow> 'o store_op list \<Rightarrow> 'o threadSafeMap \<Rightarrow> 'o threadSafeMap outcome" where
  "apply_store_ops rv [] c = Returned c"
| "apply_store_ops rv (op # ops) c = outcome_bind (apply_store_op rv op c) (apply_store_ops rv ops)"

lemma apply_store_ops_inv:
  assumes "distinct (map fst indexers)" and "\<forall>(name, f) \<in> set indexers. index_func_total f"
    and "list_all store_op_ok ops"
  shows "\<exists>c. apply_store_ops rv ops (NewThreadSafeStore indexers) = Returned c \<and> store_inv c
    \<and> indexers_of c = indexers \<and> items_of c = fold store_effect ops Map.empty"
proof -
  have "apply_store_ops rv ops c = thread_safe_store.changes rv ops c" for c
    by (induction ops arbitrary: c) (auto intro!: arg_cong2 [where f = outcome_bind])
  moreover have "indexers_of (NewThreadSafeStore indexers) = indexers" "items_of (NewThreadSafeStore indexers) = Map.empty"
    by (simp_all add: NewThreadSafeStore_def)
  ultimately show ?thesis
    using thread_safe_store.changes_lookup [of "NewThreadSafeStore indexers" indexers ops rv]
      NewThreadSafeStore_inv [OF assms(1,2)] assms(3) by auto
qed

end
