(* ===== verification/WorkQueue.thy ===== *)
theory WorkQueue
  imports Prelude
begin

text \<open>
  The rate-limiting work queue of client-go (vendored: util/workqueue queue.go, delaying_queue.go,
  rate_limiting_queue.go), translated from its source, and the contract a controller relies on, the
  locale \<open>work_queue\<close>. Metrics and the condition variable are left out: the operations are atomic
  under the queue's lock, and a blocked Get is one that has not happened yet.

  Delays are not measured: an item that was added with a delay waits in \<open>wq_waiting\<close> until the
  waiting loop fires it.
\<close>

record 'a wq =
  wq_queue :: "'a list"
  wq_dirty :: "'a set"
  wq_processing :: "'a set"
  wq_waiting :: "'a set"
  wq_requeues :: "'a \<Rightarrow> nat"
  wq_shuttingDown :: bool

definition wq_new :: "'a wq" where
  "wq_new = \<lparr>wq_queue = [], wq_dirty = {}, wq_processing = {}, wq_waiting = {},
     wq_requeues = (\<lambda>_. 0), wq_shuttingDown = False\<rparr>"

section \<open>Operations\<close>

definition wq_Add :: "'a \<Rightarrow> 'a wq \<Rightarrow> 'a wq" where
  "wq_Add item q =
     (if wq_shuttingDown q then q
      else if item \<in> wq_dirty q then q
      else let q = q\<lparr>wq_dirty := insert item (wq_dirty q)\<rparr>
        in if item \<in> wq_processing q then q else q\<lparr>wq_queue := wq_queue q @ [item]\<rparr>)"

text \<open>\<open>None\<close>: the call blocks. The item is \<open>None\<close> when the queue is shut down and empty.\<close>

definition wq_Get :: "'a wq \<Rightarrow> ('a option \<times> 'a wq) option" where
  "wq_Get q = (case wq_queue q of
     [] \<Rightarrow> if wq_shuttingDown q then Some (None, q) else None
   | item # rest \<Rightarrow> Some (Some item, q\<lparr>wq_queue := rest,
       wq_processing := insert item (wq_processing q), wq_dirty := wq_dirty q - {item}\<rparr>))"

definition wq_Done :: "'a \<Rightarrow> 'a wq \<Rightarrow> 'a wq" where
  "wq_Done item q =
     (let q = q\<lparr>wq_processing := wq_processing q - {item}\<rparr>
      in if item \<in> wq_dirty q then q\<lparr>wq_queue := wq_queue q @ [item]\<rparr> else q)"

definition wq_ShutDown :: "'a wq \<Rightarrow> 'a wq" where
  "wq_ShutDown q = q\<lparr>wq_shuttingDown := True\<rparr>"

definition wq_AddAfter :: "'a \<Rightarrow> int \<Rightarrow> 'a wq \<Rightarrow> 'a wq" where
  "wq_AddAfter item duration q =
     (if wq_shuttingDown q then q
      else if duration \<le> 0 then wq_Add item q
      else q\<lparr>wq_waiting := insert item (wq_waiting q)\<rparr>)"

text \<open>
  The default controller rate limiter: the larger of an exponential delay, which counts the failures
  of the item, and the delay of an overall token bucket, an argument here.
\<close>

definition base_delay :: int where "base_delay = 5000000"
definition max_delay :: int where "max_delay = 1000000000000"

definition exponential_When :: "nat \<Rightarrow> int" where
  "exponential_When failures = min max_delay (base_delay * 2 ^ failures)"

definition limiter_When :: "int \<Rightarrow> nat \<Rightarrow> int" where
  "limiter_When bucket failures = max (exponential_When failures) bucket"

definition wq_AddRateLimited :: "int \<Rightarrow> 'a \<Rightarrow> 'a wq \<Rightarrow> 'a wq" where
  "wq_AddRateLimited bucket item q =
     (let n = wq_requeues q item; q = q\<lparr>wq_requeues := (wq_requeues q)(item := n + 1)\<rparr>
      in wq_AddAfter item (limiter_When bucket n) q)"

definition wq_Forget :: "'a \<Rightarrow> 'a wq \<Rightarrow> 'a wq" where
  "wq_Forget item q = q\<lparr>wq_requeues := (wq_requeues q)(item := 0)\<rparr>"

text \<open>One round of the waiting loop for an item whose time has come.\<close>

definition wq_fire :: "'a \<Rightarrow> 'a wq \<Rightarrow> 'a wq" where
  "wq_fire item q = (if wq_shuttingDown q then q
     else wq_Add item (q\<lparr>wq_waiting := wq_waiting q - {item}\<rparr>))"

section \<open>Invariant\<close>

text \<open>Every queued item is dirty and not in processing; a dirty item is queued or in processing.\<close>

definition wq_inv :: "'a wq \<Rightarrow> bool" where
  "wq_inv q \<longleftrightarrow> distinct (wq_queue q) \<and> set (wq_queue q) \<inter> wq_processing q = {}
     \<and> set (wq_queue q) \<subseteq> wq_dirty q \<and> wq_dirty q \<subseteq> set (wq_queue q) \<union> wq_processing q"

section \<open>What a controller relies on\<close>

text \<open>
  The operations as a client sees them. \<open>wants\<close>: the items whose processing has been requested and
  has not begun; \<open>busy\<close>: the items handed out and not yet done.
\<close>

locale work_queue =
  fixes add :: "'a \<Rightarrow> 'q \<Rightarrow> 'q" and get :: "'q \<Rightarrow> ('a option \<times> 'q) option" and finish :: "'a \<Rightarrow> 'q \<Rightarrow> 'q"
    and inv :: "'q \<Rightarrow> bool" and ready :: "'q \<Rightarrow> 'a list" and wants :: "'q \<Rightarrow> 'a set"
    and busy :: "'q \<Rightarrow> 'a set" and closed :: "'q \<Rightarrow> bool"
  assumes inv_ready: "inv q \<Longrightarrow> distinct (ready q) \<and> set (ready q) = wants q - busy q"
    and add_inv: "inv q \<Longrightarrow> inv (add x q)"
    and add_wants: "inv q \<Longrightarrow> wants (add x q) = (if closed q then wants q else insert x (wants q))"
    and add_busy: "busy (add x q) = busy q" and add_closed: "closed (add x q) = closed q"
    and get_inv: "inv q \<Longrightarrow> get q = Some (r, q') \<Longrightarrow> inv q'"
    and get_head: "inv q \<Longrightarrow> ready q = x # xs \<Longrightarrow> \<exists>q'. get q = Some (Some x, q')
          \<and> ready q' = xs \<and> wants q' = wants q - {x} \<and> busy q' = insert x (busy q) \<and> closed q' = closed q"
    and get_empty: "inv q \<Longrightarrow> ready q = [] \<Longrightarrow> get q = (if closed q then Some (None, q) else None)"
    and finish_inv: "inv q \<Longrightarrow> x \<in> busy q \<Longrightarrow> inv (finish x q)"
    and finish_wants: "wants (finish x q) = wants q" and finish_busy: "busy (finish x q) = busy q - {x}"
    and finish_closed: "closed (finish x q) = closed q"
begin

text \<open>An item is never handed out twice at the same time.\<close>

lemma get_fresh:
  assumes "inv q" and "get q = Some (Some x, q')"
  shows "x \<notin> busy q" and "x \<in> wants q" and "x \<in> busy q'"
proof -
  show "x \<notin> busy q" "x \<in> wants q" "x \<in> busy q'"
    using assms get_empty [OF assms(1)] get_head [OF assms(1)] inv_ready [OF assms(1)]
    by (cases "ready q"; fastforce split: if_splits)+
qed

text \<open>A request made while the item is being processed is served after it is done.\<close>

lemma add_while_busy:
  assumes "inv q" and "\<not> closed q" and "x \<in> busy q"
  shows "x \<in> set (ready (finish x (add x q)))"
proof -
  have "inv (add x q)" using add_inv assms(1) .
  then have "inv (finish x (add x q))" using assms(3) add_busy finish_inv by simp
  from inv_ready [OF this] show ?thesis
    using assms by (simp add: add_wants finish_wants finish_busy)
qed

text \<open>A request made while the item is idle is ready at once.\<close>

lemma add_while_idle:
  "inv q \<Longrightarrow> \<not> closed q \<Longrightarrow> x \<notin> busy q \<Longrightarrow> x \<in> set (ready (add x q))"
  using inv_ready [OF add_inv [of q x]] by (simp add: add_wants add_busy)

lemma add_twice: "inv q \<Longrightarrow> wants (add x (add x q)) = wants (add x q)"
  using add_inv by (simp add: add_wants add_closed)

end

lemma wq_Add_cases:
  "wq_Add x q = (if wq_shuttingDown q \<or> x \<in> wq_dirty q then q
     else if x \<in> wq_processing q then q\<lparr>wq_dirty := insert x (wq_dirty q)\<rparr>
     else q\<lparr>wq_dirty := insert x (wq_dirty q), wq_queue := wq_queue q @ [x]\<rparr>)"
  by (simp add: wq_Add_def Let_def)

interpretation client_go: work_queue wq_Add wq_Get wq_Done wq_inv wq_queue wq_dirty wq_processing wq_shuttingDown
proof unfold_locales
  fix q q' :: "'a wq" and x r xs
  show "wq_inv q \<Longrightarrow> distinct (wq_queue q) \<and> set (wq_queue q) = wq_dirty q - wq_processing q"
    by (auto simp: wq_inv_def)
  show "wq_inv q \<Longrightarrow> wq_inv (wq_Add x q)" by (auto simp: wq_inv_def wq_Add_cases)
  show "wq_inv q \<Longrightarrow> wq_dirty (wq_Add x q) = (if wq_shuttingDown q then wq_dirty q else insert x (wq_dirty q))"
    by (auto simp: wq_Add_cases)
  show "wq_processing (wq_Add x q) = wq_processing q" "wq_shuttingDown (wq_Add x q) = wq_shuttingDown q"
    by (simp_all add: wq_Add_cases)
  show "wq_inv q \<Longrightarrow> wq_Get q = Some (r, q') \<Longrightarrow> wq_inv q'"
    by (auto simp: wq_inv_def wq_Get_def split: list.splits if_splits)
  show "wq_inv q \<Longrightarrow> wq_queue q = x # xs \<Longrightarrow> \<exists>q'. wq_Get q = Some (Some x, q') \<and> wq_queue q' = xs
      \<and> wq_dirty q' = wq_dirty q - {x} \<and> wq_processing q' = insert x (wq_processing q)
      \<and> wq_shuttingDown q' = wq_shuttingDown q" by (simp add: wq_Get_def)
  show "wq_inv q \<Longrightarrow> wq_queue q = [] \<Longrightarrow> wq_Get q = (if wq_shuttingDown q then Some (None, q) else None)"
    by (simp add: wq_Get_def)
  show "wq_inv q \<Longrightarrow> x \<in> wq_processing q \<Longrightarrow> wq_inv (wq_Done x q)"
    by (auto simp: wq_inv_def wq_Done_def Let_def)
  show "wq_dirty (wq_Done x q) = wq_dirty q" "wq_processing (wq_Done x q) = wq_processing q - {x}"
    "wq_shuttingDown (wq_Done x q) = wq_shuttingDown q" by (simp_all add: wq_Done_def Let_def)
qed

lemma wq_inv_new [simp]: "wq_inv wq_new"
  by (simp add: wq_inv_def wq_new_def)

lemma wq_inv_other [simp]:
  "wq_inv (q\<lparr>wq_waiting := A\<rparr>) = wq_inv q" "wq_inv (q\<lparr>wq_requeues := f\<rparr>) = wq_inv q"
  "wq_inv (wq_ShutDown q) = wq_inv q" "wq_inv (wq_Forget x q) = wq_inv q"
  by (simp_all add: wq_inv_def wq_ShutDown_def wq_Forget_def)

lemma wq_inv_delayed [simp]:
  "wq_inv q \<Longrightarrow> wq_inv (wq_AddAfter x d q)" "wq_inv q \<Longrightarrow> wq_inv (wq_AddRateLimited b x q)"
  "wq_inv q \<Longrightarrow> wq_inv (wq_fire x q)"
  by (simp_all add: wq_AddAfter_def wq_AddRateLimited_def wq_fire_def client_go.add_inv Let_def)

lemma wq_processing_frame [frame, simp]:
  "wq_processing (wq_Forget x q) = wq_processing q" "wq_processing (wq_ShutDown q) = wq_processing q"
  "wq_processing (wq_AddAfter x d q) = wq_processing q" "wq_processing (wq_AddRateLimited b x q) = wq_processing q"
  "wq_processing (wq_fire x q) = wq_processing q"
  by (simp_all add: wq_Forget_def wq_ShutDown_def wq_AddAfter_def wq_AddRateLimited_def wq_fire_def
      client_go.add_busy Let_def)

lemma exponential_When_bounds: "0 < exponential_When n" "exponential_When n \<le> max_delay"
  by (simp_all add: exponential_When_def base_delay_def max_delay_def)

lemma exponential_When_mono: "m \<le> n \<Longrightarrow> exponential_When m \<le> exponential_When n"
  unfolding exponential_When_def base_delay_def
  by (intro min.mono mult_left_mono power_increasing) simp_all

lemma exponential_When_base: "base_delay \<le> exponential_When n"
  by (simp add: exponential_When_def base_delay_def max_delay_def)

lemma exponential_When_max_iff: "exponential_When n = max_delay \<longleftrightarrow> 18 \<le> n"
proof
  assume "18 \<le> n"
  then have "exponential_When 18 \<le> exponential_When n" by (rule exponential_When_mono)
  moreover have "exponential_When 18 = max_delay" by (simp add: exponential_When_def base_delay_def max_delay_def)
  ultimately show "exponential_When n = max_delay" using exponential_When_bounds(2) [of n] by simp
next
  assume max: "exponential_When n = max_delay"
  show "18 \<le> n"
  proof (rule ccontr)
    assume "\<not> 18 \<le> n"
    then have "exponential_When n \<le> exponential_When 17" by (intro exponential_When_mono) simp
    then show False using max by (simp add: exponential_When_def [of 17] base_delay_def max_delay_def)
  qed
qed

text \<open>A failed item is retried later: it waits, and the failure is counted.\<close>

lemma AddRateLimited_counts: "wq_requeues (wq_AddRateLimited b x q) x = Suc (wq_requeues q x)"
  using exponential_When_bounds(1) [of "wq_requeues q x"]
  by (auto simp: wq_AddRateLimited_def wq_AddAfter_def limiter_When_def Let_def)

lemma AddRateLimited_waits:
  "\<not> wq_shuttingDown q \<Longrightarrow> wq_waiting (wq_AddRateLimited b x q) = insert x (wq_waiting q)
     \<and> wq_requeues (wq_AddRateLimited b x q) x = Suc (wq_requeues q x)"
  using exponential_When_bounds(1) [of "wq_requeues q x"]
  by (auto simp: wq_AddRateLimited_def wq_AddAfter_def limiter_When_def Let_def)

lemma fire_wants:
  "wq_inv q \<Longrightarrow> \<not> wq_shuttingDown q \<Longrightarrow> x \<in> wq_dirty (wq_fire x q)"
  by (simp add: wq_fire_def client_go.add_wants)

end
