(* ===== verification/PodOverride.thy ===== *)
theory PodOverride
  imports Kube
begin

text \<open>
  The pod override parameters and their checks. pkg/apis/operator/v1 and pkg/apis/autoscaling/v1 each
  declare a struct PodResourceOverrideSpec with the same fields; both are the record below. Each
  package has its own String, Validate and mapToString, translated separately here.

  Percentages are 64-bit two's complement integers (Go's int64), compared as signed numbers.
\<close>

record PodResourceOverrideSpec =
  ForceSelinuxRelabel :: bool
  LimitCPUToMemoryPercent :: int64
  CPURequestToLimitPercent :: int64
  MemoryRequestToLimitPercent :: int64
  CPURequestToRequestPercent :: int64

section \<open>operator/v1 override.go\<close>

definition PodResourceOverrideSpec_String :: "PodResourceOverrideSpec \<Rightarrow> string" where
  "PodResourceOverrideSpec_String s =
     ''ForceSelinuxRelabel='' @ fmt_t (ForceSelinuxRelabel s)
     @ '', MemoryRequestToLimitPercent='' @ fmt_d (sint (MemoryRequestToLimitPercent s))
     @ '', CPURequestToLimitPercent='' @ fmt_d (sint (CPURequestToLimitPercent s))
     @ '', LimitCPUToMemoryPercent='' @ fmt_d (sint (LimitCPUToMemoryPercent s))
     @ '', CPURequestToRequestPercent='' @ fmt_d (sint (CPURequestToRequestPercent s))"

definition PodResourceOverrideSpec_Validate :: "PodResourceOverrideSpec \<Rightarrow> error option" where
  "PodResourceOverrideSpec_Validate s =
     (if MemoryRequestToLimitPercent s <s 0 \<or> 100 <s MemoryRequestToLimitPercent s
      then Some (ErrorString ''invalid value for MemoryRequestToLimitPercent, must be [0...100]'')
      else if CPURequestToLimitPercent s <s 0 \<or> 100 <s CPURequestToLimitPercent s
      then Some (ErrorString ''invalid value for CPURequestToLimitPercent, must be [0...100]'')
      else if LimitCPUToMemoryPercent s <s 0
      then Some (ErrorString ''invalid value for LimitCPUToMemoryPercent, must be a positive value'')
      else if CPURequestToRequestPercent s <s 0 \<or> 100 <s CPURequestToRequestPercent s
      then Some (ErrorString ''invalid value for CPURequestToRequestPercent, must be [0...100]'')
      else None)"

text \<open>The digest (SHA-256 in hexadecimal) is a parameter: only that it is a function is used.\<close>

definition PodResourceOverrideSpec_Hash :: "(string \<Rightarrow> string) \<Rightarrow> PodResourceOverrideSpec \<Rightarrow> string" where
  "PodResourceOverrideSpec_Hash sha s = sha (PodResourceOverrideSpec_String s)"

text \<open>The keys come in the order the \<open>range\<close> loop visited them and are then sorted.\<close>

definition mapToString :: "go_map \<Rightarrow> string" where
  "mapToString m = (let keys = sort_Strings (map fst m)
     in concat (map (\<lambda>k. k @ ''='' @ go_get m k @ '','') keys))"

section \<open>autoscaling/v1 override.go\<close>

definition autoscaling_PodResourceOverrideSpec_String :: "PodResourceOverrideSpec \<Rightarrow> string" where
  "autoscaling_PodResourceOverrideSpec_String s =
     ''ForceSelinuxRelabel='' @ fmt_t (ForceSelinuxRelabel s)
     @ '', MemoryRequestToLimitPercent='' @ fmt_d (sint (MemoryRequestToLimitPercent s))
     @ '', CPURequestToLimitPercent='' @ fmt_d (sint (CPURequestToLimitPercent s))
     @ '', LimitCPUToMemoryPercent='' @ fmt_d (sint (LimitCPUToMemoryPercent s))
     @ '', CPURequestToRequestPercent='' @ fmt_d (sint (CPURequestToRequestPercent s))"

definition autoscaling_PodResourceOverrideSpec_Validate :: "PodResourceOverrideSpec \<Rightarrow> error option" where
  "autoscaling_PodResourceOverrideSpec_Validate s =
     (if MemoryRequestToLimitPercent s <s 0 \<or> 100 <s MemoryRequestToLimitPercent s
      then Some (ErrorString ''invalid value for MemoryRequestToLimitPercent, must be [0...100]'')
      else if CPURequestToLimitPercent s <s 0 \<or> 100 <s CPURequestToLimitPercent s
      then Some (ErrorString ''invalid value for CPURequestToLimitPercent, must be [0...100]'')
      else if LimitCPUToMemoryPercent s <s 0
      then Some (ErrorString ''invalid value for LimitCPUToMemoryPercent, must be a positive value'')
      else if CPURequestToRequestPercent s <s 0 \<or> 100 <s CPURequestToRequestPercent s
      then Some (ErrorString ''invalid value for CPURequestToRequestPercent, must be [0...100]'')
      else None)"

definition autoscaling_PodResourceOverrideSpec_Hash ::
  "(string \<Rightarrow> string) \<Rightarrow> PodResourceOverrideSpec \<Rightarrow> string" where
  "autoscaling_PodResourceOverrideSpec_Hash sha s = sha (autoscaling_PodResourceOverrideSpec_String s)"

definition autoscaling_mapToString :: "go_map \<Rightarrow> string" where
  "autoscaling_mapToString m = (let keys = sort_Strings (map fst m)
     in concat (map (\<lambda>k. k @ ''='' @ go_get m k @ '','') keys))"

text \<open>The selector prints its expressions sorted, each as key, operator and values.\<close>

definition hashLabelSelector :: "LabelSelector option \<Rightarrow> string" where
  "hashLabelSelector sel = (case sel of
     None \<Rightarrow> []
   | Some sel \<Rightarrow>
       ''MatchLabels='' @ autoscaling_mapToString (ls_MatchLabels sel) @ '',MatchExpressions=''
       @ (let exprs = map (\<lambda>e. lsr_Key e @ '' '' @ lsr_Operator e @ '' [''
                  @ strings_Join (lsr_Values e) '','' @ '']'') (ls_MatchExpressions sel)
          in strings_Join (sort_Strings exprs) '';''))"

section \<open>What Validate accepts\<close>

definition valid_percentages :: "PodResourceOverrideSpec \<Rightarrow> bool" where
  "valid_percentages s \<longleftrightarrow>
     sint (MemoryRequestToLimitPercent s) \<in> {0..100} \<and> sint (CPURequestToLimitPercent s) \<in> {0..100}
     \<and> sint (CPURequestToRequestPercent s) \<in> {0..100} \<and> 0 \<le> sint (LimitCPUToMemoryPercent s)"

lemma Validate_None_iff: "PodResourceOverrideSpec_Validate s = None \<longleftrightarrow> valid_percentages s"
  by (auto simp: PodResourceOverrideSpec_Validate_def valid_percentages_def word_sless_alt not_less)

lemma autoscaling_Validate_eq:
  "autoscaling_PodResourceOverrideSpec_Validate s = PodResourceOverrideSpec_Validate s"
  by (simp add: autoscaling_PodResourceOverrideSpec_Validate_def PodResourceOverrideSpec_Validate_def)

lemma autoscaling_String_eq:
  "autoscaling_PodResourceOverrideSpec_String s = PodResourceOverrideSpec_String s"
  by (simp add: autoscaling_PodResourceOverrideSpec_String_def PodResourceOverrideSpec_String_def)

lemma autoscaling_mapToString_eq: "autoscaling_mapToString = mapToString"
  by (rule ext) (simp add: autoscaling_mapToString_def mapToString_def)

section \<open>The printed form determines the parameters\<close>

lemma fmt_field_eq:
  assumes "CHR '','' \<notin> set a" and "CHR '','' \<notin> set b"
  shows "a @ '', '' @ x = b @ '', '' @ y \<longleftrightarrow> a = b \<and> x = y"
  using assms append_sep_eq [of "CHR '',''" a b "CHR '' '' # x" "CHR '' '' # y"] by auto

lemma PodResourceOverrideSpec_String_inject:
  assumes "PodResourceOverrideSpec_String s = PodResourceOverrideSpec_String t"
  shows "s = t"
proof -
  from assms have
    "fmt_t (ForceSelinuxRelabel s) = fmt_t (ForceSelinuxRelabel t)
     \<and> fmt_d (sint (MemoryRequestToLimitPercent s)) = fmt_d (sint (MemoryRequestToLimitPercent t))
     \<and> fmt_d (sint (CPURequestToLimitPercent s)) = fmt_d (sint (CPURequestToLimitPercent t))
     \<and> fmt_d (sint (LimitCPUToMemoryPercent s)) = fmt_d (sint (LimitCPUToMemoryPercent t))
     \<and> fmt_d (sint (CPURequestToRequestPercent s)) = fmt_d (sint (CPURequestToRequestPercent t))"
    by (simp add: PodResourceOverrideSpec_String_def append_sep_eq go_fmt)
  then show ?thesis by (cases s; cases t) (auto intro: signed_word_eqI)
qed

section \<open>The printed map does not depend on the iteration order\<close>

lemma sort_mset_eq: "mset xs = mset (ys :: string list) \<Longrightarrow> sort xs = sort ys"
  by (metis properties_for_sort sorted_sort mset_sort)

lemma mapToString_order:
  assumes "go_map_wf m" and "mset m = mset n"
  shows "mapToString m = mapToString n"
proof -
  from assms have "map_of m = map_of n"
    by (intro map_of_mset_eq) (simp_all add: go_map_wf_def)
  moreover from assms(2) have "sort (map fst m) = sort (map fst n)"
    by (intro sort_mset_eq) simp
  ultimately show ?thesis by (simp add: mapToString_def go_get_def)
qed

end
