(* ===== verification/Ownership.thy ===== *)
theory Ownership
  imports Kube
begin

text \<open>
  pkg/runtime: the operand context (context.go), controller ownership (ownership.go) and the decoding
  of informer objects (enqueuer.go), with the owner-reference helpers of apimachinery they call.
\<close>

section \<open>The operand context (context.go)\<close>

record OperandContext =
  WebhookName :: string
  WebhookNamespace :: string
  ResourceName :: string
  OperandImage :: string
  OperandVersion :: string

definition NewOperandContext :: "string \<Rightarrow> string \<Rightarrow> string \<Rightarrow> string \<Rightarrow> string \<Rightarrow> OperandContext" where
  "NewOperandContext name namespace resource img version =
     \<lparr>WebhookName = name, WebhookNamespace = namespace, ResourceName = resource,
      OperandImage = img, OperandVersion = version\<rparr>"

section \<open>Controller references (apimachinery)\<close>

definition GetControllerOf :: "'a Object_scheme \<Rightarrow> OwnerReference option" where
  "GetControllerOf obj = find (\<lambda>r. or_Controller r = Some True) (om_OwnerReferences (o_Meta obj))"

definition IsControlledBy :: "'a Object_scheme \<Rightarrow> 'b Object_scheme \<Rightarrow> bool" where
  "IsControlledBy obj owner = (case GetControllerOf obj of
     None \<Rightarrow> False | Some ref \<Rightarrow> or_UID ref = om_UID (o_Meta owner))"

definition NewControllerRef :: "'b Object_scheme \<Rightarrow> GroupVersionKind \<Rightarrow> OwnerReference" where
  "NewControllerRef owner gvk =
     \<lparr>or_APIVersion = GroupVersion_String (gvk_Group gvk) (gvk_Version gvk), or_Kind = gvk_Kind gvk,
      or_Name = om_Name (o_Meta owner), or_UID = om_UID (o_Meta owner),
      or_BlockOwnerDeletion = Some True, or_Controller = Some True\<rparr>"

section \<open>Ownership (ownership.go)\<close>

definition SetController :: "'a Object_scheme \<Rightarrow> 'b Object_scheme \<Rightarrow> 'a Object_scheme" where
  "SetController owned owner =
     (let gvk = GetGroupVersionKind owner; ownerReference = NewControllerRef owner gvk
      in if IsControlledBy owned owner then owned
         else let refs = om_OwnerReferences (o_Meta owned)
           in if refs = [] then owned\<lparr>o_Meta := (o_Meta owned)\<lparr>om_OwnerReferences := [ownerReference]\<rparr>\<rparr>
              else owned\<lparr>o_Meta := (o_Meta owned)\<lparr>om_OwnerReferences := refs @ [ownerReference]\<rparr>\<rparr>)"

fun IsOwner_refs :: "OwnerReference list \<Rightarrow> OwnerReference \<Rightarrow> bool" where
  "IsOwner_refs [] owner = False"
| "IsOwner_refs (ref # refs) owner =
     (if or_Kind ref = or_Kind owner
      then if or_Name ref = or_Name owner \<and> or_UID ref = or_UID owner then True
           else IsOwner_refs refs owner
      else IsOwner_refs refs owner)"

definition IsOwner :: "'a Object_scheme \<Rightarrow> OwnerReference \<Rightarrow> bool" where
  "IsOwner owned owner = IsOwner_refs (om_OwnerReferences (o_Meta owned)) owner"

definition NonBlockingOwner :: "'b Object_scheme \<Rightarrow> OwnerReference" where
  "NonBlockingOwner owner =
     (let (apiVersion, kind) = ToAPIVersionAndKind (GetGroupVersionKind owner)
      in \<lparr>or_APIVersion = apiVersion, or_Kind = kind, or_Name = om_Name (o_Meta owner),
          or_UID = om_UID (o_Meta owner), or_BlockOwnerDeletion = Some False,
          or_Controller = Some False\<rparr>)"

lemma IsOwner_refs_iff:
  "IsOwner_refs refs owner \<longleftrightarrow>
     (\<exists>ref \<in> set refs. or_Kind ref = or_Kind owner \<and> or_Name ref = or_Name owner
        \<and> or_UID ref = or_UID owner)"
  by (induction refs) auto

lemma find_append: "find P (xs @ ys) = (case find P xs of None \<Rightarrow> find P ys | Some x \<Rightarrow> Some x)"
  by (induction xs) auto

lemma SetController_frame [frame]:
  "o_TypeMeta (SetController owned owner) = o_TypeMeta owned"
  "Object.more (SetController owned owner) = Object.more owned"
  "om_Name (o_Meta (SetController owned owner)) = om_Name (o_Meta owned)"
  "om_Namespace (o_Meta (SetController owned owner)) = om_Namespace (o_Meta owned)"
  "om_Labels (o_Meta (SetController owned owner)) = om_Labels (o_Meta owned)"
  "om_Annotations (o_Meta (SetController owned owner)) = om_Annotations (o_Meta owned)"
  "om_ResourceVersion (o_Meta (SetController owned owner)) = om_ResourceVersion (o_Meta owned)"
  "om_UID (o_Meta (SetController owned owner)) = om_UID (o_Meta owned)"
  by (simp_all add: SetController_def Let_def)

lemma SetController_IsOwner:
  "IsOwner (SetController owned owner) (NewControllerRef owner (GetGroupVersionKind owner))
   \<or> IsControlledBy owned owner"
  by (auto simp: SetController_def Let_def IsOwner_def IsOwner_refs_iff)

section \<open>Objects the informers deliver (enqueuer.go)\<close>

text \<open>
  The dynamic values an informer hands to a handler: an object with metadata, the tombstone of an
  object whose deletion was missed, or something else. \<open>meta.Accessor\<close> succeeds on the first only.
\<close>

datatype informer_obj =
    MetaObj Object
  | Tombstone string informer_obj
  | Opaque string

fun meta_Accessor :: "informer_obj \<Rightarrow> error + Object" where
  "meta_Accessor (MetaObj o') = Inr o'"
| "meta_Accessor (Tombstone k x) = Inl (ErrorString ''object does not implement the Object interfaces'')"
| "meta_Accessor (Opaque t) = Inl (ErrorString ''object does not implement the Object interfaces'')"

definition GetMetaObject :: "informer_obj \<Rightarrow> error + Object" where
  "GetMetaObject obj = (case meta_Accessor obj of
     Inr object \<Rightarrow> Inr object
   | Inl metaErr \<Rightarrow> (case obj of
       Tombstone k inner \<Rightarrow> meta_Accessor inner
     | Opaque t \<Rightarrow> Inl (ErrorString (''error decoding object, type='' @ t @ '' - '' @ Error metaErr))
     | MetaObj o' \<Rightarrow> Inl (ErrorString (''error decoding object, type= - '' @ Error metaErr))))"

lemma GetMetaObject_MetaObj [simp]: "GetMetaObject (MetaObj x) = Inr x"
  by (simp add: GetMetaObject_def)

lemma GetMetaObject_Tombstone [simp]: "GetMetaObject (Tombstone k (MetaObj x)) = Inr x"
  by (simp add: GetMetaObject_def)

end
