(* ===== verification/ApiTypes.thy ===== *)
theory ApiTypes
  imports PodOverride Ownership
begin

text \<open>
  The custom resources: ClusterResourceOverride (pkg/apis/operator/v1) and ResourceOverride
  (pkg/apis/autoscaling/v1), with Validate, String, Hash and DeepCopy of their specs.

  The two condition structs have the same fields and are one polymorphic record. A condition list is
  an option because \<open>reflect.DeepEqual\<close> tells a nil slice from an empty one.
\<close>

section \<open>Conditions\<close>

datatype ConditionStatus = ConditionTrue | ConditionFalse | ConditionUnknown

datatype ClusterResourceOverrideConditionType =
  InstallReadinessFailure | Available | OtherCROConditionType string

datatype ResourceOverrideConditionType =
  ValidationFailure | Ignored | OtherROConditionType string

record 't Condition =
  cond_Type :: 't
  cond_Status :: ConditionStatus
  cond_Reason :: string
  cond_Message :: string
  cond_LastTransitionTime :: time

type_synonym ClusterResourceOverrideCondition = "ClusterResourceOverrideConditionType Condition"
type_synonym ResourceOverrideCondition = "ResourceOverrideConditionType Condition"

section \<open>operator/v1 ClusterResourceOverride\<close>

definition operator_GroupName :: string where
  "operator_GroupName = ''operator.autoscaling.openshift.io''"

definition operator_GroupVersion :: string where
  "operator_GroupVersion = ''v1''"

definition ClusterResourceOverrideKind :: string where
  "ClusterResourceOverrideKind = ''ClusterResourceOverride''"

definition InvalidParameters :: string where "InvalidParameters = ''InvalidParameters''"
definition ConfigurationCheckFailed :: string where "ConfigurationCheckFailed = ''ConfigurationCheckFailed''"
definition CertNotAvailable :: string where "CertNotAvailable = ''CertNotAvailable''"
definition CannotSetReference :: string where "CannotSetReference = ''CannotSetReference''"
definition InternalError :: string where "InternalError = ''InternalError''"
definition AdmissionWebhookNotAvailable :: string where
  "AdmissionWebhookNotAvailable = ''AdmissionWebhookNotAvailable''"
definition DeploymentNotReady :: string where "DeploymentNotReady = ''DeploymentNotReady''"

record ClusterResourceOverrideResources =
  ConfigurationRef :: "ObjectReference option"
  ServiceRef :: "ObjectReference option"
  DeploymentRef :: "ObjectReference option"
  APiServiceRef :: "ObjectReference option"
  MutatingWebhookConfigurationRef :: "ObjectReference option"
  ValidatingAdmissionPolicyRef :: "ObjectReference option"
  ValidatingAdmissionPolicyBindingRef :: "ObjectReference option"

record ClusterResourceOverrideStatus =
  st_Resources :: ClusterResourceOverrideResources
  st_HashConfiguration :: string
  st_Conditions :: "ClusterResourceOverrideCondition list option"
  st_Version :: string
  st_Image :: string

record PodResourceOverride =
  pro_TypeMeta :: TypeMeta
  pro_Spec :: PodResourceOverrideSpec

record DeploymentOverrides =
  do_NodeSelector :: go_map
  do_Tolerations :: "Toleration list"
  do_Replicas :: "int32 option"

record ClusterResourceOverrideSpec =
  spec_PodResourceOverride :: PodResourceOverride
  spec_DeploymentOverrides :: DeploymentOverrides

record ClusterResourceOverride = Object +
  cro_Spec :: ClusterResourceOverrideSpec
  cro_Status :: ClusterResourceOverrideStatus

text \<open>
  \<open>%v\<close> of a toleration slice. Toleration's String method has a pointer receiver, so the elements of
  the slice print field by field, and the pointer \<open>TolerationSeconds\<close> prints as an address.
\<close>

definition fmt_Toleration :: "Toleration \<Rightarrow> string" where
  "fmt_Toleration t = ''{'' @ tol_Key t @ '' '' @ tol_Operator t @ '' '' @ tol_Value t @ '' ''
     @ tol_Effect t @ '' ''
     @ (case tol_TolerationSeconds t of None \<Rightarrow> ''<nil>'' | Some p \<Rightarrow> fmt_ptr (addr_of p)) @ ''}''"

definition tolerationsToString :: "Toleration list \<Rightarrow> string" where
  "tolerationsToString ts = ''['' @ strings_Join (map fmt_Toleration ts) '' '' @ '']''"

definition DeploymentOverrides_String :: "DeploymentOverrides \<Rightarrow> string" where
  "DeploymentOverrides_String d =
     (let replicas = (case do_Replicas d of None \<Rightarrow> ''nil'' | Some r \<Rightarrow> fmt_d (sint r))
      in ''Replicas='' @ replicas @ '', NodeSelector='' @ mapToString (do_NodeSelector d)
         @ '', Tolerations='' @ tolerationsToString (do_Tolerations d))"

definition DeploymentOverrides_Validate :: "DeploymentOverrides \<Rightarrow> error option" where
  "DeploymentOverrides_Validate d = (case do_Replicas d of
     None \<Rightarrow> None
   | Some r \<Rightarrow> if r <s 0 then Some (ErrorString ''invalid value for Replicas, must be a positive value'')
       else None)"

definition DeploymentOverrides_Hash :: "(string \<Rightarrow> string) \<Rightarrow> DeploymentOverrides \<Rightarrow> string" where
  "DeploymentOverrides_Hash sha d = sha (DeploymentOverrides_String d)"

definition ClusterResourceOverrideSpec_Hash ::
  "(string \<Rightarrow> string) \<Rightarrow> ClusterResourceOverrideSpec \<Rightarrow> string" where
  "ClusterResourceOverrideSpec_Hash sha s =
     sha (''PodResourceOverride='' @ PodResourceOverrideSpec_Hash sha (pro_Spec (spec_PodResourceOverride s))
       @ '', DeploymentOverrides='' @ DeploymentOverrides_Hash sha (spec_DeploymentOverrides s))"

text \<open>
  DeepCopy allocates a new word for every \<open>TolerationSeconds\<close>; the allocator is part of the world
  \<open>'w\<close>. The other pointers of the spec are never printed as addresses and are copied as values.
\<close>

fun DeepCopy_Tolerations :: "('w \<Rightarrow> addr \<times> 'w) \<Rightarrow> Toleration list \<Rightarrow> 'w \<Rightarrow> Toleration list \<times> 'w" where
  "DeepCopy_Tolerations new [] w = ([], w)"
| "DeepCopy_Tolerations new (t # ts) w =
     (let (t', w1) = (case tol_TolerationSeconds t of
            None \<Rightarrow> (t, w)
          | Some p \<Rightarrow> (let (a, w1) = new w in (t\<lparr>tol_TolerationSeconds := Some (Ptr a (deref p))\<rparr>, w1)));
          (ts', w2) = DeepCopy_Tolerations new ts w1
      in (t' # ts', w2))"

definition ClusterResourceOverride_copy ::
  "('w \<Rightarrow> addr \<times> 'w) \<Rightarrow> ClusterResourceOverride \<Rightarrow> 'w \<Rightarrow> ClusterResourceOverride \<times> 'w" where
  "ClusterResourceOverride_copy new cro w =
     (let d = spec_DeploymentOverrides (cro_Spec cro);
          (ts, w1) = DeepCopy_Tolerations new (do_Tolerations d) w
      in (cro\<lparr>cro_Spec := (cro_Spec cro)\<lparr>spec_DeploymentOverrides := d\<lparr>do_Tolerations := ts\<rparr>\<rparr>\<rparr>, w1))"

section \<open>autoscaling/v1 ResourceOverride\<close>

definition autoscaling_GroupName :: string where
  "autoscaling_GroupName = ''autoscaling.openshift.io''"

definition autoscaling_GroupVersion :: string where
  "autoscaling_GroupVersion = ''v1''"

definition ResourceOverrideKind :: string where
  "ResourceOverrideKind = ''ResourceOverride''"

definition NamespaceNotOptedIn :: string where "NamespaceNotOptedIn = ''NamespaceNotOptedIn''"

record ResourceOverrideSpec =
  ros_PodResourceOverride :: PodResourceOverrideSpec
  ros_PodSelector :: "LabelSelector option"

record ResourceOverrideStatus =
  ro_Conditions :: "ResourceOverrideCondition list option"

record ResourceOverride = Object +
  ro_Spec :: ResourceOverrideSpec
  ro_Status :: ResourceOverrideStatus

definition ResourceOverrideSpec_Hash :: "(string \<Rightarrow> string) \<Rightarrow> ResourceOverrideSpec \<Rightarrow> string" where
  "ResourceOverrideSpec_Hash sha s =
     sha (''PodResourceOverride='' @ autoscaling_PodResourceOverrideSpec_Hash sha (ros_PodResourceOverride s)
       @ '', PodSelector='' @ hashLabelSelector (ros_PodSelector s))"

section \<open>Specs up to the addresses of their pointers\<close>

definition toleration_value :: "Toleration \<Rightarrow> Toleration" where
  "toleration_value t = t\<lparr>tol_TolerationSeconds :=
     map_option (\<lambda>p. Ptr 0 (deref p)) (tol_TolerationSeconds t)\<rparr>"

definition same_overrides :: "DeploymentOverrides \<Rightarrow> DeploymentOverrides \<Rightarrow> bool" where
  "same_overrides d e \<longleftrightarrow> do_NodeSelector d = do_NodeSelector e \<and> do_Replicas d = do_Replicas e
     \<and> map toleration_value (do_Tolerations d) = map toleration_value (do_Tolerations e)"

lemma DeepCopy_Tolerations_values:
  "DeepCopy_Tolerations new ts w = (ts', w') \<Longrightarrow> map toleration_value ts' = map toleration_value ts"
proof (induction ts arbitrary: w ts' w')
  case Nil
  then show ?case by simp
next
  case (Cons t ts)
  then show ?case
    by (auto simp: toleration_value_def Let_def split: option.splits prod.splits)
qed

lemma DeepCopy_Tolerations_no_pointers:
  "list_all (\<lambda>t. tol_TolerationSeconds t = None) ts \<Longrightarrow> DeepCopy_Tolerations new ts w = (ts, w)"
  by (induction ts) auto

lemma DeepCopy_frame [frame]:
  assumes "ClusterResourceOverride_copy new cro w = (cro', w')"
  shows "o_Meta cro' = o_Meta cro" and "cro_Status cro' = cro_Status cro"
    and "spec_PodResourceOverride (cro_Spec cro') = spec_PodResourceOverride (cro_Spec cro)"
    and "same_overrides (spec_DeploymentOverrides (cro_Spec cro')) (spec_DeploymentOverrides (cro_Spec cro))"
  using assms
  by (auto simp: ClusterResourceOverride_copy_def same_overrides_def Let_def
      dest: DeepCopy_Tolerations_values split: prod.splits)

lemma DeploymentOverrides_Validate_None_iff:
  "DeploymentOverrides_Validate d = None \<longleftrightarrow> (\<forall>r. do_Replicas d = Some r \<longrightarrow> 0 \<le> sint r)"
  by (auto simp: DeploymentOverrides_Validate_def word_sless_alt split: option.splits)

end
