(* ===== verification/World.thy ===== *)
theory World
  imports ApiTypes
begin

text \<open>
  What the operator calls outside its own source.

  \<^item> \<open>lib\<close>: pure functions of third-party packages (runtime converter, JSON and YAML marshalling,
    strategic merge patch, scheme, label selectors, TLS profile tables, the digest). They are
    arbitrary: the definitions take them as a parameter.
  \<^item> \<open>'w api\<close>: the effects. Each is a function from the world \<open>'w\<close> to an answer and the next world.
    Reads through informer caches have the same shape as writes to the API server, so the
    environment may change between any two calls: a theorem over all \<open>A :: 'w api\<close> and all worlds
    holds for every behaviour of the cluster and every interleaving with it.
  \<^item> \<open>traced\<close>: the same effects with the writing calls recorded in order, to state which calls the
    operator makes.

  An unstructured object is a JSON object; the accessors of apimachinery's unstructured package are
  translated from their vendored source.
\<close>

section \<open>Unstructured objects\<close>

datatype json = JNull | JBool bool | JInt int | JFloat string | JString string
  | JList "json list" | JObject "(string \<times> json) list"

type_synonym Unstructured = "(string \<times> json) list"

text \<open>
  The accessor error carries no path or type here: its callers test it for nil and never read it.
\<close>

fun NestedField :: "json \<Rightarrow> string list \<Rightarrow> error + json option" where
  "NestedField v [] = Inr (Some v)"
| "NestedField v (f # fs) = (case v of
     JNull \<Rightarrow> Inr None
   | JObject m \<Rightarrow> (case map_of m f of None \<Rightarrow> Inr None | Some x \<Rightarrow> NestedField x fs)
   | _ \<Rightarrow> Inl (ErrorString ''accessor error: expected map[string]interface{}''))"

definition NestedString :: "Unstructured \<Rightarrow> string list \<Rightarrow> string" where
  "NestedString u fs = (case NestedField (JObject u) fs of Inr (Some (JString s)) \<Rightarrow> s | _ \<Rightarrow> [])"

text \<open>\<open>Inr None\<close>: not found; \<open>Inl\<close>: the field is there and not a slice.\<close>

definition NestedSlice :: "Unstructured \<Rightarrow> string list \<Rightarrow> error + json list option" where
  "NestedSlice u fs = (case NestedField (JObject u) fs of
     Inl e \<Rightarrow> Inl e
   | Inr None \<Rightarrow> Inr None
   | Inr (Some (JList l)) \<Rightarrow> Inr (Some l)
   | Inr (Some _) \<Rightarrow> Inl (ErrorString ''accessor error: expected []interface{}''))"

text \<open>The setters ignore the error of a path that runs through something else than an object.\<close>

fun SetNestedField :: "Unstructured \<Rightarrow> json \<Rightarrow> string list \<Rightarrow> Unstructured" where
  "SetNestedField m v [] = m"
| "SetNestedField m v [f] = AList.update f v m"
| "SetNestedField m v (f # g # fs) = (case map_of m f of
     Some (JObject m') \<Rightarrow> AList.update f (JObject (SetNestedField m' v (g # fs))) m
   | Some _ \<Rightarrow> m
   | None \<Rightarrow> AList.update f (JObject (SetNestedField [] v (g # fs))) m)"

fun RemoveNestedField :: "Unstructured \<Rightarrow> string list \<Rightarrow> Unstructured" where
  "RemoveNestedField m [] = m"
| "RemoveNestedField m [f] = AList.delete f m"
| "RemoveNestedField m (f # g # fs) = (case map_of m f of
     Some (JObject m') \<Rightarrow> AList.update f (JObject (RemoveNestedField m' (g # fs))) m
   | _ \<Rightarrow> m)"

definition u_GetKind :: "Unstructured \<Rightarrow> string" where
  "u_GetKind u = NestedString u [''kind'']"

definition u_GetAPIVersion :: "Unstructured \<Rightarrow> string" where
  "u_GetAPIVersion u = NestedString u [''apiVersion'']"

definition u_GetName :: "Unstructured \<Rightarrow> string" where
  "u_GetName u = NestedString u [''metadata'', ''name'']"

definition u_GetNamespace :: "Unstructured \<Rightarrow> string" where
  "u_GetNamespace u = NestedString u [''metadata'', ''namespace'']"

definition u_GetUID :: "Unstructured \<Rightarrow> string" where
  "u_GetUID u = NestedString u [''metadata'', ''uid'']"

definition u_GetResourceVersion :: "Unstructured \<Rightarrow> string" where
  "u_GetResourceVersion u = NestedString u [''metadata'', ''resourceVersion'']"

definition u_SetUID :: "string \<Rightarrow> Unstructured \<Rightarrow> Unstructured" where
  "u_SetUID uid u = (if uid = [] then RemoveNestedField u [''metadata'', ''uid'']
     else SetNestedField u (JString uid) [''metadata'', ''uid''])"

definition u_SetResourceVersion :: "string \<Rightarrow> Unstructured \<Rightarrow> Unstructured" where
  "u_SetResourceVersion rv u = (if rv = [] then RemoveNestedField u [''metadata'', ''resourceVersion'']
     else SetNestedField u (JString rv) [''metadata'', ''resourceVersion''])"

definition u_GroupVersionKind :: "Unstructured \<Rightarrow> GroupVersionKind" where
  "u_GroupVersionKind u = (case ParseGroupVersion (u_GetAPIVersion u) of
     Inl _ \<Rightarrow> \<lparr>gvk_Group = [], gvk_Version = [], gvk_Kind = []\<rparr>
   | Inr (g, v) \<Rightarrow> \<lparr>gvk_Group = g, gvk_Version = v, gvk_Kind = u_GetKind u\<rparr>)"

section \<open>TLS settings of the cluster (openshift/api config/v1)\<close>

record TLSProfileSpec =
  tls_Ciphers :: "string list"
  tls_MinTLSVersion :: string

record TLSSecurityProfile =
  tls_Type :: string
  tls_Custom :: "TLSProfileSpec option"

record APIServerConfig =
  apis_TLSAdherence :: string
  apis_TLSSecurityProfile :: "TLSSecurityProfile option"

record tls_Config =
  cfg_MinVersion :: uint16
  cfg_CipherSuites :: "uint16 list"

record Infrastructure =
  infra_ControlPlaneTopology :: string

section \<open>Pure third-party functions\<close>

record lib =
  lib_sha256 :: "string \<Rightarrow> string"
  lib_fmt_object :: "runtime_object \<Rightarrow> string"
  lib_yaml_Marshal :: "PodResourceOverride \<Rightarrow> error + string"
  lib_ObjectKinds :: "go_type \<Rightarrow> error + GroupVersionKind list"
  lib_LabelSelectorAsSelector :: "LabelSelector \<Rightarrow> error option"
  lib_ToUnstructured :: "runtime_object \<Rightarrow> error + Unstructured"
  lib_MarshalJSON :: "Unstructured \<Rightarrow> error + string"
  lib_CreateTwoWayMergePatch :: "string \<Rightarrow> string \<Rightarrow> runtime_object \<Rightarrow> error + string"
  lib_AsConfigMap :: "Unstructured \<Rightarrow> error + ConfigMap"
  lib_AsService :: "Unstructured \<Rightarrow> error + Service"
  lib_AsDeployment :: "Unstructured \<Rightarrow> error + Deployment"
  lib_AsAPIService :: "Unstructured \<Rightarrow> error + APIService"
  lib_AsMutatingWebhookConfiguration :: "Unstructured \<Rightarrow> error + MutatingWebhookConfiguration"
  lib_AsValidatingAdmissionPolicy :: "Unstructured \<Rightarrow> error + ValidatingAdmissionPolicy"
  lib_AsValidatingAdmissionPolicyBinding :: "Unstructured \<Rightarrow> error + ValidatingAdmissionPolicyBinding"
  lib_AsAPIServer :: "Unstructured \<Rightarrow> error + APIServerConfig"
  lib_AsInfrastructure :: "Unstructured \<Rightarrow> error + Infrastructure"
  lib_ShouldHonorClusterTLSProfile :: "string \<Rightarrow> bool"
  lib_GetTLSProfileSpec :: "TLSSecurityProfile option \<Rightarrow> error + TLSProfileSpec"
  lib_NewTLSConfigFromProfile :: "TLSProfileSpec \<Rightarrow> tls_Config \<Rightarrow> tls_Config"

section \<open>Effects\<close>

record 'w api =
  api_Now :: "'w \<Rightarrow> time \<times> 'w"
  api_NewAddr :: "'w \<Rightarrow> addr \<times> 'w"
  api_CRO_Get :: "string \<Rightarrow> 'w \<Rightarrow> (error + ClusterResourceOverride) \<times> 'w"
  api_CRO_UpdateStatus :: "ClusterResourceOverride \<Rightarrow> 'w \<Rightarrow> error option \<times> 'w"
  api_RO_Get :: "string \<Rightarrow> string \<Rightarrow> 'w \<Rightarrow> (error + ResourceOverride) \<times> 'w"
  api_RO_List :: "string \<Rightarrow> 'w \<Rightarrow> (error + ResourceOverride list) \<times> 'w"
  api_RO_UpdateStatus :: "string \<Rightarrow> ResourceOverride \<Rightarrow> 'w \<Rightarrow> error option \<times> 'w"
  api_Namespace_Get :: "string \<Rightarrow> 'w \<Rightarrow> (error + Namespace) \<times> 'w"
  api_ConfigMap_Get :: "string \<Rightarrow> string \<Rightarrow> 'w \<Rightarrow> (error + ConfigMap) \<times> 'w"
  api_Secret_Get :: "string \<Rightarrow> string \<Rightarrow> 'w \<Rightarrow> (error + Secret) \<times> 'w"
  api_Secret_Delete :: "string \<Rightarrow> string \<Rightarrow> 'w \<Rightarrow> error option \<times> 'w"
  api_Service_Get :: "string \<Rightarrow> string \<Rightarrow> 'w \<Rightarrow> (error + Service) \<times> 'w"
  api_Deployment_Get :: "string \<Rightarrow> string \<Rightarrow> 'w \<Rightarrow> (error + Deployment) \<times> 'w"
  api_DaemonSet_Delete :: "string \<Rightarrow> string \<Rightarrow> 'w \<Rightarrow> error option \<times> 'w"
  api_APIService_Get :: "string \<Rightarrow> 'w \<Rightarrow> (error + APIService option) \<times> 'w"
  api_MWC_Get :: "string \<Rightarrow> 'w \<Rightarrow> (error + MutatingWebhookConfiguration) \<times> 'w"
  api_MWC_Delete :: "string \<Rightarrow> 'w \<Rightarrow> error option \<times> 'w"
  api_VAP_Get :: "string \<Rightarrow> 'w \<Rightarrow> (error + ValidatingAdmissionPolicy) \<times> 'w"
  api_VAPB_Get :: "string \<Rightarrow> 'w \<Rightarrow> (error + ValidatingAdmissionPolicyBinding) \<times> 'w"
  dyn_Create :: "GroupVersionResource \<Rightarrow> string \<Rightarrow> Unstructured \<Rightarrow> 'w \<Rightarrow> (error + Unstructured) \<times> 'w"
  dyn_Get :: "GroupVersionResource \<Rightarrow> string \<Rightarrow> string \<Rightarrow> 'w \<Rightarrow> (error + Unstructured) \<times> 'w"
  dyn_Patch :: "GroupVersionResource \<Rightarrow> string \<Rightarrow> string \<Rightarrow> string \<Rightarrow> 'w \<Rightarrow> (error + Unstructured) \<times> 'w"

section \<open>Recording the writing calls\<close>

datatype call =
    CallUpdateStatusCRO ClusterResourceOverride
  | CallUpdateStatusRO string ResourceOverride
  | CallDeleteSecret string string
  | CallDeleteDaemonSet string string
  | CallDeleteMWC string
  | CallCreate GroupVersionResource string Unstructured
  | CallPatch GroupVersionResource string string string

definition on_fst :: "('w \<Rightarrow> 'r \<times> 'w) \<Rightarrow> 'w \<times> call list \<Rightarrow> 'r \<times> ('w \<times> call list)" where
  "on_fst f s = (let (r, w) = f (fst s) in (r, (w, snd s)))"

definition logging :: "call \<Rightarrow> ('w \<Rightarrow> 'r \<times> 'w) \<Rightarrow> 'w \<times> call list \<Rightarrow> 'r \<times> ('w \<times> call list)" where
  "logging c f s = (let (r, w) = f (fst s) in (r, (w, snd s @ [c])))"

definition traced :: "'w api \<Rightarrow> ('w \<times> call list) api" where
  "traced A = \<lparr>
     api_Now = on_fst (api_Now A),
     api_NewAddr = on_fst (api_NewAddr A),
     api_CRO_Get = (\<lambda>n. on_fst (api_CRO_Get A n)),
     api_CRO_UpdateStatus = (\<lambda>c. logging (CallUpdateStatusCRO c) (api_CRO_UpdateStatus A c)),
     api_RO_Get = (\<lambda>ns n. on_fst (api_RO_Get A ns n)),
     api_RO_List = (\<lambda>ns. on_fst (api_RO_List A ns)),
     api_RO_UpdateStatus = (\<lambda>ns r. logging (CallUpdateStatusRO ns r) (api_RO_UpdateStatus A ns r)),
     api_Namespace_Get = (\<lambda>n. on_fst (api_Namespace_Get A n)),
     api_ConfigMap_Get = (\<lambda>ns n. on_fst (api_ConfigMap_Get A ns n)),
     api_Secret_Get = (\<lambda>ns n. on_fst (api_Secret_Get A ns n)),
     api_Secret_Delete = (\<lambda>ns n. logging (CallDeleteSecret ns n) (api_Secret_Delete A ns n)),
     api_Service_Get = (\<lambda>ns n. on_fst (api_Service_Get A ns n)),
     api_Deployment_Get = (\<lambda>ns n. on_fst (api_Deployment_Get A ns n)),
     api_DaemonSet_Delete = (\<lambda>ns n. logging (CallDeleteDaemonSet ns n) (api_DaemonSet_Delete A ns n)),
     api_APIService_Get = (\<lambda>n. on_fst (api_APIService_Get A n)),
     api_MWC_Get = (\<lambda>n. on_fst (api_MWC_Get A n)),
     api_MWC_Delete = (\<lambda>n. logging (CallDeleteMWC n) (api_MWC_Delete A n)),
     api_VAP_Get = (\<lambda>n. on_fst (api_VAP_Get A n)),
     api_VAPB_Get = (\<lambda>n. on_fst (api_VAPB_Get A n)),
     dyn_Create = (\<lambda>gvr ns u. logging (CallCreate gvr ns u) (dyn_Create A gvr ns u)),
     dyn_Get = (\<lambda>gvr ns n. on_fst (dyn_Get A gvr ns n)),
     dyn_Patch = (\<lambda>gvr ns n b. logging (CallPatch gvr ns n b) (dyn_Patch A gvr ns n b))\<rparr>"

lemma on_fst_trace: "on_fst f s = (r, s') \<Longrightarrow> snd s' = snd s"
  by (auto simp: on_fst_def split: prod.splits)

lemma logging_trace: "logging c f s = (r, s') \<Longrightarrow> snd s' = snd s @ [c]"
  by (auto simp: logging_def split: prod.splits)

lemma traced_simps [simp]:
  "api_Now (traced A) = on_fst (api_Now A)"
  "api_NewAddr (traced A) = on_fst (api_NewAddr A)"
  "api_CRO_Get (traced A) n = on_fst (api_CRO_Get A n)"
  "api_CRO_UpdateStatus (traced A) c = logging (CallUpdateStatusCRO c) (api_CRO_UpdateStatus A c)"
  "api_RO_Get (traced A) ns n = on_fst (api_RO_Get A ns n)"
  "api_RO_List (traced A) ns = on_fst (api_RO_List A ns)"
  "api_RO_UpdateStatus (traced A) ns ro = logging (CallUpdateStatusRO ns ro) (api_RO_UpdateStatus A ns ro)"
  "api_Namespace_Get (traced A) n = on_fst (api_Namespace_Get A n)"
  "api_ConfigMap_Get (traced A) ns n = on_fst (api_ConfigMap_Get A ns n)"
  "api_Secret_Get (traced A) ns n = on_fst (api_Secret_Get A ns n)"
  "api_Secret_Delete (traced A) ns n = logging (CallDeleteSecret ns n) (api_Secret_Delete A ns n)"
  "api_Service_Get (traced A) ns n = on_fst (api_Service_Get A ns n)"
  "api_Deployment_Get (traced A) ns n = on_fst (api_Deployment_Get A ns n)"
  "api_DaemonSet_Delete (traced A) ns n = logging (CallDeleteDaemonSet ns n) (api_DaemonSet_Delete A ns n)"
  "api_APIService_Get (traced A) n = on_fst (api_APIService_Get A n)"
  "api_MWC_Get (traced A) n = on_fst (api_MWC_Get A n)"
  "api_MWC_Delete (traced A) n = logging (CallDeleteMWC n) (api_MWC_Delete A n)"
  "api_VAP_Get (traced A) n = on_fst (api_VAP_Get A n)"
  "api_VAPB_Get (traced A) n = on_fst (api_VAPB_Get A n)"
  "dyn_Create (traced A) gvr ns u = logging (CallCreate gvr ns u) (dyn_Create A gvr ns u)"
  "dyn_Get (traced A) gvr ns n = on_fst (dyn_Get A gvr ns n)"
  "dyn_Patch (traced A) gvr ns n b = logging (CallPatch gvr ns n b) (dyn_Patch A gvr ns n b)"
  by (simp_all add: traced_def)

section \<open>Facts about the accessors\<close>

lemma SetNestedField_top:
  "f \<noteq> g \<Longrightarrow> map_of (SetNestedField m v (g # fs)) f = map_of m f"
  by (cases fs) (auto simp: update_conv split: option.splits json.splits)

lemma RemoveNestedField_top:
  "f \<noteq> g \<Longrightarrow> map_of (RemoveNestedField m (g # fs)) f = map_of m f"
  by (cases fs) (auto simp: update_conv delete_conv split: option.splits json.splits)

lemma SetUID_top: "f \<noteq> ''metadata'' \<Longrightarrow> map_of (u_SetUID uid u) f = map_of u f"
  by (simp add: u_SetUID_def SetNestedField_top RemoveNestedField_top
      del: SetNestedField.simps RemoveNestedField.simps)

lemma SetResourceVersion_top: "f \<noteq> ''metadata'' \<Longrightarrow> map_of (u_SetResourceVersion rv u) f = map_of u f"
  by (simp add: u_SetResourceVersion_def SetNestedField_top RemoveNestedField_top
      del: SetNestedField.simps RemoveNestedField.simps)

end
