(* ===== verification/Conditions.thy ===== *)
theory Conditions
  imports World
begin

text \<open>
  The condition builders of both controllers: pkg/clusterresourceoverride/internal/condition
  (builder.go, error.go) and pkg/resourceoverride/internal/condition (builder.go). Both keep at most
  one condition per type and move the transition time only when a condition changes; the locale
  \<open>condition_store\<close> states this contract, is used for every fact about a builder, and is
  interpreted on both.
\<close>

section \<open>The contract of a condition list\<close>

locale condition_store =
  fixes find_cond :: "'s \<Rightarrow> 't \<Rightarrow> 't Condition option"
    and put_cond :: "'t Condition option \<Rightarrow> 's \<Rightarrow> 's"
    and same_cond :: "'t Condition \<Rightarrow> 't Condition \<Rightarrow> bool"
    and cond_types :: "'s \<Rightarrow> 't list"
  assumes same_iff: "same_cond c d \<longleftrightarrow> cond_Type c = cond_Type d \<and> cond_Status c = cond_Status d
      \<and> cond_Reason c = cond_Reason d \<and> cond_Message c = cond_Message d"
    and put_none: "put_cond None s = s"
    and find_none_iff: "find_cond s t = None \<longleftrightarrow> t \<notin> set (cond_types s)"
    and find_type: "find_cond s t = Some c \<Longrightarrow> cond_Type c = t"
    and find_put_other: "t \<noteq> cond_Type d \<Longrightarrow> find_cond (put_cond (Some d) s) t = find_cond s t"
    and put_same: "find_cond s (cond_Type d) = Some c \<Longrightarrow> same_cond d c \<Longrightarrow> put_cond (Some d) s = s"
    and find_put_changed:
      "(\<forall>c. find_cond s (cond_Type d) = Some c \<longrightarrow> \<not> same_cond d c) \<Longrightarrow>
         find_cond (put_cond (Some d) s) (cond_Type d) = Some d"
    and types_put: "cond_types (put_cond (Some d) s) =
      (if find_cond s (cond_Type d) = None then cond_types s @ [cond_Type d] else cond_types s)"
begin

text \<open>What was put is there, up to the transition time.\<close>

lemma find_put: "\<exists>c. find_cond (put_cond (Some d) s) (cond_Type d) = Some c \<and> same_cond d c"
proof (cases "\<exists>c. find_cond s (cond_Type d) = Some c \<and> same_cond d c")
  case True
  then show ?thesis using put_same by metis
next
  case False
  then have "find_cond (put_cond (Some d) s) (cond_Type d) = Some d" by (intro find_put_changed) blast
  then show ?thesis by (simp add: same_iff)
qed

text \<open>The whole effect of a put.\<close>

lemma find_put_spec:
  "find_cond (put_cond (Some d) s) t =
     (if t = cond_Type d
      then Some (case find_cond s t of None \<Rightarrow> d | Some c \<Rightarrow> if same_cond d c then c else d)
      else find_cond s t)"
proof (cases "t = cond_Type d")
  case True
  show ?thesis
  proof (cases "\<exists>c. find_cond s t = Some c \<and> same_cond d c")
    case True
    with \<open>t = cond_Type d\<close> put_same [of s d] show ?thesis by auto
  next
    case False
    with \<open>t = cond_Type d\<close> find_put_changed [of s d] show ?thesis by (auto split: option.splits)
  qed
qed (simp add: find_put_other)

text \<open>No type occurs twice.\<close>

lemma distinct_put: "distinct (cond_types s) \<Longrightarrow> distinct (cond_types (put_cond (Some d) s))"
  by (simp add: types_put find_none_iff)

lemma put_keeps_types: "set (cond_types s) \<subseteq> set (cond_types (put_cond (Some d) s))"
  by (auto simp: types_put)

text \<open>The transition time moves only together with status, reason or message.\<close>

lemma transition:
  assumes "find_cond s t = Some c" and "find_cond (put_cond (Some d) s) t = Some c'"
  shows "c' = c \<or> (c' = d \<and> \<not> same_cond d c)"
proof (cases "t = cond_Type d")
  case True
  then show ?thesis using assms put_same find_put_changed by (metis option.inject)
next
  case False
  then show ?thesis using assms find_put_other by simp
qed

text \<open>Putting an equal condition again, at any later time, changes nothing.\<close>

lemma put_again:
  assumes "same_cond d' d"
  shows "put_cond (Some d') (put_cond (Some d) s) = put_cond (Some d) s"
proof -
  from assms have ty: "cond_Type d' = cond_Type d" by (simp add: same_iff)
  obtain c where "find_cond (put_cond (Some d) s) (cond_Type d') = Some c" and "same_cond d c"
    using find_put ty by metis
  moreover from this assms have "same_cond d' c" by (simp add: same_iff)
  ultimately show ?thesis by (blast intro: put_same)
qed

text \<open>A sequence of puts: the last one of a type decides.\<close>

lemma puts_other:
  "t \<notin> cond_Type ` set ds \<Longrightarrow> find_cond (fold (\<lambda>d. put_cond (Some d)) ds s) t = find_cond s t"
  by (induction ds arbitrary: s) (simp_all add: find_put_other)

lemma puts_last:
  assumes "cond_Type d \<notin> cond_Type ` set ds"
  shows "\<exists>c. find_cond (fold (\<lambda>d. put_cond (Some d)) (ds' @ d # ds) s) (cond_Type d) = Some c \<and> same_cond d c"
  using assms find_put by (simp add: puts_other)

lemma puts_distinct:
  "distinct (cond_types s) \<Longrightarrow> distinct (cond_types (fold (\<lambda>d. put_cond (Some d)) ds s))"
  by (induction ds arbitrary: s) (simp_all add: distinct_put)

end

section \<open>Lists of conditions\<close>

fun find_type_in :: "'t Condition list \<Rightarrow> 't \<Rightarrow> 't Condition option" where
  "find_type_in [] t = None"
| "find_type_in (c # cs) t = (if cond_Type c = t then Some c else find_type_in cs t)"

text \<open>Writing through the pointer that Find returned changes the first condition of the type.\<close>

fun update_first :: "'t \<Rightarrow> ('t Condition \<Rightarrow> 't Condition) \<Rightarrow> 't Condition list \<Rightarrow> 't Condition list" where
  "update_first t f [] = []"
| "update_first t f (c # cs) = (if cond_Type c = t then f c # cs else c # update_first t f cs)"

definition overwrite_condition :: "'t Condition \<Rightarrow> 't Condition \<Rightarrow> 't Condition" where
  "overwrite_condition desired current = current\<lparr>cond_Reason := cond_Reason desired,
     cond_Message := cond_Message desired, cond_Status := cond_Status desired,
     cond_LastTransitionTime := cond_LastTransitionTime desired\<rparr>"

definition slice :: "'a list option \<Rightarrow> 'a list" where
  "slice cs = (case cs of None \<Rightarrow> [] | Some cs \<Rightarrow> cs)"

lemma slice_simps [simp]: "slice None = []" "slice (Some cs) = cs"
  by (simp_all add: slice_def)

lemma find_type_in_None: "find_type_in cs t = None \<longleftrightarrow> t \<notin> cond_Type ` set cs"
  by (induction cs) auto

lemma find_type_in_Some: "find_type_in cs t = Some c \<Longrightarrow> cond_Type c = t"
  by (induction cs) (auto split: if_splits)

lemma find_type_in_append:
  "find_type_in (cs @ ds) t = (case find_type_in cs t of None \<Rightarrow> find_type_in ds t | Some c \<Rightarrow> Some c)"
  by (induction cs) auto

lemma find_type_in_update_first:
  "(\<And>c. cond_Type (f c) = cond_Type c) \<Longrightarrow>
     find_type_in (update_first t f cs) t' =
       (if t' = t then map_option f (find_type_in cs t) else find_type_in cs t')"
  by (induction cs) auto

lemma types_update_first:
  "(\<And>c. cond_Type (f c) = cond_Type c) \<Longrightarrow> map cond_Type (update_first t f cs) = map cond_Type cs"
  by (induction cs) auto

lemma overwrite_condition_Type [simp]: "cond_Type (overwrite_condition d c) = cond_Type c"
  by (simp add: overwrite_condition_def)

lemma overwrite_condition_eq: "cond_Type c = cond_Type d \<Longrightarrow> overwrite_condition d c = d"
  by (simp add: overwrite_condition_def)

section \<open>ClusterResourceOverride: errors (error.go)\<close>

text \<open>
  An error a handler returns: a plain one, or one of the two typed errors that carry a reason and
  become a condition. The wrapped error may be nil; reading its message then panics.
\<close>

datatype handler_error =
    PlainError error
  | InstallReadinessError string "error option"
  | AvailableError string "error option"

definition NewInstallReadinessError :: "string \<Rightarrow> error option \<Rightarrow> handler_error" where
  "NewInstallReadinessError reason err = InstallReadinessError reason err"

definition NewAvailableError :: "string \<Rightarrow> error option \<Rightarrow> handler_error" where
  "NewAvailableError reason err = AvailableError reason err"

fun handler_error_Error :: "handler_error \<Rightarrow> string outcome" where
  "handler_error_Error (PlainError e) = Returned (Error e)"
| "handler_error_Error (InstallReadinessError reason (Some e)) = Returned (Error e)"
| "handler_error_Error (InstallReadinessError reason None) = Panicked"
| "handler_error_Error (AvailableError reason (Some e)) = Returned (Error e)"
| "handler_error_Error (AvailableError reason None) = Panicked"

fun FromError :: "handler_error \<Rightarrow> time \<Rightarrow> ClusterResourceOverrideCondition option outcome" where
  "FromError (InstallReadinessError reason err) t =
     outcome_bind (handler_error_Error (InstallReadinessError reason err)) (\<lambda>msg.
       Returned (Some \<lparr>cond_Type = InstallReadinessFailure, cond_Status = ConditionTrue,
         cond_Reason = reason, cond_Message = msg, cond_LastTransitionTime = t\<rparr>))"
| "FromError (AvailableError reason err) t =
     outcome_bind (handler_error_Error (AvailableError reason err)) (\<lambda>msg.
       Returned (Some \<lparr>cond_Type = Available, cond_Status = ConditionFalse,
         cond_Reason = reason, cond_Message = msg, cond_LastTransitionTime = t\<rparr>))"
| "FromError (PlainError e) t = Returned None"

section \<open>ClusterResourceOverride: builder (builder.go)\<close>

definition cro_Find :: "ClusterResourceOverrideStatus \<Rightarrow> ClusterResourceOverrideConditionType
    \<Rightarrow> ClusterResourceOverrideCondition option" where
  "cro_Find status conditionType = find_type_in (slice (st_Conditions status)) conditionType"

definition cro_Equal :: "ClusterResourceOverrideCondition \<Rightarrow> ClusterResourceOverrideCondition \<Rightarrow> bool" where
  "cro_Equal this that \<longleftrightarrow> cond_Type this = cond_Type that \<and> cond_Status this = cond_Status that
     \<and> cond_Reason this = cond_Reason that \<and> cond_Message this = cond_Message that"

definition DeepCopyWithDefaultLastTransitionTime ::
  "ClusterResourceOverrideStatus \<Rightarrow> ClusterResourceOverrideStatus" where
  "DeepCopyWithDefaultLastTransitionTime status = status\<lparr>st_Conditions :=
     map_option (map (\<lambda>c. c\<lparr>cond_LastTransitionTime := zero_time\<rparr>)) (st_Conditions status)\<rparr>"

definition cro_init :: "ClusterResourceOverrideStatus \<Rightarrow> ClusterResourceOverrideStatus" where
  "cro_init status = (if st_Conditions status = None then status\<lparr>st_Conditions := Some []\<rparr> else status)"

definition cro_WithCondition :: "ClusterResourceOverrideCondition option
    \<Rightarrow> ClusterResourceOverrideStatus \<Rightarrow> ClusterResourceOverrideStatus" where
  "cro_WithCondition desired status = (case desired of
     None \<Rightarrow> status
   | Some desired \<Rightarrow>
       (case cro_Find status (cond_Type desired) of
          None \<Rightarrow> status\<lparr>st_Conditions := Some (slice (st_Conditions status) @ [desired])\<rparr>
        | Some current \<Rightarrow>
            if cro_Equal desired current then status
            else status\<lparr>st_Conditions := Some (update_first (cond_Type desired)
                   (overwrite_condition desired) (slice (st_Conditions status)))\<rparr>))"

definition WithError :: "'w api \<Rightarrow> handler_error option \<Rightarrow> ClusterResourceOverrideStatus \<Rightarrow> 'w
    \<Rightarrow> ClusterResourceOverrideStatus outcome \<times> 'w" where
  "WithError A err status w = (case err of
     None \<Rightarrow> (Returned status, w)
   | Some e \<Rightarrow>
       let status1 = cro_init status; (now, w1) = api_Now A w
       in (outcome_bind (FromError e now) (\<lambda>desired. Returned (cro_WithCondition desired status1)), w1))"

definition WithInstallReady :: "'w api \<Rightarrow> ClusterResourceOverrideStatus \<Rightarrow> 'w
    \<Rightarrow> ClusterResourceOverrideStatus \<times> 'w" where
  "WithInstallReady A status w =
     (let status1 = cro_init status; (now, w1) = api_Now A w;
          desired = \<lparr>cond_Type = InstallReadinessFailure, cond_Status = ConditionFalse,
            cond_Reason = [], cond_Message = [], cond_LastTransitionTime = now\<rparr>
      in (cro_WithCondition (Some desired) status1, w1))"

definition WithAvailable :: "'w api \<Rightarrow> ConditionStatus \<Rightarrow> string \<Rightarrow> ClusterResourceOverrideStatus \<Rightarrow> 'w
    \<Rightarrow> ClusterResourceOverrideStatus \<times> 'w" where
  "WithAvailable A available message status w =
     (let status1 = cro_init status; (now, w1) = api_Now A w;
          desired = \<lparr>cond_Type = Available, cond_Status = available,
            cond_Reason = [], cond_Message = message, cond_LastTransitionTime = now\<rparr>
      in (cro_WithCondition (Some desired) status1, w1))"

definition cro_cond_types :: "ClusterResourceOverrideStatus \<Rightarrow> ClusterResourceOverrideConditionType list" where
  "cro_cond_types status = map cond_Type (slice (st_Conditions status))"

interpretation cro_conds: condition_store cro_Find cro_WithCondition cro_Equal cro_cond_types
proof unfold_locales
  fix s :: ClusterResourceOverrideStatus and d c t
  show "cro_Equal c d \<longleftrightarrow> cond_Type c = cond_Type d \<and> cond_Status c = cond_Status d
      \<and> cond_Reason c = cond_Reason d \<and> cond_Message c = cond_Message d" for c d
    by (rule cro_Equal_def)
  show "cro_WithCondition None s = s" by (simp add: cro_WithCondition_def)
  show "cro_Find s t = None \<longleftrightarrow> t \<notin> set (cro_cond_types s)"
    by (simp add: cro_Find_def cro_cond_types_def find_type_in_None)
  show "cro_Find s t = Some c \<Longrightarrow> cond_Type c = t"
    by (simp add: cro_Find_def find_type_in_Some)
  show "t \<noteq> cond_Type d \<Longrightarrow> cro_Find (cro_WithCondition (Some d) s) t = cro_Find s t"
    by (auto simp: cro_Find_def cro_WithCondition_def find_type_in_append find_type_in_update_first
        split: option.splits)
  show "cro_Find s (cond_Type d) = Some c \<Longrightarrow> cro_Equal d c \<Longrightarrow> cro_WithCondition (Some d) s = s"
    by (simp add: cro_WithCondition_def)
  show "\<forall>c. cro_Find s (cond_Type d) = Some c \<longrightarrow> \<not> cro_Equal d c \<Longrightarrow>
      cro_Find (cro_WithCondition (Some d) s) (cond_Type d) = Some d"
    by (auto simp: cro_Find_def cro_WithCondition_def find_type_in_append find_type_in_update_first
        find_type_in_Some overwrite_condition_eq split: option.splits)
  show "cro_cond_types (cro_WithCondition (Some d) s) =
      (if cro_Find s (cond_Type d) = None then cro_cond_types s @ [cond_Type d] else cro_cond_types s)"
    by (auto simp: cro_Find_def cro_WithCondition_def cro_cond_types_def types_update_first
        split: option.splits)
qed

section \<open>ResourceOverride: builder (builder.go)\<close>

definition ro_Find :: "ResourceOverrideStatus \<Rightarrow> ResourceOverrideConditionType
    \<Rightarrow> ResourceOverrideCondition option" where
  "ro_Find status conditionType = find_type_in (slice (ro_Conditions status)) conditionType"

definition ro_Equal :: "ResourceOverrideCondition \<Rightarrow> ResourceOverrideCondition \<Rightarrow> bool" where
  "ro_Equal this that \<longleftrightarrow> cond_Type this = cond_Type that \<and> cond_Status this = cond_Status that
     \<and> cond_Reason this = cond_Reason that \<and> cond_Message this = cond_Message that"

definition ro_init :: "ResourceOverrideStatus \<Rightarrow> ResourceOverrideStatus" where
  "ro_init status = (if ro_Conditions status = None then status\<lparr>ro_Conditions := Some []\<rparr> else status)"

definition ro_WithCondition :: "ResourceOverrideCondition option
    \<Rightarrow> ResourceOverrideStatus \<Rightarrow> ResourceOverrideStatus" where
  "ro_WithCondition desired status = (case desired of
     None \<Rightarrow> status
   | Some desired \<Rightarrow>
       (case ro_Find status (cond_Type desired) of
          None \<Rightarrow> status\<lparr>ro_Conditions := Some (slice (ro_Conditions status) @ [desired])\<rparr>
        | Some current \<Rightarrow>
            if ro_Equal desired current then status
            else status\<lparr>ro_Conditions := Some (update_first (cond_Type desired)
                   (overwrite_condition desired) (slice (ro_Conditions status)))\<rparr>))"

definition WithValidationFailure :: "'w api \<Rightarrow> string \<Rightarrow> string \<Rightarrow> ResourceOverrideStatus \<Rightarrow> 'w
    \<Rightarrow> ResourceOverrideStatus \<times> 'w" where
  "WithValidationFailure A reason message status w =
     (let status1 = ro_init status; (now, w1) = api_Now A w;
          desired = \<lparr>cond_Type = ValidationFailure, cond_Status = ConditionTrue,
            cond_Reason = reason, cond_Message = message, cond_LastTransitionTime = now\<rparr>
      in (ro_WithCondition (Some desired) status1, w1))"

definition WithValidationCleared :: "'w api \<Rightarrow> ResourceOverrideStatus \<Rightarrow> 'w
    \<Rightarrow> ResourceOverrideStatus \<times> 'w" where
  "WithValidationCleared A status w =
     (let status1 = ro_init status; (now, w1) = api_Now A w;
          desired = \<lparr>cond_Type = ValidationFailure, cond_Status = ConditionFalse,
            cond_Reason = [], cond_Message = [], cond_LastTransitionTime = now\<rparr>
      in (ro_WithCondition (Some desired) status1, w1))"

definition WithIgnored :: "'w api \<Rightarrow> string \<Rightarrow> string \<Rightarrow> ResourceOverrideStatus \<Rightarrow> 'w
    \<Rightarrow> ResourceOverrideStatus \<times> 'w" where
  "WithIgnored A reason message status w =
     (let status1 = ro_init status; (now, w1) = api_Now A w;
          desired = \<lparr>cond_Type = Ignored, cond_Status = ConditionTrue,
            cond_Reason = reason, cond_Message = message, cond_LastTransitionTime = now\<rparr>
      in (ro_WithCondition (Some desired) status1, w1))"

definition WithIgnoredCleared :: "'w api \<Rightarrow> ResourceOverrideStatus \<Rightarrow> 'w
    \<Rightarrow> ResourceOverrideStatus \<times> 'w" where
  "WithIgnoredCleared A status w =
     (let status1 = ro_init status; (now, w1) = api_Now A w;
          desired = \<lparr>cond_Type = Ignored, cond_Status = ConditionFalse,
            cond_Reason = [], cond_Message = [], cond_LastTransitionTime = now\<rparr>
      in (ro_WithCondition (Some desired) status1, w1))"

definition ro_cond_types :: "ResourceOverrideStatus \<Rightarrow> ResourceOverrideConditionType list" where
  "ro_cond_types status = map cond_Type (slice (ro_Conditions status))"

interpretation ro_conds: condition_store ro_Find ro_WithCondition ro_Equal ro_cond_types
proof unfold_locales
  fix s :: ResourceOverrideStatus and d c t
  show "ro_Equal c d \<longleftrightarrow> cond_Type c = cond_Type d \<and> cond_Status c = cond_Status d
      \<and> cond_Reason c = cond_Reason d \<and> cond_Message c = cond_Message d" for c d
    by (rule ro_Equal_def)
  show "ro_WithCondition None s = s" by (simp add: ro_WithCondition_def)
  show "ro_Find s t = None \<longleftrightarrow> t \<notin> set (ro_cond_types s)"
    by (simp add: ro_Find_def ro_cond_types_def find_type_in_None)
  show "ro_Find s t = Some c \<Longrightarrow> cond_Type c = t"
    by (simp add: ro_Find_def find_type_in_Some)
  show "t \<noteq> cond_Type d \<Longrightarrow> ro_Find (ro_WithCondition (Some d) s) t = ro_Find s t"
    by (auto simp: ro_Find_def ro_WithCondition_def find_type_in_append find_type_in_update_first
        split: option.splits)
  show "ro_Find s (cond_Type d) = Some c \<Longrightarrow> ro_Equal d c \<Longrightarrow> ro_WithCondition (Some d) s = s"
    by (simp add: ro_WithCondition_def)
  show "\<forall>c. ro_Find s (cond_Type d) = Some c \<longrightarrow> \<not> ro_Equal d c \<Longrightarrow>
      ro_Find (ro_WithCondition (Some d) s) (cond_Type d) = Some d"
    by (auto simp: ro_Find_def ro_WithCondition_def find_type_in_append find_type_in_update_first
        find_type_in_Some overwrite_condition_eq split: option.splits)
  show "ro_cond_types (ro_WithCondition (Some d) s) =
      (if ro_Find s (cond_Type d) = None then ro_cond_types s @ [cond_Type d] else ro_cond_types s)"
    by (auto simp: ro_Find_def ro_WithCondition_def ro_cond_types_def types_update_first
        split: option.splits)
qed

section \<open>What the builders leave alone\<close>

lemma cro_init_simps [simp]:
  "cro_Find (cro_init s) t = cro_Find s t" "cro_cond_types (cro_init s) = cro_cond_types s"
  "st_Resources (cro_init s) = st_Resources s" "st_HashConfiguration (cro_init s) = st_HashConfiguration s"
  "st_Version (cro_init s) = st_Version s" "st_Image (cro_init s) = st_Image s"
  by (simp_all add: cro_init_def cro_Find_def cro_cond_types_def)

lemma ro_init_simps [simp]:
  "ro_Find (ro_init s) t = ro_Find s t" "ro_cond_types (ro_init s) = ro_cond_types s"
  by (simp_all add: ro_init_def ro_Find_def ro_cond_types_def)

lemma cro_WithCondition_frame [frame, simp]:
  "st_Resources (cro_WithCondition d s) = st_Resources s"
  "st_HashConfiguration (cro_WithCondition d s) = st_HashConfiguration s"
  "st_Version (cro_WithCondition d s) = st_Version s"
  "st_Image (cro_WithCondition d s) = st_Image s"
  by (simp_all add: cro_WithCondition_def split: option.splits)

lemma WithError_frame [frame]:
  assumes "WithError A err s w = (Returned s', w')"
  shows "st_Resources s' = st_Resources s" and "st_HashConfiguration s' = st_HashConfiguration s"
    and "st_Version s' = st_Version s" and "st_Image s' = st_Image s"
  using assms by (auto simp: WithError_def Let_def split: option.splits prod.splits)

lemma WithInstallReady_frame [frame]:
  assumes "WithInstallReady A s w = (s', w')"
  shows "st_Resources s' = st_Resources s" and "st_HashConfiguration s' = st_HashConfiguration s"
    and "st_Version s' = st_Version s" and "st_Image s' = st_Image s"
  using assms by (auto simp: WithInstallReady_def Let_def split: prod.splits)

lemma WithAvailable_frame [frame]:
  assumes "WithAvailable A a m s w = (s', w')"
  shows "st_Resources s' = st_Resources s" and "st_HashConfiguration s' = st_HashConfiguration s"
    and "st_Version s' = st_Version s" and "st_Image s' = st_Image s"
  using assms by (auto simp: WithAvailable_def Let_def split: prod.splits)

text \<open>
  Putting a condition affects its own type only; the stored condition, with its transition time,
  is replaced only when status, reason or message differ. Both builders behave this way.
\<close>

lemma condition_put:
  "cro_Find (cro_WithCondition (Some d) s) t =
     (if t = cond_Type d
      then Some (case cro_Find s t of None \<Rightarrow> d | Some c \<Rightarrow> if cro_Equal d c then c else d)
      else cro_Find s t)
   \<and> ro_Find (ro_WithCondition (Some d') s') t' =
     (if t' = cond_Type d'
      then Some (case ro_Find s' t' of None \<Rightarrow> d' | Some c \<Rightarrow> if ro_Equal d' c then c else d')
      else ro_Find s' t')"
  by (intro conjI cro_conds.find_put_spec ro_conds.find_put_spec)

end
