(* ===== verification/Dynamic.thy ===== *)
theory Dynamic
  imports World
begin

text \<open>
  pkg/dynamic: the generic create-or-patch operation on unstructured objects; pkg/ensurer: its typed
  wrappers, one per kind.
\<close>

section \<open>Helpers (dynamic.go)\<close>

definition GetGVR :: "string \<Rightarrow> Unstructured \<Rightarrow> GroupVersionResource" where
  "GetGVR resource u = (let gvk = u_GroupVersionKind u
     in \<lparr>gvr_Group = gvk_Group gvk, gvr_Version = gvk_Version gvk, gvr_Resource = resource\<rparr>)"

definition ToUnstructured :: "lib \<Rightarrow> runtime_object \<Rightarrow> error + Unstructured" where
  "ToUnstructured L object = (case lib_ToUnstructured L object of Inl e \<Rightarrow> Inl e | Inr raw \<Rightarrow> Inr raw)"

definition PatchWithUnstructured ::
  "lib \<Rightarrow> Unstructured \<Rightarrow> Unstructured \<Rightarrow> runtime_object \<Rightarrow> error + string" where
  "PatchWithUnstructured L original modified datastruct =
     (case lib_MarshalJSON L original of
        Inl e \<Rightarrow> Inl e
      | Inr originalData \<Rightarrow>
          (case lib_MarshalJSON L modified of
             Inl e \<Rightarrow> Inl e
           | Inr modifiedData \<Rightarrow> lib_CreateTwoWayMergePatch L originalData modifiedData datastruct))"

section \<open>Ensure (ensurer.go)\<close>

text \<open>The lists an API server controller fills in on a service account are carried over.\<close>

definition keep_slice :: "string \<Rightarrow> Unstructured \<Rightarrow> Unstructured \<Rightarrow> Unstructured" where
  "keep_slice field original modified = (case NestedSlice original [field] of
     Inr (Some l) \<Rightarrow> SetNestedField modified (JList l) [field]
   | _ \<Rightarrow> modified)"

text \<open>
  The object Ensure patches towards: the desired one with the stored resource version and UID. A
  failure to compute the patch is assigned to \<open>err\<close>, which the following Patch call overwrites; the
  patch sent is then empty.
\<close>

definition prepare_modified :: "Unstructured \<Rightarrow> Unstructured \<Rightarrow> Unstructured" where
  "prepare_modified original modified =
     (let kind = u_GetKind modified;
          m1 = u_SetResourceVersion (u_GetResourceVersion original) modified;
          m2 = u_SetUID (u_GetUID original) m1
      in if kind = ''ServiceAccount''
         then keep_slice ''imagePullSecrets'' original (keep_slice ''secrets'' original m2)
         else m2)"

definition client_Ensure ::
  "lib \<Rightarrow> 'w api \<Rightarrow> string \<Rightarrow> runtime_object \<Rightarrow> 'w \<Rightarrow> (error + Unstructured) \<times> 'w" where
  "client_Ensure L A resource object w =
     (case ToUnstructured L object of
        Inl e \<Rightarrow> (Inl (ErrorString (''failed to convert to unstructured - '' @ Error e)), w)
      | Inr modified \<Rightarrow>
          let kind = u_GetKind modified; gvr = GetGVR resource modified; ns = u_GetNamespace modified in
          (case dyn_Create A gvr ns modified w of
             (Inr created, w1) \<Rightarrow> (Inr created, w1)
           | (Inl createErr, w1) \<Rightarrow>
               if \<not> IsAlreadyExists createErr
               then (Inl (ErrorString (''failed to create '' @ kind @ '' - '' @ Error createErr)), w1)
               else (case dyn_Get A gvr ns (u_GetName modified) w1 of
                  (Inl getErr, w2) \<Rightarrow>
                    (Inl (ErrorString (''failed to retrieve '' @ kind @ '' - '' @ Error getErr)), w2)
                | (Inr original, w2) \<Rightarrow>
                    let modified' = prepare_modified original modified;
                        bytes = (case PatchWithUnstructured L original modified' object of
                                   Inl patchErr \<Rightarrow> [] | Inr bytes \<Rightarrow> bytes)
                    in dyn_Patch A gvr ns (u_GetName modified') bytes w2)))"

section \<open>Typed ensurers (pkg/ensurer)\<close>

definition ConfigMapEnsurer_Ensure ::
  "lib \<Rightarrow> 'w api \<Rightarrow> ConfigMap \<Rightarrow> 'w \<Rightarrow> (error + ConfigMap) \<times> 'w" where
  "ConfigMapEnsurer_Ensure L A configmap w =
     (case client_Ensure L A ''configmaps'' (RtConfigMap configmap) w of
        (Inl errGot, w1) \<Rightarrow> (Inl errGot, w1)
      | (Inr u, w1) \<Rightarrow> (case lib_AsConfigMap L u of
           Inl conversionErr \<Rightarrow> (Inl conversionErr, w1) | Inr current \<Rightarrow> (Inr current, w1)))"

definition ServiceEnsurer_Ensure ::
  "lib \<Rightarrow> 'w api \<Rightarrow> Service \<Rightarrow> 'w \<Rightarrow> (error + Service) \<times> 'w" where
  "ServiceEnsurer_Ensure L A service w =
     (case client_Ensure L A ''services'' (RtService service) w of
        (Inl errGot, w1) \<Rightarrow> (Inl errGot, w1)
      | (Inr u, w1) \<Rightarrow> (case lib_AsService L u of
           Inl conversionErr \<Rightarrow> (Inl conversionErr, w1) | Inr current \<Rightarrow> (Inr current, w1)))"

definition DeploymentEnsurer_Ensure ::
  "lib \<Rightarrow> 'w api \<Rightarrow> Deployment \<Rightarrow> 'w \<Rightarrow> (error + Deployment) \<times> 'w" where
  "DeploymentEnsurer_Ensure L A deployment w =
     (case client_Ensure L A ''deployments'' (RtDeployment deployment) w of
        (Inl errGot, w1) \<Rightarrow> (Inl errGot, w1)
      | (Inr u, w1) \<Rightarrow> (case lib_AsDeployment L u of
           Inl conversionErr \<Rightarrow> (Inl conversionErr, w1) | Inr current \<Rightarrow> (Inr current, w1)))"

definition APIServiceEnsurer_Ensure ::
  "lib \<Rightarrow> 'w api \<Rightarrow> APIService \<Rightarrow> 'w \<Rightarrow> (error + APIService) \<times> 'w" where
  "APIServiceEnsurer_Ensure L A apiservice w =
     (case client_Ensure L A ''apiservices'' (RtAPIService apiservice) w of
        (Inl errGot, w1) \<Rightarrow> (Inl errGot, w1)
      | (Inr u, w1) \<Rightarrow> (case lib_AsAPIService L u of
           Inl conversionErr \<Rightarrow> (Inl conversionErr, w1) | Inr current \<Rightarrow> (Inr current, w1)))"

definition MutatingWebhookConfigurationEnsurer_Ensure ::
  "lib \<Rightarrow> 'w api \<Rightarrow> MutatingWebhookConfiguration \<Rightarrow> 'w \<Rightarrow> (error + MutatingWebhookConfiguration) \<times> 'w" where
  "MutatingWebhookConfigurationEnsurer_Ensure L A configuration w =
     (case client_Ensure L A ''mutatingwebhookconfigurations'' (RtMutatingWebhookConfiguration configuration) w of
        (Inl errGot, w1) \<Rightarrow> (Inl errGot, w1)
      | (Inr u, w1) \<Rightarrow> (case lib_AsMutatingWebhookConfiguration L u of
           Inl conversionErr \<Rightarrow> (Inl conversionErr, w1) | Inr current \<Rightarrow> (Inr current, w1)))"

definition ValidatingAdmissionPolicyEnsurer_Ensure ::
  "lib \<Rightarrow> 'w api \<Rightarrow> ValidatingAdmissionPolicy \<Rightarrow> 'w \<Rightarrow> (error + ValidatingAdmissionPolicy) \<times> 'w" where
  "ValidatingAdmissionPolicyEnsurer_Ensure L A configuration w =
     (case client_Ensure L A ''validatingadmissionpolicies'' (RtValidatingAdmissionPolicy configuration) w of
        (Inl errGot, w1) \<Rightarrow> (Inl errGot, w1)
      | (Inr u, w1) \<Rightarrow> (case lib_AsValidatingAdmissionPolicy L u of
           Inl conversionErr \<Rightarrow> (Inl conversionErr, w1) | Inr current \<Rightarrow> (Inr current, w1)))"

definition ValidatingAdmissionPolicyBindingEnsurer_Ensure ::
  "lib \<Rightarrow> 'w api \<Rightarrow> ValidatingAdmissionPolicyBinding \<Rightarrow> 'w \<Rightarrow> (error + ValidatingAdmissionPolicyBinding) \<times> 'w" where
  "ValidatingAdmissionPolicyBindingEnsurer_Ensure L A configuration w =
     (case client_Ensure L A ''validatingadmissionpolicybindings'' (RtValidatingAdmissionPolicyBinding configuration) w of
        (Inl errGot, w1) \<Rightarrow> (Inl errGot, w1)
      | (Inr u, w1) \<Rightarrow> (case lib_AsValidatingAdmissionPolicyBinding L u of
           Inl conversionErr \<Rightarrow> (Inl conversionErr, w1) | Inr current \<Rightarrow> (Inr current, w1)))"

end
