(* ===== verification/Asset.thy ===== *)
theory Asset
  imports ApiTypes
begin

text \<open>
  pkg/asset: the names and the desired objects of everything the operator installs. \<open>Values\<close> is
  computed once from the operand context; each component builds its object from it. Fields the source
  leaves at their zero value and that the model does not carry are omitted from the records.
\<close>

section \<open>Values (asset.go)\<close>

record Values =
  v_Name :: string
  v_Namespace :: string
  v_ServiceAccountName :: string
  v_OperandImage :: string
  v_OperandVersion :: string
  v_AdmissionAPIGroup :: string
  v_AdmissionAPIVersion :: string
  v_AdmissionAPIResource :: string
  v_NamespaceOptInLabelKey :: string
  v_OwnerLabelKey :: string
  v_OwnerLabelValue :: string
  v_SelectorLabelKey :: string
  v_SelectorLabelValue :: string
  v_ConfigurationKey :: string
  v_ConfigurationHashAnnotationKey :: string
  v_ServingCertHashAnnotationKey :: string
  v_OwnerAnnotationKey :: string
  v_TLSProfileHashAnnotationKey :: string

definition NamespaceOptInLabelKey :: string where
  "NamespaceOptInLabelKey = ''clusterresourceoverrides.admission.autoscaling.openshift.io/enabled''"

definition asset_New :: "OperandContext \<Rightarrow> Values" where
  "asset_New context = \<lparr>
     v_Name = WebhookName context,
     v_Namespace = WebhookNamespace context,
     v_ServiceAccountName = WebhookName context,
     v_OperandImage = OperandImage context,
     v_OperandVersion = OperandVersion context,
     v_AdmissionAPIGroup = ''admission.autoscaling.openshift.io'',
     v_AdmissionAPIVersion = ''v1'',
     v_AdmissionAPIResource = ''clusterresourceoverrides'',
     v_NamespaceOptInLabelKey = NamespaceOptInLabelKey,
     v_OwnerLabelKey = ''operator.autoscaling.openshift.io/clusterresourceoverride'',
     v_OwnerLabelValue = ''true'',
     v_SelectorLabelKey = ''clusterresourceoverride'',
     v_SelectorLabelValue = ''true'',
     v_ConfigurationKey = ''configuration.yaml'',
     v_ConfigurationHashAnnotationKey = WebhookName context @ ''.'' @ operator_GroupName @ ''/configuration.hash'',
     v_ServingCertHashAnnotationKey = WebhookName context @ ''.'' @ operator_GroupName @ ''/servingcert.hash'',
     v_OwnerAnnotationKey = WebhookName context @ ''.'' @ operator_GroupName @ ''/owner'',
     v_TLSProfileHashAnnotationKey = WebhookName context @ ''.'' @ operator_GroupName @ ''/tls-profile.hash''\<rparr>"

section \<open>Configuration map (configuration.go)\<close>

definition configuration_Name :: "Values \<Rightarrow> string" where
  "configuration_Name v = v_Name v @ ''-configuration''"

definition configuration_New :: "Values \<Rightarrow> ConfigMap" where
  "configuration_New v = \<lparr>
     o_TypeMeta = \<lparr>tm_Kind = ''ConfigMap'', tm_APIVersion = ''v1''\<rparr>,
     o_Meta = new_ObjectMeta (configuration_Name v) (v_Namespace v)
       [(v_OwnerLabelKey v, v_OwnerLabelValue v)] [],
     cm_Data = [(v_ConfigurationKey v, [])]\<rparr>"

section \<open>Serving certificate secret (secret.go), service (service.go), daemon set (daemonset.go)\<close>

definition SecretNamePrefix :: string where
  "SecretNamePrefix = ''server-serving-cert''"

definition serviceServingSecret_Name :: "Values \<Rightarrow> string" where
  "serviceServingSecret_Name v = SecretNamePrefix @ ''-'' @ v_Name v"

definition serviceServingSecret_New :: "Values \<Rightarrow> Secret" where
  "serviceServingSecret_New v = \<lparr>
     o_TypeMeta = \<lparr>tm_Kind = ''Secret'', tm_APIVersion = ''v1''\<rparr>,
     o_Meta = new_ObjectMeta (serviceServingSecret_Name v) (v_Namespace v) [] [],
     sec_Type = ''kubernetes.io/tls'',
     sec_Data = [(''tls.crt'', []), (''tls.key'', [])]\<rparr>"

definition ServingCertSecretAnnotationName :: string where
  "ServingCertSecretAnnotationName = ''service.alpha.openshift.io/serving-cert-secret-name''"

definition service_Name :: "Values \<Rightarrow> string" where
  "service_Name v = v_Name v"

definition service_New :: "Values \<Rightarrow> Service" where
  "service_New v = \<lparr>
     o_TypeMeta = \<lparr>tm_Kind = ''Service'', tm_APIVersion = ''v1''\<rparr>,
     o_Meta = new_ObjectMeta (v_Name v) (v_Namespace v)
       [(v_OwnerLabelKey v, v_OwnerLabelValue v)]
       [(ServingCertSecretAnnotationName, serviceServingSecret_Name v)],
     svc_Selector = [(v_SelectorLabelKey v, v_SelectorLabelValue v)],
     svc_Ports = [\<lparr>sp_Port = 443, sp_TargetPort = 9400\<rparr>]\<rparr>"

definition daemonset_Name :: "Values \<Rightarrow> string" where
  "daemonset_Name v = v_Name v"

section \<open>Deployment (deployment.go)\<close>

text \<open>
  The package variable \<open>tolerationSeconds\<close> has an address chosen by the linker, a parameter of the
  definitions that point to it.
\<close>

definition DefaultReplicas :: int32 where
  "DefaultReplicas = 2"

definition DefaultNodeSelector :: go_map where
  "DefaultNodeSelector = []"

definition DefaultTolerations :: "addr \<Rightarrow> Toleration list" where
  "DefaultTolerations tolerationSeconds =
     [\<lparr>tol_Key = ''node.kubernetes.io/unreachable'', tol_Operator = ''Exists'', tol_Value = [],
        tol_Effect = ''NoExecute'', tol_TolerationSeconds = Some (Ptr tolerationSeconds 120)\<rparr>,
      \<lparr>tol_Key = ''node.kubernetes.io/not-ready'', tol_Operator = ''Exists'', tol_Value = [],
        tol_Effect = ''NoExecute'', tol_TolerationSeconds = Some (Ptr tolerationSeconds 120)\<rparr>]"

definition deployment_Name :: "Values \<Rightarrow> string" where
  "deployment_Name v = v_Name v"

definition deployment_Container :: "Values \<Rightarrow> Container" where
  "deployment_Container v = \<lparr>
     ctr_Name = deployment_Name v,
     ctr_Image = v_OperandImage v,
     ctr_ImagePullPolicy = ''Always'',
     ctr_Command = [''/usr/bin/cluster-resource-override-admission''],
     ctr_Args = [''--secure-port=9400'', ''--tls-cert-file=/var/serving-cert/tls.crt'',
       ''--tls-private-key-file=/var/serving-cert/tls.key'', ''--v=8''],
     ctr_Env = [(''CONFIGURATION_PATH'', ''/etc/clusterresourceoverride/config/override.yaml'')],
     ctr_Ports = [9400],
     ctr_SecurityContext = \<lparr>sc_AllowPrivilegeEscalation = False, sc_CapabilitiesDrop = [''ALL''],
       sc_RunAsNonRoot = True, sc_SeccompProfileType = ''RuntimeDefault''\<rparr>,
     ctr_VolumeMounts =
       [\<lparr>vm_Name = ''serving-cert'', vm_MountPath = ''/var/serving-cert'', vm_SubPath = []\<rparr>,
        \<lparr>vm_Name = ''configuration'', vm_MountPath = ''/etc/clusterresourceoverride/config/override.yaml'',
          vm_SubPath = v_ConfigurationKey v\<rparr>],
     ctr_ReadinessProbe = \<lparr>probe_Path = ''/healthz'', probe_Port = 9400, probe_Scheme = ''HTTPS''\<rparr>\<rparr>"

definition deployment_PodSpec :: "addr \<Rightarrow> Values \<Rightarrow> PodSpec" where
  "deployment_PodSpec tolerationSeconds v = \<lparr>
     pod_NodeSelector = DefaultNodeSelector,
     pod_ServiceAccountName = v_ServiceAccountName v,
     pod_Containers = [deployment_Container v],
     pod_Volumes =
       [\<lparr>vol_Name = ''serving-cert'', vol_Source = SecretVolume (serviceServingSecret_Name v) 420\<rparr>,
        \<lparr>vol_Name = ''configuration'', vol_Source = ConfigMapVolume (configuration_Name v)\<rparr>],
     pod_Tolerations = DefaultTolerations tolerationSeconds,
     pod_AntiAffinity =
       [\<lparr>pat_LabelSelector = \<lparr>ls_MatchLabels = [], ls_MatchExpressions =
            [\<lparr>lsr_Key = v_SelectorLabelKey v, lsr_Operator = ''In'', lsr_Values = [v_SelectorLabelValue v]\<rparr>]\<rparr>,
          pat_TopologyKey = ''kubernetes.io/hostname''\<rparr>]\<rparr>"

definition deployment_New :: "addr \<Rightarrow> Values \<Rightarrow> Deployment" where
  "deployment_New tolerationSeconds v = \<lparr>
     o_TypeMeta = \<lparr>tm_Kind = ''Deployment'', tm_APIVersion = ''apps/v1''\<rparr>,
     o_Meta = new_ObjectMeta (deployment_Name v) (v_Namespace v)
       [(v_OwnerLabelKey v, v_OwnerLabelValue v)] [],
     dep_Spec = \<lparr>
       dep_Replicas = Some DefaultReplicas,
       dep_Selector = \<lparr>ls_MatchLabels = [(v_SelectorLabelKey v, v_SelectorLabelValue v)],
         ls_MatchExpressions = []\<rparr>,
       dep_StrategyType = ''RollingUpdate'',
       dep_MaxUnavailable = 1,
       dep_MaxSurge = 0,
       dep_Template = \<lparr>
         pt_Meta = new_ObjectMeta (v_Name v) [] [(v_SelectorLabelKey v, v_SelectorLabelValue v)] [],
         pt_Spec = deployment_PodSpec tolerationSeconds v\<rparr>\<rparr>,
     dep_Status = \<lparr>ds_ObservedGeneration = 0, ds_Replicas = 0, ds_UpdatedReplicas = 0,
       ds_AvailableReplicas = 0, ds_Conditions = []\<rparr>\<rparr>"

section \<open>API service (apiservice.go)\<close>

definition apiservice_Name :: "Values \<Rightarrow> string" where
  "apiservice_Name v = v_AdmissionAPIVersion v @ ''.'' @ v_AdmissionAPIGroup v"

definition apiservice_New :: "Values \<Rightarrow> APIService" where
  "apiservice_New v = \<lparr>
     o_TypeMeta = \<lparr>tm_Kind = ''APIService'', tm_APIVersion = ''apiregistration.k8s.io/v1''\<rparr>,
     o_Meta = new_ObjectMeta (apiservice_Name v) []
       [(v_OwnerLabelKey v, v_OwnerLabelValue v)]
       [(''service.alpha.openshift.io/inject-cabundle'', ''true'')],
     as_Version = v_AdmissionAPIVersion v,
     as_Group = v_AdmissionAPIGroup v,
     as_GroupPriorityMinimum = 1000,
     as_VersionPriority = 15,
     as_ServiceNamespace = v_Namespace v,
     as_ServiceName = v_Name v,
     as_CABundle = [],
     as_Conditions = []\<rparr>"

section \<open>Mutating webhook configuration (webhookconfiguration.go)\<close>

definition mutatingWebhookConfiguration_Name :: "Values \<Rightarrow> string" where
  "mutatingWebhookConfiguration_Name v = v_AdmissionAPIResource v @ ''.'' @ v_AdmissionAPIGroup v"

definition mutatingWebhookConfiguration_New :: "Values \<Rightarrow> MutatingWebhookConfiguration" where
  "mutatingWebhookConfiguration_New v =
     (let path = ''/apis/'' @ v_AdmissionAPIGroup v @ ''/'' @ v_AdmissionAPIVersion v @ ''/''
            @ v_AdmissionAPIResource v;
          namespaceMatchLabelKey = v_AdmissionAPIResource v @ ''.'' @ v_AdmissionAPIGroup v @ ''/enabled''
      in \<lparr>
       o_TypeMeta = \<lparr>tm_Kind = ''MutatingWebhookConfiguration'',
         tm_APIVersion = ''admissionregistration.k8s.io/v1''\<rparr>,
       o_Meta = new_ObjectMeta (mutatingWebhookConfiguration_Name v) []
         [(v_OwnerLabelKey v, v_OwnerLabelValue v)]
         [(''service.beta.openshift.io/inject-cabundle'', ''true'')],
       mwc_Webhooks = [\<lparr>
         mw_Name = mutatingWebhookConfiguration_Name v,
         mw_NamespaceSelector = \<lparr>
           ls_MatchLabels = [(namespaceMatchLabelKey, ''true'')],
           ls_MatchExpressions = [\<lparr>lsr_Key = ''openshift.io/run-level'', lsr_Operator = ''NotIn'',
             lsr_Values = [''0'', ''1'']\<rparr>]\<rparr>,
         mw_MatchPolicy = ''Equivalent'',
         mw_CABundle = [],
         mw_ServiceName = ''kubernetes'',
         mw_ServiceNamespace = ''default'',
         mw_ServicePath = path,
         mw_Rules = [\<lparr>rule_Operations = [''CREATE'', ''UPDATE''], rule_APIGroups = [[]],
           rule_APIVersions = [''v1''], rule_Resources = [''pods'']\<rparr>],
         mw_FailurePolicy = ''Fail'',
         mw_TimeoutSeconds = 5,
         mw_SideEffects = ''None'',
         mw_ReinvocationPolicy = ''IfNeeded'',
         mw_AdmissionReviewVersions = [''v1'']\<rparr>]\<rparr>)"

section \<open>Validating admission policy and its binding (validatingadmissionpolicy.go)\<close>

definition validatingAdmissionPolicyName :: string where
  "validatingAdmissionPolicyName = ''resourceoverride-exempt-namespace''"

definition validatingAdmissionPolicy_New :: "Values \<Rightarrow> ValidatingAdmissionPolicy" where
  "validatingAdmissionPolicy_New v = \<lparr>
     o_TypeMeta = \<lparr>tm_Kind = ''ValidatingAdmissionPolicy'',
       tm_APIVersion = ''admissionregistration.k8s.io/v1''\<rparr>,
     o_Meta = new_ObjectMeta validatingAdmissionPolicyName [] [(v_OwnerLabelKey v, v_OwnerLabelValue v)] [],
     vap_FailurePolicy = ''Fail'',
     vap_ResourceRules = [\<lparr>rule_Operations = [''CREATE''],
       rule_APIGroups = [''autoscaling.openshift.io''], rule_APIVersions = [''v1''],
       rule_Resources = [''resourceoverrides'']\<rparr>],
     vap_Validations = [\<lparr>
       val_Expression = ''!(object.metadata.namespace in ['openshift', 'kube', 'kubernetes'] || object.metadata.namespace.startsWith('openshift-') || object.metadata.namespace.startsWith('kube-') || object.metadata.namespace.startsWith('kubernetes-'))'',
       val_Message = ''ResourceOverride objects cannot be created in system namespaces (openshift, openshift-*, kube, kube-*, kubernetes, kubernetes-*)''\<rparr>]\<rparr>"

definition validatingAdmissionPolicyBinding_New :: "Values \<Rightarrow> ValidatingAdmissionPolicyBinding" where
  "validatingAdmissionPolicyBinding_New v = \<lparr>
     o_TypeMeta = \<lparr>tm_Kind = ''ValidatingAdmissionPolicyBinding'',
       tm_APIVersion = ''admissionregistration.k8s.io/v1''\<rparr>,
     o_Meta = new_ObjectMeta validatingAdmissionPolicyName [] [(v_OwnerLabelKey v, v_OwnerLabelValue v)] [],
     vapb_PolicyName = validatingAdmissionPolicyName,
     vapb_ValidationActions = [''Deny'']\<rparr>"

end
