(* ===== verification/Deploy.thy ===== *)
theory Deploy
  imports Dynamic Asset
begin

text \<open>
  pkg/deploy: when a deployment counts as available (deployment_status.go), the availability of an
  API service (apiservice.go) and the install strategy that reads and ensures the operand's
  deployment (deployment.go). Replica counts are 32-bit and compared as signed numbers; the
  subtraction in one message wraps as Go's does.
\<close>

section \<open>Deployment status (deployment_status.go)\<close>

definition TimedOutReason :: string where
  "TimedOutReason = ''ProgressDeadlineExceeded''"

fun GetDeploymentCondition_in :: "DeploymentCondition list \<Rightarrow> string \<Rightarrow> DeploymentCondition option" where
  "GetDeploymentCondition_in [] condType = None"
| "GetDeploymentCondition_in (c # cs) condType =
     (if condType \<noteq> dc_Type c then GetDeploymentCondition_in cs condType else Some c)"

definition GetDeploymentCondition :: "DeploymentStatus \<Rightarrow> string \<Rightarrow> DeploymentCondition option" where
  "GetDeploymentCondition status condType = GetDeploymentCondition_in (ds_Conditions status) condType"

definition IsDeploymentFailedCreate :: "DeploymentStatus \<Rightarrow> bool" where
  "IsDeploymentFailedCreate status = (case GetDeploymentCondition status ''ReplicaFailure'' of
     None \<Rightarrow> False
   | Some cond \<Rightarrow> dc_Reason cond = ''FailedCreate'' \<and> dc_Status cond = ''True'')"

definition GetDeploymentStatus :: "Deployment \<Rightarrow> bool \<Rightarrow> bool \<times> error option" where
  "GetDeploymentStatus deployment checkGeneration =
     (let name = om_Name (o_Meta deployment); generation = om_Generation (o_Meta deployment);
          status = dep_Status deployment; replicas = dep_Replicas (dep_Spec deployment) in
      if checkGeneration \<and> ds_ObservedGeneration status <s generation
      then (False, Some (ErrorString (''waiting for deployment spec update name='' @ name
             @ ''; generation='' @ fmt_d (sint generation)
             @ '' observed generation='' @ fmt_d (sint (ds_ObservedGeneration status)))))
      else if (case GetDeploymentCondition status ''Progressing'' of
                 None \<Rightarrow> False | Some c \<Rightarrow> dc_Reason c = TimedOutReason)
      then (False, Some (ErrorString (''deployment exceeded its progress deadline name='' @ name)))
      else if (case replicas of None \<Rightarrow> False | Some r \<Rightarrow> ds_UpdatedReplicas status <s r)
      then (False, Some (ErrorString (''waiting for rollout to finish: ''
             @ fmt_d (sint (ds_UpdatedReplicas status)) @ '' out of ''
             @ fmt_d (sint (the replicas)) @ '' new replicas have been updated'')))
      else if ds_UpdatedReplicas status <s ds_Replicas status
      then (False, Some (ErrorString (''waiting for rollout to finish: ''
             @ fmt_d (sint (ds_Replicas status - ds_UpdatedReplicas status))
             @ '' old replicas are pending termination'')))
      else if ds_AvailableReplicas status <s ds_UpdatedReplicas status
      then (False, Some (ErrorString (''waiting for rollout to finish: ''
             @ fmt_d (sint (ds_AvailableReplicas status)) @ '' of ''
             @ fmt_d (sint (ds_UpdatedReplicas status)) @ '' updated replicas are available'')))
      else (True, None))"

section \<open>API service status (apiservice.go)\<close>

fun getAvailableCondition_in :: "APIServiceCondition list \<Rightarrow> APIServiceCondition option" where
  "getAvailableCondition_in [] = None"
| "getAvailableCondition_in (c # cs) =
     (if asc_Type c = ''Available'' then Some c else getAvailableCondition_in cs)"

definition getAvailableCondition :: "APIService \<Rightarrow> APIServiceCondition option" where
  "getAvailableCondition apiservice = getAvailableCondition_in (as_Conditions apiservice)"

definition IsAPIServiceAvailable :: "APIService \<Rightarrow> ConditionStatus \<times> string" where
  "IsAPIServiceAvailable apiservice = (case getAvailableCondition apiservice of
     None \<Rightarrow> (ConditionFalse, [])
   | Some cond \<Rightarrow> (if asc_Status cond = ''True'' then ConditionTrue else ConditionFalse, asc_Message cond))"

section \<open>Install strategy (deployment.go)\<close>

definition deploy_IsAvailable ::
  "'w api \<Rightarrow> OperandContext \<Rightarrow> Values \<Rightarrow> bool \<Rightarrow> 'w \<Rightarrow> (bool \<times> error option) \<times> 'w" where
  "deploy_IsAvailable A ctx v checkGeneration w =
     (case api_Deployment_Get A (WebhookNamespace ctx) (deployment_Name v) w of
        (Inl err, w1) \<Rightarrow> ((False, Some err), w1)
      | (Inr current, w1) \<Rightarrow> (GetDeploymentStatus current checkGeneration, w1))"

definition deploy_Get :: "'w api \<Rightarrow> OperandContext \<Rightarrow> Values \<Rightarrow> 'w \<Rightarrow> (error + Deployment) \<times> 'w" where
  "deploy_Get A ctx v w = api_Deployment_Get A (WebhookNamespace ctx) (deployment_Name v) w"

text \<open>The appliers customise the desired deployment and its pod template before it is ensured.\<close>

definition deploy_Ensure ::
  "lib \<Rightarrow> 'w api \<Rightarrow> addr \<Rightarrow> Values \<Rightarrow> (Deployment \<Rightarrow> Deployment) option
   \<Rightarrow> (PodTemplateSpec \<Rightarrow> PodTemplateSpec) option \<Rightarrow> 'w \<Rightarrow> (error + Deployment) \<times> 'w" where
  "deploy_Ensure L A tolerationSeconds v parent child w =
     (let desired = deployment_New tolerationSeconds v;
          desired = (case parent of None \<Rightarrow> desired | Some apply_parent \<Rightarrow> apply_parent desired);
          desired = (case child of None \<Rightarrow> desired
            | Some apply_child \<Rightarrow> desired\<lparr>dep_Spec := (dep_Spec desired)
                \<lparr>dep_Template := apply_child (dep_Template (dep_Spec desired))\<rparr>\<rparr>)
      in DeploymentEnsurer_Ensure L A desired w)"

section \<open>What available means\<close>

definition rollout_complete :: "Deployment \<Rightarrow> bool" where
  "rollout_complete d \<longleftrightarrow>
     (\<forall>r. dep_Replicas (dep_Spec d) = Some r \<longrightarrow> sint r \<le> sint (ds_UpdatedReplicas (dep_Status d)))
     \<and> sint (ds_Replicas (dep_Status d)) \<le> sint (ds_UpdatedReplicas (dep_Status d))
     \<and> sint (ds_UpdatedReplicas (dep_Status d)) \<le> sint (ds_AvailableReplicas (dep_Status d))"

definition deadline_exceeded :: "Deployment \<Rightarrow> bool" where
  "deadline_exceeded d \<longleftrightarrow> (case find (\<lambda>c. dc_Type c = ''Progressing'') (ds_Conditions (dep_Status d)) of
     None \<Rightarrow> False | Some c \<Rightarrow> dc_Reason c = TimedOutReason)"

lemma GetDeploymentCondition_find:
  "GetDeploymentCondition s ty = find (\<lambda>c. dc_Type c = ty) (ds_Conditions s)"
proof -
  have "GetDeploymentCondition_in cs ty = find (\<lambda>c. dc_Type c = ty) cs" for cs
    by (induction cs) auto
  then show ?thesis by (simp add: GetDeploymentCondition_def)
qed

lemma getAvailableCondition_find:
  "getAvailableCondition a = find (\<lambda>c. asc_Type c = ''Available'') (as_Conditions a)"
proof -
  have "getAvailableCondition_in cs = find (\<lambda>c. asc_Type c = ''Available'') cs" for cs
    by (induction cs) auto
  then show ?thesis by (simp add: getAvailableCondition_def)
qed

text \<open>Exactly one of "done" and "an error" is returned.\<close>

lemma GetDeploymentStatus_done_or_err:
  "GetDeploymentStatus d g = (ok, err) \<Longrightarrow> ok \<longleftrightarrow> err = None"
  by (auto simp: GetDeploymentStatus_def Let_def split: if_splits)

lemma GetDeploymentStatus_done_iff:
  "fst (GetDeploymentStatus d g) \<longleftrightarrow>
     rollout_complete d \<and> \<not> deadline_exceeded d
     \<and> (g \<longrightarrow> sint (om_Generation (o_Meta d)) \<le> sint (ds_ObservedGeneration (dep_Status d)))"
  by (auto simp: GetDeploymentStatus_def Let_def rollout_complete_def deadline_exceeded_def
      GetDeploymentCondition_find word_sless_alt split: option.splits)

lemma GetDeploymentStatus_not_IsNotFound:
  "GetDeploymentStatus d g = (ok, Some e) \<Longrightarrow> \<not> IsNotFound e"
  by (auto simp: GetDeploymentStatus_def Let_def split: if_splits)

lemma deploy_IsAvailable_done_or_err:
  "deploy_IsAvailable A ctx v g w = ((ok, err), w') \<Longrightarrow> ok \<longleftrightarrow> err = None"
  by (auto simp: deploy_IsAvailable_def split: prod.splits sum.splits
      dest: GetDeploymentStatus_done_or_err)

end
