(* ===== verification/TlsProfile.thy ===== *)
theory TlsProfile
  imports World
begin

text \<open>
  pkg/tlsprofile: the operand's TLS arguments from the cluster's APIServer configuration; and
  pkg/infrastructure: whether the cluster runs its own control plane. The table of cipher suite
  names is that of Go's crypto/tls.
\<close>

section \<open>Arguments (tlsprofile.go)\<close>

record Args =
  MinVersion :: string
  CipherSuites :: string

definition empty_Args :: Args where
  "empty_Args = \<lparr>MinVersion = [], CipherSuites = []\<rparr>"

definition Args_Hash :: "Args \<Rightarrow> string" where
  "Args_Hash a = (if MinVersion a = [] \<and> CipherSuites a = [] then []
     else MinVersion a @ ''|'' @ CipherSuites a)"

definition versionName :: "uint16 \<Rightarrow> string" where
  "versionName version =
     (if version = 0x0301 then ''VersionTLS10''
      else if version = 0x0302 then ''VersionTLS11''
      else if version = 0x0303 then ''VersionTLS12''
      else if version = 0x0304 then ''VersionTLS13''
      else ''0x'' @ fmt_04X (unat version))"

definition cipher_suite_names :: "(uint16 \<times> string) list" where
  "cipher_suite_names =
     [(0x1301, ''TLS_AES_128_GCM_SHA256''), (0x1302, ''TLS_AES_256_GCM_SHA384''),
      (0x1303, ''TLS_CHACHA20_POLY1305_SHA256''),
      (0xc009, ''TLS_ECDHE_ECDSA_WITH_AES_128_CBC_SHA''), (0xc00a, ''TLS_ECDHE_ECDSA_WITH_AES_256_CBC_SHA''),
      (0xc013, ''TLS_ECDHE_RSA_WITH_AES_128_CBC_SHA''), (0xc014, ''TLS_ECDHE_RSA_WITH_AES_256_CBC_SHA''),
      (0xc02b, ''TLS_ECDHE_ECDSA_WITH_AES_128_GCM_SHA256''), (0xc02c, ''TLS_ECDHE_ECDSA_WITH_AES_256_GCM_SHA384''),
      (0xc02f, ''TLS_ECDHE_RSA_WITH_AES_128_GCM_SHA256''), (0xc030, ''TLS_ECDHE_RSA_WITH_AES_256_GCM_SHA384''),
      (0xcca8, ''TLS_ECDHE_RSA_WITH_CHACHA20_POLY1305_SHA256''), (0xcca9, ''TLS_ECDHE_ECDSA_WITH_CHACHA20_POLY1305_SHA256''),
      (0x0005, ''TLS_RSA_WITH_RC4_128_SHA''), (0x000a, ''TLS_RSA_WITH_3DES_EDE_CBC_SHA''),
      (0x002f, ''TLS_RSA_WITH_AES_128_CBC_SHA''), (0x0035, ''TLS_RSA_WITH_AES_256_CBC_SHA''),
      (0x003c, ''TLS_RSA_WITH_AES_128_CBC_SHA256''), (0x009c, ''TLS_RSA_WITH_AES_128_GCM_SHA256''),
      (0x009d, ''TLS_RSA_WITH_AES_256_GCM_SHA384''), (0xc007, ''TLS_ECDHE_ECDSA_WITH_RC4_128_SHA''),
      (0xc011, ''TLS_ECDHE_RSA_WITH_RC4_128_SHA''), (0xc012, ''TLS_ECDHE_RSA_WITH_3DES_EDE_CBC_SHA''),
      (0xc023, ''TLS_ECDHE_ECDSA_WITH_AES_128_CBC_SHA256''), (0xc027, ''TLS_ECDHE_RSA_WITH_AES_128_CBC_SHA256'')]"

definition CipherSuiteName :: "uint16 \<Rightarrow> string" where
  "CipherSuiteName i = (case map_of cipher_suite_names i of
     Some name \<Rightarrow> name | None \<Rightarrow> ''0x'' @ fmt_04X (unat i))"

definition ArgsFromTLSConfig :: "tls_Config \<Rightarrow> Args" where
  "ArgsFromTLSConfig cfg =
     (let args = empty_Args;
          args = (if cfg_MinVersion cfg \<noteq> 0 then args\<lparr>MinVersion := versionName (cfg_MinVersion cfg)\<rparr> else args)
      in if cfg_CipherSuites cfg \<noteq> []
         then args\<lparr>CipherSuites := strings_Join (map CipherSuiteName (cfg_CipherSuites cfg)) '',''\<rparr>
         else args)"

section \<open>Fetch (tlsprofile.go)\<close>

definition APIServerGVR :: GroupVersionResource where
  "APIServerGVR = \<lparr>gvr_Group = ''config.openshift.io'', gvr_Version = ''v1'', gvr_Resource = ''apiservers''\<rparr>"

definition empty_tls_Config :: tls_Config where
  "empty_tls_Config = \<lparr>cfg_MinVersion = 0, cfg_CipherSuites = []\<rparr>"

definition tlsprofile_Fetch :: "lib \<Rightarrow> 'w api \<Rightarrow> 'w \<Rightarrow> (error + Args) \<times> 'w" where
  "tlsprofile_Fetch L A w =
     (case dyn_Get A APIServerGVR [] ''cluster'' w of
        (Inl err, w1) \<Rightarrow> (Inl (WrapError (''fetching cluster APIServer config: '' @ Error err) err), w1)
      | (Inr obj, w1) \<Rightarrow>
          (case lib_AsAPIServer L obj of
             Inl err \<Rightarrow> (Inl (WrapError (''converting APIServer config: '' @ Error err) err), w1)
           | Inr apiServer \<Rightarrow>
               if \<not> lib_ShouldHonorClusterTLSProfile L (apis_TLSAdherence apiServer)
               then (Inr empty_Args, w1)
               else (case lib_GetTLSProfileSpec L (apis_TLSSecurityProfile apiServer) of
                  Inl err \<Rightarrow> (Inl (WrapError (''extracting TLS profile: '' @ Error err) err), w1)
                | Inr profile \<Rightarrow>
                    let cfg = lib_NewTLSConfigFromProfile L profile empty_tls_Config
                    in (Inr (ArgsFromTLSConfig cfg), w1))))"

section \<open>Infrastructure (infrastructure.go)\<close>

definition InfrastructureGVR :: GroupVersionResource where
  "InfrastructureGVR =
     \<lparr>gvr_Group = ''config.openshift.io'', gvr_Version = ''v1'', gvr_Resource = ''infrastructures''\<rparr>"

definition IsStandalone :: "lib \<Rightarrow> 'w api \<Rightarrow> 'w \<Rightarrow> bool \<times> 'w" where
  "IsStandalone L A w =
     (case dyn_Get A InfrastructureGVR [] ''cluster'' w of
        (Inl err, w1) \<Rightarrow> (True, w1)
      | (Inr obj, w1) \<Rightarrow>
          (case lib_AsInfrastructure L obj of
             Inl err \<Rightarrow> (True, w1)
           | Inr infra \<Rightarrow> (infra_ControlPlaneTopology infra \<noteq> ''External'', w1)))"

section \<open>The TLS hash\<close>

lemma Args_Hash_empty [simp]: "Args_Hash empty_Args = []"
  by (simp add: Args_Hash_def empty_Args_def)

lemma Args_Hash_Nil_iff: "Args_Hash a = [] \<longleftrightarrow> a = empty_Args"
  by (cases a) (simp add: Args_Hash_def empty_Args_def)

lemma Args_Hash_inject:
  assumes "CHR ''|'' \<notin> set (MinVersion a)" and "CHR ''|'' \<notin> set (MinVersion b)"
  shows "Args_Hash a = Args_Hash b \<longleftrightarrow> a = b"
  using assms append_sep_eq [of "CHR ''|''" "MinVersion a" "MinVersion b"]
  by (cases a; cases b) (auto simp: Args_Hash_def)

text \<open>Version and cipher names hold neither the separator of the hash nor that of the list.\<close>

lemma upper_hex_digit: "d < 16 \<Longrightarrow> of_char (upper_hex (digit_char d)) \<in> {48 .. 57 :: nat} \<union> {65 .. 70}"
  by (auto simp: upper_hex_def digit_char_def Let_def)

lemma fmt_04X_chars:
  assumes "c \<in> set (fmt_04X n)"
  shows "of_char c \<in> {48 .. 57 :: nat} \<union> {65 .. 70}"
proof -
  from assms consider "c = CHR ''0''" | d where "d \<in> set (fmt_base 16 n)" "c = upper_hex d"
    by (auto simp: fmt_04X_def Let_def)
  then show ?thesis
  proof cases
    case 1
    then show ?thesis by simp
  next
    case 2
    then obtain k where "k < 16" "d = digit_char k" using fmt_base_digits [of 16 d n] by auto
    with 2 show ?thesis using upper_hex_digit by blast
  qed
qed

lemma fmt_04X_plain [go_fmt]: "CHR ''|'' \<notin> set (fmt_04X n)" "CHR '','' \<notin> set (fmt_04X n)"
  "CHR ''T'' \<notin> set (fmt_04X n)" "CHR ''V'' \<notin> set (fmt_04X n)"
  using fmt_04X_chars [of "CHR ''|''" n] fmt_04X_chars [of "CHR '',''" n]
    fmt_04X_chars [of "CHR ''T''" n] fmt_04X_chars [of "CHR ''V''" n] by auto

definition lower_hex :: "char \<Rightarrow> char" where
  "lower_hex c = (if of_char c \<in> {65 .. 70 :: nat} then char_of (of_char c + 32 :: nat) else c)"

lemma lower_upper_hex: "d < 16 \<Longrightarrow> lower_hex (upper_hex (digit_char d)) = digit_char d"
  by (auto simp: lower_hex_def upper_hex_def digit_char_def Let_def)

lemma lower_upper_fmt: "map lower_hex (map upper_hex (fmt_base 16 k)) = fmt_base 16 k"
proof -
  have "lower_hex (upper_hex c) = c" if "c \<in> set (fmt_base 16 k)" for c
    using fmt_base_digits [of 16 c k] that lower_upper_hex by auto
  then show ?thesis by (simp add: map_idI)
qed

lemma parse_base_zeros: "parse_base 16 (replicate j CHR ''0'' @ s) = parse_base 16 s"
  by (induction j) (simp_all add: parse_base_def char_digit_def)

lemma parse_fmt_04X: "parse_base 16 (map lower_hex (fmt_04X k)) = k"
proof -
  have "lower_hex CHR ''0'' = CHR ''0''" by (simp add: lower_hex_def)
  then have "map lower_hex (fmt_04X k)
      = replicate (4 - length (map upper_hex (fmt_base 16 k))) CHR ''0'' @ fmt_base 16 k"
    by (simp add: fmt_04X_def Let_def lower_upper_fmt [simplified])
  then show ?thesis by (simp only: parse_base_zeros) (simp add: parse_fmt_base)
qed

lemma fmt_04X_inject [simp]: "fmt_04X m = fmt_04X n \<longleftrightarrow> m = n"
  by (metis parse_fmt_04X)

lemma versionName_plain: "CHR ''|'' \<notin> set (versionName v)"
  by (simp add: versionName_def go_fmt)

lemma versionName_nonempty [simp]: "versionName v \<noteq> []"
  by (simp add: versionName_def)

lemma versionName_inject: "versionName v = versionName v' \<longleftrightarrow> v = v'"
proof -
  have neq: "''VersionTLS1'' @ s \<noteq> ''0x'' @ t" for s t by simp
  show ?thesis by (auto simp: versionName_def word_unat_eq_iff split: if_splits)
qed

lemma cipher_suite_names_facts:
  "distinct (map snd cipher_suite_names)"
  "\<forall>n \<in> set (map snd cipher_suite_names). hd n = CHR ''T'' \<and> n \<noteq> [] \<and> CHR '','' \<notin> set n"
  by (simp_all add: cipher_suite_names_def)

lemma CipherSuiteName_plain: "CHR '','' \<notin> set (CipherSuiteName i)" "CipherSuiteName i \<noteq> []"
  using cipher_suite_names_facts(2)
  by (auto simp: CipherSuiteName_def go_fmt split: option.splits dest!: map_of_SomeD)

lemma CipherSuiteName_inject: "CipherSuiteName i = CipherSuiteName j \<longleftrightarrow> i = j"
proof
  assume eq: "CipherSuiteName i = CipherSuiteName j"
  have hex: "map_of cipher_suite_names k \<noteq> Some (CHR ''0'' # t)" for k t
    using cipher_suite_names_facts(2) by (fastforce dest!: map_of_SomeD)
  have inj: "map_of cipher_suite_names i = Some n \<Longrightarrow> map_of cipher_suite_names j = Some n \<Longrightarrow> i = j" for n
    using cipher_suite_names_facts(1)
    by (metis distinct_map inj_onD map_of_SomeD prod.inject snd_conv)
  from eq hex inj show "i = j"
    by (cases "map_of cipher_suite_names i"; cases "map_of cipher_suite_names j")
      (auto simp: CipherSuiteName_def word_unat_eq_iff)
qed simp

lemma strings_Join_comma_inject:
  "\<forall>x \<in> set xs \<union> set ys. CHR '','' \<notin> set x \<and> x \<noteq> [] \<Longrightarrow>
     strings_Join xs '','' = strings_Join ys '','' \<Longrightarrow> xs = ys"
proof (induction xs arbitrary: ys rule: induct_list012)
  case 1
  then show ?case by (cases ys rule: remdups_adj.cases) auto
next
  case (2 x)
  then show ?case
    by (cases ys rule: remdups_adj.cases) (auto simp del: Un_iff)
next
  case (3 x y zs)
  show ?case
  proof (cases ys rule: remdups_adj.cases)
    case 1
    with "3.prems" show ?thesis by auto
  next
    case (2 a)
    with "3.prems" show ?thesis by auto
  next
    case (3 a b cs)
    with "3.prems" have "x = a" and "strings_Join (y # zs) '','' = strings_Join (b # cs) '',''"
      by (auto simp: append_sep_eq)
    with "3.IH"(2) [of "b # cs"] "3.prems"(1) 3 show ?thesis by simp
  qed
qed

end
