(* ===== verification/Rbac.thy ===== *)
theory Rbac
  imports Asset
begin

text \<open>
  pkg/asset/rbac.go and sa.go: the service account, roles and bindings of the operand, in the order
  in which they are ensured, and the controller setter on an object of any of these kinds.
\<close>

section \<open>Service account (sa.go)\<close>

definition NewServiceAccount :: "Values \<Rightarrow> ServiceAccount" where
  "NewServiceAccount v = \<lparr>
     o_TypeMeta = \<lparr>tm_Kind = ''ServiceAccount'', tm_APIVersion = ''v1''\<rparr>,
     o_Meta = new_ObjectMeta (v_ServiceAccountName v) (v_Namespace v) [] [],
     sa_Secrets = [], sa_ImagePullSecrets = []\<rparr>"

section \<open>RBAC (rbac.go)\<close>

record RBACItem =
  rbac_Resource :: string
  rbac_Object :: runtime_object

definition rbac_apiVersion :: string where
  "rbac_apiVersion = ''rbac.authorization.k8s.io/v1''"

definition thisOperatorServiceAccount :: "Values \<Rightarrow> Subject" where
  "thisOperatorServiceAccount v =
     \<lparr>sub_Kind = ''ServiceAccount'', sub_Namespace = v_Namespace v, sub_Name = v_ServiceAccountName v\<rparr>"

definition defaultClusterRoleName :: "Values \<Rightarrow> string" where
  "defaultClusterRoleName v = ''default-aggregated-apiserver-'' @ v_Name v"

definition commonLabels :: "Values \<Rightarrow> go_map" where
  "commonLabels v = [(v_OwnerLabelKey v, v_OwnerLabelValue v)]"

definition authReaderBinding :: "Values \<Rightarrow> RoleBinding" where
  "authReaderBinding v = \<lparr>
     o_TypeMeta = \<lparr>tm_Kind = ''RoleBinding'', tm_APIVersion = rbac_apiVersion\<rparr>,
     o_Meta = new_ObjectMeta (''extension-server-authentication-reader-'' @ v_Name v) ''kube-system''
       (commonLabels v) [],
     rb_RoleRef = \<lparr>rr_APIGroup = ''rbac.authorization.k8s.io'', rr_Kind = ''Role'',
       rr_Name = ''extension-apiserver-authentication-reader''\<rparr>,
     rb_Subjects = [thisOperatorServiceAccount v]\<rparr>"

definition requesterClusterRole :: "Values \<Rightarrow> ClusterRole" where
  "requesterClusterRole v = \<lparr>
     o_TypeMeta = \<lparr>tm_Kind = ''ClusterRole'', tm_APIVersion = rbac_apiVersion\<rparr>,
     o_Meta = new_ObjectMeta (''system:'' @ v_Name v @ ''-requester'') [] (commonLabels v) [],
     cr_Rules = [\<lparr>pr_APIGroups = [v_AdmissionAPIGroup v], pr_Resources = [v_AdmissionAPIResource v],
       pr_Verbs = [''create'']\<rparr>]\<rparr>"

definition defaultClusterRole :: "Values \<Rightarrow> ClusterRole" where
  "defaultClusterRole v = \<lparr>
     o_TypeMeta = \<lparr>tm_Kind = ''ClusterRole'', tm_APIVersion = rbac_apiVersion\<rparr>,
     o_Meta = new_ObjectMeta (defaultClusterRoleName v) [] (commonLabels v) [],
     cr_Rules =
       [\<lparr>pr_APIGroups = [''admissionregistration.k8s.io''],
          pr_Resources = [''validatingwebhookconfigurations'', ''mutatingwebhookconfigurations''],
          pr_Verbs = [''get'', ''list'', ''watch'']\<rparr>,
        \<lparr>pr_APIGroups = [[]], pr_Resources = [''namespaces'', ''limitranges''],
          pr_Verbs = [''get'', ''list'', ''watch'']\<rparr>,
        \<lparr>pr_APIGroups = [''flowcontrol.apiserver.k8s.io''],
          pr_Resources = [''prioritylevelconfigurations'', ''flowschemas''],
          pr_Verbs = [''get'', ''list'', ''watch'']\<rparr>,
        \<lparr>pr_APIGroups = [''autoscaling.openshift.io''], pr_Resources = [''resourceoverrides''],
          pr_Verbs = [''get'', ''list'', ''watch'']\<rparr>,
        \<lparr>pr_APIGroups = [[]], pr_Resources = [''events''], pr_Verbs = [''create'', ''patch'']\<rparr>]\<rparr>"

definition defaultClusterRoleBinding :: "Values \<Rightarrow> ClusterRoleBinding" where
  "defaultClusterRoleBinding v = \<lparr>
     o_TypeMeta = \<lparr>tm_Kind = ''ClusterRoleBinding'', tm_APIVersion = rbac_apiVersion\<rparr>,
     o_Meta = new_ObjectMeta (defaultClusterRoleName v) [] (commonLabels v) [],
     crb_RoleRef = \<lparr>rr_APIGroup = ''rbac.authorization.k8s.io'', rr_Kind = ''ClusterRole'',
       rr_Name = defaultClusterRoleName v\<rparr>,
     crb_Subjects = [thisOperatorServiceAccount v]\<rparr>"

definition authDelegatorBinding :: "Values \<Rightarrow> ClusterRoleBinding" where
  "authDelegatorBinding v = \<lparr>
     o_TypeMeta = \<lparr>tm_Kind = ''ClusterRoleBinding'', tm_APIVersion = rbac_apiVersion\<rparr>,
     o_Meta = new_ObjectMeta (''auth-delegator-'' @ v_Name v) [] (commonLabels v) [],
     crb_RoleRef = \<lparr>rr_APIGroup = ''rbac.authorization.k8s.io'', rr_Kind = ''ClusterRole'',
       rr_Name = ''system:auth-delegator''\<rparr>,
     crb_Subjects = [thisOperatorServiceAccount v]\<rparr>"

definition rbac_New :: "Values \<Rightarrow> RBACItem list" where
  "rbac_New v =
     [\<lparr>rbac_Resource = ''serviceaccounts'', rbac_Object = RtServiceAccount \<lparr>
         o_TypeMeta = \<lparr>tm_Kind = ''ServiceAccount'', tm_APIVersion = ''v1''\<rparr>,
         o_Meta = new_ObjectMeta (v_ServiceAccountName v) (v_Namespace v) [] [],
         sa_Secrets = [], sa_ImagePullSecrets = []\<rparr>\<rparr>,
      \<lparr>rbac_Resource = ''rolebindings'', rbac_Object = RtRoleBinding (authReaderBinding v)\<rparr>,
      \<lparr>rbac_Resource = ''clusterroles'', rbac_Object = RtClusterRole (requesterClusterRole v)\<rparr>,
      \<lparr>rbac_Resource = ''clusterroles'', rbac_Object = RtClusterRole (defaultClusterRole v)\<rparr>,
      \<lparr>rbac_Resource = ''clusterrolebindings'', rbac_Object = RtClusterRoleBinding (defaultClusterRoleBinding v)\<rparr>,
      \<lparr>rbac_Resource = ''clusterrolebindings'', rbac_Object = RtClusterRoleBinding (authDelegatorBinding v)\<rparr>]"

section \<open>Controller setter on any object\<close>

fun runtime_SetController :: "runtime_object \<Rightarrow> 'b Object_scheme \<Rightarrow> runtime_object" where
  "runtime_SetController (RtConfigMap x) owner = RtConfigMap (SetController x owner)"
| "runtime_SetController (RtService x) owner = RtService (SetController x owner)"
| "runtime_SetController (RtDeployment x) owner = RtDeployment (SetController x owner)"
| "runtime_SetController (RtAPIService x) owner = RtAPIService (SetController x owner)"
| "runtime_SetController (RtMutatingWebhookConfiguration x) owner =
     RtMutatingWebhookConfiguration (SetController x owner)"
| "runtime_SetController (RtValidatingAdmissionPolicy x) owner =
     RtValidatingAdmissionPolicy (SetController x owner)"
| "runtime_SetController (RtValidatingAdmissionPolicyBinding x) owner =
     RtValidatingAdmissionPolicyBinding (SetController x owner)"
| "runtime_SetController (RtServiceAccount x) owner = RtServiceAccount (SetController x owner)"
| "runtime_SetController (RtRoleBinding x) owner = RtRoleBinding (SetController x owner)"
| "runtime_SetController (RtClusterRole x) owner = RtClusterRole (SetController x owner)"
| "runtime_SetController (RtClusterRoleBinding x) owner = RtClusterRoleBinding (SetController x owner)"

fun runtime_Meta :: "runtime_object \<Rightarrow> ObjectMeta" where
  "runtime_Meta (RtConfigMap x) = o_Meta x"
| "runtime_Meta (RtService x) = o_Meta x"
| "runtime_Meta (RtDeployment x) = o_Meta x"
| "runtime_Meta (RtAPIService x) = o_Meta x"
| "runtime_Meta (RtMutatingWebhookConfiguration x) = o_Meta x"
| "runtime_Meta (RtValidatingAdmissionPolicy x) = o_Meta x"
| "runtime_Meta (RtValidatingAdmissionPolicyBinding x) = o_Meta x"
| "runtime_Meta (RtServiceAccount x) = o_Meta x"
| "runtime_Meta (RtRoleBinding x) = o_Meta x"
| "runtime_Meta (RtClusterRole x) = o_Meta x"
| "runtime_Meta (RtClusterRoleBinding x) = o_Meta x"

text \<open>What a list of RBAC objects grants and binds.\<close>

definition cluster_role_names :: "RBACItem list \<Rightarrow> string list" where
  "cluster_role_names items = concat (map (\<lambda>i. case rbac_Object i of
     RtClusterRole r \<Rightarrow> [om_Name (o_Meta r)] | _ \<Rightarrow> []) items)"

definition bound_subjects :: "RBACItem list \<Rightarrow> Subject list" where
  "bound_subjects items = concat (map (\<lambda>i. case rbac_Object i of
     RtRoleBinding b \<Rightarrow> rb_Subjects b | RtClusterRoleBinding b \<Rightarrow> crb_Subjects b | _ \<Rightarrow> []) items)"

end
