(* ===== verification/HandlerBase.thy ===== *)
theory HandlerBase
  imports Conditions Deploy TlsProfile Rbac
begin

text \<open>
  What the handlers of pkg/clusterresourceoverride/internal/handlers share: the options they are
  built from, the request context (context.go), their result, and the contract every handler keeps,
  as the locale \<open>handler_contract\<close>.

  A handler sets \<open>current = original\<close> and mutates that one object, so the model threads one object.
\<close>

section \<open>Options and results\<close>

record 'w Options =
  opt_lib :: lib
  opt_api :: "'w api"
  opt_OperandContext :: OperandContext
  opt_Asset :: Values
  opt_IsStandalone :: bool
  opt_tolerationSeconds :: addr

record Result =
  Requeue :: bool
  RequeueAfter :: int

definition empty_Result :: Result where
  "empty_Result = \<lparr>Requeue = False, RequeueAfter = 0\<rparr>"

type_synonym handle_result = "(ClusterResourceOverride \<times> Result \<times> handler_error option) outcome"

type_synonym 'w handler = "ClusterResourceOverride \<Rightarrow> 'w \<Rightarrow> handle_result \<times> 'w"

definition handle_ok :: "ClusterResourceOverride \<Rightarrow> handle_result" where
  "handle_ok current = Returned (current, empty_Result, None)"

definition handle_err :: "ClusterResourceOverride \<Rightarrow> handler_error \<Rightarrow> handle_result" where
  "handle_err current e = Returned (current, empty_Result, Some e)"

text \<open>The setter the request context hands out.\<close>

definition ControllerSetter :: "'a Object_scheme \<Rightarrow> 'b Object_scheme \<Rightarrow> 'a Object_scheme" where
  "ControllerSetter = SetController"

definition set_Status :: "ClusterResourceOverrideStatus \<Rightarrow> ClusterResourceOverride \<Rightarrow> ClusterResourceOverride" where
  "set_Status s cro = cro\<lparr>cro_Status := s\<rparr>"

definition upd_Resources :: "(ClusterResourceOverrideResources \<Rightarrow> ClusterResourceOverrideResources)
    \<Rightarrow> ClusterResourceOverride \<Rightarrow> ClusterResourceOverride" where
  "upd_Resources f cro = cro\<lparr>cro_Status := (cro_Status cro)
     \<lparr>st_Resources := f (st_Resources (cro_Status cro))\<rparr>\<rparr>"

definition cro_Resources :: "ClusterResourceOverride \<Rightarrow> ClusterResourceOverrideResources" where
  "cro_Resources cro = st_Resources (cro_Status cro)"

text \<open>\<open>ref != nil && ref.ResourceVersion == object.ResourceVersion\<close>\<close>

definition ref_in_sync :: "ObjectReference option \<Rightarrow> 'a Object_scheme \<Rightarrow> bool" where
  "ref_in_sync ref object = (case ref of None \<Rightarrow> False
     | Some r \<Rightarrow> ref_ResourceVersion r = om_ResourceVersion (o_Meta object))"

lemma handle_result_simps [simp]:
  "handle_ok cro = Returned (cro', res, err) \<longleftrightarrow> cro' = cro \<and> res = empty_Result \<and> err = None"
  "handle_err cro e = Returned (cro', res, err) \<longleftrightarrow> cro' = cro \<and> res = empty_Result \<and> err = Some e"
  "handle_ok cro \<noteq> Panicked" "handle_err cro e \<noteq> Panicked"
  by (auto simp: handle_ok_def handle_err_def)

section \<open>The parts of the object a handler may change\<close>

text \<open>Metadata and spec stay; the condition types stay distinct.\<close>

definition same_object :: "ClusterResourceOverride \<Rightarrow> ClusterResourceOverride \<Rightarrow> bool" where
  "same_object c d \<longleftrightarrow> o_TypeMeta c = o_TypeMeta d \<and> o_Meta c = o_Meta d \<and> cro_Spec c = cro_Spec d"

definition conditions_wf :: "ClusterResourceOverride \<Rightarrow> bool" where
  "conditions_wf cro \<longleftrightarrow> distinct (cro_cond_types (cro_Status cro))"

lemma same_object_refl [simp]: "same_object c c"
  by (simp add: same_object_def)

lemma same_object_trans: "same_object a b \<Longrightarrow> same_object b c \<Longrightarrow> same_object a c"
  by (simp add: same_object_def)

lemma same_object_updates [simp]:
  "same_object (set_Status s c) d \<longleftrightarrow> same_object c d"
  "same_object (upd_Resources f c) d \<longleftrightarrow> same_object c d"
  "same_object (c\<lparr>cro_Status := s\<rparr>) d \<longleftrightarrow> same_object c d"
  by (simp_all add: same_object_def set_Status_def upd_Resources_def)

lemma cro_Status_updates [simp]:
  "cro_Status (set_Status s c) = s"
  "st_Conditions (cro_Status (upd_Resources f c)) = st_Conditions (cro_Status c)"
  "st_HashConfiguration (cro_Status (upd_Resources f c)) = st_HashConfiguration (cro_Status c)"
  "st_Image (cro_Status (upd_Resources f c)) = st_Image (cro_Status c)"
  "st_Version (cro_Status (upd_Resources f c)) = st_Version (cro_Status c)"
  "st_Resources (cro_Status (upd_Resources f c)) = f (st_Resources (cro_Status c))"
  by (simp_all add: set_Status_def upd_Resources_def)

lemma conditions_wf_updates [simp]:
  "conditions_wf (upd_Resources f c) \<longleftrightarrow> conditions_wf c"
  "conditions_wf (c\<lparr>cro_Status := (cro_Status c)\<lparr>st_HashConfiguration := h\<rparr>\<rparr>) \<longleftrightarrow> conditions_wf c"
  by (simp_all add: conditions_wf_def cro_cond_types_def)

lemma conditions_wf_put:
  "conditions_wf c \<Longrightarrow> conditions_wf (set_Status (cro_WithCondition d (cro_init (cro_Status c))) c)"
  by (cases d) (simp_all add: conditions_wf_def cro_conds.distinct_put cro_conds.put_none)

lemma WithError_wf:
  "WithError A err (cro_Status c) w = (Returned s, w') \<Longrightarrow> conditions_wf c \<Longrightarrow> conditions_wf (set_Status s c)"
  using conditions_wf_put [of c]
  by (auto simp: WithError_def Let_def set_Status_def split: option.splits prod.splits)

lemma WithInstallReady_wf:
  "WithInstallReady A (cro_Status c) w = (s, w') \<Longrightarrow> conditions_wf c \<Longrightarrow> conditions_wf (set_Status s c)"
  using conditions_wf_put [of c] by (auto simp: WithInstallReady_def Let_def split: prod.splits)

lemma WithAvailable_wf:
  "WithAvailable A a m (cro_Status c) w = (s, w') \<Longrightarrow> conditions_wf c \<Longrightarrow> conditions_wf (set_Status s c)"
  using conditions_wf_put [of c] by (auto simp: WithAvailable_def Let_def split: prod.splits)

section \<open>The contract of a handler\<close>

locale handler_contract =
  fixes handle :: "'w handler"
  assumes handle_keeps: "handle cro w = (Returned (cro', res, err), w') \<Longrightarrow> same_object cro' cro"
    and handle_no_requeue: "handle cro w = (Returned (cro', res, err), w') \<Longrightarrow> res = empty_Result"
    and handle_wf: "handle cro w = (Returned (cro', res, err), w') \<Longrightarrow> conditions_wf cro \<Longrightarrow> conditions_wf cro'"
begin

lemma handle_identity:
  assumes "handle cro w = (Returned (cro', res, err), w')"
  shows "o_Meta cro' = o_Meta cro" and "cro_Spec cro' = cro_Spec cro"
  using handle_keeps [OF assms] by (simp_all add: same_object_def)

text \<open>The run of a handler, written out: it returns an object of the same identity or panics.\<close>

lemma handle_cases:
  obtains "fst (handle cro w) = Panicked"
  | cro' err where "fst (handle cro w) = Returned (cro', empty_Result, err)" "same_object cro' cro"
proof (cases "fst (handle cro w)")
  case (Returned r)
  obtain cro' res err where "r = (cro', res, err)" by (cases r)
  with Returned have run: "handle cro w = (Returned (cro', res, err), snd (handle cro w))"
    by (metis prod.collapse)
  from handle_keeps [OF run] handle_no_requeue [OF run] \<open>r = _\<close> Returned show ?thesis by (simp add: that)
qed (rule that)

end

section \<open>Recorded runs\<close>

text \<open>\<open>writes p s s'\<close>: between the two recorded worlds, only calls satisfying \<open>p\<close> were made.\<close>

definition writes :: "(call \<Rightarrow> bool) \<Rightarrow> 'w \<times> call list \<Rightarrow> 'w \<times> call list \<Rightarrow> bool" where
  "writes p s s' \<longleftrightarrow> (\<exists>cs. snd s' = snd s @ cs \<and> list_all p cs)"

lemma writes_refl [simp]: "writes p s s"
  by (simp add: writes_def)

lemma writes_trans: "writes p s s' \<Longrightarrow> writes p s' s'' \<Longrightarrow> writes p s s''"
  by (auto simp: writes_def)

lemma writes_mono: "writes p s s' \<Longrightarrow> (\<And>c. p c \<Longrightarrow> q c) \<Longrightarrow> writes q s s'"
  by (auto simp: writes_def list_all_iff)

lemma writes_on_fst: "on_fst f s = (r, s') \<Longrightarrow> writes p s s'"
  by (simp add: writes_def on_fst_trace)

lemma writes_logging: "logging c f s = (r, s') \<Longrightarrow> p c \<Longrightarrow> writes p s s'"
  by (auto simp: writes_def dest: logging_trace)

text \<open>A handler over the recording interface, and the calls it may make.\<close>

locale handler_writes =
  fixes run :: "('w \<times> call list) handler"
    and allowed :: "call \<Rightarrow> bool"
  assumes run_writes: "run cro s = (r, s') \<Longrightarrow> writes allowed s s'"
begin

lemma run_writes_weaken: "run cro s = (r, s') \<Longrightarrow> (\<And>c. allowed c \<Longrightarrow> p c) \<Longrightarrow> writes p s s'"
  using run_writes writes_mono by blast

end

text \<open>Creating or patching an object of one of the given resources.\<close>

fun upsert_of :: "string list \<Rightarrow> call \<Rightarrow> bool" where
  "upsert_of rs (CallCreate gvr ns u) = (gvr_Resource gvr \<in> set rs)"
| "upsert_of rs (CallPatch gvr ns n b) = (gvr_Resource gvr \<in> set rs)"
| "upsert_of rs c = False"

lemma GetGVR_Resource [simp]: "gvr_Resource (GetGVR resource u) = resource"
  by (simp add: GetGVR_def Let_def)

lemma client_Ensure_writes:
  assumes "client_Ensure L (traced A) resource object s = (r, s')"
  shows "writes (upsert_of [resource]) s s'"
  using assms
  by (auto simp: client_Ensure_def Let_def split: sum.splits prod.splits if_splits
      intro: writes_logging writes_trans [OF writes_logging writes_trans [OF writes_on_fst writes_logging]]
        writes_trans [OF writes_logging writes_on_fst])

section \<open>The contract of a typed ensurer\<close>

locale typed_ensurer =
  fixes ensure :: "'obj \<Rightarrow> 'w \<times> call list \<Rightarrow> (error + 'obj) \<times> ('w \<times> call list)"
    and resource :: string
  assumes ensure_upserts: "ensure object s = (r, s') \<Longrightarrow> writes (upsert_of [resource]) s s'"
begin

lemma ensure_writes:
  "ensure object s = (r, s') \<Longrightarrow> (\<And>c. upsert_of [resource] c \<Longrightarrow> p c) \<Longrightarrow> writes p s s'"
  using ensure_upserts writes_mono by blast

text \<open>An ensurer never deletes and never touches a status.\<close>

lemma ensure_no_delete:
  "ensure object s = (r, s') \<Longrightarrow>
     writes (\<lambda>c. (\<forall>ns n. c \<noteq> CallDeleteSecret ns n) \<and> (\<forall>ns n. c \<noteq> CallDeleteDaemonSet ns n)
       \<and> (\<forall>n. c \<noteq> CallDeleteMWC n) \<and> (\<forall>x. c \<noteq> CallUpdateStatusCRO x)) s s'"
  by (erule ensure_writes) auto

end

interpretation configmap_ensurer: typed_ensurer "ConfigMapEnsurer_Ensure L (traced A)" "''configmaps''"
  for L :: lib and A :: "'w api"
  by unfold_locales
    (auto simp: ConfigMapEnsurer_Ensure_def split: sum.splits prod.splits dest: client_Ensure_writes)

interpretation service_ensurer: typed_ensurer "ServiceEnsurer_Ensure L (traced A)" "''services''"
  for L :: lib and A :: "'w api"
  by unfold_locales
    (auto simp: ServiceEnsurer_Ensure_def split: sum.splits prod.splits dest: client_Ensure_writes)

interpretation deployment_ensurer: typed_ensurer "DeploymentEnsurer_Ensure L (traced A)" "''deployments''"
  for L :: lib and A :: "'w api"
  by unfold_locales
    (auto simp: DeploymentEnsurer_Ensure_def split: sum.splits prod.splits dest: client_Ensure_writes)

interpretation apiservice_ensurer: typed_ensurer "APIServiceEnsurer_Ensure L (traced A)" "''apiservices''"
  for L :: lib and A :: "'w api"
  by unfold_locales
    (auto simp: APIServiceEnsurer_Ensure_def split: sum.splits prod.splits dest: client_Ensure_writes)

interpretation webhook_ensurer:
  typed_ensurer "MutatingWebhookConfigurationEnsurer_Ensure L (traced A)" "''mutatingwebhookconfigurations''"
  for L :: lib and A :: "'w api"
  by unfold_locales
    (auto simp: MutatingWebhookConfigurationEnsurer_Ensure_def split: sum.splits prod.splits
      dest: client_Ensure_writes)

interpretation policy_ensurer:
  typed_ensurer "ValidatingAdmissionPolicyEnsurer_Ensure L (traced A)" "''validatingadmissionpolicies''"
  for L :: lib and A :: "'w api"
  by unfold_locales
    (auto simp: ValidatingAdmissionPolicyEnsurer_Ensure_def split: sum.splits prod.splits
      dest: client_Ensure_writes)

interpretation binding_ensurer:
  typed_ensurer "ValidatingAdmissionPolicyBindingEnsurer_Ensure L (traced A)"
    "''validatingadmissionpolicybindings''"
  for L :: lib and A :: "'w api"
  by unfold_locales
    (auto simp: ValidatingAdmissionPolicyBindingEnsurer_Ensure_def split: sum.splits prod.splits
      dest: client_Ensure_writes)

end
