(* ===== verification/ResourceOverrideCtl.thy ===== *)
theory ResourceOverrideCtl
  imports HandlerBase
begin

text \<open>
  The ResourceOverride controller, pkg/resourceoverride: its reconciler (reconciler.go, updater.go),
  which validates a ResourceOverride and reports whether its namespace is opted in, the namespace
  event handler (namespace_handler.go) and the input check of the constructor (controller.go).

  The deep copy of a ResourceOverride is the object itself: none of its pointers is ever printed.
\<close>

section \<open>Requests\<close>

record Request =
  req_Namespace :: string
  req_Name :: string

section \<open>The reconciler (reconciler.go)\<close>

definition ResourceOverrideGVK :: GroupVersionKind where
  "ResourceOverrideGVK = \<lparr>gvk_Group = autoscaling_GroupName, gvk_Version = autoscaling_GroupVersion,
     gvk_Kind = ResourceOverrideKind\<rparr>"

definition set_ro_Status :: "ResourceOverrideStatus \<Rightarrow> ResourceOverride \<Rightarrow> ResourceOverride" where
  "set_ro_Status s ro = ro\<lparr>ro_Status := s\<rparr>"

definition RO_Validate :: "lib \<Rightarrow> 'w api \<Rightarrow> ResourceOverride \<Rightarrow> 'w \<Rightarrow> ResourceOverride \<times> 'w" where
  "RO_Validate L A current w =
     (let key = om_Namespace (o_Meta current) @ ''/'' @ om_Name (o_Meta current);
          (status, w1) =
            (case autoscaling_PodResourceOverrideSpec_Validate (ros_PodResourceOverride (ro_Spec current)) of
               Some validationErr \<Rightarrow>
                 WithValidationFailure A InvalidParameters (''resourceoverride '' @ key
                   @ '' has invalid parameters: '' @ Error validationErr) (ro_Status current) w
             | None \<Rightarrow>
                 (case (case ros_PodSelector (ro_Spec current) of
                          None \<Rightarrow> None | Some sel \<Rightarrow> lib_LabelSelectorAsSelector L sel) of
                    Some selectorErr \<Rightarrow>
                      WithValidationFailure A InvalidParameters (''resourceoverride '' @ key
                        @ '' has invalid podSelector field: '' @ Error selectorErr) (ro_Status current) w
                  | None \<Rightarrow> WithValidationCleared A (ro_Status current) w))
      in (set_ro_Status status current, w1))"

text \<open>A missing label map answers every key with the empty string.\<close>

definition ns_label :: "Namespace \<Rightarrow> string \<Rightarrow> string" where
  "ns_label ns key = (case ns_Labels ns of None \<Rightarrow> [] | Some labels \<Rightarrow> go_get labels key)"

definition checkNamespaceOptIn ::
  "'w api \<Rightarrow> ResourceOverride \<Rightarrow> 'w \<Rightarrow> (error + ResourceOverride) \<times> 'w" where
  "checkNamespaceOptIn A current w =
     (case api_Namespace_Get A (om_Namespace (o_Meta current)) w of
        (Inl err, w1) \<Rightarrow> (Inl err, w1)
      | (Inr ns, w1) \<Rightarrow>
          if ns_label ns NamespaceOptInLabelKey \<noteq> ''true''
          then (let (status, w2) = WithIgnored A NamespaceNotOptedIn (''namespace ''
                  @ fmt_q (om_Namespace (o_Meta current)) @ '' does not have the '' @ NamespaceOptInLabelKey
                  @ ''=true label'') (ro_Status current) w1
            in (Inr (set_ro_Status status current), w2))
          else (let (status, w2) = WithIgnoredCleared A (ro_Status current) w1
            in (Inr (set_ro_Status status current), w2)))"

definition RO_StatusUpdater_Update ::
  "'w api \<Rightarrow> ResourceOverride \<Rightarrow> ResourceOverride \<Rightarrow> 'w \<Rightarrow> error option \<times> 'w" where
  "RO_StatusUpdater_Update A observed desired w =
     (if ro_Status observed = ro_Status desired then (None, w)
      else api_RO_UpdateStatus A (om_Namespace (o_Meta desired)) desired w)"

definition RO_Reconcile ::
  "lib \<Rightarrow> 'w api \<Rightarrow> Request \<Rightarrow> 'w \<Rightarrow> (Result \<times> error option) outcome \<times> 'w" where
  "RO_Reconcile L A request w =
     (case api_RO_Get A (req_Namespace request) (req_Name request) w of
        (Inl getErr, w1) \<Rightarrow>
          if IsNotFound getErr then (Returned (empty_Result, None), w1)
          else (Returned (empty_Result, Some getErr), w1)
      | (Inr original, w1) \<Rightarrow>
          let copy = SetGroupVersionKind ResourceOverrideGVK original;
              (copy, w2) = RO_Validate L A copy w1
          in (case checkNamespaceOptIn A copy w2 of
                (Inl nsErr, w3) \<Rightarrow> (Returned (empty_Result, Some nsErr), w3)
              | (Inr copy, w3) \<Rightarrow>
                  let (err, w4) = RO_StatusUpdater_Update A original copy w3
                  in (Returned (empty_Result, err), w4)))"

section \<open>Namespace events (namespace_handler.go)\<close>

text \<open>The dynamic value an informer hands over: a namespace, or something of another type.\<close>

datatype watched = WatchedNamespace Namespace | WatchedOther string

definition labels_DeepEqual :: "go_map option \<Rightarrow> go_map option \<Rightarrow> bool" where
  "labels_DeepEqual a b = (case (a, b) of
     (None, None) \<Rightarrow> True | (Some m, Some n) \<Rightarrow> go_map_eq m n | _ \<Rightarrow> False)"

definition request_for :: "'a Object_scheme \<Rightarrow> Request" where
  "request_for obj = \<lparr>req_Namespace = om_Namespace (o_Meta obj), req_Name = om_Name (o_Meta obj)\<rparr>"

text \<open>The handlers answer with the requests they add to the queue, in order.\<close>

definition namespace_OnAdd :: "watched \<Rightarrow> bool \<Rightarrow> 'w \<Rightarrow> Request list \<times> 'w" where
  "namespace_OnAdd obj isInInitialList w = ([], w)"

definition namespace_OnUpdate :: "'w api \<Rightarrow> watched \<Rightarrow> watched \<Rightarrow> 'w \<Rightarrow> Request list \<times> 'w" where
  "namespace_OnUpdate A oldObj newObj w = (case oldObj of
     WatchedOther t \<Rightarrow> ([], w)
   | WatchedNamespace oldNs \<Rightarrow> (case newObj of
       WatchedOther t \<Rightarrow> ([], w)
     | WatchedNamespace newNs \<Rightarrow>
         if labels_DeepEqual (ns_Labels oldNs) (ns_Labels newNs) then ([], w)
         else (case api_RO_List A (ns_Name newNs) w of
             (Inl err, w1) \<Rightarrow> ([], w1)
           | (Inr ros, w1) \<Rightarrow> if ros = [] then ([], w1) else (map request_for ros, w1))))"

definition namespace_OnDelete :: "watched \<Rightarrow> 'w \<Rightarrow> Request list \<times> 'w" where
  "namespace_OnDelete obj w = ([], w)"

section \<open>The constructor's input check (controller.go)\<close>

text \<open>Which of the pointers and interfaces of the options are non-nil.\<close>

record RO_Client_set =
  has_Operator :: bool
  has_Kubernetes :: bool

definition RO_New_check :: "RO_Client_set option option \<Rightarrow> error option" where
  "RO_New_check options =
     (if options = None then Some (ErrorString ''Invalid input to controller.New'')
      else (case the options of
          None \<Rightarrow> Some (ErrorString ''Invalid input to controller.New'')
        | Some client \<Rightarrow>
            if \<not> has_Operator client \<or> \<not> has_Kubernetes client
            then Some (ErrorString ''Invalid input to controller.New'') else None))"

text \<open>The namespace watch starter fails on the first type whose cache did not sync.\<close>

definition nsWatchStarter :: "(string \<times> bool) list \<Rightarrow> error option" where
  "nsWatchStarter status = (case find (\<lambda>(t, synced). \<not> synced) status of
     None \<Rightarrow> None
   | Some (t, _) \<Rightarrow> Some (ErrorString (''namespace informer cache sync failed for '' @ t)))"

section \<open>What the reconciler reports\<close>

definition ro_valid :: "lib \<Rightarrow> ResourceOverride \<Rightarrow> bool" where
  "ro_valid L ro \<longleftrightarrow> valid_percentages (ros_PodResourceOverride (ro_Spec ro))
     \<and> (\<forall>sel. ros_PodSelector (ro_Spec ro) = Some sel \<longrightarrow> lib_LabelSelectorAsSelector L sel = None)"

definition reports :: "ResourceOverrideConditionType \<Rightarrow> bool \<Rightarrow> string \<Rightarrow> ResourceOverrideStatus \<Rightarrow> bool" where
  "reports ty b reason s \<longleftrightarrow> (\<exists>k. ro_Find s ty = Some k
     \<and> cond_Status k = (if b then ConditionTrue else ConditionFalse)
     \<and> cond_Reason k = (if b then reason else []))"

lemma set_ro_Status_simps [simp]:
  "ro_Status (set_ro_Status s ro) = s" "o_Meta (set_ro_Status s ro) = o_Meta ro"
  "ro_Spec (set_ro_Status s ro) = ro_Spec ro" "o_TypeMeta (set_ro_Status s ro) = o_TypeMeta ro"
  by (simp_all add: set_ro_Status_def)

lemma SetGroupVersionKind_ro [simp]:
  "ro_Spec (SetGroupVersionKind gvk c) = ro_Spec c" "ro_Status (SetGroupVersionKind gvk c) = ro_Status c"
  by (simp_all add: SetGroupVersionKind_def split: prod.splits)

lemma ro_put_reports:
  assumes "cond_Type d = ty" and "cond_Status d = (if b then ConditionTrue else ConditionFalse)"
    and "cond_Reason d = (if b then reason else [])"
  shows "reports ty b reason (ro_WithCondition (Some d) s)"
  using ro_conds.find_put [of d s] assms by (auto simp: reports_def ro_Equal_def)

lemmas ro_builder_defs = WithValidationFailure_def WithValidationCleared_def WithIgnored_def
  WithIgnoredCleared_def Let_def

lemma ro_builder_reports:
  "WithValidationFailure A r m s w = (s', w') \<Longrightarrow> reports ValidationFailure True r s'"
  "WithValidationCleared A s w = (s', w') \<Longrightarrow> reports ValidationFailure False r s'"
  "WithIgnored A r m s w = (s', w') \<Longrightarrow> reports Ignored True r s'"
  "WithIgnoredCleared A s w = (s', w') \<Longrightarrow> reports Ignored False r s'"
  by (auto simp: ro_builder_defs split: prod.splits intro!: ro_put_reports)

lemma ro_builder_other:
  "WithIgnored A r m s w = (s', w') \<Longrightarrow> ty \<noteq> Ignored \<Longrightarrow> ro_Find s' ty = ro_Find s ty"
  "WithIgnoredCleared A s w = (s', w') \<Longrightarrow> ty \<noteq> Ignored \<Longrightarrow> ro_Find s' ty = ro_Find s ty"
  by (auto simp: ro_builder_defs ro_conds.find_put_other split: prod.splits)

lemma ro_builder_distinct:
  "distinct (ro_cond_types s) \<Longrightarrow> distinct (ro_cond_types (ro_WithCondition (Some d) (ro_init s)))"
  by (simp add: ro_conds.distinct_put)

lemma RO_Validate_facts:
  assumes "RO_Validate L A ro w = (ro', w')"
  shows "reports ValidationFailure (\<not> ro_valid L ro) InvalidParameters (ro_Status ro')"
    and "o_Meta ro' = o_Meta ro" and "ro_Spec ro' = ro_Spec ro"
    and "distinct (ro_cond_types (ro_Status ro)) \<Longrightarrow> distinct (ro_cond_types (ro_Status ro'))"
proof -
  show "reports ValidationFailure (\<not> ro_valid L ro) InvalidParameters (ro_Status ro')"
    using assms
    by (auto simp: RO_Validate_def ro_valid_def Let_def Validate_None_iff [symmetric] autoscaling_Validate_eq
        split: option.splits prod.splits dest: ro_builder_reports)
  show "o_Meta ro' = o_Meta ro" and "ro_Spec ro' = ro_Spec ro"
    using assms by (auto simp: RO_Validate_def Let_def split: prod.splits)
  assume "distinct (ro_cond_types (ro_Status ro))"
  with assms show "distinct (ro_cond_types (ro_Status ro'))"
    by (auto simp: RO_Validate_def ro_builder_defs ro_builder_distinct split: option.splits prod.splits)
qed

lemma checkNamespaceOptIn_facts:
  assumes "checkNamespaceOptIn A ro w = (Inr ro', w')"
  shows "\<exists>ns w1. api_Namespace_Get A (om_Namespace (o_Meta ro)) w = (Inr ns, w1)
      \<and> reports Ignored (ns_label ns NamespaceOptInLabelKey \<noteq> ''true'') NamespaceNotOptedIn (ro_Status ro')"
    and "o_Meta ro' = o_Meta ro" and "ro_Spec ro' = ro_Spec ro"
    and "reports ValidationFailure b r (ro_Status ro) \<Longrightarrow> reports ValidationFailure b r (ro_Status ro')"
    and "distinct (ro_cond_types (ro_Status ro)) \<Longrightarrow> distinct (ro_cond_types (ro_Status ro'))"
  using assms
  by (auto simp: checkNamespaceOptIn_def Let_def split: sum.splits prod.splits if_splits dest: ro_builder_reports)
    (auto simp: reports_def ro_builder_other ro_builder_defs ro_builder_distinct ro_conds.find_put_other split: prod.splits)

lemma checkNamespaceOptIn_error:
  "checkNamespaceOptIn A ro w = (Inl e, w') \<Longrightarrow> api_Namespace_Get A (om_Namespace (o_Meta ro)) w = (Inl e, w')"
  by (auto simp: checkNamespaceOptIn_def Let_def split: sum.splits prod.splits if_splits)

section \<open>The calls of the reconciler\<close>

lemma ro_builder_writes:
  "WithValidationFailure (traced A) r m st s = (st', s') \<Longrightarrow> snd s' = snd s"
  "WithValidationCleared (traced A) st s = (st', s') \<Longrightarrow> snd s' = snd s"
  "WithIgnored (traced A) r m st s = (st', s') \<Longrightarrow> snd s' = snd s"
  "WithIgnoredCleared (traced A) st s = (st', s') \<Longrightarrow> snd s' = snd s"
  by (auto simp: ro_builder_defs split: prod.splits dest: on_fst_trace)

lemma RO_Validate_trace: "RO_Validate L (traced A) ro s = (ro', s') \<Longrightarrow> snd s' = snd s"
  by (auto simp: RO_Validate_def Let_def split: option.splits prod.splits dest: ro_builder_writes)

lemma checkNamespaceOptIn_trace: "checkNamespaceOptIn (traced A) ro s = (r, s') \<Longrightarrow> snd s' = snd s"
  by (auto simp: checkNamespaceOptIn_def Let_def split: sum.splits prod.splits if_splits
      dest!: ro_builder_writes on_fst_trace)

lemma RO_StatusUpdater_trace:
  "RO_StatusUpdater_Update (traced A) original copy s = (e, s') \<Longrightarrow>
     snd s' = snd s @ (if ro_Status original = ro_Status copy then []
       else [CallUpdateStatusRO (om_Namespace (o_Meta copy)) copy])"
  by (auto simp: RO_StatusUpdater_Update_def split: if_splits dest: logging_trace)

text \<open>
  A ResourceOverride that was found is either left alone, because its namespace could not be looked
  up, or its status is brought to what the spec and the namespace's label say, with one update call
  when that differs from the stored status.
\<close>

lemma RO_Reconcile_found:
  assumes "RO_Reconcile L (traced A) req s = (r, s')"
    and "api_RO_Get A (req_Namespace req) (req_Name req) (fst s) = (Inr original, w1)"
  shows "(\<exists>e w2 w3. r = Returned (empty_Result, Some e) \<and> snd s' = snd s
        \<and> api_Namespace_Get A (om_Namespace (o_Meta original)) w2 = (Inl e, w3))
    \<or> (\<exists>copy ns w2 w3 e. r = Returned (empty_Result, e)
        \<and> api_Namespace_Get A (om_Namespace (o_Meta original)) w2 = (Inr ns, w3)
        \<and> o_Meta copy = o_Meta original \<and> ro_Spec copy = ro_Spec original
        \<and> reports ValidationFailure (\<not> ro_valid L original) InvalidParameters (ro_Status copy)
        \<and> reports Ignored (ns_label ns NamespaceOptInLabelKey \<noteq> ''true'') NamespaceNotOptedIn (ro_Status copy)
        \<and> snd s' = snd s @ (if ro_Status original = ro_Status copy then []
            else [CallUpdateStatusRO (om_Namespace (o_Meta original)) copy])
        \<and> (if ro_Status original = ro_Status copy then e = None else True))"
proof -
  let ?c = "SetGroupVersionKind ResourceOverrideGVK original"
  obtain c1 s2 where val: "RO_Validate L (traced A) ?c (w1, snd s) = (c1, s2)"
    by (cases "RO_Validate L (traced A) ?c (w1, snd s)")
  obtain x s3 where opt: "checkNamespaceOptIn (traced A) c1 s2 = (x, s3)"
    by (cases "checkNamespaceOptIn (traced A) c1 s2")
  note vf = RO_Validate_facts [OF val]
  have valid: "ro_valid L ?c = ro_valid L original" by (simp add: ro_valid_def)
  have trace: "snd s3 = snd s"
    using RO_Validate_trace [OF val] checkNamespaceOptIn_trace [OF opt] by simp
  show ?thesis
  proof (cases x)
    case (Inl e)
    with assms val opt have "r = Returned (empty_Result, Some e)" "s' = s3"
      by (simp_all add: RO_Reconcile_def on_fst_def Let_def)
    moreover from checkNamespaceOptIn_error [OF opt [unfolded Inl]] vf(2)
    have "\<exists>w3. api_Namespace_Get A (om_Namespace (o_Meta original)) (fst s2) = (Inl e, w3)"
      by (auto simp: on_fst_def split: prod.splits)
    ultimately show ?thesis using trace by blast
  next
    case (Inr copy)
    obtain e s4 where upd: "RO_StatusUpdater_Update (traced A) original copy s3 = (e, s4)"
      by (cases "RO_StatusUpdater_Update (traced A) original copy s3")
    note nf = checkNamespaceOptIn_facts [OF opt [unfolded Inr]]
    from nf(1) vf(2) obtain ns w3 where ns: "api_Namespace_Get A (om_Namespace (o_Meta original)) (fst s2) = (Inr ns, w3)"
      "reports Ignored (ns_label ns NamespaceOptInLabelKey \<noteq> ''true'') NamespaceNotOptedIn (ro_Status copy)"
      by (auto simp: on_fst_def split: prod.splits)
    have "reports ValidationFailure (\<not> ro_valid L original) InvalidParameters (ro_Status copy)"
      using nf(4) vf(1) valid by simp
    moreover have "o_Meta copy = o_Meta original" "ro_Spec copy = ro_Spec original"
      using nf(2,3) vf(2,3) by simp_all
    moreover from assms val opt Inr upd have "r = Returned (empty_Result, e)" "s' = s4"
      by (simp_all add: RO_Reconcile_def on_fst_def Let_def)
    moreover from upd have "if ro_Status original = ro_Status copy then e = None else True"
      by (auto simp: RO_StatusUpdater_Update_def)
    ultimately show ?thesis using ns RO_StatusUpdater_trace [OF upd] trace by (intro disjI2) metis
  qed
qed

lemma RO_Reconcile_missing:
  assumes "api_RO_Get A (req_Namespace req) (req_Name req) w = (Inl e, w1)"
  shows "RO_Reconcile L A req w = (Returned (empty_Result, if IsNotFound e then None else Some e), w1)"
  using assms by (simp add: RO_Reconcile_def)

lemma RO_Reconcile_returns: "\<exists>err. fst (RO_Reconcile L A req w) = Returned (empty_Result, err)"
  by (auto simp: RO_Reconcile_def Let_def split: sum.splits prod.splits)

section \<open>Namespace events reach every ResourceOverride\<close>

lemma labels_DeepEqual_label:
  assumes "labels_DeepEqual (ns_Labels a) (ns_Labels b)"
    and "\<forall>m. ns_Labels a = Some m \<longrightarrow> go_map_wf m" and "\<forall>m. ns_Labels b = Some m \<longrightarrow> go_map_wf m"
  shows "ns_label a key = ns_label b key"
proof (cases "ns_Labels a")
  case None
  with assms(1) show ?thesis by (auto simp: labels_DeepEqual_def ns_label_def split: option.splits)
next
  case (Some m)
  with assms(1) obtain n where n: "ns_Labels b = Some n" and eq: "go_map_eq m n"
    by (auto simp: labels_DeepEqual_def split: option.splits)
  from assms Some n have wf: "distinct (map fst m)" "distinct (map fst n)" by (auto simp: go_map_wf_def)
  from eq wf have sub: "set m \<subseteq> set n" by (auto simp: go_map_eq_def list_all_iff dest!: bspec map_of_SomeD)
  moreover have "card (set m) = card (set n)"
    using eq wf by (simp add: go_map_eq_def distinct_card distinct_map)
  ultimately have "set m = set n" by (intro card_subset_eq) simp_all
  with wf have "map_of m = map_of n" by (simp add: map_of_inject_set)
  with Some n show ?thesis by (simp add: ns_label_def go_get_def)
qed

lemma namespace_OnUpdate_enqueues:
  assumes "ns_label old NamespaceOptInLabelKey \<noteq> ns_label new NamespaceOptInLabelKey"
    and "\<forall>m. ns_Labels old = Some m \<longrightarrow> go_map_wf m" and "\<forall>m. ns_Labels new = Some m \<longrightarrow> go_map_wf m"
    and "api_RO_List A (ns_Name new) w = (Inr ros, w1)"
  shows "namespace_OnUpdate A (WatchedNamespace old) (WatchedNamespace new) w = (map request_for ros, w1)"
proof -
  have "\<not> labels_DeepEqual (ns_Labels old) (ns_Labels new)"
    using labels_DeepEqual_label [OF _ assms(2,3)] assms(1) by blast
  with assms(4) show ?thesis by (simp add: namespace_OnUpdate_def)
qed

end
