(* ===== verification/ConfigHandlers.thy ===== *)
theory ConfigHandlers
  imports HandlerBase
begin

text \<open>
  The first handlers of the chain: availability.go, validation.go, configuration.go and service.go of
  pkg/clusterresourceoverride/internal/handlers.
\<close>

section \<open>Availability (availability.go)\<close>

definition availabilityHandler_Handle :: "'w Options \<Rightarrow> 'w handler" where
  "availabilityHandler_Handle opts original w =
     (let A = opt_api opts; ctx = opt_OperandContext opts; v = opt_Asset opts; status = cro_Status original;
          ((available, err), w1) = deploy_IsAvailable A ctx v True w;
          (status', w2) =
            (if available
             then (let (s, w2) = WithAvailable A ConditionTrue [] status w1 in (Returned s, w2))
             else (case err of
               None \<Rightarrow> WithError A (Some (NewAvailableError AdmissionWebhookNotAvailable
                 (Some (ErrorString (''name='' @ deployment_Name v @ '' deployment not complete''))))) status w1
             | Some e \<Rightarrow>
                 if IsNotFound e
                 then WithError A (Some (NewAvailableError AdmissionWebhookNotAvailable (Some e))) status w1
                 else WithError A (Some (NewAvailableError InternalError (Some e))) status w1))
      in (outcome_bind status' (\<lambda>s. handle_ok (set_Status s original)), w2))"

section \<open>Validation (validation.go)\<close>

definition validationHandler_Handle :: "'w handler" where
  "validationHandler_Handle original w =
     (let handleErr = None;
          handleErr = (case PodResourceOverrideSpec_Validate
                         (pro_Spec (spec_PodResourceOverride (cro_Spec original))) of
              None \<Rightarrow> handleErr
            | Some e \<Rightarrow> Some (NewInstallReadinessError InvalidParameters (Some e)));
          handleErr = (case DeploymentOverrides_Validate (spec_DeploymentOverrides (cro_Spec original)) of
              None \<Rightarrow> handleErr
            | Some e \<Rightarrow> Some (NewInstallReadinessError InvalidParameters (Some e)))
      in (Returned (original, empty_Result, handleErr), w))"

section \<open>Configuration (configuration.go)\<close>

definition NewConfiguration :: "'w Options \<Rightarrow> ClusterResourceOverride \<Rightarrow> error + ConfigMap" where
  "NewConfiguration opts override =
     (case lib_yaml_Marshal (opt_lib opts) (spec_PodResourceOverride (cro_Spec override)) of
        Inl err \<Rightarrow> Inl err
      | Inr bytes \<Rightarrow>
          let v = opt_Asset opts;
              configuration = ControllerSetter (configuration_New v) override;
              data = (if cm_Data configuration = [] then [] else cm_Data configuration)
          in Inr (configuration\<lparr>cm_Data := go_put data (v_ConfigurationKey v) bytes\<rparr>))"

definition set_configuration :: "string \<Rightarrow> ObjectReference \<Rightarrow> ClusterResourceOverride \<Rightarrow> ClusterResourceOverride" where
  "set_configuration hash ref cro = upd_Resources (\<lambda>r. r\<lparr>ConfigurationRef := Some ref\<rparr>)
     (cro\<lparr>cro_Status := (cro_Status cro)\<lparr>st_HashConfiguration := hash\<rparr>\<rparr>)"

definition configurationHandler_Handle :: "'w Options \<Rightarrow> 'w handler" where
  "configurationHandler_Handle opts original w =
     (let L = opt_lib opts; A = opt_api opts; v = opt_Asset opts in
      case NewConfiguration opts original of
        Inl err \<Rightarrow> (handle_err original (NewInstallReadinessError ConfigurationCheckFailed (Some err)), w)
      | Inr desired \<Rightarrow>
          (case (case api_ConfigMap_Get A (WebhookNamespace (opt_OperandContext opts)) (configuration_Name v) w of
                   (Inr object, w1) \<Rightarrow> (Inr object, w1)
                 | (Inl err, w1) \<Rightarrow>
                     if \<not> IsNotFound err then (Inl err, w1)
                     else ConfigMapEnsurer_Ensure L A desired w1) of
             (Inl err, w2) \<Rightarrow> (handle_err original (NewInstallReadinessError InternalError (Some err)), w2)
           | (Inr object, w2) \<Rightarrow>
               let hash = ClusterResourceOverrideSpec_Hash (lib_sha256 L) (cro_Spec original);
                   equal = (hash = st_HashConfiguration (cro_Status original))
               in if equal \<and> ref_in_sync (ConfigurationRef (cro_Resources original)) object
                  then (handle_ok original, w2)
                  else (case (if \<not> equal then ConfigMapEnsurer_Ensure L A desired w2 else (Inr object, w2)) of
                    (Inl err, w3) \<Rightarrow>
                      (handle_err original (NewInstallReadinessError ConfigurationCheckFailed (Some err)), w3)
                  | (Inr object, w3) \<Rightarrow>
                      (case GetReference (lib_ObjectKinds L) GoConfigMap object of
                         Inl err \<Rightarrow> (handle_err original (NewInstallReadinessError CannotSetReference (Some err)), w3)
                       | Inr newRef \<Rightarrow> (handle_ok (set_configuration hash newRef original), w3)))))"

section \<open>Service (service.go)\<close>

definition AlphaServiceNameAnnotation :: string where
  "AlphaServiceNameAnnotation = ''service.alpha.openshift.io/originating-service-name''"

text \<open>The secret of releases before 4.17 was not issued for this service; it is deleted.\<close>

definition secret_is_old :: "Secret \<Rightarrow> string \<Rightarrow> bool" where
  "secret_is_old secret name \<longleftrightarrow>
     (let annotations = om_Annotations (o_Meta secret);
          exists = go_has annotations AlphaServiceNameAnnotation;
          val = go_get annotations AlphaServiceNameAnnotation
      in \<not> exists \<or> (exists \<and> val \<noteq> name))"

definition serviceHandler_Handle :: "'w Options \<Rightarrow> 'w handler" where
  "serviceHandler_Handle opts original w =
     (let L = opt_lib opts; A = opt_api opts; v = opt_Asset opts; ns = WebhookNamespace (opt_OperandContext opts);
          name = service_Name v; secretName = serviceServingSecret_Name v in
      case (case api_Secret_Get A ns secretName w of
              (Inr secret, w1) \<Rightarrow>
                if secret_is_old secret name
                then (case api_Secret_Delete A ns secretName w1 of
                    (Some err, w2) \<Rightarrow> (Inl (NewInstallReadinessError InternalError (Some err)), w2)
                  | (None, w2) \<Rightarrow> (Inr (), w2))
                else (Inr (), w1)
            | (Inl err, w1) \<Rightarrow>
                if \<not> IsNotFound err then (Inl (NewInstallReadinessError CertNotAvailable (Some err)), w1)
                else (Inr (), w1)) of
        (Inl e, w3) \<Rightarrow> (handle_err original e, w3)
      | (Inr _, w3) \<Rightarrow>
          let desired = ControllerSetter (service_New v) original in
          (case (case api_Service_Get A ns name w3 of
                   (Inr object, w4) \<Rightarrow> (Inr object, w4)
                 | (Inl err, w4) \<Rightarrow>
                     if \<not> IsNotFound err then (Inl err, w4) else ServiceEnsurer_Ensure L A desired w4) of
             (Inl err, w5) \<Rightarrow> (handle_err original (NewInstallReadinessError CertNotAvailable (Some err)), w5)
           | (Inr object, w5) \<Rightarrow>
               if ref_in_sync (ServiceRef (cro_Resources original)) object then (handle_ok original, w5)
               else (case GetReference (lib_ObjectKinds L) GoService object of
                  Inl err \<Rightarrow> (handle_err original (NewInstallReadinessError CannotSetReference (Some err)), w5)
                | Inr newRef \<Rightarrow>
                    (handle_ok (upd_Resources (\<lambda>r. r\<lparr>ServiceRef := Some newRef\<rparr>) original), w5))))"

section \<open>The contract\<close>

lemma FromError_not_Panicked_Some [simp]:
  "FromError (AvailableError r (Some e)) t \<noteq> Panicked"
  "FromError (InstallReadinessError r (Some e)) t \<noteq> Panicked"
  by simp_all

lemma WithError_typed_returns:
  "\<exists>s' w'. WithError A (Some (NewAvailableError r (Some e))) s w = (Returned s', w')"
  by (simp add: WithError_def NewAvailableError_def Let_def split: prod.splits)

lemma availabilityHandler_returns:
  "\<exists>s' w'. availabilityHandler_Handle opts cro w = (Returned (set_Status s' cro, empty_Result, None), w')"
  unfolding availabilityHandler_Handle_def Let_def
  by (auto simp: handle_ok_def split: prod.splits option.splits)
    (use WithError_typed_returns in \<open>(metis old.prod.inject outcome_bind.simps(1) outcome.distinct(1))+\<close>)

interpretation availability: handler_contract "availabilityHandler_Handle opts" for opts :: "'w Options"
proof unfold_locales
  fix cro cro' :: ClusterResourceOverride and w w' :: 'w and res err
  assume run: "availabilityHandler_Handle opts cro w = (Returned (cro', res, err), w')"
  obtain s'' w'' where eq: "availabilityHandler_Handle opts cro w = (Returned (set_Status s'' cro, empty_Result, None), w'')"
    using availabilityHandler_returns [of opts cro w] by blast
  with run show "same_object cro' cro" and "res = empty_Result" by auto
  assume "conditions_wf cro"
  with run show "conditions_wf cro'"
    by (auto simp: availabilityHandler_Handle_def Let_def split: prod.splits option.splits if_splits
        dest: WithError_wf WithAvailable_wf)
qed

interpretation validation: handler_contract "validationHandler_Handle :: 'w handler"
  by unfold_locales (auto simp: validationHandler_Handle_def Let_def)

interpretation configuration: handler_contract "configurationHandler_Handle opts" for opts :: "'w Options"
  by unfold_locales
    (auto simp: configurationHandler_Handle_def set_configuration_def Let_def
      split: sum.splits prod.splits if_splits)

interpretation service: handler_contract "serviceHandler_Handle opts" for opts :: "'w Options"
  by unfold_locales
    (auto simp: serviceHandler_Handle_def Let_def split: sum.splits prod.splits if_splits option.splits)

end
