(* ===== verification/DeployHandler.thy ===== *)
theory DeployHandler
  imports HandlerBase
begin

text \<open>
  The deployment handler, deploy.go of pkg/clusterresourceoverride/internal/handlers: it removes the
  daemon set of old releases, decides whether the operand's deployment has to be ensured, and ensures
  it after removing the webhook configuration and ensuring the RBAC objects.
\<close>

section \<open>Customising the deployment\<close>

definition ApplyToDeploymentObject ::
  "'w Options \<Rightarrow> ClusterResourceOverride \<Rightarrow> Args \<Rightarrow> Deployment \<Rightarrow> Deployment" where
  "ApplyToDeploymentObject opts cro tlsArgs deployment =
     (let v = opt_Asset opts; meta = o_Meta deployment;
          annotations = (if om_Annotations meta = [] then [] else om_Annotations meta);
          annotations = go_put annotations (v_ConfigurationHashAnnotationKey v)
            (st_HashConfiguration (cro_Status cro));
          annotations = go_put annotations (v_TLSProfileHashAnnotationKey v) (Args_Hash tlsArgs);
          deployment = deployment\<lparr>o_Meta := meta\<lparr>om_Annotations := annotations\<rparr>\<rparr>;
          deployment = (case do_Replicas (spec_DeploymentOverrides (cro_Spec cro)) of
              None \<Rightarrow> deployment
            | Some r \<Rightarrow> deployment\<lparr>dep_Spec := (dep_Spec deployment)\<lparr>dep_Replicas := Some r\<rparr>\<rparr>)
      in ControllerSetter deployment cro)"

definition is_tls_arg :: "string \<Rightarrow> bool" where
  "is_tls_arg arg \<longleftrightarrow> strings_HasPrefix arg ''--tls-min-version='' \<or> strings_HasPrefix arg ''--tls-cipher-suites=''"

fun filter_tls_args :: "string list \<Rightarrow> string list" where
  "filter_tls_args [] = []"
| "filter_tls_args (arg # args) =
     (if \<not> strings_HasPrefix arg ''--tls-min-version='' \<and> \<not> strings_HasPrefix arg ''--tls-cipher-suites=''
      then arg # filter_tls_args args else filter_tls_args args)"

definition with_tls_args :: "Args \<Rightarrow> string list \<Rightarrow> string list" where
  "with_tls_args tlsArgs args =
     (let filtered = filter_tls_args args;
          filtered = (if MinVersion tlsArgs \<noteq> [] then filtered @ [''--tls-min-version='' @ MinVersion tlsArgs]
                      else filtered)
      in if CipherSuites tlsArgs \<noteq> [] then filtered @ [''--tls-cipher-suites='' @ CipherSuites tlsArgs]
         else filtered)"

definition standalone_NodeSelector :: go_map where
  "standalone_NodeSelector = [(''node-role.kubernetes.io/control-plane'', [])]"

definition standalone_Tolerations :: "Toleration list" where
  "standalone_Tolerations =
     [\<lparr>tol_Key = ''node-role.kubernetes.io/master'', tol_Operator = ''Exists'', tol_Value = [],
        tol_Effect = ''NoSchedule'', tol_TolerationSeconds = None\<rparr>,
      \<lparr>tol_Key = ''node-role.kubernetes.io/control-plane'', tol_Operator = ''Exists'', tol_Value = [],
        tol_Effect = ''NoSchedule'', tol_TolerationSeconds = None\<rparr>]"

definition ApplyToToPodTemplate ::
  "'w Options \<Rightarrow> ClusterResourceOverride \<Rightarrow> Args \<Rightarrow> PodTemplateSpec \<Rightarrow> PodTemplateSpec" where
  "ApplyToToPodTemplate opts cro tlsArgs podTemplateSpec =
     (let v = opt_Asset opts; meta = pt_Meta podTemplateSpec; overrides = spec_DeploymentOverrides (cro_Spec cro);
          annotations = (if om_Annotations meta = [] then [] else om_Annotations meta);
          annotations = go_put annotations (v_OwnerAnnotationKey v) (om_Name (o_Meta cro));
          annotations = go_put annotations (v_ConfigurationHashAnnotationKey v)
            (st_HashConfiguration (cro_Status cro));
          spec = pt_Spec podTemplateSpec;
          spec = (if do_NodeSelector overrides \<noteq> [] then spec\<lparr>pod_NodeSelector := do_NodeSelector overrides\<rparr>
            else if opt_IsStandalone opts then spec\<lparr>pod_NodeSelector := standalone_NodeSelector\<rparr>
            else spec);
          spec = (if do_Tolerations overrides \<noteq> [] then spec\<lparr>pod_Tolerations := do_Tolerations overrides\<rparr>
            else if opt_IsStandalone opts
            then spec\<lparr>pod_Tolerations := pod_Tolerations spec @ standalone_Tolerations\<rparr>
            else spec);
          spec = (case pod_Containers spec of
              [] \<Rightarrow> spec
            | c # cs \<Rightarrow> spec\<lparr>pod_Containers := c\<lparr>ctr_Args := with_tls_args tlsArgs (ctr_Args c)\<rparr> # cs\<rparr>)
      in podTemplateSpec\<lparr>pt_Meta := meta\<lparr>om_Annotations := annotations\<rparr>, pt_Spec := spec\<rparr>)"

section \<open>Ensuring\<close>

fun EnsureRBAC_items :: "lib \<Rightarrow> 'w api \<Rightarrow> RBACItem list \<Rightarrow> ClusterResourceOverride \<Rightarrow> 'w \<Rightarrow> error option \<times> 'w" where
  "EnsureRBAC_items L A [] cro w = (None, w)"
| "EnsureRBAC_items L A (item # items) cro w =
     (let object = runtime_SetController (rbac_Object item) cro in
      case client_Ensure L A (rbac_Resource item) object w of
        (Inl err, w1) \<Rightarrow> (Some (ErrorString (''resource='' @ rbac_Resource item
           @ '' failed to ensure RBAC - '' @ Error err @ '' '' @ lib_fmt_object L object)), w1)
      | (Inr current, w1) \<Rightarrow> EnsureRBAC_items L A items cro w1)"

definition EnsureRBAC :: "'w Options \<Rightarrow> ClusterResourceOverride \<Rightarrow> 'w \<Rightarrow> error option \<times> 'w" where
  "EnsureRBAC opts cro w =
     EnsureRBAC_items (opt_lib opts) (opt_api opts) (rbac_New (opt_Asset opts)) cro w"

text \<open>The errors of Ensure are plain: none of them carries a reason for a condition.\<close>

definition deploymentHandler_Ensure ::
  "'w Options \<Rightarrow> ClusterResourceOverride \<Rightarrow> Args \<Rightarrow> 'w \<Rightarrow> (error + Deployment) \<times> 'w" where
  "deploymentHandler_Ensure opts cro tlsArgs w =
     (let L = opt_lib opts; A = opt_api opts; v = opt_Asset opts; name = mutatingWebhookConfiguration_Name v;
          (deleteErr, w1) = api_MWC_Delete A name w in
      if deleteErr \<noteq> None \<and> \<not> IsNotFound_opt deleteErr
      then (Inl (ErrorString (''failed to delete MutatingWebhookConfiguration - '' @ Error (the deleteErr))), w1)
      else (case EnsureRBAC opts cro w1 of
         (Some err, w2) \<Rightarrow> (Inl err, w2)
       | (None, w2) \<Rightarrow>
           deploy_Ensure L A (opt_tolerationSeconds opts) v
             (Some (ApplyToDeploymentObject opts cro tlsArgs))
             (Some (ApplyToToPodTemplate opts cro tlsArgs)) w2))"

section \<open>Handle\<close>

text \<open>The switch that decides whether the deployment is ensured; \<open>None\<close>: not found.\<close>

definition needs_ensure :: "Values \<Rightarrow> ClusterResourceOverride \<Rightarrow> Args \<Rightarrow> Deployment option \<Rightarrow> bool" where
  "needs_ensure v current tlsArgs found = (case found of
     None \<Rightarrow> True
   | Some object \<Rightarrow>
       (let annotations = om_Annotations (o_Meta object) in
        if go_get annotations (v_ConfigurationHashAnnotationKey v)
             \<noteq> st_HashConfiguration (cro_Status current) then True
        else if go_get annotations (v_TLSProfileHashAnnotationKey v) \<noteq> Args_Hash tlsArgs then True
        else if v_OperandImage v \<noteq> st_Image (cro_Status current) then True
        else if v_OperandVersion v \<noteq> st_Version (cro_Status current) then True
        else False))"

definition deploymentHandler_finish ::
  "'w Options \<Rightarrow> ClusterResourceOverride \<Rightarrow> Args \<Rightarrow> Deployment option \<Rightarrow> 'w \<Rightarrow> handle_result \<times> 'w" where
  "deploymentHandler_finish opts original tlsArgs found w =
     (case (if needs_ensure (opt_Asset opts) original tlsArgs found
            then deploymentHandler_Ensure opts original tlsArgs w
            else (Inr (the found), w)) of
        (Inl err, w1) \<Rightarrow> (handle_err original (PlainError err), w1)
      | (Inr object, w1) \<Rightarrow>
          if ref_in_sync (DeploymentRef (cro_Resources original)) object then (handle_ok original, w1)
          else (case GetReference (lib_ObjectKinds (opt_lib opts)) GoDeployment object of
             Inl err \<Rightarrow> (handle_err original (NewInstallReadinessError CertNotAvailable (Some err)), w1)
           | Inr newRef \<Rightarrow>
               (handle_ok (upd_Resources (\<lambda>r. r\<lparr>DeploymentRef := Some newRef\<rparr>) original), w1)))"

definition deploymentHandler_Handle :: "'w Options \<Rightarrow> 'w handler" where
  "deploymentHandler_Handle opts original w =
     (let L = opt_lib opts; A = opt_api opts; v = opt_Asset opts;
          (deleteErr, w1) = api_DaemonSet_Delete A (v_Namespace v) (daemonset_Name v) w in
      if deleteErr \<noteq> None \<and> \<not> IsNotFound_opt deleteErr
      then (handle_err original (PlainError (ErrorString (''failed to delete DaemonSet - ''
              @ Error (the deleteErr)))), w1)
      else if deleteErr = None then (handle_ok original, w1)
      else
        let (fetched, w2) = tlsprofile_Fetch L A w1;
            tlsArgs = (case fetched of Inl err \<Rightarrow> empty_Args | Inr args \<Rightarrow> args);
            (got, w3) = deploy_Get A (opt_OperandContext opts) v w2 in
        (case got of
           Inl getErr \<Rightarrow>
             if \<not> IsNotFound getErr
             then (handle_err original (NewInstallReadinessError InternalError (Some getErr)), w3)
             else deploymentHandler_finish opts original tlsArgs None w3
         | Inr object \<Rightarrow> deploymentHandler_finish opts original tlsArgs (Some object) w3))"

section \<open>The contract\<close>

lemma deploymentHandler_finish_result:
  assumes "deploymentHandler_finish opts cro args found w = (Returned (cro', res, err), w')"
  shows "res = empty_Result \<and> (cro' = cro \<or> (\<exists>ref. cro' = upd_Resources (\<lambda>r. r\<lparr>DeploymentRef := Some ref\<rparr>) cro))"
  using assms
  by (auto simp: deploymentHandler_finish_def split: sum.splits prod.splits if_splits)

lemma deploymentHandler_Handle_result:
  assumes "deploymentHandler_Handle opts cro w = (Returned (cro', res, err), w')"
  shows "res = empty_Result \<and> (cro' = cro \<or> (\<exists>ref. cro' = upd_Resources (\<lambda>r. r\<lparr>DeploymentRef := Some ref\<rparr>) cro))"
  using assms
  by (auto simp: deploymentHandler_Handle_def Let_def split: sum.splits prod.splits if_splits
      dest: deploymentHandler_finish_result)

interpretation deployment: handler_contract "deploymentHandler_Handle opts" for opts :: "'w Options"
  by unfold_locales (auto dest!: deploymentHandler_Handle_result)

section \<open>The customised deployment\<close>

lemma filter_tls_args_filter: "filter_tls_args args = filter (\<lambda>a. \<not> is_tls_arg a) args"
  by (induction args) (auto simp: is_tls_arg_def)

lemma with_tls_args_set:
  "a \<in> set (with_tls_args tls args) \<longleftrightarrow>
     (a \<in> set args \<and> \<not> is_tls_arg a)
     \<or> (MinVersion tls \<noteq> [] \<and> a = ''--tls-min-version='' @ MinVersion tls)
     \<or> (CipherSuites tls \<noteq> [] \<and> a = ''--tls-cipher-suites='' @ CipherSuites tls)"
  by (auto simp: with_tls_args_def filter_tls_args_filter Let_def)

lemma filter_tls_args_append: "filter_tls_args (xs @ ys) = filter_tls_args xs @ filter_tls_args ys"
  by (simp add: filter_tls_args_filter)

lemma filter_tls_args_with_tls_args: "filter_tls_args (with_tls_args tls args) = filter_tls_args args"
  by (simp add: with_tls_args_def filter_tls_args_append Let_def strings_HasPrefix_def)
    (simp add: filter_tls_args_filter)

text \<open>Applying the TLS arguments replaces earlier ones: only the last application counts.\<close>

lemma with_tls_args_replaces: "with_tls_args tls (with_tls_args tls' args) = with_tls_args tls args"
  by (simp add: with_tls_args_def [of tls] filter_tls_args_with_tls_args)

text \<open>The other arguments of the container keep their order.\<close>

lemma tls_args_replaced:
  "with_tls_args tls (with_tls_args tls' args) = with_tls_args tls args
   \<and> filter (\<lambda>a. \<not> is_tls_arg a) (with_tls_args tls args) = filter (\<lambda>a. \<not> is_tls_arg a) args"
  using filter_tls_args_with_tls_args [of tls args] by (simp add: with_tls_args_replaces filter_tls_args_filter)

end
