(* ===== verification/WebhookHandlers.thy ===== *)
theory WebhookHandlers
  imports HandlerBase
begin

text \<open>
  The handlers after the deployment: deployment_ready.go, apiservice.go, webhook.go and
  validatingadmissionpolicy.go of pkg/clusterresourceoverride/internal/handlers.
\<close>

section \<open>Deployment ready (deployment_ready.go)\<close>

definition deploymentReadyHandler_Handle :: "'w Options \<Rightarrow> 'w handler" where
  "deploymentReadyHandler_Handle opts original w =
     (let A = opt_api opts; ctx = opt_OperandContext opts; v = opt_Asset opts;
          ((available, err), w1) = deploy_IsAvailable A ctx v False w in
      if available
      then let (status, w2) = WithInstallReady A (cro_Status original) w1
        in (handle_ok (set_Status (status\<lparr>st_Version := OperandVersion ctx, st_Image := OperandImage ctx\<rparr>) original), w2)
      else let e = (case err of
               None \<Rightarrow> ErrorString (''name='' @ deployment_Name v @ '' waiting for deployment to complete'')
             | Some e \<Rightarrow> e)
        in (handle_err original (NewInstallReadinessError DeploymentNotReady (Some e)), w1))"

section \<open>API service (apiservice.go)\<close>

text \<open>
  The reference is checked against the object that was read, or against the one just ensured. A get
  that answers nil without an error yields a typed error that wraps nil.
\<close>

definition not_owned_by :: "'a Object_scheme \<Rightarrow> 'b Object_scheme \<Rightarrow> bool" where
  "not_owned_by object owner \<longleftrightarrow>
     length (om_OwnerReferences (o_Meta object)) \<noteq> 1
     \<or> or_UID (hd (om_OwnerReferences (o_Meta object))) \<noteq> om_UID (o_Meta owner)"

definition apiServiceHandler_Handle :: "'w Options \<Rightarrow> 'w handler" where
  "apiServiceHandler_Handle opts original w =
     (let L = opt_lib opts; A = opt_api opts; v = opt_Asset opts in
      case (case api_APIService_Get A (apiservice_Name v) w of
              (Inl err, w1) \<Rightarrow>
                if \<not> IsNotFound err
                then (Inl (NewInstallReadinessError AdmissionWebhookNotAvailable (Some err)), w1)
                else (Inr None, w1)
            | (Inr None, w1) \<Rightarrow> (Inl (NewInstallReadinessError InternalError None), w1)
            | (Inr (Some object), w1) \<Rightarrow>
                (Inr (if not_owned_by object original then None else Some object), w1)) of
        (Inl e, w2) \<Rightarrow> (handle_err original e, w2)
      | (Inr found, w2) \<Rightarrow>
          (case (case found of
                   None \<Rightarrow> APIServiceEnsurer_Ensure L A (ControllerSetter (apiservice_New v) original) w2
                 | Some object \<Rightarrow> (Inr object, w2)) of
             (Inl err, w3) \<Rightarrow>
               (handle_err original (NewInstallReadinessError AdmissionWebhookNotAvailable (Some err)), w3)
           | (Inr object, w3) \<Rightarrow>
               if ref_in_sync (APiServiceRef (cro_Resources original)) object then (handle_ok original, w3)
               else (case GetReference (lib_ObjectKinds L) GoAPIService object of
                  Inl err \<Rightarrow> (handle_err original (NewInstallReadinessError CertNotAvailable (Some err)), w3)
                | Inr newRef \<Rightarrow>
                    (handle_ok (upd_Resources (\<lambda>r. r\<lparr>APiServiceRef := Some newRef\<rparr>) original), w3))))"

section \<open>Webhook configuration (webhook.go)\<close>

definition webhookConfigurationHandler_Handle :: "'w Options \<Rightarrow> 'w handler" where
  "webhookConfigurationHandler_Handle opts original w =
     (let L = opt_lib opts; A = opt_api opts; v = opt_Asset opts in
      case (case api_MWC_Get A (mutatingWebhookConfiguration_Name v) w of
              (Inr object, w1) \<Rightarrow> (Inr object, w1)
            | (Inl err, w1) \<Rightarrow>
                if \<not> IsNotFound err then (Inl err, w1)
                else MutatingWebhookConfigurationEnsurer_Ensure L A
                       (ControllerSetter (mutatingWebhookConfiguration_New v) original) w1) of
        (Inl err, w2) \<Rightarrow> (handle_err original (NewInstallReadinessError CertNotAvailable (Some err)), w2)
      | (Inr object, w2) \<Rightarrow>
          if ref_in_sync (MutatingWebhookConfigurationRef (cro_Resources original)) object
          then (handle_ok original, w2)
          else (case GetReference (lib_ObjectKinds L) GoMutatingWebhookConfiguration object of
             Inl err \<Rightarrow> (handle_err original (NewInstallReadinessError CertNotAvailable (Some err)), w2)
           | Inr newRef \<Rightarrow>
               (handle_ok (upd_Resources (\<lambda>r. r\<lparr>MutatingWebhookConfigurationRef := Some newRef\<rparr>) original), w2)))"

section \<open>Validating admission policy (validatingadmissionpolicy.go)\<close>

definition validatingAdmissionPolicyHandler_binding :: "'w Options \<Rightarrow> 'w handler" where
  "validatingAdmissionPolicyHandler_binding opts original w =
     (let L = opt_lib opts; A = opt_api opts; v = opt_Asset opts in
      case (case api_VAPB_Get A validatingAdmissionPolicyName w of
              (Inr object, w1) \<Rightarrow> (Inr object, w1)
            | (Inl err, w1) \<Rightarrow>
                if \<not> IsNotFound err then (Inl err, w1)
                else ValidatingAdmissionPolicyBindingEnsurer_Ensure L A
                       (ControllerSetter (validatingAdmissionPolicyBinding_New v) original) w1) of
        (Inl err, w2) \<Rightarrow> (handle_err original (NewInstallReadinessError InternalError (Some err)), w2)
      | (Inr bindingObject, w2) \<Rightarrow>
          if ref_in_sync (ValidatingAdmissionPolicyBindingRef (cro_Resources original)) bindingObject
          then (handle_ok original, w2)
          else (case GetReference (lib_ObjectKinds L) GoValidatingAdmissionPolicyBinding bindingObject of
             Inl err \<Rightarrow> (handle_err original (NewInstallReadinessError CannotSetReference (Some err)), w2)
           | Inr newRef \<Rightarrow>
               (handle_ok (upd_Resources (\<lambda>r. r\<lparr>ValidatingAdmissionPolicyBindingRef := Some newRef\<rparr>) original), w2)))"

definition validatingAdmissionPolicyHandler_Handle :: "'w Options \<Rightarrow> 'w handler" where
  "validatingAdmissionPolicyHandler_Handle opts original w =
     (let L = opt_lib opts; A = opt_api opts; v = opt_Asset opts in
      case (case api_VAP_Get A validatingAdmissionPolicyName w of
              (Inr object, w1) \<Rightarrow> (Inr object, w1)
            | (Inl err, w1) \<Rightarrow>
                if \<not> IsNotFound err then (Inl err, w1)
                else ValidatingAdmissionPolicyEnsurer_Ensure L A
                       (ControllerSetter (validatingAdmissionPolicy_New v) original) w1) of
        (Inl err, w2) \<Rightarrow> (handle_err original (NewInstallReadinessError InternalError (Some err)), w2)
      | (Inr policyObject, w2) \<Rightarrow>
          if ref_in_sync (ValidatingAdmissionPolicyRef (cro_Resources original)) policyObject
          then validatingAdmissionPolicyHandler_binding opts original w2
          else (case GetReference (lib_ObjectKinds L) GoValidatingAdmissionPolicy policyObject of
             Inl err \<Rightarrow> (handle_err original (NewInstallReadinessError CannotSetReference (Some err)), w2)
           | Inr newRef \<Rightarrow>
               validatingAdmissionPolicyHandler_binding opts
                 (upd_Resources (\<lambda>r. r\<lparr>ValidatingAdmissionPolicyRef := Some newRef\<rparr>) original) w2))"

section \<open>The contract\<close>

lemma set_Status_version_wf [simp]:
  "conditions_wf (set_Status (s\<lparr>st_Version := a, st_Image := b\<rparr>) c) \<longleftrightarrow> conditions_wf (set_Status s c)"
  by (simp add: conditions_wf_def cro_cond_types_def)

interpretation deployment_ready: handler_contract "deploymentReadyHandler_Handle opts" for opts :: "'w Options"
  by unfold_locales
    (auto simp: deploymentReadyHandler_Handle_def Let_def split: prod.splits if_splits
      dest: WithInstallReady_wf)

interpretation api_service: handler_contract "apiServiceHandler_Handle opts" for opts :: "'w Options"
  by unfold_locales
    (auto simp: apiServiceHandler_Handle_def Let_def split: sum.splits prod.splits if_splits option.splits)

interpretation webhook: handler_contract "webhookConfigurationHandler_Handle opts" for opts :: "'w Options"
  by unfold_locales
    (auto simp: webhookConfigurationHandler_Handle_def Let_def split: sum.splits prod.splits if_splits)

interpretation policy_binding:
  handler_contract "validatingAdmissionPolicyHandler_binding opts" for opts :: "'w Options"
  by unfold_locales
    (auto simp: validatingAdmissionPolicyHandler_binding_def Let_def split: sum.splits prod.splits if_splits)

lemma validatingAdmissionPolicyHandler_cases:
  assumes "validatingAdmissionPolicyHandler_Handle opts cro w = (Returned (cro', res, err), w')"
  shows "(cro' = cro \<and> res = empty_Result)
    \<or> (\<exists>f w1. validatingAdmissionPolicyHandler_binding opts (upd_Resources f cro) w1 = (Returned (cro', res, err), w'))
    \<or> (\<exists>w1. validatingAdmissionPolicyHandler_binding opts cro w1 = (Returned (cro', res, err), w'))"
  using assms
  by (auto simp: validatingAdmissionPolicyHandler_Handle_def Let_def split: sum.splits prod.splits if_splits)

interpretation policy: handler_contract "validatingAdmissionPolicyHandler_Handle opts" for opts :: "'w Options"
proof unfold_locales
  fix cro cro' :: ClusterResourceOverride and w w' :: 'w and res err
  assume run: "validatingAdmissionPolicyHandler_Handle opts cro w = (Returned (cro', res, err), w')"
  from validatingAdmissionPolicyHandler_cases [OF run]
  show "same_object cro' cro" and "res = empty_Result" and "conditions_wf cro \<Longrightarrow> conditions_wf cro'"
    using policy_binding.handle_keeps policy_binding.handle_no_requeue policy_binding.handle_wf
    by (fastforce simp: same_object_def upd_Resources_def conditions_wf_def cro_cond_types_def)+
qed

end
