(* ===== verification/Reconciler.thy ===== *)
theory Reconciler
  imports ConfigHandlers DeployHandler WebhookHandlers
begin

text \<open>
  pkg/clusterresourceoverride/internal/reconciler: the handler chain (handler_chain.go), the status
  updater (updater.go) and the reconciler of the ClusterResourceOverride (reconciler.go). The locale
  \<open>handler_chain\<close> proves what any chain of contract-keeping handlers guarantees; it is interpreted on
  the list of handlers that \<open>NewReconciler\<close> builds.
\<close>

section \<open>The handler chain (handler_chain.go)\<close>

text \<open>An empty chain returns a nil object, the zero values of the named results.\<close>

type_synonym chain_result = "(ClusterResourceOverride option \<times> Result \<times> handler_error option) outcome"

fun HandlerChain_loop :: "'w api \<Rightarrow> 'w handler list \<Rightarrow> ClusterResourceOverride
    \<Rightarrow> ClusterResourceOverride option \<Rightarrow> Result \<Rightarrow> 'w \<Rightarrow> chain_result \<times> 'w" where
  "HandlerChain_loop A [] original current result w = (Returned (current, result, None), w)"
| "HandlerChain_loop A (h # hs) original current0 result0 w =
     (case h original w of
        (Panicked, w1) \<Rightarrow> (Panicked, w1)
      | (Returned (current, result, err), w1) \<Rightarrow>
          if err \<noteq> None
          then (let (status, w2) = WithError A err (cro_Status current) w1
            in (outcome_bind status (\<lambda>s. Returned (Some (set_Status s current), result, err)), w2))
          else if Requeue result \<or> 0 < RequeueAfter result
          then (Returned (Some current, result, None), w1)
          else HandlerChain_loop A hs current (Some current) result w1)"

definition HandlerChain_Handle ::
  "'w api \<Rightarrow> 'w handler list \<Rightarrow> ClusterResourceOverride \<Rightarrow> 'w \<Rightarrow> chain_result \<times> 'w" where
  "HandlerChain_Handle A h original w = HandlerChain_loop A h original None empty_Result w"

section \<open>The status updater (updater.go)\<close>

text \<open>The address of the status of a nil object cannot be taken.\<close>

definition StatusUpdater_Update :: "'w api \<Rightarrow> ClusterResourceOverride \<Rightarrow> ClusterResourceOverride option
    \<Rightarrow> 'w \<Rightarrow> error option outcome \<times> 'w" where
  "StatusUpdater_Update A observed desired w = (case desired of
     None \<Rightarrow> (Panicked, w)
   | Some desired \<Rightarrow>
       if cro_Status observed = cro_Status desired then (Returned None, w)
       else (let (err, w1) = api_CRO_UpdateStatus A desired w in (Returned err, w1)))"

section \<open>The reconciler (reconciler.go)\<close>

definition ClusterResourceOverrideGVK :: GroupVersionKind where
  "ClusterResourceOverrideGVK = \<lparr>gvk_Group = operator_GroupName, gvk_Version = operator_GroupVersion,
     gvk_Kind = ClusterResourceOverrideKind\<rparr>"

definition NewReconciler_handlers :: "'w Options \<Rightarrow> 'w handler list" where
  "NewReconciler_handlers opts =
     [availabilityHandler_Handle opts,
      validationHandler_Handle,
      configurationHandler_Handle opts,
      serviceHandler_Handle opts,
      deploymentHandler_Handle opts,
      deploymentReadyHandler_Handle opts,
      apiServiceHandler_Handle opts,
      webhookConfigurationHandler_Handle opts,
      validatingAdmissionPolicyHandler_Handle opts,
      availabilityHandler_Handle opts]"

type_synonym reconcile_result = "(Result \<times> handler_error option) outcome"

text \<open>What becomes of the errors of the chain and of the status update.\<close>

definition combine_errors :: "handler_error option \<Rightarrow> error option \<Rightarrow> handler_error option outcome" where
  "combine_errors err updateErr = (case updateErr of
     None \<Rightarrow> Returned err
   | Some u \<Rightarrow> (case err of
       None \<Rightarrow> Returned (Some (PlainError u))
     | Some e \<Rightarrow> outcome_bind (handler_error_Error e) (\<lambda>msg.
         Returned (Some (PlainError (ErrorString (''[reconciler] reconciliation error - '' @ msg
           @ '' -- update status error - '' @ Error u)))))))"

definition reconciler_Reconcile ::
  "'w Options \<Rightarrow> 'w handler list \<Rightarrow> string \<Rightarrow> 'w \<Rightarrow> reconcile_result \<times> 'w" where
  "reconciler_Reconcile opts hs name w =
     (let A = opt_api opts in
      if name \<noteq> ResourceName (opt_OperandContext opts) then (Returned (empty_Result, None), w)
      else (case api_CRO_Get A name w of
         (Inl getErr, w1) \<Rightarrow>
           if IsNotFound getErr then (Returned (empty_Result, None), w1)
           else (Returned (empty_Result, Some (PlainError getErr)), w1)
       | (Inr original, w1) \<Rightarrow>
           let (copy, w2) = ClusterResourceOverride_copy (api_NewAddr A) original w1;
               copy = SetGroupVersionKind ClusterResourceOverrideGVK copy
           in (case HandlerChain_Handle A hs copy w2 of
                 (Panicked, w3) \<Rightarrow> (Panicked, w3)
               | (Returned (current, result, err), w3) \<Rightarrow>
                   (case StatusUpdater_Update A original current w3 of
                      (Panicked, w4) \<Rightarrow> (Panicked, w4)
                    | (Returned updateErr, w4) \<Rightarrow>
                        (outcome_bind (combine_errors err updateErr) (\<lambda>err. Returned (result, err)), w4)))))"

definition CRO_Reconcile :: "'w Options \<Rightarrow> string \<Rightarrow> 'w \<Rightarrow> reconcile_result \<times> 'w" where
  "CRO_Reconcile opts name w = reconciler_Reconcile opts (NewReconciler_handlers opts) name w"

section \<open>What a chain of handlers guarantees\<close>

locale handler_chain =
  fixes A :: "'w api" and hs :: "'w handler list"
  assumes handlers: "h \<in> set hs \<Longrightarrow> handler_contract h"
    and nonempty: "hs \<noteq> []"
begin

lemma loop_result:
  assumes "HandlerChain_loop A gs cro current result w = (Returned (cur, res, err), w')"
    and "set gs \<subseteq> set hs" and "result = empty_Result"
    and "gs = [] \<Longrightarrow> current = Some cro"
  shows "res = empty_Result \<and> (\<exists>c. cur = Some c \<and> same_object c cro \<and> (conditions_wf cro \<longrightarrow> conditions_wf c))"
  using assms
proof (induction gs arbitrary: cro current result w)
  case Nil
  then show ?case by auto
next
  case (Cons h gs)
  then have contract: "handler_contract h" using handlers by simp
  show ?case
  proof (cases "fst (h cro w)")
    case Panicked
    with Cons.prems(1) show ?thesis by (cases "h cro w") auto
  next
    case (Returned r)
    then obtain c rs e w1 where run: "h cro w = (Returned (c, rs, e), w1)"
      by (metis prod.collapse)
    note keeps = handler_contract.handle_keeps [OF contract run]
      and noreq = handler_contract.handle_no_requeue [OF contract run]
      and wf = handler_contract.handle_wf [OF contract run]
    show ?thesis
    proof (cases e)
      case None
      with Cons.prems(1) run noreq have "HandlerChain_loop A gs c (Some c) rs w1 = (Returned (cur, res, err), w')"
        by (simp add: empty_Result_def)
      from Cons.IH [OF this] Cons.prems(2) noreq keeps wf show ?thesis
        using same_object_trans by auto
    next
      case (Some e')
      with Cons.prems(1) run noreq keeps wf show ?thesis
        by (auto split: prod.splits simp: Let_def dest: WithError_wf)
    qed
  qed
qed

lemma chain_result:
  assumes "HandlerChain_Handle A hs cro w = (Returned (cur, res, err), w')"
  shows "res = empty_Result \<and> (\<exists>c. cur = Some c \<and> same_object c cro \<and> (conditions_wf cro \<longrightarrow> conditions_wf c))"
  using assms nonempty
  by (intro loop_result [of hs cro None empty_Result w cur res err w']) (simp_all add: HandlerChain_Handle_def)

end

lemma chain_handlers_cases:
  assumes "h \<in> set (NewReconciler_handlers opts)"
  obtains "h = availabilityHandler_Handle opts" | "h = validationHandler_Handle"
  | "h = configurationHandler_Handle opts" | "h = serviceHandler_Handle opts"
  | "h = deploymentHandler_Handle opts" | "h = deploymentReadyHandler_Handle opts"
  | "h = apiServiceHandler_Handle opts" | "h = webhookConfigurationHandler_Handle opts"
  | "h = validatingAdmissionPolicyHandler_Handle opts"
  using assms by (auto simp: NewReconciler_handlers_def)

interpretation cro_chain: handler_chain "opt_api opts" "NewReconciler_handlers opts" for opts :: "'w Options"
proof (rule handler_chain.intro)
  show "NewReconciler_handlers opts \<noteq> []" by (simp add: NewReconciler_handlers_def)
qed (erule chain_handlers_cases; simp add: availability.handler_contract_axioms
    validation.handler_contract_axioms configuration.handler_contract_axioms
    service.handler_contract_axioms deployment.handler_contract_axioms
    deployment_ready.handler_contract_axioms api_service.handler_contract_axioms
    webhook.handler_contract_axioms policy.handler_contract_axioms)

section \<open>Running a chain step by step\<close>

text \<open>All handlers of a chain succeeded, one after the other.\<close>

fun chain_steps :: "'w handler list \<Rightarrow> ClusterResourceOverride \<Rightarrow> 'w \<Rightarrow> ClusterResourceOverride \<Rightarrow> 'w \<Rightarrow> bool" where
  "chain_steps [] cro w c w' \<longleftrightarrow> c = cro \<and> w' = w"
| "chain_steps (h # hs) cro w c w' \<longleftrightarrow>
     (case h cro w of (Returned (c1, res, None), w1) \<Rightarrow> chain_steps hs c1 w1 c w' | _ \<Rightarrow> False)"

lemma chain_steps_Cons:
  "chain_steps (h # hs) cro w c w' \<longleftrightarrow>
     (\<exists>c1 res w1. h cro w = (Returned (c1, res, None), w1) \<and> chain_steps hs c1 w1 c w')"
  by (auto split: prod.splits outcome.splits option.splits)

lemma chain_loop_ok:
  assumes "HandlerChain_loop A hs cro (Some cro) res0 w = (Returned (Some c, res, None), w')"
    and "\<And>h. h \<in> set hs \<Longrightarrow> handler_contract h"
  shows "chain_steps hs cro w c w'"
  using assms
proof (induction hs arbitrary: cro res0 w)
  case (Cons h hs)
  then have contract: "handler_contract h" by simp
  from Cons.prems(1) obtain c1 rs w1 where run: "h cro w = (Returned (c1, rs, None), w1)"
    by (auto split: prod.splits outcome.splits if_splits simp: Let_def)
  with handler_contract.handle_no_requeue [OF contract run] Cons
  show ?case by (auto simp: empty_Result_def)
qed simp

lemma chain_loop_current:
  "hs \<noteq> [] \<Longrightarrow> HandlerChain_loop A hs cro current res w = HandlerChain_loop A hs cro current' res' w"
  by (cases hs) (simp_all cong: prod.case_cong outcome.case_cong)

text \<open>A chain that returns no error has run every handler to the end.\<close>

lemma cro_chain_ok:
  assumes "HandlerChain_Handle A (NewReconciler_handlers opts) cro w = (Returned (Some c, res, None), w')"
  shows "chain_steps (NewReconciler_handlers opts) cro w c w'"
proof (rule chain_loop_ok)
  show "HandlerChain_loop A (NewReconciler_handlers opts) cro (Some cro) empty_Result w = (Returned (Some c, res, None), w')"
    using assms chain_loop_current [OF cro_chain.nonempty, of A opts cro None empty_Result w "Some cro" empty_Result]
    by (simp add: HandlerChain_Handle_def)
qed (rule cro_chain.handlers)

text \<open>A failing handler ends the chain: what follows it has no effect.\<close>

lemma chain_loop_stops:
  assumes "chain_steps gs cro w c w1" and "\<And>g. g \<in> set gs \<Longrightarrow> handler_contract g"
    and "h c w1 = (Returned (c', res, Some e), w2)"
  shows "HandlerChain_loop A (gs @ h # hs) cro current res0 w
    = (let (status, w3) = WithError A (Some e) (cro_Status c') w2
       in (outcome_bind status (\<lambda>s. Returned (Some (set_Status s c'), res, Some e)), w3))"
  using assms
proof (induction gs arbitrary: cro w current res0)
  case (Cons g gs)
  then obtain c1 rs wa where run: "g cro w = (Returned (c1, rs, None), wa)" and steps: "chain_steps gs c1 wa c w1"
    by (auto simp: chain_steps_Cons simp del: chain_steps.simps)
  moreover from Cons.prems(2) have "handler_contract g" by simp
  from handler_contract.handle_no_requeue [OF this run] have "rs = empty_Result" .
  ultimately show ?case using Cons.IH [OF steps] Cons.prems(2,3) by (simp add: empty_Result_def)
qed simp

end
