(* ===== verification/Recorded.thy ===== *)
theory Recorded
  imports Reconciler
begin

text \<open>
  Which writing calls the ClusterResourceOverride controller makes: every handler over the recording
  interface is an instance of \<open>handler_writes\<close>, a chain of such handlers is one as well, and so a
  whole reconcile is bounded by the calls named in \<open>operand_call\<close> and one status update.
\<close>

section \<open>The calls of the operand\<close>

definition rbac_resources :: "string list" where
  "rbac_resources = [''serviceaccounts'', ''rolebindings'', ''clusterroles'', ''clusterrolebindings'']"

definition operand_resources :: "string list" where
  "operand_resources = [''configmaps'', ''services'', ''deployments'', ''apiservices'',
     ''mutatingwebhookconfigurations'', ''validatingadmissionpolicies'',
     ''validatingadmissionpolicybindings''] @ rbac_resources"

text \<open>
  Create or patch an object of a kind the operand consists of; delete the legacy daemon set, a stale
  serving secret and the operand's own webhook configuration. Nothing else is deleted.
\<close>

definition operand_call :: "OperandContext \<Rightarrow> Values \<Rightarrow> call \<Rightarrow> bool" where
  "operand_call ctx v c \<longleftrightarrow>
     upsert_of operand_resources c
     \<or> c = CallDeleteDaemonSet (v_Namespace v) (daemonset_Name v)
     \<or> c = CallDeleteSecret (WebhookNamespace ctx) (serviceServingSecret_Name v)
     \<or> c = CallDeleteMWC (mutatingWebhookConfiguration_Name v)"

lemma upsert_of_mono: "upsert_of rs c \<Longrightarrow> set rs \<subseteq> set rs' \<Longrightarrow> upsert_of rs' c"
  by (cases c) auto

lemma upsert_operand_call: "upsert_of rs c \<Longrightarrow> set rs \<subseteq> set operand_resources \<Longrightarrow> operand_call ctx v c"
  by (auto simp: operand_call_def intro: upsert_of_mono)

abbreviation recording :: "'v Options \<Rightarrow> 'w api \<Rightarrow> ('w \<times> call list) Options" where
  "recording opts A \<equiv> \<lparr>opt_lib = opt_lib opts, opt_api = traced A, opt_OperandContext = opt_OperandContext opts,
     opt_Asset = opt_Asset opts, opt_IsStandalone = opt_IsStandalone opts,
     opt_tolerationSeconds = opt_tolerationSeconds opts\<rparr>"

section \<open>Builders and reads record nothing\<close>

lemma WithError_writes: "WithError (traced A) e s t = (r, t') \<Longrightarrow> writes p t t'"
  by (auto simp: WithError_def Let_def split: option.splits prod.splits dest: writes_on_fst)

lemma WithAvailable_writes: "WithAvailable (traced A) a m s t = (r, t') \<Longrightarrow> writes p t t'"
  by (auto simp: WithAvailable_def Let_def split: prod.splits dest: writes_on_fst)

lemma WithInstallReady_writes: "WithInstallReady (traced A) s t = (r, t') \<Longrightarrow> writes p t t'"
  by (auto simp: WithInstallReady_def Let_def split: prod.splits dest: writes_on_fst)

lemma deploy_IsAvailable_writes: "deploy_IsAvailable (traced A) ctx v g t = (r, t') \<Longrightarrow> writes p t t'"
  by (auto simp: deploy_IsAvailable_def split: sum.splits prod.splits dest: writes_on_fst)

lemma deploy_Get_writes: "deploy_Get (traced A) ctx v t = (r, t') \<Longrightarrow> writes p t t'"
  by (auto simp: deploy_Get_def dest: writes_on_fst)

lemma tlsprofile_Fetch_writes: "tlsprofile_Fetch L (traced A) t = (r, t') \<Longrightarrow> writes p t t'"
  by (auto simp: tlsprofile_Fetch_def Let_def split: sum.splits prod.splits if_splits dest: writes_on_fst)

lemmas reads_record_nothing = WithError_writes WithAvailable_writes WithInstallReady_writes
  deploy_IsAvailable_writes deploy_Get_writes tlsprofile_Fetch_writes writes_on_fst

section \<open>The handlers\<close>

lemma availabilityHandler_writes:
  "availabilityHandler_Handle (recording opts A) cro t = (r, t') \<Longrightarrow> writes p t t'"
  by (auto simp: availabilityHandler_Handle_def Let_def split: prod.splits option.splits if_splits
      intro: writes_trans [OF deploy_IsAvailable_writes WithError_writes]
        writes_trans [OF deploy_IsAvailable_writes WithAvailable_writes])

interpretation rec_availability: handler_writes "availabilityHandler_Handle (recording opts A)" "\<lambda>c. False"
  for opts and A :: "'w api"
  by unfold_locales (rule availabilityHandler_writes)

interpretation rec_validation: handler_writes "validationHandler_Handle" "\<lambda>c. False"
  by unfold_locales (auto simp: validationHandler_Handle_def Let_def)

interpretation rec_configuration:
  handler_writes "configurationHandler_Handle (recording opts A)" "upsert_of [''configmaps'']"
  for opts and A :: "'w api"
proof unfold_locales
  fix cro r and s s' :: "'w \<times> call list"
  assume "configurationHandler_Handle (recording opts A) cro s = (r, s')"
  then show "writes (upsert_of [''configmaps'']) s s'"
    by (auto simp: configurationHandler_Handle_def Let_def split: sum.splits prod.splits if_splits
        dest!: configmap_ensurer.ensure_upserts writes_on_fst [where p = "upsert_of [''configmaps'']"]
        intro: writes_trans)
qed

definition service_calls :: "OperandContext \<Rightarrow> Values \<Rightarrow> call \<Rightarrow> bool" where
  "service_calls ctx v c \<longleftrightarrow> upsert_of [''services''] c
     \<or> c = CallDeleteSecret (WebhookNamespace ctx) (serviceServingSecret_Name v)"

interpretation rec_service:
  handler_writes "serviceHandler_Handle (recording opts A)" "service_calls (opt_OperandContext opts) (opt_Asset opts)"
  for opts and A :: "'w api"
proof unfold_locales
  fix cro r and s s' :: "'w \<times> call list"
  let ?p = "service_calls (opt_OperandContext opts) (opt_Asset opts)"
  have ups: "ServiceEnsurer_Ensure L (traced A) x t = (y, t') \<Longrightarrow> writes ?p t t'" for L x y t t'
    by (erule service_ensurer.ensure_writes) (simp add: service_calls_def)
  have del: "logging (CallDeleteSecret (WebhookNamespace (opt_OperandContext opts))
      (serviceServingSecret_Name (opt_Asset opts))) f t = (y, t') \<Longrightarrow> writes ?p t t'"
    for f :: "'w \<Rightarrow> error option \<times> 'w" and y t t'
    by (erule writes_logging) (simp add: service_calls_def)
  assume "serviceHandler_Handle (recording opts A) cro s = (r, s')"
  then show "writes ?p s s'"
    by (auto simp: serviceHandler_Handle_def Let_def split: sum.splits prod.splits if_splits option.splits
        dest!: ups del writes_on_fst [where p = ?p] intro: writes_trans)
qed

text \<open>The deployment handler: daemon set, then webhook configuration, RBAC and deployment.\<close>

definition deployment_calls :: "Values \<Rightarrow> call \<Rightarrow> bool" where
  "deployment_calls v c \<longleftrightarrow> upsert_of (''deployments'' # rbac_resources) c
     \<or> c = CallDeleteDaemonSet (v_Namespace v) (daemonset_Name v)
     \<or> c = CallDeleteMWC (mutatingWebhookConfiguration_Name v)"

lemma client_Ensure_writes_in:
  "client_Ensure L (traced A) resource object s = (r, s') \<Longrightarrow> resource \<in> set rs \<Longrightarrow> writes (upsert_of rs) s s'"
  by (drule client_Ensure_writes) (auto elim!: writes_mono intro: upsert_of_mono)

lemma EnsureRBAC_items_writes:
  assumes "EnsureRBAC_items L (traced A) items cro s = (r, s')"
    and "rbac_Resource ` set items \<subseteq> set rs"
  shows "writes (upsert_of rs) s s'"
  using assms
proof (induction items arbitrary: s)
  case (Cons item items)
  then show ?case
    by (auto simp: Let_def split: sum.splits prod.splits
        dest!: client_Ensure_writes_in [where rs = rs] intro: writes_trans)
qed simp

lemma rbac_New_resources: "rbac_Resource ` set (rbac_New v) = set rbac_resources"
  by (simp add: rbac_New_def rbac_resources_def)

lemma EnsureRBAC_writes:
  "EnsureRBAC (recording opts A) cro s = (r, s') \<Longrightarrow> writes (upsert_of rbac_resources) s s'"
  by (simp add: EnsureRBAC_def) (erule EnsureRBAC_items_writes, simp add: rbac_New_resources)

lemma deploy_Ensure_writes:
  "deploy_Ensure L (traced A) a v p c s = (r, s') \<Longrightarrow> writes (upsert_of [''deployments'']) s s'"
  by (auto simp: deploy_Ensure_def Let_def dest: deployment_ensurer.ensure_upserts)

lemma deploymentHandler_Ensure_writes:
  assumes "deploymentHandler_Ensure (recording opts A) cro args s = (r, s')"
  shows "writes (deployment_calls (opt_Asset opts)) s s'"
proof -
  let ?p = "deployment_calls (opt_Asset opts)"
  have rb: "EnsureRBAC (recording opts A) cro t = (y, t') \<Longrightarrow> writes ?p t t'" for y t t'
    by (drule EnsureRBAC_writes, erule writes_mono) (auto simp: deployment_calls_def elim!: upsert_of_mono)
  have dep: "deploy_Ensure L (traced A) a v q c t = (y, t') \<Longrightarrow> writes ?p t t'" for L a v q c y t t'
    by (drule deploy_Ensure_writes, erule writes_mono) (auto simp: deployment_calls_def elim!: upsert_of_mono)
  have del: "logging (CallDeleteMWC (mutatingWebhookConfiguration_Name (opt_Asset opts))) f t = (y, t')
      \<Longrightarrow> writes ?p t t'" for f :: "'w \<Rightarrow> error option \<times> 'w" and y t t'
    by (erule writes_logging) (simp add: deployment_calls_def)
  from assms show ?thesis
    by (auto simp: deploymentHandler_Ensure_def Let_def split: prod.splits if_splits option.splits
        dest!: rb dep del intro: writes_trans)
qed

lemma deploymentHandler_finish_writes:
  assumes "deploymentHandler_finish (recording opts A) cro args found s = (r, s')"
  shows "writes (deployment_calls (opt_Asset opts)) s s'"
  using assms
  by (auto simp: deploymentHandler_finish_def split: sum.splits prod.splits if_splits
      dest!: deploymentHandler_Ensure_writes)

interpretation rec_deployment:
  handler_writes "deploymentHandler_Handle (recording opts A)" "deployment_calls (opt_Asset opts)"
  for opts and A :: "'w api"
proof unfold_locales
  fix cro r and s s' :: "'w \<times> call list"
  let ?p = "deployment_calls (opt_Asset opts)"
  have del: "logging (CallDeleteDaemonSet (v_Namespace (opt_Asset opts)) (daemonset_Name (opt_Asset opts))) f t
      = (y, t') \<Longrightarrow> writes ?p t t'" for f :: "'w \<Rightarrow> error option \<times> 'w" and y t t'
    by (erule writes_logging) (simp add: deployment_calls_def)
  assume "deploymentHandler_Handle (recording opts A) cro s = (r, s')"
  then show "writes ?p s s'"
    by (auto simp: deploymentHandler_Handle_def Let_def split: sum.splits prod.splits if_splits
        dest!: del deploymentHandler_finish_writes tlsprofile_Fetch_writes [where p = ?p]
          deploy_Get_writes [where p = ?p] intro: writes_trans)
qed

interpretation rec_deployment_ready: handler_writes "deploymentReadyHandler_Handle (recording opts A)" "\<lambda>c. False"
  for opts and A :: "'w api"
  by unfold_locales (auto simp: deploymentReadyHandler_Handle_def Let_def split: prod.splits if_splits
      intro: writes_trans [OF deploy_IsAvailable_writes WithInstallReady_writes] deploy_IsAvailable_writes)

interpretation rec_api_service:
  handler_writes "apiServiceHandler_Handle (recording opts A)" "upsert_of [''apiservices'']"
  for opts and A :: "'w api"
proof unfold_locales
  fix cro r and s s' :: "'w \<times> call list"
  let ?p = "upsert_of [''apiservices'']"
  assume "apiServiceHandler_Handle (recording opts A) cro s = (r, s')"
  then show "writes ?p s s'"
    by (auto simp: apiServiceHandler_Handle_def Let_def split: sum.splits prod.splits if_splits option.splits
        dest!: apiservice_ensurer.ensure_upserts writes_on_fst [where p = ?p] intro: writes_trans)
qed

interpretation rec_webhook:
  handler_writes "webhookConfigurationHandler_Handle (recording opts A)" "upsert_of [''mutatingwebhookconfigurations'']"
  for opts and A :: "'w api"
proof unfold_locales
  fix cro r and s s' :: "'w \<times> call list"
  let ?p = "upsert_of [''mutatingwebhookconfigurations'']"
  assume "webhookConfigurationHandler_Handle (recording opts A) cro s = (r, s')"
  then show "writes ?p s s'"
    by (auto simp: webhookConfigurationHandler_Handle_def Let_def split: sum.splits prod.splits if_splits
        dest!: webhook_ensurer.ensure_upserts writes_on_fst [where p = ?p] intro: writes_trans)
qed

definition policy_resources :: "string list" where
  "policy_resources = [''validatingadmissionpolicies'', ''validatingadmissionpolicybindings'']"

interpretation rec_policy_binding:
  handler_writes "validatingAdmissionPolicyHandler_binding (recording opts A)" "upsert_of policy_resources"
  for opts and A :: "'w api"
proof unfold_locales
  fix cro r and s s' :: "'w \<times> call list"
  let ?p = "upsert_of policy_resources"
  have ups: "ValidatingAdmissionPolicyBindingEnsurer_Ensure L (traced A) x t = (y, t') \<Longrightarrow> writes ?p t t'" for L x y t t'
    by (erule binding_ensurer.ensure_writes) (auto simp: policy_resources_def elim!: upsert_of_mono)
  assume "validatingAdmissionPolicyHandler_binding (recording opts A) cro s = (r, s')"
  then show "writes ?p s s'"
    by (auto simp: validatingAdmissionPolicyHandler_binding_def Let_def split: sum.splits prod.splits if_splits
        dest!: ups writes_on_fst [where p = ?p] intro: writes_trans)
qed

interpretation rec_policy:
  handler_writes "validatingAdmissionPolicyHandler_Handle (recording opts A)" "upsert_of policy_resources"
  for opts and A :: "'w api"
proof unfold_locales
  fix cro r and s s' :: "'w \<times> call list"
  let ?p = "upsert_of policy_resources"
  have ups: "ValidatingAdmissionPolicyEnsurer_Ensure L (traced A) x t = (y, t') \<Longrightarrow> writes ?p t t'" for L x y t t'
    by (erule policy_ensurer.ensure_writes) (auto simp: policy_resources_def elim!: upsert_of_mono)
  assume "validatingAdmissionPolicyHandler_Handle (recording opts A) cro s = (r, s')"
  then show "writes ?p s s'"
    by (auto simp: validatingAdmissionPolicyHandler_Handle_def Let_def split: sum.splits prod.splits if_splits
        dest!: ups rec_policy_binding.run_writes writes_on_fst [where p = ?p] intro: writes_trans)
qed

section \<open>The chain\<close>

lemma service_calls_operand: "service_calls ctx v c \<Longrightarrow> operand_call ctx v c"
  using upsert_operand_call [of "[''services'']" c ctx v]
  by (auto simp: service_calls_def operand_call_def operand_resources_def)

lemma deployment_calls_operand: "deployment_calls v c \<Longrightarrow> operand_call ctx v c"
  using upsert_operand_call [of "''deployments'' # rbac_resources" c ctx v]
  by (auto simp: deployment_calls_def operand_call_def operand_resources_def)

locale recorded_chain =
  fixes A :: "'w api" and hs :: "('w \<times> call list) handler list" and allowed :: "call \<Rightarrow> bool"
  assumes handlers_write: "h \<in> set hs \<Longrightarrow> handler_writes h allowed"
begin

lemma loop_writes:
  assumes "HandlerChain_loop (traced A) gs cro current result s = (r, s')" and "set gs \<subseteq> set hs"
  shows "writes allowed s s'"
  using assms
proof (induction gs arbitrary: cro current result s)
  case (Cons h gs)
  then have h: "handler_writes h allowed" using handlers_write by simp
  obtain x s1 where run: "h cro s = (x, s1)" by (cases "h cro s")
  with handler_writes.run_writes [OF h] have first: "writes allowed s s1" by blast
  from Cons.prems run have "writes allowed s1 s'"
    by (auto simp: Let_def split: outcome.splits prod.splits if_splits
        dest: WithError_writes [where p = allowed] intro: Cons.IH)
  with first show ?case by (rule writes_trans)
qed simp

lemma chain_writes: "HandlerChain_Handle (traced A) hs cro s = (r, s') \<Longrightarrow> writes allowed s s'"
  unfolding HandlerChain_Handle_def by (erule loop_writes) simp

end

interpretation cro_recorded: recorded_chain A "NewReconciler_handlers (recording opts A)"
  "operand_call (opt_OperandContext opts) (opt_Asset opts)" for A :: "'w api" and opts
proof (rule recorded_chain.intro)
  fix h assume h: "h \<in> set (NewReconciler_handlers (recording opts A))"
  let ?p = "operand_call (opt_OperandContext opts) (opt_Asset opts)"
  have ups: "upsert_of rs c \<Longrightarrow> set rs \<subseteq> set operand_resources \<Longrightarrow> ?p c" for rs c
    by (rule upsert_operand_call)
  show "handler_writes h ?p"
  proof (rule handler_writes.intro)
    fix cro s r s' assume run: "h cro s = (r, s')"
    from h show "writes ?p s s'"
    proof (cases rule: chain_handlers_cases)
      case 1 with run show ?thesis using rec_availability.run_writes_weaken by blast
    next
      case 2 with run show ?thesis using rec_validation.run_writes_weaken by blast
    next
      case 3 with run show ?thesis
        by (auto elim!: rec_configuration.run_writes_weaken intro: ups simp: operand_resources_def)
    next
      case 4 with run show ?thesis
        by (auto elim!: rec_service.run_writes_weaken intro: service_calls_operand)
    next
      case 5 with run show ?thesis
        by (auto elim!: rec_deployment.run_writes_weaken intro: deployment_calls_operand)
    next
      case 6 with run show ?thesis using rec_deployment_ready.run_writes_weaken by blast
    next
      case 7 with run show ?thesis
        by (auto elim!: rec_api_service.run_writes_weaken intro: ups simp: operand_resources_def)
    next
      case 8 with run show ?thesis
        by (auto elim!: rec_webhook.run_writes_weaken intro: ups simp: operand_resources_def)
    next
      case 9 with run show ?thesis
        by (auto elim!: rec_policy.run_writes_weaken intro: ups simp: operand_resources_def policy_resources_def)
    qed
  qed
qed

end
