(* ===== verification/ChainStatus.thy ===== *)
theory ChainStatus
  imports Reconciler
begin

text \<open>
  What a reconcile leaves in the status: the update each handler makes when it succeeds, the status of
  a ClusterResourceOverride after the whole chain succeeded, the condition that reports the error of a
  chain that failed, and the one way in which a chain can panic.
\<close>

section \<open>Successful handlers as status updates\<close>

lemma cro_Find_updates [simp]:
  "cro_Find (cro_Status (upd_Resources f c)) t = cro_Find (cro_Status c) t"
  "cro_Find (s\<lparr>st_Version := a, st_Image := b\<rparr>) t = cro_Find s t"
  "cro_Find (s\<lparr>st_HashConfiguration := h\<rparr>) t = cro_Find s t"
  by (simp_all add: cro_Find_def)

lemma ref_in_sync_Some: "ref_in_sync r x \<Longrightarrow> \<exists>ref. r = Some ref"
  by (auto simp: ref_in_sync_def split: option.splits)

lemma upd_same_ref: "f (cro_Resources cro) = cro_Resources cro \<Longrightarrow> upd_Resources f cro = cro"
  by (simp add: upd_Resources_def cro_Resources_def)

lemma set_configuration_same:
  assumes "hash = st_HashConfiguration (cro_Status cro)" and "ConfigurationRef (cro_Resources cro) = Some ref"
  shows "set_configuration hash ref cro = cro"
  using assms
  by (cases cro) (simp add: set_configuration_def upd_Resources_def cro_Resources_def flip: assms(2))

definition runs_ok :: "'w handler \<Rightarrow> ClusterResourceOverride \<Rightarrow> ClusterResourceOverride \<Rightarrow> bool" where
  "runs_ok h cro c \<longleftrightarrow> (\<exists>w res w'. h cro w = (Returned (c, res, None), w'))"

lemma availability_ok:
  "runs_ok (availabilityHandler_Handle opts) cro c \<Longrightarrow>
     \<exists>d. c = set_Status (cro_WithCondition (Some d) (cro_init (cro_Status cro))) cro \<and> cond_Type d = Available"
  unfolding runs_ok_def by (elim exE) (auto simp: availabilityHandler_Handle_def WithAvailable_def WithError_def NewAvailableError_def Let_def
      split: prod.splits option.splits if_splits)

lemma validation_ok:
  "runs_ok validationHandler_Handle cro c \<Longrightarrow>
     c = cro \<and> valid_percentages (pro_Spec (spec_PodResourceOverride (cro_Spec cro)))
     \<and> DeploymentOverrides_Validate (spec_DeploymentOverrides (cro_Spec cro)) = None"
  unfolding runs_ok_def by (elim exE) (auto simp: validationHandler_Handle_def Let_def Validate_None_iff split: option.splits)

lemma configuration_ok:
  "runs_ok (configurationHandler_Handle opts) cro c \<Longrightarrow>
     \<exists>ref. c = set_configuration (ClusterResourceOverrideSpec_Hash (lib_sha256 (opt_lib opts)) (cro_Spec cro)) ref cro"
  unfolding runs_ok_def by (elim exE) (auto simp: configurationHandler_Handle_def Let_def split: sum.splits prod.splits if_splits
      dest!: ref_in_sync_Some intro: set_configuration_same [symmetric])

lemma same_ref_update:
  "ServiceRef r = x \<Longrightarrow> r\<lparr>ServiceRef := x\<rparr> = r" "DeploymentRef r = x \<Longrightarrow> r\<lparr>DeploymentRef := x\<rparr> = r"
  "APiServiceRef r = x \<Longrightarrow> r\<lparr>APiServiceRef := x\<rparr> = r"
  "MutatingWebhookConfigurationRef r = x \<Longrightarrow> r\<lparr>MutatingWebhookConfigurationRef := x\<rparr> = r"
  "ValidatingAdmissionPolicyRef r = x \<Longrightarrow> r\<lparr>ValidatingAdmissionPolicyRef := x\<rparr> = r"
  "ValidatingAdmissionPolicyBindingRef r = x \<Longrightarrow> r\<lparr>ValidatingAdmissionPolicyBindingRef := x\<rparr> = r"
  by (cases r; simp)+

text \<open>A reference found in sync is there: setting it to itself describes the result as well.\<close>

lemma in_sync_same:
  "ref_in_sync (ServiceRef (cro_Resources cro)) x \<Longrightarrow> \<exists>ref. cro = upd_Resources (\<lambda>r. r\<lparr>ServiceRef := Some ref\<rparr>) cro"
  "ref_in_sync (DeploymentRef (cro_Resources cro)) x \<Longrightarrow> \<exists>ref. cro = upd_Resources (\<lambda>r. r\<lparr>DeploymentRef := Some ref\<rparr>) cro"
  "ref_in_sync (APiServiceRef (cro_Resources cro)) x \<Longrightarrow> \<exists>ref. cro = upd_Resources (\<lambda>r. r\<lparr>APiServiceRef := Some ref\<rparr>) cro"
  "ref_in_sync (MutatingWebhookConfigurationRef (cro_Resources cro)) x \<Longrightarrow>
     \<exists>ref. cro = upd_Resources (\<lambda>r. r\<lparr>MutatingWebhookConfigurationRef := Some ref\<rparr>) cro"
  "ref_in_sync (ValidatingAdmissionPolicyRef (cro_Resources cro)) x \<Longrightarrow>
     \<exists>ref. cro = upd_Resources (\<lambda>r. r\<lparr>ValidatingAdmissionPolicyRef := Some ref\<rparr>) cro"
  "ref_in_sync (ValidatingAdmissionPolicyBindingRef (cro_Resources cro)) x \<Longrightarrow>
     \<exists>ref. cro = upd_Resources (\<lambda>r. r\<lparr>ValidatingAdmissionPolicyBindingRef := Some ref\<rparr>) cro"
  by (drule ref_in_sync_Some, elim exE, intro exI, rule upd_same_ref [symmetric],
      rule same_ref_update, assumption)+

lemma service_ok:
  "runs_ok (serviceHandler_Handle opts) cro c \<Longrightarrow>
     \<exists>ref. c = upd_Resources (\<lambda>r. r\<lparr>ServiceRef := Some ref\<rparr>) cro"
  unfolding runs_ok_def by (elim exE) (auto simp: serviceHandler_Handle_def Let_def split: sum.splits prod.splits if_splits option.splits
      dest: in_sync_same)

lemma deployment_ok:
  assumes "runs_ok (deploymentHandler_Handle opts) cro c"
  shows "\<exists>d. c = upd_Resources (\<lambda>r. r\<lparr>DeploymentRef := d\<rparr>) cro"
proof -
  have same: "\<exists>d. cro = upd_Resources (\<lambda>r. r\<lparr>DeploymentRef := d\<rparr>) cro"
    by (rule exI [of _ "DeploymentRef (cro_Resources cro)"]) (simp add: eq_commute [of cro] upd_same_ref same_ref_update)
  from assms obtain w res w' where "deploymentHandler_Handle opts cro w = (Returned (c, res, None), w')"
    unfolding runs_ok_def by blast
  from deploymentHandler_Handle_result [OF this] show ?thesis using same by blast
qed

lemma deployment_ready_ok:
  "runs_ok (deploymentReadyHandler_Handle opts) cro c \<Longrightarrow>
     \<exists>d. c = set_Status ((cro_WithCondition (Some d) (cro_init (cro_Status cro)))
             \<lparr>st_Version := OperandVersion (opt_OperandContext opts), st_Image := OperandImage (opt_OperandContext opts)\<rparr>) cro
       \<and> cond_Type d = InstallReadinessFailure \<and> cond_Status d = ConditionFalse"
  unfolding runs_ok_def by (elim exE) (auto simp: deploymentReadyHandler_Handle_def WithInstallReady_def Let_def split: prod.splits if_splits)

lemma api_service_ok:
  "runs_ok (apiServiceHandler_Handle opts) cro c \<Longrightarrow>
     \<exists>ref. c = upd_Resources (\<lambda>r. r\<lparr>APiServiceRef := Some ref\<rparr>) cro"
  unfolding runs_ok_def by (elim exE) (auto simp: apiServiceHandler_Handle_def Let_def split: sum.splits prod.splits if_splits option.splits
      dest: in_sync_same)

lemma webhook_ok:
  "runs_ok (webhookConfigurationHandler_Handle opts) cro c \<Longrightarrow>
     \<exists>ref. c = upd_Resources (\<lambda>r. r\<lparr>MutatingWebhookConfigurationRef := Some ref\<rparr>) cro"
  unfolding runs_ok_def by (elim exE) (auto simp: webhookConfigurationHandler_Handle_def Let_def split: sum.splits prod.splits if_splits
      dest: in_sync_same)

lemma policy_binding_ok:
  "runs_ok (validatingAdmissionPolicyHandler_binding opts) cro c \<Longrightarrow>
     \<exists>ref. c = upd_Resources (\<lambda>r. r\<lparr>ValidatingAdmissionPolicyBindingRef := Some ref\<rparr>) cro"
  unfolding runs_ok_def by (elim exE) (auto simp: validatingAdmissionPolicyHandler_binding_def Let_def split: sum.splits prod.splits if_splits
      dest: in_sync_same)

lemma binding_run:
  "validatingAdmissionPolicyHandler_binding opts cro w = (Returned (c, res, None), w') \<Longrightarrow>
     \<exists>ref. c = upd_Resources (\<lambda>r. r\<lparr>ValidatingAdmissionPolicyBindingRef := Some ref\<rparr>) cro"
  by (rule policy_binding_ok [of opts]) (auto simp: runs_ok_def)

lemma policy_ok:
  "runs_ok (validatingAdmissionPolicyHandler_Handle opts) cro c \<Longrightarrow>
     \<exists>ref ref'. c = upd_Resources (\<lambda>r. r\<lparr>ValidatingAdmissionPolicyBindingRef := Some ref'\<rparr>)
       (upd_Resources (\<lambda>r. r\<lparr>ValidatingAdmissionPolicyRef := Some ref\<rparr>) cro)"
  unfolding runs_ok_def by (elim exE) (auto simp: validatingAdmissionPolicyHandler_Handle_def Let_def split: sum.splits prod.splits if_splits
      dest!: binding_run; metis in_sync_same(5))

lemmas handler_ok = availability_ok validation_ok configuration_ok service_ok deployment_ok
  deployment_ready_ok api_service_ok webhook_ok policy_ok

section \<open>The status after a successful reconcile\<close>

definition all_refs_set :: "ClusterResourceOverrideResources \<Rightarrow> bool" where
  "all_refs_set r \<longleftrightarrow> ConfigurationRef r \<noteq> None \<and> ServiceRef r \<noteq> None \<and> APiServiceRef r \<noteq> None
     \<and> MutatingWebhookConfigurationRef r \<noteq> None \<and> ValidatingAdmissionPolicyRef r \<noteq> None
     \<and> ValidatingAdmissionPolicyBindingRef r \<noteq> None"

definition installed :: "(string \<Rightarrow> string) \<Rightarrow> OperandContext \<Rightarrow> ClusterResourceOverride \<Rightarrow> bool" where
  "installed sha ctx c \<longleftrightarrow>
     valid_percentages (pro_Spec (spec_PodResourceOverride (cro_Spec c)))
     \<and> DeploymentOverrides_Validate (spec_DeploymentOverrides (cro_Spec c)) = None
     \<and> st_HashConfiguration (cro_Status c) = ClusterResourceOverrideSpec_Hash sha (cro_Spec c)
     \<and> st_Version (cro_Status c) = OperandVersion ctx
     \<and> st_Image (cro_Status c) = OperandImage ctx
     \<and> all_refs_set (st_Resources (cro_Status c))
     \<and> (\<exists>k. cro_Find (cro_Status c) InstallReadinessFailure = Some k \<and> cond_Status k = ConditionFalse)
     \<and> (\<exists>k. cro_Find (cro_Status c) Available = Some k)"

lemma cro_Spec_updates [simp]:
  "cro_Spec (upd_Resources f c) = cro_Spec c" "cro_Spec (set_Status s c) = cro_Spec c"
  by (simp_all add: upd_Resources_def set_Status_def)

lemma set_configuration_simps [simp]:
  "cro_Spec (set_configuration h ref c) = cro_Spec c"
  "st_HashConfiguration (cro_Status (set_configuration h ref c)) = h"
  "st_Resources (cro_Status (set_configuration h ref c)) = (st_Resources (cro_Status c))\<lparr>ConfigurationRef := Some ref\<rparr>"
  "cro_Find (cro_Status (set_configuration h ref c)) t = cro_Find (cro_Status c) t"
  by (simp_all add: set_configuration_def)

lemma find_put_status:
  "\<exists>k. cro_Find (cro_WithCondition (Some d) s) (cond_Type d) = Some k \<and> cond_Status k = cond_Status d"
  using cro_conds.find_put [of d s] by (auto simp: cro_Equal_def)

text \<open>The objects a successful chain passes from handler to handler.\<close>

fun chain_path :: "'w handler list \<Rightarrow> ClusterResourceOverride \<Rightarrow> ClusterResourceOverride \<Rightarrow> bool" where
  "chain_path [] cro c \<longleftrightarrow> c = cro"
| "chain_path (h # hs) cro c \<longleftrightarrow> (\<exists>c1. runs_ok h cro c1 \<and> chain_path hs c1 c)"

lemma chain_steps_path: "chain_steps hs cro w c w' \<Longrightarrow> chain_path hs cro c"
  by (induction hs arbitrary: cro w) (auto simp: chain_steps_Cons runs_ok_def simp del: chain_steps.simps(2))

lemma chain_path_handlers:
  fixes opts :: "'w Options"
  assumes "chain_path (NewReconciler_handlers opts) cro c"
  obtains c1 c2 c3 c4 c5 c6 c7 c8 c9 where
    "runs_ok (validationHandler_Handle :: 'w handler) c1 c2" "runs_ok (configurationHandler_Handle opts) c2 c3"
    "runs_ok (serviceHandler_Handle opts) c3 c4" "runs_ok (deploymentHandler_Handle opts) c4 c5"
    "runs_ok (deploymentReadyHandler_Handle opts) c5 c6" "runs_ok (apiServiceHandler_Handle opts) c6 c7"
    "runs_ok (webhookConfigurationHandler_Handle opts) c7 c8"
    "runs_ok (validatingAdmissionPolicyHandler_Handle opts) c8 c9" "runs_ok (availabilityHandler_Handle opts) c9 c"
  using assms unfolding NewReconciler_handlers_def chain_path.simps
  by (elim exE conjE) (rule that, assumption+, simp)

lemma chain_path_installed:
  fixes opts :: "'w Options"
  assumes "chain_path (NewReconciler_handlers opts) cro c"
  shows "installed (lib_sha256 (opt_lib opts)) (opt_OperandContext opts) c"
  using assms
proof (cases rule: chain_path_handlers)
  case runs: (1 c1 c2 c3 c4 c5 c6 c7 c8 c9)
  from validation_ok [OF runs(1)] have valid: "c2 = c1"
    "valid_percentages (pro_Spec (spec_PodResourceOverride (cro_Spec c1)))"
    "DeploymentOverrides_Validate (spec_DeploymentOverrides (cro_Spec c1)) = None" by auto
  from configuration_ok [OF runs(2)] obtain r1 where c3: "c3 = set_configuration
      (ClusterResourceOverrideSpec_Hash (lib_sha256 (opt_lib opts)) (cro_Spec c2)) r1 c2" ..
  from service_ok [OF runs(3)] obtain r2 where c4: "c4 = upd_Resources (\<lambda>r. r\<lparr>ServiceRef := Some r2\<rparr>) c3" ..
  from deployment_ok [OF runs(4)] obtain r3 where c5: "c5 = upd_Resources (\<lambda>r. r\<lparr>DeploymentRef := r3\<rparr>) c4" ..
  from deployment_ready_ok [OF runs(5)] obtain d where
    d: "cond_Type d = InstallReadinessFailure" "cond_Status d = ConditionFalse"
    and c6: "c6 = set_Status ((cro_WithCondition (Some d) (cro_init (cro_Status c5)))
      \<lparr>st_Version := OperandVersion (opt_OperandContext opts), st_Image := OperandImage (opt_OperandContext opts)\<rparr>) c5"
    by blast
  from api_service_ok [OF runs(6)] obtain r4 where c7: "c7 = upd_Resources (\<lambda>r. r\<lparr>APiServiceRef := Some r4\<rparr>) c6" ..
  from webhook_ok [OF runs(7)] obtain r5 where
    c8: "c8 = upd_Resources (\<lambda>r. r\<lparr>MutatingWebhookConfigurationRef := Some r5\<rparr>) c7" ..
  from policy_ok [OF runs(8)] obtain r6 r7 where
    c9: "c9 = upd_Resources (\<lambda>r. r\<lparr>ValidatingAdmissionPolicyBindingRef := Some r7\<rparr>)
       (upd_Resources (\<lambda>r. r\<lparr>ValidatingAdmissionPolicyRef := Some r6\<rparr>) c8)" by blast
  from availability_ok [OF runs(9)] obtain e where e: "cond_Type e = Available"
    and c: "c = set_Status (cro_WithCondition (Some e) (cro_init (cro_Status c9))) c9" by blast
  have spec: "cro_Spec c = cro_Spec c1" by (simp add: c c9 c8 c7 c6 c5 c4 c3 valid(1))
  have status: "st_Resources (cro_Status c) = st_Resources (cro_Status c9)"
    "st_HashConfiguration (cro_Status c) = st_HashConfiguration (cro_Status c9)"
    "st_Version (cro_Status c) = st_Version (cro_Status c9)" "st_Image (cro_Status c) = st_Image (cro_Status c9)"
    by (simp_all add: c)
  have "st_Resources (cro_Status c6) = st_Resources (cro_Status c5)"
    "st_HashConfiguration (cro_Status c6) = st_HashConfiguration (cro_Status c5)" by (simp_all add: c6)
  then have refs: "all_refs_set (st_Resources (cro_Status c9))"
    and hash: "st_HashConfiguration (cro_Status c9) = ClusterResourceOverrideSpec_Hash (lib_sha256 (opt_lib opts)) (cro_Spec c1)"
    by (simp_all add: all_refs_set_def c9 c8 c7 c5 c4 c3 valid(1))
  have version: "st_Version (cro_Status c9) = OperandVersion (opt_OperandContext opts)"
    "st_Image (cro_Status c9) = OperandImage (opt_OperandContext opts)" by (simp_all add: c9 c8 c7 c6)
  have "cro_Find (cro_Status c) InstallReadinessFailure = cro_Find (cro_Status c6) InstallReadinessFailure"
    by (simp add: c c9 c8 c7 cro_conds.find_put_other e)
  with find_put_status [of d "cro_init (cro_Status c5)"] d
  have failure: "\<exists>k. cro_Find (cro_Status c) InstallReadinessFailure = Some k \<and> cond_Status k = ConditionFalse"
    by (simp add: c6)
  from find_put_status [of e "cro_init (cro_Status c9)"] e
  have "\<exists>k. cro_Find (cro_Status c) Available = Some k" by (auto simp: c)
  with valid(2,3) failure refs hash version show ?thesis
    by (simp only: installed_def spec status simp_thms)
qed

lemma cro_chain_installed:
  assumes "HandlerChain_Handle A (NewReconciler_handlers opts) cro w = (Returned (Some c, res, None), w')"
  shows "installed (lib_sha256 (opt_lib opts)) (opt_OperandContext opts) c"
  by (rule chain_path_installed [OF chain_steps_path [OF cro_chain_ok [OF assms]]])

section \<open>The status after a failed reconcile\<close>

lemma chain_loop_error:
  assumes "HandlerChain_loop A hs cro cur res0 w = (Returned (Some c, res, Some e), w')"
  shows "\<exists>c' w1. WithError A (Some e) (cro_Status c') w1 = (Returned (cro_Status c), w') \<and> same_object c c'"
  using assms
proof (induction hs arbitrary: cro cur res0 w)
  case (Cons h hs)
  obtain x w1 where run: "h cro w = (x, w1)" by (cases "h cro w")
  with Cons.prems obtain c1 rs err where x: "x = Returned (c1, rs, err)"
    by (cases x) auto
  show ?case
  proof (cases err)
    case None
    with Cons.prems run x have "HandlerChain_loop A hs c1 (Some c1) rs w1 = (Returned (Some c, res, Some e), w')"
      by (auto split: if_splits)
    then show ?thesis by (rule Cons.IH)
  next
    case (Some e')
    with Cons.prems run x obtain s2 where "WithError A (Some e) (cro_Status c1) w1 = (Returned s2, w')"
      and "c = set_Status s2 c1" by (auto simp: Let_def split: prod.splits)
    then have "WithError A (Some e) (cro_Status c1) w1 = (Returned (cro_Status c), w') \<and> same_object c c1" by simp
    then show ?thesis by blast
  qed
qed simp

lemma WithError_reports:
  assumes "WithError A (Some (InstallReadinessError reason (Some e))) s w = (Returned s', w')"
  shows "\<exists>k. cro_Find s' InstallReadinessFailure = Some k \<and> cond_Status k = ConditionTrue
       \<and> cond_Reason k = reason \<and> cond_Message k = Error e"
proof -
  from assms obtain t where "s' = cro_WithCondition (Some \<lparr>cond_Type = InstallReadinessFailure,
      cond_Status = ConditionTrue, cond_Reason = reason, cond_Message = Error e,
      cond_LastTransitionTime = t\<rparr>) (cro_init s)"
    by (auto simp: WithError_def Let_def split: prod.splits)
  with cro_conds.find_put [of "\<lparr>cond_Type = InstallReadinessFailure, cond_Status = ConditionTrue,
      cond_Reason = reason, cond_Message = Error e, cond_LastTransitionTime = t\<rparr>" "cro_init s"]
  show ?thesis by (auto simp: cro_Equal_def)
qed

text \<open>A plain error carries no reason: the builder is called and the conditions stay as they are.\<close>

lemma WithError_plain:
  "WithError A (Some (PlainError e)) s w = (Returned s', w') \<Longrightarrow> cro_Find s' t = cro_Find s t"
  by (auto simp: WithError_def Let_def cro_conds.put_none split: prod.splits)

section \<open>The conditions across reconciles\<close>

text \<open>The availability handler reports what the install strategy answers, and never an error.\<close>

lemma availability_reports:
  assumes "availabilityHandler_Handle opts cro w = (Returned (c, res, err), w')"
  shows "err = None"
    and "\<exists>k. cro_Find (cro_Status c) Available = Some k
       \<and> (cond_Status k = ConditionTrue \<longleftrightarrow> fst (fst (deploy_IsAvailable (opt_api opts) (opt_OperandContext opts) (opt_Asset opts) True w)))"
proof -
  from assms show "err = None" using availabilityHandler_returns [of opts cro w] by auto
  from assms obtain d where c: "c = set_Status (cro_WithCondition (Some d) (cro_init (cro_Status cro))) cro"
    and d: "cond_Type d = Available"
      "cond_Status d = ConditionTrue \<longleftrightarrow> fst (fst (deploy_IsAvailable (opt_api opts) (opt_OperandContext opts) (opt_Asset opts) True w))"
    by (auto simp: availabilityHandler_Handle_def WithAvailable_def WithError_def NewAvailableError_def Let_def
        split: prod.splits option.splits if_splits)
  from find_put_status [of d "cro_init (cro_Status cro)"] d show "\<exists>k. cro_Find (cro_Status c) Available = Some k
       \<and> (cond_Status k = ConditionTrue \<longleftrightarrow> fst (fst (deploy_IsAvailable (opt_api opts) (opt_OperandContext opts) (opt_Asset opts) True w)))"
    by (auto simp: c)
qed

lemma deploy_IsAvailable_iff:
  "fst (fst (deploy_IsAvailable A ctx v g w)) \<longleftrightarrow>
     (\<exists>d w1. api_Deployment_Get A (WebhookNamespace ctx) (deployment_Name v) w = (Inr d, w1) \<and> fst (GetDeploymentStatus d g))"
  by (auto simp: deploy_IsAvailable_def split: prod.splits sum.splits)

text \<open>
  Each reconcile in which the deployment is ready clears the failure condition; when a later handler
  then fails as it did before, the same failure is set again with a new transition time.
\<close>

lemma failure_flaps:
  assumes "cro_Find s InstallReadinessFailure = Some k"
    and "cond_Status k = ConditionTrue" and "cond_Reason k = reason" and "cond_Message k = Error e"
    and "WithInstallReady A s w = (s1, w1)"
    and "cro_Find s2 InstallReadinessFailure = cro_Find s1 InstallReadinessFailure"
    and "WithError A (Some (InstallReadinessError reason (Some e))) s2 w2 = (Returned s3, w3)"
  shows "cro_Find s3 InstallReadinessFailure = Some (k\<lparr>cond_LastTransitionTime := fst (api_Now A w2)\<rparr>)"
proof -
  from assms(5) obtain t1 where s1: "s1 = cro_WithCondition (Some \<lparr>cond_Type = InstallReadinessFailure,
      cond_Status = ConditionFalse, cond_Reason = [], cond_Message = [], cond_LastTransitionTime = t1\<rparr>) (cro_init s)"
    by (auto simp: WithInstallReady_def Let_def split: prod.splits)
  from assms(1,2) have "\<not> cro_Equal \<lparr>cond_Type = InstallReadinessFailure, cond_Status = ConditionFalse,
      cond_Reason = [], cond_Message = [], cond_LastTransitionTime = t1\<rparr> k" by (simp add: cro_Equal_def)
  with assms(1) cro_conds.find_put_changed [of "cro_init s" "\<lparr>cond_Type = InstallReadinessFailure,
      cond_Status = ConditionFalse, cond_Reason = [], cond_Message = [], cond_LastTransitionTime = t1\<rparr>"]
  have cleared: "cro_Find s1 InstallReadinessFailure = Some \<lparr>cond_Type = InstallReadinessFailure,
      cond_Status = ConditionFalse, cond_Reason = [], cond_Message = [], cond_LastTransitionTime = t1\<rparr>"
    by (simp add: s1)
  let ?d = "\<lparr>cond_Type = InstallReadinessFailure, cond_Status = ConditionTrue, cond_Reason = reason,
      cond_Message = Error e, cond_LastTransitionTime = fst (api_Now A w2)\<rparr>"
  from assms(7) have "s3 = cro_WithCondition (Some ?d) (cro_init s2)"
    by (auto simp: WithError_def Let_def split: prod.splits)
  with cleared assms(6) cro_conds.find_put_changed [of "cro_init s2" ?d]
  have "cro_Find s3 InstallReadinessFailure = Some ?d" by (simp add: cro_Equal_def)
  moreover from assms(1-4) have "?d = k\<lparr>cond_LastTransitionTime := fst (api_Now A w2)\<rparr>"
    using cro_conds.find_type by (cases k) fastforce
  ultimately show ?thesis by simp
qed

section \<open>Panics\<close>

locale panic_free = handler_contract handle for handle :: "'w handler" +
  assumes returns: "fst (handle cro w) \<noteq> Panicked"
    and described: "handle cro w = (Returned (c, res, Some e), w') \<Longrightarrow> handler_error_Error e \<noteq> Panicked"
begin

lemma runs_to:
  obtains c err w' where "handle cro w = (Returned (c, empty_Result, err), w')"
    and "\<And>e. err = Some e \<Longrightarrow> handler_error_Error e \<noteq> Panicked"
proof (cases "fst (handle cro w)")
  case (Returned r)
  then obtain c res err where run: "handle cro w = (Returned (c, res, err), snd (handle cro w))"
    by (metis prod.collapse)
  with handle_no_requeue [OF run] described show ?thesis by (intro that) auto
qed (use returns in blast)

end

interpretation pf_availability: panic_free "availabilityHandler_Handle opts" for opts :: "'w Options"
proof unfold_locales
  fix cro c and w w' :: 'w and res e
  obtain s' w'' where "availabilityHandler_Handle opts cro w = (Returned (set_Status s' cro, empty_Result, None), w'')"
    using availabilityHandler_returns [of opts cro w] by blast
  then show "fst (availabilityHandler_Handle opts cro w) \<noteq> Panicked"
    and "availabilityHandler_Handle opts cro w = (Returned (c, res, Some e), w') \<Longrightarrow> handler_error_Error e \<noteq> Panicked"
    by auto
qed

interpretation pf_validation: panic_free "validationHandler_Handle :: 'w handler"
  by unfold_locales (auto simp: validationHandler_Handle_def Let_def NewInstallReadinessError_def split: option.splits)

lemma handle_results_described:
  "fst (case x of (r, w) \<Rightarrow> (f r, w)) = f (fst x)"
  by (cases x) simp

interpretation pf_configuration: panic_free "configurationHandler_Handle opts" for opts :: "'w Options"
  by unfold_locales (auto simp: configurationHandler_Handle_def Let_def NewInstallReadinessError_def
      split: sum.splits prod.splits if_splits)

interpretation pf_service: panic_free "serviceHandler_Handle opts" for opts :: "'w Options"
  by unfold_locales (auto simp: serviceHandler_Handle_def Let_def NewInstallReadinessError_def
      split: sum.splits prod.splits option.splits if_splits)

interpretation pf_deployment: panic_free "deploymentHandler_Handle opts" for opts :: "'w Options"
  by unfold_locales (auto simp: deploymentHandler_Handle_def deploymentHandler_finish_def Let_def
      NewInstallReadinessError_def split: sum.splits prod.splits if_splits)

interpretation pf_deployment_ready: panic_free "deploymentReadyHandler_Handle opts" for opts :: "'w Options"
  by unfold_locales (auto simp: deploymentReadyHandler_Handle_def Let_def NewInstallReadinessError_def
      split: prod.splits if_splits)

interpretation pf_webhook: panic_free "webhookConfigurationHandler_Handle opts" for opts :: "'w Options"
  by unfold_locales (auto simp: webhookConfigurationHandler_Handle_def Let_def NewInstallReadinessError_def
      split: sum.splits prod.splits if_splits)

interpretation pf_policy_binding: panic_free "validatingAdmissionPolicyHandler_binding opts" for opts :: "'w Options"
  by unfold_locales (auto simp: validatingAdmissionPolicyHandler_binding_def Let_def NewInstallReadinessError_def
      split: sum.splits prod.splits if_splits)

interpretation pf_policy: panic_free "validatingAdmissionPolicyHandler_Handle opts" for opts :: "'w Options"
  by unfold_locales (auto simp: validatingAdmissionPolicyHandler_Handle_def Let_def NewInstallReadinessError_def
      pf_policy_binding.returns dest: pf_policy_binding.described split: sum.splits prod.splits if_splits)

text \<open>The API service handler needs a lister that never answers nil without an error.\<close>

definition APIService_Get_answers :: "'w api \<Rightarrow> bool" where
  "APIService_Get_answers A \<longleftrightarrow> (\<forall>n w. fst (api_APIService_Get A n w) \<noteq> Inr None)"

lemma panic_free_apiServiceHandler:
  assumes "APIService_Get_answers (opt_api opts)"
  shows "panic_free (apiServiceHandler_Handle opts)"
proof unfold_locales
  fix cro c w w' res e
  have ans: "api_APIService_Get (opt_api opts) n v \<noteq> (Inr None, v')" for n v v'
    using assms by (metis APIService_Get_answers_def fst_conv)
  then show "fst (apiServiceHandler_Handle opts cro w) \<noteq> Panicked"
    by (auto simp: apiServiceHandler_Handle_def Let_def NewInstallReadinessError_def
      split: sum.splits prod.splits option.splits if_splits)
  from ans show "apiServiceHandler_Handle opts cro w = (Returned (c, res, Some e), w') \<Longrightarrow> handler_error_Error e \<noteq> Panicked"
    by (auto simp: apiServiceHandler_Handle_def Let_def NewInstallReadinessError_def
      split: sum.splits prod.splits option.splits if_splits)
qed

lemma chain_handlers_panic_free:
  assumes "APIService_Get_answers (opt_api opts)" and "h \<in> set (NewReconciler_handlers opts)"
  shows "panic_free h"
  using assms(2)
  by (cases rule: chain_handlers_cases)
    (simp_all add: pf_availability.panic_free_axioms pf_validation.panic_free_axioms
      pf_configuration.panic_free_axioms pf_service.panic_free_axioms pf_deployment.panic_free_axioms
      pf_deployment_ready.panic_free_axioms pf_webhook.panic_free_axioms pf_policy.panic_free_axioms
      panic_free_apiServiceHandler [OF assms(1)])

lemma WithError_described:
  "handler_error_Error e \<noteq> Panicked \<Longrightarrow> fst (WithError A (Some e) s w) \<noteq> Panicked"
  by (cases e rule: handler_error_Error.cases) (auto simp: WithError_def Let_def split: prod.splits)

lemma chain_loop_returns:
  assumes "\<And>h. h \<in> set hs \<Longrightarrow> panic_free h"
  shows "\<exists>cur res err w'. HandlerChain_loop A hs cro cur0 res0 w = (Returned (cur, res, err), w')
    \<and> (\<forall>e. err = Some e \<longrightarrow> handler_error_Error e \<noteq> Panicked) \<and> (hs \<noteq> [] \<longrightarrow> cur \<noteq> None)"
  using assms
proof (induction hs arbitrary: cro cur0 res0 w)
  case (Cons h hs)
  then have pf: "panic_free h" by simp
  from panic_free.runs_to [OF pf] obtain c err w1 where run: "h cro w = (Returned (c, empty_Result, err), w1)"
    and described: "\<And>e. err = Some e \<Longrightarrow> handler_error_Error e \<noteq> Panicked" by metis
  show ?case
  proof (cases err)
    case None
    with run Cons.IH [of c "Some c" empty_Result w1] Cons.prems show ?thesis
      by (cases hs) (auto simp: empty_Result_def)
  next
    case (Some e)
    with described WithError_described obtain s' w2 where "WithError A err (cro_Status c) w1 = (Returned s', w2)"
      by (metis outcome.exhaust prod.collapse)
    with run Some described show ?thesis by simp
  qed
qed simp

text \<open>The availability condition is true exactly when the deployment was found and is available.\<close>

lemma availability_condition:
  "\<exists>c w'. availabilityHandler_Handle opts cro w = (Returned (c, empty_Result, None), w')
    \<and> (\<exists>k. cro_Find (cro_Status c) Available = Some k
       \<and> (cond_Status k = ConditionTrue \<longleftrightarrow>
          (\<exists>d w1. api_Deployment_Get (opt_api opts) (WebhookNamespace (opt_OperandContext opts))
              (deployment_Name (opt_Asset opts)) w = (Inr d, w1) \<and> fst (GetDeploymentStatus d True))))"
proof -
  obtain st w' where run: "availabilityHandler_Handle opts cro w = (Returned (set_Status st cro, empty_Result, None), w')"
    using availabilityHandler_returns [of opts cro w] by blast
  from availability_reports(2) [OF this] run show ?thesis unfolding deploy_IsAvailable_iff by blast
qed

text \<open>The chain keeps identity and spec of the object and the condition types distinct, and asks for no requeue.\<close>

lemma chain_keeps_object:
  assumes "conditions_wf cro"
  shows "case fst (HandlerChain_Handle (opt_api opts) (NewReconciler_handlers opts) cro w) of
     Panicked \<Rightarrow> True
   | Returned (current, result, err) \<Rightarrow> result = empty_Result
       \<and> (\<exists>c. current = Some c \<and> same_object c cro \<and> conditions_wf c)"
proof (cases "HandlerChain_Handle (opt_api opts) (NewReconciler_handlers opts) cro w")
  case (Pair r w')
  show ?thesis
  proof (cases r)
    case (Returned x)
    obtain cur res err where "x = (cur, res, err)" by (cases x)
    with Pair Returned cro_chain.chain_result [of opts cro w cur res err w'] assms show ?thesis by simp
  qed (simp add: Pair)
qed

end
