(* ===== verification/ReconcileFacts.thy ===== *)
theory ReconcileFacts
  imports Recorded ChainStatus
begin

text \<open>
  Facts about a whole reconcile of the ClusterResourceOverride: the calls it makes and their order,
  the result it returns, and the order in which the deployment is rolled out.
\<close>

section \<open>The parts of a reconcile\<close>

lemma combine_errors_returns:
  "(\<And>e. err = Some e \<Longrightarrow> handler_error_Error e \<noteq> Panicked) \<Longrightarrow> \<exists>r. combine_errors err u = Returned r"
  by (auto simp: combine_errors_def split: option.splits)
    (metis outcome.exhaust outcome_bind.simps(1))

lemma combine_errors_None [simp]: "combine_errors err u = Returned None \<longleftrightarrow> err = None \<and> u = None"
  by (auto simp: combine_errors_def split: option.splits)

text \<open>The object the chain starts from: the stored one with its kind set.\<close>

definition prepared :: "'w api \<Rightarrow> ClusterResourceOverride \<Rightarrow> 'w \<Rightarrow> ClusterResourceOverride" where
  "prepared A original w =
     SetGroupVersionKind ClusterResourceOverrideGVK (fst (ClusterResourceOverride_copy (api_NewAddr A) original w))"

lemma SetGroupVersionKind_cro [simp]:
  "cro_Spec (SetGroupVersionKind gvk c) = cro_Spec c" "cro_Status (SetGroupVersionKind gvk c) = cro_Status c"
  by (simp_all add: SetGroupVersionKind_def split: prod.splits)

lemma prepared_facts:
  "o_Meta (prepared A original w) = o_Meta original"
  "cro_Status (prepared A original w) = cro_Status original"
  "spec_PodResourceOverride (cro_Spec (prepared A original w)) = spec_PodResourceOverride (cro_Spec original)"
  "same_overrides (spec_DeploymentOverrides (cro_Spec (prepared A original w)))
     (spec_DeploymentOverrides (cro_Spec original))"
  by (cases "ClusterResourceOverride_copy (api_NewAddr A) original w"; simp add: prepared_def DeepCopy_frame)+

lemma prepared_kind: "GetGroupVersionKind (prepared A original w) = ClusterResourceOverrideGVK"
  unfolding prepared_def
  by (rule Get_SetGroupVersionKind)
    (simp_all add: ClusterResourceOverrideGVK_def operator_GroupName_def operator_GroupVersion_def)

text \<open>The same object: identity, pod overrides and deployment overrides up to pointer addresses.\<close>

definition same_resource :: "ClusterResourceOverride \<Rightarrow> ClusterResourceOverride \<Rightarrow> bool" where
  "same_resource c original \<longleftrightarrow> o_Meta c = o_Meta original
     \<and> spec_PodResourceOverride (cro_Spec c) = spec_PodResourceOverride (cro_Spec original)
     \<and> same_overrides (spec_DeploymentOverrides (cro_Spec c)) (spec_DeploymentOverrides (cro_Spec original))"

lemma same_resource_prepared: "same_object c (prepared A original w) \<Longrightarrow> same_resource c original"
  by (simp add: same_object_def same_resource_def prepared_facts)

lemma StatusUpdater_returns: "\<exists>u w'. StatusUpdater_Update A original (Some c) w = (Returned u, w')"
  by (cases "api_CRO_UpdateStatus A c w") (simp add: StatusUpdater_Update_def)

text \<open>A reconcile of the singleton that returns, taken apart.\<close>

lemma Reconcile_found_cases:
  assumes "CRO_Reconcile opts (ResourceName (opt_OperandContext opts)) w = (r, w')"
    and "api_CRO_Get (opt_api opts) (ResourceName (opt_OperandContext opts)) w = (Inr original, w1)"
  obtains "r = Panicked"
      "HandlerChain_Handle (opt_api opts) (NewReconciler_handlers opts) (prepared (opt_api opts) original w1)
         (snd (ClusterResourceOverride_copy (api_NewAddr (opt_api opts)) original w1)) = (Panicked, w')"
  | c res err u w3 where
      "HandlerChain_Handle (opt_api opts) (NewReconciler_handlers opts) (prepared (opt_api opts) original w1)
         (snd (ClusterResourceOverride_copy (api_NewAddr (opt_api opts)) original w1)) = (Returned (Some c, res, err), w3)"
      "res = empty_Result" "same_object c (prepared (opt_api opts) original w1)"
      "StatusUpdater_Update (opt_api opts) original (Some c) w3 = (Returned u, w')"
      "r = outcome_bind (combine_errors err u) (\<lambda>err. Returned (empty_Result, err))"
proof -
  obtain copy w2 where copy: "ClusterResourceOverride_copy (api_NewAddr (opt_api opts)) original w1 = (copy, w2)"
    by (cases "ClusterResourceOverride_copy (api_NewAddr (opt_api opts)) original w1")
  then have prep: "SetGroupVersionKind ClusterResourceOverrideGVK copy = prepared (opt_api opts) original w1"
    by (simp add: prepared_def)
  obtain x w3 where chain: "HandlerChain_Handle (opt_api opts) (NewReconciler_handlers opts)
      (prepared (opt_api opts) original w1) w2 = (x, w3)"
    by (cases "HandlerChain_Handle (opt_api opts) (NewReconciler_handlers opts)
      (prepared (opt_api opts) original w1) w2")
  show thesis
  proof (cases x)
    case Panicked
    with assms copy prep chain show ?thesis
      by (intro that(1)) (simp_all add: CRO_Reconcile_def reconciler_Reconcile_def Let_def)
  next
    case (Returned y)
    with chain obtain cur res err where chain': "HandlerChain_Handle (opt_api opts) (NewReconciler_handlers opts)
      (prepared (opt_api opts) original w1) w2 = (Returned (cur, res, err), w3)" by (cases y) auto
    from cro_chain.chain_result [OF this] obtain c where cur: "cur = Some c" and res: "res = empty_Result"
      and same: "same_object c (prepared (opt_api opts) original w1)" by blast
    obtain u w4 where upd: "StatusUpdater_Update (opt_api opts) original (Some c) w3 = (Returned u, w4)"
      using StatusUpdater_returns by metis
    from assms copy prep chain' cur res upd have "w4 = w'"
      and "r = outcome_bind (combine_errors err u) (\<lambda>err. Returned (empty_Result, err))"
      by (simp_all add: CRO_Reconcile_def reconciler_Reconcile_def Let_def)
    with chain' cur res same upd copy show ?thesis by (intro that(2)) auto
  qed
qed

section \<open>Result, panics and status\<close>

lemma Reconcile_other_name:
  "name \<noteq> ResourceName (opt_OperandContext opts) \<Longrightarrow> CRO_Reconcile opts name w = (Returned (empty_Result, None), w)"
  by (simp add: CRO_Reconcile_def reconciler_Reconcile_def Let_def)

lemma Reconcile_not_found:
  assumes "api_CRO_Get (opt_api opts) (ResourceName (opt_OperandContext opts)) w = (Inl e, w1)"
  shows "CRO_Reconcile opts (ResourceName (opt_OperandContext opts)) w =
    (Returned (empty_Result, if IsNotFound e then None else Some (PlainError e)), w1)"
  using assms by (simp add: CRO_Reconcile_def reconciler_Reconcile_def Let_def)

lemma Reconcile_result:
  assumes "CRO_Reconcile opts name w = (Returned (res, err), w')"
  shows "res = empty_Result"
proof (cases "name = ResourceName (opt_OperandContext opts)")
  case True
  obtain g w1 where get: "api_CRO_Get (opt_api opts) (ResourceName (opt_OperandContext opts)) w = (g, w1)"
    by (cases "api_CRO_Get (opt_api opts) (ResourceName (opt_OperandContext opts)) w")
  show ?thesis
  proof (cases g)
    case (Inl e)
    with True get assms Reconcile_not_found [of opts w e w1] show ?thesis by simp
  next
    case (Inr original)
    with True get have "api_CRO_Get (opt_api opts) (ResourceName (opt_OperandContext opts)) w = (Inr original, w1)" by simp
    from Reconcile_found_cases [OF assms [unfolded True] this] show ?thesis
    proof cases
      case (2 c res' err' u w3)
      then show ?thesis by (cases "combine_errors err' u") auto
    qed simp
  qed
next
  case False
  with assms show ?thesis by (simp add: Reconcile_other_name)
qed

lemma Reconcile_returns:
  fixes opts :: "'w Options"
  assumes "APIService_Get_answers (opt_api opts)"
  shows "fst (CRO_Reconcile opts name w) \<noteq> Panicked"
proof (cases "name = ResourceName (opt_OperandContext opts)")
  case True
  obtain g w1 where get: "api_CRO_Get (opt_api opts) (ResourceName (opt_OperandContext opts)) w = (g, w1)"
    by (cases "api_CRO_Get (opt_api opts) (ResourceName (opt_OperandContext opts)) w")
  show ?thesis
  proof (cases g)
    case (Inl e)
    with True get Reconcile_not_found [of opts w e w1] show ?thesis by simp
  next
    case (Inr original)
    let ?c = "prepared (opt_api opts) original w1"
    let ?w = "snd (ClusterResourceOverride_copy (api_NewAddr (opt_api opts)) original w1)"
    from chain_loop_returns [OF chain_handlers_panic_free [OF assms]]
    obtain cur res err w3 where chain: "HandlerChain_Handle (opt_api opts) (NewReconciler_handlers opts) ?c ?w
        = (Returned (cur, res, err), w3)" and described: "\<And>e. err = Some e \<Longrightarrow> handler_error_Error e \<noteq> Panicked"
      unfolding HandlerChain_Handle_def by metis
    obtain r w' where run: "CRO_Reconcile opts (ResourceName (opt_OperandContext opts)) w = (r, w')"
      by (cases "CRO_Reconcile opts (ResourceName (opt_OperandContext opts)) w")
    from Inr get have "api_CRO_Get (opt_api opts) (ResourceName (opt_OperandContext opts)) w = (Inr original, w1)" by simp
    from Reconcile_found_cases [OF run this] show ?thesis
    proof cases
      case 1
      with chain show ?thesis by simp
    next
      case (2 c res' err' u w3')
      with chain described have "\<exists>e. combine_errors err' u = Returned e" by (intro combine_errors_returns) auto
      with 2 True run show ?thesis by auto
    qed
  qed
qed (simp add: Reconcile_other_name)

text \<open>A reconcile without an error leaves an installed status, in the store or in the update.\<close>

lemma Reconcile_installed:
  assumes "CRO_Reconcile opts (ResourceName (opt_OperandContext opts)) w = (Returned (res, None), w')"
    and "api_CRO_Get (opt_api opts) (ResourceName (opt_OperandContext opts)) w = (Inr original, w1)"
  shows "\<exists>c w3. installed (lib_sha256 (opt_lib opts)) (opt_OperandContext opts) c \<and> same_resource c original
    \<and> StatusUpdater_Update (opt_api opts) original (Some c) w3 = (Returned None, w')"
  using Reconcile_found_cases [OF assms]
proof cases
  case (2 c res' err u w3)
  from 2(5) have "err = None" "u = None" by (auto dest: sym)
  with 2 cro_chain_installed same_resource_prepared show ?thesis by metis
qed auto

section \<open>The calls of a reconcile\<close>

lemma StatusUpdater_calls:
  assumes "StatusUpdater_Update (traced A) original (Some c) s = (u, s')"
  shows "snd s' = snd s @ (if cro_Status original = cro_Status c then [] else [CallUpdateStatusCRO c])"
  using assms by (auto simp: StatusUpdater_Update_def Let_def split: if_splits prod.splits dest: logging_trace)

lemma DeepCopy_Tolerations_trace:
  "DeepCopy_Tolerations (on_fst f) ts s = (ts', s') \<Longrightarrow> snd s' = snd s"
  by (induction ts arbitrary: s ts' s') (auto simp: Let_def split: option.splits prod.splits dest: on_fst_trace)

lemma DeepCopy_trace:
  "snd (snd (ClusterResourceOverride_copy (api_NewAddr (traced A)) original s)) = snd s"
  by (auto simp: ClusterResourceOverride_copy_def Let_def split: prod.splits dest: DeepCopy_Tolerations_trace)

lemma Reconcile_found_calls:
  assumes run: "CRO_Reconcile (recording opts A) (ResourceName (opt_OperandContext opts)) s = (r, s')"
    and get: "api_CRO_Get A (ResourceName (opt_OperandContext opts)) (fst s) = (Inr original, w1)"
  shows "\<exists>cs us. snd s' = snd s @ cs @ us \<and> list_all (operand_call (opt_OperandContext opts) (opt_Asset opts)) cs
    \<and> (us = [] \<or> (\<exists>c. us = [CallUpdateStatusCRO c] \<and> same_resource c original \<and> cro_Status c \<noteq> cro_Status original))"
proof -
  let ?p = "operand_call (opt_OperandContext opts) (opt_Asset opts)"
  from get have get': "api_CRO_Get (opt_api (recording opts A)) (ResourceName (opt_OperandContext (recording opts A))) s
    = (Inr original, (w1, snd s))" by (simp add: on_fst_def)
  from run have run': "CRO_Reconcile (recording opts A) (ResourceName (opt_OperandContext (recording opts A))) s = (r, s')"
    by simp
  let ?w = "snd (ClusterResourceOverride_copy (api_NewAddr (traced A)) original (w1, snd s))"
  have chain: "\<exists>cs. snd t = snd s @ cs \<and> list_all ?p cs"
    if "HandlerChain_Handle (traced A) (NewReconciler_handlers (recording opts A)) c0 ?w = (x, t)" for c0 x t
    using cro_recorded.chain_writes [OF that] DeepCopy_trace [of A original "(w1, snd s)"]
    by (auto simp: writes_def)
  from Reconcile_found_cases [OF run' get'] show ?thesis
  proof cases
    case 1
    then have "HandlerChain_Handle (traced A) (NewReconciler_handlers (recording opts A))
      (prepared (traced A) original (w1, snd s)) ?w = (Panicked, s')" by simp
    from chain [OF this] show ?thesis by (metis append_Nil2)
  next
    case (2 c res err u s3)
    then have "HandlerChain_Handle (traced A) (NewReconciler_handlers (recording opts A))
      (prepared (traced A) original (w1, snd s)) ?w = (Returned (Some c, res, err), s3)" by simp
    from chain [OF this] obtain cs where cs: "snd s3 = snd s @ cs" "list_all ?p cs" by blast
    from 2 have "StatusUpdater_Update (traced A) original (Some c) s3 = (Returned u, s')" by simp
    note upd = StatusUpdater_calls [OF this]
    from 2 have same: "same_resource c original" by (auto intro: same_resource_prepared)
    show ?thesis
    proof (cases "cro_Status original = cro_Status c")
      case True
      with upd cs show ?thesis by auto
    next
      case False
      with upd cs have "snd s' = snd s @ cs @ [CallUpdateStatusCRO c]" by simp
      with cs(2) same False show ?thesis by metis
    qed
  qed
qed

section \<open>An invalid spec\<close>

definition spec_valid :: "ClusterResourceOverrideSpec \<Rightarrow> bool" where
  "spec_valid s \<longleftrightarrow> valid_percentages (pro_Spec (spec_PodResourceOverride s))
     \<and> DeploymentOverrides_Validate (spec_DeploymentOverrides s) = None"

lemma validation_fails:
  "\<not> spec_valid (cro_Spec cro) \<Longrightarrow>
     \<exists>e. validationHandler_Handle cro w = (Returned (cro, empty_Result, Some (InstallReadinessError InvalidParameters (Some e))), w)"
  by (auto simp: spec_valid_def validationHandler_Handle_def NewInstallReadinessError_def Let_def
      Validate_None_iff [symmetric] split: option.splits)

lemma writes_nothing: "writes (\<lambda>c. False) s s' \<Longrightarrow> snd s' = snd s"
proof -
  assume "writes (\<lambda>c. False) s s'"
  then obtain cs where "snd s' = snd s @ cs" "list_all (\<lambda>c. False) cs" by (auto simp: writes_def)
  then show "snd s' = snd s" by (cases cs) simp_all
qed

text \<open>The chain stops at the second handler: nothing is created, changed or deleted.\<close>

lemma invalid_spec_chain:
  assumes "\<not> spec_valid (cro_Spec cro)"
  shows "\<exists>c e s'. HandlerChain_Handle (traced A) (NewReconciler_handlers (recording opts A)) cro s
      = (Returned (Some c, empty_Result, Some (InstallReadinessError InvalidParameters (Some e))), s')
    \<and> snd s' = snd s \<and> (\<exists>k. cro_Find (cro_Status c) InstallReadinessFailure = Some k
      \<and> cond_Status k = ConditionTrue \<and> cond_Reason k = InvalidParameters \<and> cond_Message k = Error e)"
proof -
  let ?av = "availabilityHandler_Handle (recording opts A)"
  obtain st s1 where av: "?av cro s = (Returned (set_Status st cro, empty_Result, None), s1)"
    using availabilityHandler_returns [of "recording opts A" cro s] by blast
  let ?c = "set_Status st cro"
  from assms have "\<not> spec_valid (cro_Spec ?c)" by simp
  from validation_fails [OF this, of s1] obtain e where
    val: "validationHandler_Handle ?c s1 = (Returned (?c, empty_Result, Some (InstallReadinessError InvalidParameters (Some e))), s1)"
    by blast
  obtain rest where hs: "NewReconciler_handlers (recording opts A) = [?av] @ validationHandler_Handle # rest"
    by (auto simp: NewReconciler_handlers_def)
  have steps: "chain_steps [?av] cro s ?c s1" using av by simp
  have contract: "g \<in> set [?av] \<Longrightarrow> handler_contract g" for g
    using availability.handler_contract_axioms by auto
  let ?e = "InstallReadinessError InvalidParameters (Some e)"
  obtain x s2 where we: "WithError (traced A) (Some ?e) (cro_Status ?c) s1 = (x, s2)"
    by (cases "WithError (traced A) (Some ?e) (cro_Status ?c) s1")
  from we obtain st2 where x: "x = Returned st2" by (auto simp: WithError_def Let_def split: prod.splits)
  have "snd s1 = snd s" by (rule writes_nothing [OF availabilityHandler_writes [OF av]])
  moreover have "snd s2 = snd s1" by (rule writes_nothing [OF WithError_writes [OF we]])
  moreover have "HandlerChain_Handle (traced A) (NewReconciler_handlers (recording opts A)) cro s
      = (Returned (Some (set_Status st2 ?c), empty_Result, Some ?e), s2)"
    using chain_loop_stops [where h = validationHandler_Handle and c = ?c and ?w1.0 = s1, OF steps contract val]
    by (simp only: HandlerChain_Handle_def hs we x outcome_bind.simps Let_def prod.case)
  ultimately show ?thesis using WithError_reports [OF we [unfolded x]] by auto
qed

lemma same_overrides_Validate:
  "same_overrides d e \<Longrightarrow> DeploymentOverrides_Validate d = DeploymentOverrides_Validate e"
  by (simp add: same_overrides_def DeploymentOverrides_Validate_def)

lemma prepared_valid: "spec_valid (cro_Spec (prepared A original w)) \<longleftrightarrow> spec_valid (cro_Spec original)"
  using same_overrides_Validate [OF prepared_facts(4) [of A original w]]
  by (simp add: spec_valid_def prepared_facts(3))

lemma Reconcile_invalid:
  assumes run: "CRO_Reconcile (recording opts A) (ResourceName (opt_OperandContext opts)) s = (r, s')"
    and get: "api_CRO_Get A (ResourceName (opt_OperandContext opts)) (fst s) = (Inr original, w1)"
    and invalid: "\<not> spec_valid (cro_Spec original)"
  shows "\<exists>c err. r = Returned (empty_Result, Some err)
    \<and> snd s' = snd s @ (if cro_Status original = cro_Status c then [] else [CallUpdateStatusCRO c])
    \<and> (\<exists>k. cro_Find (cro_Status c) InstallReadinessFailure = Some k \<and> cond_Status k = ConditionTrue
         \<and> cond_Reason k = InvalidParameters)"
proof -
  from get have get': "api_CRO_Get (opt_api (recording opts A)) (ResourceName (opt_OperandContext (recording opts A))) s
    = (Inr original, (w1, snd s))" by (simp add: on_fst_def)
  from run have run': "CRO_Reconcile (recording opts A) (ResourceName (opt_OperandContext (recording opts A))) s = (r, s')"
    by simp
  let ?w = "snd (ClusterResourceOverride_copy (api_NewAddr (traced A)) original (w1, snd s))"
  from invalid have "\<not> spec_valid (cro_Spec (prepared (traced A) original (w1, snd s)))" by (simp add: prepared_valid)
  from invalid_spec_chain [OF this, of A opts ?w] obtain c e s3 where
    chain: "HandlerChain_Handle (traced A) (NewReconciler_handlers (recording opts A))
      (prepared (traced A) original (w1, snd s)) ?w
      = (Returned (Some c, empty_Result, Some (InstallReadinessError InvalidParameters (Some e))), s3)"
    and trace: "snd s3 = snd ?w"
    and cond: "\<exists>k. cro_Find (cro_Status c) InstallReadinessFailure = Some k \<and> cond_Status k = ConditionTrue
      \<and> cond_Reason k = InvalidParameters \<and> cond_Message k = Error e" by blast
  from Reconcile_found_cases [OF run' get'] show ?thesis
  proof cases
    case 1
    with chain show ?thesis by simp
  next
    case (2 c' res err u s4)
    with chain have eq: "c' = c" "err = Some (InstallReadinessError InvalidParameters (Some e))" "s4 = s3" by auto
    from 2(4) eq have "StatusUpdater_Update (traced A) original (Some c) s3 = (Returned u, s')" by simp
    from StatusUpdater_calls [OF this] trace DeepCopy_trace [of A original "(w1, snd s)"]
    have "snd s' = snd s @ (if cro_Status original = cro_Status c then [] else [CallUpdateStatusCRO c])" by simp
    moreover from 2(5) eq have "\<exists>err. r = Returned (empty_Result, Some err)"
      by (auto simp: combine_errors_def split: option.splits)
    ultimately show ?thesis using cond by blast
  qed
qed

text \<open>
  The hypothesis of the panic-freedom is needed: when the client answers a get of the APIService with nil
  and no error, the handler wraps the nil error, and the chain panics when it reads its message.
\<close>

lemma nil_api_service_panics:
  assumes "api_APIService_Get (opt_api opts) (apiservice_Name (opt_Asset opts)) w = (Inr None, w1)"
  shows "fst (HandlerChain_Handle (opt_api opts) (apiServiceHandler_Handle opts # hs) cro w) = Panicked"
  using assms
  by (auto simp: HandlerChain_Handle_def apiServiceHandler_Handle_def NewInstallReadinessError_def handle_err_def
      WithError_def Let_def split: prod.splits)

end
