(* ===== verification/ControllerCore.thy ===== *)
theory ControllerCore
  imports WorkQueue ResourceOverrideCtl ReconcileFacts
begin

text \<open>
  pkg/controller: the event handler that puts keys into the work queue (handler.go), the worker that
  takes them out (worker.go) and the runner that starts a controller (runner.go), with the key
  functions of client-go. A worker is run as the list of queue operations it performs; the step
  relation \<open>ctl_step\<close> interleaves any number of workers with informer events and expiring delays.
\<close>

section \<open>Keys (client-go tools/cache store.go)\<close>

definition MetaNamespaceKeyFunc :: "informer_obj \<Rightarrow> error + string" where
  "MetaNamespaceKeyFunc obj = (case meta_Accessor obj of
     Inl e \<Rightarrow> Inl (ErrorString (''object has no meta: '' @ Error e))
   | Inr m \<Rightarrow> Inr (if om_Namespace (o_Meta m) \<noteq> [] then om_Namespace (o_Meta m) @ ''/'' @ om_Name (o_Meta m)
       else om_Name (o_Meta m)))"

definition DeletionHandlingMetaNamespaceKeyFunc :: "informer_obj \<Rightarrow> error + string" where
  "DeletionHandlingMetaNamespaceKeyFunc obj = (case obj of
     Tombstone key inner \<Rightarrow> Inr key | _ \<Rightarrow> MetaNamespaceKeyFunc obj)"

definition SplitMetaNamespaceKey :: "string \<Rightarrow> error + (string \<times> string)" where
  "SplitMetaNamespaceKey key = (case strings_Split key CHR ''/'' of
     [name] \<Rightarrow> Inr ([], name)
   | [namespace, name] \<Rightarrow> Inr (namespace, name)
   | _ \<Rightarrow> Inl (ErrorString (''unexpected key format: '' @ fmt_q key)))"

section \<open>The event handler (handler.go)\<close>

text \<open>The handlers answer with the requests they add to the queue.\<close>

definition EventHandler_add :: "string \<Rightarrow> Request list" where
  "EventHandler_add key = (case SplitMetaNamespaceKey key of
     Inl err \<Rightarrow> []
   | Inr (namespace, name) \<Rightarrow> [\<lparr>req_Namespace = namespace, req_Name = name\<rparr>])"

definition EventHandler_OnAdd :: "informer_obj \<Rightarrow> bool \<Rightarrow> Request list" where
  "EventHandler_OnAdd obj isInInitialList = (case MetaNamespaceKeyFunc obj of
     Inl err \<Rightarrow> [] | Inr key \<Rightarrow> EventHandler_add key)"

definition EventHandler_OnUpdate :: "informer_obj \<Rightarrow> informer_obj \<Rightarrow> Request list" where
  "EventHandler_OnUpdate oldObj newObj = EventHandler_OnAdd newObj False"

definition EventHandler_OnDelete :: "informer_obj \<Rightarrow> Request list" where
  "EventHandler_OnDelete obj = (case DeletionHandlingMetaNamespaceKeyFunc obj of
     Inl err \<Rightarrow> [] | Inr key \<Rightarrow> EventHandler_add key)"

section \<open>The worker (worker.go)\<close>

text \<open>An item of the queue is a request, or a value of some other type.\<close>

datatype item = ItemRequest Request | ItemOther string

datatype queue_op =
    OpGet
  | OpDone item
  | OpForget item
  | OpAddRateLimited item
  | OpAddAfter item int

text \<open>
  What follows the reconcile; the deferred Done comes last. The answer is whether the worker goes on.
  \<open>e\<close> is the type of the error, of which only the presence counts.
\<close>

definition worker_after :: "Request \<Rightarrow> Result \<Rightarrow> 'e option \<Rightarrow> queue_op list" where
  "worker_after request result err =
     (let obj = ItemRequest request in
      if err \<noteq> None then [OpAddRateLimited obj]
      else if 0 < RequeueAfter result then [OpForget obj, OpAddAfter obj (RequeueAfter result)]
      else if Requeue result then [OpAddRateLimited obj]
      else [OpForget obj])"

definition processNextWorkItem ::
  "bool \<Rightarrow> bool \<Rightarrow> item option \<Rightarrow> (Request \<Rightarrow> 'w \<Rightarrow> (Result \<times> 'e option) outcome \<times> 'w) \<Rightarrow> 'w
   \<Rightarrow> bool outcome \<times> queue_op list \<times> 'w" where
  "processNextWorkItem shutdownCtx_nil controller_nil got reconcile w =
     (if shutdownCtx_nil \<or> controller_nil then (Returned False, [], w)
      else (case got of
         None \<Rightarrow> (Returned False, [OpGet], w)
       | Some (ItemOther v) \<Rightarrow> (Returned True, [OpGet, OpForget (ItemOther v), OpDone (ItemOther v)], w)
       | Some (ItemRequest request) \<Rightarrow>
           (case reconcile request w of
              (Panicked, w1) \<Rightarrow> (Panicked, [OpGet, OpDone (ItemRequest request)], w1)
            | (Returned (result, err), w1) \<Rightarrow>
                (Returned True, OpGet # worker_after request result err @ [OpDone (ItemRequest request)], w1))))"

text \<open>
  The worker's loop over the answers of Get, the last of which may be the shutdown. The answer: whether
  it ended, the operations, the answers it did not take.
\<close>

fun Work :: "(Request \<Rightarrow> 'w \<Rightarrow> (Result \<times> 'e option) outcome \<times> 'w) \<Rightarrow> item option list \<Rightarrow> 'w
   \<Rightarrow> bool outcome \<times> queue_op list \<times> item option list \<times> 'w" where
  "Work reconcile [] w = (Returned False, [], [], w)"
| "Work reconcile (got # gots) w =
     (case processNextWorkItem False False got reconcile w of
        (Panicked, ops, w1) \<Rightarrow> (Panicked, ops, gots, w1)
      | (Returned go, ops, w1) \<Rightarrow>
          if \<not> go then (Returned True, ops, gots, w1)
          else (case Work reconcile gots w1 of (ended, ops', rest, w2) \<Rightarrow> (ended, ops @ ops', rest, w2)))"

section \<open>The runner (runner.go)\<close>

datatype runner_event =
    StartInformer
  | StartWorker
  | SendError "error option"
  | WaitParent
  | ShutDownQueue
  | CloseDone

text \<open>The deferred calls run in reverse order: shut down the queue, then close done.\<close>

definition runner_Run :: "bool \<Rightarrow> bool \<Rightarrow> string \<Rightarrow> int \<Rightarrow> bool \<Rightarrow> runner_event list" where
  "runner_Run parent_nil controller_nil name workerCount synced =
     (if parent_nil \<or> controller_nil
      then [SendError (Some (ErrorString ''invalid input to Runner.Run'')), CloseDone]
      else [StartInformer] @
        (if \<not> synced
         then [SendError (Some (ErrorString (''controller='' @ name @ '' failed to wait for caches to sync''))),
               ShutDownQueue, CloseDone]
         else replicate (nat workerCount) StartWorker @ [SendError None, WaitParent, ShutDownQueue, CloseDone]))"

section \<open>Keys name their object\<close>

lemma SplitMetaNamespaceKey_pair:
  "CHR ''/'' \<notin> set ns \<Longrightarrow> CHR ''/'' \<notin> set n \<Longrightarrow> SplitMetaNamespaceKey (ns @ CHR ''/'' # n) = Inr (ns, n)"
  by (simp add: SplitMetaNamespaceKey_def strings_Split_one strings_Split_no_sep)

lemma SplitMetaNamespaceKey_name: "CHR ''/'' \<notin> set n \<Longrightarrow> SplitMetaNamespaceKey n = Inr ([], n)"
  by (simp add: SplitMetaNamespaceKey_def strings_Split_no_sep)

definition plain_names :: "'a Object_scheme \<Rightarrow> bool" where
  "plain_names x \<longleftrightarrow> CHR ''/'' \<notin> set (om_Namespace (o_Meta x)) \<and> CHR ''/'' \<notin> set (om_Name (o_Meta x))"

lemma MetaNamespaceKey_roundtrip:
  "plain_names x \<Longrightarrow> \<exists>key. MetaNamespaceKeyFunc (MetaObj x) = Inr key
     \<and> SplitMetaNamespaceKey key = Inr (om_Namespace (o_Meta x), om_Name (o_Meta x))"
  by (auto simp: MetaNamespaceKeyFunc_def plain_names_def SplitMetaNamespaceKey_pair SplitMetaNamespaceKey_name)

lemma EventHandler_adds:
  assumes "plain_names x"
  shows "EventHandler_OnAdd (MetaObj x) b = [request_for x]"
    and "EventHandler_OnUpdate old (MetaObj x) = [request_for x]"
    and "EventHandler_OnDelete (MetaObj x) = [request_for x]"
  using MetaNamespaceKey_roundtrip [OF assms]
  by (auto simp: EventHandler_OnAdd_def EventHandler_OnUpdate_def EventHandler_OnDelete_def
      EventHandler_add_def DeletionHandlingMetaNamespaceKeyFunc_def request_for_def)

lemma EventHandler_tombstone:
  "MetaNamespaceKeyFunc (MetaObj x) = Inr key \<Longrightarrow> plain_names x \<Longrightarrow> EventHandler_OnDelete (Tombstone key y) = [request_for x]"
  using MetaNamespaceKey_roundtrip [of x]
  by (auto simp: EventHandler_OnDelete_def EventHandler_add_def DeletionHandlingMetaNamespaceKeyFunc_def request_for_def)

section \<open>What a worker does with a request\<close>

text \<open>The reconcilers of this program never ask for a requeue in their result.\<close>

locale reconciler_contract =
  fixes reconcile :: "Request \<Rightarrow> 'w \<Rightarrow> (Result \<times> 'e option) outcome \<times> 'w"
  assumes empty_result: "reconcile req w = (Returned (res, err), w') \<Longrightarrow> res = empty_Result"
begin

lemma retry_on_error:
  assumes "reconcile req w = (Returned (res, Some e), w')"
  shows "processNextWorkItem False False (Some (ItemRequest req)) reconcile w =
    (Returned True, [OpGet, OpAddRateLimited (ItemRequest req), OpDone (ItemRequest req)], w')"
  using assms by (simp add: processNextWorkItem_def worker_after_def)

lemma forget_on_success:
  assumes "reconcile req w = (Returned (res, None), w')"
  shows "processNextWorkItem False False (Some (ItemRequest req)) reconcile w =
    (Returned True, [OpGet, OpForget (ItemRequest req), OpDone (ItemRequest req)], w')"
  using assms empty_result [OF assms] by (simp add: processNextWorkItem_def worker_after_def empty_Result_def)

text \<open>The worker ends only when the queue is shut down, and serves every answer before that.\<close>

lemma Work_ends_at_shutdown:
  assumes "\<And>req w. fst (reconcile req w) \<noteq> Panicked" and "None \<notin> set gots"
  shows "\<exists>ops w'. Work reconcile (gots @ None # rest) w = (Returned True, ops, rest, w')
    \<and> length (filter (\<lambda>x. x = OpGet) ops) = Suc (length gots)
    \<and> length (filter (\<lambda>x. \<exists>i. x = OpDone i) ops) = length gots"
  using assms(2)
proof (induction gots arbitrary: w)
  case Nil
  then show ?case by (simp add: processNextWorkItem_def)
next
  case (Cons g gots)
  then obtain i where g: "g = Some i" by (cases g) auto
  show ?case
  proof (cases i)
    case (ItemOther v)
    with g Cons.IH [of w] Cons.prems show ?thesis by (auto simp: processNextWorkItem_def)
  next
    case (ItemRequest req)
    from assms(1) obtain res err w1 where run: "reconcile req w = (Returned (res, err), w1)"
      by (metis outcome.exhaust prod.exhaust_sel)
    from Cons.IH [of w1] Cons.prems obtain ops w' where
      "Work reconcile (gots @ None # rest) w1 = (Returned True, ops, rest, w')"
      "length (filter (\<lambda>x. x = OpGet) ops) = Suc (length gots)"
      "length (filter (\<lambda>x. \<exists>i. x = OpDone i) ops) = length gots" by auto
    with g ItemRequest run show ?thesis by (simp add: processNextWorkItem_def worker_after_def Let_def)
  qed
qed

end

interpretation cro_reconciler: reconciler_contract "\<lambda>req. CRO_Reconcile opts (req_Name req)" for opts :: "'w Options"
  by unfold_locales (rule Reconcile_result)

interpretation ro_reconciler: reconciler_contract "RO_Reconcile L A" for L and A :: "'w api"
proof unfold_locales
  fix req and w w' :: 'w and res err
  assume run: "RO_Reconcile L A req w = (Returned (res, err), w')"
  obtain e where "fst (RO_Reconcile L A req w) = Returned (empty_Result, e)"
    using RO_Reconcile_returns [of L A req w] by blast
  with run show "res = empty_Result" by simp
qed

end
