(* ===== verification/InformerCache.thy ===== *)
theory InformerCache
  imports StoreIndex ControllerCore
begin

text \<open>
  The cache that an informer fills and the listers that read it: client-go tools/cache store.go,
  index.go and listers.go, listers/generic_helpers.go, and the generated listers of
  pkg/generated/listers.

  The controllers only ever see the cluster through these listers. The locale \<open>object_store\<close> of
  \<open>StoreIndex\<close> states what they rely on: after any sequence of changes a lookup yields the object last put under its key.
\<close>

section \<open>The cache (store.go, index.go)\<close>

definition MetaNamespaceIndexFunc :: "'a Object_scheme index_func" where
  "MetaNamespaceIndexFunc obj = (case obj of
     Stored x \<Rightarrow> Inr [om_Namespace (o_Meta x)] | BareMeta m \<Rightarrow> Inr [om_Namespace m])"

definition NamespaceIndex :: string where "NamespaceIndex = ''namespace''"

definition object_key :: "'a Object_scheme \<Rightarrow> error + string" where
  "object_key x = DeletionHandlingMetaNamespaceKeyFunc (MetaObj (Object.truncate x))"

definition object_rv :: "'a Object_scheme \<Rightarrow> string" where
  "object_rv x = om_ResourceVersion (o_Meta x)"

record 'o cache =
  cache_store :: "'o threadSafeMap"
  cache_transformer :: "('o \<Rightarrow> error + 'o) option"

datatype cache_error = KeyError error | TransformError error

definition NewIndexer :: "(string \<times> 'o index_func) list \<Rightarrow> ('o \<Rightarrow> error + 'o) option \<Rightarrow> 'o cache" where
  "NewIndexer indexers transformer =
     \<lparr>cache_store = NewThreadSafeStore indexers, cache_transformer = transformer\<rparr>"

definition cache_transform :: "'o cache \<Rightarrow> 'o \<Rightarrow> error + 'o" where
  "cache_transform c obj = (case cache_transformer c of None \<Rightarrow> Inr obj | Some f \<Rightarrow> f obj)"

definition cache_Update :: "'a Object_scheme \<Rightarrow> 'a Object_scheme cache
    \<Rightarrow> (cache_error option \<times> 'a Object_scheme cache) outcome" where
  "cache_Update obj c = (case object_key obj of
     Inl err \<Rightarrow> Returned (Some (KeyError err), c)
   | Inr key \<Rightarrow> (case cache_transform c obj of
       Inl err \<Rightarrow> Returned (Some (TransformError err), c)
     | Inr obj \<Rightarrow> outcome_bind (store_Update object_rv key obj (cache_store c))
         (\<lambda>s. Returned (None, c\<lparr>cache_store := s\<rparr>))))"

definition cache_Add :: "'a Object_scheme \<Rightarrow> 'a Object_scheme cache
    \<Rightarrow> (cache_error option \<times> 'a Object_scheme cache) outcome" where
  "cache_Add obj c = (case object_key obj of
     Inl err \<Rightarrow> Returned (Some (KeyError err), c)
   | Inr key \<Rightarrow> (case cache_transform c obj of
       Inl err \<Rightarrow> Returned (Some (TransformError err), c)
     | Inr obj \<Rightarrow> outcome_bind (store_Add object_rv key obj (cache_store c))
         (\<lambda>s. Returned (None, c\<lparr>cache_store := s\<rparr>))))"

text \<open>The argument of \<open>Delete\<close>: the object, or a \<open>DeletedFinalStateUnknown\<close> with its key.\<close>

datatype 'o deleted = DeletedObject 'o | DeletedFinalStateUnknown string

definition cache_Delete :: "'a Object_scheme deleted \<Rightarrow> 'a Object_scheme cache
    \<Rightarrow> (cache_error option \<times> 'a Object_scheme cache) outcome" where
  "cache_Delete obj c =
     (case (case obj of DeletedObject x \<Rightarrow> object_key x | DeletedFinalStateUnknown key \<Rightarrow> Inr key) of
        Inl err \<Rightarrow> Returned (Some (KeyError err), c)
      | Inr key \<Rightarrow>
          outcome_bind (store_DeleteWithObject object_rv key
              (case obj of DeletedObject x \<Rightarrow> Some x | DeletedFinalStateUnknown k \<Rightarrow> None) (cache_store c))
            (\<lambda>s. Returned (None, c\<lparr>cache_store := s\<rparr>)))"

fun cache_Replace_items :: "'a Object_scheme cache \<Rightarrow> 'a Object_scheme list
    \<Rightarrow> (string \<times> 'a Object_scheme) list \<Rightarrow> cache_error + (string \<times> 'a Object_scheme) list" where
  "cache_Replace_items c [] items = Inr items"
| "cache_Replace_items c (item # rest) items = (case object_key item of
     Inl err \<Rightarrow> Inl (KeyError err)
   | Inr key \<Rightarrow> (case cache_transform c item of
       Inl err \<Rightarrow> Inl (TransformError err)
     | Inr item \<Rightarrow> cache_Replace_items c rest (AList.update key item items)))"

definition cache_Replace :: "'a Object_scheme list \<Rightarrow> string \<Rightarrow> 'a Object_scheme cache
    \<Rightarrow> (cache_error option \<times> 'a Object_scheme cache) outcome" where
  "cache_Replace list resourceVersion c = (case cache_Replace_items c list [] of
     Inl err \<Rightarrow> Returned (Some err, c)
   | Inr items \<Rightarrow> outcome_bind (store_Replace items resourceVersion (cache_store c))
       (\<lambda>s. Returned (None, c\<lparr>cache_store := s\<rparr>)))"

definition cache_GetByKey :: "string \<Rightarrow> 'o cache \<Rightarrow> 'o option" where
  "cache_GetByKey key c = store_Get key (cache_store c)"

section \<open>Label selectors (apimachinery labels)\<close>

datatype Selector = NothingSelector | Requirements "(go_map \<Rightarrow> bool) list"

definition labels_Everything :: Selector where "labels_Everything = Requirements []"

fun sel_Empty :: "Selector \<Rightarrow> bool" where
  "sel_Empty NothingSelector = False"
| "sel_Empty (Requirements rs) = (rs = [])"

fun sel_Matches :: "Selector \<Rightarrow> go_map \<Rightarrow> bool" where
  "sel_Matches NothingSelector ls = False"
| "sel_Matches (Requirements rs) ls = list_all (\<lambda>r. r ls) rs"

section \<open>Listing (listers.go, generic_helpers.go)\<close>

text \<open>
  The answer is the error and the appended objects. The typed \<open>appendFn\<close> asserts its argument's type
  and panics on nil; \<open>meta.Accessor\<close> fails on nil.
\<close>

definition not_object :: error where
  "not_object = ErrorString ''object does not implement the Object interfaces''"

fun list_items :: "Selector \<Rightarrow> ('a Object_scheme \<Rightarrow> bool) \<Rightarrow> bool \<Rightarrow> 'a Object_scheme option list
    \<Rightarrow> 'a Object_scheme list \<Rightarrow> (error option \<times> 'a Object_scheme list) outcome" where
  "list_items selector keep selectAll [] ret = Returned (None, ret)"
| "list_items selector keep selectAll (m # ms) ret =
     (if selectAll then (case m of None \<Rightarrow> Panicked
        | Some x \<Rightarrow> list_items selector keep selectAll ms (ret @ [x]))
      else (case m of None \<Rightarrow> Returned (Some not_object, ret)
        | Some x \<Rightarrow> list_items selector keep selectAll ms
            (if keep x \<and> sel_Matches selector (om_Labels (o_Meta x)) then ret @ [x] else ret)))"

definition ListAll :: "'a Object_scheme cache \<Rightarrow> Selector \<Rightarrow> (error option \<times> 'a Object_scheme list) outcome" where
  "ListAll c selector = (if selector = NothingSelector then Returned (None, [])
     else list_items selector (\<lambda>_. True) (sel_Empty selector) (map Some (store_List (cache_store c))) [])"

definition ListAllByNamespace :: "'a Object_scheme cache \<Rightarrow> string \<Rightarrow> Selector
    \<Rightarrow> (error option \<times> 'a Object_scheme list) outcome" where
  "ListAllByNamespace c ns selector =
     (if selector = NothingSelector then Returned (None, [])
      else if ns = [] then ListAll c selector
      else (case store_Index NamespaceIndex (BareMeta (new_ObjectMeta [] ns [] [])) (cache_store c) of
        Inl err \<Rightarrow> list_items selector (\<lambda>x. om_Namespace (o_Meta x) = ns) False
          (map Some (store_List (cache_store c))) []
      | Inr items \<Rightarrow> list_items selector (\<lambda>_. True) (sel_Empty selector) items []))"

record ResourceIndexer =
  ri_resource :: "string \<times> string"
  ri_namespace :: string

definition ResourceIndexer_New :: "string \<times> string \<Rightarrow> ResourceIndexer" where
  "ResourceIndexer_New resource = \<lparr>ri_resource = resource, ri_namespace = []\<rparr>"

definition ResourceIndexer_NewNamespaced :: "ResourceIndexer \<Rightarrow> string \<Rightarrow> ResourceIndexer" where
  "ResourceIndexer_NewNamespaced parent ns = \<lparr>ri_resource = ri_resource parent, ri_namespace = ns\<rparr>"

definition ResourceIndexer_List :: "ResourceIndexer \<Rightarrow> 'a Object_scheme cache \<Rightarrow> Selector
    \<Rightarrow> (error option \<times> 'a Object_scheme list) outcome" where
  "ResourceIndexer_List l c selector = ListAllByNamespace c (ri_namespace l) selector"

definition NewNotFound :: "string \<times> string \<Rightarrow> string \<Rightarrow> error" where
  "NewNotFound gr name = StatusError ''NotFound'' 404
     ((if fst gr = [] then snd gr else snd gr @ ''.'' @ fst gr) @ '' '' @ fmt_q name @ '' not found'')"

definition ResourceIndexer_Get :: "ResourceIndexer \<Rightarrow> 'a Object_scheme cache \<Rightarrow> string \<Rightarrow> error + 'a Object_scheme" where
  "ResourceIndexer_Get l c name =
     (let key = (if ri_namespace l = [] then name else ri_namespace l @ ''/'' @ name)
      in case cache_GetByKey key c of
        None \<Rightarrow> Inl (NewNotFound (ri_resource l) name)
      | Some obj \<Rightarrow> Inr obj)"

section \<open>The generated listers (pkg/generated/listers)\<close>

definition operator_Resource :: "string \<Rightarrow> string \<times> string" where
  "operator_Resource resource = (operator_GroupName, resource)"

definition autoscaling_Resource :: "string \<Rightarrow> string \<times> string" where
  "autoscaling_Resource resource = (autoscaling_GroupName, resource)"

definition NewClusterResourceOverrideLister :: ResourceIndexer where
  "NewClusterResourceOverrideLister = ResourceIndexer_New (operator_Resource ''clusterresourceoverride'')"

definition NewResourceOverrideLister :: ResourceIndexer where
  "NewResourceOverrideLister = ResourceIndexer_New (autoscaling_Resource ''resourceoverride'')"

definition ResourceOverrides :: "ResourceIndexer \<Rightarrow> string \<Rightarrow> ResourceIndexer" where
  "ResourceOverrides s ns = ResourceIndexer_NewNamespaced s ns"

text \<open>The stores of the two controllers: only the namespaced one has the namespace index.\<close>

definition cro_indexer :: "ClusterResourceOverride cache" where
  "cro_indexer = NewIndexer [] None"

definition ro_indexer :: "ResourceOverride cache" where
  "ro_indexer = NewIndexer [(NamespaceIndex, MetaNamespaceIndexFunc)] None"

section \<open>Keys\<close>

definition key_string :: "string \<Rightarrow> string \<Rightarrow> string" where
  "key_string ns n = (if ns \<noteq> [] then ns @ ''/'' @ n else n)"

abbreviation namespace_of :: "'a Object_scheme \<Rightarrow> string" where "namespace_of x \<equiv> om_Namespace (o_Meta x)"
abbreviation name_of :: "'a Object_scheme \<Rightarrow> string" where "name_of x \<equiv> om_Name (o_Meta x)"

lemma object_key_string: "object_key x = Inr (key_string (namespace_of x) (name_of x))"
  by (simp add: object_key_def DeletionHandlingMetaNamespaceKeyFunc_def MetaNamespaceKeyFunc_def key_string_def
      Object.truncate_def)

lemma key_string_inject:
  assumes "CHR ''/'' \<notin> set ns" "CHR ''/'' \<notin> set n" "CHR ''/'' \<notin> set ns'" "CHR ''/'' \<notin> set n'"
  shows "key_string ns n = key_string ns' n' \<longleftrightarrow> ns = ns' \<and> n = n'"
proof -
  have "SplitMetaNamespaceKey (key_string ns n) = Inr (ns, n)" "SplitMetaNamespaceKey (key_string ns' n') = Inr (ns', n')"
    using assms by (simp_all add: key_string_def SplitMetaNamespaceKey_pair SplitMetaNamespaceKey_name)
  then show ?thesis by (metis prod.inject sum.inject(2))
qed

section \<open>Any sequence of events\<close>

text \<open>What the watch reports: an object added or updated, deleted, or found deleted by its key.\<close>

datatype 'o event = Changed 'o | Deleted 'o | FoundDeleted string string

definition handle_event :: "'a Object_scheme event \<Rightarrow> 'a Object_scheme cache \<Rightarrow> 'a Object_scheme cache outcome" where
  "handle_event e c = outcome_bind
     (case e of
        Changed x \<Rightarrow> (case cache_GetByKey (key_string (namespace_of x) (name_of x)) c of
          None \<Rightarrow> cache_Add x c | Some old \<Rightarrow> cache_Update x c)
      | Deleted x \<Rightarrow> cache_Delete (DeletedObject x) c
      | FoundDeleted ns n \<Rightarrow> cache_Delete (DeletedFinalStateUnknown (key_string ns n)) c)
     (\<lambda>(err, c'). Returned c')"

definition event_effect :: "'a Object_scheme event \<Rightarrow> (string \<times> string \<Rightarrow> 'a Object_scheme option)
    \<Rightarrow> string \<times> string \<Rightarrow> 'a Object_scheme option" where
  "event_effect e m = (case e of
     Changed x \<Rightarrow> m((namespace_of x, name_of x) \<mapsto> x)
   | Deleted x \<Rightarrow> m((namespace_of x, name_of x) := None)
   | FoundDeleted ns n \<Rightarrow> m((ns, n) := None))"

definition plain_event :: "'a Object_scheme event \<Rightarrow> bool" where
  "plain_event e = (case e of Changed x \<Rightarrow> plain_names x | Deleted x \<Rightarrow> plain_names x
     | FoundDeleted ns n \<Rightarrow> CHR ''/'' \<notin> set ns \<and> CHR ''/'' \<notin> set n)"

definition cached :: "'a Object_scheme cache \<Rightarrow> string \<times> string \<Rightarrow> 'a Object_scheme option" where
  "cached c p = (if CHR ''/'' \<notin> set (fst p) \<and> CHR ''/'' \<notin> set (snd p)
     then cache_GetByKey (key_string (fst p) (snd p)) c else None)"

definition cache_inv :: "(string \<times> 'a Object_scheme index_func) list \<Rightarrow> 'a Object_scheme cache \<Rightarrow> bool" where
  "cache_inv indexers c \<longleftrightarrow> store_inv (cache_store c) \<and> indexers_of (cache_store c) = indexers
     \<and> cache_transformer c = None
     \<and> (\<forall>key x. items_of (cache_store c) key = Some x \<longrightarrow>
          plain_names x \<and> key = key_string (namespace_of x) (name_of x))"

lemma cache_inv_put:
  assumes "cache_inv indexers c" and "plain_names x"
  defines "key \<equiv> key_string (namespace_of x) (name_of x)"
  obtains c' where "cache_Update x c = Returned (None, c')" and "cache_Add x c = Returned (None, c')"
    and "cache_inv indexers c'" and "items_of (cache_store c') = (items_of (cache_store c))(key \<mapsto> x)"
proof -
  have inv: "store_inv (cache_store c)" using assms(1) by (simp add: cache_inv_def)
  obtain s where s: "store_Update object_rv key x (cache_store c) = Returned s" "store_inv s"
      "items_of s = (items_of (cache_store c))(key \<mapsto> x)" "indexers_of s = indexers_of (cache_store c)"
    using store_Update_inv [OF inv, of object_rv key x] by metis
  let ?c = "c\<lparr>cache_store := s\<rparr>"
  have "cache_Update x c = Returned (None, ?c)" "cache_Add x c = Returned (None, ?c)"
    using assms(1) s(1)
    by (simp_all add: cache_Update_def cache_Add_def store_Add_def object_key_string cache_transform_def
        cache_inv_def flip: key_def)
  moreover have "cache_inv indexers ?c"
    using assms(1,2) s(2-4) by (auto simp: cache_inv_def key_def)
  ultimately show thesis using s(3) by (intro that [of ?c]) simp_all
qed

lemma cache_inv_delete:
  assumes "cache_inv indexers c"
    and key: "(case obj of DeletedObject x \<Rightarrow> object_key x | DeletedFinalStateUnknown k \<Rightarrow> Inr k) = Inr key"
  obtains c' where "cache_Delete obj c = Returned (None, c')" and "cache_inv indexers c'"
    and "items_of (cache_store c') = (items_of (cache_store c))(key := None)"
proof -
  have inv: "store_inv (cache_store c)" using assms(1) by (simp add: cache_inv_def)
  let ?o = "case obj of DeletedObject x \<Rightarrow> Some x | DeletedFinalStateUnknown k \<Rightarrow> None"
  obtain s where s: "store_DeleteWithObject object_rv key ?o (cache_store c) = Returned s" "store_inv s"
      "items_of s = (items_of (cache_store c))(key := None)" "indexers_of s = indexers_of (cache_store c)"
    using store_Delete_inv [OF inv, of object_rv key ?o] by metis
  let ?c = "c\<lparr>cache_store := s\<rparr>"
  have "cache_Delete obj c = Returned (None, ?c)" using s(1) by (simp add: cache_Delete_def key)
  moreover have "cache_inv indexers ?c" using assms(1) s(2-4) by (auto simp: cache_inv_def split: if_splits)
  ultimately show thesis using s(3) by (intro that [of ?c]) simp_all
qed

lemma cached_update:
  assumes "items_of (cache_store c') = (items_of (cache_store c))(key_string ns n := v)"
    and "CHR ''/'' \<notin> set ns" and "CHR ''/'' \<notin> set n"
  shows "cached c' = (cached c)((ns, n) := v)"
  using assms by (auto simp: fun_eq_iff cached_def cache_GetByKey_def store_Get_def key_string_inject)

interpretation informer_cache:
  object_store "cache_inv indexers" "cached :: 'a Object_scheme cache \<Rightarrow> _" handle_event event_effect plain_event
  for indexers
proof
  fix c :: "'a Object_scheme cache" and e :: "'a Object_scheme event"
  assume inv: "cache_inv indexers c" and plain: "plain_event e"
  show "\<exists>c'. handle_event e c = Returned c' \<and> cache_inv indexers c' \<and> cached c' = event_effect e (cached c)"
  proof (cases e)
    case (Changed x)
    with plain have x: "plain_names x" by (simp add: plain_event_def)
    obtain c' where "cache_Update x c = Returned (None, c')" "cache_Add x c = Returned (None, c')"
        and c': "cache_inv indexers c'"
          "items_of (cache_store c') = (items_of (cache_store c))(key_string (namespace_of x) (name_of x) \<mapsto> x)"
      using cache_inv_put [OF inv x] by metis
    then have "handle_event e c = Returned c'" using Changed by (simp add: handle_event_def split: option.split)
    then show ?thesis
      using c' Changed cached_update [OF c'(2)] x by (simp add: event_effect_def plain_names_def)
  next
    case (Deleted x)
    obtain c' where "cache_Delete (DeletedObject x) c = Returned (None, c')"
        and c': "cache_inv indexers c'"
          "items_of (cache_store c') = (items_of (cache_store c))(key_string (namespace_of x) (name_of x) := None)"
      using cache_inv_delete [OF inv, of "DeletedObject x"] by (auto simp: object_key_string)
    then show ?thesis
      using Deleted cached_update [OF c'(2)] plain
      by (simp add: handle_event_def event_effect_def plain_event_def plain_names_def)
  next
    case (FoundDeleted ns n)
    obtain c' where "cache_Delete (DeletedFinalStateUnknown (key_string ns n)) c = Returned (None, c')"
        and c': "cache_inv indexers c'" "items_of (cache_store c') = (items_of (cache_store c))(key_string ns n := None)"
      using cache_inv_delete [OF inv, of "DeletedFinalStateUnknown (key_string ns n)"] by auto
    then show ?thesis
      using FoundDeleted cached_update [OF c'(2)] plain
      by (simp add: handle_event_def event_effect_def plain_event_def)
  qed
qed

section \<open>What the listers return\<close>

lemma list_items_Some:
  "list_items selector keep selectAll (map Some xs) ret
    = Returned (None, ret @ filter (\<lambda>x. selectAll \<or> keep x \<and> sel_Matches selector (om_Labels (o_Meta x))) xs)"
  by (induction xs arbitrary: ret) (cases selectAll; simp)+

lemma sel_Empty_Matches: "sel_Empty selector \<Longrightarrow> sel_Matches selector ls"
  by (cases selector) simp_all

text \<open>The objects of a namespace that match a selector, in the order of the store.\<close>

definition scan :: "'a Object_scheme cache \<Rightarrow> string \<Rightarrow> Selector \<Rightarrow> 'a Object_scheme list" where
  "scan c ns selector = filter (\<lambda>x. (ns = [] \<or> namespace_of x = ns) \<and> sel_Matches selector (om_Labels (o_Meta x)))
     (store_List (cache_store c))"

lemma ListAll_scan: "ListAll c selector = Returned (None, scan c [] selector)"
proof -
  have "sel_Empty selector \<or> sel_Matches selector ls \<longleftrightarrow> sel_Matches selector ls" for ls
    using sel_Empty_Matches by blast
  then show ?thesis by (cases selector) (simp_all add: ListAll_def scan_def list_items_Some)
qed

lemma mset_map_keys:
  assumes "distinct (map fst items)"
  shows "mset (map (the \<circ> map_of items) (sorted_list_of_set {k. \<exists>x. map_of items k = Some x \<and> P x}))
    = mset (filter P (map snd items))"
proof -
  let ?K = "{k. \<exists>x. map_of items k = Some x \<and> P x}"
  let ?F = "filter (P \<circ> snd) items"
  have fin: "finite ?K" using finite_subset [OF _ finite_dom_map_of [of items], of ?K] by auto
  have "set (map fst ?F) = ?K" using assms by (force simp: image_iff)
  moreover have "distinct (map fst ?F)" using assms by (rule distinct_map_filter)
  ultimately have "mset (sorted_list_of_set ?K) = mset (map fst ?F)"
    using fin by (metis distinct_sorted_list_of_set set_eq_iff_mset_eq_distinct set_sorted_list_of_set)
  then have "mset (map (the \<circ> map_of items) (sorted_list_of_set ?K)) = mset (map (the \<circ> map_of items) (map fst ?F))"
    by (simp only: mset_map)
  also have "map (the \<circ> map_of items) (map fst ?F) = map snd ?F"
    using assms by auto
  also have "map snd ?F = filter P (map snd items)" by (simp add: filter_map)
  finally show ?thesis .
qed

text \<open>With or without the index, a namespace is listed completely and only itself.\<close>

lemma ListAllByNamespace_scan:
  assumes inv: "cache_inv indexers c"
    and indexed: "map_of indexers NamespaceIndex \<in> {None, Some MetaNamespaceIndexFunc}"
  shows "\<exists>xs. ListAllByNamespace c ns selector = Returned (None, xs) \<and> mset xs = mset (scan c ns selector)"
proof (cases "selector = NothingSelector \<or> ns = [] \<or> map_of indexers NamespaceIndex = None")
  case True
  have "indexers_of (cache_store c) = indexers" using inv by (simp add: cache_inv_def)
  then show ?thesis
    using True
    by (cases selector)
      (auto simp: ListAllByNamespace_def ListAll_scan scan_def store_Index_def getKeysFromIndex_def list_items_Some)
next
  case False
  let ?items = "tsm_items (cache_store c)"
  let ?meta = "new_ObjectMeta [] ns [] []"
  have store: "store_inv (cache_store c)" and name: "map_of (indexers_of (cache_store c)) NamespaceIndex = Some MetaNamespaceIndexFunc"
    and dist: "distinct (map fst ?items)"
    using inv indexed False by (auto simp: cache_inv_def store_inv_def)
  define found where "found = {key. \<exists>x. map_of ?items key = Some x \<and> namespace_of x = ns}"
  have "store_Index NamespaceIndex (BareMeta ?meta) (cache_store c) = Inr (map (map_of ?items) (sorted_list_of_set found))"
    and fin: "finite found"
    using store_Index_items [OF store name, of "BareMeta ?meta" "[ns]"]
    by (simp_all add: MetaNamespaceIndexFunc_def values_of_def new_ObjectMeta_def found_def eq_commute [of ns])
  moreover define xs where "xs = map (the \<circ> map_of ?items) (sorted_list_of_set found)"
  moreover have "map (map_of ?items) (sorted_list_of_set found) = map Some xs"
    using fin by (auto simp: found_def xs_def)
  ultimately have "ListAllByNamespace c ns selector = list_items selector (\<lambda>_. True) (sel_Empty selector) (map Some xs) []"
    using False by (simp add: ListAllByNamespace_def)
  also have "\<dots> = Returned (None, filter (\<lambda>x. sel_Matches selector (om_Labels (o_Meta x))) xs)"
    using sel_Empty_Matches [of selector] by (simp add: list_items_Some) (metis (no_types, lifting) filter_cong)
  finally have "ListAllByNamespace c ns selector
      = Returned (None, filter (\<lambda>x. sel_Matches selector (om_Labels (o_Meta x))) xs)" .
  moreover have "mset xs = mset (filter (\<lambda>x. namespace_of x = ns) (store_List (cache_store c)))"
    unfolding found_def store_List_def xs_def by (rule mset_map_keys [OF dist])
  then have "mset (filter (\<lambda>x. sel_Matches selector (om_Labels (o_Meta x))) xs) = mset (scan c ns selector)"
    using False by (simp add: scan_def filter_filter_mset conj_commute)
  ultimately show ?thesis by blast
qed

lemma NewIndexer_inv:
  assumes "distinct (map fst indexers)" and "\<forall>(name, f) \<in> set indexers. index_func_total f"
  shows "cache_inv indexers (NewIndexer indexers None)" and "cached (NewIndexer indexers None) = Map.empty"
  using NewThreadSafeStore_inv [OF assms]
  by (simp_all add: cache_inv_def NewIndexer_def NewThreadSafeStore_def cached_def cache_GetByKey_def store_Get_def
      fun_eq_iff)

abbreviation ro_indexers :: "(string \<times> ResourceOverride index_func) list" where
  "ro_indexers \<equiv> [(NamespaceIndex, MetaNamespaceIndexFunc)]"

lemma indexers_inv: "cache_inv [] cro_indexer" "cached cro_indexer = Map.empty"
  "cache_inv ro_indexers ro_indexer" "cached ro_indexer = Map.empty"
  unfolding cro_indexer_def ro_indexer_def
  by (intro NewIndexer_inv; simp add: index_func_total_def MetaNamespaceIndexFunc_def)+

fun handle_events :: "'a Object_scheme event list \<Rightarrow> 'a Object_scheme cache \<Rightarrow> 'a Object_scheme cache outcome" where
  "handle_events [] c = Returned c"
| "handle_events (e # es) c = outcome_bind (handle_event e c) (handle_events es)"

lemma handle_events_cached:
  assumes "cache_inv indexers c" and "list_all plain_event es"
  shows "\<exists>c'. handle_events es c = Returned c' \<and> cache_inv indexers c' \<and> cached c' = fold event_effect es (cached c)"
proof -
  have "handle_events es c = informer_cache.changes es c"
    by (induction es arbitrary: c) (auto intro!: arg_cong2 [where f = outcome_bind])
  then show ?thesis using informer_cache.changes_lookup [OF assms] by simp
qed

lemma ResourceIndexer_Get_cached:
  assumes "CHR ''/'' \<notin> set (ri_namespace l)" and "CHR ''/'' \<notin> set n"
  shows "ResourceIndexer_Get l c n = (case cached c (ri_namespace l, n) of
    None \<Rightarrow> Inl (NewNotFound (ri_resource l) n) | Some x \<Rightarrow> Inr x)"
  using assms by (simp add: ResourceIndexer_Get_def cached_def key_string_def Let_def)

lemma in_scan_cached:
  assumes inv: "cache_inv indexers c" and "ns \<noteq> []"
  shows "x \<in> set (scan c ns labels_Everything) \<longleftrightarrow> (\<exists>n. cached c (ns, n) = Some x)"
proof -
  have dist: "distinct (map fst (tsm_items (cache_store c)))"
    using inv by (simp add: cache_inv_def store_inv_def)
  have key: "plain_names y \<and> key = key_string (namespace_of y) (name_of y)"
    if "items_of (cache_store c) key = Some y" for key y
    using inv that by (simp add: cache_inv_def)
  have "x \<in> set (store_List (cache_store c)) \<longleftrightarrow> (\<exists>key. items_of (cache_store c) key = Some x)"
    using dist by (force simp: store_List_def)
  moreover have "(\<exists>key. items_of (cache_store c) key = Some x) \<and> namespace_of x = ns
      \<longleftrightarrow> (\<exists>n. cached c (ns, n) = Some x)"
  proof
    assume "(\<exists>key. items_of (cache_store c) key = Some x) \<and> namespace_of x = ns"
    then show "\<exists>n. cached c (ns, n) = Some x"
      using key [of _ x] by (auto simp: cached_def cache_GetByKey_def store_Get_def plain_names_def)
  next
    assume "\<exists>n. cached c (ns, n) = Some x"
    then obtain n where "CHR ''/'' \<notin> set ns" "CHR ''/'' \<notin> set n" and item: "items_of (cache_store c) (key_string ns n) = Some x"
      by (auto simp: cached_def cache_GetByKey_def store_Get_def split: if_splits)
    moreover from key [OF item] this have "namespace_of x = ns"
      using key_string_inject [of ns n "namespace_of x" "name_of x"] by (auto simp: plain_names_def)
    ultimately show "(\<exists>key. items_of (cache_store c) key = Some x) \<and> namespace_of x = ns" by blast
  qed
  ultimately show ?thesis using assms(2) by (auto simp: scan_def labels_Everything_def)
qed

text \<open>The two listers of the controllers, over their caches.\<close>

lemma ResourceOverrides_cached:
  assumes "cache_inv ro_indexers c" and "ns \<noteq> []" and "CHR ''/'' \<notin> set ns" and "CHR ''/'' \<notin> set n"
  shows "ResourceIndexer_Get (ResourceOverrides NewResourceOverrideLister ns) c n = (case cached c (ns, n) of
      None \<Rightarrow> Inl (NewNotFound (autoscaling_Resource ''resourceoverride'') n) | Some x \<Rightarrow> Inr x)"
    and "\<exists>xs. ResourceIndexer_List (ResourceOverrides NewResourceOverrideLister ns) c labels_Everything = Returned (None, xs)
      \<and> set xs = {x. \<exists>n. cached c (ns, n) = Some x}"
proof -
  let ?l = "ResourceOverrides NewResourceOverrideLister ns"
  have l: "ri_namespace ?l = ns" "ri_resource ?l = autoscaling_Resource ''resourceoverride''"
    by (simp_all add: ResourceOverrides_def ResourceIndexer_NewNamespaced_def NewResourceOverrideLister_def
        ResourceIndexer_New_def)
  show "ResourceIndexer_Get ?l c n = (case cached c (ns, n) of
      None \<Rightarrow> Inl (NewNotFound (autoscaling_Resource ''resourceoverride'') n) | Some x \<Rightarrow> Inr x)"
    using ResourceIndexer_Get_cached [of ?l n c] assms by (simp add: l split: option.split)
  obtain xs where "ListAllByNamespace c ns labels_Everything = Returned (None, xs)"
      "mset xs = mset (scan c ns labels_Everything)"
    using ListAllByNamespace_scan [OF assms(1)] by auto
  moreover from this(2) have "set xs = set (scan c ns labels_Everything)" by (rule mset_eq_setD)
  moreover have "set (scan c ns labels_Everything) = {x. \<exists>n. cached c (ns, n) = Some x}"
    using in_scan_cached [OF assms(1,2)] by blast
  ultimately show "\<exists>xs. ResourceIndexer_List ?l c labels_Everything = Returned (None, xs)
      \<and> set xs = {x. \<exists>n. cached c (ns, n) = Some x}"
    by (simp add: ResourceIndexer_List_def l)
qed

section \<open>The namespace handler over the cache\<close>

text \<open>What \<open>roLister.ResourceOverrides(ns).List(labels.Everything())\<close> answers.\<close>

definition lister_List :: "ResourceOverride cache \<Rightarrow> string \<Rightarrow> error + ResourceOverride list" where
  "lister_List c ns =
     (case ResourceIndexer_List (ResourceOverrides NewResourceOverrideLister ns) c labels_Everything of
        Returned (None, ret) \<Rightarrow> Inr ret
      | Returned (Some err, ret) \<Rightarrow> Inl err
      | Panicked \<Rightarrow> Inl not_object)"

lemma namespace_OnUpdate_cached:
  assumes "cache_inv ro_indexers c" and "ns_Name new \<noteq> []" and "CHR ''/'' \<notin> set (ns_Name new)"
    and "\<not> labels_DeepEqual (ns_Labels old) (ns_Labels new)"
  shows "\<exists>reqs. namespace_OnUpdate (A\<lparr>api_RO_List := \<lambda>ns w. (lister_List c ns, w)\<rparr>)
      (WatchedNamespace old) (WatchedNamespace new) w = (reqs, w)
    \<and> set reqs = request_for ` {x. \<exists>n. cached c (ns_Name new, n) = Some x}"
proof -
  obtain xs where "lister_List c (ns_Name new) = Inr xs" "set xs = {x. \<exists>n. cached c (ns_Name new, n) = Some x}"
    using ResourceOverrides_cached(2) [OF assms(1-3), of "[]"] by (auto simp: lister_List_def)
  then show ?thesis
    using assms(4) by (cases "xs = []") (auto simp: namespace_OnUpdate_def)
qed

text \<open>
  Listing a namespace through its index answers the same objects as a scan of the whole cache, each
  once, for every selector, after any events, and also for a cache without the index.
\<close>

lemma namespace_list_is_scan:
  assumes "list_all plain_event es" and "list_all plain_event es'"
  shows "\<exists>c c' xs xs'. handle_events es ro_indexer = Returned c \<and> handle_events es' cro_indexer = Returned c'
    \<and> ListAllByNamespace c ns selector = Returned (None, xs) \<and> mset xs = mset (scan c ns selector)
    \<and> ListAllByNamespace c' ns selector = Returned (None, xs') \<and> mset xs' = mset (scan c' ns selector)"
proof -
  obtain c where c: "handle_events es ro_indexer = Returned c" "cache_inv ro_indexers c"
    using handle_events_cached [OF indexers_inv(3) assms(1)] by blast
  obtain c' where c': "handle_events es' cro_indexer = Returned c'" "cache_inv [] c'"
    using handle_events_cached [OF indexers_inv(1) assms(2)] by blast
  have "map_of ro_indexers NamespaceIndex = Some MetaNamespaceIndexFunc" by simp
  with ListAllByNamespace_scan [OF c(2), of ns selector] ListAllByNamespace_scan [OF c'(2), of ns selector]
  show ?thesis using c(1) c'(1) by auto
qed

text \<open>The namespace handler composed with the lister, after any events.\<close>

lemma relabel_enqueues_cached:
  assumes "list_all plain_event es" and "ns_Name new \<noteq> []" and "CHR ''/'' \<notin> set (ns_Name new)"
    and "\<not> labels_DeepEqual (ns_Labels old) (ns_Labels new)"
  shows "\<exists>c reqs. handle_events es ro_indexer = Returned c
    \<and> namespace_OnUpdate (A\<lparr>api_RO_List := \<lambda>ns w. (lister_List c ns, w)\<rparr>) (WatchedNamespace old) (WatchedNamespace new) w
      = (reqs, w)
    \<and> set reqs = request_for ` {x. \<exists>n. fold event_effect es Map.empty (ns_Name new, n) = Some x}"
proof -
  obtain c where "handle_events es ro_indexer = Returned c" "cache_inv ro_indexers c"
      "cached c = fold event_effect es Map.empty"
    using handle_events_cached [OF indexers_inv(3) assms(1)] indexers_inv(4) by auto
  with namespace_OnUpdate_cached [OF this(2) assms(2-4)] show ?thesis by auto
qed

end
