(* ===== verification/InformerFactory.thy ===== *)
theory InformerFactory
  imports InformerCache
begin

text \<open>
  The generated shared informers: factory.go, generic.go, the interface.go files and the typed
  informers of pkg/generated/informers/externalversions.

  A factory holds one informer per object type. Its lock makes each method atomic, so a method is a
  function on the factory; \<open>f_running\<close> lists the informers whose \<open>RunWithContext\<close> was started, in order.
  The list and watch functions of an informer are the client calls that they make.
\<close>

section \<open>Informers\<close>

record ListOptions =
  lo_LabelSelector :: string
  lo_FieldSelector :: string
  lo_ResourceVersion :: string
  lo_Watch :: bool
  lo_Limit :: int64
  lo_Continue :: string

type_synonym TweakListOptionsFunc = "(ListOptions \<Rightarrow> ListOptions) option"

datatype verb = ListVerb | WatchVerb

record 'c client_call =
  call_client :: 'c
  call_verb :: verb
  call_gvr :: GroupVersionResource
  call_namespace :: string
  call_opts :: ListOptions

record ('c, 't) informer =
  inf_objectType :: string
  inf_ListFunc :: "ListOptions \<Rightarrow> 'c client_call"
  inf_WatchFunc :: "ListOptions \<Rightarrow> 'c client_call"
  inf_ResyncPeriod :: int
  inf_Indexers :: "string list"
  inf_Identifier :: "string option \<times> GroupVersionResource"
  inf_transform :: "'t option"

record InformerOptions =
  opt_ResyncPeriod :: int
  opt_Indexers :: "string list"
  opt_InformerName :: "string option"
  opt_TweakListOptions :: TweakListOptionsFunc

definition tweak :: "TweakListOptionsFunc \<Rightarrow> ListOptions \<Rightarrow> ListOptions" where
  "tweak tweakListOptions opts = (case tweakListOptions of None \<Rightarrow> opts | Some f \<Rightarrow> f opts)"

definition cro_gvr :: GroupVersionResource where
  "cro_gvr = \<lparr>gvr_Group = ''operator.autoscaling.openshift.io'', gvr_Version = ''v1'',
     gvr_Resource = ''clusterresourceoverrides''\<rparr>"

definition ro_gvr :: GroupVersionResource where
  "ro_gvr = \<lparr>gvr_Group = ''autoscaling.openshift.io'', gvr_Version = ''v1'', gvr_Resource = ''resourceoverrides''\<rparr>"

definition cro_type :: string where "cro_type = ''*v1.ClusterResourceOverride''"
definition ro_type :: string where "ro_type = ''*v1.ResourceOverride''"

definition NewClusterResourceOverrideInformerWithOptions :: "'c \<Rightarrow> InformerOptions \<Rightarrow> ('c, 't) informer" where
  "NewClusterResourceOverrideInformerWithOptions client options =
     (let gvr = cro_gvr; identifier = (opt_InformerName options, gvr);
          tweakListOptions = opt_TweakListOptions options
      in \<lparr>inf_objectType = cro_type,
          inf_ListFunc = (\<lambda>opts. \<lparr>call_client = client, call_verb = ListVerb, call_gvr = cro_gvr,
            call_namespace = [], call_opts = tweak tweakListOptions opts\<rparr>),
          inf_WatchFunc = (\<lambda>opts. \<lparr>call_client = client, call_verb = WatchVerb, call_gvr = cro_gvr,
            call_namespace = [], call_opts = tweak tweakListOptions opts\<rparr>),
          inf_ResyncPeriod = opt_ResyncPeriod options, inf_Indexers = opt_Indexers options,
          inf_Identifier = identifier, inf_transform = None\<rparr>)"

definition NewClusterResourceOverrideInformer :: "'c \<Rightarrow> int \<Rightarrow> string list \<Rightarrow> ('c, 't) informer" where
  "NewClusterResourceOverrideInformer client resyncPeriod indexers =
     NewClusterResourceOverrideInformerWithOptions client \<lparr>opt_ResyncPeriod = resyncPeriod,
       opt_Indexers = indexers, opt_InformerName = None, opt_TweakListOptions = None\<rparr>"

definition NewFilteredClusterResourceOverrideInformer ::
  "'c \<Rightarrow> int \<Rightarrow> string list \<Rightarrow> TweakListOptionsFunc \<Rightarrow> ('c, 't) informer" where
  "NewFilteredClusterResourceOverrideInformer client resyncPeriod indexers tweakListOptions =
     NewClusterResourceOverrideInformerWithOptions client \<lparr>opt_ResyncPeriod = resyncPeriod,
       opt_Indexers = indexers, opt_InformerName = None, opt_TweakListOptions = tweakListOptions\<rparr>"

definition NewResourceOverrideInformerWithOptions :: "'c \<Rightarrow> string \<Rightarrow> InformerOptions \<Rightarrow> ('c, 't) informer" where
  "NewResourceOverrideInformerWithOptions client namespace options =
     (let gvr = ro_gvr; identifier = (opt_InformerName options, gvr);
          tweakListOptions = opt_TweakListOptions options
      in \<lparr>inf_objectType = ro_type,
          inf_ListFunc = (\<lambda>opts. \<lparr>call_client = client, call_verb = ListVerb, call_gvr = ro_gvr,
            call_namespace = namespace, call_opts = tweak tweakListOptions opts\<rparr>),
          inf_WatchFunc = (\<lambda>opts. \<lparr>call_client = client, call_verb = WatchVerb, call_gvr = ro_gvr,
            call_namespace = namespace, call_opts = tweak tweakListOptions opts\<rparr>),
          inf_ResyncPeriod = opt_ResyncPeriod options, inf_Indexers = opt_Indexers options,
          inf_Identifier = identifier, inf_transform = None\<rparr>)"

definition NewResourceOverrideInformer :: "'c \<Rightarrow> string \<Rightarrow> int \<Rightarrow> string list \<Rightarrow> ('c, 't) informer" where
  "NewResourceOverrideInformer client namespace resyncPeriod indexers =
     NewResourceOverrideInformerWithOptions client namespace \<lparr>opt_ResyncPeriod = resyncPeriod,
       opt_Indexers = indexers, opt_InformerName = None, opt_TweakListOptions = None\<rparr>"

definition NewFilteredResourceOverrideInformer ::
  "'c \<Rightarrow> string \<Rightarrow> int \<Rightarrow> string list \<Rightarrow> TweakListOptionsFunc \<Rightarrow> ('c, 't) informer" where
  "NewFilteredResourceOverrideInformer client namespace resyncPeriod indexers tweakListOptions =
     NewResourceOverrideInformerWithOptions client namespace \<lparr>opt_ResyncPeriod = resyncPeriod,
       opt_Indexers = indexers, opt_InformerName = None, opt_TweakListOptions = tweakListOptions\<rparr>"

section \<open>The factory (factory.go)\<close>

record ('c, 't) sharedInformerFactory =
  f_client :: 'c
  f_namespace :: string
  f_tweakListOptions :: TweakListOptionsFunc
  f_defaultResync :: int
  f_customResync :: "string \<Rightarrow> int option"
  f_transform :: "'t option"
  f_informerName :: "string option"
  f_informers :: "(string \<times> ('c, 't) informer) list"
  f_startedInformers :: "string \<Rightarrow> bool"
  f_running :: "string list"
  f_shuttingDown :: bool
  f_nameReleased :: bool

type_synonym ('c, 't) SharedInformerOption = "('c, 't) sharedInformerFactory \<Rightarrow> ('c, 't) sharedInformerFactory"

text \<open>The keys of the configuration are objects, of which the type counts.\<close>

definition WithCustomResyncConfig :: "(string \<times> int) list \<Rightarrow> ('c, 't) SharedInformerOption" where
  "WithCustomResyncConfig resyncConfig factory =
     factory\<lparr>f_customResync := fold (\<lambda>(k, v) m. m(k \<mapsto> v)) resyncConfig (f_customResync factory)\<rparr>"

definition WithTweakListOptions :: "TweakListOptionsFunc \<Rightarrow> ('c, 't) SharedInformerOption" where
  "WithTweakListOptions tweakListOptions factory = factory\<lparr>f_tweakListOptions := tweakListOptions\<rparr>"

definition WithNamespace :: "string \<Rightarrow> ('c, 't) SharedInformerOption" where
  "WithNamespace namespace factory = factory\<lparr>f_namespace := namespace\<rparr>"

definition WithTransform :: "'t option \<Rightarrow> ('c, 't) SharedInformerOption" where
  "WithTransform transform factory = factory\<lparr>f_transform := transform\<rparr>"

definition WithInformerName :: "string option \<Rightarrow> ('c, 't) SharedInformerOption" where
  "WithInformerName informerName factory = factory\<lparr>f_informerName := informerName\<rparr>"

definition NewSharedInformerFactoryWithOptions ::
  "'c \<Rightarrow> int \<Rightarrow> ('c, 't) SharedInformerOption list \<Rightarrow> ('c, 't) sharedInformerFactory" where
  "NewSharedInformerFactoryWithOptions client defaultResync options =
     (let factory = \<lparr>f_client = client, f_namespace = [], f_tweakListOptions = None,
            f_defaultResync = defaultResync, f_customResync = Map.empty, f_transform = None,
            f_informerName = None, f_informers = [], f_startedInformers = (\<lambda>_. False), f_running = [],
            f_shuttingDown = False, f_nameReleased = False\<rparr>
      in fold (\<lambda>opt. opt) options factory)"

definition NewSharedInformerFactory :: "'c \<Rightarrow> int \<Rightarrow> ('c, 't) sharedInformerFactory" where
  "NewSharedInformerFactory client defaultResync = NewSharedInformerFactoryWithOptions client defaultResync []"

definition NewFilteredSharedInformerFactory ::
  "'c \<Rightarrow> int \<Rightarrow> string \<Rightarrow> TweakListOptionsFunc \<Rightarrow> ('c, 't) sharedInformerFactory" where
  "NewFilteredSharedInformerFactory client defaultResync namespace tweakListOptions =
     NewSharedInformerFactoryWithOptions client defaultResync
       [WithNamespace namespace, WithTweakListOptions tweakListOptions]"

fun start_informers :: "(string \<times> ('c, 't) informer) list \<Rightarrow> ('c, 't) sharedInformerFactory
    \<Rightarrow> ('c, 't) sharedInformerFactory" where
  "start_informers [] f = f"
| "start_informers ((informerType, i) # informers) f =
     (if \<not> f_startedInformers f informerType
      then start_informers informers (f\<lparr>f_running := f_running f @ [informerType],
             f_startedInformers := (f_startedInformers f)(informerType := True)\<rparr>)
      else start_informers informers f)"

definition StartWithContext :: "('c, 't) sharedInformerFactory \<Rightarrow> ('c, 't) sharedInformerFactory" where
  "StartWithContext f = (if f_shuttingDown f then f else start_informers (f_informers f) f)"

definition Start :: "('c, 't) sharedInformerFactory \<Rightarrow> ('c, 't) sharedInformerFactory" where
  "Start f = StartWithContext f"

text \<open>Between the two parts, \<open>wg.Wait\<close> blocks until every started informer has stopped.\<close>

definition Shutdown_begin :: "('c, 't) sharedInformerFactory \<Rightarrow> ('c, 't) sharedInformerFactory" where
  "Shutdown_begin f = f\<lparr>f_shuttingDown := True\<rparr>"

definition Shutdown_end :: "('c, 't) sharedInformerFactory \<Rightarrow> ('c, 't) sharedInformerFactory" where
  "Shutdown_end f = f\<lparr>f_nameReleased := True\<rparr>"

text \<open>
  \<open>hasSynced\<close> is the answer of the informers after \<open>cache.WaitFor\<close>, which returns when all of them have
  synced or the context is done; \<open>cause\<close> is \<open>context.Cause\<close> then.
\<close>

record SyncResult =
  sync_Synced :: "string \<Rightarrow> bool option"
  sync_Err :: "error option"

definition WaitForCacheSyncWithContext ::
  "(string \<Rightarrow> bool) \<Rightarrow> error option \<Rightarrow> ('c, 't) sharedInformerFactory \<Rightarrow> SyncResult" where
  "WaitForCacheSyncWithContext hasSynced cause f =
     (let informers = filter (\<lambda>(informerType, i). f_startedInformers f informerType) (f_informers f);
          failed = list_ex (\<lambda>(informerType, i). \<not> hasSynced informerType) informers
      in \<lparr>sync_Synced = map_of (map (\<lambda>(informerType, i). (informerType, hasSynced informerType)) informers),
          sync_Err = (if failed then cause else None)\<rparr>)"

definition WaitForCacheSync ::
  "(string \<Rightarrow> bool) \<Rightarrow> error option \<Rightarrow> ('c, 't) sharedInformerFactory \<Rightarrow> string \<Rightarrow> bool option" where
  "WaitForCacheSync hasSynced cause f = sync_Synced (WaitForCacheSyncWithContext hasSynced cause f)"

definition InformerFor :: "string \<Rightarrow> ('c \<Rightarrow> int \<Rightarrow> ('c, 't) informer) \<Rightarrow> ('c, 't) sharedInformerFactory
    \<Rightarrow> ('c, 't) informer \<times> ('c, 't) sharedInformerFactory" where
  "InformerFor informerType newFunc f = (case map_of (f_informers f) informerType of
     Some i \<Rightarrow> (i, f)
   | None \<Rightarrow>
       (let resyncPeriod = (case f_customResync f informerType of Some r \<Rightarrow> r | None \<Rightarrow> f_defaultResync f);
            i = newFunc (f_client f) resyncPeriod;
            i = (if f_transform f \<noteq> None then i\<lparr>inf_transform := f_transform f\<rparr> else i)
        in (i, f\<lparr>f_informers := AList.update informerType i (f_informers f)\<rparr>)))"

section \<open>Access by group, version and resource (interface.go, generic.go)\<close>

text \<open>The group and version interfaces carry the namespace and the tweak of the factory.\<close>

record version =
  ver_namespace :: string
  ver_tweakListOptions :: TweakListOptionsFunc

definition factory_group :: "('c, 't) sharedInformerFactory \<Rightarrow> version" where
  "factory_group f = \<lparr>ver_namespace = f_namespace f, ver_tweakListOptions = f_tweakListOptions f\<rparr>"

definition group_V1 :: "version \<Rightarrow> version" where
  "group_V1 g = \<lparr>ver_namespace = ver_namespace g, ver_tweakListOptions = ver_tweakListOptions g\<rparr>"

definition cro_defaultInformer :: "version \<Rightarrow> string option \<Rightarrow> 'c \<Rightarrow> int \<Rightarrow> ('c, 't) informer" where
  "cro_defaultInformer v informerName client resyncPeriod =
     NewClusterResourceOverrideInformerWithOptions client \<lparr>opt_ResyncPeriod = resyncPeriod,
       opt_Indexers = [NamespaceIndex], opt_InformerName = informerName,
       opt_TweakListOptions = ver_tweakListOptions v\<rparr>"

definition cro_Informer :: "version \<Rightarrow> ('c, 't) sharedInformerFactory \<Rightarrow> ('c, 't) informer \<times> ('c, 't) sharedInformerFactory" where
  "cro_Informer v f = InformerFor cro_type (cro_defaultInformer v (f_informerName f)) f"

definition ro_defaultInformer :: "version \<Rightarrow> string option \<Rightarrow> 'c \<Rightarrow> int \<Rightarrow> ('c, 't) informer" where
  "ro_defaultInformer v informerName client resyncPeriod =
     NewResourceOverrideInformerWithOptions client (ver_namespace v) \<lparr>opt_ResyncPeriod = resyncPeriod,
       opt_Indexers = [NamespaceIndex], opt_InformerName = informerName,
       opt_TweakListOptions = ver_tweakListOptions v\<rparr>"

definition ro_Informer :: "version \<Rightarrow> ('c, 't) sharedInformerFactory \<Rightarrow> ('c, 't) informer \<times> ('c, 't) sharedInformerFactory" where
  "ro_Informer v f = InformerFor ro_type (ro_defaultInformer v (f_informerName f)) f"

definition ForResource :: "GroupVersionResource \<Rightarrow> ('c, 't) sharedInformerFactory
    \<Rightarrow> (error + (string \<times> string) \<times> ('c, 't) informer) \<times> ('c, 't) sharedInformerFactory" where
  "ForResource resource f =
     (let v = group_V1 (factory_group f); group_resource = (gvr_Group resource, gvr_Resource resource)
      in if resource = \<lparr>gvr_Group = autoscaling_GroupName, gvr_Version = autoscaling_GroupVersion,
              gvr_Resource = ''resourceoverrides''\<rparr>
         then (let (i, f') = ro_Informer v f in (Inr (group_resource, i), f'))
         else if resource = \<lparr>gvr_Group = operator_GroupName, gvr_Version = operator_GroupVersion,
              gvr_Resource = ''clusterresourceoverrides''\<rparr>
         then (let (i, f') = cro_Informer v f in (Inr (group_resource, i), f'))
         else (Inl (ErrorString (''no informer found for '' @ gvr_Group resource @ ''/''
           @ gvr_Version resource @ '', Resource='' @ gvr_Resource resource)), f))"

section \<open>Any use of a factory\<close>

text \<open>\<open>factory_reachable f0 f\<close>: \<open>f\<close> is what some sequence of method calls makes of \<open>f0\<close>.\<close>

inductive factory_reachable ::
  "('c, 't) sharedInformerFactory \<Rightarrow> ('c, 't) sharedInformerFactory \<Rightarrow> bool" for f0 where
  new: "factory_reachable f0 f0"
| informer: "factory_reachable f0 f \<Longrightarrow> factory_reachable f0 (snd (InformerFor ty newFunc f))"
| start: "factory_reachable f0 f \<Longrightarrow> factory_reachable f0 (StartWithContext f)"
| shutdown: "factory_reachable f0 f \<Longrightarrow> factory_reachable f0 (Shutdown_begin f)"
| released: "factory_reachable f0 f \<Longrightarrow> factory_reachable f0 (Shutdown_end f)"

abbreviation informer_types :: "('c, 't) sharedInformerFactory \<Rightarrow> string list" where
  "informer_types f \<equiv> map fst (f_informers f)"

definition factory_inv :: "('c, 't) sharedInformerFactory \<Rightarrow> bool" where
  "factory_inv f \<longleftrightarrow> distinct (informer_types f) \<and> distinct (f_running f)
     \<and> (\<forall>t. f_startedInformers f t \<longleftrightarrow> t \<in> set (f_running f)) \<and> set (f_running f) \<subseteq> set (informer_types f)"

lemma start_informers_frame [simp]:
  "f_informers (start_informers is f) = f_informers f"
  "f_shuttingDown (start_informers is f) = f_shuttingDown f"
  by (induction "is" f rule: start_informers.induct) simp_all

lemma start_informers_running:
  assumes "distinct (map fst is)" and "\<forall>t. f_startedInformers f t \<longleftrightarrow> t \<in> set (f_running f)"
  shows "f_running (start_informers is f) = f_running f @ filter (\<lambda>t. \<not> f_startedInformers f t) (map fst is)"
    and "\<forall>t. f_startedInformers (start_informers is f) t \<longleftrightarrow> t \<in> set (f_running (start_informers is f))"
proof -
  have "f_running (start_informers is f) = f_running f @ filter (\<lambda>t. \<not> f_startedInformers f t) (map fst is)
      \<and> (\<forall>t. f_startedInformers (start_informers is f) t \<longleftrightarrow> t \<in> set (f_running (start_informers is f)))"
    using assms
  proof (induction "is" f rule: start_informers.induct)
    case (2 ty i "is" f)
    let ?f = "f\<lparr>f_running := f_running f @ [ty], f_startedInformers := (f_startedInformers f)(ty := True)\<rparr>"
    have "filter (\<lambda>t. t \<noteq> ty \<and> t \<notin> set (f_running f)) (map fst is)
        = filter (\<lambda>t. t \<notin> set (f_running f)) (map fst is)"
      using "2.prems"(1) by (intro filter_cong) auto
    with 2 show ?case by (cases "f_startedInformers f ty") auto
  qed simp
  then show "f_running (start_informers is f) = f_running f @ filter (\<lambda>t. \<not> f_startedInformers f t) (map fst is)"
    and "\<forall>t. f_startedInformers (start_informers is f) t \<longleftrightarrow> t \<in> set (f_running (start_informers is f))"
    by blast+
qed

lemma factory_inv_Start:
  assumes "factory_inv f"
  shows "factory_inv (StartWithContext f)"
    and "if f_shuttingDown f then StartWithContext f = f
      else set (f_running (StartWithContext f)) = set (informer_types f)"
  using assms start_informers_running [of "f_informers f" f]
  by (auto simp: factory_inv_def StartWithContext_def)

lemma InformerFor_frame:
  "f_running (snd (InformerFor ty newFunc f)) = f_running f"
  "f_startedInformers (snd (InformerFor ty newFunc f)) = f_startedInformers f"
  "f_shuttingDown (snd (InformerFor ty newFunc f)) = f_shuttingDown f"
  "map_of (f_informers (snd (InformerFor ty newFunc f))) =
     (map_of (f_informers f))(ty \<mapsto> fst (InformerFor ty newFunc f))"
  by (auto simp: InformerFor_def Let_def update_conv' split: option.split)

lemma factory_inv_InformerFor: "factory_inv f \<Longrightarrow> factory_inv (snd (InformerFor ty newFunc f))"
  by (auto simp: factory_inv_def InformerFor_def Let_def distinct_update dom_update split: option.split)

lemma factory_inv_reachable:
  assumes "factory_reachable f0 f" and "factory_inv f0"
  shows "factory_inv f"
  using assms
proof (induction rule: factory_reachable.induct)
  case (shutdown f)
  then show ?case by (simp add: factory_inv_def Shutdown_begin_def)
next
  case (released f)
  then show ?case by (simp add: factory_inv_def Shutdown_end_def)
qed (simp_all add: factory_inv_InformerFor factory_inv_Start)

text \<open>Once an informer exists for a type, every later call returns that one.\<close>

lemma informer_kept:
  assumes "factory_reachable f0 f" and "map_of (f_informers f0) ty = Some i"
  shows "map_of (f_informers f) ty = Some i"
  using assms
proof (induction rule: factory_reachable.induct)
  case (informer f ty' newFunc)
  then have "map_of (f_informers f) ty = Some i" by simp
  then have "fst (InformerFor ty newFunc f) = i" by (simp add: InformerFor_def)
  then show ?case using informer by (auto simp: InformerFor_frame)
qed (simp_all add: StartWithContext_def Shutdown_begin_def Shutdown_end_def)

lemma shutting_down_kept:
  assumes "factory_reachable f0 f" and "f_shuttingDown f0"
  shows "f_shuttingDown f \<and> f_running f = f_running f0"
  using assms
  by induction (simp_all add: InformerFor_frame StartWithContext_def Shutdown_begin_def Shutdown_end_def)

lemma option_frame [simp]:
  "factory_inv (WithCustomResyncConfig c f) = factory_inv f" "factory_inv (WithTweakListOptions tw f) = factory_inv f"
  "factory_inv (WithNamespace ns f) = factory_inv f" "factory_inv (WithTransform tr f) = factory_inv f"
  "factory_inv (WithInformerName n f) = factory_inv f"
  by (simp_all add: factory_inv_def WithCustomResyncConfig_def WithTweakListOptions_def WithNamespace_def
      WithTransform_def WithInformerName_def)

lemma NewSharedInformerFactoryWithOptions_inv:
  assumes "list_all (\<lambda>opt. \<forall>f. factory_inv (opt f) = factory_inv f) options"
  shows "factory_inv (NewSharedInformerFactoryWithOptions client defaultResync options)"
proof -
  have "factory_inv (fold (\<lambda>opt. opt) options f) = factory_inv f" for f
    using assms by (induction options arbitrary: f) simp_all
  then show ?thesis by (simp add: NewSharedInformerFactoryWithOptions_def factory_inv_def)
qed

text \<open>The result of waiting names exactly the started informers.\<close>

lemma WaitForCacheSync_started:
  assumes "factory_inv f"
  shows "WaitForCacheSync hasSynced cause f t = (if t \<in> set (f_running f) then Some (hasSynced t) else None)"
proof -
  have "map_of (map (\<lambda>(ty, i). (ty, hasSynced ty)) (filter (\<lambda>(ty, i). f_startedInformers f ty) is)) t
      = (if f_startedInformers f t \<and> t \<in> set (map fst is) then Some (hasSynced t) else None)" for "is"
    by (induction "is") auto
  from this [of "f_informers f"] show ?thesis
    using assms subsetD [of "set (f_running f)" "set (informer_types f)" t]
    by (simp add: WaitForCacheSync_def WaitForCacheSyncWithContext_def factory_inv_def Let_def)
qed

lemma WaitForCacheSync_error:
  assumes "factory_inv f"
  shows "sync_Err (WaitForCacheSyncWithContext hasSynced cause f)
    = (if list_ex (\<lambda>t. \<not> hasSynced t) (f_running f) then cause else None)"
proof -
  have "list_ex (\<lambda>(ty, i). \<not> hasSynced ty) (filter (\<lambda>(ty, i). f_startedInformers f ty) (f_informers f))
      \<longleftrightarrow> list_ex (\<lambda>t. \<not> hasSynced t) (f_running f)"
    using assms by (force simp: factory_inv_def list_ex_iff)
  then show ?thesis by (simp add: WaitForCacheSyncWithContext_def Let_def)
qed

text \<open>The informer of a resource lists and watches that resource, in the namespace of the factory.\<close>

lemma ForResource_fresh:
  assumes "f_informers f = []"
  shows "fst (ForResource ro_gvr f) = Inr ((autoscaling_GroupName, ''resourceoverrides''), fst (ro_Informer (group_V1 (factory_group f)) f))"
    and "inf_ListFunc (fst (ro_Informer (group_V1 (factory_group f)) f)) opts = \<lparr>call_client = f_client f, call_verb = ListVerb,
      call_gvr = ro_gvr, call_namespace = f_namespace f, call_opts = tweak (f_tweakListOptions f) opts\<rparr>"
    and "fst (ForResource cro_gvr f) = Inr ((operator_GroupName, ''clusterresourceoverrides''), fst (cro_Informer (group_V1 (factory_group f)) f))"
    and "inf_ListFunc (fst (cro_Informer (group_V1 (factory_group f)) f)) opts = \<lparr>call_client = f_client f, call_verb = ListVerb,
      call_gvr = cro_gvr, call_namespace = [], call_opts = tweak (f_tweakListOptions f) opts\<rparr>"
  using assms
  by (simp_all add: ForResource_def ro_gvr_def cro_gvr_def autoscaling_GroupName_def autoscaling_GroupVersion_def
      operator_GroupName_def operator_GroupVersion_def Let_def split_beta ro_Informer_def cro_Informer_def
      InformerFor_def ro_defaultInformer_def cro_defaultInformer_def NewResourceOverrideInformerWithOptions_def
      NewClusterResourceOverrideInformerWithOptions_def group_V1_def factory_group_def)

end
