(* ===== verification/Clientset.thy ===== *)
theory Clientset
  imports InformerFactory
begin

text \<open>
  The generated clientset (pkg/generated/clientset/versioned: clientset.go and the typed clients) with
  the parts of client-go that decide what it sends: the REST client construction (rest/config.go), the
  request builder (rest/request.go) and the generic typed client (gentype/type.go).

  A request is its method, the segments of its path and its body. What transports and discovery do is
  in \<open>rest_lib\<close>. The queries per second are of any ordered type with a zero, since the code only
  compares them with zero.
\<close>

section \<open>Configuration and REST clients (rest/config.go)\<close>

datatype 'q rate_limiter = TokenBucket 'q int | GivenLimiter string

record 'q Config =
  cfg_Host :: string
  cfg_UserAgent :: string
  cfg_QPS :: 'q
  cfg_Burst :: int
  cfg_RateLimiter :: "'q rate_limiter option"
  cfg_GroupVersion :: "(string \<times> string) option"
  cfg_APIPath :: string
  cfg_NegotiatedSerializer :: "string option"

record ('q, 'h, 'd) rest_lib =
  DefaultKubernetesUserAgent :: string
  HTTPClientFor :: "'q Config \<Rightarrow> error + 'h"
  DefaultServerUrlFor :: "'q Config \<Rightarrow> error + string"
  DefaultQPS :: 'q
  NewDiscoveryClientForConfigAndClient :: "'q Config \<Rightarrow> 'h \<Rightarrow> error + 'd"

definition DefaultBurst :: int where "DefaultBurst = 10"

record ('q, 'h) RESTClient =
  rest_base :: string
  rest_versionedAPIPath :: "string list"
  rest_rateLimiter :: "'q rate_limiter option"
  rest_http :: 'h

text \<open>The segments of a path; \<open>path.Join\<close> drops empty ones.\<close>

definition path_segments :: "string \<Rightarrow> string list" where
  "path_segments p = filter (\<lambda>s. s \<noteq> []) (strings_Split p CHR ''/'')"

definition DefaultVersionedAPIPath :: "string \<Rightarrow> string \<times> string \<Rightarrow> string list" where
  "DefaultVersionedAPIPath apiPath gv =
     path_segments apiPath @ (if fst gv \<noteq> [] then [fst gv, snd gv] else [snd gv])"

definition RESTClientForConfigAndClient ::
  "('q::{zero, ord}, 'h, 'd) rest_lib \<Rightarrow> 'q Config \<Rightarrow> 'h \<Rightarrow> error + ('q, 'h) RESTClient" where
  "RESTClientForConfigAndClient L config httpClient = (case cfg_GroupVersion config of
     None \<Rightarrow> Inl (ErrorString ''GroupVersion is required when initializing a RESTClient'')
   | Some gv \<Rightarrow> (case cfg_NegotiatedSerializer config of
       None \<Rightarrow> Inl (ErrorString ''NegotiatedSerializer is required when initializing a RESTClient'')
     | Some serializer \<Rightarrow> (case DefaultServerUrlFor L config of
         Inl err \<Rightarrow> Inl err
       | Inr baseURL \<Rightarrow>
           (let qps = (if cfg_QPS config = 0 then DefaultQPS L else cfg_QPS config);
                burst = (if cfg_Burst config = 0 then DefaultBurst else cfg_Burst config);
                rateLimiter = (if cfg_RateLimiter config = None
                  then (if 0 < qps then Some (TokenBucket qps burst) else None)
                  else cfg_RateLimiter config)
            in Inr \<lparr>rest_base = baseURL,
                 rest_versionedAPIPath = DefaultVersionedAPIPath (cfg_APIPath config) gv,
                 rest_rateLimiter = rateLimiter, rest_http = httpClient\<rparr>))))"

section \<open>The group clients (typed/operator/v1, typed/autoscaling/v1)\<close>

definition default_UserAgent :: "('q, 'h, 'd) rest_lib \<Rightarrow> 'q Config \<Rightarrow> 'q Config" where
  "default_UserAgent L config =
     (if cfg_UserAgent config = [] then config\<lparr>cfg_UserAgent := DefaultKubernetesUserAgent L\<rparr> else config)"

definition operatorv1_setConfigDefaults :: "('q, 'h, 'd) rest_lib \<Rightarrow> 'q Config \<Rightarrow> 'q Config" where
  "operatorv1_setConfigDefaults L config = default_UserAgent L (config\<lparr>
     cfg_GroupVersion := Some (operator_GroupName, operator_GroupVersion), cfg_APIPath := ''/apis'',
     cfg_NegotiatedSerializer := Some ''scheme.Codecs''\<rparr>)"

definition operatorv1_NewForConfigAndClient ::
  "('q::{zero, ord}, 'h, 'd) rest_lib \<Rightarrow> 'q Config \<Rightarrow> 'h \<Rightarrow> error + ('q, 'h) RESTClient" where
  "operatorv1_NewForConfigAndClient L c h = RESTClientForConfigAndClient L (operatorv1_setConfigDefaults L c) h"

definition operatorv1_NewForConfig ::
  "('q::{zero, ord}, 'h, 'd) rest_lib \<Rightarrow> 'q Config \<Rightarrow> error + ('q, 'h) RESTClient" where
  "operatorv1_NewForConfig L c =
     (let config = operatorv1_setConfigDefaults L c
      in case HTTPClientFor L config of
        Inl err \<Rightarrow> Inl err
      | Inr httpClient \<Rightarrow> operatorv1_NewForConfigAndClient L config httpClient)"

definition autoscalingv1_setConfigDefaults :: "('q, 'h, 'd) rest_lib \<Rightarrow> 'q Config \<Rightarrow> 'q Config" where
  "autoscalingv1_setConfigDefaults L config = default_UserAgent L (config\<lparr>
     cfg_GroupVersion := Some (autoscaling_GroupName, autoscaling_GroupVersion), cfg_APIPath := ''/apis'',
     cfg_NegotiatedSerializer := Some ''scheme.Codecs''\<rparr>)"

definition autoscalingv1_NewForConfigAndClient ::
  "('q::{zero, ord}, 'h, 'd) rest_lib \<Rightarrow> 'q Config \<Rightarrow> 'h \<Rightarrow> error + ('q, 'h) RESTClient" where
  "autoscalingv1_NewForConfigAndClient L c h = RESTClientForConfigAndClient L (autoscalingv1_setConfigDefaults L c) h"

definition autoscalingv1_NewForConfig ::
  "('q::{zero, ord}, 'h, 'd) rest_lib \<Rightarrow> 'q Config \<Rightarrow> error + ('q, 'h) RESTClient" where
  "autoscalingv1_NewForConfig L c =
     (let config = autoscalingv1_setConfigDefaults L c
      in case HTTPClientFor L config of
        Inl err \<Rightarrow> Inl err
      | Inr httpClient \<Rightarrow> autoscalingv1_NewForConfigAndClient L config httpClient)"

text \<open>\<open>NewForConfigOrDie\<close> panics on an error.\<close>

definition or_die :: "error + 'a \<Rightarrow> 'a outcome" where
  "or_die r = (case r of Inl err \<Rightarrow> Panicked | Inr x \<Rightarrow> Returned x)"

definition operatorv1_NewForConfigOrDie ::
  "('q::{zero, ord}, 'h, 'd) rest_lib \<Rightarrow> 'q Config \<Rightarrow> ('q, 'h) RESTClient outcome" where
  "operatorv1_NewForConfigOrDie L c = or_die (operatorv1_NewForConfig L c)"

definition autoscalingv1_NewForConfigOrDie ::
  "('q::{zero, ord}, 'h, 'd) rest_lib \<Rightarrow> 'q Config \<Rightarrow> ('q, 'h) RESTClient outcome" where
  "autoscalingv1_NewForConfigOrDie L c = or_die (autoscalingv1_NewForConfig L c)"

section \<open>The clientset (clientset.go)\<close>

record ('q, 'h, 'd) Clientset =
  cs_DiscoveryClient :: 'd
  cs_autoscalingV1 :: "('q, 'h) RESTClient"
  cs_operatorV1 :: "('q, 'h) RESTClient"

definition Clientset_NewForConfigAndClient ::
  "('q::{zero, ord}, 'h, 'd) rest_lib \<Rightarrow> 'q Config \<Rightarrow> 'h \<Rightarrow> error + ('q, 'h, 'd) Clientset" where
  "Clientset_NewForConfigAndClient L c httpClient =
     (if cfg_RateLimiter c = None \<and> 0 < cfg_QPS c \<and> cfg_Burst c \<le> 0
      then Inl (ErrorString (''burst is required to be greater than 0 when RateLimiter is not set and QPS is set to greater than 0''))
      else
        (let configShallowCopy = (if cfg_RateLimiter c = None \<and> 0 < cfg_QPS c
               then c\<lparr>cfg_RateLimiter := Some (TokenBucket (cfg_QPS c) (cfg_Burst c))\<rparr> else c)
         in case autoscalingv1_NewForConfigAndClient L configShallowCopy httpClient of
              Inl err \<Rightarrow> Inl err
            | Inr autoscalingV1 \<Rightarrow> (case operatorv1_NewForConfigAndClient L configShallowCopy httpClient of
                Inl err \<Rightarrow> Inl err
              | Inr operatorV1 \<Rightarrow>
                  (case NewDiscoveryClientForConfigAndClient L configShallowCopy httpClient of
                     Inl err \<Rightarrow> Inl err
                   | Inr discovery \<Rightarrow> Inr \<lparr>cs_DiscoveryClient = discovery,
                       cs_autoscalingV1 = autoscalingV1, cs_operatorV1 = operatorV1\<rparr>))))"

definition Clientset_NewForConfig ::
  "('q::{zero, ord}, 'h, 'd) rest_lib \<Rightarrow> 'q Config \<Rightarrow> error + ('q, 'h, 'd) Clientset" where
  "Clientset_NewForConfig L c =
     (let configShallowCopy = default_UserAgent L c
      in case HTTPClientFor L configShallowCopy of
        Inl err \<Rightarrow> Inl err
      | Inr httpClient \<Rightarrow> Clientset_NewForConfigAndClient L configShallowCopy httpClient)"

definition Clientset_NewForConfigOrDie ::
  "('q::{zero, ord}, 'h, 'd) rest_lib \<Rightarrow> 'q Config \<Rightarrow> ('q, 'h, 'd) Clientset outcome" where
  "Clientset_NewForConfigOrDie L c = or_die (Clientset_NewForConfig L c)"

text \<open>The constructors from an existing REST client, and the accessors; a nil client has no REST client.\<close>

definition operatorv1_New :: "('q, 'h) RESTClient \<Rightarrow> ('q, 'h) RESTClient" where
  "operatorv1_New c = c"

definition operatorv1_RESTClient :: "('q, 'h) RESTClient option \<Rightarrow> ('q, 'h) RESTClient option" where
  "operatorv1_RESTClient c = (case c of None \<Rightarrow> None | Some client \<Rightarrow> Some client)"

definition autoscalingv1_New :: "('q, 'h) RESTClient \<Rightarrow> ('q, 'h) RESTClient" where
  "autoscalingv1_New c = c"

definition autoscalingv1_RESTClient :: "('q, 'h) RESTClient option \<Rightarrow> ('q, 'h) RESTClient option" where
  "autoscalingv1_RESTClient c = (case c of None \<Rightarrow> None | Some client \<Rightarrow> Some client)"

definition Clientset_New :: "(('q, 'h) RESTClient \<Rightarrow> 'd) \<Rightarrow> ('q, 'h) RESTClient \<Rightarrow> ('q, 'h, 'd) Clientset" where
  "Clientset_New newDiscoveryClient c = \<lparr>cs_DiscoveryClient = newDiscoveryClient c,
     cs_autoscalingV1 = autoscalingv1_New c, cs_operatorV1 = operatorv1_New c\<rparr>"

definition Clientset_Discovery :: "('q, 'h, 'd) Clientset option \<Rightarrow> 'd option" where
  "Clientset_Discovery c = (case c of None \<Rightarrow> None | Some cs \<Rightarrow> Some (cs_DiscoveryClient cs))"

section \<open>Requests (rest/request.go)\<close>

record request =
  rq_namespace :: string
  rq_resource :: string
  rq_resourceName :: string
  rq_subresource :: "string list"
  rq_err :: "error option"

definition new_request :: request where
  "new_request = \<lparr>rq_namespace = [], rq_resource = [], rq_resourceName = [], rq_subresource = [], rq_err = None\<rparr>"

definition IsValidPathSegmentName :: "string \<Rightarrow> string list" where
  "IsValidPathSegmentName name =
     (if name = ''.'' then [''may not be '' @ [char_of (39 :: nat)] @ ''.'' @ [char_of (39 :: nat)]]
      else if name = ''..'' then [''may not be '' @ [char_of (39 :: nat)] @ ''..'' @ [char_of (39 :: nat)]]
      else (if CHR ''/'' \<in> set name then [''may not contain '' @ [char_of (39 :: nat)] @ ''/'' @ [char_of (39 :: nat)]] else [])
        @ (if CHR ''%'' \<in> set name then [''may not contain '' @ [char_of (39 :: nat)] @ ''%'' @ [char_of (39 :: nat)]] else []))"

definition invalid_segment :: "string \<Rightarrow> string \<Rightarrow> error option" where
  "invalid_segment what s = (let msgs = IsValidPathSegmentName s
     in if msgs = [] then None
        else Some (ErrorString (''invalid '' @ what @ '' '' @ fmt_q s @ '': ['' @ strings_Join msgs '' '' @ '']'')))"

text \<open>After an error every further method returns the request as it is.\<close>

definition rq_NamespaceIfScoped :: "string \<Rightarrow> bool \<Rightarrow> request \<Rightarrow> request" where
  "rq_NamespaceIfScoped ns scoped r =
     (if rq_err r \<noteq> None \<or> \<not> scoped then r
      else if invalid_segment ''namespace'' ns \<noteq> None then r\<lparr>rq_err := invalid_segment ''namespace'' ns\<rparr>
      else r\<lparr>rq_namespace := ns\<rparr>)"

definition rq_Resource :: "string \<Rightarrow> request \<Rightarrow> request" where
  "rq_Resource resource r =
     (if rq_err r \<noteq> None then r
      else if invalid_segment ''resource'' resource \<noteq> None then r\<lparr>rq_err := invalid_segment ''resource'' resource\<rparr>
      else r\<lparr>rq_resource := resource\<rparr>)"

definition rq_Name :: "string \<Rightarrow> request \<Rightarrow> request" where
  "rq_Name name r =
     (if rq_err r \<noteq> None then r
      else if name = [] then r\<lparr>rq_err := Some (ErrorString ''resource name may not be empty'')\<rparr>
      else if invalid_segment ''resource name'' name \<noteq> None then r\<lparr>rq_err := invalid_segment ''resource name'' name\<rparr>
      else r\<lparr>rq_resourceName := name\<rparr>)"

definition rq_SubResource :: "string list \<Rightarrow> request \<Rightarrow> request" where
  "rq_SubResource subresources r =
     (if rq_err r \<noteq> None then r
      else case find (\<lambda>s. invalid_segment ''subresource'' s \<noteq> None) subresources of
        Some s \<Rightarrow> r\<lparr>rq_err := invalid_segment ''subresource'' s\<rparr>
      | None \<Rightarrow> r\<lparr>rq_subresource := filter (\<lambda>s. s \<noteq> []) subresources\<rparr>)"

definition rq_URL :: "('q, 'h) RESTClient \<Rightarrow> request \<Rightarrow> string list" where
  "rq_URL c r = rest_versionedAPIPath c
     @ (if rq_namespace r \<noteq> [] then [''namespaces'', rq_namespace r] else [])
     @ (if rq_resource r \<noteq> [] then [rq_resource r] else [])
     @ (if rq_resourceName r \<noteq> [] then [rq_resourceName r] else []) @ rq_subresource r"

record 'b http_request =
  http_method :: string
  http_base :: string
  http_path :: "string list"
  http_opts :: "ListOptions option"
  http_body :: "'b option"

text \<open>\<open>Do\<close> and \<open>Watch\<close> return the error of the builder, or send the request.\<close>

definition send :: "('q, 'h) RESTClient \<Rightarrow> string \<Rightarrow> ListOptions option \<Rightarrow> 'b option \<Rightarrow> request \<Rightarrow> error + 'b http_request" where
  "send c method opts body r = (case rq_err r of
     Some err \<Rightarrow> Inl err
   | None \<Rightarrow> Inr \<lparr>http_method = method, http_base = rest_base c, http_path = rq_URL c r,
       http_opts = opts, http_body = body\<rparr>)"

section \<open>The typed clients (gentype/type.go)\<close>

record ('q, 'h) typed_client =
  tc_resource :: string
  tc_client :: "('q, 'h) RESTClient"
  tc_namespace :: string

definition ClusterResourceOverrides :: "('q, 'h) RESTClient \<Rightarrow> ('q, 'h) typed_client" where
  "ClusterResourceOverrides c =
     \<lparr>tc_resource = ''clusterresourceoverrides'', tc_client = c, tc_namespace = []\<rparr>"

definition typed_ResourceOverrides :: "('q, 'h) RESTClient \<Rightarrow> string \<Rightarrow> ('q, 'h) typed_client" where
  "typed_ResourceOverrides c namespace =
     \<lparr>tc_resource = ''resourceoverrides'', tc_client = c, tc_namespace = namespace\<rparr>"

definition base_request :: "('q, 'h) typed_client \<Rightarrow> request" where
  "base_request c = rq_Resource (tc_resource c)
     (rq_NamespaceIfScoped (tc_namespace c) (tc_namespace c \<noteq> []) new_request)"

definition client_Get :: "('q, 'h) typed_client \<Rightarrow> string \<Rightarrow> error + 'b http_request" where
  "client_Get c name = send (tc_client c) ''GET'' None None (rq_Name name (base_request c))"

definition client_List :: "('q, 'h) typed_client \<Rightarrow> ListOptions \<Rightarrow> error + 'b http_request" where
  "client_List c opts = send (tc_client c) ''GET'' (Some opts) None (base_request c)"

definition client_Watch :: "('q, 'h) typed_client \<Rightarrow> ListOptions \<Rightarrow> error + 'b http_request" where
  "client_Watch c opts = send (tc_client c) ''GET'' (Some (opts\<lparr>lo_Watch := True\<rparr>)) None (base_request c)"

definition client_Create :: "('q, 'h) typed_client \<Rightarrow> 'a Object_scheme \<Rightarrow> error + 'a Object_scheme http_request" where
  "client_Create c obj = send (tc_client c) ''POST'' None (Some obj) (base_request c)"

definition client_Update :: "('q, 'h) typed_client \<Rightarrow> 'a Object_scheme \<Rightarrow> error + 'a Object_scheme http_request" where
  "client_Update c obj = send (tc_client c) ''PUT'' None (Some obj) (rq_Name (om_Name (o_Meta obj)) (base_request c))"

definition client_UpdateStatus :: "('q, 'h) typed_client \<Rightarrow> 'a Object_scheme \<Rightarrow> error + 'a Object_scheme http_request" where
  "client_UpdateStatus c obj = send (tc_client c) ''PUT'' None (Some obj)
     (rq_SubResource [''status''] (rq_Name (om_Name (o_Meta obj)) (base_request c)))"

definition client_Delete :: "('q, 'h) typed_client \<Rightarrow> string \<Rightarrow> error + 'b http_request" where
  "client_Delete c name = send (tc_client c) ''DELETE'' None None (rq_Name name (base_request c))"

definition client_Patch :: "('q, 'h) typed_client \<Rightarrow> string \<Rightarrow> 'b \<Rightarrow> string list \<Rightarrow> error + 'b http_request" where
  "client_Patch c name data subresources = send (tc_client c) ''PATCH'' None (Some data)
     (rq_SubResource subresources (rq_Name name (base_request c)))"

text \<open>The call of an informer's list or watch function, made through the clientset.\<close>

definition call_request :: "('q, 'h, 'd) Clientset client_call \<Rightarrow> error + 'b http_request" where
  "call_request call =
     (let c = (if call_gvr call = cro_gvr then ClusterResourceOverrides (cs_operatorV1 (call_client call))
               else typed_ResourceOverrides (cs_autoscalingV1 (call_client call)) (call_namespace call))
      in case call_verb call of
           ListVerb \<Rightarrow> client_List c (call_opts call)
         | WatchVerb \<Rightarrow> client_Watch c (call_opts call))"

section \<open>Facts about requests\<close>

definition valid_segment :: "string \<Rightarrow> bool" where
  "valid_segment s \<longleftrightarrow> s \<noteq> ''.'' \<and> s \<noteq> ''..'' \<and> CHR ''/'' \<notin> set s \<and> CHR ''%'' \<notin> set s"

lemma invalid_segment_None_iff: "invalid_segment what s = None \<longleftrightarrow> valid_segment s"
  by (simp add: invalid_segment_def IsValidPathSegmentName_def valid_segment_def Let_def)

lemma invalid_segment_Some: "invalid_segment what s = Some e \<Longrightarrow> \<not> valid_segment s"
  using invalid_segment_None_iff [of what s] by simp

lemma valid_resources [simp]: "valid_segment ''clusterresourceoverrides''" "valid_segment ''resourceoverrides''"
  "valid_segment ''status''"
  by (simp_all add: valid_segment_def)

text \<open>The group clients that a clientset is made of.\<close>

definition group_path :: "string \<Rightarrow> string list" where
  "group_path g = [''apis'', g, ''v1'']"

lemma RESTClient_path:
  assumes "RESTClientForConfigAndClient L config h = Inr c" and "cfg_GroupVersion config = Some (g, ''v1'')"
    and "g \<noteq> []" and "cfg_APIPath config = ''/apis''"
  shows "rest_versionedAPIPath c = group_path g" and "rest_http c = h"
proof -
  have "path_segments ''/apis'' = [''apis'']" by code_simp
  then show "rest_versionedAPIPath c = group_path g" "rest_http c = h"
    using assms by (auto simp: RESTClientForConfigAndClient_def DefaultVersionedAPIPath_def group_path_def Let_def
        split: option.splits sum.splits)
qed

definition effective_limiter :: "('q::{zero, ord}, 'h, 'd) rest_lib \<Rightarrow> 'q rate_limiter option \<Rightarrow> 'q \<Rightarrow> int
    \<Rightarrow> 'q rate_limiter option" where
  "effective_limiter L given qps burst = (if given = None
     then (let q = (if qps = 0 then DefaultQPS L else qps)
           in if 0 < q then Some (TokenBucket q (if burst = 0 then DefaultBurst else burst)) else None)
     else given)"

lemma RESTClient_limiter:
  "RESTClientForConfigAndClient L config h = Inr c
   \<Longrightarrow> rest_rateLimiter c = effective_limiter L (cfg_RateLimiter config) (cfg_QPS config) (cfg_Burst config)"
  by (auto simp: RESTClientForConfigAndClient_def effective_limiter_def Let_def split: option.splits sum.splits)

lemma setConfigDefaults_simps:
  "cfg_GroupVersion (operatorv1_setConfigDefaults L c) = Some (operator_GroupName, ''v1'')"
  "cfg_APIPath (operatorv1_setConfigDefaults L c) = ''/apis''"
  "cfg_RateLimiter (operatorv1_setConfigDefaults L c) = cfg_RateLimiter c"
  "cfg_QPS (operatorv1_setConfigDefaults L c) = cfg_QPS c"
  "cfg_Burst (operatorv1_setConfigDefaults L c) = cfg_Burst c"
  "cfg_GroupVersion (autoscalingv1_setConfigDefaults L c) = Some (autoscaling_GroupName, ''v1'')"
  "cfg_APIPath (autoscalingv1_setConfigDefaults L c) = ''/apis''"
  "cfg_RateLimiter (autoscalingv1_setConfigDefaults L c) = cfg_RateLimiter c"
  "cfg_QPS (autoscalingv1_setConfigDefaults L c) = cfg_QPS c"
  "cfg_Burst (autoscalingv1_setConfigDefaults L c) = cfg_Burst c"
  by (simp_all add: operatorv1_setConfigDefaults_def autoscalingv1_setConfigDefaults_def default_UserAgent_def
      operator_GroupVersion_def autoscaling_GroupVersion_def)

lemma Clientset_NewForConfig_groups:
  assumes "Clientset_NewForConfig L c = Inr cs"
  shows "rest_versionedAPIPath (cs_operatorV1 cs) = group_path operator_GroupName"
    and "rest_versionedAPIPath (cs_autoscalingV1 cs) = group_path autoscaling_GroupName"
    and "rest_http (cs_operatorV1 cs) = rest_http (cs_autoscalingV1 cs)"
    and "rest_rateLimiter (cs_operatorV1 cs) = rest_rateLimiter (cs_autoscalingV1 cs)"
proof -
  obtain config h where o': "operatorv1_NewForConfigAndClient L config h = Inr (cs_operatorV1 cs)"
    and a: "autoscalingv1_NewForConfigAndClient L config h = Inr (cs_autoscalingV1 cs)"
    using assms
    by (auto simp: Clientset_NewForConfig_def Clientset_NewForConfigAndClient_def Let_def
        split: sum.splits if_splits)
  have "operator_GroupName \<noteq> []" "autoscaling_GroupName \<noteq> []"
    by (simp_all add: operator_GroupName_def autoscaling_GroupName_def)
  then show "rest_versionedAPIPath (cs_operatorV1 cs) = group_path operator_GroupName"
    and "rest_versionedAPIPath (cs_autoscalingV1 cs) = group_path autoscaling_GroupName"
    and "rest_http (cs_operatorV1 cs) = rest_http (cs_autoscalingV1 cs)"
    using RESTClient_path [OF o' [unfolded operatorv1_NewForConfigAndClient_def]]
      RESTClient_path [OF a [unfolded autoscalingv1_NewForConfigAndClient_def]]
    by (simp_all add: setConfigDefaults_simps)
  show "rest_rateLimiter (cs_operatorV1 cs) = rest_rateLimiter (cs_autoscalingV1 cs)"
    using RESTClient_limiter [OF o' [unfolded operatorv1_NewForConfigAndClient_def]]
      RESTClient_limiter [OF a [unfolded autoscalingv1_NewForConfigAndClient_def]]
    by (simp add: setConfigDefaults_simps)
qed

text \<open>Without a rate limiter, a positive QPS needs a positive burst; no client is made otherwise.\<close>

lemma Clientset_NewForConfig_burst:
  assumes "Clientset_NewForConfig L c = Inr cs" and "cfg_RateLimiter c = None" and "0 < cfg_QPS c"
  shows "0 < cfg_Burst c" and "rest_rateLimiter (cs_operatorV1 cs) = Some (TokenBucket (cfg_QPS c) (cfg_Burst c))"
proof -
  let ?c = "default_UserAgent L c"
  have c: "cfg_RateLimiter ?c = None" "cfg_QPS ?c = cfg_QPS c" "cfg_Burst ?c = cfg_Burst c"
    using assms(2) by (simp_all add: default_UserAgent_def)
  then obtain h where burst: "\<not> cfg_Burst c \<le> 0"
    and o': "operatorv1_NewForConfigAndClient L (?c\<lparr>cfg_RateLimiter := Some (TokenBucket (cfg_QPS c) (cfg_Burst c))\<rparr>) h
      = Inr (cs_operatorV1 cs)"
    using assms
    by (auto simp: Clientset_NewForConfig_def Clientset_NewForConfigAndClient_def Let_def
        split: sum.splits if_splits)
  then show "rest_rateLimiter (cs_operatorV1 cs) = Some (TokenBucket (cfg_QPS c) (cfg_Burst c))"
    using RESTClient_limiter [OF o' [unfolded operatorv1_NewForConfigAndClient_def]]
    by (simp add: setConfigDefaults_simps effective_limiter_def)
  show "0 < cfg_Burst c" using burst by simp
qed

lemma UpdateStatus_CRO:
  assumes "rest_versionedAPIPath c = group_path operator_GroupName"
  shows "client_UpdateStatus (ClusterResourceOverrides c) obj =
    (if om_Name (o_Meta obj) = [] then Inl (ErrorString ''resource name may not be empty'')
     else case invalid_segment ''resource name'' (om_Name (o_Meta obj)) of
       Some err \<Rightarrow> Inl err
     | None \<Rightarrow> Inr \<lparr>http_method = ''PUT'', http_base = rest_base c,
         http_path = group_path operator_GroupName @ [''clusterresourceoverrides'', om_Name (o_Meta obj), ''status''],
         http_opts = None, http_body = Some obj\<rparr>)"
  using assms
  by (auto simp: client_UpdateStatus_def ClusterResourceOverrides_def base_request_def rq_NamespaceIfScoped_def
      rq_Resource_def rq_Name_def rq_SubResource_def send_def rq_URL_def new_request_def invalid_segment_None_iff
      dest: invalid_segment_Some split: option.split)

lemma UpdateStatus_RO:
  assumes "rest_versionedAPIPath c = group_path autoscaling_GroupName"
    and "valid_segment ns" and "ns \<noteq> []" and "valid_segment (om_Name (o_Meta obj))" and "om_Name (o_Meta obj) \<noteq> []"
  shows "client_UpdateStatus (typed_ResourceOverrides c ns) obj =
    Inr \<lparr>http_method = ''PUT'', http_base = rest_base c,
         http_path = group_path autoscaling_GroupName
           @ [''namespaces'', ns, ''resourceoverrides'', om_Name (o_Meta obj), ''status''],
         http_opts = None, http_body = Some obj\<rparr>"
  using assms
  by (simp add: client_UpdateStatus_def typed_ResourceOverrides_def base_request_def rq_NamespaceIfScoped_def
      rq_Resource_def rq_Name_def rq_SubResource_def send_def rq_URL_def new_request_def invalid_segment_None_iff)

text \<open>The informers of a factory over the clientset list their resource, in the factory's namespace.\<close>

lemma ro_informer_request:
  assumes "rest_versionedAPIPath (cs_autoscalingV1 (f_client f)) = group_path autoscaling_GroupName"
    and "f_informers f = []" and "valid_segment (f_namespace f)"
  shows "call_request (inf_ListFunc (fst (ro_Informer (group_V1 (factory_group f)) f)) opts)
    = Inr \<lparr>http_method = ''GET'', http_base = rest_base (cs_autoscalingV1 (f_client f)),
         http_path = group_path autoscaling_GroupName
           @ (if f_namespace f = [] then [] else [''namespaces'', f_namespace f]) @ [''resourceoverrides''],
         http_opts = Some (tweak (f_tweakListOptions f) opts), http_body = None\<rparr>"
  unfolding ForResource_fresh(2) [OF assms(2)]
  using assms(1,3)
  by (simp add: call_request_def client_List_def typed_ResourceOverrides_def base_request_def rq_NamespaceIfScoped_def
      rq_Resource_def send_def rq_URL_def new_request_def invalid_segment_None_iff ro_gvr_def cro_gvr_def)

lemma cro_informer_request:
  assumes "rest_versionedAPIPath (cs_operatorV1 (f_client f)) = group_path operator_GroupName"
    and "f_informers f = []"
  shows "call_request (inf_ListFunc (fst (cro_Informer (group_V1 (factory_group f)) f)) opts)
    = Inr \<lparr>http_method = ''GET'', http_base = rest_base (cs_operatorV1 (f_client f)),
         http_path = group_path operator_GroupName @ [''clusterresourceoverrides''],
         http_opts = Some (tweak (f_tweakListOptions f) opts), http_body = None\<rparr>"
  unfolding ForResource_fresh(4) [OF assms(2)]
  using assms(1)
  by (simp add: call_request_def client_List_def ClusterResourceOverrides_def base_request_def rq_NamespaceIfScoped_def
      rq_Resource_def send_def rq_URL_def new_request_def invalid_segment_None_iff)

end
