(* ===== verification/Rollout.thy ===== *)
theory Rollout
  imports Recorded
begin

text \<open>
  How the operand is rolled out: the calls of one create-or-patch, the order of the calls that ensure
  the deployment, and what the ensured deployment looks like.
\<close>

section \<open>Create or patch\<close>

text \<open>One Create; one Patch of the same resource and namespace only when the object existed.\<close>

lemma client_Ensure_calls:
  assumes "client_Ensure L (traced A) resource object s = (r, s')" and "ToUnstructured L object = Inr u"
  shows "snd s' = snd s @ [CallCreate (GetGVR resource u) (u_GetNamespace u) u]
       \<or> (\<exists>e w1 w2 orig b. dyn_Create A (GetGVR resource u) (u_GetNamespace u) u (fst s) = (Inl e, w1) \<and> IsAlreadyExists e
            \<and> dyn_Get A (GetGVR resource u) (u_GetNamespace u) (u_GetName u) w1 = (Inr orig, w2)
            \<and> snd s' = snd s @ [CallCreate (GetGVR resource u) (u_GetNamespace u) u,
                 CallPatch (GetGVR resource u) (u_GetNamespace u) (u_GetName (prepare_modified orig u)) b])"
  using assms
  by (auto simp: client_Ensure_def Let_def on_fst_def logging_def split: sum.splits prod.splits if_splits)

lemma client_Ensure_unconverted:
  "ToUnstructured L object = Inl e \<Longrightarrow> client_Ensure L A resource object w =
     (Inl (ErrorString (''failed to convert to unstructured - '' @ Error e)), w)"
  by (simp add: client_Ensure_def)

text \<open>The resources that a sequence of calls created or tried to create.\<close>

definition created :: "call list \<Rightarrow> string list" where
  "created cs = concat (map (\<lambda>c. case c of CallCreate gvr ns u \<Rightarrow> [gvr_Resource gvr] | _ \<Rightarrow> []) cs)"

lemma created_simps [simp]:
  "created [] = []" "created (CallCreate gvr ns u # cs) = gvr_Resource gvr # created cs"
  "created (CallPatch gvr ns n b # cs) = created cs" "created (cs @ ds) = created cs @ created ds"
  by (simp_all add: created_def)

lemma client_Ensure_created:
  assumes "client_Ensure L (traced A) resource object s = (Inr u', s')"
  shows "\<exists>cs. snd s' = snd s @ cs \<and> list_all (upsert_of [resource]) cs \<and> created cs = [resource]"
proof (cases "ToUnstructured L object")
  case (Inl e)
  with assms show ?thesis by (simp add: client_Ensure_def)
next
  case (Inr u)
  from client_Ensure_calls [OF assms Inr] show ?thesis by auto
qed

lemma EnsureRBAC_items_created:
  assumes "EnsureRBAC_items L (traced A) items cro s = (None, s')"
  shows "\<exists>cs. snd s' = snd s @ cs \<and> list_all (upsert_of (map rbac_Resource items)) cs
    \<and> created cs = map rbac_Resource items"
  using assms
proof (induction items arbitrary: s)
  case (Cons item items)
  obtain u s1 where first: "client_Ensure L (traced A) (rbac_Resource item)
      (runtime_SetController (rbac_Object item) cro) s = (Inr u, s1)"
    and rest: "EnsureRBAC_items L (traced A) items cro s1 = (None, s')"
    using Cons.prems by (auto simp: Let_def split: prod.splits sum.splits)
  from client_Ensure_created [OF first] obtain cs where cs: "snd s1 = snd s @ cs"
    "list_all (upsert_of [rbac_Resource item]) cs" "created cs = [rbac_Resource item]" by blast
  from Cons.IH [OF rest] obtain ds where ds: "snd s' = snd s1 @ ds"
    "list_all (upsert_of (map rbac_Resource items)) ds" "created ds = map rbac_Resource items" by blast
  have "list_all (upsert_of (map rbac_Resource (item # items))) (cs @ ds)"
    using cs(2) ds(2) by (auto simp: list_all_iff intro: upsert_of_mono)
  with cs ds show ?case by (intro exI [of _ "cs @ ds"]) simp
qed simp

section \<open>The order of a rollout\<close>

text \<open>
  The webhook configuration goes first, so that no pod is sent to an operand that is being replaced;
  the deployment is written only after every RBAC object was ensured.
\<close>

lemma deploymentHandler_Ensure_order:
  assumes "deploymentHandler_Ensure (recording opts A) cro args s = (r, s')"
  shows "\<exists>rb dep. snd s' = snd s @ CallDeleteMWC (mutatingWebhookConfiguration_Name (opt_Asset opts)) # rb @ dep
    \<and> list_all (upsert_of rbac_resources) rb \<and> list_all (upsert_of [''deployments'']) dep
    \<and> (dep \<noteq> [] \<longrightarrow> created rb = map rbac_Resource (rbac_New (opt_Asset opts)))"
proof -
  let ?n = "mutatingWebhookConfiguration_Name (opt_Asset opts)"
  obtain del s1 where del: "logging (CallDeleteMWC ?n) (api_MWC_Delete A ?n) s = (del, s1)"
    by (cases "logging (CallDeleteMWC ?n) (api_MWC_Delete A ?n) s")
  from logging_trace [OF del] have s1: "snd s1 = snd s @ [CallDeleteMWC ?n]" .
  show ?thesis
  proof (cases "del \<noteq> None \<and> \<not> IsNotFound_opt del")
    case True
    with assms del s1 show ?thesis by (auto simp: deploymentHandler_Ensure_def Let_def)
  next
    case False
    obtain e s2 where rbac: "EnsureRBAC (recording opts A) cro s1 = (e, s2)"
      by (cases "EnsureRBAC (recording opts A) cro s1")
    from EnsureRBAC_writes [OF rbac] obtain rb where
      rb: "snd s2 = snd s1 @ rb" "list_all (upsert_of rbac_resources) rb" by (auto simp: writes_def)
    show ?thesis
    proof (cases e)
      case (Some err)
      with assms del False rbac rb s1 show ?thesis
        by (intro exI [of _ rb] exI [of _ "[]"]) (auto simp: deploymentHandler_Ensure_def Let_def)
    next
      case None
      with rbac EnsureRBAC_items_created [of "opt_lib opts" A "rbac_New (opt_Asset opts)" cro s1 s2] rb
      have rb': "created rb = map rbac_Resource (rbac_New (opt_Asset opts))" by (auto simp: EnsureRBAC_def)
      from assms del False rbac None have "deploy_Ensure (opt_lib opts) (traced A) (opt_tolerationSeconds opts)
          (opt_Asset opts) (Some (ApplyToDeploymentObject (recording opts A) cro args))
          (Some (ApplyToToPodTemplate (recording opts A) cro args)) s2 = (r, s')"
        by (auto simp: deploymentHandler_Ensure_def Let_def)
      from deploy_Ensure_writes [OF this] obtain dep where
        "snd s' = snd s2 @ dep" "list_all (upsert_of [''deployments'']) dep" by (auto simp: writes_def)
      with rb rb' s1 show ?thesis by (intro exI [of _ rb] exI [of _ dep]) simp
    qed
  qed
qed

section \<open>The ensured deployment\<close>

lemma asset_annotation_keys [simp]:
  "v_ConfigurationHashAnnotationKey (asset_New ctx) \<noteq> v_TLSProfileHashAnnotationKey (asset_New ctx)"
  "v_ConfigurationHashAnnotationKey (asset_New ctx) \<noteq> v_OwnerAnnotationKey (asset_New ctx)"
  by (simp_all add: asset_New_def)

lemma ApplyToDeploymentObject_annotations:
  assumes "opt_Asset opts = asset_New ctx"
  shows "go_get (om_Annotations (o_Meta (ApplyToDeploymentObject opts cro args d)))
      (v_ConfigurationHashAnnotationKey (opt_Asset opts)) = st_HashConfiguration (cro_Status cro)"
    and "go_get (om_Annotations (o_Meta (ApplyToDeploymentObject opts cro args d)))
      (v_TLSProfileHashAnnotationKey (opt_Asset opts)) = Args_Hash args"
  using assms
  by (auto simp: ApplyToDeploymentObject_def Let_def ControllerSetter_def frame split: option.splits
      simp del: asset_annotation_keys dest: asset_annotation_keys [THEN notE])

text \<open>
  A deployment that carries the annotations of the last rollout does not need another one, as long as
  configuration, TLS arguments, image and version are the same.
\<close>

lemma needs_ensure_iff:
  "needs_ensure v cro args (Some d) \<longleftrightarrow>
     go_get (om_Annotations (o_Meta d)) (v_ConfigurationHashAnnotationKey v) \<noteq> st_HashConfiguration (cro_Status cro)
     \<or> go_get (om_Annotations (o_Meta d)) (v_TLSProfileHashAnnotationKey v) \<noteq> Args_Hash args
     \<or> v_OperandImage v \<noteq> st_Image (cro_Status cro) \<or> v_OperandVersion v \<noteq> st_Version (cro_Status cro)"
  by (auto simp: needs_ensure_def Let_def)

lemma ensured_is_current:
  assumes "opt_Asset opts = asset_New ctx"
    and "om_Annotations (o_Meta d) = om_Annotations (o_Meta (ApplyToDeploymentObject opts cro args d0))"
  shows "needs_ensure (opt_Asset opts) cro' args' (Some d) \<longleftrightarrow>
     st_HashConfiguration (cro_Status cro') \<noteq> st_HashConfiguration (cro_Status cro)
     \<or> Args_Hash args' \<noteq> Args_Hash args
     \<or> v_OperandImage (opt_Asset opts) \<noteq> st_Image (cro_Status cro')
     \<or> v_OperandVersion (opt_Asset opts) \<noteq> st_Version (cro_Status cro')"
  using ApplyToDeploymentObject_annotations [OF assms(1), of cro args d0] assms(2)
  unfolding needs_ensure_iff by auto

section \<open>The pod template\<close>

lemma pod_template_frame [frame]:
  "om_Labels (pt_Meta (ApplyToToPodTemplate opts cro args t)) = om_Labels (pt_Meta t)"
  "pod_ServiceAccountName (pt_Spec (ApplyToToPodTemplate opts cro args t)) = pod_ServiceAccountName (pt_Spec t)"
  "pod_Volumes (pt_Spec (ApplyToToPodTemplate opts cro args t)) = pod_Volumes (pt_Spec t)"
  "pod_AntiAffinity (pt_Spec (ApplyToToPodTemplate opts cro args t)) = pod_AntiAffinity (pt_Spec t)"
  by (simp_all add: ApplyToToPodTemplate_def Let_def split: list.splits)

lemma pod_template_NodeSelector:
  "pod_NodeSelector (pt_Spec (ApplyToToPodTemplate opts cro args t)) =
     (if do_NodeSelector (spec_DeploymentOverrides (cro_Spec cro)) \<noteq> []
      then do_NodeSelector (spec_DeploymentOverrides (cro_Spec cro))
      else if opt_IsStandalone opts then standalone_NodeSelector else pod_NodeSelector (pt_Spec t))"
  by (simp add: ApplyToToPodTemplate_def Let_def split: list.splits)

lemma pod_template_Tolerations:
  "pod_Tolerations (pt_Spec (ApplyToToPodTemplate opts cro args t)) =
     (if do_Tolerations (spec_DeploymentOverrides (cro_Spec cro)) \<noteq> []
      then do_Tolerations (spec_DeploymentOverrides (cro_Spec cro))
      else if opt_IsStandalone opts then pod_Tolerations (pt_Spec t) @ standalone_Tolerations
      else pod_Tolerations (pt_Spec t))"
  by (simp add: ApplyToToPodTemplate_def Let_def split: list.splits)

lemma pod_template_Containers:
  "pod_Containers (pt_Spec (ApplyToToPodTemplate opts cro args t)) =
     (case pod_Containers (pt_Spec t) of [] \<Rightarrow> []
      | c # cs \<Rightarrow> c\<lparr>ctr_Args := with_tls_args args (ctr_Args c)\<rparr> # cs)"
  by (simp add: ApplyToToPodTemplate_def Let_def split: list.splits)

lemmas pod_template_facts = pod_template_frame pod_template_NodeSelector pod_template_Tolerations
  pod_template_Containers

lemma deployment_args:
  "with_tls_args args (ctr_Args (deployment_Container v)) = ctr_Args (deployment_Container v)
     @ (if MinVersion args \<noteq> [] then [''--tls-min-version='' @ MinVersion args] else [])
     @ (if CipherSuites args \<noteq> [] then [''--tls-cipher-suites='' @ CipherSuites args] else [])"
  by (simp add: with_tls_args_def deployment_Container_def strings_HasPrefix_def Let_def)

section \<open>Owner references of the operand's objects\<close>

lemma runtime_SetController_Meta:
  "runtime_Meta (runtime_SetController x owner) = (runtime_Meta x)\<lparr>om_OwnerReferences :=
     om_OwnerReferences (runtime_Meta (runtime_SetController x owner))\<rparr>"
  by (cases x) (simp_all add: SetController_def Let_def)

lemma SetController_fresh:
  "om_OwnerReferences (o_Meta x) = [] \<Longrightarrow>
     om_OwnerReferences (o_Meta (SetController x owner)) = [NewControllerRef owner (GetGroupVersionKind owner)]"
  by (simp add: SetController_def Let_def IsControlledBy_def GetControllerOf_def)

lemma runtime_SetController_fresh:
  "om_OwnerReferences (runtime_Meta x) = [] \<Longrightarrow>
     om_OwnerReferences (runtime_Meta (runtime_SetController x owner)) = [NewControllerRef owner (GetGroupVersionKind owner)]"
  by (cases x) (simp_all add: SetController_fresh)

lemma SetController_controlled:
  assumes "GetControllerOf x = None \<or> IsControlledBy x owner"
  shows "IsControlledBy (SetController x owner) owner"
proof (cases "IsControlledBy x owner")
  case True
  then show ?thesis by (simp add: SetController_def Let_def)
next
  case False
  with assms have "find (\<lambda>r. or_Controller r = Some True) (om_OwnerReferences (o_Meta x)) = None"
    by (simp add: GetControllerOf_def)
  with False show ?thesis
    by (simp add: SetController_def Let_def IsControlledBy_def GetControllerOf_def find_append NewControllerRef_def)
qed

lemma SetController_idem: "IsControlledBy x owner \<Longrightarrow> SetController x owner = x"
  by (simp add: SetController_def Let_def)

end
