(* ===== verification/SecondaryWatch.thy ===== *)
theory SecondaryWatch
  imports ControllerCore Rollout
begin

text \<open>
  How a change of a secondary object reaches the work queue: the enqueuer of
  pkg/clusterresourceoverride (enqueuer.go) and the event handlers and start function of
  pkg/secondarywatch (handler.go, start.go). The enqueuers and handlers answer with the requests they
  add to the queue; a logged error adds none.
\<close>

section \<open>The enqueuer (enqueuer.go)\<close>

definition getOwnerName :: "string \<Rightarrow> 'a Object_scheme \<Rightarrow> string" where
  "getOwnerName ownerAnnotationKey object =
     (case (case GetControllerOf object of
              None \<Rightarrow> None
            | Some ownerRef \<Rightarrow> if or_Kind ownerRef = ClusterResourceOverrideKind then Some (or_Name ownerRef) else None) of
        Some name \<Rightarrow> name
      | None \<Rightarrow>
          let annotations = om_Annotations (o_Meta object) in
          if annotations \<noteq> []
          then (let owner = go_get annotations ownerAnnotationKey; ok = go_has annotations ownerAnnotationKey
            in if ok \<and> owner \<noteq> [] then owner else [])
          else [])"

definition EnqueueByName :: "'w api \<Rightarrow> string \<Rightarrow> 'w \<Rightarrow> (error + Request list) \<times> 'w" where
  "EnqueueByName A name w = (case api_CRO_Get A name w of
     (Inl err, w1) \<Rightarrow> (Inl (ErrorString (''ignoring request to enqueue - '' @ Error err)), w1)
   | (Inr cro, w1) \<Rightarrow> (Inr [request_for cro], w1))"

definition Enqueue :: "'w api \<Rightarrow> string \<Rightarrow> informer_obj \<Rightarrow> 'w \<Rightarrow> (error + Request list) \<times> 'w" where
  "Enqueue A ownerAnnotationKey obj w = (case GetMetaObject obj of
     Inl err \<Rightarrow> (Inl err, w)
   | Inr metaObj \<Rightarrow>
       let ownerName = getOwnerName ownerAnnotationKey metaObj in
       if ownerName = []
       then (Inl (ErrorString (''could not find owner for '' @ om_Namespace (o_Meta metaObj) @ ''/''
              @ om_Name (o_Meta metaObj))), w)
       else (case api_CRO_Get A ownerName w of
           (Inl err, w1) \<Rightarrow> (Inl (ErrorString (''ignoring request to enqueue - '' @ Error err)), w1)
         | (Inr cro, w1) \<Rightarrow> (Inr [request_for cro], w1)))"

section \<open>The event handlers (handler.go)\<close>

text \<open>\<open>enq\<close>: the enqueuer; a handler hands it the object it decoded.\<close>

type_synonym 'w enqueue = "informer_obj \<Rightarrow> 'w \<Rightarrow> (error + Request list) \<times> 'w"

definition enqueued :: "(error + Request list) \<times> 'w \<Rightarrow> Request list \<times> 'w" where
  "enqueued r = (case r of (Inl err, w) \<Rightarrow> ([], w) | (Inr reqs, w) \<Rightarrow> (reqs, w))"

definition resource_OnAdd :: "'w enqueue \<Rightarrow> informer_obj \<Rightarrow> bool \<Rightarrow> 'w \<Rightarrow> Request list \<times> 'w" where
  "resource_OnAdd enq obj isInInitialList w = (case GetMetaObject obj of
     Inl err \<Rightarrow> ([], w) | Inr metaObj \<Rightarrow> enqueued (enq (MetaObj metaObj) w))"

definition resource_OnUpdate :: "'w enqueue \<Rightarrow> informer_obj \<Rightarrow> informer_obj \<Rightarrow> 'w \<Rightarrow> Request list \<times> 'w" where
  "resource_OnUpdate enq oldObj newObj w = (case GetMetaObject oldObj of
     Inl err \<Rightarrow> ([], w)
   | Inr oldMetaObj \<Rightarrow> (case GetMetaObject newObj of
       Inl err \<Rightarrow> ([], w)
     | Inr newMetaObj \<Rightarrow>
         if om_ResourceVersion (o_Meta oldMetaObj) = om_ResourceVersion (o_Meta newMetaObj) then ([], w)
         else enqueued (enq (MetaObj newMetaObj) w)))"

definition resource_OnDelete :: "'w enqueue \<Rightarrow> informer_obj \<Rightarrow> 'w \<Rightarrow> Request list \<times> 'w" where
  "resource_OnDelete enq obj w = (case GetMetaObject obj of
     Inl err \<Rightarrow> ([], w) | Inr metaObj \<Rightarrow> enqueued (enq (MetaObj metaObj) w))"

definition direct_OnAdd :: "informer_obj \<Rightarrow> bool \<Rightarrow> 'w \<Rightarrow> Request list \<times> 'w" where
  "direct_OnAdd obj isInInitialList w = ([], w)"

definition direct_OnUpdate :: "(string \<Rightarrow> 'w \<Rightarrow> (error + Request list) \<times> 'w) \<Rightarrow> string
    \<Rightarrow> informer_obj \<Rightarrow> informer_obj \<Rightarrow> 'w \<Rightarrow> Request list \<times> 'w" where
  "direct_OnUpdate enqByName primaryCRName oldObj newObj w = (case meta_Accessor oldObj of
     Inl err \<Rightarrow> ([], w)
   | Inr oldAcc \<Rightarrow> (case meta_Accessor newObj of
       Inl err \<Rightarrow> ([], w)
     | Inr newAcc \<Rightarrow>
         if om_ResourceVersion (o_Meta oldAcc) = om_ResourceVersion (o_Meta newAcc) then ([], w)
         else enqueued (enqByName primaryCRName w)))"

definition direct_OnDelete :: "informer_obj \<Rightarrow> 'w \<Rightarrow> Request list \<times> 'w" where
  "direct_OnDelete obj w = ([], w)"

section \<open>Starting the watches (start.go)\<close>

definition check :: "(string \<times> bool) list \<Rightarrow> string list" where
  "check status = map fst (filter (\<lambda>(t, synced). \<not> synced) status)"

text \<open>\<open>%s\<close> of a string slice.\<close>

definition fmt_slice :: "string list \<Rightarrow> string" where
  "fmt_slice names = ''['' @ strings_Join names '' '' @ '']''"

datatype watch_event =
    AddHandler string
  | AddDirectHandler string
  | WarnNoDirectEnqueuer
  | StartFactory
  | StartAPIServerFactory
  | WarnAPIServerNotSynced

definition secondary_kinds :: "string list" where
  "secondary_kinds = [''deployment'', ''daemonset'', ''pod'', ''configmap'', ''service'', ''secret'',
     ''serviceaccount'', ''webhook'', ''admissionpolicy'', ''admissionpolicybinding'']"

text \<open>
  \<open>isDirect\<close>: the enqueuer implements DirectEnqueuer. The API server watch is optional: when its cache
  does not sync, a warning is all that follows.
\<close>

definition secondary_start :: "bool \<Rightarrow> string \<Rightarrow> (string \<times> bool) list \<Rightarrow> bool \<Rightarrow> watch_event list \<times> error option" where
  "secondary_start isDirect primaryResourceName status apiServerSynced =
     (let evs = map AddHandler secondary_kinds @
            (if isDirect \<and> primaryResourceName \<noteq> [] then [AddDirectHandler primaryResourceName]
             else [WarnNoDirectEnqueuer]) @ [StartFactory];
          names = check status
      in if names \<noteq> []
         then (evs, Some (ErrorString (''WaitForCacheSync did not successfully complete resources='' @ fmt_slice names)))
         else (evs @ [StartAPIServerFactory] @ (if \<not> apiServerSynced then [WarnAPIServerNotSynced] else []), None))"

section \<open>The contract of an enqueuer\<close>

text \<open>The queue receives at most one request, and only for an object the lister knows.\<close>

locale enqueuer =
  fixes enq :: "informer_obj \<Rightarrow> 'w \<Rightarrow> (error + Request list) \<times> 'w"
    and known :: "Request \<Rightarrow> 'w \<Rightarrow> bool"
  assumes enq_one: "enq obj w = (Inr reqs, w') \<Longrightarrow> \<exists>req. reqs = [req] \<and> known req w"
begin

lemma OnAdd_known: "resource_OnAdd enq obj b w = (reqs, w') \<Longrightarrow> reqs = [] \<or> (\<exists>req. reqs = [req] \<and> known req w)"
  by (auto simp: resource_OnAdd_def enqueued_def split: sum.splits prod.splits dest: enq_one)

lemma OnUpdate_known:
  "resource_OnUpdate enq old new w = (reqs, w') \<Longrightarrow> reqs = [] \<or> (\<exists>req. reqs = [req] \<and> known req w)"
  by (auto simp: resource_OnUpdate_def enqueued_def split: sum.splits prod.splits if_splits dest: enq_one)

lemma OnDelete_known: "resource_OnDelete enq obj w = (reqs, w') \<Longrightarrow> reqs = [] \<or> (\<exists>req. reqs = [req] \<and> known req w)"
  by (auto simp: resource_OnDelete_def enqueued_def split: sum.splits prod.splits dest: enq_one)

text \<open>A resync, which delivers the same resource version, adds nothing.\<close>

lemma resync_adds_nothing:
  assumes "GetMetaObject old = Inr o1" and "GetMetaObject new = Inr o2"
    and "om_ResourceVersion (o_Meta o1) = om_ResourceVersion (o_Meta o2)"
  shows "resource_OnUpdate enq old new w = ([], w)"
  using assms by (simp add: resource_OnUpdate_def)

end

definition lister_knows :: "'w api \<Rightarrow> Request \<Rightarrow> 'w \<Rightarrow> bool" where
  "lister_knows A req w \<longleftrightarrow> (\<exists>name cro w'. api_CRO_Get A name w = (Inr cro, w') \<and> req = request_for cro)"

interpretation owner_enqueuer: enqueuer "Enqueue A key" "lister_knows A" for A :: "'w api" and key
  by unfold_locales (auto simp: Enqueue_def lister_knows_def Let_def split: sum.splits prod.splits if_splits)

section \<open>Objects of the operand lead back to their owner\<close>

lemma getOwnerName_SetController:
  assumes "om_OwnerReferences (o_Meta x) = []"
    and "GetGroupVersionKind owner = ClusterResourceOverrideGVK"
  shows "getOwnerName key (SetController x owner) = om_Name (o_Meta owner)"
  using assms
  by (simp add: getOwnerName_def GetControllerOf_def SetController_fresh NewControllerRef_def
      ClusterResourceOverrideGVK_def)

lemma getOwnerName_annotation:
  assumes "GetControllerOf x = None" and "go_has (om_Annotations (o_Meta x)) key"
  shows "getOwnerName key x = go_get (om_Annotations (o_Meta x)) key"
  using assms by (auto simp: getOwnerName_def Let_def go_has_def)

lemma Enqueue_owned:
  assumes "GetMetaObject obj = Inr x" and "getOwnerName key x = name" and "name \<noteq> []"
    and "api_CRO_Get A name w = (Inr cro, w')"
  shows "Enqueue A key obj w = (Inr [request_for cro], w')"
  using assms by (simp add: Enqueue_def Let_def)

lemma check_Nil_iff: "check status = [] \<longleftrightarrow> (\<forall>(t, synced) \<in> set status. synced)"
  by (auto simp: check_def filter_empty_conv)

end
