(* ===== verification/ControlLoop.thy ===== *)
theory ControlLoop
  imports ControllerCore
begin

text \<open>
  A running controller: informers, any number of workers and expiring delays act on one work queue.
  A step is one atomic queue operation; between two operations of a worker any other step may come.
  The reachable states satisfy \<open>ctl_inv\<close>, from which it follows that no request is reconciled twice
  at the same time and that no request is lost.
\<close>

section \<open>States and steps\<close>

text \<open>A busy worker holds an item and has the listed operations left to perform.\<close>

datatype worker = Idle | Busy item "queue_op list"

record ctl =
  ctl_queue :: "item wq"
  ctl_workers :: "worker list"

definition ctl_init :: "nat \<Rightarrow> ctl" where
  "ctl_init n = \<lparr>ctl_queue = wq_new, ctl_workers = replicate n Idle\<rparr>"

text \<open>What processNextWorkItem does after Get returned the item and the reconciler its result.\<close>

definition item_ops :: "item \<Rightarrow> Result \<Rightarrow> 'e option \<Rightarrow> queue_op list" where
  "item_ops x result err = (case x of
     ItemOther v \<Rightarrow> [OpForget x, OpDone x]
   | ItemRequest request \<Rightarrow> worker_after request result err @ [OpDone x])"

fun apply_op :: "int \<Rightarrow> queue_op \<Rightarrow> item wq \<Rightarrow> item wq" where
  "apply_op bucket OpGet q = q"
| "apply_op bucket (OpDone x) q = wq_Done x q"
| "apply_op bucket (OpForget x) q = wq_Forget x q"
| "apply_op bucket (OpAddRateLimited x) q = wq_AddRateLimited bucket x q"
| "apply_op bucket (OpAddAfter x d) q = wq_AddAfter x d q"

inductive ctl_step :: "ctl \<Rightarrow> ctl \<Rightarrow> bool" where
  event: "ctl_step c (c\<lparr>ctl_queue := wq_Add (ItemRequest req) (ctl_queue c)\<rparr>)"
| take: "i < length (ctl_workers c) \<Longrightarrow> ctl_workers c ! i = Idle \<Longrightarrow>
     wq_Get (ctl_queue c) = Some (Some x, q) \<Longrightarrow>
     ctl_step c (c\<lparr>ctl_queue := q,
       ctl_workers := (ctl_workers c)[i := Busy x (item_ops x result (err :: string option))]\<rparr>)"
| work: "i < length (ctl_workers c) \<Longrightarrow> ctl_workers c ! i = Busy x (op # ops) \<Longrightarrow>
     ctl_step c (c\<lparr>ctl_queue := apply_op bucket op (ctl_queue c),
       ctl_workers := (ctl_workers c)[i := (if ops = [] then Idle else Busy x ops)]\<rparr>)"
| fire: "x \<in> wq_waiting (ctl_queue c) \<Longrightarrow> ctl_step c (c\<lparr>ctl_queue := wq_fire x (ctl_queue c)\<rparr>)"
| shutdown: "ctl_step c (c\<lparr>ctl_queue := wq_ShutDown (ctl_queue c)\<rparr>)"

inductive_cases ctl_stepE: "ctl_step c c'"

inductive ctl_reachable :: "nat \<Rightarrow> ctl \<Rightarrow> bool" for n where
  init: "ctl_reachable n (ctl_init n)"
| step: "ctl_reachable n c \<Longrightarrow> ctl_step c c' \<Longrightarrow> ctl_reachable n c'"

text \<open>The program of a worker is the trace of processNextWorkItem after Get.\<close>

lemma processNextWorkItem_ops:
  assumes "reconcile req w = (Returned (res, err), w')"
  shows "processNextWorkItem False False (Some (ItemRequest req)) reconcile w =
    (Returned True, OpGet # item_ops (ItemRequest req) res err, w')"
  using assms by (simp add: processNextWorkItem_def item_ops_def)

section \<open>The invariant\<close>

text \<open>Whatever else a worker does with its item, Done comes exactly once and last.\<close>

definition ends_with_done :: "item \<Rightarrow> queue_op list \<Rightarrow> bool" where
  "ends_with_done x ops \<longleftrightarrow> (\<exists>pre. ops = pre @ [OpDone x] \<and> (\<forall>y. OpDone y \<notin> set pre))"

definition holds :: "ctl \<Rightarrow> nat \<Rightarrow> item \<Rightarrow> bool" where
  "holds c i x \<longleftrightarrow> i < length (ctl_workers c) \<and> (\<exists>ops. ctl_workers c ! i = Busy x ops)"

definition ctl_inv :: "ctl \<Rightarrow> bool" where
  "ctl_inv c \<longleftrightarrow> wq_inv (ctl_queue c)
     \<and> (\<forall>i x ops. i < length (ctl_workers c) \<and> ctl_workers c ! i = Busy x ops \<longrightarrow> ends_with_done x ops)
     \<and> (\<forall>i j x. holds c i x \<and> holds c j x \<longrightarrow> i = j)
     \<and> (\<forall>x. x \<in> wq_processing (ctl_queue c) \<longleftrightarrow> (\<exists>i. holds c i x))"

lemma ends_with_done_item_ops: "ends_with_done x (item_ops x result err)"
  by (cases x) (auto simp: ends_with_done_def item_ops_def worker_after_def Let_def
      intro: exI [of _ "[OpForget x]"])

lemma ends_with_done_Cons:
  "ends_with_done x (op # ops) \<longleftrightarrow> (ops = [] \<and> op = OpDone x) \<or> (ops \<noteq> [] \<and> (\<forall>y. op \<noteq> OpDone y) \<and> ends_with_done x ops)"
  unfolding ends_with_done_def
  by (cases ops rule: rev_cases) (auto simp: Cons_eq_append_conv append_eq_Cons_conv)

lemma apply_op_inv:
  assumes "wq_inv q" and "\<And>x. op = OpDone x \<Longrightarrow> x \<in> wq_processing q"
  shows "wq_inv (apply_op b op q)"
    and "wq_processing (apply_op b op q) = (case op of OpDone x \<Rightarrow> wq_processing q - {x} | _ \<Rightarrow> wq_processing q)"
  using assms by (cases op; simp add: client_go.finish_inv client_go.finish_busy)+

lemma holds_queue [simp]: "holds (c\<lparr>ctl_queue := q\<rparr>) i x \<longleftrightarrow> holds c i x"
  by (simp add: holds_def)

lemma holds_update:
  assumes "i < length (ctl_workers c)"
  shows "holds (c\<lparr>ctl_queue := q, ctl_workers := (ctl_workers c)[i := v]\<rparr>) j y \<longleftrightarrow>
    (if j = i then \<exists>ops. v = Busy y ops else holds c j y)"
  using assms by (auto simp: holds_def)

lemma ctl_inv_queue:
  assumes "ctl_inv c" and "wq_inv q" and "wq_processing q = wq_processing (ctl_queue c)"
  shows "ctl_inv (c\<lparr>ctl_queue := q\<rparr>)"
  using assms by (simp add: ctl_inv_def)

lemma ctl_inv_processing: "ctl_inv c \<Longrightarrow> x \<in> wq_processing (ctl_queue c) \<longleftrightarrow> (\<exists>i. holds c i x)"
  by (simp add: ctl_inv_def)

lemma ctl_inv_unique: "ctl_inv c \<Longrightarrow> holds c i x \<Longrightarrow> holds c j x \<Longrightarrow> i = j"
  unfolding ctl_inv_def by blast

text \<open>
  One worker changes its program and the queue its items: the invariant holds again when the worker's
  item is nobody else's and the queue counts exactly the held items as being processed.
\<close>

lemma ctl_inv_worker:
  assumes inv: "ctl_inv c" and i: "i < length (ctl_workers c)" and q: "wq_inv q"
    and prog: "\<And>y ops. v = Busy y ops \<Longrightarrow> ends_with_done y ops"
    and excl: "\<And>j y ops. v = Busy y ops \<Longrightarrow> holds c j y \<Longrightarrow> j = i"
    and proc: "\<And>y. y \<in> wq_processing q \<longleftrightarrow> (\<exists>ops. v = Busy y ops) \<or> (\<exists>j. j \<noteq> i \<and> holds c j y)"
  shows "ctl_inv (c\<lparr>ctl_queue := q, ctl_workers := (ctl_workers c)[i := v]\<rparr>)" (is "ctl_inv ?c")
  unfolding ctl_inv_def
proof (intro conjI allI impI)
  show "wq_inv (ctl_queue ?c)" using q by simp
next
  fix j y ops assume j: "j < length (ctl_workers ?c) \<and> ctl_workers ?c ! j = Busy y ops"
  show "ends_with_done y ops"
  proof (cases "j = i")
    case True
    with i j prog show ?thesis by simp
  next
    case False
    with inv j show ?thesis by (simp add: ctl_inv_def)
  qed
next
  fix j k y assume "holds ?c j y \<and> holds ?c k y"
  then show "j = k"
    using excl ctl_inv_unique [OF inv, of j y k] unfolding holds_update [OF i] by (auto split: if_splits)
next
  fix y show "y \<in> wq_processing (ctl_queue ?c) \<longleftrightarrow> (\<exists>j. holds ?c j y)"
    using proc [of y] unfolding holds_update [OF i] by auto
qed

lemma holds_iff: "i < length (ctl_workers c) \<Longrightarrow> holds c i x \<longleftrightarrow> (\<exists>ops. ctl_workers c ! i = Busy x ops)"
  by (simp add: holds_def)

lemma ctl_inv_take:
  assumes inv: "ctl_inv c" and i: "i < length (ctl_workers c)" and idle: "ctl_workers c ! i = Idle"
    and get: "wq_Get (ctl_queue c) = Some (Some x, q)" and ops: "ends_with_done x ops"
  shows "ctl_inv (c\<lparr>ctl_queue := q, ctl_workers := (ctl_workers c)[i := Busy x ops]\<rparr>)"
proof (rule ctl_inv_worker [OF inv i])
  from inv have wq: "wq_inv (ctl_queue c)" by (simp add: ctl_inv_def)
  from wq get show "wq_inv q" by (rule client_go.get_inv)
  have fresh: "\<not> holds c j x" for j
    using client_go.get_fresh(1) [OF wq get] ctl_inv_processing [OF inv] by auto
  then show "Busy x ops = Busy y ops' \<Longrightarrow> holds c j y \<Longrightarrow> j = i" for j y ops' by simp
  from idle i have "\<not> holds c i y" for y by (simp add: holds_iff)
  then have others: "(\<exists>j. j \<noteq> i \<and> holds c j y) \<longleftrightarrow> (\<exists>j. holds c j y)" for y by metis
  have "wq_processing q = insert x (wq_processing (ctl_queue c))"
    using get by (auto simp: wq_Get_def split: list.splits if_splits)
  then show "y \<in> wq_processing q \<longleftrightarrow> (\<exists>ops'. Busy x ops = Busy y ops') \<or> (\<exists>j. j \<noteq> i \<and> holds c j y)" for y
    unfolding others using ctl_inv_processing [OF inv] by auto
qed (use ops in auto)

lemma ctl_inv_work:
  assumes inv: "ctl_inv c" and i: "i < length (ctl_workers c)" and busy: "ctl_workers c ! i = Busy x (op # ops)"
  shows "ctl_inv (c\<lparr>ctl_queue := apply_op b op (ctl_queue c),
    ctl_workers := (ctl_workers c)[i := (if ops = [] then Idle else Busy x ops)]\<rparr>)"
proof (rule ctl_inv_worker [OF inv i])
  from inv have wq: "wq_inv (ctl_queue c)" by (simp add: ctl_inv_def)
  from inv i busy have last: "ends_with_done x (op # ops)" by (simp add: ctl_inv_def)
  from i busy have held: "holds c i y \<longleftrightarrow> y = x" for y by (auto simp: holds_iff)
  have op_done: "op = OpDone y \<Longrightarrow> y = x \<and> ops = []" for y using last by (auto simp: ends_with_done_Cons)
  show "wq_inv (apply_op b op (ctl_queue c))"
    using op_done held ctl_inv_processing [OF inv] by (intro apply_op_inv(1) [OF wq]) auto
  show "(if ops = [] then Idle else Busy x ops) = Busy y ops' \<Longrightarrow> ends_with_done y ops'" for y ops'
    using last by (auto simp: ends_with_done_Cons split: if_splits)
  show "(if ops = [] then Idle else Busy x ops) = Busy y ops' \<Longrightarrow> holds c j y \<Longrightarrow> j = i" for j y ops'
    using ctl_inv_unique [OF inv, of j x i] held by (auto split: if_splits)
  have proc: "wq_processing (apply_op b op (ctl_queue c)) =
      (if ops = [] then wq_processing (ctl_queue c) - {x} else wq_processing (ctl_queue c))"
    using op_done last by (cases op) (auto simp: ends_with_done_Cons client_go.finish_busy)
  have others: "(\<exists>j. j \<noteq> i \<and> holds c j y) \<longleftrightarrow> y \<noteq> x \<and> (\<exists>j. holds c j y)" for y
    using held ctl_inv_unique [OF inv] by metis
  show "y \<in> wq_processing (apply_op b op (ctl_queue c)) \<longleftrightarrow>
      (\<exists>ops'. (if ops = [] then Idle else Busy x ops) = Busy y ops') \<or> (\<exists>j. j \<noteq> i \<and> holds c j y)" for y
    unfolding proc others using ctl_inv_processing [OF inv] held by (auto split: if_splits)
qed

lemma ctl_step_inv: "ctl_step c c' \<Longrightarrow> ctl_inv c \<Longrightarrow> ctl_inv c'"
proof (induction rule: ctl_step.induct)
  case (event c req)
  then show ?case by (intro ctl_inv_queue) (auto simp: ctl_inv_def client_go.add_inv client_go.add_busy)
next
  case (take i c x q result err)
  then show ?case by (intro ctl_inv_take ends_with_done_item_ops)
next
  case (work i c x op ops bucket)
  then show ?case by (intro ctl_inv_work)
next
  case (fire x c)
  then show ?case by (intro ctl_inv_queue) (auto simp: ctl_inv_def)
next
  case (shutdown c)
  then show ?case by (intro ctl_inv_queue) (auto simp: ctl_inv_def)
qed

lemma ctl_inv_init: "ctl_inv (ctl_init n)"
  by (auto simp: ctl_inv_def ctl_init_def holds_def) (simp_all add: wq_new_def)

lemma ctl_reachable_inv: "ctl_reachable n c \<Longrightarrow> ctl_inv c"
  by (induction rule: ctl_reachable.induct) (auto intro: ctl_inv_init ctl_step_inv)

section \<open>Safety and retention\<close>

lemma one_worker_per_item:
  "ctl_reachable n c \<Longrightarrow> holds c i x \<Longrightarrow> holds c j x \<Longrightarrow> i = j"
  using ctl_reachable_inv [of n c] unfolding ctl_inv_def by blast

lemma dirty_is_served:
  "ctl_reachable n c \<Longrightarrow> x \<in> wq_dirty (ctl_queue c) \<Longrightarrow> x \<in> set (wq_queue (ctl_queue c)) \<or> (\<exists>i. holds c i x)"
  using ctl_reachable_inv [of n c] by (auto simp: ctl_inv_def wq_inv_def)

text \<open>A requested item stays requested until a worker takes it.\<close>

lemma apply_op_keeps: "wq_dirty q \<subseteq> wq_dirty (apply_op b op q)"
  by (cases op) (auto simp: client_go.finish_wants wq_Forget_def wq_AddRateLimited_def wq_AddAfter_def
      wq_Add_cases Let_def)

lemma wanted_until_taken:
  assumes "ctl_step c c'" and "x \<in> wq_dirty (ctl_queue c)"
  shows "x \<in> wq_dirty (ctl_queue c') \<or> (\<exists>i. \<not> holds c i x \<and> holds c' i x)"
  using assms
proof (induction rule: ctl_step.induct)
  case (take i c y q result err)
  show ?case
  proof (cases "y = x")
    case True
    with take show ?thesis by (intro disjI2 exI [of _ i]) (simp add: holds_def)
  next
    case False
    with take show ?thesis by (auto simp: wq_Get_def split: list.splits if_splits)
  qed
next
  case (work i c y op ops bucket)
  then show ?case using apply_op_keeps by auto
qed (auto simp: wq_Add_cases wq_fire_def wq_ShutDown_def)

text \<open>An item that waits for its delay keeps waiting until it is requested again or the queue is shut down.\<close>

lemma apply_op_keeps_waiting: "wq_waiting q \<subseteq> wq_waiting (apply_op b op q)"
  by (cases op) (auto simp: wq_Done_def wq_Forget_def wq_AddRateLimited_def wq_AddAfter_def wq_Add_cases Let_def)

lemma waiting_until_requested:
  assumes "ctl_step c c'" and "x \<in> wq_waiting (ctl_queue c)"
  shows "x \<in> wq_waiting (ctl_queue c') \<or> x \<in> wq_dirty (ctl_queue c')"
  using assms(1)
proof (elim ctl_stepE)
  fix i y op ops bucket
  assume "c' = c\<lparr>ctl_queue := apply_op bucket op (ctl_queue c),
    ctl_workers := (ctl_workers c)[i := (if ops = [] then Idle else Busy y ops)]\<rparr>"
  with assms(2) apply_op_keeps_waiting show ?thesis by auto
qed (use assms(2) in \<open>auto simp: wq_Add_cases wq_fire_def wq_ShutDown_def wq_Get_def split: list.splits if_splits\<close>)

end
