(* ===== verification/OperatorMain.thy ===== *)
theory OperatorMain
  imports SecondaryWatch ControlLoop
begin

text \<open>
  Starting the operator: its configuration (pkg/operator interface.go), the loading of it
  (pkg/cmd/operator start.go), the construction of the clients (pkg/runtime client.go), the input check
  of the ClusterResourceOverride controller (controller.go) and the startup sequence (pkg/operator
  run.go). What the environment answers is an argument; the result is the sequence of visible steps.
\<close>

section \<open>Configuration (interface.go)\<close>

record OperatorConfig =
  oc_Name :: string
  oc_Namespace :: string
  oc_RestConfig :: "unit option"
  oc_OperandImage :: string
  oc_OperandVersion :: string

definition OperatorConfig_String :: "OperatorConfig \<Rightarrow> string" where
  "OperatorConfig_String c = ''name='' @ oc_Name c @ '' namespace='' @ oc_Namespace c
     @ '' operand-image='' @ oc_OperandImage c @ '' operand-version='' @ oc_OperandVersion c"

definition OperatorConfig_Validate :: "OperatorConfig \<Rightarrow> error option" where
  "OperatorConfig_Validate c =
     (if oc_Namespace c = [] then Some (ErrorString ''operator namespace must be specified'')
      else if oc_Name c = [] then Some (ErrorString ''operator name must be specified'')
      else if oc_RestConfig c = None then Some (ErrorString ''no rest.Config has been specified'')
      else if oc_OperandImage c = [] then Some (ErrorString ''no operand image has been specified'')
      else if oc_OperandVersion c = [] then Some (ErrorString ''no operand version has been specified'')
      else None)"

section \<open>Loading (start.go)\<close>

definition OperatorName :: string where "OperatorName = ''clusterresourceoverride''"
definition OperandImageEnvName :: string where "OperandImageEnvName = ''OPERAND_IMAGE''"
definition OperandVersionEnvName :: string where "OperandVersionEnvName = ''OPERAND_VERSION''"

text \<open>\<open>flag\<close>: a lookup of a command line flag; \<open>env\<close>: the process environment; \<open>build\<close>: client-go's.\<close>

definition load :: "(string \<Rightarrow> error + string) \<Rightarrow> (string \<Rightarrow> string)
    \<Rightarrow> (string \<Rightarrow> error + unit option) \<Rightarrow> error + OperatorConfig" where
  "load flag env build =
     (case flag ''kubeconfig'' of
        Inl err \<Rightarrow> Inl err
      | Inr kubeconfig \<Rightarrow> (case flag ''namespace'' of
          Inl err \<Rightarrow> Inl err
        | Inr namespace \<Rightarrow>
            let operandImage = env OperandImageEnvName in
            if operandImage = []
            then Inl (ErrorString (OperandImageEnvName @ ''=<empty> no operand image specified''))
            else let operandVersion = env OperandVersionEnvName in
            if operandVersion = []
            then Inl (ErrorString (OperandVersionEnvName @ ''=<empty> no operand version specified''))
            else (case build kubeconfig of
                Inl err \<Rightarrow> Inl (ErrorString (''error building kubeconfig: '' @ Error err))
              | Inr restConfig \<Rightarrow>
                  let c = \<lparr>oc_Name = OperatorName, oc_Namespace = namespace, oc_RestConfig = restConfig,
                        oc_OperandImage = operandImage, oc_OperandVersion = operandVersion\<rparr>
                  in (case OperatorConfig_Validate c of
                        Some validationError \<Rightarrow> Inl (ErrorString (''invalid configuration: '' @ Error validationError))
                      | None \<Rightarrow> Inr c))))"

section \<open>Clients (client.go)\<close>

text \<open>The result of each client constructor, in the order in which they are called.\<close>

record client_builds =
  build_operator :: "error option"
  build_kube :: "error option"
  build_dynamic :: "error option"
  build_apiregistration :: "error option"
  build_apiextension :: "error option"

definition NewClient :: "client_builds \<Rightarrow> error option" where
  "NewClient b = (case build_operator b of
     Some e \<Rightarrow> Some (ErrorString (''failed to construct client for autoscaling.openshift.io - '' @ Error e))
   | None \<Rightarrow> (case build_kube b of
     Some e \<Rightarrow> Some (ErrorString (''failed to construct client for kubernetes - '' @ Error e))
   | None \<Rightarrow> (case build_dynamic b of
     Some e \<Rightarrow> Some (ErrorString (''failed to construct dynamic client - '' @ Error e))
   | None \<Rightarrow> (case build_apiregistration b of
     Some e \<Rightarrow> Some (ErrorString (''failed to construct apiregistration client - '' @ Error e))
   | None \<Rightarrow> (case build_apiextension b of
     Some e \<Rightarrow> Some (ErrorString (''failed to construct apiextension client - '' @ Error e))
   | None \<Rightarrow> None)))))"

section \<open>Controllers\<close>

definition CRO_New_check :: "bool \<Rightarrow> bool \<Rightarrow> bool \<Rightarrow> error option" where
  "CRO_New_check options_nil client_nil context_nil =
     (if options_nil \<or> client_nil \<or> context_nil
      then Some (ErrorString ''invalid input to controller.New'') else None)"

definition CRO_ControllerName :: string where "CRO_ControllerName = ''clusterresourceoverride''"
definition RO_ControllerName :: string where "RO_ControllerName = ''resourceoverride''"

section \<open>Startup (run.go)\<close>

definition DefaultCR :: string where "DefaultCR = ''cluster''"
definition DefaultWorkerCount :: int where "DefaultWorkerCount = 1"

text \<open>What the cluster answers during startup: the clients and which informer caches sync.\<close>

record startup =
  su_clients :: client_builds
  su_namespaceSync :: "(string \<times> bool) list"
  su_secondarySync :: "(string \<times> bool) list"
  su_apiServerSynced :: bool
  su_croSynced :: bool
  su_roSynced :: bool

datatype op_event =
    OpSend "error option"
  | OpStartNamespaceWatch
  | OpWatch watch_event
  | OpStartRunner string
  | OpServeHealth
  | OpWaitDone string
  | OpCloseDone

text \<open>The first message a runner sends on its error channel.\<close>

fun first_message :: "runner_event list \<Rightarrow> error option option" where
  "first_message [] = None"
| "first_message (SendError e # es) = Some e"
| "first_message (e # es) = first_message es"

definition runner_message :: "string \<Rightarrow> bool \<Rightarrow> error option" where
  "runner_message name synced =
     (case first_message (runner_Run False False name DefaultWorkerCount synced) of
        None \<Rightarrow> None | Some m \<Rightarrow> m)"

definition operator_Run :: "startup \<Rightarrow> op_event list" where
  "operator_Run s =
     (case NewClient (su_clients s) of
        Some err \<Rightarrow> [OpSend (Some err), OpCloseDone]
      | None \<Rightarrow>
     (case CRO_New_check False False False of
        Some err \<Rightarrow> [OpSend (Some (ErrorString (''failed to create clusterresourceoverride controller - '' @ Error err))), OpCloseDone]
      | None \<Rightarrow>
     (case RO_New_check (Some (Some \<lparr>has_Operator = True, has_Kubernetes = True\<rparr>)) of
        Some err \<Rightarrow> [OpSend (Some (ErrorString (''failed to create resourceoverride controller - '' @ Error err))), OpCloseDone]
      | None \<Rightarrow>
     OpStartNamespaceWatch # (case nsWatchStarter (su_namespaceSync s) of
        Some err \<Rightarrow> [OpSend (Some (ErrorString (''failed to start namespace watch for resourceoverride controller - '' @ Error err))), OpCloseDone]
      | None \<Rightarrow>
     (let (evs, started) = secondary_start True DefaultCR (su_secondarySync s) (su_apiServerSynced s)
      in map OpWatch evs @ (case started of
        Some err \<Rightarrow> [OpSend (Some (ErrorString (''failed to start watch on secondary resources - '' @ Error err))), OpCloseDone]
      | None \<Rightarrow>
     OpStartRunner CRO_ControllerName # (case runner_message CRO_ControllerName (su_croSynced s) of
        Some err \<Rightarrow> [OpSend (Some err), OpCloseDone]
      | None \<Rightarrow>
     OpStartRunner RO_ControllerName # (case runner_message RO_ControllerName (su_roSynced s) of
        Some err \<Rightarrow> [OpSend (Some err), OpCloseDone]
      | None \<Rightarrow> [OpServeHealth, OpSend None, OpWaitDone CRO_ControllerName, OpWaitDone RO_ControllerName, OpCloseDone]))))))))"

section \<open>Facts\<close>

lemma OperatorConfig_Validate_iff:
  "OperatorConfig_Validate c = None \<longleftrightarrow> oc_Namespace c \<noteq> [] \<and> oc_Name c \<noteq> [] \<and> oc_RestConfig c \<noteq> None
     \<and> oc_OperandImage c \<noteq> [] \<and> oc_OperandVersion c \<noteq> []"
  by (simp add: OperatorConfig_Validate_def)

lemma load_valid:
  assumes "load flag env build = Inr c"
  shows "OperatorConfig_Validate c = None" and "oc_Name c = OperatorName"
    and "flag ''namespace'' = Inr (oc_Namespace c)"
    and "oc_OperandImage c = env OperandImageEnvName" and "oc_OperandVersion c = env OperandVersionEnvName"
  using assms by (auto simp: load_def Let_def split: sum.splits option.splits if_splits)

lemma load_complete:
  assumes "flag ''kubeconfig'' = Inr k" and "flag ''namespace'' = Inr ns" and "ns \<noteq> []"
    and "env OperandImageEnvName \<noteq> []" and "env OperandVersionEnvName \<noteq> []" and "build k = Inr (Some r)"
  shows "\<exists>c. load flag env build = Inr c"
  using assms by (simp add: load_def Let_def OperatorConfig_Validate_def OperatorName_def)

lemma NewClient_None_iff:
  "NewClient b = None \<longleftrightarrow> build_operator b = None \<and> build_kube b = None \<and> build_dynamic b = None
     \<and> build_apiregistration b = None \<and> build_apiextension b = None"
  by (auto simp: NewClient_def split: option.splits)

lemma runner_message_None_iff: "runner_message name synced = None \<longleftrightarrow> synced"
  by (simp add: runner_message_def runner_Run_def DefaultWorkerCount_def)

text \<open>The runner sends exactly one message and closes its channel last.\<close>

definition sent :: "runner_event list \<Rightarrow> error option list" where
  "sent evs = concat (map (\<lambda>e. case e of SendError m \<Rightarrow> [m] | _ \<Rightarrow> []) evs)"

lemma runner_Run_sends_once:
  "length (sent (runner_Run p c n k synced)) = 1 \<and> last (runner_Run p c n k synced) = CloseDone
    \<and> (sent (runner_Run p c n k synced) = [None] \<longleftrightarrow> \<not> p \<and> \<not> c \<and> synced)"
  by (simp add: runner_Run_def sent_def map_replicate_const concat_replicate_trivial)

definition op_sent :: "op_event list \<Rightarrow> error option list" where
  "op_sent evs = concat (map (\<lambda>e. case e of OpSend m \<Rightarrow> [m] | _ \<Rightarrow> []) evs)"

lemma op_sent_simps [simp]:
  "op_sent [] = []" "op_sent (OpSend m # es) = m # op_sent es" "op_sent (es @ fs) = op_sent es @ op_sent fs"
  "op_sent (OpStartNamespaceWatch # es) = op_sent es" "op_sent (OpStartRunner n # es) = op_sent es"
  "op_sent (OpServeHealth # es) = op_sent es" "op_sent (OpWaitDone n # es) = op_sent es"
  "op_sent (OpCloseDone # es) = op_sent es" "op_sent (map OpWatch ws) = []"
  by (simp_all add: op_sent_def)

lemma nsWatchStarter_None_iff: "nsWatchStarter status = None \<longleftrightarrow> (\<forall>(t, synced) \<in> set status. synced)"
  by (auto simp: nsWatchStarter_def find_None_iff find_Some_iff split: option.splits) (metis nth_mem case_prodI2 case_prodD)

lemma secondary_start_None_iff:
  "snd (secondary_start d p status a) = None \<longleftrightarrow> (\<forall>(t, synced) \<in> set status. synced)"
  using check_Nil_iff [of status] by (simp add: secondary_start_def Let_def)

text \<open>Everything that has to come up during startup came up.\<close>

definition all_up :: "startup \<Rightarrow> bool" where
  "all_up s \<longleftrightarrow> NewClient (su_clients s) = None \<and> (\<forall>(t, synced) \<in> set (su_namespaceSync s). synced)
     \<and> (\<forall>(t, synced) \<in> set (su_secondarySync s). synced) \<and> su_croSynced s \<and> su_roSynced s"

lemma operator_Run_once:
  "length (op_sent (operator_Run s)) = 1 \<and> last (operator_Run s) = OpCloseDone"
  by (simp add: operator_Run_def split: option.splits prod.splits)

lemma operator_Run_ready_iff: "op_sent (operator_Run s) = [None] \<longleftrightarrow> all_up s"
proof -
  have checks: "CRO_New_check False False False = None"
    "RO_New_check (Some (Some \<lparr>has_Operator = True, has_Kubernetes = True\<rparr>)) = None"
    by (simp_all add: CRO_New_check_def RO_New_check_def)
  obtain evs st where start: "secondary_start True DefaultCR (su_secondarySync s) (su_apiServerSynced s) = (evs, st)"
    by (cases "secondary_start True DefaultCR (su_secondarySync s) (su_apiServerSynced s)")
  have st: "st = None \<longleftrightarrow> (\<forall>(t, synced) \<in> set (su_secondarySync s). synced)"
    using secondary_start_None_iff [of True DefaultCR "su_secondarySync s" "su_apiServerSynced s"] start by simp
  have up: "all_up s \<longleftrightarrow> NewClient (su_clients s) = None \<and> nsWatchStarter (su_namespaceSync s) = None \<and> st = None
     \<and> runner_message CRO_ControllerName (su_croSynced s) = None \<and> runner_message RO_ControllerName (su_roSynced s) = None"
    by (simp only: all_up_def nsWatchStarter_None_iff st runner_message_None_iff)
  show ?thesis
    unfolding up operator_Run_def by (simp add: checks start split: option.splits)
qed

end
