(* ===== verification/Watches.thy ===== *)
theory Watches
  imports Clientset OperatorMain
begin

text \<open>
  The informers that the two controllers start besides their own: the watch on secondary resources
  (pkg/secondarywatch start.go, lister.go) and the namespace watch of the ResourceOverride controller
  (pkg/resourceoverride controller.go), composed from the informer factory and the start functions.

  The Kubernetes factory of client-go (vendor/k8s.io/client-go/informers/factory.go) is generated by
  the same generator as the operator's own and has the same methods, so that the model of
  \<open>InformerFactory\<close> serves for both.
\<close>

section \<open>Kubernetes informers (vendored client-go)\<close>

record kube_kind =
  kk_type :: string
  kk_gvr :: GroupVersionResource
  kk_namespaced :: bool

definition kube_gvr :: "string \<Rightarrow> string \<Rightarrow> GroupVersionResource" where
  "kube_gvr g r = \<lparr>gvr_Group = g, gvr_Version = ''v1'', gvr_Resource = r\<rparr>"

definition deployment_kind :: kube_kind where
  "deployment_kind = \<lparr>kk_type = ''*v1.Deployment'', kk_gvr = kube_gvr ''apps'' ''deployments'', kk_namespaced = True\<rparr>"
definition daemonset_kind :: kube_kind where
  "daemonset_kind = \<lparr>kk_type = ''*v1.DaemonSet'', kk_gvr = kube_gvr ''apps'' ''daemonsets'', kk_namespaced = True\<rparr>"
definition pod_kind :: kube_kind where
  "pod_kind = \<lparr>kk_type = ''*v1.Pod'', kk_gvr = kube_gvr [] ''pods'', kk_namespaced = True\<rparr>"
definition configmap_kind :: kube_kind where
  "configmap_kind = \<lparr>kk_type = ''*v1.ConfigMap'', kk_gvr = kube_gvr [] ''configmaps'', kk_namespaced = True\<rparr>"
definition service_kind :: kube_kind where
  "service_kind = \<lparr>kk_type = ''*v1.Service'', kk_gvr = kube_gvr [] ''services'', kk_namespaced = True\<rparr>"
definition secret_kind :: kube_kind where
  "secret_kind = \<lparr>kk_type = ''*v1.Secret'', kk_gvr = kube_gvr [] ''secrets'', kk_namespaced = True\<rparr>"
definition serviceaccount_kind :: kube_kind where
  "serviceaccount_kind = \<lparr>kk_type = ''*v1.ServiceAccount'', kk_gvr = kube_gvr [] ''serviceaccounts'', kk_namespaced = True\<rparr>"
definition webhook_kind :: kube_kind where
  "webhook_kind = \<lparr>kk_type = ''*v1.MutatingWebhookConfiguration'',
     kk_gvr = kube_gvr ''admissionregistration.k8s.io'' ''mutatingwebhookconfigurations'', kk_namespaced = False\<rparr>"
definition admissionpolicy_kind :: kube_kind where
  "admissionpolicy_kind = \<lparr>kk_type = ''*v1.ValidatingAdmissionPolicy'',
     kk_gvr = kube_gvr ''admissionregistration.k8s.io'' ''validatingadmissionpolicies'', kk_namespaced = False\<rparr>"
definition admissionpolicybinding_kind :: kube_kind where
  "admissionpolicybinding_kind = \<lparr>kk_type = ''*v1.ValidatingAdmissionPolicyBinding'',
     kk_gvr = kube_gvr ''admissionregistration.k8s.io'' ''validatingadmissionpolicybindings'', kk_namespaced = False\<rparr>"
definition namespace_kind :: kube_kind where
  "namespace_kind = \<lparr>kk_type = ''*v1.Namespace'', kk_gvr = kube_gvr [] ''namespaces'', kk_namespaced = False\<rparr>"

text \<open>The typed informer of a kind: \<open>New<Kind>InformerWithOptions\<close> and the methods \<open>Informer\<close> and \<open>Lister\<close>.\<close>

definition kube_NewInformerWithOptions :: "kube_kind \<Rightarrow> 'c \<Rightarrow> string \<Rightarrow> InformerOptions \<Rightarrow> ('c, 't) informer" where
  "kube_NewInformerWithOptions kind client namespace options =
     (let ns = (if kk_namespaced kind then namespace else []); call = (\<lambda>verb opts. \<lparr>call_client = client,
            call_verb = verb, call_gvr = kk_gvr kind, call_namespace = ns,
            call_opts = tweak (opt_TweakListOptions options) opts\<rparr>)
      in \<lparr>inf_objectType = kk_type kind, inf_ListFunc = call ListVerb, inf_WatchFunc = call WatchVerb,
          inf_ResyncPeriod = opt_ResyncPeriod options, inf_Indexers = opt_Indexers options,
          inf_Identifier = (opt_InformerName options, kk_gvr kind), inf_transform = None\<rparr>)"

definition kube_defaultInformer :: "kube_kind \<Rightarrow> version \<Rightarrow> string option \<Rightarrow> 'c \<Rightarrow> int \<Rightarrow> ('c, 't) informer" where
  "kube_defaultInformer kind v informerName client resyncPeriod =
     kube_NewInformerWithOptions kind client (ver_namespace v) \<lparr>opt_ResyncPeriod = resyncPeriod,
       opt_Indexers = [NamespaceIndex], opt_InformerName = informerName,
       opt_TweakListOptions = ver_tweakListOptions v\<rparr>"

definition kube_Informer :: "kube_kind \<Rightarrow> version \<Rightarrow> ('c, 't) sharedInformerFactory
    \<Rightarrow> ('c, 't) informer \<times> ('c, 't) sharedInformerFactory" where
  "kube_Informer kind v f = InformerFor (kk_type kind) (kube_defaultInformer kind v (f_informerName f)) f"

text \<open>A lister reads the indexer of its informer, so that the informer stands for it.\<close>

definition kube_Lister :: "kube_kind \<Rightarrow> version \<Rightarrow> ('c, 't) sharedInformerFactory
    \<Rightarrow> ('c, 't) informer \<times> ('c, 't) sharedInformerFactory" where
  "kube_Lister kind v f = kube_Informer kind v f"

text \<open>\<open>reflect.Type.Name\<close>: a pointer type has no name.\<close>

definition type_Name :: "string \<Rightarrow> string" where
  "type_Name t = (case t of [] \<Rightarrow> [] | c # _ \<Rightarrow> if c = CHR ''*'' then [] else last (strings_Split t CHR ''.''))"

section \<open>The secondary watch (start.go, lister.go)\<close>

record ('c, 't) Lister =
  ls_deployment :: "('c, 't) informer"
  ls_daemonset :: "('c, 't) informer"
  ls_pod :: "('c, 't) informer"
  ls_configmap :: "('c, 't) informer"
  ls_service :: "('c, 't) informer"
  ls_secret :: "('c, 't) informer"
  ls_serviceaccount :: "('c, 't) informer"
  ls_webhook :: "('c, 't) informer"
  ls_admissionpolicy :: "('c, 't) informer"
  ls_admissionpolicybinding :: "('c, 't) informer"

definition secondary_kube_kinds :: "kube_kind list" where
  "secondary_kube_kinds = [deployment_kind, daemonset_kind, pod_kind, configmap_kind, service_kind, secret_kind,
     serviceaccount_kind, webhook_kind, admissionpolicy_kind, admissionpolicybinding_kind]"

text \<open>The group and version interfaces are taken from the factory once, before any informer exists.\<close>

definition secondary_factory :: "'c \<Rightarrow> int \<Rightarrow> string \<Rightarrow> ('c, 't) sharedInformerFactory" where
  "secondary_factory client resyncPeriod namespace =
     NewSharedInformerFactoryWithOptions client resyncPeriod [WithNamespace namespace]"

definition secondary_version :: "('c, 't) sharedInformerFactory \<Rightarrow> version" where
  "secondary_version factory = group_V1 (factory_group factory)"

definition secondarywatch_New :: "'c \<Rightarrow> int \<Rightarrow> string \<Rightarrow> ('c, 't) Lister \<times> ('c, 't) sharedInformerFactory" where
  "secondarywatch_New client resyncPeriod namespace =
     (let factory = secondary_factory client resyncPeriod namespace; v = secondary_version factory;
          (deployment, f1) = kube_Lister deployment_kind v factory;
          (daemonset, f2) = kube_Lister daemonset_kind v f1;
          (pod, f3) = kube_Lister pod_kind v f2;
          (configmap, f4) = kube_Lister configmap_kind v f3;
          (service, f5) = kube_Lister service_kind v f4;
          (secret, f6) = kube_Lister secret_kind v f5;
          (serviceaccount, f7) = kube_Lister serviceaccount_kind v f6;
          (webhook, f8) = kube_Lister webhook_kind v f7;
          (admissionpolicy, f9) = kube_Lister admissionpolicy_kind v f8;
          (admissionpolicybinding, f10) = kube_Lister admissionpolicybinding_kind v f9
      in (\<lparr>ls_deployment = deployment, ls_daemonset = daemonset, ls_pod = pod, ls_configmap = configmap,
           ls_service = service, ls_secret = secret, ls_serviceaccount = serviceaccount, ls_webhook = webhook,
           ls_admissionpolicy = admissionpolicy, ls_admissionpolicybinding = admissionpolicybinding\<rparr>, f10))"

text \<open>\<open>x.Informer().AddEventHandler(handler)\<close> for each kind: the informers that got the handler.\<close>

fun add_handlers :: "kube_kind list \<Rightarrow> version \<Rightarrow> ('c, 't) sharedInformerFactory
    \<Rightarrow> ('c, 't) informer list \<times> ('c, 't) sharedInformerFactory" where
  "add_handlers [] v f = ([], f)"
| "add_handlers (kind # kinds) v f =
     (let (i, f1) = kube_Informer kind v f; (is, f2) = add_handlers kinds v f1 in (i # is, f2))"

text \<open>What \<open>for objType, synced := range status\<close> visits; \<open>hasSynced\<close> as in \<open>WaitForCacheSyncWithContext\<close>.\<close>

definition status_entries :: "(string \<Rightarrow> bool) \<Rightarrow> ('c, 't) sharedInformerFactory \<Rightarrow> (string \<times> bool) list" where
  "status_entries hasSynced f =
     (let status = WaitForCacheSync hasSynced None f
      in List.map_filter (\<lambda>objType. map_option (\<lambda>synced. (type_Name objType, synced)) (status objType)) (informer_types f))"

record ('c, 't) watch_run =
  wr_handled :: "('c, 't) informer list"
  wr_factory :: "('c, 't) sharedInformerFactory"
  wr_events :: "watch_event list"
  wr_result :: "error option"

definition secondarywatch_Start :: "('c, 't) sharedInformerFactory \<Rightarrow> version \<Rightarrow> bool \<Rightarrow> string \<Rightarrow> (string \<Rightarrow> bool) \<Rightarrow> bool
    \<Rightarrow> ('c, 't) watch_run" where
  "secondarywatch_Start factory v isDirect primaryResourceName hasSynced apiServerSynced =
     (let (handled, f1) = add_handlers secondary_kube_kinds v factory;
          f2 = Start f1;
          (evs, err) = secondary_start isDirect primaryResourceName (status_entries hasSynced f2) apiServerSynced
      in \<lparr>wr_handled = handled, wr_factory = f2, wr_events = evs, wr_result = err\<rparr>)"

definition CoreV1ConfigMapLister :: "('c, 't) Lister \<Rightarrow> ('c, 't) informer" where
  "CoreV1ConfigMapLister l = ls_configmap l"
definition CoreV1SecretLister :: "('c, 't) Lister \<Rightarrow> ('c, 't) informer" where
  "CoreV1SecretLister l = ls_secret l"
definition CoreV1ServiceLister :: "('c, 't) Lister \<Rightarrow> ('c, 't) informer" where
  "CoreV1ServiceLister l = ls_service l"
definition AppsV1DeploymentLister :: "('c, 't) Lister \<Rightarrow> ('c, 't) informer" where
  "AppsV1DeploymentLister l = ls_deployment l"
definition AppsV1DaemonSetLister :: "('c, 't) Lister \<Rightarrow> ('c, 't) informer" where
  "AppsV1DaemonSetLister l = ls_daemonset l"
definition AdmissionRegistrationV1MutatingWebhookConfigurationLister :: "('c, 't) Lister \<Rightarrow> ('c, 't) informer" where
  "AdmissionRegistrationV1MutatingWebhookConfigurationLister l = ls_webhook l"
definition AdmissionRegistrationV1ValidatingAdmissionPolicyLister :: "('c, 't) Lister \<Rightarrow> ('c, 't) informer" where
  "AdmissionRegistrationV1ValidatingAdmissionPolicyLister l = ls_admissionpolicy l"
definition AdmissionRegistrationV1ValidatingAdmissionPolicyBindingLister :: "('c, 't) Lister \<Rightarrow> ('c, 't) informer" where
  "AdmissionRegistrationV1ValidatingAdmissionPolicyBindingLister l = ls_admissionpolicybinding l"

section \<open>The namespace watch (resourceoverride/controller.go)\<close>

text \<open>The namespace lister, the informer that got the namespace handler, and the factory.\<close>

definition namespace_watch :: "'c \<Rightarrow> int
    \<Rightarrow> ('c, 't) informer \<times> ('c, 't) informer \<times> ('c, 't) sharedInformerFactory" where
  "namespace_watch client resyncPeriod =
     (let nsFactory = NewSharedInformerFactory client resyncPeriod;
          v = group_V1 (factory_group nsFactory);
          (namespaceLister, f1) = kube_Lister namespace_kind v nsFactory;
          (handled, f2) = kube_Informer namespace_kind v f1
      in (namespaceLister, handled, f2))"

definition start_namespace_watch :: "(string \<Rightarrow> bool) \<Rightarrow> ('c, 't) sharedInformerFactory
    \<Rightarrow> error option \<times> ('c, 't) sharedInformerFactory" where
  "start_namespace_watch hasSynced nsFactory =
     (let f1 = Start nsFactory in (nsWatchStarter (status_entries hasSynced f1), f1))"

section \<open>Facts\<close>

lemma kube_Informer_step:
  "map_of (f_informers f) (kk_type kind) = Some i \<Longrightarrow> kube_Informer kind v f = (i, f)"
  by (simp add: kube_Informer_def InformerFor_def)

text \<open>Asking for the informers of kinds that exist already changes nothing.\<close>

lemma add_handlers_existing:
  assumes "list_all2 (\<lambda>kind i. map_of (f_informers f) (kk_type kind) = Some i) kinds is"
  shows "add_handlers kinds v f = (is, f)"
  using assms by (induction kinds "is" rule: list_all2_induct) (simp_all add: kube_Informer_step)

lemma type_Name_pointer [simp]: "type_Name (CHR ''*'' # t) = []"
  by (simp add: type_Name_def)

lemma status_entries_Start:
  assumes "factory_inv f" and "\<not> f_shuttingDown f"
  shows "status_entries hasSynced (Start f) = map (\<lambda>t. (type_Name t, hasSynced t)) (informer_types f)"
proof -
  note start = factory_inv_Start [OF assms(1)]
  have "informer_types (Start f) = informer_types f"
    by (simp add: Start_def StartWithContext_def)
  moreover have "WaitForCacheSync hasSynced None (Start f) t = Some (hasSynced t)" if "t \<in> set (informer_types f)" for t
    using WaitForCacheSync_started [OF start(1)] start(2) assms(2) that by (simp add: Start_def)
  ultimately show ?thesis
    by (simp add: status_entries_def Let_def List.map_filter_def)
qed

text \<open>The informer of a kind in a fresh factory.\<close>

definition fresh_informer :: "'c \<Rightarrow> int \<Rightarrow> string \<Rightarrow> kube_kind \<Rightarrow> ('c, 't) informer" where
  "fresh_informer client resyncPeriod ns kind =
     kube_defaultInformer kind \<lparr>ver_namespace = ns, ver_tweakListOptions = None\<rparr> None client resyncPeriod"

lemma fresh_informer_calls:
  "inf_ListFunc (fresh_informer client resyncPeriod ns kind) opts = \<lparr>call_client = client, call_verb = ListVerb,
     call_gvr = kk_gvr kind, call_namespace = (if kk_namespaced kind then ns else []), call_opts = opts\<rparr>"
  "inf_WatchFunc (fresh_informer client resyncPeriod ns kind) opts = \<lparr>call_client = client, call_verb = WatchVerb,
     call_gvr = kk_gvr kind, call_namespace = (if kk_namespaced kind then ns else []), call_opts = opts\<rparr>"
  by (simp_all add: fresh_informer_def kube_defaultInformer_def kube_NewInformerWithOptions_def tweak_def Let_def)

lemma update_fresh: "k \<notin> set (map fst xs) \<Longrightarrow> AList.update k v xs = xs @ [(k, v)]"
  by (induction xs) auto

lemma kube_Lister_fresh:
  assumes "kk_type kind \<notin> set (informer_types f)" and "f_customResync f = Map.empty" and "f_transform f = None"
    and "f_informerName f = None"
  shows "kube_Lister kind \<lparr>ver_namespace = ns, ver_tweakListOptions = None\<rparr> f =
    (fresh_informer (f_client f) (f_defaultResync f) ns kind,
     f\<lparr>f_informers := f_informers f @ [(kk_type kind, fresh_informer (f_client f) (f_defaultResync f) ns kind)]\<rparr>)"
proof -
  have "map_of (f_informers f) (kk_type kind) = None" using assms(1) by (simp add: map_of_eq_None_iff)
  then show ?thesis
    using assms by (simp add: kube_Lister_def kube_Informer_def InformerFor_def fresh_informer_def update_fresh Let_def)
qed

lemmas kind_defs = deployment_kind_def daemonset_kind_def pod_kind_def configmap_kind_def service_kind_def
  secret_kind_def serviceaccount_kind_def webhook_kind_def admissionpolicy_kind_def admissionpolicybinding_kind_def
  namespace_kind_def

definition Lister_informers :: "('c, 't) Lister \<Rightarrow> ('c, 't) informer list" where
  "Lister_informers l = [ls_deployment l, ls_daemonset l, ls_pod l, ls_configmap l, ls_service l, ls_secret l,
     ls_serviceaccount l, ls_webhook l, ls_admissionpolicy l, ls_admissionpolicybinding l]"

abbreviation secondary_informers :: "'c \<Rightarrow> int \<Rightarrow> string \<Rightarrow> (string \<times> ('c, 't) informer) list" where
  "secondary_informers client resyncPeriod ns \<equiv>
     map (\<lambda>kind. (kk_type kind, fresh_informer client resyncPeriod ns kind)) secondary_kube_kinds"

lemma secondary_factory_simps:
  "f_client (secondary_factory client resyncPeriod ns) = client"
  "f_defaultResync (secondary_factory client resyncPeriod ns) = resyncPeriod"
  "f_customResync (secondary_factory client resyncPeriod ns) = Map.empty"
  "f_transform (secondary_factory client resyncPeriod ns) = None"
  "f_informerName (secondary_factory client resyncPeriod ns) = None"
  "f_informers (secondary_factory client resyncPeriod ns) = []"
  "f_shuttingDown (secondary_factory client resyncPeriod ns) = False"
  "f_running (secondary_factory client resyncPeriod ns) = []"
  "f_startedInformers (secondary_factory client resyncPeriod ns) = (\<lambda>_. False)"
  "secondary_version (secondary_factory client resyncPeriod ns) = \<lparr>ver_namespace = ns, ver_tweakListOptions = None\<rparr>"
  by (simp_all add: secondary_factory_def secondary_version_def group_V1_def factory_group_def
      NewSharedInformerFactoryWithOptions_def WithNamespace_def)

lemma kinds_distinct: "distinct (map kk_type secondary_kube_kinds)"
  by (simp add: secondary_kube_kinds_def kind_defs)

lemma secondarywatch_New_informers:
  assumes "secondarywatch_New client resyncPeriod ns = (lister, f)"
  shows "f = (secondary_factory client resyncPeriod ns)\<lparr>f_informers := secondary_informers client resyncPeriod ns\<rparr>"
    and "Lister_informers lister = map (fresh_informer client resyncPeriod ns) secondary_kube_kinds"
  using assms
  by (auto simp: secondarywatch_New_def kube_Lister_fresh secondary_factory_simps kind_defs secondary_kube_kinds_def
      Lister_informers_def Let_def)

lemma strings_Join_blanks: "strings_Join (replicate (Suc n) []) '' '' = replicate n CHR '' ''"
  by (induction n) (simp_all add: replicate_append_same)

lemma secondarywatch_Start_run:
  assumes new: "secondarywatch_New client resyncPeriod ns = (lister, f)"
    and run: "r = secondarywatch_Start f \<lparr>ver_namespace = ns, ver_tweakListOptions = None\<rparr> isDirect primary hasSynced api"
  shows "wr_handled r = Lister_informers lister"
    and "set (f_running (wr_factory r)) = kk_type ` set secondary_kube_kinds"
    and "wr_result r = None \<longleftrightarrow> list_all hasSynced (map kk_type secondary_kube_kinds)"
    and "secondary_start isDirect primary (map (\<lambda>t. ([], hasSynced t)) (map kk_type secondary_kube_kinds)) api
      = (wr_events r, wr_result r)"
proof -
  note f = secondarywatch_New_informers [OF new]
  have inv: "factory_inv f" using kinds_distinct
    by (simp add: f(1) factory_inv_def secondary_factory_simps comp_def)
  have "list_all2 (\<lambda>kind i. map_of (f_informers f) (kk_type kind) = Some i) secondary_kube_kinds (Lister_informers lister)"
    using kinds_distinct unfolding f(2)
    by (auto simp: list_all2_conv_all_nth f(1) comp_def intro!: map_of_is_SomeI)
  note handled = add_handlers_existing [OF this]
  have types: "informer_types f = map kk_type secondary_kube_kinds" by (simp add: f(1) comp_def)
  have "map (\<lambda>t. (type_Name t, hasSynced t)) (map kk_type secondary_kube_kinds)
      = map (\<lambda>t. ([], hasSynced t)) (map kk_type secondary_kube_kinds)"
    by (simp add: secondary_kube_kinds_def kind_defs)
  then have status: "status_entries hasSynced (Start f) = map (\<lambda>t. ([], hasSynced t)) (map kk_type secondary_kube_kinds)"
    using status_entries_Start [OF inv] by (simp add: types f(1) secondary_factory_simps)
  have r: "wr_factory r = Start f" "wr_handled r = Lister_informers lister"
    by (simp_all add: run secondarywatch_Start_def handled Let_def split_beta)
  then show "wr_handled r = Lister_informers lister" by blast
  have "\<not> f_shuttingDown f" by (simp add: f(1) secondary_factory_simps)
  with factory_inv_Start(2) [OF inv] show "set (f_running (wr_factory r)) = kk_type ` set secondary_kube_kinds"
    by (simp add: r(1) Start_def types)
  show start: "secondary_start isDirect primary (map (\<lambda>t. ([], hasSynced t)) (map kk_type secondary_kube_kinds)) api
      = (wr_events r, wr_result r)"
    by (simp add: run secondarywatch_Start_def handled Let_def split_beta status)
  show "wr_result r = None \<longleftrightarrow> list_all hasSynced (map kk_type secondary_kube_kinds)"
    using secondary_start_None_iff [of isDirect primary "map (\<lambda>t. ([], hasSynced t)) (map kk_type secondary_kube_kinds)" api]
    unfolding start by (simp add: list_all_iff)
qed

text \<open>The message of a failed start shows how many informers did not sync, but not which.\<close>

lemma check_unnamed: "check (map (\<lambda>t. ([], hasSynced t)) ts) = replicate (length (filter (\<lambda>t. \<not> hasSynced t) ts)) []"
  by (induction ts) (simp_all add: check_def)

lemma secondary_start_unnamed:
  assumes "filter (\<lambda>t. \<not> hasSynced t) ts = t # unsynced"
  shows "snd (secondary_start isDirect primary (map (\<lambda>t. ([], hasSynced t)) ts) api) =
    Some (ErrorString (''WaitForCacheSync did not successfully complete resources=[''
      @ replicate (length unsynced) CHR '' '' @ '']''))"
  using assms strings_Join_blanks [of "length unsynced"]
  by (simp add: secondary_start_def check_unnamed fmt_slice_def Let_def)

lemma namespace_watch_run:
  fixes f :: "('c, 't) sharedInformerFactory" and lister :: "('c, 't) informer"
  assumes "namespace_watch client resyncPeriod = (lister, handled, f)"
  shows "lister = fresh_informer client resyncPeriod [] namespace_kind" and "handled = lister"
    and "f_informers f = [(kk_type namespace_kind, lister)]"
    and "fst (start_namespace_watch hasSynced f) = (if hasSynced (kk_type namespace_kind) then None
      else Some (ErrorString ''namespace informer cache sync failed for ''))"
    and "f_running (snd (start_namespace_watch hasSynced f)) = [kk_type namespace_kind]"
proof -
  let ?f0 = "NewSharedInformerFactory client resyncPeriod :: ('c, 't) sharedInformerFactory"
  let ?i = "fresh_informer client resyncPeriod [] namespace_kind :: ('c, 't) informer"
  have f0: "group_V1 (factory_group ?f0) = \<lparr>ver_namespace = [], ver_tweakListOptions = None\<rparr>"
    "f_client ?f0 = client" "f_defaultResync ?f0 = resyncPeriod" "f_customResync ?f0 = Map.empty" "f_transform ?f0 = None"
    "f_informerName ?f0 = None" "f_informers ?f0 = []" "f_running ?f0 = []" "f_shuttingDown ?f0 = False"
    "f_startedInformers ?f0 = (\<lambda>_. False)"
    by (simp_all add: group_V1_def factory_group_def NewSharedInformerFactory_def NewSharedInformerFactoryWithOptions_def)
  have "kube_Lister namespace_kind \<lparr>ver_namespace = [], ver_tweakListOptions = None\<rparr> ?f0
      = (?i, ?f0\<lparr>f_informers := [(kk_type namespace_kind, ?i)]\<rparr>)"
    using kube_Lister_fresh [of namespace_kind ?f0 "[]"] by (simp add: f0)
  moreover have "kube_Informer namespace_kind v (?f0\<lparr>f_informers := [(kk_type namespace_kind, ?i)]\<rparr>)
      = (?i, ?f0\<lparr>f_informers := [(kk_type namespace_kind, ?i)]\<rparr>)" for v
    by (rule kube_Informer_step) simp
  ultimately have eq: "lister = ?i" "handled = ?i" "f = ?f0\<lparr>f_informers := [(kk_type namespace_kind, ?i)]\<rparr>"
    using assms by (auto simp add: namespace_watch_def f0 Let_def)
  then show "lister = ?i" "handled = lister" "f_informers f = [(kk_type namespace_kind, lister)]" by simp_all
  have inv: "factory_inv f" "\<not> f_shuttingDown f" by (simp_all add: eq factory_inv_def f0)
  have "type_Name (kk_type namespace_kind) = []" by (simp add: namespace_kind_def)
  then show "fst (start_namespace_watch hasSynced f) = (if hasSynced (kk_type namespace_kind) then None
      else Some (ErrorString ''namespace informer cache sync failed for ''))"
    using status_entries_Start [OF inv, of hasSynced]
    by (simp add: start_namespace_watch_def Let_def eq(3) nsWatchStarter_def)
  show "f_running (snd (start_namespace_watch hasSynced f)) = [kk_type namespace_kind]"
    by (simp add: start_namespace_watch_def Let_def eq(3) Start_def StartWithContext_def f0)
qed

end
