(* ===== verification/EventPath.thy ===== *)
theory EventPath
  imports InformerCache ControlLoop
begin

text \<open>
  The way of an event from the watch through the cache to the work queue: \<open>processDeltas\<close> of client-go
  (tools/cache controller.go) with the event handler of pkg/controller, for the informers that the two
  controllers run for their primary resources.

  The result is that the cache never changes without a request: whatever the listers answer
  differently afterwards has been put into the queue.
\<close>

section \<open>Processing deltas (controller.go)\<close>

text \<open>
  One round of the loop: the error that ends it, the cache, and what the handler adds to the queue.
  The object inside a tombstone is not looked at.
\<close>

definition processDelta :: "'a Object_scheme event \<Rightarrow> bool \<Rightarrow> 'a Object_scheme cache
    \<Rightarrow> (cache_error option \<times> 'a Object_scheme cache \<times> Request list) outcome" where
  "processDelta d isInInitialList clientState =
     (let notify = (\<lambda>reqs (err, c). Returned (err, c, if err = None then reqs else []))
      in case d of
        Changed obj \<Rightarrow> (case cache_GetByKey (key_string (namespace_of obj) (name_of obj)) clientState of
            Some old \<Rightarrow> outcome_bind (cache_Update obj clientState)
              (notify (EventHandler_OnUpdate (MetaObj (Object.truncate old)) (MetaObj (Object.truncate obj))))
          | None \<Rightarrow> outcome_bind (cache_Add obj clientState)
              (notify (EventHandler_OnAdd (MetaObj (Object.truncate obj)) isInInitialList)))
      | Deleted obj \<Rightarrow> outcome_bind (cache_Delete (DeletedObject obj) clientState)
          (notify (EventHandler_OnDelete (MetaObj (Object.truncate obj))))
      | FoundDeleted ns n \<Rightarrow> outcome_bind (cache_Delete (DeletedFinalStateUnknown (key_string ns n)) clientState)
          (notify (EventHandler_OnDelete (Tombstone (key_string ns n) (Opaque [])))))"

fun processDeltas :: "'a Object_scheme event list \<Rightarrow> bool \<Rightarrow> 'a Object_scheme cache
    \<Rightarrow> (cache_error option \<times> 'a Object_scheme cache \<times> Request list) outcome" where
  "processDeltas [] isInInitialList c = Returned (None, c, [])"
| "processDeltas (d # ds) isInInitialList c = outcome_bind (processDelta d isInInitialList c)
     (\<lambda>(err, c1, reqs). if err \<noteq> None then Returned (err, c1, reqs)
        else outcome_bind (processDeltas ds isInInitialList c1) (\<lambda>(err, c2, reqs'). Returned (err, c2, reqs @ reqs')))"

section \<open>Facts\<close>

fun event_key :: "'a Object_scheme event \<Rightarrow> string \<times> string" where
  "event_key (Changed x) = (namespace_of x, name_of x)"
| "event_key (Deleted x) = (namespace_of x, name_of x)"
| "event_key (FoundDeleted ns n) = (ns, n)"

definition key_request :: "string \<times> string \<Rightarrow> Request" where
  "key_request p = \<lparr>req_Namespace = fst p, req_Name = snd p\<rparr>"

lemma EventHandler_add_key:
  "CHR ''/'' \<notin> set ns \<Longrightarrow> CHR ''/'' \<notin> set n \<Longrightarrow> EventHandler_add (key_string ns n) = [key_request (ns, n)]"
  by (simp add: EventHandler_add_def key_string_def SplitMetaNamespaceKey_pair SplitMetaNamespaceKey_name key_request_def)

lemma EventHandler_truncated:
  assumes "plain_names x"
  shows "EventHandler_OnAdd (MetaObj (Object.truncate x)) b = [key_request (namespace_of x, name_of x)]"
    and "EventHandler_OnUpdate old (MetaObj (Object.truncate x)) = [key_request (namespace_of x, name_of x)]"
    and "EventHandler_OnDelete (MetaObj (Object.truncate x)) = [key_request (namespace_of x, name_of x)]"
  using EventHandler_adds [of "Object.truncate x"] assms
  by (simp_all add: plain_names_def Object.truncate_def request_for_def key_request_def)

lemma processDelta_run:
  assumes inv: "cache_inv indexers c" and plain: "plain_event d"
  shows "\<exists>c'. processDelta d b c = Returned (None, c', [key_request (event_key d)]) \<and> handle_event d c = Returned c'"
proof (cases d)
  case (Changed x)
  with plain have x: "plain_names x" by (simp add: plain_event_def)
  obtain c' where "cache_Update x c = Returned (None, c')" "cache_Add x c = Returned (None, c')"
    using cache_inv_put [OF inv x] by metis
  then show ?thesis
    using Changed EventHandler_truncated [OF x] by (simp add: processDelta_def handle_event_def split: option.split)
next
  case (Deleted x)
  with plain have x: "plain_names x" by (simp add: plain_event_def)
  obtain c' where "cache_Delete (DeletedObject x) c = Returned (None, c')"
    using cache_inv_delete [OF inv, of "DeletedObject x"] by (auto simp: object_key_string)
  then show ?thesis
    using Deleted EventHandler_truncated [OF x] by (simp add: processDelta_def handle_event_def)
next
  case (FoundDeleted ns n)
  obtain c' where "cache_Delete (DeletedFinalStateUnknown (key_string ns n)) c = Returned (None, c')"
    using cache_inv_delete [OF inv, of "DeletedFinalStateUnknown (key_string ns n)"] by auto
  then show ?thesis
    using FoundDeleted plain
    by (simp add: processDelta_def handle_event_def plain_event_def EventHandler_OnDelete_def
        DeletionHandlingMetaNamespaceKeyFunc_def EventHandler_add_key)
qed

lemma processDeltas_run:
  assumes "cache_inv indexers c" and "list_all plain_event ds"
  shows "\<exists>c'. processDeltas ds b c = Returned (None, c', map (key_request \<circ> event_key) ds)
    \<and> cache_inv indexers c' \<and> cached c' = fold event_effect ds (cached c)"
  using assms
proof (induction ds arbitrary: c)
  case (Cons d ds)
  then obtain c1 where "processDelta d b c = Returned (None, c1, [key_request (event_key d)])"
      and step: "handle_event d c = Returned c1"
    using processDelta_run [of indexers c d b] by auto
  moreover have "cache_inv indexers c1" "cached c1 = event_effect d (cached c)"
    using informer_cache.step [of indexers c d] Cons.prems step by auto
  ultimately show ?case using Cons.IH [of c1] Cons.prems by auto
qed simp

lemma event_effect_other: "p \<noteq> event_key d \<Longrightarrow> event_effect d m p = m p"
  by (cases d) (auto simp: event_effect_def)

lemma fold_effect_other: "p \<notin> event_key ` set ds \<Longrightarrow> fold event_effect ds m p = m p"
  by (induction ds arbitrary: m) (simp_all add: event_effect_other)

text \<open>What the cache answers differently is requested.\<close>

lemma change_requested:
  assumes "cache_inv indexers c" and "list_all plain_event ds"
  shows "\<exists>c' reqs. processDeltas ds b c = Returned (None, c', reqs) \<and> cached c' = fold event_effect ds (cached c)
    \<and> {key_request p | p. cached c' p \<noteq> cached c p} \<subseteq> set reqs"
proof -
  obtain c' where run: "processDeltas ds b c = Returned (None, c', map (key_request \<circ> event_key) ds)"
      "cached c' = fold event_effect ds (cached c)"
    using processDeltas_run [OF assms] by blast
  have "{key_request p | p. cached c' p \<noteq> cached c p} \<subseteq> set (map (key_request \<circ> event_key) ds)"
    using fold_effect_other [of _ ds "cached c"] by (force simp: run(2))
  then show ?thesis using run by blast
qed

text \<open>Added to the queue, the requests are dirty until a worker takes them.\<close>

definition enqueue_all :: "Request list \<Rightarrow> item wq \<Rightarrow> item wq" where
  "enqueue_all reqs q = fold (\<lambda>r. wq_Add (ItemRequest r)) reqs q"

lemma enqueue_all_dirty:
  assumes "\<not> wq_shuttingDown q"
  shows "ItemRequest ` set reqs \<subseteq> wq_dirty (enqueue_all reqs q)"
proof -
  have "wq_dirty (enqueue_all reqs q) = wq_dirty q \<union> ItemRequest ` set reqs \<and> \<not> wq_shuttingDown (enqueue_all reqs q)"
    using assms
    by (induction reqs arbitrary: q) (auto simp: enqueue_all_def wq_Add_def Let_def)
  then show ?thesis by blast
qed

end
