(* ===== verification/Registration.thy ===== *)
theory Registration
  imports ApiTypes
begin

text \<open>
  Which Go type stands for which kind: the registration of the two API groups (pkg/apis register.go and
  install.go), of the generated clientset (scheme/register.go) and the part of apimachinery's scheme that
  it uses (runtime scheme.go, scheme_builder.go, meta/v1 register.go).

  A Go type is its package-qualified name. Defaulting and conversion functions, which the two groups do
  not have, are left out.
\<close>

section \<open>Schemes (runtime/scheme.go)\<close>

type_synonym group_version = "string \<times> string"

record Scheme =
  gvkToType :: "GroupVersionKind \<Rightarrow> string option"
  typeToGVK :: "string \<Rightarrow> GroupVersionKind list"
  unversionedTypes :: "string \<Rightarrow> GroupVersionKind option"
  unversionedKinds :: "string \<Rightarrow> string option"
  versionPriority :: "string \<Rightarrow> string list option"
  observedVersions :: "group_version list"

definition NewScheme :: Scheme where
  "NewScheme = \<lparr>gvkToType = Map.empty, typeToGVK = (\<lambda>_. []), unversionedTypes = Map.empty,
     unversionedKinds = Map.empty, versionPriority = Map.empty, observedVersions = []\<rparr>"

definition APIVersionInternal :: string where "APIVersionInternal = ''__internal''"

definition WithKind :: "group_version \<Rightarrow> string \<Rightarrow> GroupVersionKind" where
  "WithKind gv kind = \<lparr>gvk_Group = fst gv, gvk_Version = snd gv, gvk_Kind = kind\<rparr>"

text \<open>\<open>reflect.Type.Name\<close> of the type a pointer points to.\<close>

definition struct_Name :: "string \<Rightarrow> string" where
  "struct_Name t = last (strings_Split t CHR ''.'')"

definition addObservedVersion :: "group_version \<Rightarrow> Scheme \<Rightarrow> Scheme" where
  "addObservedVersion version s =
     (if snd version = [] \<or> snd version = APIVersionInternal then s
      else if version \<in> set (observedVersions s) then s
      else s\<lparr>observedVersions := observedVersions s @ [version]\<rparr>)"

definition AddKnownTypeWithName :: "GroupVersionKind \<Rightarrow> string \<Rightarrow> Scheme \<Rightarrow> Scheme outcome" where
  "AddKnownTypeWithName gvk t s0 =
     (let s = addObservedVersion (gvk_Group gvk, gvk_Version gvk) s0
      in if gvk_Version gvk = [] then Panicked
         else if gvkToType s gvk \<noteq> None \<and> gvkToType s gvk \<noteq> Some t then Panicked
         else
           (let s = s\<lparr>gvkToType := (gvkToType s)(gvk \<mapsto> t)\<rparr>
            in if gvk \<in> set (typeToGVK s t) then Returned s
               else Returned (s\<lparr>typeToGVK := (typeToGVK s)(t := typeToGVK s t @ [gvk])\<rparr>)))"

fun add_types :: "group_version \<Rightarrow> string list \<Rightarrow> Scheme \<Rightarrow> Scheme outcome" where
  "add_types gv [] s = Returned s"
| "add_types gv (t # ts) s = outcome_bind (AddKnownTypeWithName (WithKind gv (struct_Name t)) t s) (add_types gv ts)"

definition AddKnownTypes :: "group_version \<Rightarrow> string list \<Rightarrow> Scheme \<Rightarrow> Scheme outcome" where
  "AddKnownTypes gv types s = add_types gv types (addObservedVersion gv s)"

fun add_unversioned :: "group_version \<Rightarrow> string list \<Rightarrow> Scheme \<Rightarrow> Scheme outcome" where
  "add_unversioned version [] s = Returned s"
| "add_unversioned version (t # ts) s =
     (let gvk = WithKind version (struct_Name t); s = s\<lparr>unversionedTypes := (unversionedTypes s)(t \<mapsto> gvk)\<rparr>
      in case unversionedKinds s (gvk_Kind gvk) of
           Some old \<Rightarrow> if t \<noteq> old then Panicked
             else add_unversioned version ts (s\<lparr>unversionedKinds := (unversionedKinds s)(gvk_Kind gvk \<mapsto> t)\<rparr>)
         | None \<Rightarrow> add_unversioned version ts (s\<lparr>unversionedKinds := (unversionedKinds s)(gvk_Kind gvk \<mapsto> t)\<rparr>))"

definition AddUnversionedTypes :: "group_version \<Rightarrow> string list \<Rightarrow> Scheme \<Rightarrow> Scheme outcome" where
  "AddUnversionedTypes version types s =
     outcome_bind (AddKnownTypes version types (addObservedVersion version s)) (add_unversioned version types)"

definition SetVersionPriority :: "group_version list \<Rightarrow> Scheme \<Rightarrow> error option \<times> Scheme" where
  "SetVersionPriority versions s =
     (case find (\<lambda>(g, v). v = [] \<or> v = APIVersionInternal) versions of
        Some (g, v) \<Rightarrow> (Some (ErrorString (''internal versions cannot be prioritized: ''
          @ (if g \<noteq> [] then g @ ''/'' @ v else v))), s)
      | None \<Rightarrow>
          (let groups = remdups (map fst versions)
           in case groups of
                [g] \<Rightarrow> (None, s\<lparr>versionPriority := (versionPriority s)(g \<mapsto> map snd versions)\<rparr>)
              | _ \<Rightarrow> (Some (ErrorString (''must register versions for exactly one group: ''
                  @ strings_Join (sort groups) '', '')), s)))"

text \<open>
  The kinds of a type and whether it is unversioned. \<open>None\<close> is the error \<open>notRegisteredErr\<close>, whose text
  names the line of the program that made the scheme.
\<close>

definition ObjectKinds :: "string \<Rightarrow> Scheme \<Rightarrow> (GroupVersionKind list \<times> bool) option" where
  "ObjectKinds t s = (if typeToGVK s t = [] then None else Some (typeToGVK s t, unversionedTypes s t \<noteq> None))"

definition scheme_New :: "GroupVersionKind \<Rightarrow> Scheme \<Rightarrow> string option" where
  "scheme_New kind s = (case gvkToType s kind of
     Some t \<Rightarrow> Some t | None \<Rightarrow> unversionedKinds s (gvk_Kind kind))"

text \<open>A scheme builder stops at the first error; none of the functions here returns one.\<close>

fun SchemeBuilder_AddToScheme :: "(Scheme \<Rightarrow> Scheme outcome) list \<Rightarrow> Scheme \<Rightarrow> Scheme outcome" where
  "SchemeBuilder_AddToScheme [] s = Returned s"
| "SchemeBuilder_AddToScheme (f # sb) s = outcome_bind (f s) (SchemeBuilder_AddToScheme sb)"

section \<open>The metadata types (meta/v1 register.go)\<close>

definition optionsTypes :: "string list" where
  "optionsTypes = [''metav1.ListOptions'', ''metav1.GetOptions'', ''metav1.DeleteOptions'', ''metav1.CreateOptions'',
     ''metav1.UpdateOptions'', ''metav1.PatchOptions'']"

definition Unversioned :: group_version where "Unversioned = ([], ''v1'')"

definition AddToGroupVersion :: "group_version \<Rightarrow> Scheme \<Rightarrow> Scheme outcome" where
  "AddToGroupVersion groupVersion s =
     outcome_bind (AddKnownTypeWithName (WithKind groupVersion ''WatchEvent'') ''metav1.WatchEvent'' s) (\<lambda>s.
     outcome_bind (AddKnownTypeWithName (WithKind (fst groupVersion, APIVersionInternal) ''WatchEvent'')
       ''metav1.InternalEvent'' s) (\<lambda>s.
     outcome_bind (AddKnownTypes groupVersion optionsTypes s)
       (AddUnversionedTypes Unversioned [''metav1.Status'', ''metav1.APIVersions'', ''metav1.APIGroupList'',
         ''metav1.APIGroup'', ''metav1.APIResourceList''])))"

section \<open>The two groups (register.go, install.go) and the clientset (scheme/register.go)\<close>

definition operator_SchemeGroupVersion :: group_version where
  "operator_SchemeGroupVersion = (operator_GroupName, operator_GroupVersion)"

definition operator_addKnownTypes :: "Scheme \<Rightarrow> Scheme outcome" where
  "operator_addKnownTypes scheme =
     outcome_bind (AddKnownTypes operator_SchemeGroupVersion
       [''operatorv1.ClusterResourceOverride'', ''operatorv1.ClusterResourceOverrideList''] scheme)
       (AddToGroupVersion operator_SchemeGroupVersion)"

definition operator_AddToScheme :: "Scheme \<Rightarrow> Scheme outcome" where
  "operator_AddToScheme = SchemeBuilder_AddToScheme [operator_addKnownTypes]"

definition autoscaling_SchemeGroupVersion :: group_version where
  "autoscaling_SchemeGroupVersion = (autoscaling_GroupName, autoscaling_GroupVersion)"

definition autoscaling_addKnownTypes :: "Scheme \<Rightarrow> Scheme outcome" where
  "autoscaling_addKnownTypes scheme =
     outcome_bind (AddKnownTypes autoscaling_SchemeGroupVersion
       [''autoscalingv1.ResourceOverride'', ''autoscalingv1.ResourceOverrideList''] scheme)
       (AddToGroupVersion autoscaling_SchemeGroupVersion)"

definition autoscaling_AddToScheme :: "Scheme \<Rightarrow> Scheme outcome" where
  "autoscaling_AddToScheme = SchemeBuilder_AddToScheme [autoscaling_addKnownTypes]"

text \<open>\<open>utilruntime.Must\<close> panics on an error.\<close>

definition Must :: "error option \<times> Scheme \<Rightarrow> Scheme outcome" where
  "Must r = (case r of (Some err, s) \<Rightarrow> Panicked | (None, s) \<Rightarrow> Returned s)"

definition operator_Install :: "Scheme \<Rightarrow> Scheme outcome" where
  "operator_Install scheme = outcome_bind (operator_AddToScheme scheme)
     (\<lambda>s. Must (SetVersionPriority [operator_SchemeGroupVersion] s))"

definition autoscaling_Install :: "Scheme \<Rightarrow> Scheme outcome" where
  "autoscaling_Install scheme = outcome_bind (autoscaling_AddToScheme scheme)
     (\<lambda>s. Must (SetVersionPriority [autoscaling_SchemeGroupVersion] s))"

definition clientset_Scheme :: "Scheme outcome" where
  "clientset_Scheme = outcome_bind (AddToGroupVersion ([], ''v1'') NewScheme)
     (SchemeBuilder_AddToScheme [autoscaling_AddToScheme, operator_AddToScheme])"

section \<open>Facts\<close>

text \<open>Both maps of a scheme hold the same pairs.\<close>

definition scheme_inv :: "Scheme \<Rightarrow> bool" where
  "scheme_inv s \<longleftrightarrow> (\<forall>gvk t. gvkToType s gvk = Some t \<longleftrightarrow> gvk \<in> set (typeToGVK s t)) \<and> (\<forall>t. distinct (typeToGVK s t))"

lemma scheme_inv_New: "scheme_inv NewScheme"
  by (simp add: scheme_inv_def NewScheme_def)

lemma scheme_inv_observed [simp]: "scheme_inv (addObservedVersion v s) = scheme_inv s"
  "gvkToType (addObservedVersion v s) = gvkToType s" "typeToGVK (addObservedVersion v s) = typeToGVK s"
  by (simp_all add: addObservedVersion_def scheme_inv_def)

lemma AddKnownTypeWithName_inv:
  assumes "scheme_inv s" and "AddKnownTypeWithName gvk t s = Returned s'"
  shows "scheme_inv s'" and "gvkToType s' = (gvkToType s)(gvk \<mapsto> t)"
proof -
  let ?s = "addObservedVersion (gvk_Group gvk, gvk_Version gvk) s"
  have old: "gvkToType s gvk = None \<or> gvkToType s gvk = Some t"
    and s': "s' = (if gvk \<in> set (typeToGVK s t) then ?s\<lparr>gvkToType := (gvkToType s)(gvk \<mapsto> t)\<rparr>
      else ?s\<lparr>gvkToType := (gvkToType s)(gvk \<mapsto> t), typeToGVK := (typeToGVK s)(t := typeToGVK s t @ [gvk])\<rparr>)"
    using assms(2) by (auto simp: AddKnownTypeWithName_def Let_def split: if_splits)
  then show "gvkToType s' = (gvkToType s)(gvk \<mapsto> t)" by simp
  have maps: "gvkToType s g = Some u \<longleftrightarrow> g \<in> set (typeToGVK s u)" and dist: "distinct (typeToGVK s u)" for g u
    using assms(1) by (simp_all add: scheme_inv_def)
  show "scheme_inv s'"
  proof (cases "gvk \<in> set (typeToGVK s t)")
    case True
    then have "(gvkToType s)(gvk \<mapsto> t) = gvkToType s" by (simp add: maps [symmetric] fun_upd_idem)
    with True assms(1) show ?thesis by (simp add: s' scheme_inv_def)
  next
    case False
    then have "gvk \<notin> set (typeToGVK s u)" for u using old maps [of gvk u] maps [of gvk t] by auto
    then show ?thesis using dist by (auto simp: s' scheme_inv_def maps)
  qed
qed

lemma add_types_inv: "scheme_inv s \<Longrightarrow> add_types gv ts s = Returned s' \<Longrightarrow> scheme_inv s'"
  by (induction ts arbitrary: s) (auto dest: AddKnownTypeWithName_inv(1))

lemma AddKnownTypes_inv: "scheme_inv s \<Longrightarrow> AddKnownTypes gv ts s = Returned s' \<Longrightarrow> scheme_inv s'"
  using add_types_inv [of "addObservedVersion gv s" gv ts s'] by (simp add: AddKnownTypes_def)

lemma add_unversioned_maps:
  "add_unversioned gv ts s = Returned s' \<Longrightarrow> gvkToType s' = gvkToType s \<and> typeToGVK s' = typeToGVK s"
proof (induction ts arbitrary: s)
  case (Cons t ts)
  let ?gvk = "WithKind gv (struct_Name t)"
  have "add_unversioned gv ts (s\<lparr>unversionedTypes := (unversionedTypes s)(t \<mapsto> ?gvk),
      unversionedKinds := (unversionedKinds s)(gvk_Kind ?gvk \<mapsto> t)\<rparr>) = Returned s'"
    using Cons.prems by (simp add: Let_def split: option.splits if_splits)
  from Cons.IH [OF this] show ?case by simp
qed simp

text \<open>A registration that does not panic keeps the invariant.\<close>

definition keeps_inv :: "(Scheme \<Rightarrow> Scheme outcome) \<Rightarrow> bool" where
  "keeps_inv f \<longleftrightarrow> (\<forall>s s'. scheme_inv s \<and> f s = Returned s' \<longrightarrow> scheme_inv s')"

lemma keeps_inv_bind: "keeps_inv f \<Longrightarrow> keeps_inv g \<Longrightarrow> keeps_inv (\<lambda>s. outcome_bind (f s) g)"
  unfolding keeps_inv_def outcome_bind_Returned by blast

lemma keeps_inv_registrations:
  "keeps_inv (AddKnownTypeWithName gvk t)" "keeps_inv (AddKnownTypes gv ts)" "keeps_inv (AddUnversionedTypes gv ts)"
proof -
  show "keeps_inv (AddKnownTypeWithName gvk t)" unfolding keeps_inv_def using AddKnownTypeWithName_inv(1) by blast
  show known: "keeps_inv (AddKnownTypes gv ts)" unfolding keeps_inv_def using AddKnownTypes_inv by blast
  have "keeps_inv (add_unversioned gv ts)"
    unfolding keeps_inv_def scheme_inv_def by (metis add_unversioned_maps)
  from keeps_inv_bind [OF known this] show "keeps_inv (AddUnversionedTypes gv ts)"
    by (simp add: keeps_inv_def AddUnversionedTypes_def del: outcome_bind_Returned)
      (metis scheme_inv_observed(1))
qed

lemma keeps_inv_AddToGroupVersion: "keeps_inv (AddToGroupVersion gv)"
  unfolding AddToGroupVersion_def [abs_def] by (intro keeps_inv_bind keeps_inv_registrations)

lemma keeps_inv_SchemeBuilder: "list_all keeps_inv fs \<Longrightarrow> keeps_inv (SchemeBuilder_AddToScheme fs)"
proof (induction fs)
  case (Cons f fs)
  then have "keeps_inv (\<lambda>s. outcome_bind (f s) (SchemeBuilder_AddToScheme fs))" by (intro keeps_inv_bind) simp_all
  then show ?case by (simp add: keeps_inv_def)
qed (simp add: keeps_inv_def)

lemma keeps_inv_AddToScheme: "keeps_inv operator_AddToScheme" "keeps_inv autoscaling_AddToScheme"
proof -
  have "keeps_inv operator_addKnownTypes" "keeps_inv autoscaling_addKnownTypes"
    unfolding operator_addKnownTypes_def [abs_def] autoscaling_addKnownTypes_def [abs_def]
    by (intro keeps_inv_bind keeps_inv_registrations keeps_inv_AddToGroupVersion)+
  then show "keeps_inv operator_AddToScheme" "keeps_inv autoscaling_AddToScheme"
    unfolding operator_AddToScheme_def autoscaling_AddToScheme_def by (simp_all add: keeps_inv_SchemeBuilder)
qed

lemma clientset_Scheme_inv: "clientset_Scheme = Returned s \<Longrightarrow> scheme_inv s"
proof -
  have "keeps_inv (\<lambda>s. outcome_bind (AddToGroupVersion ([], ''v1'') s)
      (SchemeBuilder_AddToScheme [autoscaling_AddToScheme, operator_AddToScheme]))"
    by (intro keeps_inv_bind keeps_inv_AddToGroupVersion keeps_inv_SchemeBuilder) (simp add: keeps_inv_AddToScheme)
  then show "clientset_Scheme = Returned s \<Longrightarrow> scheme_inv s"
    unfolding keeps_inv_def clientset_Scheme_def using scheme_inv_New by blast
qed

text \<open>In such a scheme, creating an object of a kind that a type has yields the type.\<close>

lemma scheme_inv_kinds: "scheme_inv s \<Longrightarrow> gvk \<in> set (typeToGVK s t) \<Longrightarrow> scheme_New gvk s = Some t"
proof -
  assume "scheme_inv s" and "gvk \<in> set (typeToGVK s t)"
  then have "gvkToType s gvk = Some t" by (simp add: scheme_inv_def)
  then show ?thesis by (simp add: scheme_New_def)
qed

text \<open>The kinds of the two groups.\<close>

definition api_kinds :: "(string \<times> GroupVersionKind) list" where
  "api_kinds = map (\<lambda>k. (''operatorv1.'' @ k, WithKind operator_SchemeGroupVersion k))
       [''ClusterResourceOverride'', ''ClusterResourceOverrideList'']
     @ map (\<lambda>k. (''autoscalingv1.'' @ k, WithKind autoscaling_SchemeGroupVersion k))
       [''ResourceOverride'', ''ResourceOverrideList'']"

lemma clientset_Scheme_kinds:
  "(case clientset_Scheme of Panicked \<Rightarrow> False
    | Returned s \<Rightarrow> list_all (\<lambda>(t, gvk). ObjectKinds t s = Some ([gvk], False) \<and> scheme_New gvk s = Some t) api_kinds
        \<and> observedVersions s = [([], ''v1''), autoscaling_SchemeGroupVersion, operator_SchemeGroupVersion])"
  by code_simp

text \<open>Installing both groups in the clientset's scheme changes no type and cannot panic.\<close>

lemma Install_again:
  "(case outcome_bind clientset_Scheme (\<lambda>s. outcome_bind (operator_Install s) autoscaling_Install) of Panicked \<Rightarrow> False
    | Returned s \<Rightarrow> list_all (\<lambda>(t, gvk). ObjectKinds t s = Some ([gvk], False) \<and> scheme_New gvk s = Some t) api_kinds
        \<and> versionPriority s operator_GroupName = Some [''v1''] \<and> versionPriority s autoscaling_GroupName = Some [''v1''])"
  by code_simp

end
