(* ===== verification/Controllers.thy ===== *)
theory Controllers
  imports Watches EventPath Registration
begin

text \<open>
  The construction of the two controllers (clusterresourceoverride/controller.go,
  resourceoverride/controller.go, controller/interface.go) from the clients (runtime/client.go), the
  start of the operator over them (operator/run.go) and the command (cmd/operator start.go).

  \<open>operator_Run\<close> of \<open>OperatorMain\<close> is the abstract sequence of a start; \<open>runner_Run_full\<close> runs the
  constructors and the informer factories, and is shown to be that sequence.
\<close>

section \<open>Clients (runtime/client.go)\<close>

text \<open>The constructors of the vendored client libraries; their clients are of any type.\<close>

record ('q, 'x) client_lib =
  lib_kubernetes :: "'q Config \<Rightarrow> error + 'x"
  lib_dynamic :: "'q Config \<Rightarrow> error + 'x"
  lib_apiregistration :: "'q Config \<Rightarrow> error + 'x"
  lib_apiextensions :: "'q Config \<Rightarrow> error + 'x"

datatype 'x ensurer_client = NewEnsurer 'x

text \<open>A nil interface is \<open>None\<close>.\<close>

record ('q, 'h, 'd, 'x) Client =
  cl_Operator :: "('q, 'h, 'd) Clientset option"
  cl_Kubernetes :: "'x option"
  cl_APIRegistration :: "'x option"
  cl_APIExtension :: "'x option"
  cl_Dynamic :: "'x ensurer_client option"
  cl_RawDynamic :: "'x option"

definition runtime_NewClient :: "('q::{zero, ord}, 'h, 'd) rest_lib \<Rightarrow> ('q, 'x) client_lib \<Rightarrow> 'q Config
    \<Rightarrow> error + ('q, 'h, 'd, 'x) Client" where
  "runtime_NewClient L K config = (case Clientset_NewForConfig L config of
     Inl buildErr \<Rightarrow> Inl (ErrorString (''failed to construct client for autoscaling.openshift.io - '' @ Error buildErr))
   | Inr operator \<Rightarrow> (case lib_kubernetes K config of
     Inl buildErr \<Rightarrow> Inl (ErrorString (''failed to construct client for kubernetes - '' @ Error buildErr))
   | Inr kubeclient \<Rightarrow> (case lib_dynamic K config of
     Inl buildErr \<Rightarrow> Inl (ErrorString (''failed to construct dynamic client - '' @ Error buildErr))
   | Inr rawDynamic \<Rightarrow> (case lib_apiregistration K config of
     Inl buildErr \<Rightarrow> Inl (ErrorString (''failed to construct apiregistration client - '' @ Error buildErr))
   | Inr apiregistration \<Rightarrow> (case lib_apiextensions K config of
     Inl buildErr \<Rightarrow> Inl (ErrorString (''failed to construct apiextension client - '' @ Error buildErr))
   | Inr apiextension \<Rightarrow> Inr \<lparr>cl_Operator = Some operator, cl_Kubernetes = Some kubeclient,
       cl_APIRegistration = Some apiregistration, cl_APIExtension = Some apiextension,
       cl_Dynamic = Some (NewEnsurer rawDynamic), cl_RawDynamic = Some rawDynamic\<rparr>)))))"

section \<open>Controllers (controller/interface.go)\<close>

text \<open>
  A work queue is shared between a controller, its event handler and its enqueuer: what they hold is its
  address. A list or watch through a nil client panics.
\<close>

type_synonym queue_ref = nat

record 'o primary_informer =
  pi_ObjectType :: string
  pi_ListFunc :: "ListOptions \<Rightarrow> (error + unit http_request) outcome"
  pi_WatchFunc :: "ListOptions \<Rightarrow> (error + unit http_request) outcome"
  pi_HandlerQueue :: queue_ref
  pi_ResyncPeriod :: int
  pi_Indexer :: "'o cache"

record ('o, 'w, 'e) controller =
  ctrl_Name :: string
  ctrl_WorkerCount :: int
  ctrl_Queue :: queue_ref
  ctrl_Informer :: "'o primary_informer"
  ctrl_Reconciler :: "Request \<Rightarrow> 'w \<Rightarrow> (Result \<times> 'e option) outcome \<times> 'w"
  ctrl_lister :: ResourceIndexer

definition or_panic :: "('a \<Rightarrow> 'b) \<Rightarrow> 'a option \<Rightarrow> 'b outcome" where
  "or_panic f x = (case x of None \<Rightarrow> Panicked | Some y \<Rightarrow> Returned (f y))"

section \<open>The ClusterResourceOverride controller (clusterresourceoverride/controller.go)\<close>

record ('q, 'h, 'd, 'x, 't) CRO_Options =
  co_ResyncPeriod :: int
  co_Workers :: int
  co_Client :: "('q, 'h, 'd, 'x) Client option"
  co_RuntimeContext :: "OperandContext option"
  co_Lister :: "('x, 't) Lister option"
  co_IsStandalone :: bool

record owner_enqueuer =
  en_queue :: queue_ref
  en_lister :: ResourceIndexer
  en_ownerAnnotationKey :: string

definition cro_primary_informer :: "('q, 'h, 'd) Clientset option \<Rightarrow> int \<Rightarrow> queue_ref
    \<Rightarrow> ClusterResourceOverride primary_informer" where
  "cro_primary_informer client resyncPeriod queue = \<lparr>pi_ObjectType = cro_type,
     pi_ListFunc = (\<lambda>options. or_panic (\<lambda>cs. client_List (ClusterResourceOverrides (cs_operatorV1 cs)) options) client),
     pi_WatchFunc = (\<lambda>options. or_panic (\<lambda>cs. client_Watch (ClusterResourceOverrides (cs_operatorV1 cs)) options) client),
     pi_HandlerQueue = queue, pi_ResyncPeriod = resyncPeriod, pi_Indexer = cro_indexer\<rparr>"

text \<open>
  \<open>L\<close>, \<open>A\<close>: the libraries and the cluster that the handlers use through these clients and listers;
  \<open>addr\<close>: the address of the deployment's toleration period; \<open>queue\<close>: the address of the new queue.
  \<open>options.Lister\<close> is not checked: its first method panics on nil.
\<close>

definition CRO_New :: "lib \<Rightarrow> 'w api \<Rightarrow> addr \<Rightarrow> queue_ref \<Rightarrow> ('q, 'h, 'd, 'x, 't) CRO_Options option
    \<Rightarrow> (error + (ClusterResourceOverride, 'w, handler_error) controller \<times> owner_enqueuer) outcome" where
  "CRO_New L A addr queue options =
     (case CRO_New_check (options = None) (Option.bind options co_Client = None)
         (Option.bind options co_RuntimeContext = None) of
        Some err \<Rightarrow> Returned (Inl err)
      | None \<Rightarrow>
     (let o' = the options; client = cl_Operator (the (co_Client o')); context = the (co_RuntimeContext o');
          lister = NewClusterResourceOverrideLister; operandAsset = asset_New context
      in case co_Lister o' of
           None \<Rightarrow> Panicked
         | Some secondary \<Rightarrow>
             (let reconciler = CRO_Reconcile \<lparr>opt_lib = L, opt_api = A, opt_OperandContext = context,
                    opt_Asset = operandAsset, opt_IsStandalone = co_IsStandalone o', opt_tolerationSeconds = addr\<rparr>
              in Returned (Inr (\<lparr>ctrl_Name = CRO_ControllerName, ctrl_WorkerCount = co_Workers o', ctrl_Queue = queue,
                     ctrl_Informer = cro_primary_informer client (co_ResyncPeriod o') queue,
                     ctrl_Reconciler = (\<lambda>request. reconciler (req_Name request)), ctrl_lister = lister\<rparr>,
                   \<lparr>en_queue = queue, en_lister = lister,
                     en_ownerAnnotationKey = v_OwnerAnnotationKey operandAsset\<rparr>)))))"

section \<open>The ResourceOverride controller (resourceoverride/controller.go)\<close>

record ('q, 'h, 'd, 'x) RO_Options =
  rox_ResyncPeriod :: int
  rox_Workers :: int
  rox_Client :: "('q, 'h, 'd, 'x) Client option"

definition ro_primary_informer :: "('q, 'h, 'd) Clientset option \<Rightarrow> int \<Rightarrow> queue_ref \<Rightarrow> ResourceOverride primary_informer" where
  "ro_primary_informer client resyncPeriod queue = \<lparr>pi_ObjectType = ro_type,
     pi_ListFunc = (\<lambda>options. or_panic (\<lambda>cs. client_List (typed_ResourceOverrides (cs_autoscalingV1 cs) []) options) client),
     pi_WatchFunc = (\<lambda>options. or_panic (\<lambda>cs. client_Watch (typed_ResourceOverrides (cs_autoscalingV1 cs) []) options) client),
     pi_HandlerQueue = queue, pi_ResyncPeriod = resyncPeriod, pi_Indexer = ro_indexer\<rparr>"

text \<open>The namespace handler, which enqueues through the controller's lister and queue.\<close>

record namespaceEventHandler =
  nh_roLister :: ResourceIndexer
  nh_queue :: queue_ref

record ('x, 't) namespace_watcher =
  nw_handler :: namespaceEventHandler
  nw_lister :: "('x, 't) informer"
  nw_handled :: "('x, 't) informer"
  nw_factory :: "('x, 't) sharedInformerFactory"

definition RO_New :: "lib \<Rightarrow> 'w api \<Rightarrow> queue_ref \<Rightarrow> ('q, 'h, 'd, 'x) RO_Options option
    \<Rightarrow> error + (ResourceOverride, 'w, error) controller \<times> ('x, 't) namespace_watcher" where
  "RO_New L A queue options =
     (case RO_New_check (map_option (\<lambda>o'. map_option (\<lambda>c.
           \<lparr>has_Operator = cl_Operator c \<noteq> None, has_Kubernetes = cl_Kubernetes c \<noteq> None\<rparr>) (rox_Client o')) options) of
        Some err \<Rightarrow> Inl err
      | None \<Rightarrow>
     (let o' = the options; clients = the (rox_Client o'); client = cl_Operator clients;
          lister = NewResourceOverrideLister;
          (namespaceLister, handled, nsFactory) = namespace_watch (the (cl_Kubernetes clients)) (rox_ResyncPeriod o')
      in Inr (\<lparr>ctrl_Name = RO_ControllerName, ctrl_WorkerCount = rox_Workers o', ctrl_Queue = queue,
            ctrl_Informer = ro_primary_informer client (rox_ResyncPeriod o') queue,
            ctrl_Reconciler = RO_Reconcile L A, ctrl_lister = lister\<rparr>,
          \<lparr>nw_handler = \<lparr>nh_roLister = lister, nh_queue = queue\<rparr>, nw_lister = namespaceLister,
            nw_handled = handled, nw_factory = nsFactory\<rparr>)))"

section \<open>Running the operator (operator/run.go)\<close>

definition DefaultResyncPeriodPrimaryResource :: int where
  "DefaultResyncPeriodPrimaryResource = 1 * 3600000000000"

definition DefaultResyncPeriodSecondaryResource :: int where
  "DefaultResyncPeriodSecondaryResource = 15 * 3600000000000"

text \<open>Which informers, by their type, sync before the shutdown.\<close>

record sync_answers =
  sa_namespace :: "string \<Rightarrow> bool"
  sa_secondary :: "string \<Rightarrow> bool"
  sa_apiServer :: bool
  sa_cro :: bool
  sa_ro :: bool

text \<open>The first message on the error channel of the runner of a controller.\<close>

definition controller_message :: "('o, 'w, 'e) controller \<Rightarrow> bool \<Rightarrow> error option" where
  "controller_message c synced =
     (case first_message (runner_Run False False (ctrl_Name c) (ctrl_WorkerCount c) synced) of
        None \<Rightarrow> None | Some m \<Rightarrow> m)"

definition start_failed :: "string \<Rightarrow> error \<Rightarrow> op_event list" where
  "start_failed what err = [OpSend (Some (ErrorString (what @ Error err))), OpCloseDone]"

text \<open>The work queues of the two controllers are at the addresses 0 and 1.\<close>

definition runner_Run_full :: "('q::{zero, ord}, 'h, 'd) rest_lib \<Rightarrow> ('q, 'x) client_lib \<Rightarrow> lib \<Rightarrow> 'w api \<Rightarrow> addr
    \<Rightarrow> 'q Config \<Rightarrow> OperatorConfig \<Rightarrow> sync_answers \<Rightarrow> 'w \<Rightarrow> op_event list outcome \<times> 'w" where
  "runner_Run_full L K lib A addr restConfig config sync w =
     (case runtime_NewClient L K restConfig of
        Inl err \<Rightarrow> (Returned [OpSend (Some err), OpCloseDone], w)
      | Inr clients \<Rightarrow>
     (let context = NewOperandContext (oc_Name config) (oc_Namespace config) DefaultCR (oc_OperandImage config)
            (oc_OperandVersion config);
          (standalone, w1) = IsStandalone lib A w;
          (lister, factory) = secondarywatch_New (the (cl_Kubernetes clients)) DefaultResyncPeriodSecondaryResource
            (oc_Namespace config);
          cro_options = \<lparr>co_ResyncPeriod = DefaultResyncPeriodPrimaryResource, co_Workers = DefaultWorkerCount,
            co_Client = Some clients, co_RuntimeContext = Some context,
            co_Lister = Some (lister :: ('x, unit) Lister), co_IsStandalone = standalone\<rparr>
      in case CRO_New lib A addr 0 (Some cro_options) of
           Panicked \<Rightarrow> (Panicked, w1)
         | Returned (Inl err) \<Rightarrow> (Returned (start_failed ''failed to create clusterresourceoverride controller - '' err), w1)
         | Returned (Inr (cro, enq)) \<Rightarrow>
     (case RO_New lib A 1 (Some \<lparr>rox_ResyncPeriod = DefaultResyncPeriodPrimaryResource, rox_Workers = DefaultWorkerCount,
             rox_Client = Some clients\<rparr>) of
           Inl err \<Rightarrow> (Returned (start_failed ''failed to create resourceoverride controller - '' err), w1)
         | Inr (ro, watcher) \<Rightarrow> (Returned (OpStartNamespaceWatch #
     (case fst (start_namespace_watch (sa_namespace sync) (nw_factory (watcher :: ('x, unit) namespace_watcher))) of
           Some err \<Rightarrow> start_failed ''failed to start namespace watch for resourceoverride controller - '' err
         | None \<Rightarrow>
     (let r = secondarywatch_Start factory \<lparr>ver_namespace = oc_Namespace config, ver_tweakListOptions = None\<rparr>
            True DefaultCR (sa_secondary sync) (sa_apiServer sync)
      in map OpWatch (wr_events r) @ (case wr_result r of
           Some err \<Rightarrow> start_failed ''failed to start watch on secondary resources - '' err
         | None \<Rightarrow>
     OpStartRunner (ctrl_Name cro) # (case controller_message cro (sa_cro sync) of
           Some err \<Rightarrow> [OpSend (Some err), OpCloseDone]
         | None \<Rightarrow>
     OpStartRunner (ctrl_Name ro) # (case controller_message ro (sa_ro sync) of
           Some err \<Rightarrow> [OpSend (Some err), OpCloseDone]
         | None \<Rightarrow> [OpServeHealth, OpSend None, OpWaitDone (ctrl_Name cro), OpWaitDone (ctrl_Name ro),
             OpCloseDone])))))), w1))))"

section \<open>The command (cmd/operator/start.go, main.go)\<close>

text \<open>What the process logs, and its exit status.\<close>

datatype process_event =
    LogLoadError error
  | LogConfiguration string
  | RunOperator op_event
  | LogRunError error
  | LogRunning
  | LogExiting
  | PrintHelp
  | PrintError error

text \<open>
  \<open>run\<close> waits for the message of the operator's runner, logs an error, and then waits until the runner is
  done. The events of the runner after the message happen while the caller logs.
\<close>

definition cmd_run :: "OperatorConfig \<Rightarrow> op_event list \<Rightarrow> process_event list" where
  "cmd_run config evs =
     (let before = takeWhile (\<lambda>e. case e of OpSend m \<Rightarrow> False | _ \<Rightarrow> True) evs; after = drop (length before) evs
      in [LogConfiguration (OperatorConfig_String config)] @ map RunOperator before
         @ (case after of
              OpSend m # rest \<Rightarrow> RunOperator (OpSend m)
                # (case m of None \<Rightarrow> [] | Some err \<Rightarrow> [LogRunError err])
                @ LogRunning # map RunOperator rest @ [LogExiting]
            | _ \<Rightarrow> []))"

definition start_flags :: "(string \<times> string) list" where
  "start_flags = [(''kubeconfig'', []), (''namespace'', [])]"

text \<open>The start command, with what the operator does for a configuration; the second part is the exit status.\<close>

definition start_Run :: "(string \<Rightarrow> error + string) \<Rightarrow> (string \<Rightarrow> string) \<Rightarrow> (string \<Rightarrow> error + unit option)
    \<Rightarrow> (OperatorConfig \<Rightarrow> op_event list) \<Rightarrow> process_event list \<times> int" where
  "start_Run flag env build operate = (case load flag env build of
     Inl err \<Rightarrow> ([LogLoadError err], 1)
   | Inr config \<Rightarrow> (cmd_run config (operate config), 0))"

text \<open>What cobra makes of the command line.\<close>

datatype invocation = RootCommand | StartCommand | ExecuteError error

definition main :: "invocation \<Rightarrow> (string \<Rightarrow> error + string) \<Rightarrow> (string \<Rightarrow> string) \<Rightarrow> (string \<Rightarrow> error + unit option)
    \<Rightarrow> (OperatorConfig \<Rightarrow> op_event list) \<Rightarrow> process_event list \<times> int" where
  "main command flag env build operate = (case command of
     RootCommand \<Rightarrow> ([PrintHelp], 1)
   | StartCommand \<Rightarrow> start_Run flag env build operate
   | ExecuteError err \<Rightarrow> ([PrintError err], 1))"

section \<open>The version (pkg/version)\<close>

text \<open>The variables are set by the linker.\<close>

record version_vars =
  commitFromGit :: string
  versionFromGit :: string
  majorFromGit :: string
  minorFromGit :: string
  buildDate :: string

record version_Info =
  vi_Major :: string
  vi_Minor :: string
  vi_GitVersion :: string
  vi_GitCommit :: string
  vi_BuildDate :: string

definition version_Get :: "version_vars \<Rightarrow> version_Info" where
  "version_Get v = \<lparr>vi_Major = majorFromGit v, vi_Minor = minorFromGit v, vi_GitVersion = versionFromGit v,
     vi_GitCommit = commitFromGit v, vi_BuildDate = buildDate v\<rparr>"

section \<open>The constructors refine the sequence of the start\<close>

definition failure_of :: "'e + 'a \<Rightarrow> 'e option" where
  "failure_of r = (case r of Inl e \<Rightarrow> Some e | Inr _ \<Rightarrow> None)"

lemma failure_of_simps [simp]: "failure_of (Inl e) = Some e" "failure_of (Inr x) = None"
  by (simp_all add: failure_of_def)

definition client_builds_of :: "('q::{zero, ord}, 'h, 'd) rest_lib \<Rightarrow> ('q, 'x) client_lib \<Rightarrow> 'q Config \<Rightarrow> client_builds" where
  "client_builds_of L K config =
     \<lparr>build_operator = failure_of (Clientset_NewForConfig L config),
      build_kube = failure_of (lib_kubernetes K config), build_dynamic = failure_of (lib_dynamic K config),
      build_apiregistration = failure_of (lib_apiregistration K config),
      build_apiextension = failure_of (lib_apiextensions K config)\<rparr>"

definition startup_of :: "('q::{zero, ord}, 'h, 'd) rest_lib \<Rightarrow> ('q, 'x) client_lib \<Rightarrow> 'q Config \<Rightarrow> sync_answers \<Rightarrow> startup" where
  "startup_of L K config sync =
     \<lparr>su_clients = client_builds_of L K config,
      su_namespaceSync = [([], sa_namespace sync (kk_type namespace_kind))],
      su_secondarySync = map (\<lambda>t. ([], sa_secondary sync t)) (map kk_type secondary_kube_kinds),
      su_apiServerSynced = sa_apiServer sync, su_croSynced = sa_cro sync, su_roSynced = sa_ro sync\<rparr>"

lemma runtime_NewClient_builds:
  "(case runtime_NewClient L K config of Inl err \<Rightarrow> NewClient (client_builds_of L K config) = Some err
    | Inr c \<Rightarrow> NewClient (client_builds_of L K config) = None
        \<and> (\<exists>cs k. Clientset_NewForConfig L config = Inr cs \<and> cl_Operator c = Some cs \<and> cl_Kubernetes c = Some k))"
  by (simp add: runtime_NewClient_def NewClient_def client_builds_of_def split: sum.split)

lemma controller_message_eq:
  "ctrl_WorkerCount c = DefaultWorkerCount \<Longrightarrow> controller_message c synced = runner_message (ctrl_Name c) synced"
  by (simp add: controller_message_def runner_message_def)

lemma CRO_New_result:
  assumes "co_Client o' = Some clients" and "co_RuntimeContext o' = Some context" and "co_Lister o' = Some lister"
  shows "\<exists>c e. CRO_New L A addr queue (Some o') = Returned (Inr (c, e)) \<and> ctrl_Name c = CRO_ControllerName
    \<and> ctrl_WorkerCount c = co_Workers o'"
  using assms by (simp add: CRO_New_def CRO_New_check_def Let_def)

lemma RO_New_result:
  fixes clients :: "('q, 'h, 'd, 'x) Client"
  assumes "rox_Client o' = Some clients" and "cl_Operator clients = Some cs" and "cl_Kubernetes clients = Some k"
  shows "\<exists>c (nw :: ('x, 't) namespace_watcher). RO_New L A queue (Some o') = Inr (c, nw) \<and> ctrl_Name c = RO_ControllerName
      \<and> ctrl_WorkerCount c = rox_Workers o'
      \<and> namespace_watch k (rox_ResyncPeriod o') = (nw_lister nw, nw_handled nw, nw_factory nw)"
  using assms by (simp add: RO_New_def RO_New_check_def Let_def split_beta)

lemma runner_Run_full_refines:
  fixes K :: "('q::{zero, ord}, 'x) client_lib"
  shows "\<exists>w'. runner_Run_full L K lib A addr restConfig config sync w
    = (Returned (operator_Run (startup_of L K restConfig sync)), w')"
proof (cases "runtime_NewClient L K restConfig")
  case (Inl err)
  then show ?thesis
    using runtime_NewClient_builds [of L K restConfig]
    by (simp add: runner_Run_full_def operator_Run_def startup_of_def)
next
  case (Inr clients)
  then obtain cs k where none: "NewClient (client_builds_of L K restConfig) = None"
    and c: "cl_Operator clients = Some cs" "cl_Kubernetes clients = Some k"
    using runtime_NewClient_builds [of L K restConfig] by auto
  let ?octx = "NewOperandContext (oc_Name config) (oc_Namespace config) DefaultCR (oc_OperandImage config)
    (oc_OperandVersion config)"
  obtain standalone w1 where sa: "IsStandalone lib A w = (standalone, w1)" by (meson surj_pair)
  obtain lister :: "('x, unit) Lister" and f where new:
    "secondarywatch_New k DefaultResyncPeriodSecondaryResource (oc_Namespace config) = (lister, f)" by (meson surj_pair)
  let ?cro_options = "\<lparr>co_ResyncPeriod = DefaultResyncPeriodPrimaryResource, co_Workers = DefaultWorkerCount,
    co_Client = Some clients, co_RuntimeContext = Some ?octx, co_Lister = Some lister, co_IsStandalone = standalone\<rparr>"
  let ?ro_options = "\<lparr>rox_ResyncPeriod = DefaultResyncPeriodPrimaryResource, rox_Workers = DefaultWorkerCount,
    rox_Client = Some clients\<rparr>"
  obtain cro e where cro: "CRO_New lib A addr 0 (Some ?cro_options) = Returned (Inr (cro, e))"
    "ctrl_Name cro = CRO_ControllerName" "ctrl_WorkerCount cro = DefaultWorkerCount"
    using CRO_New_result [of ?cro_options clients ?octx lister lib A addr 0] by auto
  obtain ro and nw :: "('x, unit) namespace_watcher" where ro: "RO_New lib A 1 (Some ?ro_options) = Inr (ro, nw)"
    "ctrl_Name ro = RO_ControllerName" "ctrl_WorkerCount ro = DefaultWorkerCount"
    "namespace_watch k DefaultResyncPeriodPrimaryResource = (nw_lister nw, nw_handled nw, nw_factory nw)"
    using RO_New_result [of ?ro_options clients cs k lib A 1] c by auto
  let ?r = "secondarywatch_Start f \<lparr>ver_namespace = oc_Namespace config, ver_tweakListOptions = None\<rparr>
    True DefaultCR (sa_secondary sync) (sa_apiServer sync)"
  have ns: "fst (start_namespace_watch (sa_namespace sync) (nw_factory nw))
      = nsWatchStarter (su_namespaceSync (startup_of L K restConfig sync))"
    by (simp add: namespace_watch_run(4) [OF ro(4)] nsWatchStarter_def startup_of_def)
  have sec: "secondary_start True DefaultCR (su_secondarySync (startup_of L K restConfig sync)) (sa_apiServer sync)
      = (wr_events ?r, wr_result ?r)"
    using secondarywatch_Start_run(4) [OF new refl] by (simp add: startup_of_def comp_def)
  have checks: "CRO_New_check False False False = None"
    "RO_New_check (Some (Some \<lparr>has_Operator = True, has_Kubernetes = True\<rparr>)) = None"
    by (simp_all add: CRO_New_check_def RO_New_check_def)
  have su: "su_clients (startup_of L K restConfig sync) = client_builds_of L K restConfig"
    "su_apiServerSynced (startup_of L K restConfig sync) = sa_apiServer sync"
    "su_croSynced (startup_of L K restConfig sync) = sa_cro sync"
    "su_roSynced (startup_of L K restConfig sync) = sa_ro sync"
    by (simp_all add: startup_of_def)
  show ?thesis
    unfolding runner_Run_full_def operator_Run_def
    by (simp add: Inr c sa new cro ro ns sec none checks su controller_message_eq start_failed_def Let_def del: One_nat_def
        split: option.split)
qed

text \<open>What the two controllers are made of.\<close>

lemma controllers_wired:
  assumes "CRO_New lib A addr q (Some o1) = Returned (Inr (cro, en))"
    and "RO_New lib A q' (Some o2) = Inr (ro, nw)"
  shows "ctrl_Queue cro = q \<and> pi_HandlerQueue (ctrl_Informer cro) = q \<and> en_queue en = q \<and> en_lister en = ctrl_lister cro"
    and "ctrl_Queue ro = q' \<and> pi_HandlerQueue (ctrl_Informer ro) = q' \<and> nh_queue (nw_handler nw) = q'
      \<and> nh_roLister (nw_handler nw) = ctrl_lister ro"
    and "pi_Indexer (ctrl_Informer cro) = cro_indexer" and "pi_Indexer (ctrl_Informer ro) = ro_indexer"
  using assms
  by (auto simp: CRO_New_def RO_New_def cro_primary_informer_def ro_primary_informer_def Let_def split_beta
      split: option.splits)

text \<open>The exit status tells whether the configuration was loaded, not whether the operator came up.\<close>

lemma start_Run_status: "snd (start_Run flag env build operate) = (case load flag env build of Inl _ \<Rightarrow> 1 | Inr _ \<Rightarrow> 0)"
  by (simp add: start_Run_def split: sum.split)

text \<open>All events of the runner happen before the process exits; an error it sends is logged, and nothing more.\<close>

lemma cmd_run_message:
  assumes "op_sent pre = []"
  shows "cmd_run config (pre @ OpSend m # post) =
    LogConfiguration (OperatorConfig_String config) # map RunOperator (pre @ [OpSend m])
      @ (case m of None \<Rightarrow> [] | Some err \<Rightarrow> [LogRunError err]) @ LogRunning # map RunOperator post @ [LogExiting]"
proof -
  let ?quiet = "\<lambda>e. case e of OpSend m \<Rightarrow> False | _ \<Rightarrow> True"
  have "takeWhile ?quiet (pre @ OpSend m # post) = pre"
    using assms by (induction pre) (auto simp: op_sent_def split: op_event.splits)
  then show ?thesis by (simp add: cmd_run_def Let_def)
qed

text \<open>The informers of the primary resources list over all namespaces.\<close>

lemma primary_informer_lists:
  "rest_versionedAPIPath (cs_operatorV1 cs) = group_path operator_GroupName
   \<Longrightarrow> pi_ListFunc (cro_primary_informer (Some cs) resync q) opts = Returned (Inr \<lparr>http_method = ''GET'',
        http_base = rest_base (cs_operatorV1 cs), http_path = group_path operator_GroupName @ [''clusterresourceoverrides''],
        http_opts = Some opts, http_body = None\<rparr>)"
  "rest_versionedAPIPath (cs_autoscalingV1 cs) = group_path autoscaling_GroupName
   \<Longrightarrow> pi_ListFunc (ro_primary_informer (Some cs) resync q) opts = Returned (Inr \<lparr>http_method = ''GET'',
        http_base = rest_base (cs_autoscalingV1 cs), http_path = group_path autoscaling_GroupName @ [''resourceoverrides''],
        http_opts = Some opts, http_body = None\<rparr>)"
  by (simp_all add: cro_primary_informer_def ro_primary_informer_def or_panic_def client_List_def ClusterResourceOverrides_def
      typed_ResourceOverrides_def base_request_def rq_NamespaceIfScoped_def rq_Resource_def send_def rq_URL_def
      new_request_def invalid_segment_None_iff)

end
