(* ===== verification/OperandFacts.thy ===== *)
theory OperandFacts
  imports SecondaryWatch
begin

text \<open>
  How the objects of the operand fit together: the names by which they refer to each other, the label
  selectors, the webhook's namespace selector against the opt-in check of the ResourceOverride
  controller, the RBAC objects, and the ownership that leads every one of them back to the
  ClusterResourceOverride. Also what a patch keeps of the stored object.
\<close>

section \<open>Label selectors\<close>

text \<open>The meaning of a selector (apimachinery pkg/labels); an unknown operator matches nothing.\<close>

definition requirement_matches :: "LabelSelectorRequirement \<Rightarrow> go_map \<Rightarrow> bool" where
  "requirement_matches r labels =
     (if lsr_Operator r = ''In'' then go_has labels (lsr_Key r) \<and> go_get labels (lsr_Key r) \<in> set (lsr_Values r)
      else if lsr_Operator r = ''NotIn'' then \<not> (go_has labels (lsr_Key r) \<and> go_get labels (lsr_Key r) \<in> set (lsr_Values r))
      else if lsr_Operator r = ''Exists'' then go_has labels (lsr_Key r)
      else if lsr_Operator r = ''DoesNotExist'' then \<not> go_has labels (lsr_Key r)
      else False)"

definition selector_matches :: "LabelSelector \<Rightarrow> go_map \<Rightarrow> bool" where
  "selector_matches sel labels \<longleftrightarrow>
     list_all (\<lambda>(k, v). map_of labels k = Some v) (ls_MatchLabels sel)
     \<and> list_all (\<lambda>r. requirement_matches r labels) (ls_MatchExpressions sel)"

lemma go_get_eq_Some: "v \<noteq> [] \<Longrightarrow> go_get m k = v \<longleftrightarrow> map_of m k = Some v"
  by (auto simp: go_get_def split: option.splits)

section \<open>Pods, deployment and service\<close>

definition labels_agree :: "Deployment \<Rightarrow> Service \<Rightarrow> bool" where
  "labels_agree d s \<longleftrightarrow>
     (let pod = om_Labels (pt_Meta (dep_Template (dep_Spec d)))
      in selector_matches (dep_Selector (dep_Spec d)) pod
        \<and> list_all (\<lambda>(k, v). map_of pod k = Some v) (svc_Selector s)
        \<and> list_all (\<lambda>t. selector_matches (pat_LabelSelector t) pod) (pod_AntiAffinity (pt_Spec (dep_Template (dep_Spec d)))))"

definition ports_agree :: "Deployment \<Rightarrow> Service \<Rightarrow> bool" where
  "ports_agree d s \<longleftrightarrow>
     (\<exists>c cs. pod_Containers (pt_Spec (dep_Template (dep_Spec d))) = c # cs
        \<and> list_all (\<lambda>p. sp_TargetPort p \<in> set (ctr_Ports c)) (svc_Ports s)
        \<and> probe_Port (ctr_ReadinessProbe c) \<in> set (ctr_Ports c))"

text \<open>The volumes are the serving secret that the service asks for and the configuration map.\<close>

definition volumes_agree :: "Deployment \<Rightarrow> Service \<Rightarrow> ConfigMap \<Rightarrow> bool" where
  "volumes_agree d s cm \<longleftrightarrow>
     (let spec = pt_Spec (dep_Template (dep_Spec d))
      in list_all (\<lambda>c. list_all (\<lambda>m. vm_Name m \<in> vol_Name ` set (pod_Volumes spec)) (ctr_VolumeMounts c)) (pod_Containers spec)
        \<and> (\<exists>mode. SecretVolume (go_get (om_Annotations (o_Meta s)) ServingCertSecretAnnotationName) mode
             \<in> vol_Source ` set (pod_Volumes spec))
        \<and> ConfigMapVolume (om_Name (o_Meta cm)) \<in> vol_Source ` set (pod_Volumes spec)
        \<and> list_ex (\<lambda>c. list_ex (\<lambda>m. vm_SubPath m \<in> fst ` set (cm_Data cm)
             \<and> (''CONFIGURATION_PATH'', vm_MountPath m) \<in> set (ctr_Env c)) (ctr_VolumeMounts c)) (pod_Containers spec))"

lemma operand_agrees:
  assumes "v = asset_New ctx"
  shows "labels_agree (deployment_New a v) (service_New v)"
    and "ports_agree (deployment_New a v) (service_New v)"
    and "volumes_agree (deployment_New a v) (service_New v) (configuration_New v)"
  by (simp_all add: assms labels_agree_def ports_agree_def volumes_agree_def Let_def deployment_New_def
      service_New_def configuration_New_def deployment_PodSpec_def deployment_Container_def new_ObjectMeta_def
      selector_matches_def requirement_matches_def go_has_def go_get_def)

section \<open>The webhook and the opt-in label\<close>

definition exempt_run_level :: "go_map \<Rightarrow> bool" where
  "exempt_run_level labels \<longleftrightarrow> go_has labels ''openshift.io/run-level''
     \<and> go_get labels ''openshift.io/run-level'' \<in> {''0'', ''1''}"

definition webhook_selects :: "Values \<Rightarrow> go_map \<Rightarrow> bool" where
  "webhook_selects v labels \<longleftrightarrow>
     list_all (\<lambda>w. selector_matches (mw_NamespaceSelector w) labels) (mwc_Webhooks (mutatingWebhookConfiguration_New v))"

lemma webhook_selects_iff:
  "webhook_selects (asset_New ctx) labels \<longleftrightarrow>
     ns_label \<lparr>ns_Name = n, ns_Labels = Some labels\<rparr> NamespaceOptInLabelKey = ''true'' \<and> \<not> exempt_run_level labels"
proof -
  have key: "v_AdmissionAPIResource (asset_New ctx) @ ''.'' @ v_AdmissionAPIGroup (asset_New ctx) @ ''/enabled''
      = NamespaceOptInLabelKey"
    by (simp add: asset_New_def NamespaceOptInLabelKey_def)
  have "go_get labels NamespaceOptInLabelKey = ''true'' \<longleftrightarrow> map_of labels NamespaceOptInLabelKey = Some ''true''"
    by (rule go_get_eq_Some) simp
  then show ?thesis
    unfolding webhook_selects_def mutatingWebhookConfiguration_New_def Let_def key
    by (auto simp: selector_matches_def requirement_matches_def ns_label_def exempt_run_level_def)
qed

text \<open>The webhook is reached through the API service, which forwards to the operand's service.\<close>

definition webhook_path_agrees :: "Values \<Rightarrow> bool" where
  "webhook_path_agrees v \<longleftrightarrow>
     (let s = apiservice_New v
      in list_all (\<lambda>w. mw_ServicePath w = ''/apis/'' @ as_Group s @ ''/'' @ as_Version s @ ''/'' @ v_AdmissionAPIResource v)
           (mwc_Webhooks (mutatingWebhookConfiguration_New v))
        \<and> om_Name (o_Meta s) = as_Version s @ ''.'' @ as_Group s
        \<and> as_ServiceName s = om_Name (o_Meta (service_New v))
        \<and> as_ServiceNamespace s = om_Namespace (o_Meta (service_New v))
        \<and> vapb_PolicyName (validatingAdmissionPolicyBinding_New v) = om_Name (o_Meta (validatingAdmissionPolicy_New v)))"

lemma webhook_path: "webhook_path_agrees v"
  by (simp add: webhook_path_agrees_def Let_def apiservice_New_def mutatingWebhookConfiguration_New_def
      service_New_def apiservice_Name_def validatingAdmissionPolicyBinding_New_def
      validatingAdmissionPolicy_New_def new_ObjectMeta_def)

section \<open>RBAC\<close>

text \<open>
  Every binding is for the service account under which the operand's pods run, and the first object
  ensured is that service account. A binding to a role of the operand comes after the role.
\<close>

definition rbac_agrees :: "Values \<Rightarrow> addr \<Rightarrow> bool" where
  "rbac_agrees v a \<longleftrightarrow>
     (\<exists>sa. rbac_Object (hd (rbac_New v)) = RtServiceAccount sa
        \<and> om_Name (o_Meta sa) = pod_ServiceAccountName (pt_Spec (dep_Template (dep_Spec (deployment_New a v))))
        \<and> om_Namespace (o_Meta sa) = om_Namespace (o_Meta (deployment_New a v))
        \<and> (\<forall>s \<in> set (bound_subjects (rbac_New v)). sub_Kind s = ''ServiceAccount''
             \<and> sub_Name s = om_Name (o_Meta sa) \<and> sub_Namespace s = om_Namespace (o_Meta sa)))"

lemma rbac_consistent: "rbac_agrees v a"
  by (simp add: rbac_agrees_def rbac_New_def bound_subjects_def authReaderBinding_def
      defaultClusterRoleBinding_def authDelegatorBinding_def thisOperatorServiceAccount_def
      deployment_New_def deployment_PodSpec_def new_ObjectMeta_def)

lemma default_role_before_binding:
  "\<exists>pre post. rbac_New v = pre @ \<lparr>rbac_Resource = ''clusterrolebindings'',
       rbac_Object = RtClusterRoleBinding (defaultClusterRoleBinding v)\<rparr> # post
     \<and> rr_Name (crb_RoleRef (defaultClusterRoleBinding v)) \<in> set (cluster_role_names pre)"
  by (rule exI [of _ "take 4 (rbac_New v)"], rule exI [of _ "drop 5 (rbac_New v)"])
    (simp add: rbac_New_def cluster_role_names_def defaultClusterRoleBinding_def defaultClusterRole_def
      requesterClusterRole_def new_ObjectMeta_def)

section \<open>Everything belongs to the ClusterResourceOverride\<close>

text \<open>The objects that are ensured for a ClusterResourceOverride, as they are sent.\<close>

definition owned_objects :: "'w Options \<Rightarrow> ClusterResourceOverride \<Rightarrow> Args \<Rightarrow> ConfigMap \<Rightarrow> runtime_object list" where
  "owned_objects opts cro args cm =
     (let v = opt_Asset opts
      in [RtConfigMap cm,
          RtService (ControllerSetter (service_New v) cro),
          RtDeployment (ApplyToDeploymentObject opts cro args (deployment_New (opt_tolerationSeconds opts) v)),
          RtAPIService (ControllerSetter (apiservice_New v) cro),
          RtMutatingWebhookConfiguration (ControllerSetter (mutatingWebhookConfiguration_New v) cro),
          RtValidatingAdmissionPolicy (ControllerSetter (validatingAdmissionPolicy_New v) cro),
          RtValidatingAdmissionPolicyBinding (ControllerSetter (validatingAdmissionPolicyBinding_New v) cro)]
        @ map (\<lambda>item. runtime_SetController (rbac_Object item) cro) (rbac_New v))"

definition controlled_by :: "runtime_object \<Rightarrow> ClusterResourceOverride \<Rightarrow> bool" where
  "controlled_by x cro \<longleftrightarrow>
     om_OwnerReferences (runtime_Meta x) = [NewControllerRef cro (GetGroupVersionKind cro)]"

lemma NewConfiguration_owned:
  "NewConfiguration opts cro = Inr cm \<Longrightarrow> controlled_by (RtConfigMap cm) cro"
  by (auto simp: NewConfiguration_def Let_def controlled_by_def ControllerSetter_def SetController_fresh
      configuration_New_def new_ObjectMeta_def split: sum.splits)

lemma ApplyToDeploymentObject_owned:
  "om_OwnerReferences (o_Meta d) = [] \<Longrightarrow>
     om_OwnerReferences (o_Meta (ApplyToDeploymentObject opts cro args d)) = [NewControllerRef cro (GetGroupVersionKind cro)]"
  by (simp add: ApplyToDeploymentObject_def Let_def ControllerSetter_def SetController_fresh split: option.splits)

lemma all_controlled:
  assumes "NewConfiguration opts cro = Inr cm" and "x \<in> set (owned_objects opts cro args cm)"
  shows "controlled_by x cro"
proof -
  have rbac: "om_OwnerReferences (runtime_Meta (rbac_Object i)) = []" if "i \<in> set (rbac_New v)" for i v
    using that by (auto simp: rbac_New_def new_ObjectMeta_def authReaderBinding_def requesterClusterRole_def
      defaultClusterRole_def defaultClusterRoleBinding_def authDelegatorBinding_def)
  from assms NewConfiguration_owned [OF assms(1)] show ?thesis
    by (auto simp: owned_objects_def Let_def controlled_by_def ControllerSetter_def SetController_fresh
        ApplyToDeploymentObject_owned runtime_SetController_fresh rbac
        service_New_def deployment_New_def apiservice_New_def mutatingWebhookConfiguration_New_def
        validatingAdmissionPolicy_New_def validatingAdmissionPolicyBinding_New_def new_ObjectMeta_def)
qed

text \<open>An event on any of them therefore enqueues the ClusterResourceOverride.\<close>

lemma controlled_leads_back:
  assumes "controlled_by x cro" and "GetGroupVersionKind cro = ClusterResourceOverrideGVK"
    and "om_OwnerReferences (o_Meta obj) = om_OwnerReferences (runtime_Meta x)"
  shows "getOwnerName key obj = om_Name (o_Meta cro)"
  using assms
  by (simp add: getOwnerName_def GetControllerOf_def controlled_by_def NewControllerRef_def ClusterResourceOverrideGVK_def)

lemma owned_event_enqueues:
  assumes "controlled_by x cro" and "GetGroupVersionKind cro = ClusterResourceOverrideGVK"
    and "om_OwnerReferences (o_Meta obj) = om_OwnerReferences (runtime_Meta x)"
    and "om_Name (o_Meta cro) \<noteq> []" and "api_CRO_Get A (om_Name (o_Meta cro)) w = (Inr stored, w')"
  shows "resource_OnAdd (Enqueue A key) (MetaObj obj) b w = ([request_for stored], w')"
    and "resource_OnDelete (Enqueue A key) (Tombstone k (MetaObj obj)) w = ([request_for stored], w')"
  using controlled_leads_back [OF assms(1-3), of key] assms(4,5)
  by (simp_all add: resource_OnAdd_def resource_OnDelete_def enqueued_def Enqueue_owned)

section \<open>What a patch keeps of the stored object\<close>

lemma NestedString_metadata:
  "NestedString u [''metadata'', f] = (case map_of u ''metadata'' of
     Some (JObject m) \<Rightarrow> (case map_of m f of Some (JString s) \<Rightarrow> s | _ \<Rightarrow> []) | _ \<Rightarrow> [])"
  by (auto simp: NestedString_def split: option.splits json.splits)

lemma metadata_set:
  assumes "map_of m ''metadata'' = Some (JObject mm)"
  shows "map_of (u_SetUID x m) ''metadata'' = Some (JObject (if x = [] then AList.delete ''uid'' mm else AList.update ''uid'' (JString x) mm))"
    and "map_of (u_SetResourceVersion x m) ''metadata'' =
      Some (JObject (if x = [] then AList.delete ''resourceVersion'' mm else AList.update ''resourceVersion'' (JString x) mm))"
  using assms by (simp_all add: u_SetUID_def u_SetResourceVersion_def update_conv')

lemma keep_slice_metadata: "f \<noteq> ''metadata'' \<Longrightarrow> map_of (keep_slice f orig m) ''metadata'' = map_of m ''metadata''"
  by (auto simp: keep_slice_def update_conv' split: sum.splits option.splits)

text \<open>The patch is computed against the version and the identity that were read.\<close>

lemma prepare_modified_identity:
  assumes "map_of m ''metadata'' = Some (JObject mm)"
  shows "u_GetUID (prepare_modified orig m) = u_GetUID orig"
    and "u_GetResourceVersion (prepare_modified orig m) = u_GetResourceVersion orig"
    and "u_GetName (prepare_modified orig m) = u_GetName m"
    and "u_GetNamespace (prepare_modified orig m) = u_GetNamespace m"
proof -
  let ?rv = "u_GetResourceVersion orig" and ?uid = "u_GetUID orig"
  let ?m1 = "if ?rv = [] then AList.delete ''resourceVersion'' mm else AList.update ''resourceVersion'' (JString ?rv) mm"
  let ?m2 = "if ?uid = [] then AList.delete ''uid'' ?m1 else AList.update ''uid'' (JString ?uid) ?m1"
  have "map_of (u_SetUID ?uid (u_SetResourceVersion ?rv m)) ''metadata'' = Some (JObject ?m2)"
    by (rule metadata_set(1) [OF metadata_set(2) [OF assms]])
  then have meta: "map_of (prepare_modified orig m) ''metadata'' = Some (JObject ?m2)"
    by (simp add: prepare_modified_def Let_def keep_slice_metadata)
  show "u_GetUID (prepare_modified orig m) = u_GetUID orig"
    and "u_GetResourceVersion (prepare_modified orig m) = u_GetResourceVersion orig"
    and "u_GetName (prepare_modified orig m) = u_GetName m"
    and "u_GetNamespace (prepare_modified orig m) = u_GetNamespace m"
    unfolding u_GetUID_def [of "prepare_modified _ _"] u_GetResourceVersion_def [of "prepare_modified _ _"]
      u_GetName_def u_GetNamespace_def NestedString_metadata meta assms
    by (simp_all add: update_conv' delete_conv')
qed

text \<open>The secrets that were added to a service account are not removed from it.\<close>

lemma prepare_modified_secrets:
  assumes "u_GetKind m = ''ServiceAccount''" and "map_of orig ''secrets'' = Some (JList l)"
  shows "map_of (prepare_modified orig m) ''secrets'' = Some (JList l)"
proof -
  have other: "map_of (keep_slice ''imagePullSecrets'' orig u) ''secrets'' = map_of u ''secrets''" for u
    by (auto simp: keep_slice_def update_conv' split: sum.splits option.splits)
  from assms(2) have "NestedSlice orig [''secrets''] = Inr (Some l)" by (simp add: NestedSlice_def)
  then have "map_of (keep_slice ''secrets'' orig u) ''secrets'' = Some (JList l)" for u
    by (simp add: keep_slice_def update_conv')
  with assms(1) show ?thesis by (simp add: prepare_modified_def Let_def other)
qed

end
