(* ===== verification/SpecHash.thy ===== *)
theory SpecHash
  imports ApiTypes TlsProfile
begin

text \<open>
  What the hashes by which the operator detects a change can and cannot tell apart: the hash of a
  ClusterResourceOverride spec, the printed node selector and tolerations, and the hash of the TLS
  arguments.
\<close>

section \<open>The spec hash\<close>

text \<open>
  A digest that prints without a comma, and that does not collide on the strings at hand, tells two
  specs with different pod overrides apart.
\<close>

definition no_collision :: "(string \<Rightarrow> string) \<Rightarrow> string \<Rightarrow> string \<Rightarrow> bool" where
  "no_collision sha x y \<longleftrightarrow> (sha x = sha y \<longrightarrow> x = y)"

definition spec_string :: "(string \<Rightarrow> string) \<Rightarrow> ClusterResourceOverrideSpec \<Rightarrow> string" where
  "spec_string sha s = ''PodResourceOverride='' @ PodResourceOverrideSpec_Hash sha (pro_Spec (spec_PodResourceOverride s))
     @ '', DeploymentOverrides='' @ DeploymentOverrides_Hash sha (spec_DeploymentOverrides s)"

lemma Spec_Hash_spec_string: "ClusterResourceOverrideSpec_Hash sha s = sha (spec_string sha s)"
  by (simp add: ClusterResourceOverrideSpec_Hash_def spec_string_def)

lemma spec_string_eq:
  assumes "\<And>x. CHR '','' \<notin> set (sha x)" and "spec_string sha s = spec_string sha t"
  shows "PodResourceOverrideSpec_Hash sha (pro_Spec (spec_PodResourceOverride s))
       = PodResourceOverrideSpec_Hash sha (pro_Spec (spec_PodResourceOverride t))"
    and "DeploymentOverrides_Hash sha (spec_DeploymentOverrides s) = DeploymentOverrides_Hash sha (spec_DeploymentOverrides t)"
proof -
  have plain: "CHR '','' \<notin> set (PodResourceOverrideSpec_Hash sha p)" for p
    using assms(1) by (simp add: PodResourceOverrideSpec_Hash_def)
  show "PodResourceOverrideSpec_Hash sha (pro_Spec (spec_PodResourceOverride s))
       = PodResourceOverrideSpec_Hash sha (pro_Spec (spec_PodResourceOverride t))"
    and "DeploymentOverrides_Hash sha (spec_DeploymentOverrides s) = DeploymentOverrides_Hash sha (spec_DeploymentOverrides t)"
    using assms(2) plain by (simp_all add: spec_string_def append_sep_eq)
qed

lemma Spec_Hash_detects:
  assumes plain: "\<And>x. CHR '','' \<notin> set (sha x)"
    and "no_collision sha (spec_string sha s) (spec_string sha t)"
    and "no_collision sha (PodResourceOverrideSpec_String (pro_Spec (spec_PodResourceOverride s)))
      (PodResourceOverrideSpec_String (pro_Spec (spec_PodResourceOverride t)))"
    and "ClusterResourceOverrideSpec_Hash sha s = ClusterResourceOverrideSpec_Hash sha t"
  shows "pro_Spec (spec_PodResourceOverride s) = pro_Spec (spec_PodResourceOverride t)"
proof -
  from assms(2,4) have "spec_string sha s = spec_string sha t" by (simp add: no_collision_def Spec_Hash_spec_string)
  from spec_string_eq(1) [OF plain this] assms(3)
  have "PodResourceOverrideSpec_String (pro_Spec (spec_PodResourceOverride s))
      = PodResourceOverrideSpec_String (pro_Spec (spec_PodResourceOverride t))"
    by (simp add: no_collision_def PodResourceOverrideSpec_Hash_def)
  then show ?thesis by (rule PodResourceOverrideSpec_String_inject)
qed

text \<open>A digest for examples: the hexadecimal dump, which prints no comma and never collides.\<close>

definition hex_dump :: "string \<Rightarrow> string" where
  "hex_dump s = concat (map (\<lambda>c. [digit_char (of_char c div 16), digit_char (of_char c mod 16)]) s)"

lemma char_nibbles: "(of_char c :: nat) div 16 < 16" "(of_char c :: nat) mod 16 < 16"
  by (simp_all add: less_mult_imp_div_less)

lemma hex_dump_plain: "CHR '','' \<notin> set (hex_dump s)"
proof -
  have plain: "CHR '','' \<noteq> digit_char d" if "d < 16" for d
  proof
    assume eq: "CHR '','' = digit_char d"
    from digit_char_range [OF that, folded eq] show False by simp
  qed
  show ?thesis by (induction s) (simp_all add: hex_dump_def plain char_nibbles)
qed

lemma hex_dump_inject: "hex_dump s = hex_dump t \<longleftrightarrow> s = t"
proof (induction s arbitrary: t)
  case Nil
  then show ?case by (cases t) (simp_all add: hex_dump_def)
next
  case (Cons c s)
  have digit: "digit_char d = digit_char e \<longleftrightarrow> d = e" if "d < 16" "e < 16" for d e
    using that char_digit_digit_char by metis
  show ?case
  proof (cases t)
    case (Cons d u)
    have "c = d" if "(of_char c :: nat) div 16 = of_char d div 16" "(of_char c :: nat) mod 16 = of_char d mod 16"
      using that by (metis div_mult_mod_eq of_char_eq_iff)
    with Cons Cons.IH [of u] show ?thesis by (auto simp: hex_dump_def digit char_nibbles)
  qed (simp add: hex_dump_def)
qed

section \<open>Tolerations are printed with their addresses\<close>

lemma tolerationsToString_address:
  "\<exists>p q. \<forall>a. tolerationsToString (xs @ t\<lparr>tol_TolerationSeconds := Some (Ptr a v)\<rparr> # ys) = p @ fmt_ptr a @ q"
proof -
  have elem: "fmt_Toleration (t\<lparr>tol_TolerationSeconds := Some (Ptr a v)\<rparr>) =
      (''{'' @ tol_Key t @ '' '' @ tol_Operator t @ '' '' @ tol_Value t @ '' '' @ tol_Effect t @ '' '')
      @ fmt_ptr a @ ''}''" for a
    by (simp add: fmt_Toleration_def)
  have join: "\<exists>p q. \<forall>s. strings_Join (us @ s # vs) sep = p @ s @ q" for us vs and sep :: string
  proof (induction us)
    case Nil
    show ?case
    proof (cases vs)
      case Nil
      then show ?thesis by (intro exI [of _ "[]"]) simp
    next
      case (Cons v vs')
      then show ?thesis by (intro exI [of _ "[]"] exI [of _ "sep @ strings_Join vs sep"]) simp
    qed
  next
    case (Cons u us)
    then obtain p q where pq: "\<forall>s. strings_Join (us @ s # vs) sep = p @ s @ q" by blast
    have "strings_Join (u # us @ s # vs) sep = u @ sep @ strings_Join (us @ s # vs) sep" for s
      by (cases "us @ s # vs") simp_all
    with pq show ?case by (intro exI [of _ "u @ sep @ p"] exI [of _ q]) simp
  qed
  obtain p q where "\<forall>s. strings_Join (map fmt_Toleration xs @ s # map fmt_Toleration ys) '' '' = p @ s @ q"
    using join by blast
  then show ?thesis
    unfolding tolerationsToString_def by (simp add: elem del: append_Cons) (metis append.assoc)
qed

lemma tolerations_address_visible:
  assumes "tolerationsToString (xs @ t\<lparr>tol_TolerationSeconds := Some (Ptr a v)\<rparr> # ys)
    = tolerationsToString (xs @ t\<lparr>tol_TolerationSeconds := Some (Ptr b v)\<rparr> # ys)"
  shows "a = b"
  using tolerationsToString_address [where xs = xs and t = t and v = v and ys = ys] assms by (metis append_same_eq fmt_ptr_inject same_append_eq)

section \<open>The TLS hash\<close>

lemma strings_Join_Nil_iff: "\<forall>x \<in> set xs. x \<noteq> [] \<Longrightarrow> strings_Join xs s = [] \<longleftrightarrow> xs = []"
  by (cases xs rule: remdups_adj.cases) auto

lemma ArgsFromTLSConfig_MinVersion:
  "MinVersion (ArgsFromTLSConfig c) = (if cfg_MinVersion c = 0 then [] else versionName (cfg_MinVersion c))"
  "CipherSuites (ArgsFromTLSConfig c) = strings_Join (map CipherSuiteName (cfg_CipherSuites c)) '',''"
  by (simp_all add: ArgsFromTLSConfig_def empty_Args_def Let_def)

lemma ArgsFromTLSConfig_inject: "ArgsFromTLSConfig c = ArgsFromTLSConfig d \<Longrightarrow> c = d"
proof -
  assume eq: "ArgsFromTLSConfig c = ArgsFromTLSConfig d"
  then have "cfg_MinVersion c = cfg_MinVersion d"
    using ArgsFromTLSConfig_MinVersion(1) [of c] ArgsFromTLSConfig_MinVersion(1) [of d] versionName_inject
    by (auto split: if_splits dest: sym)
  moreover from eq have "strings_Join (map CipherSuiteName (cfg_CipherSuites c)) '',''
      = strings_Join (map CipherSuiteName (cfg_CipherSuites d)) '',''"
    by (metis ArgsFromTLSConfig_MinVersion(2))
  then have "map CipherSuiteName (cfg_CipherSuites c) = map CipherSuiteName (cfg_CipherSuites d)"
    by (rule strings_Join_comma_inject [rotated]) (auto simp: CipherSuiteName_plain)
  then have "cfg_CipherSuites c = cfg_CipherSuites d"
    by (rule map_injective) (simp add: inj_on_def CipherSuiteName_inject)
  ultimately show "c = d" by (cases c; cases d) simp
qed

lemma TLS_hash_iff: "Args_Hash (ArgsFromTLSConfig c) = Args_Hash (ArgsFromTLSConfig d) \<longleftrightarrow> c = d"
  using Args_Hash_inject [of "ArgsFromTLSConfig c" "ArgsFromTLSConfig d"] ArgsFromTLSConfig_inject versionName_plain
  by (auto simp: ArgsFromTLSConfig_MinVersion)

text \<open>
  Validation accepts exactly the percentages from 0 to 100, a non-negative CPU to memory ratio and a
  non-negative replica count, read as signed numbers; both API groups agree.
\<close>

lemma Validate_accepts:
  "(PodResourceOverrideSpec_Validate p = None \<longleftrightarrow>
      sint (MemoryRequestToLimitPercent p) \<in> {0..100} \<and> sint (CPURequestToLimitPercent p) \<in> {0..100}
      \<and> sint (CPURequestToRequestPercent p) \<in> {0..100} \<and> 0 \<le> sint (LimitCPUToMemoryPercent p))
   \<and> autoscaling_PodResourceOverrideSpec_Validate p = PodResourceOverrideSpec_Validate p
   \<and> (DeploymentOverrides_Validate d = None \<longleftrightarrow> (case do_Replicas d of None \<Rightarrow> True | Some r \<Rightarrow> 0 \<le> sint r))"
  by (auto simp: Validate_None_iff valid_percentages_def autoscaling_Validate_eq
      DeploymentOverrides_Validate_None_iff split: option.splits)

end
