(* ===== verification/Steady.thy ===== *)
theory Steady
  imports ReconcileFacts
begin

text \<open>
  The steady state: the cluster holds the operand as a successful reconcile has left it. A reconcile
  then changes nothing, and the next ones do not either. Its only writing call is the deletion of the legacy daemon set, which is not
  there.
\<close>

section \<open>A cluster at rest\<close>

text \<open>
  A call whose answer satisfies \<open>Q\<close> as long as the world satisfies \<open>P\<close>, and that keeps \<open>P\<close>: the cluster may
  move on in any way that \<open>P\<close> allows.
\<close>

definition answers :: "('w \<Rightarrow> bool) \<Rightarrow> ('w \<Rightarrow> 'r \<times> 'w) \<Rightarrow> ('r \<Rightarrow> bool) \<Rightarrow> bool" where
  "answers P f Q \<longleftrightarrow> (\<forall>w. P w \<longrightarrow> Q (fst (f w)) \<and> P (snd (f w)))"

lemma on_fst_answers:
  assumes "answers P f Q" and "P (fst s)"
  obtains r s' where "on_fst f s = (r, s')" "snd s' = snd s" "Q r" "P (fst s')"
  using assms(1) [unfolded answers_def, rule_format, OF assms(2)] that
  by (cases "f (fst s)") (simp add: on_fst_def)

lemma logging_answers:
  assumes "answers P f Q" and "P (fst s)"
  obtains r s' where "logging c f s = (r, s')" "snd s' = snd s @ [c]" "Q r" "P (fst s')"
  using assms(1) [unfolded answers_def, rule_format, OF assms(2)] that
  by (cases "f (fst s)") (simp add: logging_def)

text \<open>The Available condition that reports what the status of the deployment says.\<close>

definition reports_availability :: "Deployment \<Rightarrow> ClusterResourceOverrideCondition \<Rightarrow> bool" where
  "reports_availability d k \<longleftrightarrow> (case snd (GetDeploymentStatus d True) of
     None \<Rightarrow> cond_Status k = ConditionTrue \<and> cond_Reason k = [] \<and> cond_Message k = []
   | Some e \<Rightarrow> cond_Status k = ConditionFalse \<and> cond_Reason k = InternalError \<and> cond_Message k = Error e)"

definition tls_args :: "error + Args \<Rightarrow> Args" where
  "tls_args fetched = (case fetched of Inl err \<Rightarrow> empty_Args | Inr args \<Rightarrow> args)"

definition deployment_at_rest :: "'v Options \<Rightarrow> 'w api \<Rightarrow> ('w \<Rightarrow> bool) \<Rightarrow> ClusterResourceOverride \<Rightarrow> bool" where
  "deployment_at_rest opts A P c \<longleftrightarrow> (let v = opt_Asset opts; ctx = opt_OperandContext opts in
     answers P (api_DaemonSet_Delete A (v_Namespace v) (daemonset_Name v)) IsNotFound_opt
     \<and> (\<exists>d. answers P (api_Deployment_Get A (WebhookNamespace ctx) (deployment_Name v)) (\<lambda>r. r = Inr d)
          \<and> answers P (tlsprofile_Fetch (opt_lib opts) A) (\<lambda>r. \<not> needs_ensure v c (tls_args r) (Some d))
          \<and> fst (GetDeploymentStatus d False)
          \<and> ref_in_sync (DeploymentRef (cro_Resources c)) d
          \<and> (\<exists>k. cro_Find (cro_Status c) Available = Some k \<and> reports_availability d k)))"

definition objects_at_rest :: "'v Options \<Rightarrow> 'w api \<Rightarrow> ('w \<Rightarrow> bool) \<Rightarrow> ClusterResourceOverride \<Rightarrow> bool" where
  "objects_at_rest opts A P c \<longleftrightarrow>
    (let v = opt_Asset opts; ns = WebhookNamespace (opt_OperandContext opts); r = cro_Resources c in
     answers P (api_ConfigMap_Get A ns (configuration_Name v))
       (\<lambda>a. \<exists>x. a = Inr x \<and> ref_in_sync (ConfigurationRef r) x)
     \<and> answers P (api_Secret_Get A ns (serviceServingSecret_Name v))
       (\<lambda>a. case a of Inl e \<Rightarrow> IsNotFound e | Inr x \<Rightarrow> \<not> secret_is_old x (service_Name v))
     \<and> answers P (api_Service_Get A ns (service_Name v)) (\<lambda>a. \<exists>x. a = Inr x \<and> ref_in_sync (ServiceRef r) x)
     \<and> answers P (api_APIService_Get A (apiservice_Name v))
       (\<lambda>a. \<exists>x. a = Inr (Some x) \<and> \<not> not_owned_by x c \<and> ref_in_sync (APiServiceRef r) x)
     \<and> answers P (api_MWC_Get A (mutatingWebhookConfiguration_Name v))
       (\<lambda>a. \<exists>x. a = Inr x \<and> ref_in_sync (MutatingWebhookConfigurationRef r) x)
     \<and> answers P (api_VAP_Get A validatingAdmissionPolicyName)
       (\<lambda>a. \<exists>x. a = Inr x \<and> ref_in_sync (ValidatingAdmissionPolicyRef r) x)
     \<and> answers P (api_VAPB_Get A validatingAdmissionPolicyName)
       (\<lambda>a. \<exists>x. a = Inr x \<and> ref_in_sync (ValidatingAdmissionPolicyBindingRef r) x))"

lemma objects_at_restD:
  assumes "objects_at_rest opts A P c"
  shows "answers P (api_ConfigMap_Get A (WebhookNamespace (opt_OperandContext opts)) (configuration_Name (opt_Asset opts)))
      (\<lambda>a. \<exists>x. a = Inr x \<and> ref_in_sync (ConfigurationRef (cro_Resources c)) x)"
    and "answers P (api_Secret_Get A (WebhookNamespace (opt_OperandContext opts)) (serviceServingSecret_Name (opt_Asset opts)))
      (\<lambda>a. case a of Inl e \<Rightarrow> IsNotFound e | Inr x \<Rightarrow> \<not> secret_is_old x (service_Name (opt_Asset opts)))"
    and "answers P (api_Service_Get A (WebhookNamespace (opt_OperandContext opts)) (service_Name (opt_Asset opts)))
      (\<lambda>a. \<exists>x. a = Inr x \<and> ref_in_sync (ServiceRef (cro_Resources c)) x)"
    and "answers P (api_APIService_Get A (apiservice_Name (opt_Asset opts)))
      (\<lambda>a. \<exists>x. a = Inr (Some x) \<and> \<not> not_owned_by x c \<and> ref_in_sync (APiServiceRef (cro_Resources c)) x)"
    and "answers P (api_MWC_Get A (mutatingWebhookConfiguration_Name (opt_Asset opts)))
      (\<lambda>a. \<exists>x. a = Inr x \<and> ref_in_sync (MutatingWebhookConfigurationRef (cro_Resources c)) x)"
    and "answers P (api_VAP_Get A validatingAdmissionPolicyName)
      (\<lambda>a. \<exists>x. a = Inr x \<and> ref_in_sync (ValidatingAdmissionPolicyRef (cro_Resources c)) x)"
    and "answers P (api_VAPB_Get A validatingAdmissionPolicyName)
      (\<lambda>a. \<exists>x. a = Inr x \<and> ref_in_sync (ValidatingAdmissionPolicyBindingRef (cro_Resources c)) x)"
  using assms by (simp_all only: objects_at_rest_def Let_def)

definition status_at_rest :: "'w Options \<Rightarrow> ClusterResourceOverride \<Rightarrow> bool" where
  "status_at_rest opts c \<longleftrightarrow>
     st_HashConfiguration (cro_Status c) = ClusterResourceOverrideSpec_Hash (lib_sha256 (opt_lib opts)) (cro_Spec c)
     \<and> st_Version (cro_Status c) = OperandVersion (opt_OperandContext opts)
     \<and> st_Image (cro_Status c) = OperandImage (opt_OperandContext opts)
     \<and> (\<exists>k. cro_Find (cro_Status c) InstallReadinessFailure = Some k \<and> cond_Status k = ConditionFalse
          \<and> cond_Reason k = [] \<and> cond_Message k = [])"

definition at_rest :: "'v Options \<Rightarrow> 'w api \<Rightarrow> ('w \<Rightarrow> bool) \<Rightarrow> ClusterResourceOverride \<Rightarrow> bool" where
  "at_rest opts A P c \<longleftrightarrow> spec_valid (cro_Spec c)
     \<and> (\<exists>b. lib_yaml_Marshal (opt_lib opts) (spec_PodResourceOverride (cro_Spec c)) = Inr b)
     \<and> answers P (api_Now A) (\<lambda>t. True)
     \<and> status_at_rest opts c \<and> objects_at_rest opts A P c \<and> deployment_at_rest opts A P c"

section \<open>Handlers at rest\<close>

definition quiet :: "('w \<Rightarrow> bool) \<Rightarrow> call list \<Rightarrow> ('w \<times> call list) handler \<Rightarrow> ClusterResourceOverride \<Rightarrow> bool" where
  "quiet P cs h c \<longleftrightarrow>
     (\<forall>s. P (fst s) \<longrightarrow> (\<exists>s'. h c s = (handle_ok c, s') \<and> snd s' = snd s @ cs \<and> P (fst s')))"

lemma quietI:
  "(\<And>s. P (fst s) \<Longrightarrow> \<exists>s'. h c s = (handle_ok c, s') \<and> snd s' = snd s @ cs \<and> P (fst s')) \<Longrightarrow> quiet P cs h c"
  by (simp add: quiet_def)

lemma quiet_chain:
  assumes "list_all2 (\<lambda>h cs. quiet P cs h c) hs css" and "hs \<noteq> []" and "P (fst s)"
  shows "\<exists>s'. HandlerChain_loop A hs c cur res s = (Returned (Some c, empty_Result, None), s')
    \<and> snd s' = snd s @ concat css \<and> P (fst s')"
  using assms
proof (induction hs css arbitrary: cur res s rule: list_all2_induct)
  case (Cons h hs cs css)
  from Cons.hyps(1) Cons.prems(2) obtain s1 where
    run: "h c s = (handle_ok c, s1)" "snd s1 = snd s @ cs" "P (fst s1)"
    unfolding quiet_def by blast
  show ?case
  proof (cases "hs = []")
    case True
    with run Cons.hyps(2) show ?thesis by (simp add: handle_ok_def empty_Result_def)
  next
    case False
    from Cons.IH [OF this run(3), of "Some c" empty_Result] run show ?thesis
      by (auto simp: handle_ok_def empty_Result_def)
  qed
qed simp

text \<open>A condition that is already there is left as it is, with its transition time.\<close>

lemma put_same:
  assumes "cro_Find s (cond_Type d) = Some k" and "cond_Status k = cond_Status d"
    and "cond_Reason k = cond_Reason d" and "cond_Message k = cond_Message d"
  shows "cro_WithCondition (Some d) (cro_init s) = s"
proof -
  from assms(1) have "cond_Type k = cond_Type d" by (auto simp: cro_Find_def dest: find_type_in_Some)
  moreover from assms(1) have "cro_init s = s"
    by (cases "st_Conditions s") (auto simp: cro_init_def cro_Find_def)
  ultimately show ?thesis using assms by (simp add: cro_WithCondition_def cro_Equal_def)
qed

lemma deploy_IsAvailable_rest:
  assumes "answers P (api_Deployment_Get A (WebhookNamespace ctx) (deployment_Name v)) (\<lambda>r. r = Inr d)" and "P (fst s)"
  obtains s' where "deploy_IsAvailable (traced A) ctx v g s = (GetDeploymentStatus d g, s')" "snd s' = snd s" "P (fst s')"
proof -
  obtain s' where "on_fst (api_Deployment_Get A (WebhookNamespace ctx) (deployment_Name v)) s = (Inr d, s')"
    "snd s' = snd s" "P (fst s')" using on_fst_answers [OF assms] by metis
  then show thesis by (intro that [of s']) (simp_all add: deploy_IsAvailable_def)
qed

lemma Now_rest:
  assumes "answers P (api_Now A) (\<lambda>t. True)" and "P (fst s)"
  obtains t s' where "api_Now (traced A) s = (t, s')" "snd s' = snd s" "P (fst s')"
  using on_fst_answers [OF assms] by (metis traced_simps(1))

lemma set_Status_same [simp]: "set_Status (cro_Status c) c = c"
  by (simp add: set_Status_def)

lemma quiet_availability:
  assumes "deployment_at_rest opts A P c" and now: "answers P (api_Now A) (\<lambda>t. True)"
  shows "quiet P [] (availabilityHandler_Handle (recording opts A)) c"
proof (rule quietI)
  fix s :: "'b \<times> call list"
  assume P: "P (fst s)"
  let ?ctx = "opt_OperandContext opts" and ?v = "opt_Asset opts"
  from assms(1) obtain d k where d: "answers P (api_Deployment_Get A (WebhookNamespace ?ctx) (deployment_Name ?v)) (\<lambda>r. r = Inr d)"
    and k: "cro_Find (cro_Status c) Available = Some k" "reports_availability d k"
    unfolding deployment_at_rest_def Let_def by blast
  obtain s1 where av: "deploy_IsAvailable (traced A) ?ctx ?v True s = (GetDeploymentStatus d True, s1)"
    "snd s1 = snd s" "P (fst s1)" using deploy_IsAvailable_rest [OF d P] .
  obtain t s2 where now: "api_Now (traced A) s1 = (t, s2)" "snd s2 = snd s1" "P (fst s2)"
    using Now_rest [OF now av(3)] .
  obtain ok err where st: "GetDeploymentStatus d True = (ok, err)" by (cases "GetDeploymentStatus d True")
  show "\<exists>s'. availabilityHandler_Handle (recording opts A) c s = (handle_ok c, s') \<and> snd s' = snd s @ [] \<and> P (fst s')"
  proof (cases err)
    case None
    with st have "ok" using GetDeploymentStatus_done_or_err by blast
    moreover from k None st have "cro_WithCondition (Some \<lparr>cond_Type = Available, cond_Status = ConditionTrue,
        cond_Reason = [], cond_Message = [], cond_LastTransitionTime = t\<rparr>) (cro_init (cro_Status c)) = cro_Status c"
      by (intro put_same) (auto simp: reports_availability_def)
    with now have "WithAvailable (traced A) ConditionTrue [] (cro_Status c) s1 = (cro_Status c, s2)"
      by (simp add: WithAvailable_def Let_def)
    ultimately show ?thesis using av st now None by (simp add: availabilityHandler_Handle_def Let_def)
  next
    case (Some e)
    with st have "\<not> ok" using GetDeploymentStatus_done_or_err by blast
    moreover have "\<not> IsNotFound e" using GetDeploymentStatus_not_IsNotFound st Some by blast
    moreover from k Some st have "cro_WithCondition (Some \<lparr>cond_Type = Available, cond_Status = ConditionFalse,
        cond_Reason = InternalError, cond_Message = Error e, cond_LastTransitionTime = t\<rparr>) (cro_init (cro_Status c)) = cro_Status c"
      by (intro put_same) (auto simp: reports_availability_def)
    with now have "WithError (traced A) (Some (NewAvailableError InternalError (Some e))) (cro_Status c) s1
        = (Returned (cro_Status c), s2)"
      by (simp add: WithError_def NewAvailableError_def Let_def)
    ultimately show ?thesis using av st now Some by (simp add: availabilityHandler_Handle_def Let_def)
  qed
qed

lemma quiet_deployment_ready:
  assumes "status_at_rest opts c" and "deployment_at_rest opts A P c" and now: "answers P (api_Now A) (\<lambda>t. True)"
  shows "quiet P [] (deploymentReadyHandler_Handle (recording opts A)) c"
proof (rule quietI)
  fix s :: "'b \<times> call list"
  assume P: "P (fst s)"
  let ?ctx = "opt_OperandContext opts" and ?v = "opt_Asset opts"
  from assms(2) obtain d where d: "answers P (api_Deployment_Get A (WebhookNamespace ?ctx) (deployment_Name ?v)) (\<lambda>r. r = Inr d)"
    and ready: "fst (GetDeploymentStatus d False)"
    unfolding deployment_at_rest_def Let_def by blast
  from ready have "GetDeploymentStatus d False = (True, None)"
    using GetDeploymentStatus_done_or_err [of d False] by (cases "GetDeploymentStatus d False") simp
  then obtain s1 where av: "deploy_IsAvailable (traced A) ?ctx ?v False s = ((True, None), s1)" "snd s1 = snd s" "P (fst s1)"
    using deploy_IsAvailable_rest [OF d P] by metis
  obtain t s2 where now: "api_Now (traced A) s1 = (t, s2)" "snd s2 = snd s1" "P (fst s2)"
    using Now_rest [OF now av(3)] .
  from assms(1) have "cro_WithCondition (Some \<lparr>cond_Type = InstallReadinessFailure, cond_Status = ConditionFalse,
      cond_Reason = [], cond_Message = [], cond_LastTransitionTime = t\<rparr>) (cro_init (cro_Status c)) = cro_Status c"
    by (auto simp: status_at_rest_def intro!: put_same)
  with now have "WithInstallReady (traced A) (cro_Status c) s1 = (cro_Status c, s2)"
    by (simp add: WithInstallReady_def Let_def)
  moreover from assms(1) have "(cro_Status c)\<lparr>st_Version := OperandVersion ?ctx, st_Image := OperandImage ?ctx\<rparr> = cro_Status c"
    by (simp add: status_at_rest_def)
  ultimately show "\<exists>s'. deploymentReadyHandler_Handle (recording opts A) c s = (handle_ok c, s') \<and> snd s' = snd s @ [] \<and> P (fst s')"
    using av now by (simp add: deploymentReadyHandler_Handle_def Let_def)
qed

lemma quiet_validation:
  assumes "spec_valid (cro_Spec c)"
  shows "quiet P [] validationHandler_Handle c"
  using assms by (intro quietI) (simp add: validationHandler_Handle_def spec_valid_def handle_ok_def
      Validate_None_iff [THEN iffD2])

lemma quiet_configuration:
  assumes "objects_at_rest opts A P c" and "status_at_rest opts c"
    and "lib_yaml_Marshal (opt_lib opts) (spec_PodResourceOverride (cro_Spec c)) = Inr b"
  shows "quiet P [] (configurationHandler_Handle (recording opts A)) c"
proof (rule quietI)
  fix s :: "'b \<times> call list"
  assume P: "P (fst s)"
  obtain x s' where "on_fst (api_ConfigMap_Get A (WebhookNamespace (opt_OperandContext opts))
      (configuration_Name (opt_Asset opts))) s = (Inr x, s')" "snd s' = snd s"
      "ref_in_sync (ConfigurationRef (cro_Resources c)) x" "P (fst s')"
    by (rule on_fst_answers [OF objects_at_restD(1) [OF assms(1)] P]) auto
  with assms(2,3) show "\<exists>s'. configurationHandler_Handle (recording opts A) c s = (handle_ok c, s')
      \<and> snd s' = snd s @ [] \<and> P (fst s')"
    by (simp add: configurationHandler_Handle_def NewConfiguration_def Let_def status_at_rest_def)
qed

lemma quiet_service:
  assumes "objects_at_rest opts A P c"
  shows "quiet P [] (serviceHandler_Handle (recording opts A)) c"
proof (rule quietI)
  fix s :: "'b \<times> call list"
  assume P: "P (fst s)"
  let ?ns = "WebhookNamespace (opt_OperandContext opts)" and ?v = "opt_Asset opts"
  obtain a s1 where s1: "on_fst (api_Secret_Get A ?ns (serviceServingSecret_Name ?v)) s = (a, s1)"
      "snd s1 = snd s" "P (fst s1)" and a: "case a of Inl e \<Rightarrow> IsNotFound e | Inr x \<Rightarrow> \<not> secret_is_old x (service_Name ?v)"
    by (rule on_fst_answers [OF objects_at_restD(2) [OF assms] P]) simp
  obtain y s2 where "on_fst (api_Service_Get A ?ns (service_Name ?v)) s1 = (Inr y, s2)" "snd s2 = snd s1"
      "ref_in_sync (ServiceRef (cro_Resources c)) y" "P (fst s2)"
    by (rule on_fst_answers [where s = s1, OF objects_at_restD(3) [OF assms] s1(3)]) auto
  with s1 a show "\<exists>s'. serviceHandler_Handle (recording opts A) c s = (handle_ok c, s') \<and> snd s' = snd s @ [] \<and> P (fst s')"
    by (cases a) (simp_all add: serviceHandler_Handle_def Let_def)
qed

lemma tlsprofile_Fetch_traced: "tlsprofile_Fetch L (traced A) = on_fst (tlsprofile_Fetch L A)"
  by (rule ext) (auto simp: tlsprofile_Fetch_def on_fst_def Let_def split: prod.splits sum.splits)

lemma quiet_deployment:
  assumes "deployment_at_rest opts A P c"
  shows "quiet P [CallDeleteDaemonSet (v_Namespace (opt_Asset opts)) (daemonset_Name (opt_Asset opts))]
    (deploymentHandler_Handle (recording opts A)) c"
proof (rule quietI)
  fix s :: "'b \<times> call list"
  assume P: "P (fst s)"
  let ?ns = "WebhookNamespace (opt_OperandContext opts)" and ?v = "opt_Asset opts"
  let ?ds = "CallDeleteDaemonSet (v_Namespace ?v) (daemonset_Name ?v)"
  from assms obtain d where ds: "answers P (api_DaemonSet_Delete A (v_Namespace ?v) (daemonset_Name ?v)) IsNotFound_opt"
    and d: "answers P (api_Deployment_Get A ?ns (deployment_Name ?v)) (\<lambda>r. r = Inr d)"
    and f: "answers P (tlsprofile_Fetch (opt_lib opts) A) (\<lambda>r. \<not> needs_ensure ?v c (tls_args r) (Some d))"
    and ref: "ref_in_sync (DeploymentRef (cro_Resources c)) d"
    unfolding deployment_at_rest_def Let_def by blast
  obtain e s1 where s1: "logging ?ds (api_DaemonSet_Delete A (v_Namespace ?v) (daemonset_Name ?v)) s = (e, s1)"
    "snd s1 = snd s @ [?ds]" "IsNotFound_opt e" "P (fst s1)" using logging_answers [OF ds P] .
  obtain r s2 where s2: "on_fst (tlsprofile_Fetch (opt_lib opts) A) s1 = (r, s2)" "snd s2 = snd s1"
    "\<not> needs_ensure ?v c (tls_args r) (Some d)" "P (fst s2)" using on_fst_answers [OF f s1(4)] .
  obtain s3 where s3: "on_fst (api_Deployment_Get A ?ns (deployment_Name ?v)) s2 = (Inr d, s3)" "snd s3 = snd s2" "P (fst s3)"
    using on_fst_answers [OF d s2(4)] by metis
  from s1(3) have "e \<noteq> None" by (auto simp: IsNotFound_opt_def split: option.splits)
  with s1 s2 s3 ref
  show "\<exists>s'. deploymentHandler_Handle (recording opts A) c s = (handle_ok c, s') \<and> snd s' = snd s @ [?ds] \<and> P (fst s')"
    by (intro exI [of _ s3]) (auto simp: deploymentHandler_Handle_def deploymentHandler_finish_def deploy_Get_def
        tlsprofile_Fetch_traced tls_args_def Let_def)
qed

lemma quiet_webhooks:
  assumes "objects_at_rest opts A P c"
  shows "quiet P [] (apiServiceHandler_Handle (recording opts A)) c"
    and "quiet P [] (webhookConfigurationHandler_Handle (recording opts A)) c"
    and "quiet P [] (validatingAdmissionPolicyHandler_Handle (recording opts A)) c"
proof (rule_tac [!] quietI)
  fix s :: "'b \<times> call list"
  assume P: "P (fst s)"
  obtain x s1 where "on_fst (api_APIService_Get A (apiservice_Name (opt_Asset opts))) s = (Inr (Some x), s1)"
    "snd s1 = snd s" "\<not> not_owned_by x c" "ref_in_sync (APiServiceRef (cro_Resources c)) x" "P (fst s1)"
    by (rule on_fst_answers [where s = s, OF objects_at_restD(4) [OF assms] P]) auto
  then show "\<exists>s'. apiServiceHandler_Handle (recording opts A) c s = (handle_ok c, s') \<and> snd s' = snd s @ [] \<and> P (fst s')"
    by (simp add: apiServiceHandler_Handle_def Let_def)
next
  fix s :: "'b \<times> call list"
  assume P: "P (fst s)"
  obtain x s1 where "on_fst (api_MWC_Get A (mutatingWebhookConfiguration_Name (opt_Asset opts))) s = (Inr x, s1)"
    "snd s1 = snd s" "ref_in_sync (MutatingWebhookConfigurationRef (cro_Resources c)) x" "P (fst s1)"
    by (rule on_fst_answers [where s = s, OF objects_at_restD(5) [OF assms] P]) auto
  then show "\<exists>s'. webhookConfigurationHandler_Handle (recording opts A) c s = (handle_ok c, s') \<and> snd s' = snd s @ [] \<and> P (fst s')"
    by (simp add: webhookConfigurationHandler_Handle_def Let_def)
next
  fix s :: "'b \<times> call list"
  assume P: "P (fst s)"
  obtain x s1 where s1: "on_fst (api_VAP_Get A validatingAdmissionPolicyName) s = (Inr x, s1)"
    "snd s1 = snd s" "ref_in_sync (ValidatingAdmissionPolicyRef (cro_Resources c)) x" "P (fst s1)"
    by (rule on_fst_answers [where s = s, OF objects_at_restD(6) [OF assms] P]) auto
  obtain y s2 where "on_fst (api_VAPB_Get A validatingAdmissionPolicyName) s1 = (Inr y, s2)"
    "snd s2 = snd s1" "ref_in_sync (ValidatingAdmissionPolicyBindingRef (cro_Resources c)) y" "P (fst s2)"
    by (rule on_fst_answers [where s = s1, OF objects_at_restD(7) [OF assms] s1(4)]) auto
  with s1
  show "\<exists>s'. validatingAdmissionPolicyHandler_Handle (recording opts A) c s = (handle_ok c, s') \<and> snd s' = snd s @ [] \<and> P (fst s')"
    by (simp add: validatingAdmissionPolicyHandler_Handle_def validatingAdmissionPolicyHandler_binding_def Let_def)
qed

lemmas quiet_handlers = quiet_availability quiet_validation quiet_configuration quiet_service
  quiet_deployment quiet_deployment_ready quiet_webhooks

section \<open>A reconcile at rest\<close>

lemma prepared_unchanged:
  assumes "list_all (\<lambda>t. tol_TolerationSeconds t = None) (do_Tolerations (spec_DeploymentOverrides (cro_Spec c)))"
  shows "ClusterResourceOverride_copy new c w = (c, w)"
  using assms by (simp add: ClusterResourceOverride_copy_def DeepCopy_Tolerations_no_pointers)

lemma at_rest_kind:
  "at_rest opts A P (SetGroupVersionKind gvk c) \<longleftrightarrow> at_rest opts A P c"
  by (simp add: at_rest_def status_at_rest_def objects_at_rest_def deployment_at_rest_def cro_Resources_def
      not_owned_by_def needs_ensure_def)

lemma quiet_reconciler_chain:
  assumes "at_rest opts A P c" and "P (fst s)"
  shows "\<exists>s'. HandlerChain_Handle (traced A) (NewReconciler_handlers (recording opts A)) c s
      = (Returned (Some c, empty_Result, None), s')
    \<and> snd s' = snd s @ [CallDeleteDaemonSet (v_Namespace (opt_Asset opts)) (daemonset_Name (opt_Asset opts))]
    \<and> P (fst s')"
proof -
  let ?ds = "CallDeleteDaemonSet (v_Namespace (opt_Asset opts)) (daemonset_Name (opt_Asset opts))"
  from assms(1) obtain b where rest: "spec_valid (cro_Spec c)" "status_at_rest opts c" "objects_at_rest opts A P c"
    "deployment_at_rest opts A P c" "lib_yaml_Marshal (opt_lib opts) (spec_PodResourceOverride (cro_Spec c)) = Inr b"
    "answers P (api_Now A) (\<lambda>t. True)"
    unfolding at_rest_def by blast
  have "list_all2 (\<lambda>h cs. quiet P cs h c) (NewReconciler_handlers (recording opts A))
      [[], [], [], [], [?ds], [], [], [], [], []]"
    using rest by (simp add: NewReconciler_handlers_def quiet_handlers)
  from quiet_chain [where P = P, OF this _ assms(2), of "traced A" None empty_Result] show ?thesis
    by (simp add: HandlerChain_Handle_def NewReconciler_handlers_def)
qed

text \<open>The whole reconcile: no call but the deletion, and no status update; and the cluster stays at rest.\<close>

lemma Reconcile_at_rest:
  assumes get: "answers P (api_CRO_Get A (ResourceName (opt_OperandContext opts))) (\<lambda>r. r = Inr c)"
    and rest: "at_rest opts A P c" and P: "P (fst s)"
    and no_seconds: "list_all (\<lambda>t. tol_TolerationSeconds t = None)
      (do_Tolerations (spec_DeploymentOverrides (cro_Spec c)))"
  shows "\<exists>s'. CRO_Reconcile (recording opts A) (ResourceName (opt_OperandContext opts)) s
      = (Returned (empty_Result, None), s')
    \<and> snd s' = snd s @ [CallDeleteDaemonSet (v_Namespace (opt_Asset opts)) (daemonset_Name (opt_Asset opts))]
    \<and> P (fst s')"
proof -
  let ?c = "SetGroupVersionKind ClusterResourceOverrideGVK c"
  obtain s1 where s1: "on_fst (api_CRO_Get A (ResourceName (opt_OperandContext opts))) s = (Inr c, s1)"
    "snd s1 = snd s" "P (fst s1)" using on_fst_answers [OF get P] by metis
  from rest have "at_rest opts A P ?c" by (simp add: at_rest_kind)
  from quiet_reconciler_chain [where P = P, OF this s1(3)] obtain s' where
    run: "HandlerChain_Handle (traced A) (NewReconciler_handlers (recording opts A)) ?c s1
      = (Returned (Some ?c, empty_Result, None), s')" "P (fst s')"
    and calls: "snd s' = snd s @ [CallDeleteDaemonSet (v_Namespace (opt_Asset opts)) (daemonset_Name (opt_Asset opts))]"
    using s1(2) by auto
  have "StatusUpdater_Update (traced A) c (Some ?c) s' = (Returned None, s')"
    by (simp add: StatusUpdater_Update_def)
  with s1 run calls show ?thesis
    by (simp add: CRO_Reconcile_def reconciler_Reconcile_def Let_def prepared_unchanged [OF no_seconds]
        combine_errors_def)
qed

text \<open>Reconciling again and again, as a relist or a resync would.\<close>

fun reconcile_times :: "'w Options \<Rightarrow> nat \<Rightarrow> 'w \<Rightarrow> reconcile_result list \<times> 'w" where
  "reconcile_times opts 0 w = ([], w)"
| "reconcile_times opts (Suc n) w =
     (let (r, w1) = CRO_Reconcile opts (ResourceName (opt_OperandContext opts)) w;
          (rs, w2) = reconcile_times opts n w1
      in (r # rs, w2))"

lemma reconcile_times_at_rest:
  assumes "answers P (api_CRO_Get A (ResourceName (opt_OperandContext opts))) (\<lambda>r. r = Inr c)"
    and "at_rest opts A P c" and "P (fst s)"
    and "list_all (\<lambda>t. tol_TolerationSeconds t = None) (do_Tolerations (spec_DeploymentOverrides (cro_Spec c)))"
  shows "\<exists>s'. reconcile_times (recording opts A) n s = (replicate n (Returned (empty_Result, None)), s')
    \<and> snd s' = snd s @ replicate n (CallDeleteDaemonSet (v_Namespace (opt_Asset opts)) (daemonset_Name (opt_Asset opts)))
    \<and> P (fst s')"
  using assms(3)
proof (induction n arbitrary: s)
  case (Suc n)
  from Reconcile_at_rest [OF assms(1,2) Suc.prems assms(4)] obtain s1 where
    s1: "CRO_Reconcile (recording opts A) (ResourceName (opt_OperandContext opts)) s = (Returned (empty_Result, None), s1)"
    "snd s1 = snd s @ [CallDeleteDaemonSet (v_Namespace (opt_Asset opts)) (daemonset_Name (opt_Asset opts))]" "P (fst s1)"
    by blast
  from Suc.IH [OF s1(3)] s1 show ?case by auto
qed simp

end
