(* ===== verification/ExampleCluster.thy ===== *)
theory ExampleCluster
  imports OperatorMain OperandFacts SpecHash Steady
begin

text \<open>
  A small cluster in which every definition of the development can be evaluated: one
  ClusterResourceOverride, the operand's objects as the operator creates them, a deployment that has
  been rolled out, and third-party functions of the simplest kind. The witnesses of the properties run
  on it.
\<close>

definition ex_ctx :: OperandContext where
  "ex_ctx = NewOperandContext ''cro'' ''ns'' ''cluster'' ''img'' ''v1''"

definition ex_v :: Values where
  "ex_v = asset_New ex_ctx"

definition ex_TypeMeta :: TypeMeta where
  "ex_TypeMeta = \<lparr>tm_Kind = ''ClusterResourceOverride'', tm_APIVersion = ''operator.autoscaling.openshift.io/v1''\<rparr>"

definition ex_spec :: ClusterResourceOverrideSpec where
  "ex_spec = \<lparr>spec_PodResourceOverride = \<lparr>pro_TypeMeta = empty_TypeMeta,
       pro_Spec = \<lparr>ForceSelinuxRelabel = False, LimitCPUToMemoryPercent = 200, CPURequestToLimitPercent = 25,
         MemoryRequestToLimitPercent = 50, CPURequestToRequestPercent = 0\<rparr>\<rparr>,
     spec_DeploymentOverrides = \<lparr>do_NodeSelector = [], do_Tolerations = [], do_Replicas = None\<rparr>\<rparr>"

definition ex_no_refs :: ClusterResourceOverrideResources where
  "ex_no_refs = \<lparr>ConfigurationRef = None, ServiceRef = None, DeploymentRef = None, APiServiceRef = None,
     MutatingWebhookConfigurationRef = None, ValidatingAdmissionPolicyRef = None,
     ValidatingAdmissionPolicyBindingRef = None\<rparr>"

definition ex_cro :: ClusterResourceOverride where
  "ex_cro = \<lparr>o_TypeMeta = ex_TypeMeta,
     o_Meta = (new_ObjectMeta ''cluster'' [] [] [])\<lparr>om_UID := ''uid''\<rparr>,
     cro_Spec = ex_spec,
     cro_Status = \<lparr>st_Resources = ex_no_refs, st_HashConfiguration = ''h'', st_Conditions = None,
       st_Version = ''v1'', st_Image = ''img''\<rparr>\<rparr>"

definition ex_deployment :: Deployment where
  "ex_deployment = (let d = deployment_New 0 ex_v
     in d\<lparr>o_Meta := (o_Meta d)\<lparr>om_ResourceVersion := ''7'', om_Annotations :=
            [(v_ConfigurationHashAnnotationKey ex_v, ''h''), (v_TLSProfileHashAnnotationKey ex_v, [])]\<rparr>,
          dep_Status := \<lparr>ds_ObservedGeneration = 0, ds_Replicas = 2, ds_UpdatedReplicas = 2,
            ds_AvailableReplicas = 2, ds_Conditions = []\<rparr>\<rparr>)"

definition ex_lib :: lib where
  "ex_lib = \<lparr>lib_sha256 = (\<lambda>s. ''h''), lib_fmt_object = (\<lambda>x. []), lib_yaml_Marshal = (\<lambda>p. Inr ''yaml''),
     lib_ObjectKinds = (\<lambda>t. Inr []),
     lib_LabelSelectorAsSelector = (\<lambda>s. None),
     lib_ToUnstructured = (\<lambda>x. Inr [(''metadata'', JObject [(''name'', JString (om_Name (runtime_Meta x)))])]),
     lib_MarshalJSON = (\<lambda>u. Inr ''{}''), lib_CreateTwoWayMergePatch = (\<lambda>a b x. Inr ''{}''),
     lib_AsConfigMap = (\<lambda>u. Inr (configuration_New ex_v)), lib_AsService = (\<lambda>u. Inr (service_New ex_v)),
     lib_AsDeployment = (\<lambda>u. Inr ex_deployment), lib_AsAPIService = (\<lambda>u. Inr (apiservice_New ex_v)),
     lib_AsMutatingWebhookConfiguration = (\<lambda>u. Inr (mutatingWebhookConfiguration_New ex_v)),
     lib_AsValidatingAdmissionPolicy = (\<lambda>u. Inr (validatingAdmissionPolicy_New ex_v)),
     lib_AsValidatingAdmissionPolicyBinding = (\<lambda>u. Inr (validatingAdmissionPolicyBinding_New ex_v)),
     lib_AsAPIServer = (\<lambda>u. Inl (ErrorString ''no'')), lib_AsInfrastructure = (\<lambda>u. Inl (ErrorString ''no'')),
     lib_ShouldHonorClusterTLSProfile = (\<lambda>s. False),
     lib_GetTLSProfileSpec = (\<lambda>p. Inl (ErrorString ''no'')),
     lib_NewTLSConfigFromProfile = (\<lambda>p c. c)\<rparr>"

definition ex_not_found :: error where
  "ex_not_found = StatusError ''NotFound'' 404 ''not found''"

definition ex_exists :: error where
  "ex_exists = StatusError ''AlreadyExists'' 409 ''exists''"

text \<open>The world is a clock that every reading advances.\<close>

definition ex_api :: "int api" where
  "ex_api = \<lparr>api_Now = (\<lambda>w. (w, w + 1)), api_NewAddr = (\<lambda>w. (word_of_int w, w + 1)),
     api_CRO_Get = (\<lambda>n w. (if n = ''cluster'' then Inr ex_cro else Inl ex_not_found, w)),
     api_CRO_UpdateStatus = (\<lambda>c w. (None, w)),
     api_RO_Get = (\<lambda>ns n w. (Inl ex_not_found, w)), api_RO_List = (\<lambda>ns w. (Inr [], w)),
     api_RO_UpdateStatus = (\<lambda>ns r w. (None, w)),
     api_Namespace_Get = (\<lambda>n w. (Inr \<lparr>ns_Name = n, ns_Labels = None\<rparr>, w)),
     api_ConfigMap_Get = (\<lambda>ns n w. (Inr (configuration_New ex_v), w)),
     api_Secret_Get = (\<lambda>ns n w. (Inl ex_not_found, w)), api_Secret_Delete = (\<lambda>ns n w. (None, w)),
     api_Service_Get = (\<lambda>ns n w. (Inr (service_New ex_v), w)),
     api_Deployment_Get = (\<lambda>ns n w. (Inr ex_deployment, w)),
     api_DaemonSet_Delete = (\<lambda>ns n w. (Some ex_not_found, w)),
     api_APIService_Get = (\<lambda>n w. (Inr (Some (apiservice_New ex_v)), w)),
     api_MWC_Get = (\<lambda>n w. (Inr (mutatingWebhookConfiguration_New ex_v), w)),
     api_MWC_Delete = (\<lambda>n w. (None, w)),
     api_VAP_Get = (\<lambda>n w. (Inr (validatingAdmissionPolicy_New ex_v), w)),
     api_VAPB_Get = (\<lambda>n w. (Inr (validatingAdmissionPolicyBinding_New ex_v), w)),
     dyn_Create = (\<lambda>gvr ns u w. (Inl ex_exists, w)), dyn_Get = (\<lambda>gvr ns n w. (Inr [], w)),
     dyn_Patch = (\<lambda>gvr ns n b w. (Inr [], w))\<rparr>"

definition ex_opts :: "int Options" where
  "ex_opts = \<lparr>opt_lib = ex_lib, opt_api = ex_api, opt_OperandContext = ex_ctx, opt_Asset = ex_v,
     opt_IsStandalone = True, opt_tolerationSeconds = 0\<rparr>"

lemma ex_opts_simps [simp]:
  "opt_api ex_opts = ex_api" "opt_lib ex_opts = ex_lib" "opt_OperandContext ex_opts = ex_ctx" "opt_Asset ex_opts = ex_v"
  "ResourceName ex_ctx = ''cluster''" "api_CRO_Get ex_api ''cluster'' w = (Inr ex_cro, w)"
  "api_APIService_Get ex_api n w = (Inr (Some (apiservice_New ex_v)), w)"
  by (simp_all add: ex_opts_def ex_ctx_def NewOperandContext_def ex_api_def)

text \<open>In this cluster a reconcile succeeds.\<close>

lemma ex_reconcile:
  "(case fst (CRO_Reconcile ex_opts ''cluster'' 0) of Returned r \<Rightarrow> snd r = None | Panicked \<Rightarrow> False)"
  by code_simp

lemma ex_reconcile_run: "\<exists>res w'. CRO_Reconcile ex_opts ''cluster'' 0 = (Returned (res, None), w')"
  using ex_reconcile by (cases "CRO_Reconcile ex_opts ''cluster'' 0") (auto split: outcome.splits)

section \<open>An invalid resource\<close>

definition ex_rec_opts :: "(int \<times> call list) Options" where
  "ex_rec_opts = \<lparr>opt_lib = ex_lib, opt_api = traced ex_api, opt_OperandContext = ex_ctx, opt_Asset = ex_v,
     opt_IsStandalone = True, opt_tolerationSeconds = 0\<rparr>"

lemma ex_rec_opts_lib: "opt_lib ex_rec_opts = ex_lib"
  by (simp add: ex_rec_opts_def)

definition ex_bad_spec :: ClusterResourceOverrideSpec where
  "ex_bad_spec = ex_spec\<lparr>spec_DeploymentOverrides := \<lparr>do_NodeSelector = [], do_Tolerations = [], do_Replicas = Some (- 1)\<rparr>\<rparr>"

definition ex_bad_cro :: ClusterResourceOverride where
  "ex_bad_cro = ex_cro\<lparr>cro_Spec := ex_bad_spec\<rparr>"

definition ex_bad_api :: "int api" where
  "ex_bad_api = ex_api\<lparr>api_CRO_Get := (\<lambda>n w. (Inr ex_bad_cro, w))\<rparr>"

lemma ex_bad_simps [simp]:
  "opt_OperandContext ex_rec_opts = ex_ctx" "opt_Asset ex_rec_opts = ex_v"
  "api_CRO_Get ex_bad_api n w = (Inr ex_bad_cro, w)" "\<not> spec_valid (cro_Spec ex_bad_cro)"
  by (simp_all add: ex_rec_opts_def ex_bad_api_def ex_bad_cro_def ex_bad_spec_def spec_valid_def
      DeploymentOverrides_Validate_def word_sless_alt)

section \<open>States of a controller with two workers\<close>

definition ex_request :: Request where
  "ex_request = \<lparr>req_Namespace = ''app'', req_Name = ''ro''\<rparr>"

definition ex_item :: item where
  "ex_item = ItemRequest ex_request"

definition ex_queued :: ctl where
  "ex_queued = (ctl_init 2)\<lparr>ctl_queue := wq_Add ex_item wq_new\<rparr>"

definition ex_taken :: ctl where
  "ex_taken = \<lparr>ctl_queue = the (map_option snd (wq_Get (ctl_queue ex_queued))),
     ctl_workers = [Busy ex_item (item_ops ex_item empty_Result (None :: string option)), Idle]\<rparr>"

definition ex_asked :: ctl where
  "ex_asked = ex_taken\<lparr>ctl_queue := wq_Add ex_item (ctl_queue ex_taken)\<rparr>"

lemma ex_queued_reachable: "ctl_reachable 2 ex_queued"
  using ctl_reachable.step [OF ctl_reachable.init ctl_step.event [of "ctl_init 2" ex_request]]
  by (simp add: ex_queued_def ex_item_def ctl_init_def)

lemma ex_taken_facts: "ctl_reachable 2 ex_taken" "holds ex_taken 0 ex_item"
proof -
  have q: "wq_Get (ctl_queue ex_queued) = Some (Some ex_item, ctl_queue ex_taken)"
    by (simp add: ex_queued_def ex_taken_def wq_Add_cases wq_new_def wq_Get_def)
  have "ctl_step ex_queued (ex_queued\<lparr>ctl_queue := ctl_queue ex_taken,
      ctl_workers := (ctl_workers ex_queued)[0 := Busy ex_item (item_ops ex_item empty_Result (None :: string option))]\<rparr>)"
    by (rule ctl_step.take [OF _ _ q]) (simp_all add: ex_queued_def ctl_init_def)
  moreover have "ex_queued\<lparr>ctl_queue := ctl_queue ex_taken,
      ctl_workers := (ctl_workers ex_queued)[0 := Busy ex_item (item_ops ex_item empty_Result (None :: string option))]\<rparr> = ex_taken"
    by (simp add: ex_queued_def ex_taken_def ctl_init_def numeral_2_eq_2)
  ultimately show "ctl_reachable 2 ex_taken" using ex_queued_reachable ctl_reachable.step by metis
  show "holds ex_taken 0 ex_item" by (simp add: holds_def ex_taken_def)
qed

lemma ex_asked_step: "ctl_step ex_taken ex_asked"
  using ctl_step.event [of ex_taken ex_request] by (simp add: ex_asked_def ex_item_def)

lemma ex_asked_facts: "ctl_reachable 2 ex_asked" "ex_item \<in> wq_dirty (ctl_queue ex_asked)"
proof -
  from ex_taken_facts(1) ex_asked_step show "ctl_reachable 2 ex_asked" by (rule ctl_reachable.step)
  show "ex_item \<in> wq_dirty (ctl_queue ex_asked)"
    by (simp add: ex_asked_def ex_taken_def ex_queued_def wq_Add_cases wq_new_def wq_Get_def)
qed

section \<open>A ResourceOverride\<close>

definition ex_ro :: ResourceOverride where
  "ex_ro = \<lparr>o_TypeMeta = empty_TypeMeta, o_Meta = new_ObjectMeta ''ro'' ''app'' [] [],
     ro_Spec = \<lparr>ros_PodResourceOverride = pro_Spec (spec_PodResourceOverride ex_spec), ros_PodSelector = None\<rparr>,
     ro_Status = \<lparr>ro_Conditions = None\<rparr>\<rparr>"

definition ex_ro_api :: "int api" where
  "ex_ro_api = ex_api\<lparr>api_RO_Get := (\<lambda>ns n w. (Inr ex_ro, w)), api_RO_List := (\<lambda>ns w. (Inr [ex_ro], w))\<rparr>"

lemma ex_ro_simps [simp]:
  "api_RO_Get ex_ro_api ns n w = (Inr ex_ro, w)" "api_RO_List ex_ro_api ns w = (Inr [ex_ro], w)"
  by (simp_all add: ex_ro_api_def)

section \<open>Other objects\<close>

text \<open>The service of the example as an informer delivers it.\<close>

definition ex_owned :: Object where
  "ex_owned = \<lparr>o_TypeMeta = empty_TypeMeta, o_Meta = o_Meta (SetController (service_New ex_v) ex_cro)\<rparr>"

lemma ex_cro_kind: "GetGroupVersionKind ex_cro = ClusterResourceOverrideGVK"
  by (simp add: GetGroupVersionKind_def FromAPIVersionAndKind_def ex_cro_def ex_TypeMeta_def
      ClusterResourceOverrideGVK_def operator_GroupName_def operator_GroupVersion_def ClusterResourceOverrideKind_def)

lemma ex_owned_meta [simp]: "om_Namespace (o_Meta ex_owned) = ''ns''" "om_Name (o_Meta ex_owned) = ''cro''"
  by (simp_all add: ex_owned_def frame service_New_def new_ObjectMeta_def ex_v_def asset_New_def ex_ctx_def
      NewOperandContext_def)

lemma ex_owned_controlled: "controlled_by (RtService (ControllerSetter (service_New ex_v) ex_cro)) ex_cro"
  by (simp add: controlled_by_def ControllerSetter_def SetController_fresh service_New_def new_ObjectMeta_def)

lemma ex_owned_references:
  "om_OwnerReferences (o_Meta ex_owned) = om_OwnerReferences (runtime_Meta (RtService (ControllerSetter (service_New ex_v) ex_cro)))"
  by (simp add: ex_owned_def ControllerSetter_def)

lemma ex_cro_name: "om_Name (o_Meta ex_cro) = ''cluster''"
  by (simp add: ex_cro_def new_ObjectMeta_def)

lemmas ex_owned_facts = ex_owned_controlled ex_cro_kind ex_owned_references ex_cro_name

definition ex_other_spec :: ClusterResourceOverrideSpec where
  "ex_other_spec = ex_spec\<lparr>spec_PodResourceOverride := \<lparr>pro_TypeMeta = empty_TypeMeta,
     pro_Spec = \<lparr>ForceSelinuxRelabel = False, LimitCPUToMemoryPercent = 200, CPURequestToLimitPercent = 25,
       MemoryRequestToLimitPercent = 60, CPURequestToRequestPercent = 0\<rparr>\<rparr>\<rparr>"

definition ex_ds_api :: "int api" where
  "ex_ds_api = ex_api\<lparr>api_DaemonSet_Delete := (\<lambda>ns n w. (Some (ErrorString ''denied''), w))\<rparr>"

definition ex_failure :: ClusterResourceOverrideCondition where
  "ex_failure = \<lparr>cond_Type = InstallReadinessFailure, cond_Status = ConditionTrue, cond_Reason = ''r'',
     cond_Message = ''m'', cond_LastTransitionTime = 1\<rparr>"

definition ex_failed :: ClusterResourceOverrideStatus where
  "ex_failed = (cro_Status ex_cro)\<lparr>st_Conditions := Some [ex_failure]\<rparr>"

section \<open>The cluster at rest\<close>

definition ex_ref :: "string \<Rightarrow> ObjectReference" where
  "ex_ref rv = \<lparr>ref_Kind = [], ref_APIVersion = [], ref_Name = [], ref_Namespace = [], ref_UID = [],
     ref_ResourceVersion = rv\<rparr>"

definition ex_condition :: "ClusterResourceOverrideConditionType \<Rightarrow> ConditionStatus \<Rightarrow> ClusterResourceOverrideCondition" where
  "ex_condition ty st = \<lparr>cond_Type = ty, cond_Status = st, cond_Reason = [], cond_Message = [],
     cond_LastTransitionTime = 1\<rparr>"

definition ex_rest_cro :: ClusterResourceOverride where
  "ex_rest_cro = ex_cro\<lparr>cro_Status := \<lparr>
     st_Resources = \<lparr>ConfigurationRef = Some (ex_ref []), ServiceRef = Some (ex_ref []),
       DeploymentRef = Some (ex_ref ''7''), APiServiceRef = Some (ex_ref []),
       MutatingWebhookConfigurationRef = Some (ex_ref []), ValidatingAdmissionPolicyRef = Some (ex_ref []),
       ValidatingAdmissionPolicyBindingRef = Some (ex_ref [])\<rparr>,
     st_HashConfiguration = ''h'',
     st_Conditions = Some [ex_condition Available ConditionTrue, ex_condition InstallReadinessFailure ConditionFalse],
     st_Version = ''v1'', st_Image = ''img''\<rparr>\<rparr>"

definition ex_secret :: Secret where
  "ex_secret = (let s = serviceServingSecret_New ex_v
     in s\<lparr>o_Meta := (o_Meta s)\<lparr>om_Annotations := [(AlphaServiceNameAnnotation, service_Name ex_v)]\<rparr>\<rparr>)"

definition ex_rest_api :: "int api" where
  "ex_rest_api = ex_api\<lparr>api_CRO_Get := (\<lambda>n w. (Inr ex_rest_cro, w)),
     api_Secret_Get := (\<lambda>ns n w. (Inr ex_secret, w)),
     api_APIService_Get := (\<lambda>n w. (Inr (Some (ControllerSetter (apiservice_New ex_v) ex_cro)), w))\<rparr>"

lemma ex_v_names: "v_OperandImage ex_v = ''img''" "v_OperandVersion ex_v = ''v1''"
  "OperandImage ex_ctx = ''img''" "OperandVersion ex_ctx = ''v1''"
  by (simp_all add: ex_v_def asset_New_def ex_ctx_def NewOperandContext_def)

lemma ex_rest_status: "status_at_rest ex_rec_opts ex_rest_cro" "spec_valid (cro_Spec ex_rest_cro)"
  by (simp_all add: status_at_rest_def ex_rest_cro_def ex_condition_def cro_Find_def ex_rec_opts_def ex_lib_def
      ClusterResourceOverrideSpec_Hash_def ex_v_names spec_valid_def ex_cro_def ex_spec_def valid_percentages_def
      DeploymentOverrides_Validate_def)

lemma ex_rest_objects: "objects_at_rest ex_rec_opts ex_rest_api (\<lambda>_. True) ex_rest_cro"
  by (simp add: objects_at_rest_def answers_def ex_rest_api_def ex_api_def ref_in_sync_def ex_ref_def ex_rest_cro_def
      cro_Resources_def Let_def configuration_New_def service_New_def apiservice_New_def new_ObjectMeta_def
      mutatingWebhookConfiguration_New_def validatingAdmissionPolicy_New_def validatingAdmissionPolicyBinding_New_def
      ControllerSetter_def SetController_fresh SetController_frame NewControllerRef_def not_owned_by_def secret_is_old_def ex_secret_def
      go_has_def go_get_def ex_cro_def)

lemma ex_rest_deployment: "deployment_at_rest ex_rec_opts ex_rest_api (\<lambda>_. True) ex_rest_cro"
proof -
  have "tls_args (fst (tlsprofile_Fetch ex_lib ex_rest_api w)) = empty_Args" for w
    by (simp add: tls_args_def tlsprofile_Fetch_def ex_rest_api_def ex_api_def ex_lib_def)
  moreover have "\<not> needs_ensure ex_v ex_rest_cro empty_Args (Some ex_deployment)"
    by (simp add: needs_ensure_def ex_deployment_def ex_rest_cro_def ex_v_names Let_def go_get_def ex_v_def asset_New_def)
  ultimately have "answers (\<lambda>_. True) (tlsprofile_Fetch ex_lib ex_rest_api)
      (\<lambda>r. \<not> needs_ensure ex_v ex_rest_cro (tls_args r) (Some ex_deployment))" by (simp add: answers_def)
  moreover have "answers (\<lambda>_. True) (api_Deployment_Get ex_rest_api ns n) (\<lambda>r. r = Inr ex_deployment)"
    and "answers (\<lambda>_. True) (api_DaemonSet_Delete ex_rest_api ns n) IsNotFound_opt" for ns n
    by (simp_all add: answers_def ex_rest_api_def ex_api_def ex_not_found_def IsNotFound_opt_def)
  moreover have "GetDeploymentStatus ex_deployment True = (True, None)" "GetDeploymentStatus ex_deployment False = (True, None)"
    by code_simp+
  moreover have "ref_in_sync (DeploymentRef (cro_Resources ex_rest_cro)) ex_deployment"
    by (simp add: ref_in_sync_def cro_Resources_def ex_rest_cro_def ex_ref_def ex_deployment_def Let_def)
  moreover have "cro_Find (cro_Status ex_rest_cro) Available = Some (ex_condition Available ConditionTrue)"
    by (simp add: ex_rest_cro_def ex_condition_def cro_Find_def)
  ultimately show ?thesis
    unfolding deployment_at_rest_def Let_def ex_bad_simps ex_rec_opts_lib
    by (intro conjI exI [of _ ex_deployment]) (auto simp: reports_availability_def ex_condition_def)
qed

lemma ex_at_rest: "at_rest ex_rec_opts ex_rest_api (\<lambda>_. True) ex_rest_cro"
  using ex_rest_status ex_rest_objects ex_rest_deployment
  by (simp add: at_rest_def ex_rec_opts_lib ex_lib_def answers_def)

lemma ex_rest_simps [simp]:
  "api_CRO_Get ex_rest_api n w = (Inr ex_rest_cro, w)"
  "do_Tolerations (spec_DeploymentOverrides (cro_Spec ex_rest_cro)) = []"
  by (simp_all add: ex_rest_api_def ex_rest_cro_def ex_cro_def ex_spec_def)

end
