(* ===== verification/GoHeap.thy ===== *)
theory GoHeap
  imports Prelude
begin

text \<open>
  The part of Go's memory that the generated deep copies work on: a heap of typed cells with an
  allocation limit, pointers and slices into it, and the shape that every \<open>DeepCopyInto\<close> shares.

  A heap is a map from locations to cells and the next free location. A pointer is \<open>None\<close> (nil) or a
  location; a slice is nil or a window of an array; a map is nil or a location that holds its entries.
  \<open>new(T)\<close> and \<open>make\<close> reserve a location whose cell is stored when the code has filled it: no
  statement of the copies reads it in between.

  The locale \<open>deep_copier\<close> is the contract of a copy: what is read through the copy is what was read
  through the original, every location of the copy is new, and the heap before the copy is unchanged.
\<close>

section \<open>The heap\<close>

type_synonym loc = nat

record 'c heap =
  cells :: "loc \<Rightarrow> 'c option"
  lim :: loc

definition reserve :: "'c heap \<Rightarrow> loc \<times> 'c heap" where
  "reserve h = (lim h, h\<lparr>lim := Suc (lim h)\<rparr>)"

definition store :: "loc \<Rightarrow> 'c \<Rightarrow> 'c heap \<Rightarrow> 'c heap" where
  "store a c h = h\<lparr>cells := (cells h)(a \<mapsto> c)\<rparr>"

text \<open>\<open>extends h h'\<close>: the locations of \<open>h\<close> hold the same cells in \<open>h'\<close>.\<close>

definition extends :: "'c heap \<Rightarrow> 'c heap \<Rightarrow> bool" where
  "extends h h' \<longleftrightarrow> lim h \<le> lim h' \<and> (\<forall>a < lim h. cells h' a = cells h a)"

lemma extends_refl [simp]: "extends h h"
  by (simp add: extends_def)

lemma extends_trans [trans]: "extends h h1 \<Longrightarrow> extends h1 h2 \<Longrightarrow> extends h h2"
  by (simp add: extends_def)

lemma extends_reserve [simp]: "extends h (snd (reserve h))" "fst (reserve h) = lim h"
  "lim (snd (reserve h)) = Suc (lim h)"
  by (simp_all add: extends_def reserve_def)

lemma extends_store: "lim h \<le> a \<Longrightarrow> extends h h' \<Longrightarrow> extends h (store a c h')"
  by (simp add: extends_def store_def)

lemma store_simps [simp]: "cells (store a c h) b = (if b = a then Some c else cells h b)"
  "lim (store a c h) = lim h"
  by (simp_all add: store_def)

section \<open>Readers and copiers\<close>

definition readable :: "('c heap \<Rightarrow> 'h \<Rightarrow> 'v option) \<Rightarrow> ('c heap \<Rightarrow> 'h \<Rightarrow> loc set) \<Rightarrow> 'c heap \<Rightarrow> 'h \<Rightarrow> bool" where
  "readable view foot h x \<longleftrightarrow> view h x \<noteq> None \<and> foot h x \<subseteq> {..<lim h}"

definition copied :: "('c heap \<Rightarrow> 'h \<Rightarrow> 'v option) \<Rightarrow> ('c heap \<Rightarrow> 'h \<Rightarrow> loc set)
    \<Rightarrow> 'c heap \<Rightarrow> 'h \<Rightarrow> 'c heap \<Rightarrow> 'h \<Rightarrow> bool" where
  "copied view foot h x h' y \<longleftrightarrow> extends h h' \<and> view h' y = view h x \<and> foot h' y \<subseteq> {lim h..<lim h'}"

locale heap_reader =
  fixes view :: "'c heap \<Rightarrow> 'h \<Rightarrow> 'v option" and foot :: "'c heap \<Rightarrow> 'h \<Rightarrow> loc set"
  assumes reads_footprint:
    "(\<And>a. a \<in> foot h x \<Longrightarrow> cells h' a = cells h a) \<Longrightarrow> view h' x = view h x \<and> foot h' x = foot h x"
begin

lemma reads_extended:
  assumes "extends h h'" and "foot h x \<subseteq> {..<lim h}"
  shows "view h' x = view h x" and "foot h' x = foot h x"
  using reads_footprint [of h x h'] assms by (auto simp: extends_def)

lemma readable_extended: "extends h h' \<Longrightarrow> readable view foot h x \<Longrightarrow> readable view foot h' x"
  using reads_extended [of h h' x] by (auto simp: readable_def extends_def)

lemma reads_other_store: "a \<notin> foot h x \<Longrightarrow> view (store a c h) x = view h x \<and> foot (store a c h) x = foot h x"
  by (rule reads_footprint) auto

text \<open>What a copy reads is the same in every later heap, and it is readable itself.\<close>

lemma copied_later:
  assumes "copied view foot h x h1 y" and "extends h1 h2"
  shows "copied view foot h x h2 y"
proof -
  have "foot h1 y \<subseteq> {..<lim h1}" using assms by (auto simp: copied_def)
  note reads_extended [OF assms(2) this]
  then show ?thesis using assms extends_trans [of h h1 h2] by (auto simp: copied_def extends_def)
qed

lemma copied_readable: "copied view foot h x h' y \<Longrightarrow> readable view foot h x \<Longrightarrow> readable view foot h' y"
  by (auto simp: copied_def readable_def)

lemma copied_disjoint:
  assumes "copied view foot h x h' y" and "readable view foot h x"
  shows "foot h' x \<inter> foot h' y = {}"
proof -
  have "foot h' x = foot h x" "foot h x \<subseteq> {..<lim h}"
    using assms reads_extended [of h h' x] by (auto simp: copied_def readable_def)
  moreover have "{..<lim h} \<inter> {lim h..<lim h'} = {}" by auto
  ultimately show ?thesis using assms(1) by (auto simp: copied_def)
qed

text \<open>Writing to the copy is not seen through the original.\<close>

lemma writes_to_copy:
  assumes "extends h h'" and "readable view foot h x" and "list_all (\<lambda>(a, c). lim h \<le> a) ws"
  shows "view (fold (\<lambda>(a, c). store a c) ws h') x = view h x"
  using assms
proof (induction ws arbitrary: h')
  case Nil
  then show ?case using reads_extended [of h h' x] by (simp add: readable_def)
next
  case (Cons w ws)
  then have "extends h (store (fst w) (snd w) h')" by (auto simp: extends_store)
  then show ?case using Cons.IH [of "store (fst w) (snd w) h'"] Cons.prems by (simp add: split_beta)
qed

end

locale deep_copier = heap_reader view foot
  for view :: "'c heap \<Rightarrow> 'h \<Rightarrow> 'v option" and foot :: "'c heap \<Rightarrow> 'h \<Rightarrow> loc set" +
  fixes copy :: "'h \<Rightarrow> 'c heap \<Rightarrow> 'h \<times> 'c heap"
  assumes copies: "readable view foot h x \<Longrightarrow> copied view foot h x (snd (copy x h)) (fst (copy x h))"
begin

lemma copies_later:
  assumes "readable view foot h x" and "extends h h1"
  shows "copied view foot h x (snd (copy x h1)) (fst (copy x h1))"
    and "extends h1 (snd (copy x h1))"
proof -
  note c = copies [OF readable_extended [OF assms(2,1)]]
  then show "extends h1 (snd (copy x h1))" by (simp add: copied_def)
  have "view h1 x = view h x" using reads_extended assms by (simp add: readable_def)
  then show "copied view foot h x (snd (copy x h1)) (fst (copy x h1))"
    using c assms(2) extends_trans [of h h1] by (auto simp: copied_def extends_def)
qed

end

section \<open>Plain data, pairs and structs\<close>

text \<open>A value without references is copied by the assignment \<open>*out = *in\<close>.\<close>

definition view_plain :: "'c heap \<Rightarrow> 'h \<Rightarrow> 'h option" where "view_plain h x = Some x"
definition foot_plain :: "'c heap \<Rightarrow> 'h \<Rightarrow> loc set" where "foot_plain h x = {}"
definition copy_plain :: "'h \<Rightarrow> 'c heap \<Rightarrow> 'h \<times> 'c heap" where "copy_plain x h = (x, h)"

interpretation plain: deep_copier view_plain foot_plain copy_plain
  by unfold_locales (simp_all add: view_plain_def foot_plain_def copy_plain_def copied_def)

definition view_pair :: "('c heap \<Rightarrow> 'a \<Rightarrow> 'v option) \<Rightarrow> ('c heap \<Rightarrow> 'b \<Rightarrow> 'w option)
    \<Rightarrow> 'c heap \<Rightarrow> 'a \<times> 'b \<Rightarrow> ('v \<times> 'w) option" where
  "view_pair v w h p = (case v h (fst p) of None \<Rightarrow> None | Some x \<Rightarrow> map_option (Pair x) (w h (snd p)))"

definition foot_pair :: "('c heap \<Rightarrow> 'a \<Rightarrow> loc set) \<Rightarrow> ('c heap \<Rightarrow> 'b \<Rightarrow> loc set) \<Rightarrow> 'c heap \<Rightarrow> 'a \<times> 'b \<Rightarrow> loc set" where
  "foot_pair f g h p = f h (fst p) \<union> g h (snd p)"

definition copy_pair :: "('a \<Rightarrow> 'c heap \<Rightarrow> 'a \<times> 'c heap) \<Rightarrow> ('b \<Rightarrow> 'c heap \<Rightarrow> 'b \<times> 'c heap)
    \<Rightarrow> 'a \<times> 'b \<Rightarrow> 'c heap \<Rightarrow> ('a \<times> 'b) \<times> 'c heap" where
  "copy_pair c d p h = (let (x, h1) = c (fst p) h; (y, h2) = d (snd p) h1 in ((x, y), h2))"

lemma deep_copier_pair:
  assumes "deep_copier v f c" and "deep_copier w g d"
  shows "deep_copier (view_pair v w) (foot_pair f g) (copy_pair c d)"
proof -
  have fst_copier: "deep_copier v f c" and snd_copier: "deep_copier w g d" by fact+
  have readers: "heap_reader v f" "heap_reader w g"
    using fst_copier snd_copier by (simp_all add: deep_copier_def)
  show ?thesis
  proof
    fix h h' :: "'a heap" and p :: "'b \<times> 'd"
    assume "\<And>a. a \<in> foot_pair f g h p \<Longrightarrow> cells h' a = cells h a"
    then have "v h' (fst p) = v h (fst p) \<and> f h' (fst p) = f h (fst p)"
      and "w h' (snd p) = w h (snd p) \<and> g h' (snd p) = g h (snd p)"
      using heap_reader.reads_footprint [OF readers(1)] heap_reader.reads_footprint [OF readers(2)]
      by (metis UnCI foot_pair_def)+
    then show "view_pair v w h' p = view_pair v w h p \<and> foot_pair f g h' p = foot_pair f g h p"
      unfolding view_pair_def foot_pair_def by metis
  next
    fix h :: "'a heap" and p :: "'b \<times> 'd"
    assume "readable (view_pair v w) (foot_pair f g) h p"
    then have r: "readable v f h (fst p)" "readable w g h (snd p)"
      by (auto simp: readable_def view_pair_def foot_pair_def split: option.splits)
    define x1 where "x1 = c (fst p) h"
    define x2 where "x2 = d (snd p) (snd x1)"
    have c1: "copied v f h (fst p) (snd x1) (fst x1)"
      using deep_copier.copies [OF fst_copier r(1)] by (simp add: x1_def)
    then have "extends h (snd x1)" by (simp add: copied_def)
    note c2 = deep_copier.copies_later [OF snd_copier r(2) this, folded x2_def]
    have "copied v f h (fst p) (snd x2) (fst x1)"
      using heap_reader.copied_later [OF readers(1) c1] c2(2) .
    then have "copied (view_pair v w) (foot_pair f g) h p (snd x2) (fst x1, fst x2)"
      using c2(1) by (auto simp: copied_def view_pair_def foot_pair_def split: option.splits)
    moreover have "copy_pair c d p h = ((fst x1, fst x2), snd x2)"
      by (simp add: copy_pair_def split_beta Let_def x1_def x2_def)
    ultimately show "copied (view_pair v w) (foot_pair f g) h p
        (snd (copy_pair c d p h)) (fst (copy_pair c d p h))" by simp
  qed
qed

text \<open>
  A struct: its reference fields \<open>refs x\<close> are copied in the order of the source and put into a
  shallow copy of \<open>x\<close>; the value of the struct is built from the plain part of \<open>x\<close> and theirs.
\<close>

lemma deep_copier_struct:
  fixes view :: "'c heap \<Rightarrow> 'h \<Rightarrow> 'v option" and v :: "'c heap \<Rightarrow> 'r \<Rightarrow> 'w option"
  assumes "deep_copier v f c"
    and "\<And>h x. view h x = map_option (build x) (v h (refs x))"
    and "\<And>h x. foot h x = f h (refs x)"
    and "\<And>h x. copy x h = (let (z, h') = c (refs x) h in (put z x, h'))"
    and "\<And>z x. refs (put z x) = z" and "\<And>z x u. build (put z x) u = build x u"
  shows "deep_copier view foot copy"
proof -
  have reader: "heap_reader v f" using assms(1) by (simp add: deep_copier_def)
  show ?thesis
  proof
    fix h h' :: "'c heap" and x
    assume "\<And>a. a \<in> foot h x \<Longrightarrow> cells h' a = cells h a"
    then have "v h' (refs x) = v h (refs x) \<and> f h' (refs x) = f h (refs x)"
      using heap_reader.reads_footprint [OF reader] by (metis assms(3))
    then show "view h' x = view h x \<and> foot h' x = foot h x" by (simp add: assms)
  next
    fix h :: "'c heap" and x
    assume "readable view foot h x"
    then have "readable v f h (refs x)" by (simp add: readable_def assms(2,3))
    note deep_copier.copies [OF assms(1) this]
    moreover have "build (put z x) = build x" for z using assms(6) by blast
    ultimately show "copied view foot h x (snd (copy x h)) (fst (copy x h))"
      unfolding assms(4) by (simp add: copied_def assms split_beta)
  qed
qed

section \<open>Lists of elements and maps\<close>

definition view_list :: "('c heap \<Rightarrow> 'h \<Rightarrow> 'v option) \<Rightarrow> 'c heap \<Rightarrow> 'h list \<Rightarrow> 'v list option" where
  "view_list v h xs = those (map (v h) xs)"

definition foot_list :: "('c heap \<Rightarrow> 'h \<Rightarrow> loc set) \<Rightarrow> 'c heap \<Rightarrow> 'h list \<Rightarrow> loc set" where
  "foot_list f h xs = (\<Union>x \<in> set xs. f h x)"

text \<open>\<open>for i := range *in { (*in)[i].DeepCopyInto(&(*out)[i]) }\<close>\<close>

fun copy_list :: "('h \<Rightarrow> 'c heap \<Rightarrow> 'h \<times> 'c heap) \<Rightarrow> 'h list \<Rightarrow> 'c heap \<Rightarrow> 'h list \<times> 'c heap" where
  "copy_list c [] h = ([], h)"
| "copy_list c (x # xs) h = (let (y, h1) = c x h; (ys, h2) = copy_list c xs h1 in (y # ys, h2))"

lemma view_list_simps [simp]: "view_list v h [] = Some []"
  "view_list v h (x # xs) = (case v h x of None \<Rightarrow> None | Some y \<Rightarrow> map_option (Cons y) (view_list v h xs))"
  by (simp_all add: view_list_def split: option.split)

lemma foot_list_simps [simp]: "foot_list f h [] = {}" "foot_list f h (x # xs) = f h x \<union> foot_list f h xs"
  by (simp_all add: foot_list_def)

lemma heap_reader_list:
  assumes "heap_reader v f"
  shows "heap_reader (view_list v) (foot_list f)"
proof
  fix h h' :: "'a heap" and xs
  assume "\<And>a. a \<in> foot_list f h xs \<Longrightarrow> cells h' a = cells h a"
  then have "v h' x = v h x \<and> f h' x = f h x" if "x \<in> set xs" for x
    using that heap_reader.reads_footprint [OF assms, of h x h'] by (auto simp: foot_list_def)
  then show "view_list v h' xs = view_list v h xs \<and> foot_list f h' xs = foot_list f h xs"
    by (simp add: view_list_def foot_list_def cong: map_cong)
qed

lemma deep_copier_list:
  assumes "deep_copier v f c"
  shows "deep_copier (view_list v) (foot_list f) (copy_list c)"
proof (intro deep_copier.intro deep_copier_axioms.intro)
  have elem: "heap_reader v f" using assms by (simp add: deep_copier_def)
  show reader: "heap_reader (view_list v) (foot_list f)" using heap_reader_list [OF elem] .
  fix h xs
  assume "readable (view_list v) (foot_list f) h xs"
  then show "copied (view_list v) (foot_list f) h xs (snd (copy_list c xs h)) (fst (copy_list c xs h))"
  proof (induction xs arbitrary: h)
    case Nil
    then show ?case by (simp add: copied_def)
  next
    case (Cons x xs)
    then have r: "readable v f h x" "readable (view_list v) (foot_list f) h xs"
      by (auto simp: readable_def split: option.splits)
    define x1 where "x1 = c x h"
    define x2 where "x2 = copy_list c xs (snd x1)"
    have c1: "copied v f h x (snd x1) (fst x1)"
      using deep_copier.copies [OF assms r(1)] by (simp add: x1_def)
    then have e1: "extends h (snd x1)" by (simp add: copied_def)
    have c2: "copied (view_list v) (foot_list f) (snd x1) xs (snd x2) (fst x2)"
      using Cons.IH [OF heap_reader.readable_extended [OF reader e1 r(2)]] by (simp add: x2_def)
    then have "copied v f h x (snd x2) (fst x1)"
      using heap_reader.copied_later [OF elem c1] by (simp add: copied_def)
    moreover have "view_list v (snd x1) xs = view_list v h xs"
      using heap_reader.reads_extended [OF reader e1] r(2) by (simp add: readable_def)
    moreover have "foot_list f (snd x2) (fst x2) \<subseteq> {lim h..<lim (snd x2)}"
      using c2 e1 by (auto simp: copied_def extends_def)
    ultimately have "copied (view_list v) (foot_list f) h (x # xs) (snd x2) (fst x1 # fst x2)"
      using c2 by (simp add: copied_def split: option.split)
    then show ?case by (simp add: split_beta Let_def x1_def x2_def)
  qed
qed

text \<open>
  \<open>for key, val := range *in { (*out)[key] = val }\<close>: a map is read when its keys are distinct, and the
  loop puts its entries into an empty map.
\<close>

definition view_entries :: "'c heap \<Rightarrow> go_map \<Rightarrow> go_map option" where
  "view_entries h m = (if go_map_wf m then Some m else None)"

definition copy_entries :: "go_map \<Rightarrow> 'c heap \<Rightarrow> go_map \<times> 'c heap" where
  "copy_entries m h = (fold (\<lambda>(k, v) out. go_put out k v) m [], h)"

lemma go_put_new: "k \<notin> fst ` set m \<Longrightarrow> go_put m k v = m @ [(k, v)]"
  by (induction m) (auto simp: go_put_def)

lemma fold_go_put_distinct:
  "distinct (map fst (out @ m)) \<Longrightarrow> fold (\<lambda>(k, v) out. go_put out k v) m out = out @ m"
  by (induction m arbitrary: out) (auto simp: go_put_new)

text \<open>The loop visits the entries in an unspecified order; every order makes an equal map.\<close>

lemma copy_entries_order:
  assumes "go_map_wf m" and "mset m' = mset m"
  shows "go_map_eq (fst (copy_entries m' h)) m"
proof -
  have "distinct (map fst m')"
    using assms mset_map by (metis go_map_wf_def mset_eq_imp_distinct_iff)
  then show ?thesis
    using assms fold_go_put_distinct [of "[]" m'] mset_eq_length [OF assms(2)] mset_eq_setD [OF assms(2)]
    by (auto simp: copy_entries_def go_map_eq_def list_all_iff go_map_wf_def)
qed

interpretation entries: deep_copier view_entries foot_plain copy_entries
  by unfold_locales (auto simp: view_entries_def foot_plain_def copy_entries_def copied_def readable_def
      go_map_wf_def fold_go_put_distinct [of "[]", simplified] split: if_splits)

section \<open>References to cells\<close>

text \<open>
  A reference to a cell: \<open>at r\<close> is the location, \<open>get\<close> reads the content that \<open>r\<close> stands for, \<open>new\<close>
  makes the reference to a fresh cell. A nil reference is copied as nil; otherwise a cell is
  allocated, the content is copied and stored in it. (A reference to nothing does not exist in Go and
  is not readable here.)
\<close>

definition view_ref :: "('r \<Rightarrow> loc) \<Rightarrow> ('c option \<Rightarrow> 'r \<Rightarrow> 'h option) \<Rightarrow> ('c heap \<Rightarrow> 'h \<Rightarrow> 'v option)
    \<Rightarrow> 'c heap \<Rightarrow> 'r option \<Rightarrow> 'v option option" where
  "view_ref at get v h p = (case p of
     None \<Rightarrow> Some None
   | Some r \<Rightarrow> (case get (cells h (at r)) r of None \<Rightarrow> None | Some x \<Rightarrow> map_option Some (v h x)))"

definition foot_ref :: "('r \<Rightarrow> loc) \<Rightarrow> ('c option \<Rightarrow> 'r \<Rightarrow> 'h option) \<Rightarrow> ('c heap \<Rightarrow> 'h \<Rightarrow> loc set)
    \<Rightarrow> 'c heap \<Rightarrow> 'r option \<Rightarrow> loc set" where
  "foot_ref at get f h p = (case p of
     None \<Rightarrow> {}
   | Some r \<Rightarrow> insert (at r) (case get (cells h (at r)) r of None \<Rightarrow> {} | Some x \<Rightarrow> f h x))"

definition copy_ref :: "('r \<Rightarrow> loc) \<Rightarrow> ('c option \<Rightarrow> 'r \<Rightarrow> 'h option) \<Rightarrow> ('h \<Rightarrow> 'c) \<Rightarrow> (loc \<Rightarrow> 'h \<Rightarrow> 'r)
    \<Rightarrow> ('h \<Rightarrow> 'c heap \<Rightarrow> 'h \<times> 'c heap) \<Rightarrow> 'r option \<Rightarrow> 'c heap \<Rightarrow> 'r option \<times> 'c heap" where
  "copy_ref at get mk new c p h = (case p of
     None \<Rightarrow> (None, h)
   | Some r \<Rightarrow> (case get (cells h (at r)) r of
       None \<Rightarrow> (Some r, h)
     | Some x \<Rightarrow> (let (b, h1) = reserve h; (y, h2) = c x h1 in (Some (new b y), store b (mk y) h2))))"

lemma deep_copier_ref:
  assumes "deep_copier v f c"
    and get_new: "\<And>b x. get (Some (mk x)) (new b x) = Some x" and at_new: "\<And>b x. at (new b x) = b"
  shows "deep_copier (view_ref at get v) (foot_ref at get f) (copy_ref at get mk new c)"
proof (intro deep_copier.intro deep_copier_axioms.intro heap_reader.intro)
  have elem: "heap_reader v f" using assms by (simp add: deep_copier_def)
  fix h h' :: "'a heap" and p
  assume "\<And>a. a \<in> foot_ref at get f h p \<Longrightarrow> cells h' a = cells h a"
  then show "view_ref at get v h' p = view_ref at get v h p \<and> foot_ref at get f h' p = foot_ref at get f h p"
    using heap_reader.reads_footprint [OF elem, of h _ h']
    by (auto simp: view_ref_def foot_ref_def split: option.splits)
next
  have elem: "heap_reader v f" using assms by (simp add: deep_copier_def)
  fix h p
  assume r: "readable (view_ref at get v) (foot_ref at get f) h p"
  show "copied (view_ref at get v) (foot_ref at get f) h p
      (snd (copy_ref at get mk new c p h)) (fst (copy_ref at get mk new c p h))"
  proof (cases p)
    case None
    then show ?thesis by (simp add: copied_def view_ref_def foot_ref_def copy_ref_def)
  next
    case (Some q)
    with r obtain x where x: "get (cells h (at q)) q = Some x" and rx: "readable v f h x"
      by (auto simp: readable_def view_ref_def foot_ref_def split: option.splits)
    define z where "z = c x (snd (reserve h))"
    note cz = deep_copier.copies_later [OF assms(1) rx extends_reserve(1), folded z_def]
    have "copied v f (snd (reserve h)) x (snd z) (fst z)"
      using deep_copier.copies [OF assms(1) heap_reader.readable_extended [OF elem extends_reserve(1) rx]]
      by (simp add: z_def)
    then have fresh: "f (snd z) (fst z) \<subseteq> {Suc (lim h)..<lim (snd z)}" and le: "Suc (lim h) \<le> lim (snd z)"
      by (simp_all add: copied_def extends_def)
    let ?h = "store (lim h) (mk (fst z)) (snd z)"
    have "v ?h (fst z) = v (snd z) (fst z) \<and> f ?h (fst z) = f (snd z) (fst z)"
      using fresh by (intro heap_reader.reads_other_store [OF elem]) auto
    then have "v ?h (fst z) = v h x" and "f ?h (fst z) \<subseteq> {lim h..<lim (snd z)}"
      using cz(1) by (simp_all add: copied_def)
    moreover have "extends h ?h" using cz(1) by (simp add: copied_def extends_store)
    ultimately have "copied (view_ref at get v) (foot_ref at get f) h (Some q) ?h (Some (new (lim h) (fst z)))"
      using x le by (simp add: copied_def view_ref_def foot_ref_def get_new at_new)
    moreover have "copy_ref at get mk new c (Some q) h = (Some (new (lim h) (fst z)), ?h)"
      using x by (simp add: copy_ref_def split_beta Let_def z_def)
    ultimately show ?thesis using Some by simp
  qed
qed

section \<open>Pointers, maps and slices\<close>

text \<open>
  \<open>is\<close> and \<open>un\<close> are the discriminator and selector of a kind of cell, \<open>mk\<close> its constructor. A slice
  is a window of the array in its cell; \<open>make([]T, n)\<close> makes an array with the window of all of it.
\<close>

definition cell_get :: "('c \<Rightarrow> bool) \<Rightarrow> ('c \<Rightarrow> 'h) \<Rightarrow> 'c option \<Rightarrow> 'h option" where
  "cell_get is un c = (case c of None \<Rightarrow> None | Some x \<Rightarrow> if is x then Some (un x) else None)"

abbreviation view_ptr where
  "view_ptr is un v \<equiv> view_ref (\<lambda>a. a) (\<lambda>c a. cell_get is un c) v"
abbreviation foot_ptr where
  "foot_ptr is un f \<equiv> foot_ref (\<lambda>a. a) (\<lambda>c a. cell_get is un c) f"
abbreviation copy_ptr where
  "copy_ptr is un mk c \<equiv> copy_ref (\<lambda>a. a) (\<lambda>c a. cell_get is un c) mk (\<lambda>b _. b) c"

record slice =
  sl_array :: loc
  sl_offset :: nat
  sl_len :: nat

definition slice_get :: "('c \<Rightarrow> bool) \<Rightarrow> ('c \<Rightarrow> 'e list) \<Rightarrow> 'c option \<Rightarrow> slice \<Rightarrow> 'e list option" where
  "slice_get is un c s = (case cell_get is un c of
     None \<Rightarrow> None
   | Some xs \<Rightarrow> if sl_offset s + sl_len s \<le> length xs then Some (take (sl_len s) (drop (sl_offset s) xs))
       else None)"

definition whole :: "loc \<Rightarrow> 'e list \<Rightarrow> slice" where
  "whole b xs = \<lparr>sl_array = b, sl_offset = 0, sl_len = length xs\<rparr>"

abbreviation view_slice where
  "view_slice is un v \<equiv> view_ref sl_array (slice_get is un) (view_list v)"
abbreviation foot_slice where
  "foot_slice is un f \<equiv> foot_ref sl_array (slice_get is un) (foot_list f)"
abbreviation copy_slice where
  "copy_slice is un mk c \<equiv> copy_ref sl_array (slice_get is un) mk whole (copy_list c)"

lemma deep_copier_ptr:
  assumes "deep_copier v f c" and "\<And>x. is (mk x)" and "\<And>x. un (mk x) = x"
  shows "deep_copier (view_ptr is un v) (foot_ptr is un f) (copy_ptr is un mk c)"
  using assms by (intro deep_copier_ref) (simp_all add: cell_get_def)

lemma deep_copier_slice:
  assumes "deep_copier v f c" and "\<And>x. is (mk x)" and "\<And>x. un (mk x) = x"
  shows "deep_copier (view_slice is un v) (foot_slice is un f) (copy_slice is un mk c)"
  using assms by (intro deep_copier_ref deep_copier_list) (simp_all add: cell_get_def slice_get_def whole_def)

end
