(* ===== verification/GoStructs.thy ===== *)
theory GoStructs
  imports GoHeap ApiTypes
begin

text \<open>
  The API structs as they lie in memory, for the generated deep copies (zz_generated.deepcopy.go of
  pkg/apis/operator/v1, pkg/apis/autoscaling/v1 and apimachinery).

  A struct with references is a record whose reference fields are type parameters: in the heap they
  are pointers, slices and map headers, in the value of the struct they are what these refer to. A
  struct without references (conditions, object references, the pod overrides) is the record of
  ApiTypes and Kube.
\<close>

section \<open>apimachinery and core/v1\<close>

record ('b) OwnerReferenceOf =
  gor_APIVersion :: string
  gor_Kind :: string
  gor_Name :: string
  gor_UID :: string
  gor_Controller :: 'b
  gor_BlockOwnerDeletion :: 'b

record 'b FieldsV1Of =
  fv_Raw :: 'b

record ('t, 'f) ManagedFieldsEntryOf =
  mf_Manager :: string
  mf_Operation :: string
  mf_APIVersion :: string
  mf_Time :: 't
  mf_FieldsType :: string
  mf_FieldsV1 :: 'f
  mf_Subresource :: string

record ('t, 'g, 'm, 'o, 's, 'mf) ObjectMetaOf =
  gm_Name :: string
  gm_GenerateName :: string
  gm_Namespace :: string
  gm_SelfLink :: string
  gm_UID :: string
  gm_ResourceVersion :: string
  gm_Generation :: int64
  gm_CreationTimestamp :: time
  gm_DeletionTimestamp :: 't
  gm_DeletionGracePeriodSeconds :: 'g
  gm_Labels :: 'm
  gm_Annotations :: 'm
  gm_OwnerReferences :: 'o
  gm_Finalizers :: 's
  gm_ManagedFields :: 'mf

record ShardInfo =
  shard_Selector :: string

record ('n, 's) ListMetaOf =
  lm_SelfLink :: string
  lm_ResourceVersion :: string
  lm_Continue :: string
  lm_RemainingItemCount :: 'n
  lm_ShardInfo :: 's

record 'v LabelSelectorRequirementOf =
  gr_Key :: string
  gr_Operator :: string
  gr_Values :: 'v

record ('m, 'e) LabelSelectorOf =
  gl_MatchLabels :: 'm
  gl_MatchExpressions :: 'e

record 'i TolerationOf =
  gt_Key :: string
  gt_Operator :: string
  gt_Value :: string
  gt_Effect :: string
  gt_TolerationSeconds :: 'i

section \<open>operator/v1 and autoscaling/v1\<close>

record ('m, 't, 'r) DeploymentOverridesOf =
  gd_NodeSelector :: 'm
  gd_Tolerations :: 't
  gd_Replicas :: 'r

record 'd ClusterResourceOverrideSpecOf =
  gs_PodResourceOverride :: PodResourceOverride
  gs_DeploymentOverrides :: 'd

record ClusterResourceOverrideResourceHash =
  hash_Configuration :: string

record 'r ClusterResourceOverrideResourcesOf =
  g_ConfigurationRef :: 'r
  g_ServiceRef :: 'r
  g_DeploymentRef :: 'r
  g_APiServiceRef :: 'r
  g_MutatingWebhookConfigurationRef :: 'r
  g_ValidatingAdmissionPolicyRef :: 'r
  g_ValidatingAdmissionPolicyBindingRef :: 'r

record ('r, 'c) ClusterResourceOverrideStatusOf =
  gst_Resources :: 'r
  gst_Hash :: ClusterResourceOverrideResourceHash
  gst_Conditions :: 'c
  gst_Version :: string
  gst_Image :: string

record 'l ResourceOverrideSpecOf =
  gros_PodResourceOverride :: PodResourceOverrideSpec
  gros_PodSelector :: 'l

record 'c ResourceOverrideStatusOf =
  gro_Conditions :: 'c

text \<open>The two custom resources have the same four parts, and so have their lists.\<close>

record ('m, 's, 't) CustomResourceOf =
  gc_TypeMeta :: TypeMeta
  gc_ObjectMeta :: 'm
  gc_Spec :: 's
  gc_Status :: 't

record ('m, 'i) CustomResourceListOf =
  gcl_TypeMeta :: TypeMeta
  gcl_ListMeta :: 'm
  gcl_Items :: 'i

section \<open>Structs in the heap\<close>

type_synonym pointer = "loc option"
type_synonym slice_header = "slice option"

type_synonym hOwnerReference = "pointer OwnerReferenceOf"
type_synonym hFieldsV1 = "slice_header FieldsV1Of"
type_synonym hManagedFieldsEntry = "(pointer, pointer) ManagedFieldsEntryOf"
type_synonym hObjectMeta =
  "(pointer, pointer, pointer, slice_header, slice_header, slice_header) ObjectMetaOf"
type_synonym hListMeta = "(pointer, pointer) ListMetaOf"
type_synonym hLabelSelectorRequirement = "slice_header LabelSelectorRequirementOf"
type_synonym hLabelSelector = "(pointer, slice_header) LabelSelectorOf"
type_synonym hToleration = "pointer TolerationOf"
type_synonym hDeploymentOverrides = "(pointer, slice_header, pointer) DeploymentOverridesOf"
type_synonym hCROSpec = "hDeploymentOverrides ClusterResourceOverrideSpecOf"
type_synonym hCROResources = "pointer ClusterResourceOverrideResourcesOf"
type_synonym hCROStatus = "(hCROResources, slice_header) ClusterResourceOverrideStatusOf"
type_synonym hCRO = "(hObjectMeta, hCROSpec, hCROStatus) CustomResourceOf"
type_synonym hCROList = "(hListMeta, slice_header) CustomResourceListOf"
type_synonym hROSpec = "pointer ResourceOverrideSpecOf"
type_synonym hROStatus = "slice_header ResourceOverrideStatusOf"
type_synonym hRO = "(hObjectMeta, hROSpec, hROStatus) CustomResourceOf"
type_synonym hROList = "(hListMeta, slice_header) CustomResourceListOf"

text \<open>What a location can hold: a value, a map, the array of a slice or a struct.\<close>

datatype cell =
    is_Int32: Int32Cell (the_Int32: int32)
  | is_Int64: Int64Cell (the_Int64: int64)
  | is_Bool: BoolCell (the_Bool: bool)
  | is_Time: TimeCell (the_Time: time)
  | is_Map: MapCell (the_Map: go_map)
  | is_Strings: StringArray (the_Strings: "string list")
  | is_Bytes: ByteArray (the_Bytes: "char list")
  | is_ObjectReference: ObjectReferenceCell (the_ObjectReference: ObjectReference)
  | is_FieldsV1: FieldsV1Cell (the_FieldsV1: hFieldsV1)
  | is_ShardInfo: ShardInfoCell (the_ShardInfo: ShardInfo)
  | is_LabelSelector: LabelSelectorCell (the_LabelSelector: hLabelSelector)
  | is_CRO: CROCell (the_CRO: hCRO)
  | is_CROList: CROListCell (the_CROList: hCROList)
  | is_CROSpec: CROSpecCell (the_CROSpec: hCROSpec)
  | is_CROStatus: CROStatusCell (the_CROStatus: hCROStatus)
  | is_CROResources: CROResourcesCell (the_CROResources: hCROResources)
  | is_ResourceHash: ResourceHashCell (the_ResourceHash: ClusterResourceOverrideResourceHash)
  | is_CROCondition: CROConditionCell (the_CROCondition: ClusterResourceOverrideCondition)
  | is_DeploymentOverrides: DeploymentOverridesCell (the_DeploymentOverrides: hDeploymentOverrides)
  | is_PodResourceOverride: PodResourceOverrideCell (the_PodResourceOverride: PodResourceOverride)
  | is_PodResourceOverrideSpec: PodResourceOverrideSpecCell (the_PodResourceOverrideSpec: PodResourceOverrideSpec)
  | is_RO: ROCell (the_RO: hRO)
  | is_ROList: ROListCell (the_ROList: hROList)
  | is_ROSpec: ROSpecCell (the_ROSpec: hROSpec)
  | is_ROStatus: ROStatusCell (the_ROStatus: hROStatus)
  | is_ROCondition: ROConditionCell (the_ROCondition: ResourceOverrideCondition)
  | is_OwnerReferences: OwnerReferenceArray (the_OwnerReferences: "hOwnerReference list")
  | is_ManagedFields: ManagedFieldsArray (the_ManagedFields: "hManagedFieldsEntry list")
  | is_Requirements: RequirementArray (the_Requirements: "hLabelSelectorRequirement list")
  | is_Tolerations: TolerationArray (the_Tolerations: "hToleration list")
  | is_CROConditions: CROConditionArray (the_CROConditions: "ClusterResourceOverrideCondition list")
  | is_ROConditions: ROConditionArray (the_ROConditions: "ResourceOverrideCondition list")
  | is_CROs: CROArray (the_CROs: "hCRO list")
  | is_ROs: ROArray (the_ROs: "hRO list")

end
