(* ===== verification/DeepCopyMeta.thy ===== *)
theory DeepCopyMeta
  imports GoStructs
begin

text \<open>
  The generated deep copies of apimachinery and core/v1 that the ones of this repository call
  (zz_generated.deepcopy.go of k8s.io/apimachinery/pkg/apis/meta/v1 and k8s.io/api/core/v1).

  \<open>T_DeepCopyInto x h\<close> is what \<open>in.DeepCopyInto(out)\<close> leaves in \<open>*out\<close>, and the heap after it:
  \<open>*out = *in\<close>, then every reference field in the order of the source. \<open>view_T\<close> is the value of a
  struct, \<open>foot_T\<close> the locations that it reads, \<open>refs_T\<close> its reference fields in the order in which
  they are copied and \<open>value_T\<close> the value that they make with its other fields. Each copy is an
  interpretation of \<open>deep_copier\<close>.
\<close>

section \<open>Pointers to plain data, maps and slices of strings\<close>

definition Time_DeepCopyInto ::
  "time \<Rightarrow> cell heap \<Rightarrow> time \<times> cell heap" where
  "Time_DeepCopyInto x h = (x, h)"

interpretation Time: deep_copier view_plain foot_plain Time_DeepCopyInto
  by unfold_locales (simp_all add: Time_DeepCopyInto_def copied_def view_plain_def foot_plain_def)

abbreviation "view_map \<equiv> view_ptr is_Map the_Map view_entries"
abbreviation "foot_map \<equiv> foot_ptr is_Map the_Map foot_plain"
abbreviation "copy_map \<equiv> copy_ptr is_Map the_Map MapCell copy_entries"

interpretation map: deep_copier view_map foot_map copy_map
  by (rule deep_copier_ptr) (simp_all add: entries.deep_copier_axioms)

abbreviation "view_int32 \<equiv> view_ptr is_Int32 the_Int32 view_plain"
abbreviation "foot_int32 \<equiv> foot_ptr is_Int32 the_Int32 foot_plain"
abbreviation "copy_int32 \<equiv> copy_ptr is_Int32 the_Int32 Int32Cell copy_plain"

interpretation int32: deep_copier view_int32 foot_int32 copy_int32
  by (rule deep_copier_ptr) (simp_all add: plain.deep_copier_axioms)

abbreviation "view_int64 \<equiv> view_ptr is_Int64 the_Int64 view_plain"
abbreviation "foot_int64 \<equiv> foot_ptr is_Int64 the_Int64 foot_plain"
abbreviation "copy_int64 \<equiv> copy_ptr is_Int64 the_Int64 Int64Cell copy_plain"

interpretation int64: deep_copier view_int64 foot_int64 copy_int64
  by (rule deep_copier_ptr) (simp_all add: plain.deep_copier_axioms)

abbreviation "view_bool \<equiv> view_ptr is_Bool the_Bool view_plain"
abbreviation "foot_bool \<equiv> foot_ptr is_Bool the_Bool foot_plain"
abbreviation "copy_bool \<equiv> copy_ptr is_Bool the_Bool BoolCell copy_plain"

interpretation bool: deep_copier view_bool foot_bool copy_bool
  by (rule deep_copier_ptr) (simp_all add: plain.deep_copier_axioms)

abbreviation "view_time \<equiv> view_ptr is_Time the_Time view_plain"
abbreviation "foot_time \<equiv> foot_ptr is_Time the_Time foot_plain"
abbreviation "copy_time \<equiv> copy_ptr is_Time the_Time TimeCell Time_DeepCopyInto"

interpretation time: deep_copier view_time foot_time copy_time
  by (rule deep_copier_ptr) (simp_all add: Time.deep_copier_axioms)

abbreviation "view_strings \<equiv> view_slice is_Strings the_Strings view_plain"
abbreviation "foot_strings \<equiv> foot_slice is_Strings the_Strings foot_plain"
abbreviation "copy_strings \<equiv> copy_slice is_Strings the_Strings StringArray copy_plain"

interpretation strings: deep_copier view_strings foot_strings copy_strings
  by (rule deep_copier_slice) (simp_all add: plain.deep_copier_axioms)

abbreviation "view_bytes \<equiv> view_slice is_Bytes the_Bytes view_plain"
abbreviation "foot_bytes \<equiv> foot_slice is_Bytes the_Bytes foot_plain"
abbreviation "copy_bytes \<equiv> copy_slice is_Bytes the_Bytes ByteArray copy_plain"

interpretation bytes: deep_copier view_bytes foot_bytes copy_bytes
  by (rule deep_copier_slice) (simp_all add: plain.deep_copier_axioms)

abbreviation "view_shard \<equiv> view_ptr is_ShardInfo the_ShardInfo view_plain"
abbreviation "foot_shard \<equiv> foot_ptr is_ShardInfo the_ShardInfo foot_plain"
abbreviation "copy_shard \<equiv> copy_ptr is_ShardInfo the_ShardInfo ShardInfoCell copy_plain"

interpretation shard: deep_copier view_shard foot_shard copy_shard
  by (rule deep_copier_ptr) (simp_all add: plain.deep_copier_axioms)

abbreviation "view_reference \<equiv> view_ptr is_ObjectReference the_ObjectReference view_plain"
abbreviation "foot_reference \<equiv> foot_ptr is_ObjectReference the_ObjectReference foot_plain"
abbreviation "copy_reference \<equiv>
  copy_ptr is_ObjectReference the_ObjectReference ObjectReferenceCell copy_plain"

interpretation reference: deep_copier view_reference foot_reference copy_reference
  by (rule deep_copier_ptr) (simp_all add: plain.deep_copier_axioms)

section \<open>OwnerReference\<close>

type_synonym vOwnerReference =
  "bool option OwnerReferenceOf"

definition refs_OwnerReference ::
  "hOwnerReference \<Rightarrow> pointer \<times> pointer" where
  "refs_OwnerReference x = (gor_Controller x, gor_BlockOwnerDeletion x)"

definition value_OwnerReference ::
  "hOwnerReference \<Rightarrow> bool option \<times> bool option \<Rightarrow> vOwnerReference" where
  "value_OwnerReference x = (\<lambda>(controller, block).
     \<lparr>gor_APIVersion = gor_APIVersion x, gor_Kind = gor_Kind x, gor_Name = gor_Name x,
      gor_UID = gor_UID x, gor_Controller = controller, gor_BlockOwnerDeletion = block\<rparr>)"

definition view_OwnerReference ::
  "cell heap \<Rightarrow> hOwnerReference \<Rightarrow> vOwnerReference option" where
  "view_OwnerReference h x = map_option (value_OwnerReference x)
     (view_pair view_bool view_bool h (refs_OwnerReference x))"

definition foot_OwnerReference ::
  "cell heap \<Rightarrow> hOwnerReference \<Rightarrow> loc set" where
  "foot_OwnerReference h x =
     foot_pair foot_bool foot_bool h (refs_OwnerReference x)"

definition OwnerReference_DeepCopyInto ::
  "hOwnerReference \<Rightarrow> cell heap \<Rightarrow> hOwnerReference \<times> cell heap" where
  "OwnerReference_DeepCopyInto x h =
     (let (controller, h1) = copy_bool (gor_Controller x) h;
          (block, h2) = copy_bool (gor_BlockOwnerDeletion x) h1
      in (x\<lparr>gor_Controller := controller, gor_BlockOwnerDeletion := block\<rparr>, h2))"

interpretation OwnerReference:
  deep_copier view_OwnerReference foot_OwnerReference OwnerReference_DeepCopyInto
  by (rule deep_copier_struct [OF deep_copier_pair [OF bool.deep_copier_axioms bool.deep_copier_axioms],
        where refs = refs_OwnerReference and build = value_OwnerReference
        and put = "\<lambda>(controller, block) x. x\<lparr>gor_Controller := controller,
          gor_BlockOwnerDeletion := block\<rparr>"])
    (auto simp: value_OwnerReference_def view_OwnerReference_def foot_OwnerReference_def
      OwnerReference_DeepCopyInto_def refs_OwnerReference_def copy_pair_def Let_def split: prod.splits)

section \<open>Managed fields\<close>

type_synonym vFieldsV1 =
  "char list option FieldsV1Of"

definition value_FieldsV1 ::
  "hFieldsV1 \<Rightarrow> char list option \<Rightarrow> vFieldsV1" where
  "value_FieldsV1 x raw = \<lparr>fv_Raw = raw\<rparr>"

definition view_FieldsV1 :: "cell heap \<Rightarrow> hFieldsV1 \<Rightarrow> vFieldsV1 option" where
  "view_FieldsV1 h x = map_option (value_FieldsV1 x)
     (view_bytes h (fv_Raw x))"

definition foot_FieldsV1 :: "cell heap \<Rightarrow> hFieldsV1 \<Rightarrow> loc set" where
  "foot_FieldsV1 h x =
     foot_bytes h (fv_Raw x)"

definition FieldsV1_DeepCopyInto ::
  "hFieldsV1 \<Rightarrow> cell heap \<Rightarrow> hFieldsV1 \<times> cell heap" where
  "FieldsV1_DeepCopyInto x h =
     (let (raw, h1) = copy_bytes (fv_Raw x) h
      in (x\<lparr>fv_Raw := raw\<rparr>, h1))"

interpretation FieldsV1: deep_copier view_FieldsV1 foot_FieldsV1 FieldsV1_DeepCopyInto
  by (rule deep_copier_struct [OF bytes.deep_copier_axioms,
        where refs = fv_Raw and build = value_FieldsV1
        and put = "\<lambda>raw x. x\<lparr>fv_Raw := raw\<rparr>"])
    (auto simp: value_FieldsV1_def view_FieldsV1_def foot_FieldsV1_def FieldsV1_DeepCopyInto_def
      copy_pair_def Let_def split: prod.splits)

abbreviation "view_fields \<equiv> view_ptr is_FieldsV1 the_FieldsV1 view_FieldsV1"
abbreviation "foot_fields \<equiv> foot_ptr is_FieldsV1 the_FieldsV1 foot_FieldsV1"
abbreviation "copy_fields \<equiv>
  copy_ptr is_FieldsV1 the_FieldsV1 FieldsV1Cell FieldsV1_DeepCopyInto"

interpretation fields: deep_copier view_fields foot_fields copy_fields
  by (rule deep_copier_ptr) (simp_all add: FieldsV1.deep_copier_axioms)

type_synonym vManagedFieldsEntry =
  "(time option, vFieldsV1 option) ManagedFieldsEntryOf"

definition refs_ManagedFieldsEntry ::
  "hManagedFieldsEntry \<Rightarrow> pointer \<times> pointer" where
  "refs_ManagedFieldsEntry x = (mf_Time x, mf_FieldsV1 x)"

definition value_ManagedFieldsEntry ::
  "hManagedFieldsEntry \<Rightarrow> time option \<times> vFieldsV1 option \<Rightarrow> vManagedFieldsEntry" where
  "value_ManagedFieldsEntry x = (\<lambda>(t, fs).
     \<lparr>mf_Manager = mf_Manager x, mf_Operation = mf_Operation x,
      mf_APIVersion = mf_APIVersion x, mf_Time = t, mf_FieldsType = mf_FieldsType x,
      mf_FieldsV1 = fs, mf_Subresource = mf_Subresource x\<rparr>)"

definition view_ManagedFieldsEntry ::
  "cell heap \<Rightarrow> hManagedFieldsEntry \<Rightarrow> vManagedFieldsEntry option" where
  "view_ManagedFieldsEntry h x = map_option (value_ManagedFieldsEntry x)
     (view_pair view_time view_fields h (refs_ManagedFieldsEntry x))"

definition foot_ManagedFieldsEntry ::
  "cell heap \<Rightarrow> hManagedFieldsEntry \<Rightarrow> loc set" where
  "foot_ManagedFieldsEntry h x =
     foot_pair foot_time foot_fields h (refs_ManagedFieldsEntry x)"

definition ManagedFieldsEntry_DeepCopyInto ::
  "hManagedFieldsEntry \<Rightarrow> cell heap \<Rightarrow> hManagedFieldsEntry \<times> cell heap" where
  "ManagedFieldsEntry_DeepCopyInto x h =
     (let (t, h1) = copy_time (mf_Time x) h;
          (fs, h2) = copy_fields (mf_FieldsV1 x) h1
      in (x\<lparr>mf_Time := t, mf_FieldsV1 := fs\<rparr>, h2))"

interpretation ManagedFieldsEntry:
  deep_copier view_ManagedFieldsEntry foot_ManagedFieldsEntry ManagedFieldsEntry_DeepCopyInto
  by (rule deep_copier_struct [OF deep_copier_pair [OF time.deep_copier_axioms fields.deep_copier_axioms],
        where refs = refs_ManagedFieldsEntry and build = value_ManagedFieldsEntry
        and put = "\<lambda>(t, fs) x. x\<lparr>mf_Time := t, mf_FieldsV1 := fs\<rparr>"])
    (auto simp: value_ManagedFieldsEntry_def view_ManagedFieldsEntry_def
      foot_ManagedFieldsEntry_def ManagedFieldsEntry_DeepCopyInto_def refs_ManagedFieldsEntry_def
      copy_pair_def Let_def split: prod.splits)

section \<open>ObjectMeta and ListMeta\<close>

abbreviation "view_owners \<equiv>
  view_slice is_OwnerReferences the_OwnerReferences view_OwnerReference"
abbreviation "foot_owners \<equiv>
  foot_slice is_OwnerReferences the_OwnerReferences foot_OwnerReference"
abbreviation "copy_owners \<equiv>
  copy_slice is_OwnerReferences the_OwnerReferences OwnerReferenceArray OwnerReference_DeepCopyInto"

interpretation owners: deep_copier view_owners foot_owners copy_owners
  by (rule deep_copier_slice) (simp_all add: OwnerReference.deep_copier_axioms)

abbreviation "view_managed \<equiv>
  view_slice is_ManagedFields the_ManagedFields view_ManagedFieldsEntry"
abbreviation "foot_managed \<equiv>
  foot_slice is_ManagedFields the_ManagedFields foot_ManagedFieldsEntry"
abbreviation "copy_managed \<equiv>
  copy_slice is_ManagedFields the_ManagedFields ManagedFieldsArray ManagedFieldsEntry_DeepCopyInto"

interpretation managed: deep_copier view_managed foot_managed copy_managed
  by (rule deep_copier_slice) (simp_all add: ManagedFieldsEntry.deep_copier_axioms)

type_synonym vObjectMeta =
  "(time option, int64 option, go_map option, vOwnerReference list option, string list option,
    vManagedFieldsEntry list option) ObjectMetaOf"

definition refs_ObjectMeta ::
  "hObjectMeta \<Rightarrow> time \<times> pointer \<times> pointer \<times> pointer \<times> pointer
     \<times> slice_header \<times> slice_header \<times> slice_header" where
  "refs_ObjectMeta x = (gm_CreationTimestamp x, gm_DeletionTimestamp x,
     gm_DeletionGracePeriodSeconds x, gm_Labels x, gm_Annotations x, gm_OwnerReferences x,
     gm_Finalizers x, gm_ManagedFields x)"

definition value_ObjectMeta ::
  "hObjectMeta \<Rightarrow> time \<times> time option \<times> int64 option \<times> go_map option
     \<times> go_map option \<times> vOwnerReference list option \<times> string list option \<times> vManagedFieldsEntry list option
     \<Rightarrow> vObjectMeta" where
  "value_ObjectMeta x = (\<lambda>(created, deleted, grace, labels, annotations, owners,
     finalizers, managed).
     \<lparr>gm_Name = gm_Name x, gm_GenerateName = gm_GenerateName x,
      gm_Namespace = gm_Namespace x, gm_SelfLink = gm_SelfLink x, gm_UID = gm_UID x,
      gm_ResourceVersion = gm_ResourceVersion x, gm_Generation = gm_Generation x,
      gm_CreationTimestamp = created, gm_DeletionTimestamp = deleted,
      gm_DeletionGracePeriodSeconds = grace, gm_Labels = labels, gm_Annotations = annotations,
      gm_OwnerReferences = owners, gm_Finalizers = finalizers, gm_ManagedFields = managed\<rparr>)"

definition view_ObjectMeta ::
  "cell heap \<Rightarrow> hObjectMeta \<Rightarrow> vObjectMeta option" where
  "view_ObjectMeta h x = map_option (value_ObjectMeta x)
     (view_pair view_plain (view_pair view_time (view_pair view_int64 (view_pair
      view_map (view_pair view_map (view_pair view_owners (view_pair view_strings
      view_managed)))))) h (refs_ObjectMeta x))"

definition foot_ObjectMeta :: "cell heap \<Rightarrow> hObjectMeta \<Rightarrow> loc set" where
  "foot_ObjectMeta h x =
     foot_pair foot_plain (foot_pair foot_time (foot_pair foot_int64 (foot_pair
      foot_map (foot_pair foot_map (foot_pair foot_owners (foot_pair foot_strings
      foot_managed)))))) h (refs_ObjectMeta x)"

definition ObjectMeta_DeepCopyInto ::
  "hObjectMeta \<Rightarrow> cell heap \<Rightarrow> hObjectMeta \<times> cell heap" where
  "ObjectMeta_DeepCopyInto x h =
     (let (created, h1) = Time_DeepCopyInto (gm_CreationTimestamp x) h;
          (deleted, h2) = copy_time (gm_DeletionTimestamp x) h1;
          (grace, h3) = copy_int64 (gm_DeletionGracePeriodSeconds x) h2;
          (labels, h4) = copy_map (gm_Labels x) h3;
          (annotations, h5) = copy_map (gm_Annotations x) h4;
          (owners, h6) = copy_owners (gm_OwnerReferences x) h5;
          (finalizers, h7) = copy_strings (gm_Finalizers x) h6;
          (managed, h8) = copy_managed (gm_ManagedFields x) h7
      in (x\<lparr>gm_CreationTimestamp := created, gm_DeletionTimestamp := deleted,
           gm_DeletionGracePeriodSeconds := grace, gm_Labels := labels,
           gm_Annotations := annotations, gm_OwnerReferences := owners,
           gm_Finalizers := finalizers, gm_ManagedFields := managed\<rparr>, h8))"

interpretation ObjectMeta: deep_copier view_ObjectMeta foot_ObjectMeta ObjectMeta_DeepCopyInto
  by (rule deep_copier_struct [OF deep_copier_pair [OF Time.deep_copier_axioms deep_copier_pair [OF
        time.deep_copier_axioms deep_copier_pair [OF int64.deep_copier_axioms
        deep_copier_pair [OF map.deep_copier_axioms deep_copier_pair [OF
        map.deep_copier_axioms deep_copier_pair [OF owners.deep_copier_axioms
        deep_copier_pair [OF strings.deep_copier_axioms managed.deep_copier_axioms]]]]]]],
        where refs = refs_ObjectMeta and build = value_ObjectMeta
        and put = "\<lambda>(created, deleted, grace, labels, annotations, owners, finalizers, managed) x. x\<lparr>
          gm_CreationTimestamp := created, gm_DeletionTimestamp := deleted,
          gm_DeletionGracePeriodSeconds := grace, gm_Labels := labels,
          gm_Annotations := annotations, gm_OwnerReferences := owners, gm_Finalizers := finalizers,
          gm_ManagedFields := managed\<rparr>"])
    (auto simp: value_ObjectMeta_def view_ObjectMeta_def foot_ObjectMeta_def
      ObjectMeta_DeepCopyInto_def refs_ObjectMeta_def copy_pair_def Let_def split: prod.splits)

type_synonym vListMeta =
  "(int64 option, ShardInfo option) ListMetaOf"

definition refs_ListMeta ::
  "hListMeta \<Rightarrow> pointer \<times> pointer" where
  "refs_ListMeta x = (lm_RemainingItemCount x, lm_ShardInfo x)"

definition value_ListMeta ::
  "hListMeta \<Rightarrow> int64 option \<times> ShardInfo option \<Rightarrow> vListMeta" where
  "value_ListMeta x = (\<lambda>(remaining, shard).
     \<lparr>lm_SelfLink = lm_SelfLink x, lm_ResourceVersion = lm_ResourceVersion x,
      lm_Continue = lm_Continue x, lm_RemainingItemCount = remaining, lm_ShardInfo = shard\<rparr>)"

definition view_ListMeta :: "cell heap \<Rightarrow> hListMeta \<Rightarrow> vListMeta option" where
  "view_ListMeta h x = map_option (value_ListMeta x)
     (view_pair view_int64 view_shard h (refs_ListMeta x))"

definition foot_ListMeta :: "cell heap \<Rightarrow> hListMeta \<Rightarrow> loc set" where
  "foot_ListMeta h x =
     foot_pair foot_int64 foot_shard h (refs_ListMeta x)"

definition ListMeta_DeepCopyInto ::
  "hListMeta \<Rightarrow> cell heap \<Rightarrow> hListMeta \<times> cell heap" where
  "ListMeta_DeepCopyInto x h =
     (let (remaining, h1) = copy_int64 (lm_RemainingItemCount x) h;
          (shard, h2) = copy_shard (lm_ShardInfo x) h1
      in (x\<lparr>lm_RemainingItemCount := remaining, lm_ShardInfo := shard\<rparr>, h2))"

interpretation ListMeta: deep_copier view_ListMeta foot_ListMeta ListMeta_DeepCopyInto
  by (rule deep_copier_struct [OF deep_copier_pair [OF int64.deep_copier_axioms shard.deep_copier_axioms],
        where refs = refs_ListMeta and build = value_ListMeta
        and put = "\<lambda>(remaining, shard) x. x\<lparr>lm_RemainingItemCount := remaining, lm_ShardInfo := shard\<rparr>"])
    (auto simp: value_ListMeta_def view_ListMeta_def foot_ListMeta_def ListMeta_DeepCopyInto_def
      refs_ListMeta_def copy_pair_def Let_def split: prod.splits)

section \<open>LabelSelector\<close>

type_synonym vLabelSelectorRequirement =
  "string list option LabelSelectorRequirementOf"

definition value_LabelSelectorRequirement ::
  "hLabelSelectorRequirement \<Rightarrow> string list option \<Rightarrow> vLabelSelectorRequirement" where
  "value_LabelSelectorRequirement x vs = \<lparr>gr_Key = gr_Key x, gr_Operator = gr_Operator x,
     gr_Values = vs\<rparr>"

definition view_LabelSelectorRequirement ::
  "cell heap \<Rightarrow> hLabelSelectorRequirement \<Rightarrow> vLabelSelectorRequirement option" where
  "view_LabelSelectorRequirement h x = map_option (value_LabelSelectorRequirement x)
     (view_strings h (gr_Values x))"

definition foot_LabelSelectorRequirement ::
  "cell heap \<Rightarrow> hLabelSelectorRequirement \<Rightarrow> loc set" where
  "foot_LabelSelectorRequirement h x =
     foot_strings h (gr_Values x)"

definition LabelSelectorRequirement_DeepCopyInto ::
  "hLabelSelectorRequirement \<Rightarrow> cell heap \<Rightarrow> hLabelSelectorRequirement \<times> cell heap" where
  "LabelSelectorRequirement_DeepCopyInto x h =
     (let (vs, h1) = copy_strings (gr_Values x) h
      in (x\<lparr>gr_Values := vs\<rparr>, h1))"

interpretation LabelSelectorRequirement:
  deep_copier view_LabelSelectorRequirement
    foot_LabelSelectorRequirement LabelSelectorRequirement_DeepCopyInto
  by (rule deep_copier_struct [OF strings.deep_copier_axioms,
        where refs = gr_Values and build = value_LabelSelectorRequirement
        and put = "\<lambda>vs x. x\<lparr>gr_Values := vs\<rparr>"])
    (auto simp: value_LabelSelectorRequirement_def view_LabelSelectorRequirement_def
      foot_LabelSelectorRequirement_def LabelSelectorRequirement_DeepCopyInto_def copy_pair_def
      Let_def split: prod.splits)

abbreviation "view_requirements \<equiv>
  view_slice is_Requirements the_Requirements view_LabelSelectorRequirement"
abbreviation "foot_requirements \<equiv>
  foot_slice is_Requirements the_Requirements foot_LabelSelectorRequirement"
abbreviation "copy_requirements \<equiv>
  copy_slice is_Requirements the_Requirements RequirementArray LabelSelectorRequirement_DeepCopyInto"

interpretation requirements: deep_copier view_requirements foot_requirements copy_requirements
  by (rule deep_copier_slice) (simp_all add: LabelSelectorRequirement.deep_copier_axioms)

type_synonym vLabelSelector =
  "(go_map option, vLabelSelectorRequirement list option) LabelSelectorOf"

definition refs_LabelSelector ::
  "hLabelSelector \<Rightarrow> pointer \<times> slice_header" where
  "refs_LabelSelector x = (gl_MatchLabels x, gl_MatchExpressions x)"

definition value_LabelSelector ::
  "hLabelSelector \<Rightarrow> go_map option \<times> vLabelSelectorRequirement list option
     \<Rightarrow> vLabelSelector" where
  "value_LabelSelector x = (\<lambda>(labels, requirements).
     \<lparr>gl_MatchLabels = labels, gl_MatchExpressions = requirements\<rparr>)"

definition view_LabelSelector ::
  "cell heap \<Rightarrow> hLabelSelector \<Rightarrow> vLabelSelector option" where
  "view_LabelSelector h x = map_option (value_LabelSelector x)
     (view_pair view_map view_requirements h (refs_LabelSelector x))"

definition foot_LabelSelector ::
  "cell heap \<Rightarrow> hLabelSelector \<Rightarrow> loc set" where
  "foot_LabelSelector h x =
     foot_pair foot_map foot_requirements h (refs_LabelSelector x)"

definition LabelSelector_DeepCopyInto ::
  "hLabelSelector \<Rightarrow> cell heap \<Rightarrow> hLabelSelector \<times> cell heap" where
  "LabelSelector_DeepCopyInto x h =
     (let (labels, h1) = copy_map (gl_MatchLabels x) h;
          (requirements, h2) = copy_requirements (gl_MatchExpressions x) h1
      in (x\<lparr>gl_MatchLabels := labels, gl_MatchExpressions := requirements\<rparr>, h2))"

interpretation LabelSelector:
  deep_copier view_LabelSelector foot_LabelSelector LabelSelector_DeepCopyInto
  by (rule deep_copier_struct [OF deep_copier_pair [OF map.deep_copier_axioms requirements.deep_copier_axioms],
        where refs = refs_LabelSelector and build = value_LabelSelector
        and put = "\<lambda>(labels, requirements) x. x\<lparr>gl_MatchLabels := labels,
          gl_MatchExpressions := requirements\<rparr>"])
    (auto simp: value_LabelSelector_def view_LabelSelector_def foot_LabelSelector_def
      LabelSelector_DeepCopyInto_def refs_LabelSelector_def copy_pair_def Let_def split: prod.splits)

section \<open>core/v1 Toleration\<close>

type_synonym vToleration =
  "int64 option TolerationOf"

definition value_Toleration ::
  "hToleration \<Rightarrow> int64 option \<Rightarrow> vToleration" where
  "value_Toleration x seconds = \<lparr>gt_Key = gt_Key x, gt_Operator = gt_Operator x,
     gt_Value = gt_Value x, gt_Effect = gt_Effect x, gt_TolerationSeconds = seconds\<rparr>"

definition view_Toleration ::
  "cell heap \<Rightarrow> hToleration \<Rightarrow> vToleration option" where
  "view_Toleration h x = map_option (value_Toleration x)
     (view_int64 h (gt_TolerationSeconds x))"

definition foot_Toleration :: "cell heap \<Rightarrow> hToleration \<Rightarrow> loc set" where
  "foot_Toleration h x =
     foot_int64 h (gt_TolerationSeconds x)"

definition Toleration_DeepCopyInto ::
  "hToleration \<Rightarrow> cell heap \<Rightarrow> hToleration \<times> cell heap" where
  "Toleration_DeepCopyInto x h =
     (let (seconds, h1) = copy_int64 (gt_TolerationSeconds x) h
      in (x\<lparr>gt_TolerationSeconds := seconds\<rparr>, h1))"

interpretation Toleration: deep_copier view_Toleration foot_Toleration Toleration_DeepCopyInto
  by (rule deep_copier_struct [OF int64.deep_copier_axioms,
        where refs = gt_TolerationSeconds and build = value_Toleration
        and put = "\<lambda>seconds x. x\<lparr>gt_TolerationSeconds := seconds\<rparr>"])
    (auto simp: value_Toleration_def view_Toleration_def foot_Toleration_def
      Toleration_DeepCopyInto_def copy_pair_def Let_def split: prod.splits)

end
