(* ===== verification/DeepCopy.thy ===== *)
theory DeepCopy
  imports DeepCopyMeta
begin

text \<open>
  zz_generated.deepcopy.go of pkg/apis/operator/v1 and pkg/apis/autoscaling/v1.

  \<open>T_DeepCopyInto\<close> as in DeepCopyMeta, and for every type the two wrappers: \<open>T_DeepCopy p h\<close> returns nil
  for a nil receiver and otherwise fills a \<open>new(T)\<close>; \<open>T_DeepCopyObject\<close> wraps a non-nil copy in the
  interface \<open>runtime.Object\<close>.
\<close>

section \<open>operator/v1: structs without references\<close>

definition ClusterResourceOverrideCondition_DeepCopyInto ::
  "ClusterResourceOverrideCondition \<Rightarrow> cell heap \<Rightarrow> ClusterResourceOverrideCondition \<times> cell heap" where
  "ClusterResourceOverrideCondition_DeepCopyInto x h = (let (t, h1) = Time_DeepCopyInto (cond_LastTransitionTime x) h
     in (x\<lparr>cond_LastTransitionTime := t\<rparr>, h1))"

interpretation ClusterResourceOverrideCondition:
  deep_copier view_plain foot_plain ClusterResourceOverrideCondition_DeepCopyInto
  by unfold_locales (simp_all add: ClusterResourceOverrideCondition_DeepCopyInto_def copied_def view_plain_def foot_plain_def Time_DeepCopyInto_def)

definition ClusterResourceOverrideResourceHash_DeepCopyInto ::
  "ClusterResourceOverrideResourceHash \<Rightarrow> cell heap \<Rightarrow> ClusterResourceOverrideResourceHash \<times> cell heap" where
  "ClusterResourceOverrideResourceHash_DeepCopyInto x h = (x, h)"

interpretation ClusterResourceOverrideResourceHash:
  deep_copier view_plain foot_plain ClusterResourceOverrideResourceHash_DeepCopyInto
  by unfold_locales (simp_all add: ClusterResourceOverrideResourceHash_DeepCopyInto_def copied_def view_plain_def foot_plain_def)

definition PodResourceOverrideSpec_DeepCopyInto ::
  "PodResourceOverrideSpec \<Rightarrow> cell heap \<Rightarrow> PodResourceOverrideSpec \<times> cell heap" where
  "PodResourceOverrideSpec_DeepCopyInto x h = (x, h)"

interpretation PodResourceOverrideSpec:
  deep_copier view_plain foot_plain PodResourceOverrideSpec_DeepCopyInto
  by unfold_locales (simp_all add: PodResourceOverrideSpec_DeepCopyInto_def copied_def view_plain_def foot_plain_def)

definition PodResourceOverride_DeepCopyInto ::
  "PodResourceOverride \<Rightarrow> cell heap \<Rightarrow> PodResourceOverride \<times> cell heap" where
  "PodResourceOverride_DeepCopyInto x h = (x\<lparr>pro_TypeMeta := pro_TypeMeta x, pro_Spec := pro_Spec x\<rparr>, h)"

interpretation PodResourceOverride:
  deep_copier view_plain foot_plain PodResourceOverride_DeepCopyInto
  by unfold_locales (simp_all add: PodResourceOverride_DeepCopyInto_def copied_def view_plain_def foot_plain_def)

abbreviation "view_ClusterResourceOverrideCondition_ptr \<equiv>
  view_ptr is_CROCondition the_CROCondition view_plain"
abbreviation "foot_ClusterResourceOverrideCondition_ptr \<equiv>
  foot_ptr is_CROCondition the_CROCondition foot_plain"

definition ClusterResourceOverrideCondition_DeepCopy ::
  "pointer \<Rightarrow> cell heap \<Rightarrow> pointer \<times> cell heap" where
  "ClusterResourceOverrideCondition_DeepCopy =
     copy_ptr is_CROCondition the_CROCondition CROConditionCell
       ClusterResourceOverrideCondition_DeepCopyInto"

interpretation ClusterResourceOverrideCondition_ptr:
  deep_copier view_ClusterResourceOverrideCondition_ptr
    foot_ClusterResourceOverrideCondition_ptr ClusterResourceOverrideCondition_DeepCopy
  unfolding ClusterResourceOverrideCondition_DeepCopy_def
  by (rule deep_copier_ptr)
    (simp_all add: ClusterResourceOverrideCondition.deep_copier_axioms)

abbreviation "view_ClusterResourceOverrideResourceHash_ptr \<equiv>
  view_ptr is_ResourceHash the_ResourceHash view_plain"
abbreviation "foot_ClusterResourceOverrideResourceHash_ptr \<equiv>
  foot_ptr is_ResourceHash the_ResourceHash foot_plain"

definition ClusterResourceOverrideResourceHash_DeepCopy ::
  "pointer \<Rightarrow> cell heap \<Rightarrow> pointer \<times> cell heap" where
  "ClusterResourceOverrideResourceHash_DeepCopy =
     copy_ptr is_ResourceHash the_ResourceHash ResourceHashCell
       ClusterResourceOverrideResourceHash_DeepCopyInto"

interpretation ClusterResourceOverrideResourceHash_ptr:
  deep_copier view_ClusterResourceOverrideResourceHash_ptr
    foot_ClusterResourceOverrideResourceHash_ptr ClusterResourceOverrideResourceHash_DeepCopy
  unfolding ClusterResourceOverrideResourceHash_DeepCopy_def
  by (rule deep_copier_ptr)
    (simp_all add: ClusterResourceOverrideResourceHash.deep_copier_axioms)

abbreviation "view_PodResourceOverrideSpec_ptr \<equiv>
  view_ptr is_PodResourceOverrideSpec the_PodResourceOverrideSpec view_plain"
abbreviation "foot_PodResourceOverrideSpec_ptr \<equiv>
  foot_ptr is_PodResourceOverrideSpec the_PodResourceOverrideSpec foot_plain"

definition PodResourceOverrideSpec_DeepCopy ::
  "pointer \<Rightarrow> cell heap \<Rightarrow> pointer \<times> cell heap" where
  "PodResourceOverrideSpec_DeepCopy =
     copy_ptr is_PodResourceOverrideSpec the_PodResourceOverrideSpec PodResourceOverrideSpecCell
       PodResourceOverrideSpec_DeepCopyInto"

interpretation PodResourceOverrideSpec_ptr:
  deep_copier view_PodResourceOverrideSpec_ptr
    foot_PodResourceOverrideSpec_ptr PodResourceOverrideSpec_DeepCopy
  unfolding PodResourceOverrideSpec_DeepCopy_def
  by (rule deep_copier_ptr)
    (simp_all add: PodResourceOverrideSpec.deep_copier_axioms)

abbreviation "view_PodResourceOverride_ptr \<equiv>
  view_ptr is_PodResourceOverride the_PodResourceOverride view_plain"
abbreviation "foot_PodResourceOverride_ptr \<equiv>
  foot_ptr is_PodResourceOverride the_PodResourceOverride foot_plain"

definition PodResourceOverride_DeepCopy ::
  "pointer \<Rightarrow> cell heap \<Rightarrow> pointer \<times> cell heap" where
  "PodResourceOverride_DeepCopy =
     copy_ptr is_PodResourceOverride the_PodResourceOverride PodResourceOverrideCell
       PodResourceOverride_DeepCopyInto"

interpretation PodResourceOverride_ptr:
  deep_copier view_PodResourceOverride_ptr
    foot_PodResourceOverride_ptr PodResourceOverride_DeepCopy
  unfolding PodResourceOverride_DeepCopy_def
  by (rule deep_copier_ptr)
    (simp_all add: PodResourceOverride.deep_copier_axioms)

section \<open>operator/v1: the spec\<close>

abbreviation "view_tolerations \<equiv> view_slice is_Tolerations the_Tolerations view_Toleration"
abbreviation "foot_tolerations \<equiv> foot_slice is_Tolerations the_Tolerations foot_Toleration"
abbreviation "copy_tolerations \<equiv>
  copy_slice is_Tolerations the_Tolerations TolerationArray Toleration_DeepCopyInto"

interpretation tolerations: deep_copier view_tolerations foot_tolerations copy_tolerations
  by (rule deep_copier_slice) (simp_all add: Toleration.deep_copier_axioms)

type_synonym vDeploymentOverrides =
  "(go_map option, vToleration list option, int32 option) DeploymentOverridesOf"

definition refs_DeploymentOverrides ::
  "hDeploymentOverrides \<Rightarrow> pointer \<times> slice_header \<times> pointer" where
  "refs_DeploymentOverrides x = (gd_NodeSelector x, gd_Tolerations x, gd_Replicas x)"

definition value_DeploymentOverrides ::
  "hDeploymentOverrides \<Rightarrow> go_map option \<times> vToleration list option \<times> int32 option
     \<Rightarrow> vDeploymentOverrides" where
  "value_DeploymentOverrides x = (\<lambda>(selector, tolerations, replicas).
     \<lparr>gd_NodeSelector = selector, gd_Tolerations = tolerations, gd_Replicas = replicas\<rparr>)"

definition view_DeploymentOverrides ::
  "cell heap \<Rightarrow> hDeploymentOverrides \<Rightarrow> vDeploymentOverrides option" where
  "view_DeploymentOverrides h x = map_option (value_DeploymentOverrides x)
     (view_pair view_map (view_pair view_tolerations view_int32) h (refs_DeploymentOverrides x))"

definition foot_DeploymentOverrides ::
  "cell heap \<Rightarrow> hDeploymentOverrides \<Rightarrow> loc set" where
  "foot_DeploymentOverrides h x =
     foot_pair foot_map (foot_pair foot_tolerations foot_int32) h (refs_DeploymentOverrides x)"

definition DeploymentOverrides_DeepCopyInto ::
  "hDeploymentOverrides \<Rightarrow> cell heap \<Rightarrow> hDeploymentOverrides \<times> cell heap" where
  "DeploymentOverrides_DeepCopyInto x h =
     (let (selector, h1) = copy_map (gd_NodeSelector x) h;
          (tolerations, h2) = copy_tolerations (gd_Tolerations x) h1;
          (replicas, h3) = copy_int32 (gd_Replicas x) h2
      in (x\<lparr>gd_NodeSelector := selector, gd_Tolerations := tolerations,
           gd_Replicas := replicas\<rparr>, h3))"

interpretation DeploymentOverrides:
  deep_copier view_DeploymentOverrides foot_DeploymentOverrides DeploymentOverrides_DeepCopyInto
  by (rule deep_copier_struct [OF deep_copier_pair [OF map.deep_copier_axioms deep_copier_pair [OF
        tolerations.deep_copier_axioms int32.deep_copier_axioms]],
        where refs = refs_DeploymentOverrides and build = value_DeploymentOverrides
        and put = "\<lambda>(selector, tolerations, replicas) x. x\<lparr>gd_NodeSelector := selector,
          gd_Tolerations := tolerations, gd_Replicas := replicas\<rparr>"])
    (auto simp: value_DeploymentOverrides_def view_DeploymentOverrides_def
      foot_DeploymentOverrides_def DeploymentOverrides_DeepCopyInto_def
      refs_DeploymentOverrides_def copy_pair_def Let_def split: prod.splits)

abbreviation "view_DeploymentOverrides_ptr \<equiv>
  view_ptr is_DeploymentOverrides the_DeploymentOverrides view_DeploymentOverrides"
abbreviation "foot_DeploymentOverrides_ptr \<equiv>
  foot_ptr is_DeploymentOverrides the_DeploymentOverrides foot_DeploymentOverrides"

definition DeploymentOverrides_DeepCopy ::
  "pointer \<Rightarrow> cell heap \<Rightarrow> pointer \<times> cell heap" where
  "DeploymentOverrides_DeepCopy =
     copy_ptr is_DeploymentOverrides the_DeploymentOverrides DeploymentOverridesCell
       DeploymentOverrides_DeepCopyInto"

interpretation DeploymentOverrides_ptr:
  deep_copier view_DeploymentOverrides_ptr
    foot_DeploymentOverrides_ptr DeploymentOverrides_DeepCopy
  unfolding DeploymentOverrides_DeepCopy_def
  by (rule deep_copier_ptr)
    (simp_all add: DeploymentOverrides.deep_copier_axioms)

type_synonym vCROSpec =
  "vDeploymentOverrides ClusterResourceOverrideSpecOf"

definition value_ClusterResourceOverrideSpec ::
  "hCROSpec \<Rightarrow> vDeploymentOverrides \<Rightarrow> vCROSpec" where
  "value_ClusterResourceOverrideSpec x overrides = \<lparr>
     gs_PodResourceOverride = gs_PodResourceOverride x, gs_DeploymentOverrides = overrides\<rparr>"

definition view_ClusterResourceOverrideSpec ::
  "cell heap \<Rightarrow> hCROSpec \<Rightarrow> vCROSpec option" where
  "view_ClusterResourceOverrideSpec h x = map_option (value_ClusterResourceOverrideSpec x)
     (view_DeploymentOverrides h (gs_DeploymentOverrides x))"

definition foot_ClusterResourceOverrideSpec ::
  "cell heap \<Rightarrow> hCROSpec \<Rightarrow> loc set" where
  "foot_ClusterResourceOverrideSpec h x =
     foot_DeploymentOverrides h (gs_DeploymentOverrides x)"

definition ClusterResourceOverrideSpec_DeepCopyInto ::
  "hCROSpec \<Rightarrow> cell heap \<Rightarrow> hCROSpec \<times> cell heap" where
  "ClusterResourceOverrideSpec_DeepCopyInto x h =
     (let (overrides, h1) = DeploymentOverrides_DeepCopyInto (gs_DeploymentOverrides x) h
      in (x\<lparr>gs_DeploymentOverrides := overrides\<rparr>, h1))"

interpretation ClusterResourceOverrideSpec:
  deep_copier view_ClusterResourceOverrideSpec
    foot_ClusterResourceOverrideSpec ClusterResourceOverrideSpec_DeepCopyInto
  by (rule deep_copier_struct [OF DeploymentOverrides.deep_copier_axioms,
        where refs = gs_DeploymentOverrides and build = value_ClusterResourceOverrideSpec
        and put = "\<lambda>overrides x. x\<lparr>gs_DeploymentOverrides := overrides\<rparr>"])
    (auto simp: value_ClusterResourceOverrideSpec_def view_ClusterResourceOverrideSpec_def
      foot_ClusterResourceOverrideSpec_def ClusterResourceOverrideSpec_DeepCopyInto_def
      copy_pair_def Let_def split: prod.splits)

abbreviation "view_ClusterResourceOverrideSpec_ptr \<equiv>
  view_ptr is_CROSpec the_CROSpec view_ClusterResourceOverrideSpec"
abbreviation "foot_ClusterResourceOverrideSpec_ptr \<equiv>
  foot_ptr is_CROSpec the_CROSpec foot_ClusterResourceOverrideSpec"

definition ClusterResourceOverrideSpec_DeepCopy ::
  "pointer \<Rightarrow> cell heap \<Rightarrow> pointer \<times> cell heap" where
  "ClusterResourceOverrideSpec_DeepCopy =
     copy_ptr is_CROSpec the_CROSpec CROSpecCell
       ClusterResourceOverrideSpec_DeepCopyInto"

interpretation ClusterResourceOverrideSpec_ptr:
  deep_copier view_ClusterResourceOverrideSpec_ptr
    foot_ClusterResourceOverrideSpec_ptr ClusterResourceOverrideSpec_DeepCopy
  unfolding ClusterResourceOverrideSpec_DeepCopy_def
  by (rule deep_copier_ptr)
    (simp_all add: ClusterResourceOverrideSpec.deep_copier_axioms)

section \<open>operator/v1: the status\<close>

type_synonym vCROResources =
  "ObjectReference option ClusterResourceOverrideResourcesOf"

definition refs_ClusterResourceOverrideResources ::
  "hCROResources \<Rightarrow> pointer \<times> pointer \<times> pointer \<times> pointer \<times> pointer
     \<times> pointer \<times> pointer" where
  "refs_ClusterResourceOverrideResources x = (g_ConfigurationRef x, g_ServiceRef x,
     g_DeploymentRef x, g_APiServiceRef x, g_MutatingWebhookConfigurationRef x,
     g_ValidatingAdmissionPolicyRef x, g_ValidatingAdmissionPolicyBindingRef x)"

definition value_ClusterResourceOverrideResources ::
  "hCROResources \<Rightarrow> ObjectReference option \<times> ObjectReference option \<times> ObjectReference option
     \<times> ObjectReference option \<times> ObjectReference option \<times> ObjectReference option
     \<times> ObjectReference option \<Rightarrow> vCROResources" where
  "value_ClusterResourceOverrideResources x = (\<lambda>(configuration, service, deployment,
     api_service, webhook, policy, binding).
     \<lparr>g_ConfigurationRef = configuration, g_ServiceRef = service,
      g_DeploymentRef = deployment, g_APiServiceRef = api_service,
      g_MutatingWebhookConfigurationRef = webhook, g_ValidatingAdmissionPolicyRef = policy,
      g_ValidatingAdmissionPolicyBindingRef = binding\<rparr>)"

definition view_ClusterResourceOverrideResources ::
  "cell heap \<Rightarrow> hCROResources \<Rightarrow> vCROResources option" where
  "view_ClusterResourceOverrideResources h x = map_option (value_ClusterResourceOverrideResources x)
     (view_pair view_reference (view_pair view_reference (view_pair view_reference
      (view_pair view_reference (view_pair view_reference (view_pair view_reference
      view_reference))))) h (refs_ClusterResourceOverrideResources x))"

definition foot_ClusterResourceOverrideResources ::
  "cell heap \<Rightarrow> hCROResources \<Rightarrow> loc set" where
  "foot_ClusterResourceOverrideResources h x =
     foot_pair foot_reference (foot_pair foot_reference (foot_pair foot_reference
      (foot_pair foot_reference (foot_pair foot_reference (foot_pair foot_reference
      foot_reference))))) h (refs_ClusterResourceOverrideResources x)"

definition ClusterResourceOverrideResources_DeepCopyInto ::
  "hCROResources \<Rightarrow> cell heap \<Rightarrow> hCROResources \<times> cell heap" where
  "ClusterResourceOverrideResources_DeepCopyInto x h =
     (let (configuration, h1) = copy_reference (g_ConfigurationRef x) h;
          (service, h2) = copy_reference (g_ServiceRef x) h1;
          (deployment, h3) = copy_reference (g_DeploymentRef x) h2;
          (api_service, h4) = copy_reference (g_APiServiceRef x) h3;
          (webhook, h5) = copy_reference (g_MutatingWebhookConfigurationRef x) h4;
          (policy, h6) = copy_reference (g_ValidatingAdmissionPolicyRef x) h5;
          (binding, h7) = copy_reference (g_ValidatingAdmissionPolicyBindingRef x) h6
      in (x\<lparr>g_ConfigurationRef := configuration, g_ServiceRef := service,
           g_DeploymentRef := deployment, g_APiServiceRef := api_service,
           g_MutatingWebhookConfigurationRef := webhook, g_ValidatingAdmissionPolicyRef := policy,
           g_ValidatingAdmissionPolicyBindingRef := binding\<rparr>, h7))"

interpretation ClusterResourceOverrideResources:
  deep_copier view_ClusterResourceOverrideResources
    foot_ClusterResourceOverrideResources ClusterResourceOverrideResources_DeepCopyInto
  by (rule deep_copier_struct [OF deep_copier_pair [OF reference.deep_copier_axioms deep_copier_pair [OF
        reference.deep_copier_axioms deep_copier_pair [OF reference.deep_copier_axioms
        deep_copier_pair [OF reference.deep_copier_axioms deep_copier_pair [OF
        reference.deep_copier_axioms deep_copier_pair [OF reference.deep_copier_axioms
        reference.deep_copier_axioms]]]]]],
        where refs = refs_ClusterResourceOverrideResources and build = value_ClusterResourceOverrideResources
        and put = "\<lambda>(configuration, service, deployment, api_service, webhook, policy, binding) x. x\<lparr>
          g_ConfigurationRef := configuration, g_ServiceRef := service,
          g_DeploymentRef := deployment, g_APiServiceRef := api_service,
          g_MutatingWebhookConfigurationRef := webhook, g_ValidatingAdmissionPolicyRef := policy,
          g_ValidatingAdmissionPolicyBindingRef := binding\<rparr>"])
    (auto simp: value_ClusterResourceOverrideResources_def
      view_ClusterResourceOverrideResources_def foot_ClusterResourceOverrideResources_def
      ClusterResourceOverrideResources_DeepCopyInto_def refs_ClusterResourceOverrideResources_def
      copy_pair_def Let_def split: prod.splits)

abbreviation "view_ClusterResourceOverrideResources_ptr \<equiv>
  view_ptr is_CROResources the_CROResources view_ClusterResourceOverrideResources"
abbreviation "foot_ClusterResourceOverrideResources_ptr \<equiv>
  foot_ptr is_CROResources the_CROResources foot_ClusterResourceOverrideResources"

definition ClusterResourceOverrideResources_DeepCopy ::
  "pointer \<Rightarrow> cell heap \<Rightarrow> pointer \<times> cell heap" where
  "ClusterResourceOverrideResources_DeepCopy =
     copy_ptr is_CROResources the_CROResources CROResourcesCell
       ClusterResourceOverrideResources_DeepCopyInto"

interpretation ClusterResourceOverrideResources_ptr:
  deep_copier view_ClusterResourceOverrideResources_ptr
    foot_ClusterResourceOverrideResources_ptr ClusterResourceOverrideResources_DeepCopy
  unfolding ClusterResourceOverrideResources_DeepCopy_def
  by (rule deep_copier_ptr)
    (simp_all add: ClusterResourceOverrideResources.deep_copier_axioms)

abbreviation "view_cro_conditions \<equiv> view_slice is_CROConditions the_CROConditions view_plain"
abbreviation "foot_cro_conditions \<equiv> foot_slice is_CROConditions the_CROConditions foot_plain"
abbreviation "copy_cro_conditions \<equiv>
  copy_slice is_CROConditions the_CROConditions CROConditionArray ClusterResourceOverrideCondition_DeepCopyInto"

interpretation cro_conditions:
  deep_copier view_cro_conditions foot_cro_conditions copy_cro_conditions
  by (rule deep_copier_slice) (simp_all add: ClusterResourceOverrideCondition.deep_copier_axioms)

type_synonym vCROStatus =
  "(vCROResources, ClusterResourceOverrideCondition list option) ClusterResourceOverrideStatusOf"

definition refs_ClusterResourceOverrideStatus ::
  "hCROStatus \<Rightarrow> hCROResources \<times> slice_header" where
  "refs_ClusterResourceOverrideStatus x = (gst_Resources x, gst_Conditions x)"

definition value_ClusterResourceOverrideStatus ::
  "hCROStatus \<Rightarrow> vCROResources \<times> ClusterResourceOverrideCondition list option
     \<Rightarrow> vCROStatus" where
  "value_ClusterResourceOverrideStatus x = (\<lambda>(resources, conditions).
     \<lparr>gst_Resources = resources, gst_Hash = gst_Hash x, gst_Conditions = conditions,
      gst_Version = gst_Version x, gst_Image = gst_Image x\<rparr>)"

definition view_ClusterResourceOverrideStatus ::
  "cell heap \<Rightarrow> hCROStatus \<Rightarrow> vCROStatus option" where
  "view_ClusterResourceOverrideStatus h x = map_option (value_ClusterResourceOverrideStatus x)
     (view_pair view_ClusterResourceOverrideResources view_cro_conditions
      h (refs_ClusterResourceOverrideStatus x))"

definition foot_ClusterResourceOverrideStatus ::
  "cell heap \<Rightarrow> hCROStatus \<Rightarrow> loc set" where
  "foot_ClusterResourceOverrideStatus h x =
     foot_pair foot_ClusterResourceOverrideResources foot_cro_conditions
      h (refs_ClusterResourceOverrideStatus x)"

definition ClusterResourceOverrideStatus_DeepCopyInto ::
  "hCROStatus \<Rightarrow> cell heap \<Rightarrow> hCROStatus \<times> cell heap" where
  "ClusterResourceOverrideStatus_DeepCopyInto x h =
     (let (resources, h1) = ClusterResourceOverrideResources_DeepCopyInto (gst_Resources x) h;
          (conditions, h2) = copy_cro_conditions (gst_Conditions x) h1
      in (x\<lparr>gst_Resources := resources, gst_Conditions := conditions\<rparr>, h2))"

interpretation ClusterResourceOverrideStatus:
  deep_copier view_ClusterResourceOverrideStatus
    foot_ClusterResourceOverrideStatus ClusterResourceOverrideStatus_DeepCopyInto
  by (rule deep_copier_struct [OF deep_copier_pair [OF ClusterResourceOverrideResources.deep_copier_axioms
        cro_conditions.deep_copier_axioms],
        where refs = refs_ClusterResourceOverrideStatus and build = value_ClusterResourceOverrideStatus
        and put = "\<lambda>(resources, conditions) x. x\<lparr>gst_Resources := resources,
          gst_Conditions := conditions\<rparr>"])
    (auto simp: value_ClusterResourceOverrideStatus_def view_ClusterResourceOverrideStatus_def
      foot_ClusterResourceOverrideStatus_def ClusterResourceOverrideStatus_DeepCopyInto_def
      refs_ClusterResourceOverrideStatus_def copy_pair_def Let_def split: prod.splits)

abbreviation "view_ClusterResourceOverrideStatus_ptr \<equiv>
  view_ptr is_CROStatus the_CROStatus view_ClusterResourceOverrideStatus"
abbreviation "foot_ClusterResourceOverrideStatus_ptr \<equiv>
  foot_ptr is_CROStatus the_CROStatus foot_ClusterResourceOverrideStatus"

definition ClusterResourceOverrideStatus_DeepCopy ::
  "pointer \<Rightarrow> cell heap \<Rightarrow> pointer \<times> cell heap" where
  "ClusterResourceOverrideStatus_DeepCopy =
     copy_ptr is_CROStatus the_CROStatus CROStatusCell
       ClusterResourceOverrideStatus_DeepCopyInto"

interpretation ClusterResourceOverrideStatus_ptr:
  deep_copier view_ClusterResourceOverrideStatus_ptr
    foot_ClusterResourceOverrideStatus_ptr ClusterResourceOverrideStatus_DeepCopy
  unfolding ClusterResourceOverrideStatus_DeepCopy_def
  by (rule deep_copier_ptr)
    (simp_all add: ClusterResourceOverrideStatus.deep_copier_axioms)

section \<open>operator/v1: ClusterResourceOverride and its list\<close>

type_synonym vCRO =
  "(vObjectMeta, vCROSpec, vCROStatus) CustomResourceOf"

definition refs_ClusterResourceOverride ::
  "hCRO \<Rightarrow> hObjectMeta \<times> hCROSpec \<times> hCROStatus" where
  "refs_ClusterResourceOverride x = (gc_ObjectMeta x, gc_Spec x, gc_Status x)"

definition value_ClusterResourceOverride ::
  "hCRO \<Rightarrow> vObjectMeta \<times> vCROSpec \<times> vCROStatus \<Rightarrow> vCRO" where
  "value_ClusterResourceOverride x = (\<lambda>(meta, spec, status).
     \<lparr>gc_TypeMeta = gc_TypeMeta x, gc_ObjectMeta = meta, gc_Spec = spec, gc_Status = status\<rparr>)"

definition view_ClusterResourceOverride ::
  "cell heap \<Rightarrow> hCRO \<Rightarrow> vCRO option" where
  "view_ClusterResourceOverride h x = map_option (value_ClusterResourceOverride x)
     (view_pair view_ObjectMeta (view_pair view_ClusterResourceOverrideSpec
      view_ClusterResourceOverrideStatus) h (refs_ClusterResourceOverride x))"

definition foot_ClusterResourceOverride ::
  "cell heap \<Rightarrow> hCRO \<Rightarrow> loc set" where
  "foot_ClusterResourceOverride h x =
     foot_pair foot_ObjectMeta (foot_pair foot_ClusterResourceOverrideSpec
      foot_ClusterResourceOverrideStatus) h (refs_ClusterResourceOverride x)"

definition ClusterResourceOverride_DeepCopyInto ::
  "hCRO \<Rightarrow> cell heap \<Rightarrow> hCRO \<times> cell heap" where
  "ClusterResourceOverride_DeepCopyInto x h =
     (let (meta, h1) = ObjectMeta_DeepCopyInto (gc_ObjectMeta x) h;
          (spec, h2) = ClusterResourceOverrideSpec_DeepCopyInto (gc_Spec x) h1;
          (status, h3) = ClusterResourceOverrideStatus_DeepCopyInto (gc_Status x) h2
      in (x\<lparr>gc_ObjectMeta := meta, gc_Spec := spec, gc_Status := status\<rparr>, h3))"

interpretation ClusterResourceOverride:
  deep_copier view_ClusterResourceOverride
    foot_ClusterResourceOverride ClusterResourceOverride_DeepCopyInto
  by (rule deep_copier_struct [OF deep_copier_pair [OF ObjectMeta.deep_copier_axioms deep_copier_pair [OF
        ClusterResourceOverrideSpec.deep_copier_axioms
        ClusterResourceOverrideStatus.deep_copier_axioms]],
        where refs = refs_ClusterResourceOverride and build = value_ClusterResourceOverride
        and put = "\<lambda>(meta, spec, status) x. x\<lparr>gc_ObjectMeta := meta, gc_Spec := spec,
          gc_Status := status\<rparr>"])
    (auto simp: value_ClusterResourceOverride_def view_ClusterResourceOverride_def
      foot_ClusterResourceOverride_def ClusterResourceOverride_DeepCopyInto_def
      refs_ClusterResourceOverride_def copy_pair_def Let_def split: prod.splits)

abbreviation "view_ClusterResourceOverride_ptr \<equiv>
  view_ptr is_CRO the_CRO view_ClusterResourceOverride"
abbreviation "foot_ClusterResourceOverride_ptr \<equiv>
  foot_ptr is_CRO the_CRO foot_ClusterResourceOverride"

definition ClusterResourceOverride_DeepCopy ::
  "pointer \<Rightarrow> cell heap \<Rightarrow> pointer \<times> cell heap" where
  "ClusterResourceOverride_DeepCopy =
     copy_ptr is_CRO the_CRO CROCell
       ClusterResourceOverride_DeepCopyInto"

interpretation ClusterResourceOverride_ptr:
  deep_copier view_ClusterResourceOverride_ptr
    foot_ClusterResourceOverride_ptr ClusterResourceOverride_DeepCopy
  unfolding ClusterResourceOverride_DeepCopy_def
  by (rule deep_copier_ptr)
    (simp_all add: ClusterResourceOverride.deep_copier_axioms)

abbreviation "view_cros \<equiv> view_slice is_CROs the_CROs view_ClusterResourceOverride"
abbreviation "foot_cros \<equiv> foot_slice is_CROs the_CROs foot_ClusterResourceOverride"
abbreviation "copy_cros \<equiv>
  copy_slice is_CROs the_CROs CROArray ClusterResourceOverride_DeepCopyInto"

interpretation cros: deep_copier view_cros foot_cros copy_cros
  by (rule deep_copier_slice) (simp_all add: ClusterResourceOverride.deep_copier_axioms)

type_synonym vCROList =
  "(vListMeta, vCRO list option) CustomResourceListOf"

definition refs_ClusterResourceOverrideList ::
  "hCROList \<Rightarrow> hListMeta \<times> slice_header" where
  "refs_ClusterResourceOverrideList x = (gcl_ListMeta x, gcl_Items x)"

definition value_ClusterResourceOverrideList ::
  "hCROList \<Rightarrow> vListMeta \<times> vCRO list option \<Rightarrow> vCROList" where
  "value_ClusterResourceOverrideList x = (\<lambda>(meta, items).
     \<lparr>gcl_TypeMeta = gcl_TypeMeta x, gcl_ListMeta = meta, gcl_Items = items\<rparr>)"

definition view_ClusterResourceOverrideList ::
  "cell heap \<Rightarrow> hCROList \<Rightarrow> vCROList option" where
  "view_ClusterResourceOverrideList h x = map_option (value_ClusterResourceOverrideList x)
     (view_pair view_ListMeta view_cros h (refs_ClusterResourceOverrideList x))"

definition foot_ClusterResourceOverrideList ::
  "cell heap \<Rightarrow> hCROList \<Rightarrow> loc set" where
  "foot_ClusterResourceOverrideList h x =
     foot_pair foot_ListMeta foot_cros h (refs_ClusterResourceOverrideList x)"

definition ClusterResourceOverrideList_DeepCopyInto ::
  "hCROList \<Rightarrow> cell heap \<Rightarrow> hCROList \<times> cell heap" where
  "ClusterResourceOverrideList_DeepCopyInto x h =
     (let (meta, h1) = ListMeta_DeepCopyInto (gcl_ListMeta x) h;
          (items, h2) = copy_cros (gcl_Items x) h1
      in (x\<lparr>gcl_ListMeta := meta, gcl_Items := items\<rparr>, h2))"

interpretation ClusterResourceOverrideList:
  deep_copier view_ClusterResourceOverrideList
    foot_ClusterResourceOverrideList ClusterResourceOverrideList_DeepCopyInto
  by (rule deep_copier_struct [OF deep_copier_pair [OF ListMeta.deep_copier_axioms cros.deep_copier_axioms],
        where refs = refs_ClusterResourceOverrideList and build = value_ClusterResourceOverrideList
        and put = "\<lambda>(meta, items) x. x\<lparr>gcl_ListMeta := meta, gcl_Items := items\<rparr>"])
    (auto simp: value_ClusterResourceOverrideList_def view_ClusterResourceOverrideList_def
      foot_ClusterResourceOverrideList_def ClusterResourceOverrideList_DeepCopyInto_def
      refs_ClusterResourceOverrideList_def copy_pair_def Let_def split: prod.splits)

abbreviation "view_ClusterResourceOverrideList_ptr \<equiv>
  view_ptr is_CROList the_CROList view_ClusterResourceOverrideList"
abbreviation "foot_ClusterResourceOverrideList_ptr \<equiv>
  foot_ptr is_CROList the_CROList foot_ClusterResourceOverrideList"

definition ClusterResourceOverrideList_DeepCopy ::
  "pointer \<Rightarrow> cell heap \<Rightarrow> pointer \<times> cell heap" where
  "ClusterResourceOverrideList_DeepCopy =
     copy_ptr is_CROList the_CROList CROListCell
       ClusterResourceOverrideList_DeepCopyInto"

interpretation ClusterResourceOverrideList_ptr:
  deep_copier view_ClusterResourceOverrideList_ptr
    foot_ClusterResourceOverrideList_ptr ClusterResourceOverrideList_DeepCopy
  unfolding ClusterResourceOverrideList_DeepCopy_def
  by (rule deep_copier_ptr)
    (simp_all add: ClusterResourceOverrideList.deep_copier_axioms)

section \<open>autoscaling/v1\<close>

text \<open>The \<open>PodResourceOverrideSpec\<close> of autoscaling/v1 has the fields and the copy of the one of operator/v1.\<close>

definition autoscaling_PodResourceOverrideSpec_DeepCopy ::
  "pointer \<Rightarrow> cell heap \<Rightarrow> pointer \<times> cell heap" where
  "autoscaling_PodResourceOverrideSpec_DeepCopy =
     copy_ptr is_PodResourceOverrideSpec the_PodResourceOverrideSpec PodResourceOverrideSpecCell
       PodResourceOverrideSpec_DeepCopyInto"

definition ResourceOverrideCondition_DeepCopyInto ::
  "ResourceOverrideCondition \<Rightarrow> cell heap \<Rightarrow> ResourceOverrideCondition \<times> cell heap" where
  "ResourceOverrideCondition_DeepCopyInto x h = (let (t, h1) = Time_DeepCopyInto (cond_LastTransitionTime x) h
     in (x\<lparr>cond_LastTransitionTime := t\<rparr>, h1))"

interpretation ResourceOverrideCondition:
  deep_copier view_plain foot_plain ResourceOverrideCondition_DeepCopyInto
  by unfold_locales (simp_all add: ResourceOverrideCondition_DeepCopyInto_def copied_def view_plain_def foot_plain_def Time_DeepCopyInto_def)

abbreviation "view_ResourceOverrideCondition_ptr \<equiv>
  view_ptr is_ROCondition the_ROCondition view_plain"
abbreviation "foot_ResourceOverrideCondition_ptr \<equiv>
  foot_ptr is_ROCondition the_ROCondition foot_plain"

definition ResourceOverrideCondition_DeepCopy ::
  "pointer \<Rightarrow> cell heap \<Rightarrow> pointer \<times> cell heap" where
  "ResourceOverrideCondition_DeepCopy =
     copy_ptr is_ROCondition the_ROCondition ROConditionCell
       ResourceOverrideCondition_DeepCopyInto"

interpretation ResourceOverrideCondition_ptr:
  deep_copier view_ResourceOverrideCondition_ptr
    foot_ResourceOverrideCondition_ptr ResourceOverrideCondition_DeepCopy
  unfolding ResourceOverrideCondition_DeepCopy_def
  by (rule deep_copier_ptr)
    (simp_all add: ResourceOverrideCondition.deep_copier_axioms)

abbreviation "view_selector \<equiv> view_ptr is_LabelSelector the_LabelSelector view_LabelSelector"
abbreviation "foot_selector \<equiv> foot_ptr is_LabelSelector the_LabelSelector foot_LabelSelector"
abbreviation "copy_selector \<equiv>
  copy_ptr is_LabelSelector the_LabelSelector LabelSelectorCell LabelSelector_DeepCopyInto"

interpretation selector: deep_copier view_selector foot_selector copy_selector
  by (rule deep_copier_ptr) (simp_all add: LabelSelector.deep_copier_axioms)

type_synonym vROSpec =
  "vLabelSelector option ResourceOverrideSpecOf"

definition value_ResourceOverrideSpec ::
  "hROSpec \<Rightarrow> vLabelSelector option \<Rightarrow> vROSpec" where
  "value_ResourceOverrideSpec x selector = \<lparr>
     gros_PodResourceOverride = gros_PodResourceOverride x, gros_PodSelector = selector\<rparr>"

definition view_ResourceOverrideSpec ::
  "cell heap \<Rightarrow> hROSpec \<Rightarrow> vROSpec option" where
  "view_ResourceOverrideSpec h x = map_option (value_ResourceOverrideSpec x)
     (view_selector h (gros_PodSelector x))"

definition foot_ResourceOverrideSpec ::
  "cell heap \<Rightarrow> hROSpec \<Rightarrow> loc set" where
  "foot_ResourceOverrideSpec h x =
     foot_selector h (gros_PodSelector x)"

definition ResourceOverrideSpec_DeepCopyInto ::
  "hROSpec \<Rightarrow> cell heap \<Rightarrow> hROSpec \<times> cell heap" where
  "ResourceOverrideSpec_DeepCopyInto x h =
     (let (selector, h1) = copy_selector (gros_PodSelector x) h
      in (x\<lparr>gros_PodSelector := selector\<rparr>, h1))"

interpretation ResourceOverrideSpec:
  deep_copier view_ResourceOverrideSpec
    foot_ResourceOverrideSpec ResourceOverrideSpec_DeepCopyInto
  by (rule deep_copier_struct [OF selector.deep_copier_axioms,
        where refs = gros_PodSelector and build = value_ResourceOverrideSpec
        and put = "\<lambda>selector x. x\<lparr>gros_PodSelector := selector\<rparr>"])
    (auto simp: value_ResourceOverrideSpec_def view_ResourceOverrideSpec_def
      foot_ResourceOverrideSpec_def ResourceOverrideSpec_DeepCopyInto_def copy_pair_def Let_def split: prod.splits)

abbreviation "view_ResourceOverrideSpec_ptr \<equiv>
  view_ptr is_ROSpec the_ROSpec view_ResourceOverrideSpec"
abbreviation "foot_ResourceOverrideSpec_ptr \<equiv>
  foot_ptr is_ROSpec the_ROSpec foot_ResourceOverrideSpec"

definition ResourceOverrideSpec_DeepCopy ::
  "pointer \<Rightarrow> cell heap \<Rightarrow> pointer \<times> cell heap" where
  "ResourceOverrideSpec_DeepCopy =
     copy_ptr is_ROSpec the_ROSpec ROSpecCell
       ResourceOverrideSpec_DeepCopyInto"

interpretation ResourceOverrideSpec_ptr:
  deep_copier view_ResourceOverrideSpec_ptr
    foot_ResourceOverrideSpec_ptr ResourceOverrideSpec_DeepCopy
  unfolding ResourceOverrideSpec_DeepCopy_def
  by (rule deep_copier_ptr)
    (simp_all add: ResourceOverrideSpec.deep_copier_axioms)

abbreviation "view_ro_conditions \<equiv> view_slice is_ROConditions the_ROConditions view_plain"
abbreviation "foot_ro_conditions \<equiv> foot_slice is_ROConditions the_ROConditions foot_plain"
abbreviation "copy_ro_conditions \<equiv>
  copy_slice is_ROConditions the_ROConditions ROConditionArray ResourceOverrideCondition_DeepCopyInto"

interpretation ro_conditions: deep_copier view_ro_conditions foot_ro_conditions copy_ro_conditions
  by (rule deep_copier_slice) (simp_all add: ResourceOverrideCondition.deep_copier_axioms)

type_synonym vROStatus =
  "ResourceOverrideCondition list option ResourceOverrideStatusOf"

definition value_ResourceOverrideStatus ::
  "hROStatus \<Rightarrow> ResourceOverrideCondition list option \<Rightarrow> vROStatus" where
  "value_ResourceOverrideStatus x conditions = \<lparr>gro_Conditions = conditions\<rparr>"

definition view_ResourceOverrideStatus ::
  "cell heap \<Rightarrow> hROStatus \<Rightarrow> vROStatus option" where
  "view_ResourceOverrideStatus h x = map_option (value_ResourceOverrideStatus x)
     (view_ro_conditions h (gro_Conditions x))"

definition foot_ResourceOverrideStatus ::
  "cell heap \<Rightarrow> hROStatus \<Rightarrow> loc set" where
  "foot_ResourceOverrideStatus h x =
     foot_ro_conditions h (gro_Conditions x)"

definition ResourceOverrideStatus_DeepCopyInto ::
  "hROStatus \<Rightarrow> cell heap \<Rightarrow> hROStatus \<times> cell heap" where
  "ResourceOverrideStatus_DeepCopyInto x h =
     (let (conditions, h1) = copy_ro_conditions (gro_Conditions x) h
      in (x\<lparr>gro_Conditions := conditions\<rparr>, h1))"

interpretation ResourceOverrideStatus:
  deep_copier view_ResourceOverrideStatus
    foot_ResourceOverrideStatus ResourceOverrideStatus_DeepCopyInto
  by (rule deep_copier_struct [OF ro_conditions.deep_copier_axioms,
        where refs = gro_Conditions and build = value_ResourceOverrideStatus
        and put = "\<lambda>conditions x. x\<lparr>gro_Conditions := conditions\<rparr>"])
    (auto simp: value_ResourceOverrideStatus_def view_ResourceOverrideStatus_def
      foot_ResourceOverrideStatus_def ResourceOverrideStatus_DeepCopyInto_def copy_pair_def
      Let_def split: prod.splits)

abbreviation "view_ResourceOverrideStatus_ptr \<equiv>
  view_ptr is_ROStatus the_ROStatus view_ResourceOverrideStatus"
abbreviation "foot_ResourceOverrideStatus_ptr \<equiv>
  foot_ptr is_ROStatus the_ROStatus foot_ResourceOverrideStatus"

definition ResourceOverrideStatus_DeepCopy ::
  "pointer \<Rightarrow> cell heap \<Rightarrow> pointer \<times> cell heap" where
  "ResourceOverrideStatus_DeepCopy =
     copy_ptr is_ROStatus the_ROStatus ROStatusCell
       ResourceOverrideStatus_DeepCopyInto"

interpretation ResourceOverrideStatus_ptr:
  deep_copier view_ResourceOverrideStatus_ptr
    foot_ResourceOverrideStatus_ptr ResourceOverrideStatus_DeepCopy
  unfolding ResourceOverrideStatus_DeepCopy_def
  by (rule deep_copier_ptr)
    (simp_all add: ResourceOverrideStatus.deep_copier_axioms)

type_synonym vRO =
  "(vObjectMeta, vROSpec, vROStatus) CustomResourceOf"

definition refs_ResourceOverride ::
  "hRO \<Rightarrow> hObjectMeta \<times> hROSpec \<times> hROStatus" where
  "refs_ResourceOverride x = (gc_ObjectMeta x, gc_Spec x, gc_Status x)"

definition value_ResourceOverride ::
  "hRO \<Rightarrow> vObjectMeta \<times> vROSpec \<times> vROStatus \<Rightarrow> vRO" where
  "value_ResourceOverride x = (\<lambda>(meta, spec, status).
     \<lparr>gc_TypeMeta = gc_TypeMeta x, gc_ObjectMeta = meta, gc_Spec = spec, gc_Status = status\<rparr>)"

definition view_ResourceOverride :: "cell heap \<Rightarrow> hRO \<Rightarrow> vRO option" where
  "view_ResourceOverride h x = map_option (value_ResourceOverride x)
     (view_pair view_ObjectMeta (view_pair view_ResourceOverrideSpec
      view_ResourceOverrideStatus) h (refs_ResourceOverride x))"

definition foot_ResourceOverride :: "cell heap \<Rightarrow> hRO \<Rightarrow> loc set" where
  "foot_ResourceOverride h x =
     foot_pair foot_ObjectMeta (foot_pair foot_ResourceOverrideSpec
      foot_ResourceOverrideStatus) h (refs_ResourceOverride x)"

definition ResourceOverride_DeepCopyInto ::
  "hRO \<Rightarrow> cell heap \<Rightarrow> hRO \<times> cell heap" where
  "ResourceOverride_DeepCopyInto x h =
     (let (meta, h1) = ObjectMeta_DeepCopyInto (gc_ObjectMeta x) h;
          (spec, h2) = ResourceOverrideSpec_DeepCopyInto (gc_Spec x) h1;
          (status, h3) = ResourceOverrideStatus_DeepCopyInto (gc_Status x) h2
      in (x\<lparr>gc_ObjectMeta := meta, gc_Spec := spec, gc_Status := status\<rparr>, h3))"

interpretation ResourceOverride:
  deep_copier view_ResourceOverride foot_ResourceOverride ResourceOverride_DeepCopyInto
  by (rule deep_copier_struct [OF deep_copier_pair [OF ObjectMeta.deep_copier_axioms deep_copier_pair [OF
        ResourceOverrideSpec.deep_copier_axioms
        ResourceOverrideStatus.deep_copier_axioms]],
        where refs = refs_ResourceOverride and build = value_ResourceOverride
        and put = "\<lambda>(meta, spec, status) x. x\<lparr>gc_ObjectMeta := meta, gc_Spec := spec,
          gc_Status := status\<rparr>"])
    (auto simp: value_ResourceOverride_def view_ResourceOverride_def foot_ResourceOverride_def
      ResourceOverride_DeepCopyInto_def refs_ResourceOverride_def copy_pair_def Let_def split: prod.splits)

abbreviation "view_ResourceOverride_ptr \<equiv> view_ptr is_RO the_RO view_ResourceOverride"
abbreviation "foot_ResourceOverride_ptr \<equiv> foot_ptr is_RO the_RO foot_ResourceOverride"

definition ResourceOverride_DeepCopy ::
  "pointer \<Rightarrow> cell heap \<Rightarrow> pointer \<times> cell heap" where
  "ResourceOverride_DeepCopy = copy_ptr is_RO the_RO ROCell ResourceOverride_DeepCopyInto"

interpretation ResourceOverride_ptr:
  deep_copier view_ResourceOverride_ptr foot_ResourceOverride_ptr ResourceOverride_DeepCopy
  unfolding ResourceOverride_DeepCopy_def
  by (rule deep_copier_ptr)
    (simp_all add: ResourceOverride.deep_copier_axioms)

abbreviation "view_ros \<equiv> view_slice is_ROs the_ROs view_ResourceOverride"
abbreviation "foot_ros \<equiv> foot_slice is_ROs the_ROs foot_ResourceOverride"
abbreviation "copy_ros \<equiv> copy_slice is_ROs the_ROs ROArray ResourceOverride_DeepCopyInto"

interpretation ros: deep_copier view_ros foot_ros copy_ros
  by (rule deep_copier_slice) (simp_all add: ResourceOverride.deep_copier_axioms)

type_synonym vROList =
  "(vListMeta, vRO list option) CustomResourceListOf"

definition refs_ResourceOverrideList ::
  "hROList \<Rightarrow> hListMeta \<times> slice_header" where
  "refs_ResourceOverrideList x = (gcl_ListMeta x, gcl_Items x)"

definition value_ResourceOverrideList ::
  "hROList \<Rightarrow> vListMeta \<times> vRO list option \<Rightarrow> vROList" where
  "value_ResourceOverrideList x = (\<lambda>(meta, items).
     \<lparr>gcl_TypeMeta = gcl_TypeMeta x, gcl_ListMeta = meta, gcl_Items = items\<rparr>)"

definition view_ResourceOverrideList ::
  "cell heap \<Rightarrow> hROList \<Rightarrow> vROList option" where
  "view_ResourceOverrideList h x = map_option (value_ResourceOverrideList x)
     (view_pair view_ListMeta view_ros h (refs_ResourceOverrideList x))"

definition foot_ResourceOverrideList ::
  "cell heap \<Rightarrow> hROList \<Rightarrow> loc set" where
  "foot_ResourceOverrideList h x =
     foot_pair foot_ListMeta foot_ros h (refs_ResourceOverrideList x)"

definition ResourceOverrideList_DeepCopyInto ::
  "hROList \<Rightarrow> cell heap \<Rightarrow> hROList \<times> cell heap" where
  "ResourceOverrideList_DeepCopyInto x h =
     (let (meta, h1) = ListMeta_DeepCopyInto (gcl_ListMeta x) h;
          (items, h2) = copy_ros (gcl_Items x) h1
      in (x\<lparr>gcl_ListMeta := meta, gcl_Items := items\<rparr>, h2))"

interpretation ResourceOverrideList:
  deep_copier view_ResourceOverrideList
    foot_ResourceOverrideList ResourceOverrideList_DeepCopyInto
  by (rule deep_copier_struct [OF deep_copier_pair [OF ListMeta.deep_copier_axioms ros.deep_copier_axioms],
        where refs = refs_ResourceOverrideList and build = value_ResourceOverrideList
        and put = "\<lambda>(meta, items) x. x\<lparr>gcl_ListMeta := meta, gcl_Items := items\<rparr>"])
    (auto simp: value_ResourceOverrideList_def view_ResourceOverrideList_def
      foot_ResourceOverrideList_def ResourceOverrideList_DeepCopyInto_def
      refs_ResourceOverrideList_def copy_pair_def Let_def split: prod.splits)

abbreviation "view_ResourceOverrideList_ptr \<equiv>
  view_ptr is_ROList the_ROList view_ResourceOverrideList"
abbreviation "foot_ResourceOverrideList_ptr \<equiv>
  foot_ptr is_ROList the_ROList foot_ResourceOverrideList"

definition ResourceOverrideList_DeepCopy ::
  "pointer \<Rightarrow> cell heap \<Rightarrow> pointer \<times> cell heap" where
  "ResourceOverrideList_DeepCopy =
     copy_ptr is_ROList the_ROList ROListCell
       ResourceOverrideList_DeepCopyInto"

interpretation ResourceOverrideList_ptr:
  deep_copier view_ResourceOverrideList_ptr
    foot_ResourceOverrideList_ptr ResourceOverrideList_DeepCopy
  unfolding ResourceOverrideList_DeepCopy_def
  by (rule deep_copier_ptr)
    (simp_all add: ResourceOverrideList.deep_copier_axioms)

section \<open>DeepCopyObject\<close>

text \<open>
  A \<open>runtime.Object\<close> is nil or holds a pointer of a concrete type. Returning the nil pointer of
  \<open>DeepCopy\<close> would make a non-nil interface, which is why the code checks it first.
\<close>

datatype runtime_pointer = CROObject pointer | CROListObject pointer | ROObject pointer | ROListObject pointer

definition ClusterResourceOverride_DeepCopyObject ::
  "pointer \<Rightarrow> cell heap \<Rightarrow> runtime_pointer option \<times> cell heap" where
  "ClusterResourceOverride_DeepCopyObject p h =
     (let (c, h1) = ClusterResourceOverride_DeepCopy p h in (if c \<noteq> None then Some (CROObject c) else None, h1))"

definition ClusterResourceOverrideList_DeepCopyObject ::
  "pointer \<Rightarrow> cell heap \<Rightarrow> runtime_pointer option \<times> cell heap" where
  "ClusterResourceOverrideList_DeepCopyObject p h =
     (let (c, h1) = ClusterResourceOverrideList_DeepCopy p h in (if c \<noteq> None then Some (CROListObject c) else None, h1))"

definition ResourceOverride_DeepCopyObject ::
  "pointer \<Rightarrow> cell heap \<Rightarrow> runtime_pointer option \<times> cell heap" where
  "ResourceOverride_DeepCopyObject p h =
     (let (c, h1) = ResourceOverride_DeepCopy p h in (if c \<noteq> None then Some (ROObject c) else None, h1))"

definition ResourceOverrideList_DeepCopyObject ::
  "pointer \<Rightarrow> cell heap \<Rightarrow> runtime_pointer option \<times> cell heap" where
  "ResourceOverrideList_DeepCopyObject p h =
     (let (c, h1) = ResourceOverrideList_DeepCopy p h in (if c \<noteq> None then Some (ROListObject c) else None, h1))"

end
