(* ===== verification/DeepCopyFacts.thy ===== *)
theory DeepCopyFacts
  imports DeepCopy Conditions
begin

text \<open>
  What the deep copies mean for the controllers: the copy refines \<open>ClusterResourceOverride_copy\<close> of
  ApiTypes, on which the reconciler is built; and writing to a copy, as the status comparison of the
  condition builder does, leaves the object of the informer cache as it was.
\<close>

section \<open>The objects of ApiTypes that lie in the heap\<close>

definition contents :: "'a list option \<Rightarrow> 'a list" where
  "contents xs = (case xs of None \<Rightarrow> [] | Some ys \<Rightarrow> ys)"

definition owner_of :: "vOwnerReference \<Rightarrow> OwnerReference" where
  "owner_of r = \<lparr>or_APIVersion = gor_APIVersion r, or_Kind = gor_Kind r, or_Name = gor_Name r,
     or_UID = gor_UID r, or_BlockOwnerDeletion = gor_BlockOwnerDeletion r, or_Controller = gor_Controller r\<rparr>"

definition meta_of :: "vObjectMeta \<Rightarrow> ObjectMeta" where
  "meta_of m = \<lparr>om_Name = gm_Name m, om_Namespace = gm_Namespace m, om_UID = gm_UID m,
     om_ResourceVersion = gm_ResourceVersion m, om_Generation = gm_Generation m,
     om_Labels = contents (gm_Labels m), om_Annotations = contents (gm_Annotations m),
     om_OwnerReferences = map owner_of (contents (gm_OwnerReferences m))\<rparr>"

definition resources_of :: "vCROResources \<Rightarrow> ClusterResourceOverrideResources" where
  "resources_of r = \<lparr>ConfigurationRef = g_ConfigurationRef r, ServiceRef = g_ServiceRef r,
     DeploymentRef = g_DeploymentRef r, APiServiceRef = g_APiServiceRef r,
     MutatingWebhookConfigurationRef = g_MutatingWebhookConfigurationRef r,
     ValidatingAdmissionPolicyRef = g_ValidatingAdmissionPolicyRef r,
     ValidatingAdmissionPolicyBindingRef = g_ValidatingAdmissionPolicyBindingRef r\<rparr>"

definition status_of :: "vCROStatus \<Rightarrow> ClusterResourceOverrideStatus" where
  "status_of s = \<lparr>st_Resources = resources_of (gst_Resources s),
     st_HashConfiguration = hash_Configuration (gst_Hash s), st_Conditions = gst_Conditions s,
     st_Version = gst_Version s, st_Image = gst_Image s\<rparr>"

text \<open>The tolerations carry the addresses of their pointers, which \<open>%v\<close> prints.\<close>

definition api_Toleration :: "cell heap \<Rightarrow> hToleration \<Rightarrow> Toleration" where
  "api_Toleration h t = \<lparr>tol_Key = gt_Key t, tol_Operator = gt_Operator t, tol_Value = gt_Value t,
     tol_Effect = gt_Effect t, tol_TolerationSeconds =
       map_option (\<lambda>a. Ptr (word_of_nat a) (the (cell_get is_Int64 the_Int64 (cells h a))))
         (gt_TolerationSeconds t)\<rparr>"

definition api_tolerations :: "cell heap \<Rightarrow> slice_header \<Rightarrow> Toleration list" where
  "api_tolerations h s = (case s of
     None \<Rightarrow> []
   | Some r \<Rightarrow> map (api_Toleration h) (contents (slice_get is_Tolerations the_Tolerations (cells h (sl_array r)) r)))"

definition api_CRO :: "cell heap \<Rightarrow> hCRO \<Rightarrow> ClusterResourceOverride" where
  "api_CRO h x =
     (let v = the (view_ClusterResourceOverride h x); d = gs_DeploymentOverrides (gc_Spec v)
      in \<lparr>o_TypeMeta = gc_TypeMeta v, o_Meta = meta_of (gc_ObjectMeta v),
          cro_Spec = \<lparr>spec_PodResourceOverride = gs_PodResourceOverride (gc_Spec v),
            spec_DeploymentOverrides = \<lparr>do_NodeSelector = contents (gd_NodeSelector d),
              do_Tolerations = api_tolerations h (gd_Tolerations (gs_DeploymentOverrides (gc_Spec x))),
              do_Replicas = gd_Replicas d\<rparr>\<rparr>,
          cro_Status = status_of (gc_Status v)\<rparr>)"

section \<open>The copy of the tolerations\<close>

text \<open>The allocator of ApiTypes on the locations of the heap.\<close>

definition new_loc :: "loc \<Rightarrow> addr \<times> loc" where
  "new_loc a = (word_of_nat a, Suc a)"

lemma api_Toleration_local:
  "(\<And>a. a \<in> foot_Toleration h t \<Longrightarrow> cells h' a = cells h a) \<Longrightarrow> api_Toleration h' t = api_Toleration h t"
  by (cases "gt_TolerationSeconds t") (auto simp: api_Toleration_def foot_Toleration_def foot_ref_def)

lemma api_Toleration_extended:
  "extends h h' \<Longrightarrow> foot_Toleration h t \<subseteq> {..<lim h} \<Longrightarrow> api_Toleration h' t = api_Toleration h t"
  by (rule api_Toleration_local) (auto simp: extends_def)

lemma Toleration_copy_api:
  assumes "readable view_Toleration foot_Toleration h t"
  shows "DeepCopy_Tolerations new_loc [api_Toleration h t] (lim h)
    = ([api_Toleration (snd (Toleration_DeepCopyInto t h)) (fst (Toleration_DeepCopyInto t h))],
       lim (snd (Toleration_DeepCopyInto t h)))"
  using assms
  by (cases "gt_TolerationSeconds t")
    (auto simp: readable_def view_Toleration_def view_ref_def api_Toleration_def Toleration_DeepCopyInto_def
      copy_ref_def copy_plain_def new_loc_def cell_get_def reserve_def Let_def split: option.splits if_splits)

lemma DeepCopy_Tolerations_Cons:
  assumes "DeepCopy_Tolerations new [t] w = ([t'], w1)"
  shows "DeepCopy_Tolerations new (t # ts) w =
    (let (ts', w2) = DeepCopy_Tolerations new ts w1 in (t' # ts', w2))"
  using assms by (auto simp: Let_def split: prod.splits option.splits)

lemma copy_list_api:
  assumes "readable (view_list view_Toleration) (foot_list foot_Toleration) h ts"
  shows "DeepCopy_Tolerations new_loc (map (api_Toleration h) ts) (lim h)
    = (map (api_Toleration (snd (copy_list Toleration_DeepCopyInto ts h))) (fst (copy_list Toleration_DeepCopyInto ts h)),
       lim (snd (copy_list Toleration_DeepCopyInto ts h)))"
  using assms
proof (induction ts arbitrary: h)
  case Nil
  then show ?case by simp
next
  case (Cons t ts)
  then have r: "readable view_Toleration foot_Toleration h t"
      "readable (view_list view_Toleration) (foot_list foot_Toleration) h ts"
    by (auto simp: readable_def split: option.splits)
  define x1 where "x1 = Toleration_DeepCopyInto t h"
  define x2 where "x2 = copy_list Toleration_DeepCopyInto ts (snd x1)"
  note list_reader = heap_reader_list [OF Toleration.heap_reader_axioms]
  have c1: "copied view_Toleration foot_Toleration h t (snd x1) (fst x1)"
    using Toleration.copies [OF r(1)] by (simp add: x1_def)
  then have e1: "extends h (snd x1)" by (simp add: copied_def)
  have r1: "readable (view_list view_Toleration) (foot_list foot_Toleration) (snd x1) ts"
    using heap_reader.readable_extended [OF list_reader e1 r(2)] .
  have e2: "extends (snd x1) (snd x2)"
    using deep_copier.copies [OF deep_copier_list [OF Toleration.deep_copier_axioms] r1]
    by (simp add: x2_def copied_def)
  have "api_Toleration (snd x2) (fst x1) = api_Toleration (snd x1) (fst x1)"
    using c1 by (intro api_Toleration_extended [OF e2]) (auto simp: copied_def)
  moreover have "map (api_Toleration h) ts = map (api_Toleration (snd x1)) ts"
    using r(2) by (auto simp: readable_def foot_list_def intro!: api_Toleration_extended [OF e1, symmetric])
  ultimately have "DeepCopy_Tolerations new_loc (map (api_Toleration h) ts) (lim (snd x1))
      = (map (api_Toleration (snd x2)) (fst x2), lim (snd x2))"
    and "api_Toleration (snd x2) (fst x1) = api_Toleration (snd x1) (fst x1)"
    using Cons.IH [OF r1] unfolding x2_def by (simp_all only:)
  then have "DeepCopy_Tolerations new_loc (api_Toleration h t # map (api_Toleration h) ts) (lim h)
      = (map (api_Toleration (snd x2)) (fst x1 # fst x2), lim (snd x2))"
    unfolding DeepCopy_Tolerations_Cons [OF Toleration_copy_api [OF r(1)], folded x1_def] by simp
  then show ?case by (simp add: split_beta Let_def x1_def x2_def)
qed

lemma api_tolerations_local:
  assumes "\<And>a. a \<in> foot_tolerations h s \<Longrightarrow> cells h' a = cells h a"
  shows "api_tolerations h' s = api_tolerations h s"
proof (cases s)
  case (Some r)
  show ?thesis
  proof (cases "slice_get is_Tolerations the_Tolerations (cells h (sl_array r)) r")
    case None
    then show ?thesis using assms Some by (simp add: api_tolerations_def foot_ref_def contents_def)
  next
    fix ts assume ts: "slice_get is_Tolerations the_Tolerations (cells h (sl_array r)) r = Some ts"
    have "api_Toleration h' t = api_Toleration h t" if "t \<in> set ts" for t
      using assms that Some ts by (intro api_Toleration_local) (auto simp: foot_ref_def foot_list_def)
    then show ?thesis using assms Some ts by (simp add: api_tolerations_def contents_def foot_ref_def)
  qed
qed (simp add: api_tolerations_def)

lemma api_tolerations_extended:
  assumes "readable view_tolerations foot_tolerations h s" and "extends h h'"
  shows "api_tolerations h' s = api_tolerations h s"
  using assms by (intro api_tolerations_local) (auto simp: readable_def extends_def)

lemma copy_tolerations_api:
  assumes "readable view_tolerations foot_tolerations h s"
  shows "\<exists>w. api_tolerations (snd (copy_tolerations s h)) (fst (copy_tolerations s h))
    = fst (DeepCopy_Tolerations new_loc (api_tolerations h s) w)"
proof (cases s)
  case (Some r)
  with assms obtain ts where ts: "slice_get is_Tolerations the_Tolerations (cells h (sl_array r)) r = Some ts"
    and r: "readable (view_list view_Toleration) (foot_list foot_Toleration) h ts"
    by (auto simp: readable_def view_ref_def foot_ref_def split: option.splits)
  define h1 where "h1 = snd (reserve h)"
  note list_copier = deep_copier_list [OF Toleration.deep_copier_axioms]
  note list_reader = heap_reader_list [OF Toleration.heap_reader_axioms]
  have e: "extends h h1" by (simp add: h1_def)
  have r1: "readable (view_list view_Toleration) (foot_list foot_Toleration) h1 ts"
    using heap_reader.readable_extended [OF list_reader e r] .
  define z where "z = copy_list Toleration_DeepCopyInto ts h1"
  have cz: "copied (view_list view_Toleration) (foot_list foot_Toleration) h1 ts (snd z) (fst z)"
    using deep_copier.copies [OF list_copier r1] by (simp add: z_def)
  let ?h = "store (lim h) (TolerationArray (fst z)) (snd z)"
  have "api_Toleration ?h t = api_Toleration (snd z) t" if "t \<in> set (fst z)" for t
  proof -
    have "foot_Toleration (snd z) t \<subseteq> {Suc (lim h)..}"
      using cz that by (auto simp: copied_def foot_list_def h1_def)
    then show ?thesis
      by (cases "gt_TolerationSeconds t") (auto simp: api_Toleration_def foot_Toleration_def foot_ref_def)
  qed
  moreover have "map (api_Toleration h) ts = map (api_Toleration h1) ts"
    using r by (auto simp: readable_def foot_list_def intro!: api_Toleration_extended [OF e, symmetric])
  moreover have "copy_tolerations s h = (Some (whole (lim h) (fst z)), ?h)"
    using ts Some by (simp add: copy_ref_def split_beta Let_def z_def h1_def)
  ultimately have "api_tolerations (snd (copy_tolerations s h)) (fst (copy_tolerations s h))
      = map (api_Toleration (snd z)) (fst z)"
    and "api_tolerations h s = map (api_Toleration h1) ts"
    using ts Some by (simp_all add: api_tolerations_def whole_def slice_get_def cell_get_def contents_def)
  then show ?thesis using copy_list_api [OF r1] by (metis fst_conv z_def)
qed (simp add: api_tolerations_def copy_ref_def)

section \<open>The copy of the custom resource\<close>

lemmas readable_simps = readable_def view_pair_def foot_pair_def

lemma readable_ClusterResourceOverride:
  assumes "readable view_ClusterResourceOverride foot_ClusterResourceOverride h x"
  shows "readable view_ObjectMeta foot_ObjectMeta h (gc_ObjectMeta x)"
    and "readable view_ClusterResourceOverrideSpec foot_ClusterResourceOverrideSpec h (gc_Spec x)"
    and "readable view_ClusterResourceOverrideStatus foot_ClusterResourceOverrideStatus h (gc_Status x)"
  using assms
  by (auto simp: readable_simps view_ClusterResourceOverride_def foot_ClusterResourceOverride_def
      refs_ClusterResourceOverride_def split: option.splits)

lemma readable_DeploymentOverrides:
  assumes "readable view_DeploymentOverrides foot_DeploymentOverrides h x"
  shows "readable view_map foot_map h (gd_NodeSelector x)"
    and "readable view_tolerations foot_tolerations h (gd_Tolerations x)"
    and "readable view_int32 foot_int32 h (gd_Replicas x)"
  using assms
  by (auto simp: readable_simps view_DeploymentOverrides_def foot_DeploymentOverrides_def
      refs_DeploymentOverrides_def split: option.splits)

lemma readable_ClusterResourceOverrideSpec:
  "readable view_ClusterResourceOverrideSpec foot_ClusterResourceOverrideSpec h x \<longleftrightarrow>
   readable view_DeploymentOverrides foot_DeploymentOverrides h (gs_DeploymentOverrides x)"
  by (simp add: readable_def view_ClusterResourceOverrideSpec_def foot_ClusterResourceOverrideSpec_def)

text \<open>The tolerations of the copied spec, in the heap after the copy of the whole object.\<close>

lemma DeploymentOverrides_copy_api:
  assumes "readable view_DeploymentOverrides foot_DeploymentOverrides h d"
  defines "z \<equiv> DeploymentOverrides_DeepCopyInto d h"
  shows "\<exists>w. api_tolerations (snd z) (gd_Tolerations (fst z))
      = fst (DeepCopy_Tolerations new_loc (api_tolerations h (gd_Tolerations d)) w)"
    and "readable view_tolerations foot_tolerations (snd z) (gd_Tolerations (fst z))"
proof -
  note r = readable_DeploymentOverrides [OF assms(1)]
  define z1 where "z1 = copy_map (gd_NodeSelector d) h"
  define z2 where "z2 = copy_tolerations (gd_Tolerations d) (snd z1)"
  define z3 where "z3 = copy_int32 (gd_Replicas d) (snd z2)"
  have e1: "extends h (snd z1)" using map.copies [OF r(1)] by (simp add: z1_def copied_def)
  have r1: "readable view_tolerations foot_tolerations (snd z1) (gd_Tolerations d)"
    using tolerations.readable_extended [OF e1 r(2)] .
  have c2: "copied view_tolerations foot_tolerations (snd z1) (gd_Tolerations d) (snd z2) (fst z2)"
    using tolerations.copies [OF r1] by (simp add: z2_def)
  then have "extends h (snd z2)" using e1 extends_trans by (auto simp: copied_def)
  from int32.copies_later(2) [OF r(3) this] have e3: "extends (snd z2) (snd z3)" by (simp add: z3_def)
  have r2: "readable view_tolerations foot_tolerations (snd z2) (fst z2)"
    using tolerations.copied_readable [OF c2 r1] .
  have z: "snd z = snd z3" "gd_Tolerations (fst z) = fst z2"
    by (simp_all add: z_def DeploymentOverrides_DeepCopyInto_def split_beta Let_def z1_def z2_def z3_def)
  show "readable view_tolerations foot_tolerations (snd z) (gd_Tolerations (fst z))"
    using tolerations.readable_extended [OF e3 r2] by (simp add: z)
  show "\<exists>w. api_tolerations (snd z) (gd_Tolerations (fst z))
      = fst (DeepCopy_Tolerations new_loc (api_tolerations h (gd_Tolerations d)) w)"
    using copy_tolerations_api [OF r1] api_tolerations_extended [OF r2 e3] api_tolerations_extended [OF r(2) e1]
    by (simp add: z flip: z2_def)
qed

lemma ClusterResourceOverride_copy_api:
  assumes "readable view_ClusterResourceOverride foot_ClusterResourceOverride h x"
  defines "z \<equiv> ClusterResourceOverride_DeepCopyInto x h"
  shows "\<exists>w. api_CRO (snd z) (fst z) = fst (ClusterResourceOverride_copy new_loc (api_CRO h x) w)"
proof -
  note r = readable_ClusterResourceOverride [OF assms(1)]
  define z1 where "z1 = ObjectMeta_DeepCopyInto (gc_ObjectMeta x) h"
  define z2 where "z2 = ClusterResourceOverrideSpec_DeepCopyInto (gc_Spec x) (snd z1)"
  define z3 where "z3 = ClusterResourceOverrideStatus_DeepCopyInto (gc_Status x) (snd z2)"
  let ?d = "gs_DeploymentOverrides (gc_Spec x)"
  have e1: "extends h (snd z1)" using ObjectMeta.copies [OF r(1)] by (simp add: z1_def copied_def)
  from ClusterResourceOverrideSpec.copies_later(1) [OF r(2) this]
  have "extends h (snd z2)" by (simp add: z2_def copied_def)
  from ClusterResourceOverrideStatus.copies_later(2) [OF r(3) this]
  have e3: "extends (snd z2) (snd z3)" by (simp add: z3_def)
  have rd: "readable view_DeploymentOverrides foot_DeploymentOverrides h ?d"
    using r(2) by (simp add: readable_ClusterResourceOverrideSpec)
  note d = DeploymentOverrides_copy_api [OF DeploymentOverrides.readable_extended [OF e1 rd]]
  have z2: "snd z2 = snd (DeploymentOverrides_DeepCopyInto ?d (snd z1))"
      "gs_DeploymentOverrides (fst z2) = fst (DeploymentOverrides_DeepCopyInto ?d (snd z1))"
    by (simp_all add: z2_def ClusterResourceOverrideSpec_DeepCopyInto_def split_beta Let_def)
  have z: "snd z = snd z3" "gc_Spec (fst z) = fst z2"
    by (simp_all add: z_def ClusterResourceOverride_DeepCopyInto_def split_beta Let_def z1_def z2_def z3_def)
  have "api_tolerations (snd z1) (gd_Tolerations ?d) = api_tolerations h (gd_Tolerations ?d)"
    using api_tolerations_extended [OF readable_DeploymentOverrides(2) [OF rd] e1] .
  then obtain w where "api_tolerations (snd z) (gd_Tolerations (gs_DeploymentOverrides (gc_Spec (fst z))))
      = fst (DeepCopy_Tolerations new_loc (api_tolerations h (gd_Tolerations ?d)) w)"
    using d api_tolerations_extended [OF d(2) e3 [unfolded z2]] by (auto simp: z z2)
  moreover have "view_ClusterResourceOverride (snd z) (fst z) = view_ClusterResourceOverride h x"
    using ClusterResourceOverride.copies [OF assms(1)] by (simp add: z_def copied_def)
  ultimately have "api_CRO (snd z) (fst z) = fst (ClusterResourceOverride_copy new_loc (api_CRO h x) w)"
    by (simp add: api_CRO_def ClusterResourceOverride_copy_def Let_def split_beta)
  then show ?thesis ..
qed

definition CRO_at :: "cell heap \<Rightarrow> loc \<Rightarrow> ClusterResourceOverride" where
  "CRO_at h a = api_CRO h (the_CRO (the (cells h a)))"

lemma api_CRO_local:
  assumes "\<And>a. a \<in> foot_ClusterResourceOverride h x \<Longrightarrow> cells h' a = cells h a"
  shows "api_CRO h' x = api_CRO h x"
proof -
  have "foot_tolerations h (gd_Tolerations (gs_DeploymentOverrides (gc_Spec x))) \<subseteq> foot_ClusterResourceOverride h x"
    by (auto simp: foot_ClusterResourceOverride_def refs_ClusterResourceOverride_def foot_pair_def
        foot_ClusterResourceOverrideSpec_def foot_DeploymentOverrides_def refs_DeploymentOverrides_def)
  then have "api_tolerations h' (gd_Tolerations (gs_DeploymentOverrides (gc_Spec x)))
      = api_tolerations h (gd_Tolerations (gs_DeploymentOverrides (gc_Spec x)))"
    using assms by (intro api_tolerations_local) auto
  then show ?thesis
    using ClusterResourceOverride.reads_footprint [OF assms] by (simp add: api_CRO_def)
qed

lemma api_CRO_extended:
  "readable view_ClusterResourceOverride foot_ClusterResourceOverride h x \<Longrightarrow> extends h h'
   \<Longrightarrow> api_CRO h' x = api_CRO h x"
  by (rule api_CRO_local) (auto simp: readable_def extends_def)

lemma readable_CRO_ptr:
  assumes "readable view_ClusterResourceOverride_ptr foot_ClusterResourceOverride_ptr h (Some a)"
  obtains x where "cells h a = Some (CROCell x)" and "a < lim h"
    and "readable view_ClusterResourceOverride foot_ClusterResourceOverride h x"
  using assms
  by (auto simp: readable_def view_ref_def foot_ref_def cell_get_def is_CRO_def split: option.splits if_splits)

lemma DeepCopy_api:
  assumes r: "readable view_ClusterResourceOverride_ptr foot_ClusterResourceOverride_ptr h (Some a)"
  shows "\<exists>b h' w. ClusterResourceOverride_DeepCopy (Some a) h = (Some b, h') \<and> lim h \<le> b
    \<and> CRO_at h' b = fst (ClusterResourceOverride_copy new_loc (CRO_at h a) w) \<and> CRO_at h' a = CRO_at h a"
proof -
  obtain x where x: "cells h a = Some (CROCell x)" "a < lim h"
    and rx: "readable view_ClusterResourceOverride foot_ClusterResourceOverride h x"
    using readable_CRO_ptr [OF r] by metis
  define z where "z = ClusterResourceOverride_DeepCopyInto x (snd (reserve h))"
  let ?h = "store (lim h) (CROCell (fst z)) (snd z)"
  have rx1: "readable view_ClusterResourceOverride foot_ClusterResourceOverride (snd (reserve h)) x"
    using ClusterResourceOverride.readable_extended [OF extends_reserve(1) rx] .
  have cz: "copied view_ClusterResourceOverride foot_ClusterResourceOverride (snd (reserve h)) x (snd z) (fst z)"
    using ClusterResourceOverride.copies [OF rx1] by (simp add: z_def)
  have run: "ClusterResourceOverride_DeepCopy (Some a) h = (Some (lim h), ?h)"
    using x by (simp add: ClusterResourceOverride_DeepCopy_def copy_ref_def cell_get_def split_beta Let_def z_def)
  have ext: "extends h ?h"
    using ClusterResourceOverride_ptr.copies [OF r] run by (simp add: copied_def)
  txt \<open>Storing the struct does not touch what it refers to.\<close>
  have "api_CRO ?h (fst z) = api_CRO (snd z) (fst z)"
    using cz by (intro api_CRO_local) (auto simp: copied_def)
  moreover obtain w where "api_CRO (snd z) (fst z) = fst (ClusterResourceOverride_copy new_loc (api_CRO h x) w)"
    using ClusterResourceOverride_copy_api [OF rx1] api_CRO_extended [OF rx extends_reserve(1)]
    by (auto simp: z_def)
  moreover have "cells ?h a = cells h a" using ext x(2) by (simp add: extends_def)
  ultimately show ?thesis
    using run x api_CRO_extended [OF rx ext] by (auto simp: CRO_at_def)
qed

section \<open>Comparing statuses on a copy (condition/builder.go)\<close>

text \<open>
  \<open>for i := range copy.Conditions { copy.Conditions[i].LastTransitionTime = metav1.NewTime(time.Time{}) }\<close>
  writes through the slice of the copied status.
\<close>

definition set_transition_time :: "slice \<Rightarrow> nat \<Rightarrow> time \<Rightarrow> cell heap \<Rightarrow> cell heap" where
  "set_transition_time s i t h = (case cells h (sl_array s) of
     Some (CROConditionArray xs) \<Rightarrow>
       (let k = sl_offset s + i in store (sl_array s) (CROConditionArray (xs[k := (xs ! k)\<lparr>cond_LastTransitionTime := t\<rparr>])) h)
   | _ \<Rightarrow> h)"

definition reset_transition_times :: "slice_header \<Rightarrow> cell heap \<Rightarrow> cell heap" where
  "reset_transition_times conditions h = (case conditions of
     None \<Rightarrow> h
   | Some s \<Rightarrow> fold (\<lambda>i. set_transition_time s i zero_time) [0..<sl_len s] h)"

text \<open>A nil status panics at \<open>copy.Conditions\<close>.\<close>

definition heap_DeepCopyWithDefaultLastTransitionTime ::
  "pointer \<Rightarrow> cell heap \<Rightarrow> (pointer \<times> cell heap) outcome" where
  "heap_DeepCopyWithDefaultLastTransitionTime status h =
     (let (copy, h1) = ClusterResourceOverrideStatus_DeepCopy status h
      in case copy of
        None \<Rightarrow> Panicked
      | Some a \<Rightarrow> Returned (copy,
          reset_transition_times (gst_Conditions (the_CROStatus (the (cells h1 a)))) h1))"

definition status_at :: "cell heap \<Rightarrow> loc \<Rightarrow> ClusterResourceOverrideStatus" where
  "status_at h a = status_of (the (view_ClusterResourceOverrideStatus h (the_CROStatus (the (cells h a)))))"

abbreviation zero_transition where
  "zero_transition \<equiv> \<lambda>c. c\<lparr>cond_LastTransitionTime := zero_time\<rparr>"

lemma update_mapped_prefix:
  "n < length cs \<Longrightarrow>
   (map f (take n cs) @ drop n cs)[n := f ((map f (take n cs) @ drop n cs) ! n)] = map f (take (Suc n) cs) @ drop (Suc n) cs"
  by (rule nth_equalityI) (auto simp: nth_append nth_list_update)

lemma fold_set_transition_time:
  assumes "cells h l = Some (CROConditionArray cs)" and "n \<le> length cs"
  defines "h' \<equiv> fold (\<lambda>i. set_transition_time (whole l cs) i zero_time) [0..<n] h"
  shows "cells h' a = (if a = l then Some (CROConditionArray (map zero_transition (take n cs) @ drop n cs))
      else cells h a)"
  using assms(2) unfolding h'_def
proof (induction n arbitrary: a)
  case 0
  then show ?case using assms(1) by simp
next
  case (Suc n)
  then show ?case
    using update_mapped_prefix [of n cs zero_transition]
    by (simp add: set_transition_time_def whole_def Let_def)
qed

lemma reset_transition_times_whole:
  assumes "cells h l = Some (CROConditionArray cs)"
  shows "cells (reset_transition_times (Some (whole l cs)) h) a
    = (if a = l then Some (CROConditionArray (map zero_transition cs)) else cells h a)"
  using fold_set_transition_time [OF assms order_refl]
  by (simp add: reset_transition_times_def whole_def)

lemma copy_conditions_plain:
  "copy_list ClusterResourceOverrideCondition_DeepCopyInto cs h = (cs, h)"
  by (induction cs) (simp_all add: ClusterResourceOverrideCondition_DeepCopyInto_def Time_DeepCopyInto_def)

lemma view_list_plain: "view_list view_plain h xs = Some xs"
  by (induction xs) (simp_all add: view_plain_def)

text \<open>The copied status: its conditions are a whole new array, above everything else it refers to.\<close>

lemma Status_DeepCopyInto_conditions:
  assumes "readable view_ClusterResourceOverrideStatus foot_ClusterResourceOverrideStatus h x"
  defines "z \<equiv> ClusterResourceOverrideStatus_DeepCopyInto x h"
  obtains (nil) "gst_Conditions (fst z) = None"
  | (array) l cs where "gst_Conditions (fst z) = Some (whole l cs)" and "cells (snd z) l = Some (CROConditionArray cs)"
      and "lim h \<le> l"
      and "foot_ClusterResourceOverrideResources (snd z) (gst_Resources (fst z)) \<subseteq> {lim h..<l}"
proof -
  define z1 where "z1 = ClusterResourceOverrideResources_DeepCopyInto (gst_Resources x) h"
  have r: "readable view_ClusterResourceOverrideResources foot_ClusterResourceOverrideResources h (gst_Resources x)"
    and rc: "readable view_cro_conditions foot_cro_conditions h (gst_Conditions x)"
    using assms(1)
    by (auto simp: readable_simps view_ClusterResourceOverrideStatus_def foot_ClusterResourceOverrideStatus_def
        refs_ClusterResourceOverrideStatus_def split: option.splits)
  have c1: "copied view_ClusterResourceOverrideResources foot_ClusterResourceOverrideResources h (gst_Resources x)
      (snd z1) (fst z1)"
    using ClusterResourceOverrideResources.copies [OF r] by (simp add: z1_def)
  then have e1: "extends h (snd z1)" by (simp add: copied_def)
  note e2 = cro_conditions.copies_later(2) [OF rc e1]
  have z: "snd z = snd (copy_cro_conditions (gst_Conditions x) (snd z1))"
      "gst_Conditions (fst z) = fst (copy_cro_conditions (gst_Conditions x) (snd z1))"
      "gst_Resources (fst z) = fst z1"
    by (simp_all add: z_def ClusterResourceOverrideStatus_DeepCopyInto_def split_beta Let_def z1_def)
  have foot: "foot_ClusterResourceOverrideResources (snd z) (gst_Resources (fst z)) \<subseteq> {lim h..<lim (snd z1)}"
  proof -
    have "foot_ClusterResourceOverrideResources (snd z1) (fst z1) \<subseteq> {..<lim (snd z1)}"
      using c1 by (auto simp: copied_def)
    from ClusterResourceOverrideResources.reads_extended(2) [OF e2 this]
    show ?thesis using c1 by (simp add: z copied_def)
  qed
  show thesis
  proof (cases "gst_Conditions x")
    case None
    then show thesis by (intro nil) (simp add: z copy_ref_def)
  next
    case (Some s)
    obtain cs where cs: "slice_get is_CROConditions the_CROConditions (cells (snd z1) (sl_array s)) s = Some cs"
      using cro_conditions.readable_extended [OF e1 rc] Some
      by (auto simp: readable_def view_ref_def split: option.splits)
    then show thesis
      using Some foot e1
      by (intro array [of "lim (snd z1)" cs])
        (simp_all add: z copy_ref_def copy_conditions_plain reserve_def extends_def)
  qed
qed

lemma status_of_conditions:
  "status_of (v\<lparr>gst_Conditions := map_option (map zero_transition) (gst_Conditions v)\<rparr>)
    = DeepCopyWithDefaultLastTransitionTime (status_of v)"
  by (simp add: status_of_def DeepCopyWithDefaultLastTransitionTime_def)

lemma view_Status_reset:
  assumes v: "view_ClusterResourceOverrideStatus h x = Some v"
    and "gst_Conditions x = Some (whole l cs)" and "cells h l = Some (CROConditionArray cs)"
    and "l \<notin> foot_ClusterResourceOverrideResources h (gst_Resources x)"
  shows "view_ClusterResourceOverrideStatus (reset_transition_times (gst_Conditions x) h) x
    = Some (v\<lparr>gst_Conditions := map_option (map zero_transition) (gst_Conditions v)\<rparr>)"
proof -
  let ?h = "reset_transition_times (gst_Conditions x) h"
  note reset = reset_transition_times_whole [OF assms(3)]
  have "view_ClusterResourceOverrideResources ?h (gst_Resources x) = view_ClusterResourceOverrideResources h (gst_Resources x)"
    using assms(2,4) reset
    by (intro ClusterResourceOverrideResources.reads_footprint [THEN conjunct1]) auto
  moreover have "view_cro_conditions ?h (gst_Conditions x) = Some (Some (map zero_transition cs))"
    and "view_cro_conditions h (gst_Conditions x) = Some (Some cs)"
    using assms(2,3) reset
    by (simp_all add: view_ref_def slice_get_def cell_get_def whole_def view_list_plain)
  ultimately show ?thesis
    using v by (auto simp: view_ClusterResourceOverrideStatus_def refs_ClusterResourceOverrideStatus_def
        view_pair_def value_ClusterResourceOverrideStatus_def split: option.splits)
qed

lemma reset_transition_times_lim: "lim (reset_transition_times conditions h) = lim h"
proof -
  have step: "lim (set_transition_time s i t h) = lim h" for s i t h
    by (simp add: set_transition_time_def Let_def split: option.split cell.split)
  have "lim (fold (\<lambda>i. set_transition_time s i t) is h) = lim h" for s "is" t h
    by (induction "is" arbitrary: h) (simp_all add: step)
  then show ?thesis by (simp add: reset_transition_times_def split: option.split)
qed

text \<open>
  The comparison copy has the conditions with the zero time, and the status it was made from is read
  as before.
\<close>

lemma Status_comparison_copy:
  assumes r: "readable view_ClusterResourceOverrideStatus_ptr foot_ClusterResourceOverrideStatus_ptr h (Some a)"
  shows "\<exists>b h'. heap_DeepCopyWithDefaultLastTransitionTime (Some a) h = Returned (Some b, h')
    \<and> status_at h' b = DeepCopyWithDefaultLastTransitionTime (status_at h a) \<and> status_at h' a = status_at h a"
proof -
  obtain x v where x: "cells h a = Some (CROStatusCell x)" "a < lim h"
    and rx: "readable view_ClusterResourceOverrideStatus foot_ClusterResourceOverrideStatus h x"
    and v: "view_ClusterResourceOverrideStatus h x = Some v"
    using r by (auto simp: readable_def view_ref_def foot_ref_def cell_get_def is_CROStatus_def
        split: option.splits if_splits)
  define z where "z = ClusterResourceOverrideStatus_DeepCopyInto x (snd (reserve h))"
  define h1 where "h1 = store (lim h) (CROStatusCell (fst z)) (snd z)"
  define h' where "h' = reset_transition_times (gst_Conditions (fst z)) h1"
  note rx1 = ClusterResourceOverrideStatus.readable_extended [OF extends_reserve(1) rx]
  have cz: "copied view_ClusterResourceOverrideStatus foot_ClusterResourceOverrideStatus (snd (reserve h)) x (snd z) (fst z)"
    using ClusterResourceOverrideStatus.copies [OF rx1] by (simp add: z_def)
  have run: "ClusterResourceOverrideStatus_DeepCopy (Some a) h = (Some (lim h), h1)"
    using x by (simp add: ClusterResourceOverrideStatus_DeepCopy_def copy_ref_def cell_get_def split_beta
        Let_def z_def h1_def)
  then have ext: "extends h h1" and h1_new: "cells h1 (lim h) = Some (CROStatusCell (fst z))"
    using ClusterResourceOverrideStatus_ptr.copies [OF r] by (simp_all add: copied_def h1_def)
  have other: "lim h \<notin> foot_ClusterResourceOverrideStatus (snd z) (fst z)"
    using cz by (auto simp: copied_def)
  then have view1: "view_ClusterResourceOverrideStatus h1 (fst z) = Some v"
    using ClusterResourceOverrideStatus.reads_other_store [OF other] cz v
      ClusterResourceOverrideStatus.reads_extended(1) [OF extends_reserve(1)] rx
    by (simp add: h1_def copied_def readable_def)
  have "view_ClusterResourceOverrideStatus h' (fst z)
      = Some (v\<lparr>gst_Conditions := map_option (map zero_transition) (gst_Conditions v)\<rparr>)
    \<and> extends h h' \<and> cells h' (lim h) = Some (CROStatusCell (fst z))"
  proof (cases rule: Status_DeepCopyInto_conditions [OF rx1, folded z_def, case_names nil array])
    case nil
    then have "gst_Conditions v = None"
      using view1 by (auto simp: view_ClusterResourceOverrideStatus_def refs_ClusterResourceOverrideStatus_def
          view_pair_def value_ClusterResourceOverrideStatus_def view_ref_def split: option.splits)
    then show ?thesis using nil view1 ext h1_new by (simp add: h'_def reset_transition_times_def)
  next
    case (array l cs)
    then have l: "cells h1 l = Some (CROConditionArray cs)" "lim h < l" by (simp_all add: h1_def)
    have "lim h \<notin> foot_ClusterResourceOverrideResources (snd z) (gst_Resources (fst z))"
      using array by auto
    from ClusterResourceOverrideResources.reads_other_store [OF this, of "CROStatusCell (fst z)"] array
    have "l \<notin> foot_ClusterResourceOverrideResources h1 (gst_Resources (fst z))" by (auto simp: h1_def)
    from view_Status_reset [OF view1 array(1) l(1) this] show ?thesis
      using ext h1_new l(2) reset_transition_times_whole [OF l(1)]
      by (simp add: h'_def array(1) extends_def reset_transition_times_lim)
  qed
  then have "view_ClusterResourceOverrideStatus h' (fst z)
      = Some (v\<lparr>gst_Conditions := map_option (map zero_transition) (gst_Conditions v)\<rparr>)"
    and "extends h h'" and "cells h' (lim h) = Some (CROStatusCell (fst z))" by simp_all
  moreover have "cells h' a = cells h a" using x(2) calculation(2) by (simp add: extends_def)
  moreover have "view_ClusterResourceOverrideStatus h' x = Some v"
    using ClusterResourceOverrideStatus.reads_extended(1) [OF calculation(2)] rx v by (simp add: readable_def)
  ultimately show ?thesis
    using run x v h1_new
    by (auto simp: heap_DeepCopyWithDefaultLastTransitionTime_def status_at_def status_of_conditions h'_def)
qed

end
