(* ===== verification/ExampleHeap.thy ===== *)
theory ExampleHeap
  imports DeepCopyFacts
begin

text \<open>
  A heap with one ClusterResourceOverride and one status, as the informer cache may hold them: a node
  selector, a toleration with seconds, an object reference and a condition. The witnesses of the
  properties about deep copies use it.
\<close>

definition ex_hMeta :: hObjectMeta where
  "ex_hMeta = \<lparr>gm_Name = ''cluster'', gm_GenerateName = [], gm_Namespace = [], gm_SelfLink = [],
     gm_UID = ''uid'', gm_ResourceVersion = ''7'', gm_Generation = 1, gm_CreationTimestamp = 5,
     gm_DeletionTimestamp = None, gm_DeletionGracePeriodSeconds = None, gm_Labels = Some 1,
     gm_Annotations = None, gm_OwnerReferences = None, gm_Finalizers = None, gm_ManagedFields = None\<rparr>"

definition ex_hStatus :: hCROStatus where
  "ex_hStatus = \<lparr>gst_Resources = \<lparr>g_ConfigurationRef = Some 5, g_ServiceRef = None, g_DeploymentRef = None,
       g_APiServiceRef = None, g_MutatingWebhookConfigurationRef = None, g_ValidatingAdmissionPolicyRef = None,
       g_ValidatingAdmissionPolicyBindingRef = None\<rparr>,
     gst_Hash = \<lparr>hash_Configuration = ''h''\<rparr>,
     gst_Conditions = Some \<lparr>sl_array = 4, sl_offset = 0, sl_len = 1\<rparr>, gst_Version = ''v1'', gst_Image = ''img''\<rparr>"

definition ex_hCRO :: hCRO where
  "ex_hCRO = \<lparr>gc_TypeMeta = empty_TypeMeta, gc_ObjectMeta = ex_hMeta,
     gc_Spec = \<lparr>gs_PodResourceOverride = \<lparr>pro_TypeMeta = empty_TypeMeta, pro_Spec =
         \<lparr>ForceSelinuxRelabel = False, LimitCPUToMemoryPercent = 200, CPURequestToLimitPercent = 25,
          MemoryRequestToLimitPercent = 50, CPURequestToRequestPercent = 0\<rparr>\<rparr>,
       gs_DeploymentOverrides = \<lparr>gd_NodeSelector = Some 1,
         gd_Tolerations = Some \<lparr>sl_array = 2, sl_offset = 0, sl_len = 1\<rparr>, gd_Replicas = None\<rparr>\<rparr>,
     gc_Status = ex_hStatus\<rparr>"

definition ex_hCondition :: ClusterResourceOverrideCondition where
  "ex_hCondition = \<lparr>cond_Type = Available, cond_Status = ConditionTrue, cond_Reason = [], cond_Message = [],
     cond_LastTransitionTime = 9\<rparr>"

definition ex_heap :: "cell heap" where
  "ex_heap = \<lparr>cells = Map.empty (0 \<mapsto> CROCell ex_hCRO, 1 \<mapsto> MapCell [(''key'', ''value'')],
     2 \<mapsto> TolerationArray [\<lparr>gt_Key = ''k'', gt_Operator = ''Exists'', gt_Value = [], gt_Effect = ''NoExecute'',
       gt_TolerationSeconds = Some 3\<rparr>],
     3 \<mapsto> Int64Cell 60, 4 \<mapsto> CROConditionArray [ex_hCondition],
     5 \<mapsto> ObjectReferenceCell \<lparr>ref_Kind = ''ConfigMap'', ref_APIVersion = ''v1'', ref_Name = ''cm'',
       ref_Namespace = ''ns'', ref_UID = [], ref_ResourceVersion = []\<rparr>, 6 \<mapsto> CROStatusCell ex_hStatus), lim = 7\<rparr>"

lemmas view_defs = view_pair_def view_ref_def slice_get_def cell_get_def view_plain_def view_entries_def
  view_ClusterResourceOverride_def refs_ClusterResourceOverride_def view_ObjectMeta_def refs_ObjectMeta_def
  view_ClusterResourceOverrideSpec_def view_DeploymentOverrides_def refs_DeploymentOverrides_def
  view_Toleration_def view_ClusterResourceOverrideStatus_def refs_ClusterResourceOverrideStatus_def
  view_ClusterResourceOverrideResources_def refs_ClusterResourceOverrideResources_def

lemmas foot_defs = foot_pair_def foot_ref_def foot_plain_def foot_ClusterResourceOverride_def foot_ObjectMeta_def
  foot_ClusterResourceOverrideSpec_def foot_DeploymentOverrides_def foot_Toleration_def
  foot_ClusterResourceOverrideStatus_def foot_ClusterResourceOverrideResources_def

lemma ex_heap_status: "readable view_ClusterResourceOverrideStatus foot_ClusterResourceOverrideStatus ex_heap ex_hStatus"
  by (simp add: readable_def view_defs foot_defs ex_heap_def ex_hStatus_def)

lemma ex_heap_CRO: "readable view_ClusterResourceOverride foot_ClusterResourceOverride ex_heap ex_hCRO"
  using ex_heap_status
  by (simp add: readable_def view_defs foot_defs ex_heap_def ex_hCRO_def ex_hMeta_def go_map_wf_def ex_hStatus_def)

lemma ex_heap_readable:
  "readable view_ClusterResourceOverride_ptr foot_ClusterResourceOverride_ptr ex_heap (Some 0)"
  "readable view_ClusterResourceOverrideStatus_ptr foot_ClusterResourceOverrideStatus_ptr ex_heap (Some 6)"
  using ex_heap_CRO ex_heap_status
  by (simp_all add: readable_def view_ref_def foot_ref_def cell_get_def ex_heap_def)

end
