(* ===== verification/ExampleClients.thy ===== *)
theory ExampleClients
  imports Controllers ExampleCluster ExampleHeap
begin

text \<open>
  Clients and informers for the witnesses: a REST library whose every step succeeds, with integers for
  the queries per second, a configuration, and a factory that runs one informer.
\<close>

definition ex_rest_lib :: "(int, unit, unit) rest_lib" where
  "ex_rest_lib = \<lparr>DefaultKubernetesUserAgent = ''operator'', HTTPClientFor = (\<lambda>c. Inr ()),
     DefaultServerUrlFor = (\<lambda>c. Inr (cfg_Host c)), DefaultQPS = 5,
     NewDiscoveryClientForConfigAndClient = (\<lambda>c h. Inr ())\<rparr>"

definition ex_config :: "int Config" where
  "ex_config = \<lparr>cfg_Host = ''https://kube'', cfg_UserAgent = [], cfg_QPS = 0, cfg_Burst = 0, cfg_RateLimiter = None,
     cfg_GroupVersion = None, cfg_APIPath = [], cfg_NegotiatedSerializer = None\<rparr>"

lemma ex_clientset: "\<exists>cs. Clientset_NewForConfig ex_rest_lib ex_config = Inr cs"
  by (simp add: Clientset_NewForConfig_def Clientset_NewForConfigAndClient_def ex_rest_lib_def ex_config_def
      default_UserAgent_def operatorv1_NewForConfigAndClient_def autoscalingv1_NewForConfigAndClient_def
      operatorv1_setConfigDefaults_def autoscalingv1_setConfigDefaults_def RESTClientForConfigAndClient_def Let_def)

definition ex_factory :: "(unit, unit) sharedInformerFactory" where
  "ex_factory = NewSharedInformerFactoryWithOptions () 0 [WithNamespace ''ns'']"

definition ex_started :: "(unit, unit) sharedInformerFactory" where
  "ex_started = StartWithContext (snd (ro_Informer (group_V1 (factory_group ex_factory)) ex_factory))"

lemma ex_started_reachable:
  "factory_reachable (NewSharedInformerFactoryWithOptions () 0 [WithNamespace ''ns'']) ex_started"
  unfolding ex_started_def ro_Informer_def ex_factory_def
  by (intro factory_reachable.start factory_reachable.informer factory_reachable.new)

lemma ex_started_simps:
  "f_running ex_started = [ro_type]" "informer_types ex_started = [ro_type]" "\<not> f_shuttingDown ex_started"
  by (simp_all add: ex_started_def ex_factory_def ro_Informer_def InformerFor_def
      NewSharedInformerFactoryWithOptions_def WithNamespace_def StartWithContext_def Let_def)

end
