(* ===== verification/ExampleJson.thy ===== *)
theory ExampleJson
  imports World
begin

text \<open>
  A text form of JSON values that can be read back, for the concrete cluster of \<open>ExampleStore\<close>. It is not
  the JSON syntax: a string is written with a mark before each character, a number in unary.
\<close>

section \<open>Writing\<close>

fun put_string :: "string \<Rightarrow> string \<Rightarrow> string" where
  "put_string [] r = CHR '';'' # r"
| "put_string (c # s) r = CHR ''.'' # c # put_string s r"

definition int_string :: "int \<Rightarrow> string" where
  "int_string i = (if i < 0 then ''-'' else ''+'') @ replicate (nat \<bar>i\<bar>) CHR ''1''"

fun put_json :: "json \<Rightarrow> string \<Rightarrow> string"
  and put_list :: "json list \<Rightarrow> string \<Rightarrow> string"
  and put_object :: "(string \<times> json) list \<Rightarrow> string \<Rightarrow> string" where
  "put_json JNull r = CHR ''n'' # r"
| "put_json (JBool b) r = (if b then CHR ''t'' else CHR ''f'') # r"
| "put_json (JInt i) r = CHR ''i'' # put_string (int_string i) r"
| "put_json (JFloat s) r = CHR ''d'' # put_string s r"
| "put_json (JString s) r = CHR ''s'' # put_string s r"
| "put_json (JList l) r = CHR ''l'' # put_list l r"
| "put_json (JObject m) r = CHR ''o'' # put_object m r"
| "put_list [] r = CHR '';'' # r"
| "put_list (x # l) r = CHR '','' # put_json x (put_list l r)"
| "put_object [] r = CHR '';'' # r"
| "put_object ((k, x) # m) r = CHR '','' # put_string k (put_json x (put_object m r))"

section \<open>Reading\<close>

fun take_string :: "string \<Rightarrow> string \<times> string" where
  "take_string [] = ([], [])"
| "take_string [d] = ([], [])"
| "take_string (d # c # r) = (if d = CHR ''.'' then (let (s, q) = take_string r in (c # s, q)) else ([], c # r))"

fun string_int :: "string \<Rightarrow> int" where
  "string_int [] = 0"
| "string_int (c # s) = (if c = CHR ''-'' then - int (length s) else int (length s))"

fun take_json :: "nat \<Rightarrow> string \<Rightarrow> json \<times> string"
  and take_list :: "nat \<Rightarrow> string \<Rightarrow> json list \<times> string"
  and take_object :: "nat \<Rightarrow> string \<Rightarrow> (string \<times> json) list \<times> string" where
  "take_json 0 s = (JNull, s)"
| "take_json (Suc n) [] = (JNull, [])"
| "take_json (Suc n) (t # r) =
     (if t = CHR ''n'' then (JNull, r)
      else if t = CHR ''t'' then (JBool True, r)
      else if t = CHR ''f'' then (JBool False, r)
      else if t = CHR ''i'' then (let (s, q) = take_string r in (JInt (string_int s), q))
      else if t = CHR ''d'' then (let (s, q) = take_string r in (JFloat s, q))
      else if t = CHR ''s'' then (let (s, q) = take_string r in (JString s, q))
      else if t = CHR ''l'' then (let (l, q) = take_list n r in (JList l, q))
      else (let (m, q) = take_object n r in (JObject m, q)))"
| "take_list 0 s = ([], s)"
| "take_list (Suc n) [] = ([], [])"
| "take_list (Suc n) (t # r) = (if t = CHR '';'' then ([], r)
     else (let (x, q) = take_json n r; (l, q') = take_list n q in (x # l, q')))"
| "take_object 0 s = ([], s)"
| "take_object (Suc n) [] = ([], [])"
| "take_object (Suc n) (t # r) = (if t = CHR '';'' then ([], r)
     else (let (k, p) = take_string r; (x, q) = take_json n p; (m, q') = take_object n q in ((k, x) # m, q')))"

section \<open>What was written is read back\<close>

lemma take_put_string [simp]: "take_string (put_string s r) = (s, r)"
proof (induction s)
  case Nil
  show ?case by (cases r) simp_all
qed simp

lemma string_int_string [simp]: "string_int (int_string i) = i"
  by (simp add: int_string_def)

text \<open>The depth of the recursion that reads a value.\<close>

fun need_json :: "json \<Rightarrow> nat" and need_list :: "json list \<Rightarrow> nat" and need_object :: "(string \<times> json) list \<Rightarrow> nat" where
  "need_json JNull = 1"
| "need_json (JBool b) = 1"
| "need_json (JInt i) = 1"
| "need_json (JFloat s) = 1"
| "need_json (JString s) = 1"
| "need_json (JList l) = Suc (need_list l)"
| "need_json (JObject m) = Suc (need_object m)"
| "need_list [] = 1"
| "need_list (x # l) = Suc (max (need_json x) (need_list l))"
| "need_object [] = 1"
| "need_object ((k, x) # m) = Suc (max (need_json x) (need_object m))"

lemma put_string_length: "length r \<le> length (put_string s r)"
  by (induction s) auto

lemma need_put:
  "need_json j + length r \<le> length (put_json j r)"
  "need_list l + length r \<le> length (put_list l r)"
  "need_object m + length r \<le> length (put_object m r)"
proof (induction j r and l r and m r rule: put_json_put_list_put_object.induct)
  case (11 k x m r)
  with put_string_length [of "put_json x (put_object m r)" k] show ?case by simp
qed (use put_string_length in \<open>simp_all add: le_SucI\<close>)

lemma take_put:
  "need_json j \<le> n \<Longrightarrow> take_json n (put_json j r) = (j, r)"
  "need_list l \<le> n \<Longrightarrow> take_list n (put_list l r) = (l, r)"
  "need_object m \<le> n \<Longrightarrow> take_object n (put_object m r) = (m, r)"
proof (induction j r and l r and m r arbitrary: n and n and n rule: put_json_put_list_put_object.induct)
qed (case_tac [!] n; simp)+

definition print_object :: "(string \<times> json) list \<Rightarrow> string" where
  "print_object m = put_object m []"

definition parse_object :: "string \<Rightarrow> (string \<times> json) list" where
  "parse_object s = fst (take_object (length s) s)"

lemma parse_print [simp]: "parse_object (print_object m) = m"
  using take_put(3) [OF order_trans [OF _ need_put(3)], of m m "[]" "[]"] by (simp add: parse_object_def print_object_def)

lemma print_object_nonempty [simp]: "print_object m \<noteq> []"
  by (cases m) (auto simp: print_object_def)

end
