(* ===== verification/Cluster.thy ===== *)
theory Cluster
  imports Rollout
begin

text \<open>
  A cluster that stores what the operator writes and answers what is stored: the documented behaviour of
  the API server and of the object converter, as predicates on the parameters \<open>'w api\<close> and \<open>lib\<close>. The stored
  objects are unstructured; \<open>view\<close> reads them off a world. Nothing is said about the fields a server adds
  to an object, about the time a call takes, or that a call succeeds.

  Then what the typed ensurers leave in such a cluster.
\<close>

section \<open>What is stored\<close>

type_synonym object_id = "string \<times> string \<times> string"

record cluster =
  cl_objects :: "object_id \<Rightarrow> Unstructured option"
  cl_resource :: "string \<Rightarrow> ClusterResourceOverride option"

definition cl_put :: "object_id \<Rightarrow> Unstructured \<Rightarrow> cluster \<Rightarrow> cluster" where
  "cl_put i u K = K\<lparr>cl_objects := (cl_objects K)(i \<mapsto> u)\<rparr>"

definition cl_drop :: "object_id \<Rightarrow> cluster \<Rightarrow> cluster" where
  "cl_drop i K = K\<lparr>cl_objects := (cl_objects K)(i := None)\<rparr>"

definition cl_set_resource :: "string \<Rightarrow> ClusterResourceOverride \<Rightarrow> cluster \<Rightarrow> cluster" where
  "cl_set_resource n c K = K\<lparr>cl_resource := (cl_resource K)(n \<mapsto> c)\<rparr>"

text \<open>The two parts of an object's metadata that the operator reads back.\<close>

definition u_annotation :: "Unstructured \<Rightarrow> string \<Rightarrow> string option" where
  "u_annotation u k = (case NestedField (JObject u) [''metadata'', ''annotations'', k] of
     Inr (Some (JString v)) \<Rightarrow> Some v | _ \<Rightarrow> None)"

definition u_owners :: "Unstructured \<Rightarrow> json option" where
  "u_owners u = (case NestedField (JObject u) [''metadata'', ''ownerReferences''] of Inl e \<Rightarrow> None | Inr x \<Rightarrow> x)"

text \<open>A stored object carries the annotations and the owners of the object that was sent.\<close>

definition carries :: "Unstructured \<Rightarrow> Unstructured \<Rightarrow> bool" where
  "carries m c \<longleftrightarrow> (\<forall>k v. u_annotation m k = Some v \<longrightarrow> u_annotation c k = Some v)
     \<and> (u_owners m \<noteq> None \<longrightarrow> u_owners c = u_owners m)"

section \<open>Documented behaviour\<close>

text \<open>The converter between typed and unstructured objects keeps names, annotations and owners.\<close>

definition converts :: "lib \<Rightarrow> bool" where
  "converts L \<longleftrightarrow>
     (\<forall>x u. lib_ToUnstructured L x = Inr u \<longrightarrow>
        u_GetName u = om_Name (runtime_Meta x) \<and> u_GetNamespace u = om_Namespace (runtime_Meta x)
        \<and> (\<forall>k v. map_of (om_Annotations (runtime_Meta x)) k = Some v \<longrightarrow> u_annotation u k = Some v)
        \<and> (om_OwnerReferences (runtime_Meta x) \<noteq> [] \<longrightarrow> u_owners u \<noteq> None))
     \<and> (\<forall>u d k v. lib_AsDeployment L u = Inr d \<and> u_annotation u k = Some v \<longrightarrow>
          go_get (om_Annotations (o_Meta d)) k = v)
     \<and> (\<forall>a u c b. lib_ToUnstructured L (RtAPIService a) = Inr u \<and> om_OwnerReferences (o_Meta a) \<noteq> []
          \<and> u_owners c = u_owners u \<and> lib_AsAPIService L c = Inr b \<longrightarrow>
          om_OwnerReferences (o_Meta b) = om_OwnerReferences (o_Meta a))"

lemma convertsD:
  assumes "converts L"
  shows "lib_ToUnstructured L x = Inr u \<Longrightarrow> u_GetName u = om_Name (runtime_Meta x)"
    and "lib_ToUnstructured L x = Inr u \<Longrightarrow> u_GetNamespace u = om_Namespace (runtime_Meta x)"
    and "lib_ToUnstructured L x = Inr u \<Longrightarrow> map_of (om_Annotations (runtime_Meta x)) k = Some v \<Longrightarrow> u_annotation u k = Some v"
    and "lib_ToUnstructured L x = Inr u \<Longrightarrow> om_OwnerReferences (runtime_Meta x) \<noteq> [] \<Longrightarrow> u_owners u \<noteq> None"
    and "lib_AsDeployment L c = Inr d \<Longrightarrow> u_annotation c k = Some v \<Longrightarrow> go_get (om_Annotations (o_Meta d)) k = v"
    and "lib_ToUnstructured L (RtAPIService a) = Inr u \<Longrightarrow> om_OwnerReferences (o_Meta a) \<noteq> [] \<Longrightarrow>
      u_owners c = u_owners u \<Longrightarrow> lib_AsAPIService L c = Inr b \<Longrightarrow> om_OwnerReferences (o_Meta b) = om_OwnerReferences (o_Meta a)"
  using assms [unfolded converts_def, THEN conjunct1, THEN spec [of _ x], THEN spec [of _ u]]
    assms [unfolded converts_def, THEN conjunct2, THEN conjunct1, THEN spec [of _ c], THEN spec [of _ d]]
    assms [unfolded converts_def, THEN conjunct2, THEN conjunct2, THEN spec [of _ a], THEN spec [of _ u],
      THEN spec [of _ c], THEN spec [of _ b]]
  by simp_all

text \<open>A typed client answers an object without its kind and version.\<close>

definition kindless :: "'x Object_scheme \<Rightarrow> 'x Object_scheme" where
  "kindless x = x\<lparr>o_TypeMeta := empty_TypeMeta\<rparr>"

definition typed :: "(Unstructured \<Rightarrow> error + 'x Object_scheme) \<Rightarrow> Unstructured \<Rightarrow> error + 'x Object_scheme" where
  "typed dec u = map_sum id kindless (dec u)"

lemma kindless_fields [simp]:
  "o_Meta (kindless x) = o_Meta x" "dep_Status (kindless d) = dep_Status d" "kindless (kindless x) = kindless x"
  "om_Name (o_Meta (kindless y)) = om_Name (o_Meta y)"
  "GetDeploymentStatus (kindless d) g = GetDeploymentStatus d g" "ref_in_sync ref (kindless x) = ref_in_sync ref x"
  "not_owned_by (kindless a) c = not_owned_by a c"
  by (simp_all add: kindless_def GetDeploymentStatus_def ref_in_sync_def not_owned_by_def split: option.split)

lemma typed_Inr [simp]: "typed dec u = Inr x \<longleftrightarrow> (\<exists>y. dec u = Inr y \<and> x = kindless y)"
  by (cases "dec u") (auto simp: typed_def)

lemma typed_decoded [simp]: "dec u = Inr y \<Longrightarrow> typed dec u = Inr (kindless y)"
  by simp

text \<open>A read answers the stored object, decoded, or that it is not found, and changes nothing.\<close>

definition reads :: "('w \<Rightarrow> cluster) \<Rightarrow> ('w \<Rightarrow> (error + 'x) \<times> 'w) \<Rightarrow> (Unstructured \<Rightarrow> error + 'x) \<Rightarrow> object_id \<Rightarrow> bool" where
  "reads view get dec i \<longleftrightarrow> (\<forall>w. view (snd (get w)) = view w
     \<and> (case cl_objects (view w) i of
          None \<Rightarrow> (case fst (get w) of Inl e \<Rightarrow> IsNotFound e | Inr x \<Rightarrow> False)
        | Some u \<Rightarrow> fst (get w) = dec u))"

definition keeps :: "('w \<Rightarrow> cluster) \<Rightarrow> ('w \<Rightarrow> 'r \<times> 'w) \<Rightarrow> bool" where
  "keeps view f \<longleftrightarrow> (\<forall>w. view (snd (f w)) = view w)"

definition reads_resource :: "('w \<Rightarrow> cluster) \<Rightarrow> (string \<Rightarrow> 'w \<Rightarrow> (error + ClusterResourceOverride) \<times> 'w) \<Rightarrow> bool" where
  "reads_resource view get \<longleftrightarrow> (\<forall>n w. view (snd (get n w)) = view w
     \<and> (case cl_resource (view w) n of
          None \<Rightarrow> (case fst (get n w) of Inl e \<Rightarrow> IsNotFound e | Inr x \<Rightarrow> False)
        | Some c \<Rightarrow> fst (get n w) = Inr c \<and> om_Name (o_Meta c) = n))"

text \<open>
  The dynamic client answers what is stored; the operator relies on its answer that an object is not there
  for the settings of the API server only. The cluster serves a resource in one group and version.
\<close>

definition tls_id :: object_id where
  "tls_id = (''apiservers'', [], ''cluster'')"

definition reads_stored :: "lib \<Rightarrow> 'w api \<Rightarrow> ('w \<Rightarrow> cluster) \<Rightarrow> bool" where
  "reads_stored L A view \<longleftrightarrow> keeps view (api_Now A) \<and> keeps view (api_NewAddr A)
     \<and> reads_resource view (api_CRO_Get A)
     \<and> (\<forall>ns n. reads view (api_ConfigMap_Get A ns n) (typed (lib_AsConfigMap L)) (''configmaps'', ns, n))
     \<and> (\<exists>dec. \<forall>ns n. reads view (api_Secret_Get A ns n) dec (''secrets'', ns, n))
     \<and> (\<forall>ns n. reads view (api_Service_Get A ns n) (typed (lib_AsService L)) (''services'', ns, n))
     \<and> (\<forall>ns n. reads view (api_Deployment_Get A ns n) (typed (lib_AsDeployment L)) (''deployments'', ns, n))
     \<and> (\<forall>n. reads view (api_APIService_Get A n) (\<lambda>u. map_sum id Some (typed (lib_AsAPIService L) u)) (''apiservices'', [], n))
     \<and> (\<forall>n. reads view (api_MWC_Get A n) (typed (lib_AsMutatingWebhookConfiguration L)) (''mutatingwebhookconfigurations'', [], n))
     \<and> (\<forall>n. reads view (api_VAP_Get A n) (typed (lib_AsValidatingAdmissionPolicy L)) (''validatingadmissionpolicies'', [], n))
     \<and> (\<forall>n. reads view (api_VAPB_Get A n) (typed (lib_AsValidatingAdmissionPolicyBinding L))
          (''validatingadmissionpolicybindings'', [], n))
     \<and> (\<forall>gvr ns n w. case dyn_Get A gvr ns n w of
         (Inl e, w') \<Rightarrow> view w' = view w
       | (Inr u, w') \<Rightarrow> view w' = view w \<and> cl_objects (view w) (gvr_Resource gvr, ns, n) = Some u)
     \<and> reads view (dyn_Get A APIServerGVR [] ''cluster'') Inr tls_id"

text \<open>A delete removes the object, or fails and removes nothing; it is not found exactly when it is not there.\<close>

definition deletes :: "('w \<Rightarrow> cluster) \<Rightarrow> ('w \<Rightarrow> error option \<times> 'w) \<Rightarrow> object_id \<Rightarrow> bool" where
  "deletes view del i \<longleftrightarrow> (\<forall>w. view (snd (del w)) = (if fst (del w) = None then cl_drop i (view w) else view w)
     \<and> (IsNotFound_opt (fst (del w)) \<longleftrightarrow> cl_objects (view w) i = None))"

text \<open>
  A create or a patch stores the object it returns, or fails and stores nothing. A patch made from the
  stored object towards a desired one yields an object that carries what was desired; an empty body is
  not a patch. An update of the status stores the status and keeps the rest of the resource.
\<close>

definition writes_stored :: "lib \<Rightarrow> 'w api \<Rightarrow> ('w \<Rightarrow> cluster) \<Rightarrow> bool" where
  "writes_stored L A view \<longleftrightarrow>
     (\<forall>gvr ns u w. case dyn_Create A gvr ns u w of
         (Inl e, w') \<Rightarrow> view w' = view w
       | (Inr c, w') \<Rightarrow> view w' = cl_put (gvr_Resource gvr, ns, u_GetName u) c (view w) \<and> carries u c)
     \<and> (\<forall>gvr ns n b w. case dyn_Patch A gvr ns n b w of
         (Inl e, w') \<Rightarrow> view w' = view w
       | (Inr c, w') \<Rightarrow> view w' = cl_put (gvr_Resource gvr, ns, n) c (view w) \<and> b \<noteq> []
           \<and> (\<forall>original modified object. cl_objects (view w) (gvr_Resource gvr, ns, n) = Some original
                \<and> PatchWithUnstructured L original modified object = Inr b \<longrightarrow> carries modified c))
     \<and> (\<forall>ns n. deletes view (api_Secret_Delete A ns n) (''secrets'', ns, n))
     \<and> (\<forall>ns n. deletes view (api_DaemonSet_Delete A ns n) (''daemonsets'', ns, n))
     \<and> (\<forall>n. deletes view (api_MWC_Delete A n) (''mutatingwebhookconfigurations'', [], n))
     \<and> (\<forall>c w. case api_CRO_UpdateStatus A c w of
         (Some e, w') \<Rightarrow> view w' = view w
       | (None, w') \<Rightarrow> (\<exists>old new. cl_resource (view w) (om_Name (o_Meta c)) = Some old
           \<and> view w' = cl_set_resource (om_Name (o_Meta c)) new (view w) \<and> om_Name (o_Meta new) = om_Name (o_Meta c)
           \<and> cro_Spec new = cro_Spec old \<and> om_UID (o_Meta new) = om_UID (o_Meta old) \<and> cro_Status new = cro_Status c))"

definition storing_cluster :: "lib \<Rightarrow> 'w api \<Rightarrow> ('w \<Rightarrow> cluster) \<Rightarrow> bool" where
  "storing_cluster L A view \<longleftrightarrow> converts L \<and> reads_stored L A view \<and> writes_stored L A view"

section \<open>Clusters that differ in some resources only\<close>

definition changed :: "string list \<Rightarrow> cluster \<Rightarrow> cluster \<Rightarrow> bool" where
  "changed rs K K' \<longleftrightarrow> cl_resource K' = cl_resource K
     \<and> (\<forall>r ns n. r \<notin> set rs \<longrightarrow> cl_objects K' (r, ns, n) = cl_objects K (r, ns, n))"

lemma changed_refl [simp]: "changed rs K K"
  by (simp add: changed_def)

lemma changed_trans: "changed rs K K' \<Longrightarrow> changed rs K' K'' \<Longrightarrow> changed rs K K''"
  by (simp add: changed_def)

lemma changed_mono: "changed rs K K' \<Longrightarrow> set rs \<subseteq> set rs' \<Longrightarrow> changed rs' K K'"
  by (auto simp: changed_def)

lemma changed_put: "r \<in> set rs \<Longrightarrow> changed rs K (cl_put (r, ns, n) u K)"
  by (auto simp: changed_def cl_put_def)

lemma changed_drop: "r \<in> set rs \<Longrightarrow> changed rs K (cl_drop (r, ns, n) K)"
  by (auto simp: changed_def cl_drop_def)

lemma changed_entry: "changed rs K K' \<Longrightarrow> r \<notin> set rs \<Longrightarrow> cl_objects K' (r, ns, n) = cl_objects K (r, ns, n)"
  by (simp add: changed_def)

text \<open>A stored object that decodes to one with a property.\<close>

definition holds_at :: "cluster \<Rightarrow> object_id \<Rightarrow> (Unstructured \<Rightarrow> error + 'x) \<Rightarrow> ('x \<Rightarrow> bool) \<Rightarrow> bool" where
  "holds_at K i dec Q \<longleftrightarrow> (\<exists>u x. cl_objects K i = Some u \<and> dec u = Inr x \<and> Q x)"

lemma holds_at_changed:
  "holds_at K (r, ns, n) dec Q \<Longrightarrow> changed rs K K' \<Longrightarrow> r \<notin> set rs \<Longrightarrow> holds_at K' (r, ns, n) dec Q"
  by (auto simp: holds_at_def changed_def)

lemma holds_at_mono: "holds_at K i dec Q \<Longrightarrow> (\<And>x. Q x \<Longrightarrow> R x) \<Longrightarrow> holds_at K i dec R"
  by (auto simp: holds_at_def)

section \<open>Reading\<close>

lemma reads_Inr:
  assumes "reads view get dec i" and "get w = (Inr x, w')"
  shows "view w' = view w" and "holds_at (view w) i dec ((=) x)"
  using assms(1) [unfolded reads_def, rule_format, of w] assms(2)
  by (auto simp: holds_at_def split: option.splits)

lemma reads_Inl:
  assumes "reads view get dec i" and "get w = (Inl e, w')"
  shows "view w' = view w" and "cl_objects (view w) i = None \<Longrightarrow> IsNotFound e"
  using assms(1) [unfolded reads_def, rule_format, of w] assms(2) by auto

lemma reads_view:
  assumes "reads view get dec i" and "get w = (a, w')"
  shows "view w' = view w"
  using assms(1) [unfolded reads_def, rule_format, of w] assms(2) by simp

text \<open>Two worlds with the same object get the same answer.\<close>

lemma reads_same:
  assumes "reads view get dec i" and "cl_objects (view w) i = cl_objects (view v) i"
    and "get w = (a, w')" and "get v = (b, v')"
  shows "a = b \<or> (\<exists>e e'. a = Inl e \<and> b = Inl e')"
  using assms(1) [unfolded reads_def, rule_format, of w] assms(1) [unfolded reads_def, rule_format, of v] assms(2-4)
  by (auto split: option.splits sum.splits)

section \<open>Create or patch\<close>

lemma NestedField_SetNestedField:
  "g \<noteq> h \<Longrightarrow> NestedField (JObject (SetNestedField m v [f, g])) (f # h # fs) = NestedField (JObject m) (f # h # fs)"
  by (cases "map_of m f") (auto simp: update_conv split: json.splits)

lemma NestedField_RemoveNestedField:
  "g \<noteq> h \<Longrightarrow> NestedField (JObject (RemoveNestedField m [f, g])) (f # h # fs) = NestedField (JObject m) (f # h # fs)"
  by (cases "map_of m f") (auto simp: update_conv delete_conv split: json.splits)

lemma NestedField_top: "map_of m f = map_of m' f \<Longrightarrow> NestedField (JObject m) (f # fs) = NestedField (JObject m') (f # fs)"
  by simp

lemma prepare_modified_field:
  assumes "h \<noteq> ''uid''" and "h \<noteq> ''resourceVersion''"
  shows "NestedField (JObject (prepare_modified original m)) (''metadata'' # h # fs)
    = NestedField (JObject m) (''metadata'' # h # fs)"
proof -
  have slice: "NestedField (JObject (keep_slice f original u)) (''metadata'' # h # fs) = NestedField (JObject u) (''metadata'' # h # fs)"
    if "f \<noteq> ''metadata''" for f u
    using that by (intro NestedField_top) (auto simp: keep_slice_def update_conv split: sum.splits option.splits)
  have uid: "NestedField (JObject (u_SetUID x u)) (''metadata'' # h # fs) = NestedField (JObject u) (''metadata'' # h # fs)" for x u
    using assms(1) by (simp add: u_SetUID_def NestedField_SetNestedField NestedField_RemoveNestedField
        del: NestedField.simps SetNestedField.simps RemoveNestedField.simps)
  have rv: "NestedField (JObject (u_SetResourceVersion x u)) (''metadata'' # h # fs) = NestedField (JObject u) (''metadata'' # h # fs)" for x u
    using assms(2) by (simp add: u_SetResourceVersion_def NestedField_SetNestedField NestedField_RemoveNestedField
        del: NestedField.simps SetNestedField.simps RemoveNestedField.simps)
  show ?thesis
    by (simp add: prepare_modified_def Let_def slice uid rv del: NestedField.simps)
qed

lemma prepare_modified_keeps:
  "u_GetName (prepare_modified original m) = u_GetName m"
  "u_annotation (prepare_modified original m) = u_annotation m"
  "u_owners (prepare_modified original m) = u_owners m"
  by (simp_all add: u_GetName_def NestedString_def u_annotation_def u_owners_def prepare_modified_field fun_eq_iff
      del: NestedField.simps)

lemma writes_storedD:
  assumes "writes_stored L A view"
  shows create_Inr: "dyn_Create A gvr ns u w = (Inr c, w') \<Longrightarrow>
      view w' = cl_put (gvr_Resource gvr, ns, u_GetName u) c (view w) \<and> carries u c"
    and create_Inl: "dyn_Create A gvr ns u w = (Inl e, w') \<Longrightarrow> view w' = view w"
    and patch_Inr: "dyn_Patch A gvr ns n b w = (Inr c, w') \<Longrightarrow>
      view w' = cl_put (gvr_Resource gvr, ns, n) c (view w) \<and> b \<noteq> []
      \<and> (cl_objects (view w) (gvr_Resource gvr, ns, n) = Some original
          \<and> PatchWithUnstructured L original modified object = Inr b \<longrightarrow> carries modified c)"
    and patch_Inl: "dyn_Patch A gvr ns n b w = (Inl e, w') \<Longrightarrow> view w' = view w"
    and secret_deletes: "deletes view (api_Secret_Delete A ns n) (''secrets'', ns, n)"
    and daemonset_deletes: "deletes view (api_DaemonSet_Delete A ns n) (''daemonsets'', ns, n)"
    and webhook_deletes: "deletes view (api_MWC_Delete A n) (''mutatingwebhookconfigurations'', [], n)"
    and status_stored: "api_CRO_UpdateStatus A c' w = (None, w') \<Longrightarrow>
      \<exists>old new. cl_resource (view w) (om_Name (o_Meta c')) = Some old
        \<and> view w' = cl_set_resource (om_Name (o_Meta c')) new (view w) \<and> om_Name (o_Meta new) = om_Name (o_Meta c')
        \<and> cro_Spec new = cro_Spec old \<and> om_UID (o_Meta new) = om_UID (o_Meta old) \<and> cro_Status new = cro_Status c'"
    and status_failed: "api_CRO_UpdateStatus A c' w = (Some e, w') \<Longrightarrow> view w' = view w"
proof -
  note laws = assms [unfolded writes_stored_def]
  note create = laws [THEN conjunct1, THEN spec [of _ gvr], THEN spec [of _ ns], THEN spec [of _ u], THEN spec [of _ w]]
  show "dyn_Create A gvr ns u w = (Inr c, w') \<Longrightarrow> view w' = cl_put (gvr_Resource gvr, ns, u_GetName u) c (view w) \<and> carries u c"
    and "dyn_Create A gvr ns u w = (Inl e, w') \<Longrightarrow> view w' = view w"
    using create by simp_all
  note patch = laws [THEN conjunct2, THEN conjunct1, THEN spec [of _ gvr], THEN spec [of _ ns],
      THEN spec [of _ n], THEN spec [of _ b], THEN spec [of _ w]]
  show "dyn_Patch A gvr ns n b w = (Inr c, w') \<Longrightarrow> view w' = cl_put (gvr_Resource gvr, ns, n) c (view w) \<and> b \<noteq> []
      \<and> (cl_objects (view w) (gvr_Resource gvr, ns, n) = Some original
          \<and> PatchWithUnstructured L original modified object = Inr b \<longrightarrow> carries modified c)"
    and "dyn_Patch A gvr ns n b w = (Inl e, w') \<Longrightarrow> view w' = view w"
    using patch by auto
  show "deletes view (api_Secret_Delete A ns n) (''secrets'', ns, n)"
    and "deletes view (api_DaemonSet_Delete A ns n) (''daemonsets'', ns, n)"
    and "deletes view (api_MWC_Delete A n) (''mutatingwebhookconfigurations'', [], n)"
    using laws by simp_all
  note status = laws [THEN conjunct2, THEN conjunct2, THEN conjunct2, THEN conjunct2, THEN conjunct2,
      THEN spec [of _ c'], THEN spec [of _ w]]
  show "api_CRO_UpdateStatus A c' w = (None, w') \<Longrightarrow>
      \<exists>old new. cl_resource (view w) (om_Name (o_Meta c')) = Some old
        \<and> view w' = cl_set_resource (om_Name (o_Meta c')) new (view w) \<and> om_Name (o_Meta new) = om_Name (o_Meta c')
        \<and> cro_Spec new = cro_Spec old \<and> om_UID (o_Meta new) = om_UID (o_Meta old) \<and> cro_Status new = cro_Status c'"
    and "api_CRO_UpdateStatus A c' w = (Some e, w') \<Longrightarrow> view w' = view w"
    using status by auto
qed

lemma reads_storedD:
  assumes "reads_stored L A view"
  shows "keeps view (api_Now A)" "keeps view (api_NewAddr A)" "reads_resource view (api_CRO_Get A)"
    and configmap_reads: "reads view (api_ConfigMap_Get A ns n) (typed (lib_AsConfigMap L)) (''configmaps'', ns, n)"
    and service_reads: "reads view (api_Service_Get A ns n) (typed (lib_AsService L)) (''services'', ns, n)"
    and deployment_reads: "reads view (api_Deployment_Get A ns n) (typed (lib_AsDeployment L)) (''deployments'', ns, n)"
    and apiservice_reads: "reads view (api_APIService_Get A n) (\<lambda>u. map_sum id Some (typed (lib_AsAPIService L) u)) (''apiservices'', [], n)"
    and webhook_reads: "reads view (api_MWC_Get A n) (typed (lib_AsMutatingWebhookConfiguration L)) (''mutatingwebhookconfigurations'', [], n)"
    and policy_reads: "reads view (api_VAP_Get A n) (typed (lib_AsValidatingAdmissionPolicy L)) (''validatingadmissionpolicies'', [], n)"
    and binding_reads: "reads view (api_VAPB_Get A n) (typed (lib_AsValidatingAdmissionPolicyBinding L))
      (''validatingadmissionpolicybindings'', [], n)"
    and tls_reads: "reads view (dyn_Get A APIServerGVR [] ''cluster'') Inr tls_id"
  using assms by (simp_all add: reads_stored_def)

lemma dynamic_reads:
  assumes "reads_stored L A view" and "dyn_Get A gvr ns n w = (r, w')"
  shows "view w' = view w" and "r = Inr u \<Longrightarrow> cl_objects (view w) (gvr_Resource gvr, ns, n) = Some u"
proof -
  from assms(1) have "case dyn_Get A gvr ns n w of
      (Inl e, w') \<Rightarrow> view w' = view w
    | (Inr u, w') \<Rightarrow> view w' = view w \<and> cl_objects (view w) (gvr_Resource gvr, ns, n) = Some u"
    unfolding reads_stored_def by (elim conjE allE)
  with assms(2) show "view w' = view w" and "r = Inr u \<Longrightarrow> cl_objects (view w) (gvr_Resource gvr, ns, n) = Some u"
    by (auto split: sum.splits)
qed

lemma secret_reads:
  assumes "reads_stored L A view"
  obtains dec where "\<forall>ns n. reads view (api_Secret_Get A ns n) dec (''secrets'', ns, n)"
  using assms unfolding reads_stored_def by blast

lemma client_Ensure_stored:
  assumes reads: "reads_stored L A view" and writes: "writes_stored L A view"
    and run: "client_Ensure L A resource object w = (Inr c, w')"
  shows "\<exists>u. lib_ToUnstructured L object = Inr u \<and> carries u c
    \<and> view w' = cl_put (resource, u_GetNamespace u, u_GetName u) c (view w)"
proof -
  from run obtain u where u: "lib_ToUnstructured L object = Inr u"
    by (auto simp: client_Ensure_def ToUnstructured_def split: sum.splits)
  let ?gvr = "GetGVR resource u" and ?ns = "u_GetNamespace u" and ?i = "(resource, u_GetNamespace u, u_GetName u)"
  obtain r w1 where create: "dyn_Create A ?gvr ?ns u w = (r, w1)" by (cases "dyn_Create A ?gvr ?ns u w")
  show ?thesis
  proof (cases r)
    case (Inr c')
    with run create u create_Inr [OF writes, of ?gvr ?ns u w c' w1] show ?thesis
      by (auto simp: client_Ensure_def ToUnstructured_def Let_def)
  next
    case (Inl e)
    with create create_Inl [OF writes] have w1: "view w1 = view w" by blast
    obtain original w2 where get: "dyn_Get A ?gvr ?ns (u_GetName u) w1 = (Inr original, w2)"
      and patch: "dyn_Patch A ?gvr ?ns (u_GetName u)
        (case PatchWithUnstructured L original (prepare_modified original u) object of Inl e \<Rightarrow> [] | Inr b \<Rightarrow> b) w2
        = (Inr c, w')"
      using run create u Inl
      by (auto simp: client_Ensure_def ToUnstructured_def Let_def prepare_modified_keeps split: if_splits sum.splits prod.splits)
    from dynamic_reads [OF reads get] w1
    have w2: "view w2 = view w" and stored: "cl_objects (view w2) ?i = Some original"
      by (simp_all add: GetGVR_def Let_def)
    note law = patch_Inr [OF writes patch, of original "prepare_modified original u" object]
    then obtain b where "PatchWithUnstructured L original (prepare_modified original u) object = Inr b"
      by (cases "PatchWithUnstructured L original (prepare_modified original u) object") auto
    with law stored have "carries (prepare_modified original u) c" by simp
    then have "carries u c" by (simp add: carries_def prepare_modified_keeps)
    with law u w2 show ?thesis by simp
  qed
qed

lemma client_Ensure_failed:
  assumes reads: "reads_stored L A view" and writes: "writes_stored L A view"
    and run: "client_Ensure L A resource object w = (Inl e, w')"
  shows "view w' = view w"
  using run
  by (auto simp: client_Ensure_def Let_def split: sum.splits prod.splits if_splits
      dest!: create_Inl [OF writes] patch_Inl [OF writes] dynamic_reads(1) [OF reads])

end
