(* ===== verification/Settle.thy ===== *)
theory Settle
  imports Cluster Steady
begin

text \<open>
  A reconcile that succeeds in a cluster that stores what is written leaves the cluster at rest: each
  handler leaves its object in the store and its reference in the status, and the later handlers touch
  neither. So the next reconciles, however many, change nothing.
\<close>

section \<open>The typed ensurers\<close>

text \<open>All seven ensure the object through the dynamic client and decode the answer.\<close>

definition typed_Ensure :: "lib \<Rightarrow> 'w api \<Rightarrow> string \<Rightarrow> (Unstructured \<Rightarrow> error + 'x) \<Rightarrow> runtime_object \<Rightarrow> 'w \<Rightarrow> (error + 'x) \<times> 'w" where
  "typed_Ensure L A resource dec object w = (case client_Ensure L A resource object w of
     (Inl errGot, w1) \<Rightarrow> (Inl errGot, w1)
   | (Inr u, w1) \<Rightarrow> (case dec u of Inl conversionErr \<Rightarrow> (Inl conversionErr, w1) | Inr current \<Rightarrow> (Inr current, w1)))"

lemma typed_ensurers:
  "ConfigMapEnsurer_Ensure L A a = typed_Ensure L A ''configmaps'' (lib_AsConfigMap L) (RtConfigMap a)"
  "ServiceEnsurer_Ensure L A b = typed_Ensure L A ''services'' (lib_AsService L) (RtService b)"
  "DeploymentEnsurer_Ensure L A d = typed_Ensure L A ''deployments'' (lib_AsDeployment L) (RtDeployment d)"
  "APIServiceEnsurer_Ensure L A e = typed_Ensure L A ''apiservices'' (lib_AsAPIService L) (RtAPIService e)"
  "MutatingWebhookConfigurationEnsurer_Ensure L A m = typed_Ensure L A ''mutatingwebhookconfigurations''
     (lib_AsMutatingWebhookConfiguration L) (RtMutatingWebhookConfiguration m)"
  "ValidatingAdmissionPolicyEnsurer_Ensure L A p = typed_Ensure L A ''validatingadmissionpolicies''
     (lib_AsValidatingAdmissionPolicy L) (RtValidatingAdmissionPolicy p)"
  "ValidatingAdmissionPolicyBindingEnsurer_Ensure L A q = typed_Ensure L A ''validatingadmissionpolicybindings''
     (lib_AsValidatingAdmissionPolicyBinding L) (RtValidatingAdmissionPolicyBinding q)"
  by (simp_all add: fun_eq_iff typed_Ensure_def ConfigMapEnsurer_Ensure_def ServiceEnsurer_Ensure_def
      DeploymentEnsurer_Ensure_def APIServiceEnsurer_Ensure_def MutatingWebhookConfigurationEnsurer_Ensure_def
      ValidatingAdmissionPolicyEnsurer_Ensure_def ValidatingAdmissionPolicyBindingEnsurer_Ensure_def)

lemma typed_Ensure_stored:
  assumes "storing_cluster L A view" and "typed_Ensure L A resource dec object w = (r, w')"
  shows "changed [resource] (view w) (view w')"
    and "r = Inr x \<Longrightarrow> \<exists>u c. lib_ToUnstructured L object = Inr u \<and> carries u c \<and> dec c = Inr x
      \<and> cl_objects (view w') (resource, om_Namespace (runtime_Meta object), om_Name (runtime_Meta object)) = Some c"
proof -
  from assms(1) have conv: "converts L" and rd: "reads_stored L A view" and wr: "writes_stored L A view"
    by (simp_all add: storing_cluster_def)
  obtain a w1 where run: "client_Ensure L A resource object w = (a, w1)" by (cases "client_Ensure L A resource object w")
  with assms(2) have w1: "w' = w1" by (auto simp: typed_Ensure_def split: sum.splits)
  show "changed [resource] (view w) (view w')"
  proof (cases a)
    case (Inl e)
    with client_Ensure_failed [OF rd wr] run w1 show ?thesis by simp
  next
    case (Inr c)
    from client_Ensure_stored [OF rd wr run [unfolded Inr]] w1 show ?thesis by (auto simp: changed_put)
  qed
  assume "r = Inr x"
  with assms(2) run obtain c where a: "a = Inr c" "dec c = Inr x" by (auto simp: typed_Ensure_def split: sum.splits)
  from client_Ensure_stored [OF rd wr run [unfolded a(1)]] w1 obtain u where
    u: "lib_ToUnstructured L object = Inr u" "carries u c"
      "view w' = cl_put (resource, u_GetNamespace u, u_GetName u) c (view w)" by blast
  moreover note convertsD(1,2) [OF conv u(1)]
  ultimately show "\<exists>u c. lib_ToUnstructured L object = Inr u \<and> carries u c \<and> dec c = Inr x
      \<and> cl_objects (view w') (resource, om_Namespace (runtime_Meta object), om_Name (runtime_Meta object)) = Some c"
    using a by (auto simp: cl_put_def)
qed

text \<open>The object is then stored as it was returned; the deployment has the annotations and the API service the owners that were sent.\<close>

lemma typed_Ensure_holds:
  assumes "storing_cluster L A view" and "typed_Ensure L A resource dec object w = (Inr x, w')"
  shows "holds_at (view w') (resource, om_Namespace (runtime_Meta object), om_Name (runtime_Meta object)) (typed dec) ((=) (kindless x))"
  using typed_Ensure_stored(2) [OF assms refl] by (auto simp: holds_at_def)

lemma typed_Ensure_annotation:
  assumes "storing_cluster L A view" and "typed_Ensure L A resource (lib_AsDeployment L) object w = (Inr d, w')"
    and "map_of (om_Annotations (runtime_Meta object)) k = Some v"
  shows "go_get (om_Annotations (o_Meta d)) k = v"
proof -
  from typed_Ensure_stored(2) [OF assms(1,2) refl] obtain u c where
    u: "lib_ToUnstructured L object = Inr u" "carries u c" "lib_AsDeployment L c = Inr d" by blast
  from assms(1) have conv: "converts L" by (simp add: storing_cluster_def)
  from convertsD(3) [OF conv u(1) assms(3)] u(2) have "u_annotation c k = Some v" by (simp add: carries_def)
  then show ?thesis by (rule convertsD(5) [OF conv u(3)])
qed

lemma typed_Ensure_owners:
  assumes sc: "storing_cluster L A view"
    and run: "typed_Ensure L A resource (lib_AsAPIService L) (RtAPIService a) w = (Inr x, w')"
    and own: "om_OwnerReferences (o_Meta a) \<noteq> []"
  shows "om_OwnerReferences (o_Meta x) = om_OwnerReferences (o_Meta a)"
proof -
  from typed_Ensure_stored(2) [OF sc run refl] obtain u c where
    u: "lib_ToUnstructured L (RtAPIService a) = Inr u" "carries u c" "lib_AsAPIService L c = Inr x" by blast
  from sc have conv: "converts L" by (simp add: storing_cluster_def)
  from convertsD(4) [OF conv u(1)] own u(2) have "u_owners c = u_owners u" by (simp add: carries_def)
  then show ?thesis by (rule convertsD(6) [OF conv u(1) own _ u(3)])
qed

section \<open>What each handler leaves\<close>

definition operand_cluster :: "'w Options \<Rightarrow> ('w \<Rightarrow> cluster) \<Rightarrow> bool" where
  "operand_cluster opts view \<longleftrightarrow> storing_cluster (opt_lib opts) (opt_api opts) view
     \<and> opt_Asset opts = asset_New (opt_OperandContext opts)"

lemma asset_meta:
  "om_Name (o_Meta (configuration_New v)) = configuration_Name v" "om_Namespace (o_Meta (configuration_New v)) = v_Namespace v"
  "om_Name (o_Meta (service_New v)) = service_Name v" "om_Namespace (o_Meta (service_New v)) = v_Namespace v"
  "om_Name (o_Meta (deployment_New t v)) = deployment_Name v" "om_Namespace (o_Meta (deployment_New t v)) = v_Namespace v"
  "om_Name (o_Meta (apiservice_New v)) = apiservice_Name v" "om_Namespace (o_Meta (apiservice_New v)) = []"
  "om_Name (o_Meta (mutatingWebhookConfiguration_New v)) = mutatingWebhookConfiguration_Name v"
  "om_Namespace (o_Meta (mutatingWebhookConfiguration_New v)) = []"
  "om_Name (o_Meta (validatingAdmissionPolicy_New v)) = validatingAdmissionPolicyName"
  "om_Namespace (o_Meta (validatingAdmissionPolicy_New v)) = []"
  "om_Name (o_Meta (validatingAdmissionPolicyBinding_New v)) = validatingAdmissionPolicyName"
  "om_Namespace (o_Meta (validatingAdmissionPolicyBinding_New v)) = []"
  by (simp_all add: configuration_New_def service_New_def deployment_New_def apiservice_New_def new_ObjectMeta_def
      mutatingWebhookConfiguration_New_def validatingAdmissionPolicy_New_def validatingAdmissionPolicyBinding_New_def
      service_Name_def)

lemma operand_clusterD:
  assumes "operand_cluster opts view"
  shows "storing_cluster (opt_lib opts) (opt_api opts) view" "reads_stored (opt_lib opts) (opt_api opts) view"
    "writes_stored (opt_lib opts) (opt_api opts) view" "v_Namespace (opt_Asset opts) = WebhookNamespace (opt_OperandContext opts)"
    "opt_Asset opts = asset_New (opt_OperandContext opts)"
  using assms by (simp_all add: operand_cluster_def storing_cluster_def asset_New_def)

text \<open>Read the object, and create it when it is not found.\<close>

lemma get_or_ensure:
  assumes rd: "reads view get (typed dec) (resource, ns, n)" and sc: "storing_cluster L A view"
    and meta: "om_Namespace (runtime_Meta object) = ns" "om_Name (runtime_Meta object) = n"
    and run: "(case get w of (Inr x, w1) \<Rightarrow> (Inr x, w1)
        | (Inl err, w1) \<Rightarrow> if \<not> IsNotFound err then (Inl err, w1) else typed_Ensure L A resource dec object w1) = (r, w')"
  shows "changed [resource] (view w) (view w')" and "r = Inr x \<Longrightarrow> holds_at (view w') (resource, ns, n) (typed dec) ((=) (kindless x))"
proof -
  obtain a w1 where get: "get w = (a, w1)" by (cases "get w")
  note w1 = reads_view [OF rd get]
  show "changed [resource] (view w) (view w')"
  proof (cases a)
    case (Inl e)
    with run get typed_Ensure_stored(1) [OF sc, of resource dec object w1 r w'] w1 show ?thesis by (auto split: if_splits)
  qed (use run get w1 in simp)
  assume r: "r = Inr x"
  show "holds_at (view w') (resource, ns, n) (typed dec) ((=) (kindless x))"
  proof (cases a)
    case (Inl e)
    with run get r have "typed_Ensure L A resource dec object w1 = (Inr x, w')" by (auto split: if_splits)
    from typed_Ensure_holds [OF sc this] meta show ?thesis by simp
  next
    case (Inr y)
    with run get r have "y = x" "w' = w1" by auto
    with reads_Inr [OF rd get [unfolded Inr]] show ?thesis by (auto simp: holds_at_def)
  qed
qed

lemma in_sync_new:
  "holds_at K i dec ((=) (kindless x)) \<Longrightarrow> GetReference kinds t x = Inr ref \<Longrightarrow> holds_at K i dec (ref_in_sync (Some ref))"
  by (auto simp: holds_at_def ref_in_sync_def dest: GetReference_ResourceVersion)

lemma in_sync_old: "holds_at K i dec ((=) (kindless x)) \<Longrightarrow> ref_in_sync ref x \<Longrightarrow> holds_at K i dec (ref_in_sync ref)"
  by (auto simp: holds_at_def)

lemma configuration_settles:
  assumes oc: "operand_cluster opts view"
    and run: "configurationHandler_Handle opts c w = (Returned (c', res, None), w')"
  shows "changed [''configmaps''] (view w) (view w')"
    and "holds_at (view w') (''configmaps'', WebhookNamespace (opt_OperandContext opts), configuration_Name (opt_Asset opts))
      (typed (lib_AsConfigMap (opt_lib opts))) (ref_in_sync (ConfigurationRef (cro_Resources c')))"
    and "\<exists>b. lib_yaml_Marshal (opt_lib opts) (spec_PodResourceOverride (cro_Spec c)) = Inr b"
proof -
  let ?L = "opt_lib opts" and ?A = "opt_api opts" and ?v = "opt_Asset opts" and ?ns = "WebhookNamespace (opt_OperandContext opts)"
  let ?i = "(''configmaps'', ?ns, configuration_Name ?v)" and ?hash = "ClusterResourceOverrideSpec_Hash (lib_sha256 (opt_lib opts)) (cro_Spec c)"
  note ocD = operand_clusterD [OF oc]
  from run obtain desired where desired: "NewConfiguration opts c = Inr desired"
    by (auto simp: configurationHandler_Handle_def Let_def split: sum.splits)
  then show "\<exists>b. lib_yaml_Marshal ?L (spec_PodResourceOverride (cro_Spec c)) = Inr b"
    by (auto simp: NewConfiguration_def split: sum.splits)
  from desired have meta: "om_Namespace (runtime_Meta (RtConfigMap desired)) = ?ns" "om_Name (runtime_Meta (RtConfigMap desired)) = configuration_Name ?v"
    by (auto simp: NewConfiguration_def ControllerSetter_def Let_def frame asset_meta ocD(4) split: sum.splits)
  let ?get = "case api_ConfigMap_Get ?A ?ns (configuration_Name ?v) w of (Inr x, w1) \<Rightarrow> (Inr x, w1)
        | (Inl err, w1) \<Rightarrow> if \<not> IsNotFound err then (Inl err, w1) else typed_Ensure ?L ?A ''configmaps'' (lib_AsConfigMap ?L) (RtConfigMap desired) w1"
  obtain r w2 where got: "?get = (r, w2)" by (cases ?get)
  note first = get_or_ensure [OF configmap_reads [OF ocD(2)] ocD(1) meta got]
  note run' = run [unfolded configurationHandler_Handle_def Let_def desired typed_ensurers sum.case got prod.case]
  from run' obtain x where r: "r = Inr x" by (cases r) auto
  note stored = first(2) [OF r]
  show "changed [''configmaps''] (view w) (view w')"
    and "holds_at (view w') ?i (typed (lib_AsConfigMap ?L)) (ref_in_sync (ConfigurationRef (cro_Resources c')))"
  proof -
    consider "w' = w2" "c' = c" "ref_in_sync (ConfigurationRef (cro_Resources c)) x"
      | y ref where "GetReference (lib_ObjectKinds ?L) GoConfigMap y = Inr ref" "c' = set_configuration ?hash ref c"
        "(w' = w2 \<and> y = x) \<or> typed_Ensure ?L ?A ''configmaps'' (lib_AsConfigMap ?L) (RtConfigMap desired) w2 = (Inr y, w')"
      using run' r by (auto split: if_splits prod.splits sum.splits)
    then have "changed [''configmaps''] (view w2) (view w')
      \<and> holds_at (view w') ?i (typed (lib_AsConfigMap ?L)) (ref_in_sync (ConfigurationRef (cro_Resources c')))"
    proof cases
      case 1
      with in_sync_old [OF stored] show ?thesis by simp
    next
      case (2 y ref)
      from 2(3) stored have "changed [''configmaps''] (view w2) (view w') \<and> holds_at (view w') ?i (typed (lib_AsConfigMap ?L)) ((=) (kindless y))"
        using typed_Ensure_stored(1) [OF ocD(1)] typed_Ensure_holds [OF ocD(1)] meta by fastforce
      with 2(1,2) in_sync_new show ?thesis by (fastforce simp: cro_Resources_def)
    qed
    with first(1) show "changed [''configmaps''] (view w) (view w')"
      and "holds_at (view w') ?i (typed (lib_AsConfigMap ?L)) (ref_in_sync (ConfigurationRef (cro_Resources c')))"
      by (auto intro: changed_trans)
  qed
qed

text \<open>What is read at a given state of the cluster.\<close>

lemma reads_answers:
  assumes "reads view get dec i"
    and "case cl_objects K i of None \<Rightarrow> (\<forall>e. IsNotFound e \<longrightarrow> Q (Inl e)) | Some u \<Rightarrow> Q (dec u)"
  shows "answers (\<lambda>w. view w = K) get Q"
  unfolding answers_def
proof (intro allI impI conjI)
  fix w assume "view w = K"
  with assms(1) [unfolded reads_def, rule_format, of w] assms(2) show "view (snd (get w)) = K" and "Q (fst (get w))"
    by (auto split: option.splits sum.splits)
qed

lemma reads_answered:
  assumes "reads view get dec i" and "get w = (a, w')" and "Q a" and "\<And>e. IsNotFound e \<Longrightarrow> Q (Inl e)"
  shows "case cl_objects (view w) i of None \<Rightarrow> (\<forall>e. IsNotFound e \<longrightarrow> Q (Inl e)) | Some u \<Rightarrow> Q (dec u)"
  using assms(1) [unfolded reads_def, rule_format, of w] assms(2-4) by (auto split: option.splits)

lemma holds_answers:
  assumes "reads view get dec i" and "holds_at K i dec Q"
  shows "answers (\<lambda>w. view w = K) get (\<lambda>a. \<exists>x. a = Inr x \<and> Q x)"
  using assms(2) by (intro reads_answers [OF assms(1)]) (auto simp: holds_at_def)

definition secret_current :: "Values \<Rightarrow> error + Secret \<Rightarrow> bool" where
  "secret_current v a \<longleftrightarrow> (case a of Inl e \<Rightarrow> IsNotFound e | Inr x \<Rightarrow> \<not> secret_is_old x (service_Name v))"

definition secret_settled :: "'w Options \<Rightarrow> ('w \<Rightarrow> cluster) \<Rightarrow> cluster \<Rightarrow> bool" where
  "secret_settled opts view K \<longleftrightarrow> (\<exists>dec. (\<forall>ns n. reads view (api_Secret_Get (opt_api opts) ns n) dec (''secrets'', ns, n))
     \<and> (case cl_objects K (''secrets'', WebhookNamespace (opt_OperandContext opts), serviceServingSecret_Name (opt_Asset opts)) of
          None \<Rightarrow> True | Some u \<Rightarrow> secret_current (opt_Asset opts) (dec u)))"

lemma secret_settled_changed:
  "secret_settled opts view K \<Longrightarrow> changed rs K K' \<Longrightarrow> ''secrets'' \<notin> set rs \<Longrightarrow> secret_settled opts view K'"
  unfolding secret_settled_def by (simp add: changed_entry)

lemma service_settles:
  assumes oc: "operand_cluster opts view"
    and run: "serviceHandler_Handle opts c w = (Returned (c', res, None), w')"
  shows "changed [''secrets'', ''services''] (view w) (view w')"
    and "holds_at (view w') (''services'', WebhookNamespace (opt_OperandContext opts), service_Name (opt_Asset opts))
      (typed (lib_AsService (opt_lib opts))) (ref_in_sync (ServiceRef (cro_Resources c')))"
    and "secret_settled opts view (view w')"
proof -
  let ?L = "opt_lib opts" and ?A = "opt_api opts" and ?v = "opt_Asset opts" and ?ns = "WebhookNamespace (opt_OperandContext opts)"
  let ?sid = "(''secrets'', ?ns, serviceServingSecret_Name ?v)" and ?desired = "ControllerSetter (service_New ?v) c"
  note ocD = operand_clusterD [OF oc]
  obtain dec where secs: "\<forall>ns n. reads view (api_Secret_Get ?A ns n) dec (''secrets'', ns, n)" by (rule secret_reads [OF ocD(2)])
  then have sec: "reads view (api_Secret_Get ?A ns n) dec (''secrets'', ns, n)" for ns n by blast
  obtain a w1 where get: "api_Secret_Get ?A ?ns (serviceServingSecret_Name ?v) w = (a, w1)"
    by (cases "api_Secret_Get ?A ?ns (serviceServingSecret_Name ?v) w")
  note w1 = reads_view [OF sec get]
  let ?secret = "case a of Inr secret \<Rightarrow>
        if secret_is_old secret (service_Name ?v)
        then (case api_Secret_Delete ?A ?ns (serviceServingSecret_Name ?v) w1 of
            (Some err, w2) \<Rightarrow> (Inl (NewInstallReadinessError InternalError (Some err)), w2) | (None, w2) \<Rightarrow> (Inr (), w2))
        else (Inr (), w1)
      | Inl err \<Rightarrow> if \<not> IsNotFound err then (Inl (NewInstallReadinessError CertNotAvailable (Some err)), w1) else (Inr (), w1)"
  obtain r1 w3 where secret: "?secret = (r1, w3)" by (cases ?secret)
  have meta: "om_Namespace (runtime_Meta (RtService ?desired)) = ?ns" "om_Name (runtime_Meta (RtService ?desired)) = service_Name ?v"
    by (simp_all add: ControllerSetter_def frame asset_meta ocD(4))
  let ?get = "case api_Service_Get ?A ?ns (service_Name ?v) w3 of (Inr x, w1) \<Rightarrow> (Inr x, w1)
        | (Inl err, w1) \<Rightarrow> if \<not> IsNotFound err then (Inl err, w1) else typed_Ensure ?L ?A ''services'' (lib_AsService ?L) (RtService ?desired) w1"
  obtain r w5 where got: "?get = (r, w5)" by (cases ?get)
  note stage = get_or_ensure [OF service_reads [OF ocD(2)] ocD(1) meta got]
  note run' = run [unfolded serviceHandler_Handle_def Let_def typed_ensurers get prod.case, unfolded secret prod.case]
  from run' have r1: "r1 = Inr ()" by (cases r1) simp_all
  note run' = run' [unfolded r1 sum.case got prod.case]
  have "changed [''secrets''] (view w) (view w3) \<and>
      (case cl_objects (view w3) ?sid of None \<Rightarrow> True | Some u \<Rightarrow> secret_current ?v (dec u))"
  proof (cases "\<exists>x. a = Inr x \<and> secret_is_old x (service_Name ?v)")
    case True
    with secret r1 have del: "api_Secret_Delete ?A ?ns (serviceServingSecret_Name ?v) w1 = (None, w3)"
      by (auto split: prod.splits option.splits)
    from secret_deletes [OF ocD(3), unfolded deletes_def, THEN spec, of ?ns "serviceServingSecret_Name ?v" w1] del w1
    have "view w3 = cl_drop ?sid (view w)" by simp
    then show ?thesis by (simp add: changed_drop) (simp add: cl_drop_def)
  next
    case False
    with secret r1 have "w3 = w1" and cur: "secret_current ?v a"
      by (auto simp: secret_current_def split: if_splits sum.splits)
    moreover from reads_answered [OF sec get, of "secret_current ?v", OF cur]
    have "case cl_objects (view w) ?sid of None \<Rightarrow> True | Some u \<Rightarrow> secret_current ?v (dec u)"
      by (auto simp: secret_current_def split: option.splits)
    ultimately show ?thesis using w1 by simp
  qed
  then have sc: "changed [''secrets''] (view w) (view w3)" and settled: "secret_settled opts view (view w3)"
    using secs unfolding secret_settled_def by blast+
  from run' obtain x where r: "r = Inr x" by (cases r) auto
  from run' r have w': "w' = w5" by (auto split: if_splits sum.splits)
  show "changed [''secrets'', ''services''] (view w) (view w')"
    unfolding w' by (rule changed_trans [OF changed_mono [OF sc] changed_mono [OF stage(1)]]) simp_all
  from settled stage(1) show "secret_settled opts view (view w')" unfolding w' by (rule secret_settled_changed) simp
  show "holds_at (view w') (''services'', ?ns, service_Name ?v) (typed (lib_AsService ?L)) (ref_in_sync (ServiceRef (cro_Resources c')))"
    using run' r in_sync_old [OF stage(2) [OF r]] in_sync_new [OF stage(2) [OF r]] unfolding w'
    by (auto simp: cro_Resources_def split: if_splits sum.splits)
qed

lemma webhook_settles:
  assumes oc: "operand_cluster opts view"
    and run: "webhookConfigurationHandler_Handle opts c w = (Returned (c', res, None), w')"
  shows "changed [''mutatingwebhookconfigurations''] (view w) (view w')"
    and "holds_at (view w') (''mutatingwebhookconfigurations'', [], mutatingWebhookConfiguration_Name (opt_Asset opts))
      (typed (lib_AsMutatingWebhookConfiguration (opt_lib opts))) (ref_in_sync (MutatingWebhookConfigurationRef (cro_Resources c')))"
proof -
  let ?L = "opt_lib opts" and ?A = "opt_api opts" and ?v = "opt_Asset opts"
  let ?desired = "ControllerSetter (mutatingWebhookConfiguration_New ?v) c"
  note ocD = operand_clusterD [OF oc]
  have meta: "om_Namespace (runtime_Meta (RtMutatingWebhookConfiguration ?desired)) = []"
    "om_Name (runtime_Meta (RtMutatingWebhookConfiguration ?desired)) = mutatingWebhookConfiguration_Name ?v"
    by (simp_all add: ControllerSetter_def frame asset_meta)
  let ?get = "case api_MWC_Get ?A (mutatingWebhookConfiguration_Name ?v) w of (Inr x, w1) \<Rightarrow> (Inr x, w1)
        | (Inl err, w1) \<Rightarrow> if \<not> IsNotFound err then (Inl err, w1)
            else typed_Ensure ?L ?A ''mutatingwebhookconfigurations'' (lib_AsMutatingWebhookConfiguration ?L)
              (RtMutatingWebhookConfiguration ?desired) w1"
  obtain r w2 where got: "?get = (r, w2)" by (cases ?get)
  note stage = get_or_ensure [OF webhook_reads [OF ocD(2)] ocD(1) meta got]
  note run' = run [unfolded webhookConfigurationHandler_Handle_def Let_def typed_ensurers got prod.case]
  from run' obtain x where r: "r = Inr x" by (cases r) auto
  from run' r have w': "w' = w2" by (auto split: if_splits sum.splits)
  from stage(1) show "changed [''mutatingwebhookconfigurations''] (view w) (view w')" by (simp add: w')
  show "holds_at (view w') (''mutatingwebhookconfigurations'', [], mutatingWebhookConfiguration_Name ?v)
      (typed (lib_AsMutatingWebhookConfiguration ?L)) (ref_in_sync (MutatingWebhookConfigurationRef (cro_Resources c')))"
    using run' r in_sync_old [OF stage(2) [OF r]] in_sync_new [OF stage(2) [OF r]] unfolding w'
    by (auto simp: cro_Resources_def split: if_splits sum.splits)
qed

lemma binding_settles:
  assumes oc: "operand_cluster opts view"
    and run: "validatingAdmissionPolicyHandler_binding opts c w = (Returned (c', res, None), w')"
  shows "changed [''validatingadmissionpolicybindings''] (view w) (view w')"
    and "holds_at (view w') (''validatingadmissionpolicybindings'', [], validatingAdmissionPolicyName)
      (typed (lib_AsValidatingAdmissionPolicyBinding (opt_lib opts)))
      (ref_in_sync (ValidatingAdmissionPolicyBindingRef (cro_Resources c')))"
proof -
  let ?L = "opt_lib opts" and ?A = "opt_api opts" and ?v = "opt_Asset opts"
  let ?desired = "ControllerSetter (validatingAdmissionPolicyBinding_New ?v) c"
  note ocD = operand_clusterD [OF oc]
  have meta: "om_Namespace (runtime_Meta (RtValidatingAdmissionPolicyBinding ?desired)) = []"
    "om_Name (runtime_Meta (RtValidatingAdmissionPolicyBinding ?desired)) = validatingAdmissionPolicyName"
    by (simp_all add: ControllerSetter_def frame asset_meta)
  let ?get = "case api_VAPB_Get ?A validatingAdmissionPolicyName w of (Inr x, w1) \<Rightarrow> (Inr x, w1)
        | (Inl err, w1) \<Rightarrow> if \<not> IsNotFound err then (Inl err, w1)
            else typed_Ensure ?L ?A ''validatingadmissionpolicybindings'' (lib_AsValidatingAdmissionPolicyBinding ?L)
              (RtValidatingAdmissionPolicyBinding ?desired) w1"
  obtain r w2 where got: "?get = (r, w2)" by (cases ?get)
  note stage = get_or_ensure [OF binding_reads [OF ocD(2)] ocD(1) meta got]
  note run' = run [unfolded validatingAdmissionPolicyHandler_binding_def Let_def typed_ensurers got prod.case]
  from run' obtain x where r: "r = Inr x" by (cases r) auto
  from run' r have w': "w' = w2" by (auto split: if_splits sum.splits)
  from stage(1) show "changed [''validatingadmissionpolicybindings''] (view w) (view w')" by (simp add: w')
  show "holds_at (view w') (''validatingadmissionpolicybindings'', [], validatingAdmissionPolicyName)
      (typed (lib_AsValidatingAdmissionPolicyBinding ?L)) (ref_in_sync (ValidatingAdmissionPolicyBindingRef (cro_Resources c')))"
    using run' r in_sync_old [OF stage(2) [OF r]] in_sync_new [OF stage(2) [OF r]] unfolding w'
    by (auto simp: cro_Resources_def split: if_splits sum.splits)
qed

lemma policy_settles:
  assumes oc: "operand_cluster opts view"
    and run: "validatingAdmissionPolicyHandler_Handle opts c w = (Returned (c', res, None), w')"
  shows "changed [''validatingadmissionpolicies'', ''validatingadmissionpolicybindings''] (view w) (view w')"
    and "holds_at (view w') (''validatingadmissionpolicies'', [], validatingAdmissionPolicyName)
      (typed (lib_AsValidatingAdmissionPolicy (opt_lib opts))) (ref_in_sync (ValidatingAdmissionPolicyRef (cro_Resources c')))"
    and "holds_at (view w') (''validatingadmissionpolicybindings'', [], validatingAdmissionPolicyName)
      (typed (lib_AsValidatingAdmissionPolicyBinding (opt_lib opts)))
      (ref_in_sync (ValidatingAdmissionPolicyBindingRef (cro_Resources c')))"
proof -
  let ?L = "opt_lib opts" and ?A = "opt_api opts" and ?v = "opt_Asset opts"
  let ?i = "(''validatingadmissionpolicies'', [], validatingAdmissionPolicyName)"
  let ?desired = "ControllerSetter (validatingAdmissionPolicy_New ?v) c"
  note ocD = operand_clusterD [OF oc]
  have meta: "om_Namespace (runtime_Meta (RtValidatingAdmissionPolicy ?desired)) = []"
    "om_Name (runtime_Meta (RtValidatingAdmissionPolicy ?desired)) = validatingAdmissionPolicyName"
    by (simp_all add: ControllerSetter_def frame asset_meta)
  let ?get = "case api_VAP_Get ?A validatingAdmissionPolicyName w of (Inr x, w1) \<Rightarrow> (Inr x, w1)
        | (Inl err, w1) \<Rightarrow> if \<not> IsNotFound err then (Inl err, w1)
            else typed_Ensure ?L ?A ''validatingadmissionpolicies'' (lib_AsValidatingAdmissionPolicy ?L)
              (RtValidatingAdmissionPolicy ?desired) w1"
  obtain r w2 where got: "?get = (r, w2)" by (cases ?get)
  note stage = get_or_ensure [OF policy_reads [OF ocD(2)] ocD(1) meta got]
  note run' = run [unfolded validatingAdmissionPolicyHandler_Handle_def Let_def typed_ensurers got prod.case]
  from run' obtain x where r: "r = Inr x" by (cases r) auto
  obtain c1 where bind: "validatingAdmissionPolicyHandler_binding opts c1 w2 = (Returned (c', res, None), w')"
    and ref: "holds_at (view w2) ?i (typed (lib_AsValidatingAdmissionPolicy ?L)) (ref_in_sync (ValidatingAdmissionPolicyRef (cro_Resources c1)))"
    using run' r in_sync_old [OF stage(2) [OF r]] in_sync_new [OF stage(2) [OF r]]
    by (fastforce simp: cro_Resources_def split: if_splits sum.splits)
  note bound = binding_settles [OF oc bind]
  from binding_run [OF bind] have same: "ValidatingAdmissionPolicyRef (cro_Resources c') = ValidatingAdmissionPolicyRef (cro_Resources c1)"
    by (auto simp: cro_Resources_def)
  show "changed [''validatingadmissionpolicies'', ''validatingadmissionpolicybindings''] (view w) (view w')"
    by (rule changed_trans [OF changed_mono [OF stage(1)] changed_mono [OF bound(1)]]) simp_all
  from holds_at_changed [OF ref bound(1)]
  show "holds_at (view w') ?i (typed (lib_AsValidatingAdmissionPolicy ?L)) (ref_in_sync (ValidatingAdmissionPolicyRef (cro_Resources c')))"
    by (simp add: same)
  show "holds_at (view w') (''validatingadmissionpolicybindings'', [], validatingAdmissionPolicyName)
      (typed (lib_AsValidatingAdmissionPolicyBinding (opt_lib opts)))
      (ref_in_sync (ValidatingAdmissionPolicyBindingRef (cro_Resources c')))" by (rule bound(2))
qed

lemma api_service_settles:
  assumes oc: "operand_cluster opts view"
    and run: "apiServiceHandler_Handle opts c w = (Returned (c', res, None), w')"
  shows "changed [''apiservices''] (view w) (view w')"
    and "holds_at (view w') (''apiservices'', [], apiservice_Name (opt_Asset opts)) (typed (lib_AsAPIService (opt_lib opts)))
      (\<lambda>x. \<not> not_owned_by x c' \<and> ref_in_sync (APiServiceRef (cro_Resources c')) x)"
proof -
  let ?L = "opt_lib opts" and ?A = "opt_api opts" and ?v = "opt_Asset opts"
  let ?i = "(''apiservices'', [], apiservice_Name ?v)" and ?desired = "ControllerSetter (apiservice_New ?v) c"
  note ocD = operand_clusterD [OF oc]
  obtain a w1 where get: "api_APIService_Get ?A (apiservice_Name ?v) w = (a, w1)"
    by (cases "api_APIService_Get ?A (apiservice_Name ?v) w")
  note rd = apiservice_reads [OF ocD(2)]
  note w1 = reads_view [OF rd get]
  note run' = run [unfolded apiServiceHandler_Handle_def Let_def typed_ensurers get prod.case]
  have owners: "om_OwnerReferences (o_Meta ?desired) = [NewControllerRef c (GetGroupVersionKind c)]"
    by (simp add: ControllerSetter_def SetController_fresh apiservice_New_def new_ObjectMeta_def)
  have "(\<exists>x. a = Inr (Some x) \<and> \<not> not_owned_by x c \<and> w' = w1 \<and>
        (ref_in_sync (APiServiceRef (cro_Resources c)) x \<and> c' = c
         \<or> (\<exists>ref. GetReference (lib_ObjectKinds ?L) GoAPIService x = Inr ref
              \<and> c' = upd_Resources (\<lambda>r. r\<lparr>APiServiceRef := Some ref\<rparr>) c)))
    \<or> (\<exists>x. typed_Ensure ?L ?A ''apiservices'' (lib_AsAPIService ?L) (RtAPIService ?desired) w1 = (Inr x, w') \<and>
        (ref_in_sync (APiServiceRef (cro_Resources c)) x \<and> c' = c
         \<or> (\<exists>ref. GetReference (lib_ObjectKinds ?L) GoAPIService x = Inr ref
              \<and> c' = upd_Resources (\<lambda>r. r\<lparr>APiServiceRef := Some ref\<rparr>) c)))"
    using run' by (auto split: sum.splits prod.splits option.splits if_splits)
  then consider (found) x where "a = Inr (Some x)" "\<not> not_owned_by x c" "w' = w1"
        "ref_in_sync (APiServiceRef (cro_Resources c)) x \<and> c' = c
         \<or> (\<exists>ref. GetReference (lib_ObjectKinds ?L) GoAPIService x = Inr ref
              \<and> c' = upd_Resources (\<lambda>r. r\<lparr>APiServiceRef := Some ref\<rparr>) c)"
      | (ensured) x where "typed_Ensure ?L ?A ''apiservices'' (lib_AsAPIService ?L) (RtAPIService ?desired) w1 = (Inr x, w')"
        "ref_in_sync (APiServiceRef (cro_Resources c)) x \<and> c' = c
         \<or> (\<exists>ref. GetReference (lib_ObjectKinds ?L) GoAPIService x = Inr ref
              \<and> c' = upd_Resources (\<lambda>r. r\<lparr>APiServiceRef := Some ref\<rparr>) c)"
    by blast
  then obtain x where x: "changed [''apiservices''] (view w) (view w')" "holds_at (view w') ?i (typed (lib_AsAPIService ?L)) ((=) (kindless x))"
      "\<not> not_owned_by x c" "ref_in_sync (APiServiceRef (cro_Resources c)) x \<and> c' = c
         \<or> (\<exists>ref. GetReference (lib_ObjectKinds ?L) GoAPIService x = Inr ref
              \<and> c' = upd_Resources (\<lambda>r. r\<lparr>APiServiceRef := Some ref\<rparr>) c)"
  proof cases
    case (found x)
    from reads_Inr(2) [OF rd get [unfolded found(1)]] obtain u where
      "cl_objects (view w) ?i = Some u" "map_sum id Some (typed (lib_AsAPIService ?L) u) = Inr (Some x)"
      by (auto simp: holds_at_def)
    then have "holds_at (view w) ?i (typed (lib_AsAPIService ?L)) ((=) (kindless x))"
      by (cases "lib_AsAPIService ?L u") (auto simp: holds_at_def typed_def)
    with found w1 show ?thesis by (intro that [of x]) auto
  next
    case (ensured x)
    from typed_Ensure_owners [OF ocD(1) ensured(1)] owners have "\<not> not_owned_by x c"
      by (simp add: not_owned_by_def NewControllerRef_def)
    moreover have "holds_at (view w') ?i (typed (lib_AsAPIService ?L)) ((=) (kindless x))"
      using typed_Ensure_holds [OF ocD(1) ensured(1)] by (simp add: ControllerSetter_def frame asset_meta)
    moreover have "changed [''apiservices''] (view w) (view w')"
      using typed_Ensure_stored(1) [OF ocD(1) ensured(1)] w1 by simp
    ultimately show ?thesis using ensured by (intro that [of x]) auto
  qed
  show "changed [''apiservices''] (view w) (view w')" by (rule x(1))
  from x(3,4) have "\<not> not_owned_by x c' \<and> ref_in_sync (APiServiceRef (cro_Resources c')) x"
    by (auto simp: not_owned_by_def cro_Resources_def upd_Resources_def ref_in_sync_def dest: GetReference_ResourceVersion)
  with x(2) show "holds_at (view w') ?i (typed (lib_AsAPIService ?L))
      (\<lambda>x. \<not> not_owned_by x c' \<and> ref_in_sync (APiServiceRef (cro_Resources c')) x)"
    by (auto elim!: holds_at_mono)
qed

section \<open>The deployment\<close>

text \<open>The TLS arguments depend on the stored settings of the API server only.\<close>

definition tls_at :: "'w Options \<Rightarrow> ('w \<Rightarrow> cluster) \<Rightarrow> cluster \<Rightarrow> Args \<Rightarrow> bool" where
  "tls_at opts view K args \<longleftrightarrow> (\<forall>u. cl_objects (view u) tls_id = cl_objects K tls_id \<longrightarrow>
     view (snd (tlsprofile_Fetch (opt_lib opts) (opt_api opts) u)) = view u
     \<and> tls_args (fst (tlsprofile_Fetch (opt_lib opts) (opt_api opts) u)) = args)"

lemma tls_at_changed: "tls_at opts view K args \<Longrightarrow> changed rs K K' \<Longrightarrow> ''apiservers'' \<notin> set rs \<Longrightarrow> tls_at opts view K' args"
  unfolding tls_at_def tls_id_def by (simp add: changed_entry)

lemma Fetch_tls_at:
  assumes oc: "operand_cluster opts view" and run: "tlsprofile_Fetch (opt_lib opts) (opt_api opts) w = (f, w1)"
  shows "view w1 = view w" and "tls_at opts view (view w) (tls_args f)"
proof -
  let ?A = "opt_api opts" and ?L = "opt_lib opts"
  note rd = tls_reads [OF operand_clusterD(2) [OF oc]]
  have keep: "view (snd (tlsprofile_Fetch ?L ?A u)) = view u" for u
    by (cases "dyn_Get ?A APIServerGVR [] ''cluster'' u")
      (auto simp: tlsprofile_Fetch_def Let_def reads_view [OF rd] split: sum.splits)
  from keep [of w] run show "view w1 = view w" by simp
  show "tls_at opts view (view w) (tls_args f)"
    unfolding tls_at_def
  proof (intro allI impI conjI keep)
    fix u assume same: "cl_objects (view u) tls_id = cl_objects (view w) tls_id"
    obtain a u1 b v1 where a: "dyn_Get ?A APIServerGVR [] ''cluster'' u = (a, u1)"
      and b: "dyn_Get ?A APIServerGVR [] ''cluster'' w = (b, v1)" by fastforce
    from reads_same [OF rd same a b] run a b show "tls_args (fst (tlsprofile_Fetch ?L ?A u)) = tls_args f"
      by (auto simp: tlsprofile_Fetch_def tls_args_def Let_def split: sum.splits)
  qed
qed

definition deployment_current :: "Values \<Rightarrow> ClusterResourceOverride \<Rightarrow> Args \<Rightarrow> Deployment \<Rightarrow> bool" where
  "deployment_current v c args d \<longleftrightarrow>
     go_get (om_Annotations (o_Meta d)) (v_ConfigurationHashAnnotationKey v) = st_HashConfiguration (cro_Status c)
     \<and> go_get (om_Annotations (o_Meta d)) (v_TLSProfileHashAnnotationKey v) = Args_Hash args"

lemma deployment_current_kindless [simp]: "deployment_current v c args (kindless d) = deployment_current v c args d"
  by (simp add: deployment_current_def)

lemma ApplyToDeploymentObject_meta:
  assumes "opt_Asset opts = asset_New ctx"
  shows "map_of (om_Annotations (o_Meta (ApplyToDeploymentObject opts c args d))) (v_ConfigurationHashAnnotationKey (opt_Asset opts))
      = Some (st_HashConfiguration (cro_Status c))"
    and "map_of (om_Annotations (o_Meta (ApplyToDeploymentObject opts c args d))) (v_TLSProfileHashAnnotationKey (opt_Asset opts))
      = Some (Args_Hash args)"
    and "om_Name (o_Meta (ApplyToDeploymentObject opts c args d)) = om_Name (o_Meta d)"
    and "om_Namespace (o_Meta (ApplyToDeploymentObject opts c args d)) = om_Namespace (o_Meta d)"
  using asset_annotation_keys [of ctx]
  by (simp_all add: assms ApplyToDeploymentObject_def Let_def ControllerSetter_def frame go_put_def update_conv split: option.split)

lemma EnsureRBAC_items_changed:
  assumes "operand_cluster opts view"
    and "EnsureRBAC_items (opt_lib opts) (opt_api opts) items c w = (r, w')"
    and "set (map rbac_Resource items) \<subseteq> set rs"
  shows "changed rs (view w) (view w')"
  using assms(2,3)
proof (induction items arbitrary: w)
  case (Cons item items)
  note ocD = operand_clusterD [OF assms(1)]
  let ?x = "runtime_SetController (rbac_Object item) c"
  obtain a w1 where run: "client_Ensure (opt_lib opts) (opt_api opts) (rbac_Resource item) ?x w = (a, w1)"
    by (cases "client_Ensure (opt_lib opts) (opt_api opts) (rbac_Resource item) ?x w")
  show ?case
  proof (cases a)
    case (Inl e)
    with Cons.prems run client_Ensure_failed [OF ocD(2,3)] show ?thesis by (auto simp: Let_def)
  next
    case (Inr u)
    with Cons.prems run have "EnsureRBAC_items (opt_lib opts) (opt_api opts) items c w1 = (r, w')" by (simp add: Let_def)
    from Cons.IH [OF this] Cons.prems(2) have "changed rs (view w1) (view w')" by simp
    moreover from client_Ensure_stored [OF ocD(2,3) run [unfolded Inr]] Cons.prems(2)
    have "changed rs (view w) (view w1)" by (auto intro: changed_put)
    ultimately show ?thesis by (rule changed_trans [rotated])
  qed
qed simp

lemma deploy_Ensure_stored:
  assumes oc: "operand_cluster opts view"
    and run: "deploymentHandler_Ensure opts c args w = (Inr d, w')"
  shows "changed (''deployments'' # ''mutatingwebhookconfigurations'' # rbac_resources) (view w) (view w')"
    and "holds_at (view w') (''deployments'', WebhookNamespace (opt_OperandContext opts), deployment_Name (opt_Asset opts))
      (typed (lib_AsDeployment (opt_lib opts))) ((=) (kindless d))"
    and "deployment_current (opt_Asset opts) c args d"
proof -
  let ?L = "opt_lib opts" and ?A = "opt_api opts" and ?v = "opt_Asset opts"
  let ?rs = "''deployments'' # ''mutatingwebhookconfigurations'' # rbac_resources"
  let ?d0 = "ApplyToDeploymentObject opts c args (deployment_New (opt_tolerationSeconds opts) ?v)"
  let ?desired = "?d0\<lparr>dep_Spec := (dep_Spec ?d0)\<lparr>dep_Template := ApplyToToPodTemplate opts c args (dep_Template (dep_Spec ?d0))\<rparr>\<rparr>"
  note ocD = operand_clusterD [OF oc]
  note meta = ApplyToDeploymentObject_meta [OF ocD(5), of c args "deployment_New (opt_tolerationSeconds opts) ?v"]
  obtain del w1 where del: "api_MWC_Delete ?A (mutatingWebhookConfiguration_Name ?v) w = (del, w1)"
    by (cases "api_MWC_Delete ?A (mutatingWebhookConfiguration_Name ?v) w")
  obtain e w2 where rbac: "EnsureRBAC opts c w1 = (e, w2)" by (cases "EnsureRBAC opts c w1")
  from run del rbac have ens: "typed_Ensure ?L ?A ''deployments'' (lib_AsDeployment ?L) (RtDeployment ?desired) w2 = (Inr d, w')"
    by (auto simp: deploymentHandler_Ensure_def deploy_Ensure_def typed_ensurers Let_def split: if_splits option.splits)
  have "changed ?rs (view w) (view w1)"
    using webhook_deletes [OF ocD(3), unfolded deletes_def, THEN spec, of "mutatingWebhookConfiguration_Name ?v" w] del
    by (auto simp: changed_drop)
  moreover have "changed ?rs (view w1) (view w2)"
    using EnsureRBAC_items_changed [OF oc rbac [unfolded EnsureRBAC_def], of ?rs]
    by (simp add: rbac_New_def rbac_resources_def)
  moreover have "changed ?rs (view w2) (view w')"
    by (rule changed_mono [OF typed_Ensure_stored(1) [OF ocD(1) ens]]) simp
  ultimately show "changed ?rs (view w) (view w')" by (blast intro: changed_trans)
  show "holds_at (view w') (''deployments'', WebhookNamespace (opt_OperandContext opts), deployment_Name ?v) (typed (lib_AsDeployment ?L)) ((=) (kindless d))"
    using typed_Ensure_holds [OF ocD(1) ens] meta(3,4) by (simp add: asset_meta ocD(4))
  show "deployment_current ?v c args d"
    using typed_Ensure_annotation [OF ocD(1) ens] meta(1,2) by (simp add: deployment_current_def)
qed

lemma deployment_settles:
  assumes oc: "operand_cluster opts view"
    and no_daemonset: "cl_objects (view w) (''daemonsets'', v_Namespace (opt_Asset opts), daemonset_Name (opt_Asset opts)) = None"
    and run: "deploymentHandler_Handle opts c w = (Returned (c', res, None), w')"
  shows "changed (''deployments'' # ''mutatingwebhookconfigurations'' # rbac_resources) (view w) (view w')"
    and "\<exists>args. tls_at opts view (view w) args
      \<and> holds_at (view w') (''deployments'', WebhookNamespace (opt_OperandContext opts), deployment_Name (opt_Asset opts))
          (typed (lib_AsDeployment (opt_lib opts)))
          (\<lambda>d. ref_in_sync (DeploymentRef (cro_Resources c')) d \<and> deployment_current (opt_Asset opts) c' args d)"
proof -
  let ?L = "opt_lib opts" and ?A = "opt_api opts" and ?v = "opt_Asset opts" and ?ns = "WebhookNamespace (opt_OperandContext opts)"
  let ?i = "(''deployments'', ?ns, deployment_Name ?v)" and ?rs = "''deployments'' # ''mutatingwebhookconfigurations'' # rbac_resources"
  note ocD = operand_clusterD [OF oc]
  obtain e w1 where del: "api_DaemonSet_Delete ?A (v_Namespace ?v) (daemonset_Name ?v) w = (e, w1)"
    by (cases "api_DaemonSet_Delete ?A (v_Namespace ?v) (daemonset_Name ?v) w")
  with daemonset_deletes [OF ocD(3), unfolded deletes_def, THEN spec, of "v_Namespace ?v" "daemonset_Name ?v" w] no_daemonset
  have e: "IsNotFound_opt e" "e \<noteq> None" and w1: "view w1 = view w" by (auto simp: IsNotFound_opt_def split: option.splits)
  obtain f w2 where fetch: "tlsprofile_Fetch ?L ?A w1 = (f, w2)" by (cases "tlsprofile_Fetch ?L ?A w1")
  note tls = Fetch_tls_at [OF oc fetch]
  obtain a w3 where get: "api_Deployment_Get ?A ?ns (deployment_Name ?v) w2 = (a, w3)"
    by (cases "api_Deployment_Get ?A ?ns (deployment_Name ?v) w2")
  note rd = deployment_reads [OF ocD(2)]
  have w3: "view w3 = view w" using reads_view [OF rd get] tls(1) w1 by simp
  obtain found where fin: "deploymentHandler_finish opts c (tls_args f) found w3 = (Returned (c', res, None), w')"
    and found: "\<And>d. found = Some d \<Longrightarrow> a = Inr d"
    using run del e fetch get
    by (auto simp: deploymentHandler_Handle_def deploy_Get_def tls_args_def Let_def split: sum.splits if_splits)
  have stage: "\<exists>d. changed ?rs (view w3) (view w') \<and> holds_at (view w') ?i (typed (lib_AsDeployment ?L)) ((=) (kindless d))
      \<and> deployment_current ?v c (tls_args f) d
      \<and> (ref_in_sync (DeploymentRef (cro_Resources c)) d \<and> c' = c
         \<or> (\<exists>ref. GetReference (lib_ObjectKinds ?L) GoDeployment d = Inr ref
              \<and> c' = upd_Resources (\<lambda>r. r\<lparr>DeploymentRef := Some ref\<rparr>) c))"
  proof (cases "needs_ensure ?v c (tls_args f) found")
    case True
    with fin obtain d w4 where ens: "deploymentHandler_Ensure opts c (tls_args f) w3 = (Inr d, w4)"
      by (auto simp: deploymentHandler_finish_def split: sum.splits prod.splits)
    with fin True have "w4 = w' \<and> (ref_in_sync (DeploymentRef (cro_Resources c)) d \<and> c' = c
         \<or> (\<exists>ref. GetReference (lib_ObjectKinds ?L) GoDeployment d = Inr ref
              \<and> c' = upd_Resources (\<lambda>r. r\<lparr>DeploymentRef := Some ref\<rparr>) c))"
      by (auto simp: deploymentHandler_finish_def split: sum.splits if_splits)
    with deploy_Ensure_stored [OF oc ens] show ?thesis by blast
  next
    case False
    then obtain d where d: "found = Some d" by (cases found) (auto simp: needs_ensure_def)
    with False have "deployment_current ?v c (tls_args f) d" by (simp add: needs_ensure_iff deployment_current_def)
    moreover from reads_Inr [OF rd get [unfolded found [OF d]]] w3
    have "holds_at (view w3) ?i (typed (lib_AsDeployment ?L)) ((=) (kindless d))" by (auto simp: holds_at_def)
    ultimately show ?thesis using fin False d
      by (intro exI [of _ d]) (auto simp: deploymentHandler_finish_def split: sum.splits if_splits)
  qed
  then obtain d where d: "changed ?rs (view w3) (view w')" "holds_at (view w') ?i (typed (lib_AsDeployment ?L)) ((=) (kindless d))"
    "deployment_current ?v c (tls_args f) d"
    "ref_in_sync (DeploymentRef (cro_Resources c)) d \<and> c' = c
         \<or> (\<exists>ref. GetReference (lib_ObjectKinds ?L) GoDeployment d = Inr ref
              \<and> c' = upd_Resources (\<lambda>r. r\<lparr>DeploymentRef := Some ref\<rparr>) c)" by blast
  from d(1) show "changed ?rs (view w) (view w')" by (simp add: w3)
  from d(3,4) have "ref_in_sync (DeploymentRef (cro_Resources c')) d \<and> deployment_current ?v c' (tls_args f) d"
    by (auto simp: deployment_current_def cro_Resources_def upd_Resources_def ref_in_sync_def dest: GetReference_ResourceVersion)
  with d(2) tls(2) w1 show "\<exists>args. tls_at opts view (view w) args
      \<and> holds_at (view w') ?i (typed (lib_AsDeployment ?L))
          (\<lambda>d. ref_in_sync (DeploymentRef (cro_Resources c')) d \<and> deployment_current ?v c' args d)"
    by (intro exI [of _ "tls_args f"]) (auto elim!: holds_at_mono)
qed

end
