(* ===== verification/Converge.thy ===== *)
theory Converge
  imports Settle
begin

text \<open>
  The handlers of \<open>Settle\<close> put together: a reconcile that succeeds in a cluster that stores what is
  written leaves it at rest.
\<close>

section \<open>The handlers that only read\<close>

lemma Now_keeps:
  assumes "operand_cluster opts view" and "api_Now (opt_api opts) w = (t, w')"
  shows "view w' = view w"
  using reads_storedD(1) [OF operand_clusterD(2) [OF assms(1)]] assms(2) by (metis keeps_def snd_conv)

lemma deploy_IsAvailable_stored:
  assumes oc: "operand_cluster opts view"
    and run: "deploy_IsAvailable (opt_api opts) (opt_OperandContext opts) (opt_Asset opts) g w = (r, w')"
  shows "view w' = view w"
    and "holds_at (view w) (''deployments'', WebhookNamespace (opt_OperandContext opts), deployment_Name (opt_Asset opts))
      (typed (lib_AsDeployment (opt_lib opts))) Q \<Longrightarrow> \<exists>d. holds_at (view w) (''deployments'', WebhookNamespace (opt_OperandContext opts),
      deployment_Name (opt_Asset opts)) (typed (lib_AsDeployment (opt_lib opts))) ((=) d) \<and> Q d \<and> r = GetDeploymentStatus d g"
    and "fst r \<Longrightarrow> holds_at (view w) (''deployments'', WebhookNamespace (opt_OperandContext opts), deployment_Name (opt_Asset opts))
      (typed (lib_AsDeployment (opt_lib opts))) (\<lambda>d. fst (GetDeploymentStatus d g))"
proof -
  let ?get = "api_Deployment_Get (opt_api opts) (WebhookNamespace (opt_OperandContext opts)) (deployment_Name (opt_Asset opts))"
  note rd = deployment_reads [OF operand_clusterD(2) [OF oc], of "WebhookNamespace (opt_OperandContext opts)" "deployment_Name (opt_Asset opts)"]
  obtain a w1 where get: "?get w = (a, w1)" by (cases "?get w")
  with run reads_view [OF rd get] show "view w' = view w" by (auto simp: deploy_IsAvailable_def split: sum.splits)
  let ?i = "(''deployments'', WebhookNamespace (opt_OperandContext opts), deployment_Name (opt_Asset opts))"
  {
    assume "holds_at (view w) ?i (typed (lib_AsDeployment (opt_lib opts))) Q"
    then obtain u d where u: "cl_objects (view w) ?i = Some u" "typed (lib_AsDeployment (opt_lib opts)) u = Inr d" "Q d"
      by (auto simp: holds_at_def simp del: typed_Inr)
    with rd [unfolded reads_def, rule_format, of w] get have "a = Inr d" by simp
    with run get u show "\<exists>d. holds_at (view w) ?i (typed (lib_AsDeployment (opt_lib opts))) ((=) d) \<and> Q d \<and> r = GetDeploymentStatus d g"
      by (intro exI [of _ d]) (auto simp: deploy_IsAvailable_def holds_at_def)
  }
  assume "fst r"
  with run get obtain d where "a = Inr d" "fst (GetDeploymentStatus d g)"
    by (auto simp: deploy_IsAvailable_def split: sum.splits)
  with reads_Inr(2) [OF rd get [unfolded \<open>a = Inr d\<close>]]
  show "holds_at (view w) ?i (typed (lib_AsDeployment (opt_lib opts))) (\<lambda>d. fst (GetDeploymentStatus d g))"
    by (auto simp: holds_at_def)
qed

lemma cro_init_Resources [simp]: "st_Resources (cro_init s) = st_Resources s" "st_HashConfiguration (cro_init s) = st_HashConfiguration s"
  "st_Version (cro_init s) = st_Version s" "st_Image (cro_init s) = st_Image s"
  by (simp_all add: cro_init_def)

lemma cro_WithCondition_fields [simp]: "st_Resources (cro_WithCondition d s) = st_Resources s"
  "st_HashConfiguration (cro_WithCondition d s) = st_HashConfiguration s"
  "st_Version (cro_WithCondition d s) = st_Version s" "st_Image (cro_WithCondition d s) = st_Image s"
  by (simp_all add: cro_WithCondition_def split: option.split)

lemma deployment_ready_settles:
  assumes oc: "operand_cluster opts view"
    and run: "deploymentReadyHandler_Handle opts c w = (Returned (c', res, None), w')"
  shows "view w' = view w"
    and "holds_at (view w) (''deployments'', WebhookNamespace (opt_OperandContext opts), deployment_Name (opt_Asset opts))
      (typed (lib_AsDeployment (opt_lib opts))) (\<lambda>d. fst (GetDeploymentStatus d False))"
    and "cro_Resources c' = cro_Resources c" and "st_HashConfiguration (cro_Status c') = st_HashConfiguration (cro_Status c)"
    and "st_Version (cro_Status c') = OperandVersion (opt_OperandContext opts)"
    and "st_Image (cro_Status c') = OperandImage (opt_OperandContext opts)"
    and "\<exists>k. cro_Find (cro_Status c') InstallReadinessFailure = Some k \<and> cond_Status k = ConditionFalse
      \<and> cond_Reason k = [] \<and> cond_Message k = []"
proof -
  obtain r w1 where av: "deploy_IsAvailable (opt_api opts) (opt_OperandContext opts) (opt_Asset opts) False w = (r, w1)"
    by (cases "deploy_IsAvailable (opt_api opts) (opt_OperandContext opts) (opt_Asset opts) False w")
  obtain t w2 where now: "api_Now (opt_api opts) w1 = (t, w2)" by (cases "api_Now (opt_api opts) w1")
  let ?d = "\<lparr>cond_Type = InstallReadinessFailure, cond_Status = ConditionFalse, cond_Reason = [], cond_Message = [],
    cond_LastTransitionTime = t\<rparr>"
  from run av now have ok: "fst r" and w': "w' = w2" and c': "c' = set_Status ((cro_WithCondition (Some ?d) (cro_init (cro_Status c)))
      \<lparr>st_Version := OperandVersion (opt_OperandContext opts), st_Image := OperandImage (opt_OperandContext opts)\<rparr>) c"
    by (auto simp: deploymentReadyHandler_Handle_def WithInstallReady_def Let_def split: prod.splits if_splits)
  note stored = deploy_IsAvailable_stored [OF oc av]
  from stored(1) Now_keeps [OF oc now] w' show "view w' = view w" by simp
  from stored(3) [OF ok] show "holds_at (view w) (''deployments'', WebhookNamespace (opt_OperandContext opts),
      deployment_Name (opt_Asset opts)) (typed (lib_AsDeployment (opt_lib opts))) (\<lambda>d. fst (GetDeploymentStatus d False))" .
  show "cro_Resources c' = cro_Resources c" "st_HashConfiguration (cro_Status c') = st_HashConfiguration (cro_Status c)"
    "st_Version (cro_Status c') = OperandVersion (opt_OperandContext opts)" "st_Image (cro_Status c') = OperandImage (opt_OperandContext opts)"
    by (simp_all add: c' cro_Resources_def)
  from cro_conds.find_put [of ?d "cro_init (cro_Status c)"]
  show "\<exists>k. cro_Find (cro_Status c') InstallReadinessFailure = Some k \<and> cond_Status k = ConditionFalse
      \<and> cond_Reason k = [] \<and> cond_Message k = []" by (auto simp: c' cro_Equal_def)
qed

lemma availability_settles:
  assumes oc: "operand_cluster opts view"
    and run: "availabilityHandler_Handle opts c w = (Returned (c', res, None), w')"
  shows "view w' = view w"
    and "\<exists>s. c' = set_Status s c \<and> st_Resources s = cro_Resources c \<and> st_HashConfiguration s = st_HashConfiguration (cro_Status c)
      \<and> st_Version s = st_Version (cro_Status c) \<and> st_Image s = st_Image (cro_Status c)
      \<and> cro_Find s InstallReadinessFailure = cro_Find (cro_Status c) InstallReadinessFailure"
    and "holds_at (view w) (''deployments'', WebhookNamespace (opt_OperandContext opts), deployment_Name (opt_Asset opts))
      (typed (lib_AsDeployment (opt_lib opts))) Q \<Longrightarrow>
      holds_at (view w) (''deployments'', WebhookNamespace (opt_OperandContext opts), deployment_Name (opt_Asset opts))
      (typed (lib_AsDeployment (opt_lib opts)))
      (\<lambda>d. Q d \<and> (\<exists>k. cro_Find (cro_Status c') Available = Some k \<and> reports_availability d k))"
proof -
  obtain ok err w1 where av: "deploy_IsAvailable (opt_api opts) (opt_OperandContext opts) (opt_Asset opts) True w = ((ok, err), w1)"
    by (metis surj_pair)
  obtain t w2 where now: "api_Now (opt_api opts) w1 = (t, w2)" by (cases "api_Now (opt_api opts) w1")
  note stored = deploy_IsAvailable_stored [OF oc av]
  have done_or_err: "ok \<longleftrightarrow> err = None" using deploy_IsAvailable_done_or_err [OF av] .
  define d where "d = (case err of
      None \<Rightarrow> \<lparr>cond_Type = Available, cond_Status = ConditionTrue, cond_Reason = [], cond_Message = [], cond_LastTransitionTime = t\<rparr>
    | Some e \<Rightarrow> \<lparr>cond_Type = Available, cond_Status = ConditionFalse,
        cond_Reason = (if IsNotFound e then AdmissionWebhookNotAvailable else InternalError), cond_Message = Error e,
        cond_LastTransitionTime = t\<rparr>)"
  then have d: "err = None \<Longrightarrow> cond_Status d = ConditionTrue \<and> cond_Reason d = [] \<and> cond_Message d = []"
      "err = Some e \<Longrightarrow> \<not> IsNotFound e \<Longrightarrow>
        cond_Status d = ConditionFalse \<and> cond_Reason d = InternalError \<and> cond_Message d = Error e" for e
    by simp_all
  have ty: "cond_Type d = Available" by (simp add: d_def split: option.split)
  have w': "w' = w2" and c': "c' = set_Status (cro_WithCondition (Some d) (cro_init (cro_Status c))) c"
    using run av now done_or_err
    by (auto simp: d_def availabilityHandler_Handle_def WithAvailable_def WithError_def NewAvailableError_def Let_def
        split: option.splits if_splits)
  from stored(1) Now_keeps [OF oc now] w' show "view w' = view w" by simp
  have "cro_Find (cro_init (cro_Status c)) InstallReadinessFailure = cro_Find (cro_Status c) InstallReadinessFailure"
    by (simp add: cro_Find_def cro_init_def)
  with ty show "\<exists>s. c' = set_Status s c \<and> st_Resources s = cro_Resources c \<and> st_HashConfiguration s = st_HashConfiguration (cro_Status c)
      \<and> st_Version s = st_Version (cro_Status c) \<and> st_Image s = st_Image (cro_Status c)
      \<and> cro_Find s InstallReadinessFailure = cro_Find (cro_Status c) InstallReadinessFailure"
    by (intro exI [of _ "cro_WithCondition (Some d) (cro_init (cro_Status c))"])
      (simp add: c' cro_Resources_def cro_conds.find_put_other)
  let ?i = "(''deployments'', WebhookNamespace (opt_OperandContext opts), deployment_Name (opt_Asset opts))"
  assume "holds_at (view w) ?i (typed (lib_AsDeployment (opt_lib opts))) Q"
  from stored(2) [OF this] obtain dep where dep: "holds_at (view w) ?i (typed (lib_AsDeployment (opt_lib opts))) ((=) dep)" "Q dep"
    "(ok, err) = GetDeploymentStatus dep True" by blast
  obtain k where k: "cro_Find (cro_Status c') Available = Some k" "cro_Equal d k"
    using cro_conds.find_put [of d "cro_init (cro_Status c)"] ty by (auto simp: c')
  have "reports_availability dep k"
  proof (cases err)
    case None
    with d k dep(3) show ?thesis by (simp add: reports_availability_def cro_Equal_def flip: dep(3))
  next
    case (Some e)
    with dep(3) GetDeploymentStatus_not_IsNotFound have "\<not> IsNotFound e" by metis
    with Some d(2) k show ?thesis by (simp add: reports_availability_def cro_Equal_def flip: dep(3))
  qed
  with dep k show "holds_at (view w) ?i (typed (lib_AsDeployment (opt_lib opts)))
      (\<lambda>d. Q d \<and> (\<exists>k. cro_Find (cro_Status c') Available = Some k \<and> reports_availability d k))"
    by (auto simp: holds_at_def)
qed

section \<open>The whole chain\<close>

lemma changed_resource: "changed rs K K' \<Longrightarrow> cl_resource K' = cl_resource K"
  by (simp add: changed_def)

lemma chain_steps_runs:
  assumes "chain_steps (NewReconciler_handlers opts) c0 w0 c w"
  obtains c1 c2 c3 c4 c5 c6 c7 c8 c9 w1 w2 w3 w4 w5 w6 w7 w8 w9 r1 r2 r3 r4 r5 r6 r7 r8 r9 r10 where
    "availabilityHandler_Handle opts c0 w0 = (Returned (c1, r1, None), w1)"
    "validationHandler_Handle c1 w1 = (Returned (c2, r2, None), w2)"
    "configurationHandler_Handle opts c2 w2 = (Returned (c3, r3, None), w3)"
    "serviceHandler_Handle opts c3 w3 = (Returned (c4, r4, None), w4)"
    "deploymentHandler_Handle opts c4 w4 = (Returned (c5, r5, None), w5)"
    "deploymentReadyHandler_Handle opts c5 w5 = (Returned (c6, r6, None), w6)"
    "apiServiceHandler_Handle opts c6 w6 = (Returned (c7, r7, None), w7)"
    "webhookConfigurationHandler_Handle opts c7 w7 = (Returned (c8, r8, None), w8)"
    "validatingAdmissionPolicyHandler_Handle opts c8 w8 = (Returned (c9, r9, None), w9)"
    "availabilityHandler_Handle opts c9 w9 = (Returned (c, r10, None), w)"
  using assms unfolding NewReconciler_handlers_def chain_steps_Cons chain_steps.simps(1)
  by (elim exE conjE) (rule that, assumption+, simp)

text \<open>The stored objects and the status of the resource fit together.\<close>

definition settled :: "'w Options \<Rightarrow> ('w \<Rightarrow> cluster) \<Rightarrow> cluster \<Rightarrow> ClusterResourceOverride \<Rightarrow> bool" where
  "settled opts view K c \<longleftrightarrow> (let L = opt_lib opts; v = opt_Asset opts; ns = WebhookNamespace (opt_OperandContext opts);
       r = cro_Resources c in
     spec_valid (cro_Spec c) \<and> status_at_rest opts c
     \<and> (\<exists>b. lib_yaml_Marshal L (spec_PodResourceOverride (cro_Spec c)) = Inr b)
     \<and> cl_objects K (''daemonsets'', v_Namespace v, daemonset_Name v) = None
     \<and> secret_settled opts view K
     \<and> holds_at K (''configmaps'', ns, configuration_Name v) (typed (lib_AsConfigMap L)) (ref_in_sync (ConfigurationRef r))
     \<and> holds_at K (''services'', ns, service_Name v) (typed (lib_AsService L)) (ref_in_sync (ServiceRef r))
     \<and> (\<exists>args. tls_at opts view K args
          \<and> holds_at K (''deployments'', ns, deployment_Name v) (typed (lib_AsDeployment L))
              (\<lambda>d. ref_in_sync (DeploymentRef r) d \<and> deployment_current v c args d \<and> fst (GetDeploymentStatus d False)
                 \<and> (\<exists>k. cro_Find (cro_Status c) Available = Some k \<and> reports_availability d k)))
     \<and> holds_at K (''apiservices'', [], apiservice_Name v) (typed (lib_AsAPIService L))
         (\<lambda>x. \<not> not_owned_by x c \<and> ref_in_sync (APiServiceRef r) x)
     \<and> holds_at K (''mutatingwebhookconfigurations'', [], mutatingWebhookConfiguration_Name v)
         (typed (lib_AsMutatingWebhookConfiguration L)) (ref_in_sync (MutatingWebhookConfigurationRef r))
     \<and> holds_at K (''validatingadmissionpolicies'', [], validatingAdmissionPolicyName)
         (typed (lib_AsValidatingAdmissionPolicy L)) (ref_in_sync (ValidatingAdmissionPolicyRef r))
     \<and> holds_at K (''validatingadmissionpolicybindings'', [], validatingAdmissionPolicyName)
         (typed (lib_AsValidatingAdmissionPolicyBinding L)) (ref_in_sync (ValidatingAdmissionPolicyBindingRef r)))"

lemma settled_cong:
  assumes "cl_objects K' = cl_objects K" and "cro_Spec c' = cro_Spec c" and "cro_Status c' = cro_Status c"
    and "om_UID (o_Meta c') = om_UID (o_Meta c)"
  shows "settled opts view K' c' = settled opts view K c"
  using assms by (simp add: settled_def status_at_rest_def secret_settled_def holds_at_def tls_at_def deployment_current_def
      not_owned_by_def cro_Resources_def Let_def)

lemma chain_settled:
  assumes oc: "operand_cluster opts view" and steps: "chain_steps (NewReconciler_handlers opts) c0 w0 c w"
    and no_daemonset: "cl_objects (view w0) (''daemonsets'', v_Namespace (opt_Asset opts), daemonset_Name (opt_Asset opts)) = None"
  shows "settled opts view (view w) c \<and> cl_resource (view w) = cl_resource (view w0)"
  using steps
proof (cases rule: chain_steps_runs)
  case runs: (1 c1 c2 c3 c4 c5 c6 c7 c8 c9 w1 w2 w3 w4 w5 w6 w7 w8 w9)
  let ?v = "opt_Asset opts" and ?ns = "WebhookNamespace (opt_OperandContext opts)" and ?L = "opt_lib opts"
  have ok: "h c w = (Returned (c', r, None), w') \<Longrightarrow> runs_ok h c c'" for h :: "'a handler" and c w c' r w'
    by (auto simp: runs_ok_def)
  from runs(2) have v2: "c2 = c1" "w2 = w1" "spec_valid (cro_Spec c1)"
    using validation_ok [OF ok [where h = validationHandler_Handle, OF runs(2)]]
    by (auto simp: validationHandler_Handle_def spec_valid_def)
  note av1 = availability_settles [OF oc runs(1)]
  note conf = configuration_settles [OF oc runs(3)]
    and serv = service_settles [OF oc runs(4)]
  have ch4a: "changed [''configmaps'', ''secrets'', ''services''] (view w0) (view w4)"
    using changed_trans [OF changed_mono [OF conf(1)] changed_mono [OF serv(1)]] v2 av1(1) by simp
  with no_daemonset have ds4: "cl_objects (view w4) (''daemonsets'', v_Namespace ?v, daemonset_Name ?v) = None"
    by (simp add: changed_entry)
  note dep = deployment_settles [OF oc ds4 runs(5)]
    and ready = deployment_ready_settles [OF oc runs(6)]
    and apis = api_service_settles [OF oc runs(7)]
    and hook = webhook_settles [OF oc runs(8)]
    and pol = policy_settles [OF oc runs(9)]
    and av2 = availability_settles [OF oc runs(10)]
  obtain s1 where c1: "c1 = set_Status s1 c0" using av1(2) by blast
  obtain f3 where c3: "c3 = set_configuration (ClusterResourceOverrideSpec_Hash (lib_sha256 ?L) (cro_Spec c2)) f3 c2"
    using configuration_ok [OF ok [where h = "configurationHandler_Handle opts", OF runs(3)]] by blast
  obtain f4 where c4: "c4 = upd_Resources (\<lambda>r. r\<lparr>ServiceRef := Some f4\<rparr>) c3"
    using service_ok [OF ok [where h = "serviceHandler_Handle opts", OF runs(4)]] by blast
  obtain f5 where c5: "c5 = upd_Resources (\<lambda>r. r\<lparr>DeploymentRef := f5\<rparr>) c4"
    using deployment_ok [OF ok [where h = "deploymentHandler_Handle opts", OF runs(5)]] by blast
  obtain s6 where c6: "c6 = set_Status s6 c5"
    using deployment_ready_ok [OF ok [where h = "deploymentReadyHandler_Handle opts", OF runs(6)]] by blast
  obtain f7 where c7: "c7 = upd_Resources (\<lambda>r. r\<lparr>APiServiceRef := Some f7\<rparr>) c6"
    using api_service_ok [OF ok [where h = "apiServiceHandler_Handle opts", OF runs(7)]] by blast
  obtain f8 where c8: "c8 = upd_Resources (\<lambda>r. r\<lparr>MutatingWebhookConfigurationRef := Some f8\<rparr>) c7"
    using webhook_ok [OF ok [where h = "webhookConfigurationHandler_Handle opts", OF runs(8)]] by blast
  obtain f9 g9 where c9: "c9 = upd_Resources (\<lambda>r. r\<lparr>ValidatingAdmissionPolicyBindingRef := Some g9\<rparr>)
      (upd_Resources (\<lambda>r. r\<lparr>ValidatingAdmissionPolicyRef := Some f9\<rparr>) c8)"
    using policy_ok [OF ok [where h = "validatingAdmissionPolicyHandler_Handle opts", OF runs(9)]] by blast
  obtain s where c: "c = set_Status s c9" "st_Resources s = cro_Resources c9" "st_HashConfiguration s = st_HashConfiguration (cro_Status c9)"
      "st_Version s = st_Version (cro_Status c9)" "st_Image s = st_Image (cro_Status c9)"
      "cro_Find s InstallReadinessFailure = cro_Find (cro_Status c9) InstallReadinessFailure"
    using av2(2) by blast
  note objs = c3 c4 c5 c6 c7 c8 c9
  have spec: "cro_Spec c = cro_Spec c1" "cro_Spec c2 = cro_Spec c1" by (simp_all add: c objs v2)
  have hash: "st_HashConfiguration (cro_Status c) = ClusterResourceOverrideSpec_Hash (lib_sha256 ?L) (cro_Spec c)"
    using ready(4) by (simp add: c c9 c8 c7 c5 c4 c3 v2 c6)
  have "status_at_rest opts c"
    using hash ready(5,6,7) by (simp add: status_at_rest_def c c9 c8 c7)
  have refs: "ConfigurationRef (cro_Resources c) = ConfigurationRef (cro_Resources c3)"
    "ServiceRef (cro_Resources c) = ServiceRef (cro_Resources c4)"
    "DeploymentRef (cro_Resources c) = DeploymentRef (cro_Resources c5)"
    "APiServiceRef (cro_Resources c) = APiServiceRef (cro_Resources c7)"
    "MutatingWebhookConfigurationRef (cro_Resources c) = MutatingWebhookConfigurationRef (cro_Resources c8)"
    "ValidatingAdmissionPolicyRef (cro_Resources c) = ValidatingAdmissionPolicyRef (cro_Resources c9)"
    "ValidatingAdmissionPolicyBindingRef (cro_Resources c) = ValidatingAdmissionPolicyBindingRef (cro_Resources c9)"
    using ready(3) c(2) by (simp_all add: cro_Resources_def c(1) c9 c8 c7 c5 c4)
  let ?r9 = "[''validatingadmissionpolicies'', ''validatingadmissionpolicybindings'']"
  let ?r8 = "''mutatingwebhookconfigurations'' # ?r9" and ?r5 = "''deployments'' # ''mutatingwebhookconfigurations'' # rbac_resources"
  have ch8: "changed ?r9 (view w8) (view w)" using pol(1) av2(1) by simp
  have ch7: "changed ?r8 (view w7) (view w)"
    by (rule changed_trans [OF changed_mono [OF hook(1)] changed_mono [OF ch8]]) simp_all
  have ch5: "changed (''apiservices'' # ?r8) (view w5) (view w)"
    using changed_trans [OF changed_mono [OF apis(1)] changed_mono [OF ch7]] ready(1) by simp
  have ch4: "changed (?r5 @ ''apiservices'' # ?r8) (view w4) (view w)"
    by (rule changed_trans [OF changed_mono [OF dep(1)] changed_mono [OF ch5]]) auto
  have ch3: "changed ([''secrets'', ''services''] @ ?r5 @ ''apiservices'' # ?r8) (view w3) (view w)"
    by (rule changed_trans [OF changed_mono [OF serv(1)] changed_mono [OF ch4]]) auto
  obtain args where args: "tls_at opts view (view w4) args"
    and held: "holds_at (view w5) (''deployments'', ?ns, deployment_Name ?v) (typed (lib_AsDeployment ?L))
      (\<lambda>d. ref_in_sync (DeploymentRef (cro_Resources c5)) d \<and> deployment_current ?v c5 args d)"
    using dep(2) by blast
  have "deployment_current ?v c5 args d = deployment_current ?v c args d" for d
    using ready(4) by (simp add: deployment_current_def c c9 c8 c7)
  with held ready(2) refs(3) have "holds_at (view w5) (''deployments'', ?ns, deployment_Name ?v) (typed (lib_AsDeployment ?L))
      (\<lambda>d. ref_in_sync (DeploymentRef (cro_Resources c)) d \<and> deployment_current ?v c args d \<and> fst (GetDeploymentStatus d False))"
    by (auto simp: holds_at_def)
  note this [THEN holds_at_changed, OF ch5]
  then have dep9: "holds_at (view w9) (''deployments'', ?ns, deployment_Name ?v) (typed (lib_AsDeployment ?L))
      (\<lambda>d. ref_in_sync (DeploymentRef (cro_Resources c)) d \<and> deployment_current ?v c args d \<and> fst (GetDeploymentStatus d False))"
    by (simp add: av2(1))
  have uid: "not_owned_by x c = not_owned_by x c7" for x by (simp add: not_owned_by_def c c9 c8 upd_Resources_def set_Status_def)
  have "settled opts view (view w) c"
    unfolding settled_def Let_def
  proof (intro conjI)
    show "spec_valid (cro_Spec c)" using v2(3) spec by simp
    show "\<exists>b. lib_yaml_Marshal ?L (spec_PodResourceOverride (cro_Spec c)) = Inr b" using conf(3) spec by simp
    show "cl_objects (view w) (''daemonsets'', v_Namespace ?v, daemonset_Name ?v) = None"
      using ds4 by (simp add: changed_entry [OF ch4] rbac_resources_def)
    show "secret_settled opts view (view w)" using secret_settled_changed [OF serv(3) ch4] by (simp add: rbac_resources_def)
    show "holds_at (view w) (''configmaps'', ?ns, configuration_Name ?v) (typed (lib_AsConfigMap ?L)) (ref_in_sync (ConfigurationRef (cro_Resources c)))"
      using holds_at_changed [OF conf(2) ch3] by (simp add: refs rbac_resources_def)
    show "holds_at (view w) (''services'', ?ns, service_Name ?v) (typed (lib_AsService ?L)) (ref_in_sync (ServiceRef (cro_Resources c)))"
      using holds_at_changed [OF serv(2) ch4] by (simp add: refs rbac_resources_def)
    show "\<exists>args. tls_at opts view (view w) args
        \<and> holds_at (view w) (''deployments'', ?ns, deployment_Name ?v) (typed (lib_AsDeployment ?L))
            (\<lambda>d. ref_in_sync (DeploymentRef (cro_Resources c)) d \<and> deployment_current ?v c args d \<and> fst (GetDeploymentStatus d False)
               \<and> (\<exists>k. cro_Find (cro_Status c) Available = Some k \<and> reports_availability d k))"
      using tls_at_changed [OF args ch4] av2(3) [OF dep9] av2(1)
      by (intro exI [of _ args]) (simp add: rbac_resources_def conj_assoc)
    show "holds_at (view w) (''apiservices'', [], apiservice_Name ?v) (typed (lib_AsAPIService ?L))
        (\<lambda>x. \<not> not_owned_by x c \<and> ref_in_sync (APiServiceRef (cro_Resources c)) x)"
      using holds_at_changed [OF apis(2) ch7] by (simp add: refs uid)
    show "holds_at (view w) (''mutatingwebhookconfigurations'', [], mutatingWebhookConfiguration_Name ?v)
        (typed (lib_AsMutatingWebhookConfiguration ?L)) (ref_in_sync (MutatingWebhookConfigurationRef (cro_Resources c)))"
      using holds_at_changed [OF hook(2) ch8] by (simp add: refs)
    show "holds_at (view w) (''validatingadmissionpolicies'', [], validatingAdmissionPolicyName)
        (typed (lib_AsValidatingAdmissionPolicy ?L)) (ref_in_sync (ValidatingAdmissionPolicyRef (cro_Resources c)))"
      using pol(2) av2(1) by (simp add: refs)
    show "holds_at (view w) (''validatingadmissionpolicybindings'', [], validatingAdmissionPolicyName)
        (typed (lib_AsValidatingAdmissionPolicyBinding ?L)) (ref_in_sync (ValidatingAdmissionPolicyBindingRef (cro_Resources c)))"
      using pol(3) av2(1) by (simp add: refs)
  qed fact
  moreover from changed_resource [OF ch4a] changed_resource [OF ch4] have "cl_resource (view w) = cl_resource (view w0)" by simp
  ultimately show ?thesis by blast
qed

text \<open>What is settled is at rest.\<close>

lemma settled_at_rest:
  assumes oc: "operand_cluster opts view" and st: "settled opts view K c"
  shows "at_rest opts (opt_api opts) (\<lambda>u. view u = K) c"
proof -
  let ?L = "opt_lib opts" and ?A = "opt_api opts" and ?v = "opt_Asset opts" and ?ns = "WebhookNamespace (opt_OperandContext opts)"
  note ocD = operand_clusterD [OF oc]
  note st' = st [unfolded settled_def Let_def]
  from st' obtain args d where args: "tls_at opts view K args"
    and d: "holds_at K (''deployments'', ?ns, deployment_Name ?v) (typed (lib_AsDeployment ?L)) ((=) d)"
      "ref_in_sync (DeploymentRef (cro_Resources c)) d" "deployment_current ?v c args d" "fst (GetDeploymentStatus d False)"
      "\<exists>k. cro_Find (cro_Status c) Available = Some k \<and> reports_availability d k"
    by (auto simp: holds_at_def)
  from st' have images: "v_OperandImage ?v = st_Image (cro_Status c)" "v_OperandVersion ?v = st_Version (cro_Status c)"
    by (simp_all add: ocD(5) asset_New_def status_at_rest_def)
  have "answers (\<lambda>u. view u = K) (api_DaemonSet_Delete ?A (v_Namespace ?v) (daemonset_Name ?v)) IsNotFound_opt"
    unfolding answers_def
  proof (intro allI impI)
    fix u assume "view u = K"
    with daemonset_deletes [OF ocD(3), unfolded deletes_def, THEN spec, of "v_Namespace ?v" "daemonset_Name ?v" u] st'
    show "IsNotFound_opt (fst (api_DaemonSet_Delete ?A (v_Namespace ?v) (daemonset_Name ?v) u))
        \<and> view (snd (api_DaemonSet_Delete ?A (v_Namespace ?v) (daemonset_Name ?v) u)) = K"
      by (auto simp: IsNotFound_opt_def split: option.splits)
  qed
  moreover have "answers (\<lambda>u. view u = K) (api_Deployment_Get ?A ?ns (deployment_Name ?v)) (\<lambda>r. r = Inr d)"
    using d(1) by (intro reads_answers [OF deployment_reads [OF ocD(2)]]) (auto simp: holds_at_def)
  moreover have "answers (\<lambda>u. view u = K) (tlsprofile_Fetch ?L ?A) (\<lambda>r. \<not> needs_ensure ?v c (tls_args r) (Some d))"
    using args d(3) images by (auto simp: answers_def tls_at_def needs_ensure_iff deployment_current_def)
  ultimately have deployment: "deployment_at_rest opts ?A (\<lambda>u. view u = K) c"
    unfolding deployment_at_rest_def Let_def using d(2,4,5) by blast
  have "answers (\<lambda>u. view u = K) (api_Secret_Get ?A ?ns (serviceServingSecret_Name ?v)) (secret_current ?v)"
  proof -
    from st' obtain dec where dec: "\<forall>ns n. reads view (api_Secret_Get ?A ns n) dec (''secrets'', ns, n)"
      and cur: "case cl_objects K (''secrets'', ?ns, serviceServingSecret_Name ?v) of None \<Rightarrow> True | Some u \<Rightarrow> secret_current ?v (dec u)"
      unfolding secret_settled_def by blast
    then show ?thesis
      by (intro reads_answers [of view _ dec]) (auto simp: secret_current_def split: option.splits)
  qed
  moreover have "answers (\<lambda>u. view u = K) (api_APIService_Get ?A (apiservice_Name ?v))
      (\<lambda>a. \<exists>x. a = Inr (Some x) \<and> \<not> not_owned_by x c \<and> ref_in_sync (APiServiceRef (cro_Resources c)) x)"
    using st' by (intro reads_answers [OF apiservice_reads [OF ocD(2)]]) (auto simp: holds_at_def)
  ultimately have "objects_at_rest opts ?A (\<lambda>u. view u = K) c"
    unfolding objects_at_rest_def Let_def secret_current_def
    using st' holds_answers [OF configmap_reads [OF ocD(2)]] holds_answers [OF service_reads [OF ocD(2)]]
      holds_answers [OF webhook_reads [OF ocD(2)]] holds_answers [OF policy_reads [OF ocD(2)]]
      holds_answers [OF binding_reads [OF ocD(2)]] by blast
  moreover have "answers (\<lambda>u. view u = K) (api_Now ?A) (\<lambda>t. True)"
    using reads_storedD(1) [OF ocD(2)] by (simp add: answers_def keeps_def)
  ultimately show ?thesis using deployment st' unfolding at_rest_def by blast
qed

section \<open>A whole reconcile\<close>

lemma Reconcile_settles:
  assumes oc: "operand_cluster opts view"
    and run: "CRO_Reconcile opts (ResourceName (opt_OperandContext opts)) w = (Returned (res, None), w')"
    and stored: "cl_resource (view w) (ResourceName (opt_OperandContext opts)) = Some original"
    and no_daemonset: "cl_objects (view w) (''daemonsets'', v_Namespace (opt_Asset opts), daemonset_Name (opt_Asset opts)) = None"
    and no_seconds: "list_all (\<lambda>t. tol_TolerationSeconds t = None) (do_Tolerations (spec_DeploymentOverrides (cro_Spec original)))"
  shows "\<exists>c. cl_resource (view w') (ResourceName (opt_OperandContext opts)) = Some c \<and> settled opts view (view w') c
    \<and> cro_Spec c = cro_Spec original"
proof -
  let ?A = "opt_api opts" and ?n = "ResourceName (opt_OperandContext opts)"
  note ocD = operand_clusterD [OF oc]
  obtain a w1 where get: "api_CRO_Get ?A ?n w = (a, w1)" by (cases "api_CRO_Get ?A ?n w")
  from reads_storedD(3) [OF ocD(2), unfolded reads_resource_def, THEN spec, of ?n, THEN spec, of w] stored get
  have a: "a = Inr original" and w1: "view w1 = view w" and name: "om_Name (o_Meta original) = ?n" by auto
  let ?c0 = "SetGroupVersionKind ClusterResourceOverrideGVK original"
  have prep: "prepared ?A original w1 = ?c0" "snd (ClusterResourceOverride_copy (api_NewAddr ?A) original w1) = w1"
    by (simp_all add: prepared_def prepared_unchanged [OF no_seconds])
  obtain c err u w3 where
    chain: "HandlerChain_Handle ?A (NewReconciler_handlers opts) ?c0 w1 = (Returned (Some c, empty_Result, err), w3)"
    and same: "same_object c ?c0" and upd: "StatusUpdater_Update ?A original (Some c) w3 = (Returned u, w')"
    and res: "Returned (res, None) = outcome_bind (combine_errors err u) (\<lambda>err. Returned (empty_Result, err))"
    using Reconcile_found_cases [OF run get [unfolded a]]
  proof cases
    case (2 c res' err u w3)
    from 2(1) [unfolded prep] 2(3,4,5) show thesis unfolding prep \<open>res' = empty_Result\<close> by (rule that)
  qed simp
  from res have ok: "err = None" "u = None" by (auto dest: sym)
  from chain_settled [OF oc cro_chain_ok [OF chain [unfolded ok]]] no_daemonset w1
  have settled: "settled opts view (view w3) c" and kept: "cl_resource (view w3) = cl_resource (view w)" by simp_all
  from same have c: "cro_Spec c = cro_Spec original" "o_Meta c = o_Meta original"
    by (simp_all add: same_object_def)
  show ?thesis
  proof (cases "cro_Status original = cro_Status c")
    case True
    with upd have "w' = w3" by (simp add: StatusUpdater_Update_def)
    with settled kept stored c True settled_cong [of "view w3" "view w3" original c opts view] show ?thesis by auto
  next
    case False
    with upd ok have put: "api_CRO_UpdateStatus ?A c w3 = (None, w')"
      by (auto simp: StatusUpdater_Update_def Let_def split: prod.splits)
    from status_stored [OF ocD(3) put] kept stored c(2) name obtain new where
      new: "view w' = cl_set_resource ?n new (view w3)" "cro_Spec new = cro_Spec original"
        "om_UID (o_Meta new) = om_UID (o_Meta original)" "cro_Status new = cro_Status c" by auto
    have "settled opts view (view w') new = settled opts view (view w3) c"
      by (rule settled_cong) (simp_all add: new cl_set_resource_def c)
    with settled new show ?thesis by (auto simp: cl_set_resource_def)
  qed
qed

lemma reconcile_settles_times:
  assumes oc: "operand_cluster opts view"
    and run: "CRO_Reconcile opts (ResourceName (opt_OperandContext opts)) w = (Returned (res, None), w')"
    and stored: "cl_resource (view w) (ResourceName (opt_OperandContext opts)) = Some original"
    and no_daemonset: "cl_objects (view w) (''daemonsets'', v_Namespace (opt_Asset opts), daemonset_Name (opt_Asset opts)) = None"
    and no_seconds: "list_all (\<lambda>t. tol_TolerationSeconds t = None) (do_Tolerations (spec_DeploymentOverrides (cro_Spec original)))"
  shows "\<exists>s'. reconcile_times (recording opts (opt_api opts)) n (w', cs) = (replicate n (Returned (empty_Result, None)), s')
    \<and> snd s' = cs @ replicate n (CallDeleteDaemonSet (v_Namespace (opt_Asset opts)) (daemonset_Name (opt_Asset opts)))
    \<and> view (fst s') = view w'"
proof -
  let ?n = "ResourceName (opt_OperandContext opts)"
  from Reconcile_settles [OF oc run stored no_daemonset no_seconds] obtain c where
    c: "cl_resource (view w') ?n = Some c" "settled opts view (view w') c" "cro_Spec c = cro_Spec original" by blast
  have "answers (\<lambda>u. view u = view w') (api_CRO_Get (opt_api opts) ?n) (\<lambda>r. r = Inr c)"
    unfolding answers_def
  proof (intro allI impI)
    fix u assume "view u = view w'"
    with reads_storedD(3) [OF operand_clusterD(2) [OF oc], unfolded reads_resource_def, THEN spec, of ?n, THEN spec, of u] c(1)
    show "fst (api_CRO_Get (opt_api opts) ?n u) = Inr c \<and> view (snd (api_CRO_Get (opt_api opts) ?n u)) = view w'" by simp
  qed
  from reconcile_times_at_rest [OF this settled_at_rest [OF oc c(2)], of "(w', cs)" n] no_seconds c(3)
  show ?thesis by simp
qed

end
