(* ===== verification/Progress.thy ===== *)
theory Progress
  imports Converge
begin

text \<open>
  Progress: in a cluster that also accepts what the operator sends, a reconcile of a valid resource gets
  everything done but the waiting: the only error it can return is that the deployment is not rolled out.
\<close>

section \<open>A cluster that accepts\<close>

text \<open>The resource under which each kind of object is sent.\<close>

fun resource_of :: "runtime_object \<Rightarrow> string" where
  "resource_of (RtConfigMap x) = ''configmaps''"
| "resource_of (RtService x) = ''services''"
| "resource_of (RtDeployment x) = ''deployments''"
| "resource_of (RtAPIService x) = ''apiservices''"
| "resource_of (RtMutatingWebhookConfiguration x) = ''mutatingwebhookconfigurations''"
| "resource_of (RtValidatingAdmissionPolicy x) = ''validatingadmissionpolicies''"
| "resource_of (RtValidatingAdmissionPolicyBinding x) = ''validatingadmissionpolicybindings''"
| "resource_of (RtServiceAccount x) = ''serviceaccounts''"
| "resource_of (RtRoleBinding x) = ''rolebindings''"
| "resource_of (RtClusterRole x) = ''clusterroles''"
| "resource_of (RtClusterRoleBinding x) = ''clusterrolebindings''"

text \<open>An object is created; or it exists, can be read, and is patched towards the one that was sent.\<close>

definition accepted :: "lib \<Rightarrow> 'w api \<Rightarrow> runtime_object \<Rightarrow> Unstructured \<Rightarrow> 'w \<Rightarrow> bool" where
  "accepted L A x u w \<longleftrightarrow> (let gvr = GetGVR (resource_of x) u; ns = u_GetNamespace u; n = u_GetName u in
     case dyn_Create A gvr ns u w of
       (Inr c, w1) \<Rightarrow> True
     | (Inl e, w1) \<Rightarrow> IsAlreadyExists e \<and> (case dyn_Get A gvr ns n w1 of
         (Inl e, w2) \<Rightarrow> False
       | (Inr original, w2) \<Rightarrow> (\<exists>b. PatchWithUnstructured L original (prepare_modified original u) x = Inr b
            \<and> (\<exists>c w3. dyn_Patch A gvr ns n b w2 = (Inr c, w3)))))"

definition accepts :: "lib \<Rightarrow> 'w api \<Rightarrow> bool" where
  "accepts L A \<longleftrightarrow> (\<forall>x. \<exists>u. lib_ToUnstructured L x = Inr u \<and> (\<forall>w. accepted L A x u w))"

definition stored_decode :: "('w \<Rightarrow> cluster) \<Rightarrow> string \<Rightarrow> (Unstructured \<Rightarrow> error + 'x) \<Rightarrow> bool" where
  "stored_decode view resource dec \<longleftrightarrow>
     (\<forall>w ns n u. cl_objects (view w) (resource, ns, n) = Some u \<longrightarrow> (\<exists>x. dec u = Inr x))"

definition cooperative :: "'w Options \<Rightarrow> ('w \<Rightarrow> cluster) \<Rightarrow> bool" where
  "cooperative opts view \<longleftrightarrow> (let L = opt_lib opts; A = opt_api opts in
     operand_cluster opts view \<and> accepts L A
     \<and> (\<forall>p. \<exists>b. lib_yaml_Marshal L p = Inr b)
     \<and> (\<forall>t. \<exists>g gs. lib_ObjectKinds L t = Inr (g # gs) \<and> \<not> gvk_Empty g)
     \<and> stored_decode view ''configmaps'' (lib_AsConfigMap L)
     \<and> stored_decode view ''services'' (lib_AsService L)
     \<and> stored_decode view ''deployments'' (lib_AsDeployment L)
     \<and> stored_decode view ''apiservices'' (lib_AsAPIService L)
     \<and> stored_decode view ''mutatingwebhookconfigurations'' (lib_AsMutatingWebhookConfiguration L)
     \<and> stored_decode view ''validatingadmissionpolicies'' (lib_AsValidatingAdmissionPolicy L)
     \<and> stored_decode view ''validatingadmissionpolicybindings'' (lib_AsValidatingAdmissionPolicyBinding L)
     \<and> (\<forall>ns n w. case fst (api_Secret_Get A ns n w) of Inl e \<Rightarrow> IsNotFound e | Inr x \<Rightarrow> True)
     \<and> (\<forall>ns n w. cl_objects (view w) (''secrets'', ns, n) \<noteq> None \<longrightarrow> fst (api_Secret_Delete A ns n w) = None)
     \<and> (\<forall>n w. cl_objects (view w) (''mutatingwebhookconfigurations'', [], n) \<noteq> None \<longrightarrow> fst (api_MWC_Delete A n w) = None)
     \<and> (\<forall>c w. cl_resource (view w) (om_Name (o_Meta c)) \<noteq> None \<longrightarrow> fst (api_CRO_UpdateStatus A c w) = None))"

lemma cooperativeD:
  assumes "cooperative opts view"
  shows "operand_cluster opts view" "accepts (opt_lib opts) (opt_api opts)"
    "\<exists>b. lib_yaml_Marshal (opt_lib opts) p = Inr b"
    "\<exists>ref. GetReference (lib_ObjectKinds (opt_lib opts)) t y = Inr ref"
    "api_Secret_Get (opt_api opts) ns n w = (Inl e, w') \<Longrightarrow> IsNotFound e"
    "cl_objects (view w) (''secrets'', ns, n) \<noteq> None \<Longrightarrow> fst (api_Secret_Delete (opt_api opts) ns n w) = None"
    "cl_objects (view w) (''mutatingwebhookconfigurations'', [], n) \<noteq> None \<Longrightarrow> fst (api_MWC_Delete (opt_api opts) n w) = None"
    "cl_resource (view w) (om_Name (o_Meta c)) \<noteq> None \<Longrightarrow> fst (api_CRO_UpdateStatus (opt_api opts) c w) = None"
proof -
  note laws = assms [unfolded cooperative_def Let_def]
  from laws show "operand_cluster opts view" "accepts (opt_lib opts) (opt_api opts)"
    "\<exists>b. lib_yaml_Marshal (opt_lib opts) p = Inr b"
    "cl_objects (view w) (''secrets'', ns, n) \<noteq> None \<Longrightarrow> fst (api_Secret_Delete (opt_api opts) ns n w) = None"
    "cl_objects (view w) (''mutatingwebhookconfigurations'', [], n) \<noteq> None \<Longrightarrow> fst (api_MWC_Delete (opt_api opts) n w) = None"
    "cl_resource (view w) (om_Name (o_Meta c)) \<noteq> None \<Longrightarrow> fst (api_CRO_UpdateStatus (opt_api opts) c w) = None"
    by simp_all
  from laws have "case fst (api_Secret_Get (opt_api opts) ns n w) of Inl e \<Rightarrow> IsNotFound e | Inr x \<Rightarrow> True" by blast
  then show "api_Secret_Get (opt_api opts) ns n w = (Inl e, w') \<Longrightarrow> IsNotFound e" by simp
  from laws obtain g gs where "lib_ObjectKinds (opt_lib opts) t = Inr (g # gs)" "\<not> gvk_Empty g" by blast
  then show "\<exists>ref. GetReference (lib_ObjectKinds (opt_lib opts)) t y = Inr ref" by (simp add: GetReference_def Let_def)
qed

lemma cooperative_decode:
  assumes "cooperative opts view"
  shows "stored_decode view ''configmaps'' (lib_AsConfigMap (opt_lib opts))"
    "stored_decode view ''services'' (lib_AsService (opt_lib opts))"
    "stored_decode view ''deployments'' (lib_AsDeployment (opt_lib opts))"
    "stored_decode view ''apiservices'' (lib_AsAPIService (opt_lib opts))"
    "stored_decode view ''mutatingwebhookconfigurations'' (lib_AsMutatingWebhookConfiguration (opt_lib opts))"
    "stored_decode view ''validatingadmissionpolicies'' (lib_AsValidatingAdmissionPolicy (opt_lib opts))"
    "stored_decode view ''validatingadmissionpolicybindings'' (lib_AsValidatingAdmissionPolicyBinding (opt_lib opts))"
  using assms by (simp_all add: cooperative_def Let_def)

section \<open>Ensuring succeeds\<close>

lemma client_Ensure_succeeds:
  assumes "accepts L A"
  shows "\<exists>c w'. client_Ensure L A (resource_of x) x w = (Inr c, w')"
proof -
  from assms obtain u where u: "lib_ToUnstructured L x = Inr u" and law: "accepted L A x u w"
    unfolding accepts_def by blast
  from law show ?thesis
    by (auto simp: accepted_def client_Ensure_def ToUnstructured_def u Let_def prepare_modified_keeps split: prod.splits sum.splits)
qed

lemma typed_Ensure_succeeds:
  assumes "accepts L A" and "storing_cluster L A view" and "stored_decode view (resource_of x) dec"
  shows "\<exists>y w'. typed_Ensure L A (resource_of x) dec x w = (Inr y, w')"
proof -
  obtain c w' where run: "client_Ensure L A (resource_of x) x w = (Inr c, w')" using client_Ensure_succeeds [OF assms(1)] by blast
  from assms(2) have "reads_stored L A view" "writes_stored L A view" by (simp_all add: storing_cluster_def)
  from client_Ensure_stored [OF this run] obtain u where
    "view w' = cl_put (resource_of x, u_GetNamespace u, u_GetName u) c (view w)" by blast
  then have "cl_objects (view w') (resource_of x, u_GetNamespace u, u_GetName u) = Some c" by (simp add: cl_put_def)
  with assms(3) obtain y where "dec c = Inr y" unfolding stored_decode_def by blast
  with run show ?thesis by (simp add: typed_Ensure_def)
qed

lemma get_or_ensure_succeeds:
  assumes "reads view get (typed dec) (resource_of x, ns, n)" and "accepts L A" and "storing_cluster L A view"
    and "stored_decode view (resource_of x) dec"
  shows "\<exists>y w'. (case get w of (Inr x, w1) \<Rightarrow> (Inr x, w1)
        | (Inl err, w1) \<Rightarrow> if \<not> IsNotFound err then (Inl err, w1) else typed_Ensure L A (resource_of x) dec x w1) = (Inr y, w')"
proof -
  obtain a w1 where get: "get w = (a, w1)" by (cases "get w")
  show ?thesis
  proof (cases a)
    case (Inl e)
    have "cl_objects (view w) (resource_of x, ns, n) = None"
    proof (rule ccontr)
      assume "cl_objects (view w) (resource_of x, ns, n) \<noteq> None"
      then obtain u where u: "cl_objects (view w) (resource_of x, ns, n) = Some u" by blast
      with assms(4) obtain y where "dec u = Inr y" unfolding stored_decode_def by blast
      with assms(1) [unfolded reads_def, rule_format, of w] get u Inl show False by simp
    qed
    with reads_Inl(2) [OF assms(1) get [unfolded Inl]] typed_Ensure_succeeds [OF assms(2-4), of w1] get Inl show ?thesis by simp
  qed (simp add: get)
qed

section \<open>The handlers succeed\<close>

lemma configuration_succeeds:
  assumes co: "cooperative opts view"
  shows "\<exists>c' w'. configurationHandler_Handle opts c w = (handle_ok c', w')"
proof -
  let ?L = "opt_lib opts" and ?A = "opt_api opts" and ?v = "opt_Asset opts" and ?ns = "WebhookNamespace (opt_OperandContext opts)"
  note coD = cooperativeD [OF co] and ocD = operand_clusterD [OF cooperativeD(1) [OF co]]
  obtain desired where desired: "NewConfiguration opts c = Inr desired"
    using coD(3) [of "spec_PodResourceOverride (cro_Spec c)"] by (auto simp: NewConfiguration_def Let_def)
  note accept = coD(2) ocD(1) cooperative_decode(1) [OF co, folded resource_of.simps(1) [of desired]]
  obtain x w2 where got: "(case api_ConfigMap_Get ?A ?ns (configuration_Name ?v) w of (Inr x, w1) \<Rightarrow> (Inr x, w1)
        | (Inl err, w1) \<Rightarrow> if \<not> IsNotFound err then (Inl err, w1)
            else typed_Ensure ?L ?A ''configmaps'' (lib_AsConfigMap ?L) (RtConfigMap desired) w1) = (Inr x, w2)"
    using get_or_ensure_succeeds [where x = "RtConfigMap desired", unfolded resource_of.simps,
        OF configmap_reads [OF ocD(2)] accept [unfolded resource_of.simps]] by blast
  obtain y w3 where ens: "typed_Ensure ?L ?A ''configmaps'' (lib_AsConfigMap ?L) (RtConfigMap desired) w2 = (Inr y, w3)"
    using typed_Ensure_succeeds [OF accept, unfolded resource_of.simps] by blast
  obtain ref ref' where "GetReference (lib_ObjectKinds ?L) GoConfigMap x = Inr ref"
    "GetReference (lib_ObjectKinds ?L) GoConfigMap y = Inr ref'" using coD(4) by metis
  with ens show ?thesis
    unfolding configurationHandler_Handle_def Let_def desired typed_ensurers sum.case got prod.case by auto
qed

lemma service_succeeds:
  assumes co: "cooperative opts view"
  shows "\<exists>c' w'. serviceHandler_Handle opts c w = (handle_ok c', w')"
proof -
  let ?L = "opt_lib opts" and ?A = "opt_api opts" and ?v = "opt_Asset opts" and ?ns = "WebhookNamespace (opt_OperandContext opts)"
  let ?desired = "ControllerSetter (service_New ?v) c"
  note coD = cooperativeD [OF co] and ocD = operand_clusterD [OF cooperativeD(1) [OF co]]
  obtain dec where "\<forall>ns n. reads view (api_Secret_Get ?A ns n) dec (''secrets'', ns, n)" by (rule secret_reads [OF ocD(2)])
  then have rd: "reads view (api_Secret_Get ?A ns n) dec (''secrets'', ns, n)" for ns n by blast
  obtain a w1 where get: "api_Secret_Get ?A ?ns (serviceServingSecret_Name ?v) w = (a, w1)"
    by (cases "api_Secret_Get ?A ?ns (serviceServingSecret_Name ?v) w")
  obtain w3 where secret: "(case a of Inr secret \<Rightarrow>
        if secret_is_old secret (service_Name ?v)
        then (case api_Secret_Delete ?A ?ns (serviceServingSecret_Name ?v) w1 of
            (Some err, w2) \<Rightarrow> (Inl (NewInstallReadinessError InternalError (Some err)), w2) | (None, w2) \<Rightarrow> (Inr (), w2))
        else (Inr (), w1)
      | Inl err \<Rightarrow> if \<not> IsNotFound err then (Inl (NewInstallReadinessError CertNotAvailable (Some err)), w1) else (Inr (), w1))
      = (Inr (), w3)"
  proof (cases a)
    case (Inl e)
    with get coD(5) that [of w1] show thesis by auto
  next
    case (Inr x)
    with reads_Inr [OF rd get [unfolded Inr]] have "fst (api_Secret_Delete ?A ?ns (serviceServingSecret_Name ?v) w1) = None"
      by (intro coD(6)) (auto simp: holds_at_def)
    with Inr that show thesis
      by (cases "api_Secret_Delete ?A ?ns (serviceServingSecret_Name ?v) w1"; cases "secret_is_old x (service_Name ?v)") auto
  qed
  obtain x w4 where got: "(case api_Service_Get ?A ?ns (service_Name ?v) w3 of (Inr x, w1) \<Rightarrow> (Inr x, w1)
        | (Inl err, w1) \<Rightarrow> if \<not> IsNotFound err then (Inl err, w1)
            else typed_Ensure ?L ?A ''services'' (lib_AsService ?L) (RtService ?desired) w1) = (Inr x, w4)"
    using get_or_ensure_succeeds [where x = "RtService ?desired", unfolded resource_of.simps,
        OF service_reads [OF ocD(2)] coD(2) ocD(1) cooperative_decode(2) [OF co]] by blast
  obtain ref where "GetReference (lib_ObjectKinds ?L) GoService x = Inr ref" using coD(4) by metis
  then show ?thesis
    unfolding serviceHandler_Handle_def Let_def typed_ensurers get prod.case secret sum.case got by auto
qed

lemma webhook_succeeds:
  assumes co: "cooperative opts view"
  shows "\<exists>c' w'. webhookConfigurationHandler_Handle opts c w = (handle_ok c', w')"
proof -
  let ?L = "opt_lib opts" and ?A = "opt_api opts" and ?v = "opt_Asset opts"
  let ?desired = "ControllerSetter (mutatingWebhookConfiguration_New ?v) c"
  note coD = cooperativeD [OF co] and ocD = operand_clusterD [OF cooperativeD(1) [OF co]]
  obtain x w1 where got: "(case api_MWC_Get ?A (mutatingWebhookConfiguration_Name ?v) w of (Inr x, w1) \<Rightarrow> (Inr x, w1)
        | (Inl err, w1) \<Rightarrow> if \<not> IsNotFound err then (Inl err, w1)
            else typed_Ensure ?L ?A ''mutatingwebhookconfigurations'' (lib_AsMutatingWebhookConfiguration ?L)
              (RtMutatingWebhookConfiguration ?desired) w1) = (Inr x, w1)"
    using get_or_ensure_succeeds [where x = "RtMutatingWebhookConfiguration ?desired", unfolded resource_of.simps,
        OF webhook_reads [OF ocD(2)] coD(2) ocD(1) cooperative_decode(5) [OF co]] by blast
  obtain ref where "GetReference (lib_ObjectKinds ?L) GoMutatingWebhookConfiguration x = Inr ref" using coD(4) by metis
  then show ?thesis
    unfolding webhookConfigurationHandler_Handle_def Let_def typed_ensurers got prod.case sum.case by auto
qed

lemma binding_succeeds:
  assumes co: "cooperative opts view"
  shows "\<exists>c' w'. validatingAdmissionPolicyHandler_binding opts c w = (handle_ok c', w')"
proof -
  let ?L = "opt_lib opts" and ?A = "opt_api opts" and ?v = "opt_Asset opts"
  let ?desired = "ControllerSetter (validatingAdmissionPolicyBinding_New ?v) c"
  note coD = cooperativeD [OF co] and ocD = operand_clusterD [OF cooperativeD(1) [OF co]]
  obtain x w1 where got: "(case api_VAPB_Get ?A validatingAdmissionPolicyName w of (Inr x, w1) \<Rightarrow> (Inr x, w1)
        | (Inl err, w1) \<Rightarrow> if \<not> IsNotFound err then (Inl err, w1)
            else typed_Ensure ?L ?A ''validatingadmissionpolicybindings'' (lib_AsValidatingAdmissionPolicyBinding ?L)
              (RtValidatingAdmissionPolicyBinding ?desired) w1) = (Inr x, w1)"
    using get_or_ensure_succeeds [where x = "RtValidatingAdmissionPolicyBinding ?desired", unfolded resource_of.simps,
        OF binding_reads [OF ocD(2)] coD(2) ocD(1) cooperative_decode(7) [OF co]] by blast
  obtain ref where "GetReference (lib_ObjectKinds ?L) GoValidatingAdmissionPolicyBinding x = Inr ref" using coD(4) by metis
  then show ?thesis
    unfolding validatingAdmissionPolicyHandler_binding_def Let_def typed_ensurers got prod.case sum.case by auto
qed

lemma policy_succeeds:
  assumes co: "cooperative opts view"
  shows "\<exists>c' w'. validatingAdmissionPolicyHandler_Handle opts c w = (handle_ok c', w')"
proof -
  let ?L = "opt_lib opts" and ?A = "opt_api opts" and ?v = "opt_Asset opts"
  let ?desired = "ControllerSetter (validatingAdmissionPolicy_New ?v) c"
  note coD = cooperativeD [OF co] and ocD = operand_clusterD [OF cooperativeD(1) [OF co]]
  obtain x w1 where got: "(case api_VAP_Get ?A validatingAdmissionPolicyName w of (Inr x, w1) \<Rightarrow> (Inr x, w1)
        | (Inl err, w1) \<Rightarrow> if \<not> IsNotFound err then (Inl err, w1)
            else typed_Ensure ?L ?A ''validatingadmissionpolicies'' (lib_AsValidatingAdmissionPolicy ?L)
              (RtValidatingAdmissionPolicy ?desired) w1) = (Inr x, w1)"
    using get_or_ensure_succeeds [where x = "RtValidatingAdmissionPolicy ?desired", unfolded resource_of.simps,
        OF policy_reads [OF ocD(2)] coD(2) ocD(1) cooperative_decode(6) [OF co]] by blast
  obtain ref where "GetReference (lib_ObjectKinds ?L) GoValidatingAdmissionPolicy x = Inr ref" using coD(4) by metis
  then show ?thesis
    unfolding validatingAdmissionPolicyHandler_Handle_def Let_def typed_ensurers got prod.case sum.case
    using binding_succeeds [OF co] by simp
qed

lemma api_service_succeeds:
  assumes co: "cooperative opts view"
  shows "\<exists>c' w'. apiServiceHandler_Handle opts c w = (handle_ok c', w')"
proof -
  let ?L = "opt_lib opts" and ?A = "opt_api opts" and ?v = "opt_Asset opts"
  let ?desired = "ControllerSetter (apiservice_New ?v) c" and ?i = "(''apiservices'', [], apiservice_Name (opt_Asset opts))"
  note coD = cooperativeD [OF co] and ocD = operand_clusterD [OF cooperativeD(1) [OF co]]
  obtain a w1 where get: "api_APIService_Get ?A (apiservice_Name ?v) w = (a, w1)"
    by (cases "api_APIService_Get ?A (apiservice_Name ?v) w")
  obtain found where found: "(case a of
        Inl err \<Rightarrow> if \<not> IsNotFound err then (Inl (NewInstallReadinessError AdmissionWebhookNotAvailable (Some err)), w1) else (Inr None, w1)
      | Inr None \<Rightarrow> (Inl (NewInstallReadinessError InternalError None), w1)
      | Inr (Some object) \<Rightarrow> (Inr (if not_owned_by object c then None else Some object), w1)) = (Inr found, w1)"
  proof (cases "cl_objects (view w) ?i")
    case None
    with apiservice_reads [OF ocD(2), unfolded reads_def, THEN spec, of "apiservice_Name ?v" w] get that [of None]
    show thesis by (auto split: sum.splits)
  next
    case (Some u)
    with cooperative_decode(4) [OF co] obtain x where "lib_AsAPIService ?L u = Inr x" unfolding stored_decode_def by blast
    with apiservice_reads [OF ocD(2), unfolded reads_def, THEN spec, of "apiservice_Name ?v" w] get Some
    have "a = Inr (Some (kindless x))" by simp
    with that show thesis by simp
  qed
  obtain x w2 where ens: "typed_Ensure ?L ?A ''apiservices'' (lib_AsAPIService ?L) (RtAPIService ?desired) w1 = (Inr x, w2)"
    using typed_Ensure_succeeds [where x = "RtAPIService ?desired", unfolded resource_of.simps,
        OF coD(2) ocD(1) cooperative_decode(4) [OF co]] by blast
  obtain y w3 where y: "(case found of None \<Rightarrow> typed_Ensure ?L ?A ''apiservices'' (lib_AsAPIService ?L) (RtAPIService ?desired) w1
      | Some object \<Rightarrow> (Inr object, w1)) = (Inr y, w3)" using ens by (cases found) auto
  obtain ref where "GetReference (lib_ObjectKinds ?L) GoAPIService y = Inr ref" using coD(4) by metis
  then show ?thesis
    unfolding apiServiceHandler_Handle_def Let_def typed_ensurers get prod.case found sum.case y by auto
qed

section \<open>The deployment\<close>

lemma rbac_New_resource_of: "item \<in> set (rbac_New v) \<Longrightarrow> rbac_Resource item = resource_of (runtime_SetController (rbac_Object item) c)"
  by (auto simp: rbac_New_def)

lemma EnsureRBAC_items_succeeds:
  assumes "accepts L A" and "\<And>item. item \<in> set items \<Longrightarrow> rbac_Resource item = resource_of (runtime_SetController (rbac_Object item) c)"
  shows "\<exists>w'. EnsureRBAC_items L A items c w = (None, w')"
  using assms(2)
proof (induction items arbitrary: w)
  case (Cons item items)
  obtain u w1 where "client_Ensure L A (rbac_Resource item) (runtime_SetController (rbac_Object item) c) w = (Inr u, w1)"
    using client_Ensure_succeeds [OF assms(1)] Cons.prems [of item] by (metis list.set_intros(1))
  moreover obtain w' where "EnsureRBAC_items L A items c w1 = (None, w')" using Cons.IH Cons.prems by auto
  ultimately show ?case by (simp add: Let_def)
qed simp

lemma deploy_Ensure_succeeds:
  assumes co: "cooperative opts view"
  shows "\<exists>d w'. deploymentHandler_Ensure opts c args w = (Inr d, w')"
proof -
  let ?L = "opt_lib opts" and ?A = "opt_api opts" and ?v = "opt_Asset opts"
  note coD = cooperativeD [OF co] and ocD = operand_clusterD [OF cooperativeD(1) [OF co]]
  obtain del w1 where del: "api_MWC_Delete ?A (mutatingWebhookConfiguration_Name ?v) w = (del, w1)"
    by (cases "api_MWC_Delete ?A (mutatingWebhookConfiguration_Name ?v) w")
  with webhook_deletes [OF ocD(3), unfolded deletes_def, THEN spec, of "mutatingWebhookConfiguration_Name ?v" w]
    coD(7) [of w "mutatingWebhookConfiguration_Name ?v"] have "del = None \<or> IsNotFound_opt del"
    by (cases "cl_objects (view w) (''mutatingwebhookconfigurations'', [], mutatingWebhookConfiguration_Name ?v)") auto
  moreover obtain w2 where "EnsureRBAC opts c w1 = (None, w2)"
    using EnsureRBAC_items_succeeds [OF coD(2), of "rbac_New ?v" c w1] rbac_New_resource_of [of _ ?v c]
    unfolding EnsureRBAC_def by blast
  ultimately show ?thesis
    using del typed_Ensure_succeeds [OF coD(2) ocD(1), of "RtDeployment x" "lib_AsDeployment ?L" w2 for x,
        unfolded resource_of.simps, OF cooperative_decode(3) [OF co]]
    by (auto simp: deploymentHandler_Ensure_def deploy_Ensure_def typed_ensurers Let_def)
qed

lemma deployment_succeeds:
  assumes co: "cooperative opts view"
    and no_daemonset: "cl_objects (view w) (''daemonsets'', v_Namespace (opt_Asset opts), daemonset_Name (opt_Asset opts)) = None"
  shows "\<exists>c' w'. deploymentHandler_Handle opts c w = (handle_ok c', w')"
proof -
  let ?L = "opt_lib opts" and ?A = "opt_api opts" and ?v = "opt_Asset opts" and ?ns = "WebhookNamespace (opt_OperandContext opts)"
  note coD = cooperativeD [OF co] and ocD = operand_clusterD [OF cooperativeD(1) [OF co]]
  have finish: "\<exists>c' w'. deploymentHandler_finish opts c args found u = (handle_ok c', w')" for args found u
  proof -
    obtain d w1 where d: "(if needs_ensure ?v c args found then deploymentHandler_Ensure opts c args u else (Inr (the found), u)) = (Inr d, w1)"
      using deploy_Ensure_succeeds [OF co, of c args u] by (cases "needs_ensure ?v c args found") auto
    obtain ref where "GetReference (lib_ObjectKinds ?L) GoDeployment d = Inr ref" using coD(4) by metis
    then show ?thesis unfolding deploymentHandler_finish_def d by auto
  qed
  obtain e w1 where del: "api_DaemonSet_Delete ?A (v_Namespace ?v) (daemonset_Name ?v) w = (e, w1)"
    by (cases "api_DaemonSet_Delete ?A (v_Namespace ?v) (daemonset_Name ?v) w")
  with daemonset_deletes [OF ocD(3), unfolded deletes_def, THEN spec, of "v_Namespace ?v" "daemonset_Name ?v" w] no_daemonset
  have e: "IsNotFound_opt e" "e \<noteq> None" by (auto simp: IsNotFound_opt_def split: option.splits)
  obtain f w2 where fetch: "tlsprofile_Fetch ?L ?A w1 = (f, w2)" by (cases "tlsprofile_Fetch ?L ?A w1")
  obtain a w3 where get: "api_Deployment_Get ?A ?ns (deployment_Name ?v) w2 = (a, w3)"
    by (cases "api_Deployment_Get ?A ?ns (deployment_Name ?v) w2")
  have found: "IsNotFound err" if "a = Inl err" for err
  proof (cases "cl_objects (view w2) (''deployments'', ?ns, deployment_Name ?v)")
    case None
    with reads_Inl(2) [OF deployment_reads [OF ocD(2)] get [unfolded that]] show ?thesis by blast
  next
    case (Some u)
    with cooperative_decode(3) [OF co] obtain x where "lib_AsDeployment ?L u = Inr x" unfolding stored_decode_def by blast
    with deployment_reads [OF ocD(2), unfolded reads_def, THEN spec, of ?ns "deployment_Name ?v" w2] get Some that show ?thesis by simp
  qed
  with del e fetch get finish show ?thesis
    by (cases a) (auto simp: deploymentHandler_Handle_def deploy_Get_def Let_def)
qed

section \<open>A whole reconcile\<close>

text \<open>The stored deployment has been rolled out.\<close>

definition rolled_out :: "'w Options \<Rightarrow> cluster \<Rightarrow> bool" where
  "rolled_out opts K \<longleftrightarrow> holds_at K (''deployments'', WebhookNamespace (opt_OperandContext opts), deployment_Name (opt_Asset opts))
     (typed (lib_AsDeployment (opt_lib opts))) (\<lambda>d. fst (GetDeploymentStatus d False))"

text \<open>The handlers up to the deployment.\<close>

lemma chain_reaches_deployment:
  assumes co: "cooperative opts view" and valid: "spec_valid (cro_Spec c0)"
    and no_daemonset: "cl_objects (view w0) (''daemonsets'', v_Namespace (opt_Asset opts), daemonset_Name (opt_Asset opts)) = None"
  shows "\<exists>c w. chain_steps (take 5 (NewReconciler_handlers opts)) c0 w0 c w \<and> cl_resource (view w) = cl_resource (view w0)
    \<and> (\<exists>d. holds_at (view w) (''deployments'', WebhookNamespace (opt_OperandContext opts), deployment_Name (opt_Asset opts))
         (typed (lib_AsDeployment (opt_lib opts))) ((=) d))"
proof -
  note oc = cooperativeD(1) [OF co]
  obtain s1 w1 where r1: "availabilityHandler_Handle opts c0 w0 = (handle_ok (set_Status s1 c0), w1)"
    using availabilityHandler_returns [of opts c0 w0] by (auto simp: handle_ok_def)
  let ?c1 = "set_Status s1 c0"
  from valid have r2: "validationHandler_Handle ?c1 w1 = (handle_ok ?c1, w1)"
    by (simp add: validationHandler_Handle_def spec_valid_def handle_ok_def Validate_None_iff [THEN iffD2])
  obtain c3 w3 where r3: "configurationHandler_Handle opts ?c1 w1 = (handle_ok c3, w3)" using configuration_succeeds [OF co] by blast
  obtain c4 w4 where r4: "serviceHandler_Handle opts c3 w3 = (handle_ok c4, w4)" using service_succeeds [OF co] by blast
  note v1 = availability_settles(1) [OF oc r1 [unfolded handle_ok_def]]
  have ch: "changed [''configmaps'', ''secrets'', ''services''] (view w0) (view w4)"
    using changed_trans [OF changed_mono [OF configuration_settles(1) [OF oc r3 [unfolded handle_ok_def]]]
        changed_mono [OF service_settles(1) [OF oc r4 [unfolded handle_ok_def]]]] v1 by simp
  with no_daemonset have ds: "cl_objects (view w4) (''daemonsets'', v_Namespace (opt_Asset opts), daemonset_Name (opt_Asset opts)) = None"
    by (simp add: changed_entry)
  obtain c5 w5 where r5: "deploymentHandler_Handle opts c4 w4 = (handle_ok c5, w5)" using deployment_succeeds [OF co ds] by blast
  note dep = deployment_settles [OF oc ds r5 [unfolded handle_ok_def]]
  have "chain_steps (take 5 (NewReconciler_handlers opts)) c0 w0 c5 w5"
    using r1 r2 r3 r4 r5 by (simp add: NewReconciler_handlers_def handle_ok_def)
  moreover have "cl_resource (view w5) = cl_resource (view w0)" using changed_resource [OF ch] changed_resource [OF dep(1)] by simp
  ultimately show ?thesis using dep(2) unfolding holds_at_def by blast
qed

text \<open>The handlers from the readiness of the deployment on, when it is rolled out.\<close>

lemma chain_completes:
  assumes co: "cooperative opts view" and ready: "rolled_out opts (view w)"
  shows "\<exists>c' w'. chain_steps (drop 5 (NewReconciler_handlers opts)) c w c' w'"
proof -
  note oc = cooperativeD(1) [OF co]
  obtain r w1 where av: "deploy_IsAvailable (opt_api opts) (opt_OperandContext opts) (opt_Asset opts) False w = (r, w1)"
    by (cases "deploy_IsAvailable (opt_api opts) (opt_OperandContext opts) (opt_Asset opts) False w")
  from deploy_IsAvailable_stored(2) [OF oc av ready [unfolded rolled_out_def]] have "fst r" by auto
  with av have "\<exists>c6 w6. deploymentReadyHandler_Handle opts c w = (handle_ok c6, w6)"
    by (cases r; cases "WithInstallReady (opt_api opts) (cro_Status c) w1") (auto simp: deploymentReadyHandler_Handle_def Let_def)
  then obtain c6 w6 where r6: "deploymentReadyHandler_Handle opts c w = (handle_ok c6, w6)" by blast
  obtain c7 w7 where r7: "apiServiceHandler_Handle opts c6 w6 = (handle_ok c7, w7)" using api_service_succeeds [OF co] by blast
  obtain c8 w8 where r8: "webhookConfigurationHandler_Handle opts c7 w7 = (handle_ok c8, w8)" using webhook_succeeds [OF co] by blast
  obtain c9 w9 where r9: "validatingAdmissionPolicyHandler_Handle opts c8 w8 = (handle_ok c9, w9)" using policy_succeeds [OF co] by blast
  obtain s w10 where "availabilityHandler_Handle opts c9 w9 = (handle_ok (set_Status s c9), w10)"
    using availabilityHandler_returns [of opts c9 w9] by (auto simp: handle_ok_def)
  with r6 r7 r8 r9 show ?thesis by (auto simp: NewReconciler_handlers_def handle_ok_def)
qed

lemma chain_waits:
  assumes oc: "operand_cluster opts view"
    and d: "holds_at (view w) (''deployments'', WebhookNamespace (opt_OperandContext opts), deployment_Name (opt_Asset opts))
         (typed (lib_AsDeployment (opt_lib opts))) ((=) d)" and unready: "\<not> rolled_out opts (view w)"
  shows "\<exists>e w'. deploymentReadyHandler_Handle opts c w = (handle_err c (InstallReadinessError DeploymentNotReady (Some e)), w')
    \<and> view w' = view w"
proof -
  obtain r w1 where av: "deploy_IsAvailable (opt_api opts) (opt_OperandContext opts) (opt_Asset opts) False w = (r, w1)"
    by (cases "deploy_IsAvailable (opt_api opts) (opt_OperandContext opts) (opt_Asset opts) False w")
  note stored = deploy_IsAvailable_stored [OF oc av]
  from stored(3) unready have "\<not> fst r" unfolding rolled_out_def by blast
  with av stored(1) show ?thesis
    by (auto simp: deploymentReadyHandler_Handle_def NewInstallReadinessError_def Let_def split: prod.splits)
qed

lemma chain_steps_append:
  "chain_steps gs c0 w0 c1 w1 \<Longrightarrow> chain_steps hs c1 w1 c w \<Longrightarrow> chain_steps (gs @ hs) c0 w0 c w"
  by (induction gs arbitrary: c0 w0) (auto simp: chain_steps_Cons simp del: chain_steps.simps(2))

lemma chain_steps_loop:
  assumes "chain_steps hs c0 w0 c w" and "\<And>h. h \<in> set hs \<Longrightarrow> handler_contract h"
  shows "HandlerChain_loop A hs c0 (Some c0) empty_Result w0 = (Returned (Some c, empty_Result, None), w)"
  using assms
proof (induction hs arbitrary: c0 w0)
  case (Cons h hs)
  then obtain c1 r w1 where run: "h c0 w0 = (Returned (c1, r, None), w1)" and steps: "chain_steps hs c1 w1 c w"
    by (auto simp: chain_steps_Cons simp del: chain_steps.simps)
  from Cons.prems(2) have "handler_contract h" by simp
  from handler_contract.handle_no_requeue [OF this run] have "r = empty_Result" .
  with run Cons.IH [OF steps] Cons.prems(2) show ?case by (simp add: empty_Result_def)
qed simp

lemma prepared_keeps:
  assumes "keeps view (api_NewAddr A)"
  shows "view (snd (ClusterResourceOverride_copy (api_NewAddr A) original w)) = view w"
proof -
  have "view (snd (DeepCopy_Tolerations (api_NewAddr A) ts w)) = view w" for ts
    using assms
  proof (induction ts arbitrary: w)
    case (Cons t ts)
    show ?case
    proof (cases "tol_TolerationSeconds t")
      case None
      with Cons show ?thesis by (simp add: split_beta)
    next
      case (Some p)
      with Cons.IH [OF Cons.prems, of "snd (api_NewAddr A w)"] Cons.prems show ?thesis by (simp add: split_beta keeps_def)
    qed
  qed simp
  then show ?thesis by (simp add: ClusterResourceOverride_copy_def split_beta Let_def)
qed

text \<open>The chain either completes or stops at the deployment that is not rolled out.\<close>

lemma chain_progress:
  fixes opts :: "'w Options"
  assumes co: "cooperative opts view" and valid: "spec_valid (cro_Spec c0)"
    and no_daemonset: "cl_objects (view w0) (''daemonsets'', v_Namespace (opt_Asset opts), daemonset_Name (opt_Asset opts)) = None"
  shows "\<exists>c err w. HandlerChain_Handle (opt_api opts) (NewReconciler_handlers opts) c0 w0 = (Returned (Some c, empty_Result, err), w)
    \<and> cl_resource (view w) = cl_resource (view w0)
    \<and> (if rolled_out opts (view w) then err = None else \<exists>e. err = Some (InstallReadinessError DeploymentNotReady (Some e)))"
proof -
  let ?hs = "NewReconciler_handlers opts" and ?A = "opt_api opts"
  note oc = cooperativeD(1) [OF co]
  from chain_reaches_deployment [OF co valid no_daemonset] obtain c5 w5 d where
    steps: "chain_steps (take 5 ?hs) c0 w0 c5 w5" and kept: "cl_resource (view w5) = cl_resource (view w0)"
    and d: "holds_at (view w5) (''deployments'', WebhookNamespace (opt_OperandContext opts), deployment_Name (opt_Asset opts))
         (typed (lib_AsDeployment (opt_lib opts))) ((=) d)" by blast
  have start: "HandlerChain_Handle ?A ?hs c0 w0 = HandlerChain_loop ?A ?hs c0 (Some c0) empty_Result w0"
    unfolding HandlerChain_Handle_def by (rule chain_loop_current [OF cro_chain.nonempty])
  show ?thesis
  proof (cases "rolled_out opts (view w5)")
    case True
    from chain_completes [OF co True] obtain c w where "chain_steps (drop 5 ?hs) c5 w5 c w" by blast
    with steps have all: "chain_steps ?hs c0 w0 c w" using chain_steps_append by (metis append_take_drop_id)
    from chain_settled [OF oc all no_daemonset] have "settled opts view (view w) c" "cl_resource (view w) = cl_resource (view w0)" by blast+
    moreover from this(1) have "rolled_out opts (view w)" by (auto simp: settled_def rolled_out_def Let_def elim!: holds_at_mono)
    moreover from chain_steps_loop [OF all cro_chain.handlers]
    have "HandlerChain_Handle ?A ?hs c0 w0 = (Returned (Some c, empty_Result, None), w)" unfolding start .
    ultimately show ?thesis by auto
  next
    case False
    from chain_waits [OF oc d False] obtain e w6 where
      wait: "deploymentReadyHandler_Handle opts c5 w5 = (handle_err c5 (InstallReadinessError DeploymentNotReady (Some e)), w6)"
      and w6: "view w6 = view w5" by blast
    let ?e = "InstallReadinessError DeploymentNotReady (Some e)"
    have hs: "?hs = take 5 ?hs @ deploymentReadyHandler_Handle opts # drop 6 ?hs" by (simp add: NewReconciler_handlers_def)
    have contracts: "g \<in> set (take 5 ?hs) \<Longrightarrow> handler_contract g" for g using cro_chain.handlers by (meson in_set_takeD)
    obtain t w7 where now: "api_Now ?A w6 = (t, w7)" by (cases "api_Now ?A w6")
    then obtain st where we: "WithError ?A (Some ?e) (cro_Status c5) w6 = (Returned st, w7)" by (simp add: WithError_def)
    from Now_keeps [OF oc now] w6 have w7: "view w7 = view w5" by simp
    have "HandlerChain_Handle ?A ?hs c0 w0 = (Returned (Some (set_Status st c5), empty_Result, Some ?e), w7)"
      using chain_loop_stops [where h = "deploymentReadyHandler_Handle opts", OF steps contracts wait [unfolded handle_err_def], of ?A "drop 6 ?hs" "Some c0" empty_Result]
      unfolding start hs [symmetric] by (simp add: we)
    with False kept w7 show ?thesis by auto
  qed
qed

lemma Reconcile_progress:
  assumes co: "cooperative opts view"
    and stored: "cl_resource (view w) (ResourceName (opt_OperandContext opts)) = Some original"
    and valid: "spec_valid (cro_Spec original)"
    and no_daemonset: "cl_objects (view w) (''daemonsets'', v_Namespace (opt_Asset opts), daemonset_Name (opt_Asset opts)) = None"
  shows "\<exists>err w'. CRO_Reconcile opts (ResourceName (opt_OperandContext opts)) w = (Returned (empty_Result, err), w')
    \<and> (if rolled_out opts (view w') then err = None else \<exists>e. err = Some (InstallReadinessError DeploymentNotReady (Some e)))"
proof -
  let ?A = "opt_api opts" and ?n = "ResourceName (opt_OperandContext opts)"
  note ocD = operand_clusterD [OF cooperativeD(1) [OF co]]
  obtain a w1 where get: "api_CRO_Get ?A ?n w = (a, w1)" by (cases "api_CRO_Get ?A ?n w")
  from reads_storedD(3) [OF ocD(2), unfolded reads_resource_def, THEN spec, of ?n, THEN spec, of w] stored get
  have a: "a = Inr original" and w1: "view w1 = view w" and name: "om_Name (o_Meta original) = ?n" by auto
  let ?c0 = "prepared ?A original w1" and ?w2 = "snd (ClusterResourceOverride_copy (api_NewAddr ?A) original w1)"
  have w2: "view ?w2 = view w" using prepared_keeps [OF reads_storedD(2) [OF ocD(2)]] w1 by simp
  from chain_progress [OF co, of ?c0 ?w2] valid no_daemonset w2 obtain c err w3 where
    chain: "HandlerChain_Handle ?A (NewReconciler_handlers opts) ?c0 ?w2 = (Returned (Some c, empty_Result, err), w3)"
    and kept: "cl_resource (view w3) = cl_resource (view w)"
    and err: "if rolled_out opts (view w3) then err = None else \<exists>e. err = Some (InstallReadinessError DeploymentNotReady (Some e))"
    by (auto simp: prepared_valid)
  from cro_chain.chain_result [OF chain] have same: "same_object c ?c0" by simp
  then have n: "om_Name (o_Meta c) = ?n" by (simp add: same_object_def prepared_facts name)
  obtain w4 where upd: "StatusUpdater_Update ?A original (Some c) w3 = (Returned None, w4)" and objs: "cl_objects (view w4) = cl_objects (view w3)"
  proof (cases "cro_Status original = cro_Status c")
    case True
    then show thesis by (intro that [of w3]) (simp_all add: StatusUpdater_Update_def)
  next
    case False
    obtain u w4 where put: "api_CRO_UpdateStatus ?A c w3 = (u, w4)" by (cases "api_CRO_UpdateStatus ?A c w3")
    with cooperativeD(8) [OF co, of w3 c] kept stored n have "u = None" by simp
    with put status_stored [OF ocD(3), of c w3 w4] False show thesis
      by (intro that [of w4]) (auto simp: StatusUpdater_Update_def cl_set_resource_def)
  qed
  from objs have "rolled_out opts (view w4) = rolled_out opts (view w3)" by (simp add: rolled_out_def holds_at_def)
  with err upd chain get a show ?thesis
    by (simp add: CRO_Reconcile_def reconciler_Reconcile_def Let_def prepared_def split_beta combine_errors_def)
qed

end
