(* ===== verification/ExampleStore.thy ===== *)
theory ExampleStore
  imports ExampleCluster ExampleJson Progress
begin

text \<open>
  A cluster that stores what is written, as a concrete world: a clock and the stored objects. Its
  converter keeps the metadata of an object; a patch carries the whole desired object, and every deployment
  counts as rolled out. The operand is installed from nothing in it.
\<close>

section \<open>Encoding the metadata\<close>

definition enc_map :: "go_map \<Rightarrow> json" where
  "enc_map m = JObject (map (\<lambda>(k, v). (k, JString v)) m)"

definition enc_flag :: "bool option \<Rightarrow> json" where
  "enc_flag b = (case b of None \<Rightarrow> JNull | Some x \<Rightarrow> JBool x)"

definition enc_owner :: "OwnerReference \<Rightarrow> json" where
  "enc_owner r = JObject [(''apiVersion'', JString (or_APIVersion r)), (''kind'', JString (or_Kind r)),
     (''name'', JString (or_Name r)), (''uid'', JString (or_UID r)),
     (''blockOwnerDeletion'', enc_flag (or_BlockOwnerDeletion r)), (''controller'', enc_flag (or_Controller r))]"

definition enc_object :: "runtime_object \<Rightarrow> Unstructured" where
  "enc_object x = [(''metadata'', JObject [(''name'', JString (om_Name (runtime_Meta x))),
     (''namespace'', JString (om_Namespace (runtime_Meta x))),
     (''annotations'', enc_map (om_Annotations (runtime_Meta x))),
     (''ownerReferences'', JList (map enc_owner (om_OwnerReferences (runtime_Meta x))))])]"

fun dec_string :: "json option \<Rightarrow> string" where
  "dec_string (Some (JString s)) = s"
| "dec_string _ = []"

fun dec_flag :: "json option \<Rightarrow> bool option" where
  "dec_flag (Some (JBool b)) = Some b"
| "dec_flag _ = None"

fun dec_owner :: "json \<Rightarrow> OwnerReference" where
  "dec_owner (JObject m) = \<lparr>or_APIVersion = dec_string (map_of m ''apiVersion''), or_Kind = dec_string (map_of m ''kind''),
     or_Name = dec_string (map_of m ''name''), or_UID = dec_string (map_of m ''uid''),
     or_BlockOwnerDeletion = dec_flag (map_of m ''blockOwnerDeletion''), or_Controller = dec_flag (map_of m ''controller'')\<rparr>"
| "dec_owner _ = \<lparr>or_APIVersion = [], or_Kind = [], or_Name = [], or_UID = [], or_BlockOwnerDeletion = None, or_Controller = None\<rparr>"

lemma dec_owner_enc [simp]: "dec_owner (enc_owner r) = r"
  by (simp add: enc_owner_def enc_flag_def split: option.split)

fun dec_map :: "(string \<times> json) list \<Rightarrow> go_map" where
  "dec_map [] = []"
| "dec_map ((k, JString v) # m) = (k, v) # dec_map m"
| "dec_map (_ # m) = dec_map m"

lemma dec_map_entry: "map_of m k = Some (JString v) \<Longrightarrow> map_of (dec_map m) k = Some v"
  by (induction m rule: dec_map.induct) (auto split: if_splits)

definition dec_annotations :: "Unstructured \<Rightarrow> go_map" where
  "dec_annotations u = (case NestedField (JObject u) [''metadata'', ''annotations''] of
     Inr (Some (JObject m)) \<Rightarrow> dec_map m | _ \<Rightarrow> [])"

definition dec_owners :: "Unstructured \<Rightarrow> OwnerReference list" where
  "dec_owners u = (case u_owners u of Some (JList l) \<Rightarrow> map dec_owner l | _ \<Rightarrow> [])"

lemma enc_map_entry: "map_of m k = Some v \<Longrightarrow> map_of (map (\<lambda>(k, v). (k, JString v)) m) k = Some (JString v)"
  by (induction m) auto

lemma enc_object_fields:
  "u_GetName (enc_object x) = om_Name (runtime_Meta x)"
  "u_GetNamespace (enc_object x) = om_Namespace (runtime_Meta x)"
  "map_of (om_Annotations (runtime_Meta x)) k = Some v \<Longrightarrow> u_annotation (enc_object x) k = Some v"
  "u_owners (enc_object x) = Some (JList (map enc_owner (om_OwnerReferences (runtime_Meta x))))"
  by (simp_all add: enc_object_def enc_map_def u_GetName_def u_GetNamespace_def NestedString_def u_annotation_def
      u_owners_def enc_map_entry)

lemma dec_annotations_entry:
  "u_annotation u k = Some v \<Longrightarrow> go_get (dec_annotations u) k = v"
  by (auto simp: u_annotation_def dec_annotations_def go_get_def dec_map_entry split: option.splits json.splits sum.splits)

section \<open>The world\<close>

record store_world =
  sw_time :: int
  sw_cluster :: cluster

definition ex_store_lib :: lib where
  "ex_store_lib = ex_lib\<lparr>
     lib_ToUnstructured := (\<lambda>x. Inr (enc_object x)),
     lib_MarshalJSON := (\<lambda>u. Inr (print_object u)), lib_CreateTwoWayMergePatch := (\<lambda>a b x. Inr b),
     lib_ObjectKinds := (\<lambda>t. Inr [\<lparr>gvk_Group = [], gvk_Version = ''v1'', gvk_Kind = ''Kind''\<rparr>]),
     lib_AsDeployment := (\<lambda>u. Inr (ex_deployment\<lparr>o_Meta := (o_Meta ex_deployment)\<lparr>om_Annotations := dec_annotations u\<rparr>\<rparr>)),
     lib_AsAPIService := (\<lambda>u. let a = apiservice_New ex_v
       in Inr (a\<lparr>o_Meta := (o_Meta a)\<lparr>om_OwnerReferences := dec_owners u\<rparr>\<rparr>))\<rparr>"

text \<open>A resource is stored under its name.\<close>

definition sw_view :: "store_world \<Rightarrow> cluster" where
  "sw_view w = (sw_cluster w)\<lparr>cl_resource := (\<lambda>n. map_option (\<lambda>c. c\<lparr>o_Meta := (o_Meta c)\<lparr>om_Name := n\<rparr>\<rparr>)
     (cl_resource (sw_cluster w) n))\<rparr>"

definition sw_get :: "(Unstructured \<Rightarrow> error + 'x) \<Rightarrow> object_id \<Rightarrow> store_world \<Rightarrow> (error + 'x) \<times> store_world" where
  "sw_get dec i w = (case cl_objects (sw_cluster w) i of None \<Rightarrow> (Inl ex_not_found, w) | Some u \<Rightarrow> (dec u, w))"

definition sw_delete :: "object_id \<Rightarrow> store_world \<Rightarrow> error option \<times> store_world" where
  "sw_delete i w = (case cl_objects (sw_cluster w) i of None \<Rightarrow> (Some ex_not_found, w)
     | Some u \<Rightarrow> (None, w\<lparr>sw_cluster := cl_drop i (sw_cluster w)\<rparr>))"

definition ex_store_api :: "store_world api" where
  "ex_store_api = \<lparr>api_Now = (\<lambda>w. (sw_time w, w\<lparr>sw_time := sw_time w + 1\<rparr>)), api_NewAddr = (\<lambda>w. (0, w)),
     api_CRO_Get = (\<lambda>n w. (case cl_resource (sw_view w) n of None \<Rightarrow> Inl ex_not_found | Some c \<Rightarrow> Inr c, w)),
     api_CRO_UpdateStatus = (\<lambda>c w. (case cl_resource (sw_view w) (om_Name (o_Meta c)) of
        None \<Rightarrow> (Some ex_not_found, w)
      | Some old \<Rightarrow> (None, w\<lparr>sw_cluster := cl_set_resource (om_Name (o_Meta c)) (old\<lparr>cro_Status := cro_Status c\<rparr>) (sw_cluster w)\<rparr>))),
     api_RO_Get = (\<lambda>ns n w. (Inl ex_not_found, w)), api_RO_List = (\<lambda>ns w. (Inr [], w)),
     api_RO_UpdateStatus = (\<lambda>ns r w. (None, w)),
     api_Namespace_Get = (\<lambda>n w. (Inr \<lparr>ns_Name = n, ns_Labels = None\<rparr>, w)),
     api_ConfigMap_Get = (\<lambda>ns n. sw_get (typed (lib_AsConfigMap ex_store_lib)) (''configmaps'', ns, n)),
     api_Secret_Get = (\<lambda>ns n. sw_get (\<lambda>u. Inr ex_secret) (''secrets'', ns, n)),
     api_Secret_Delete = (\<lambda>ns n. sw_delete (''secrets'', ns, n)),
     api_Service_Get = (\<lambda>ns n. sw_get (typed (lib_AsService ex_store_lib)) (''services'', ns, n)),
     api_Deployment_Get = (\<lambda>ns n. sw_get (typed (lib_AsDeployment ex_store_lib)) (''deployments'', ns, n)),
     api_DaemonSet_Delete = (\<lambda>ns n. sw_delete (''daemonsets'', ns, n)),
     api_APIService_Get = (\<lambda>n. sw_get (\<lambda>u. map_sum id Some (typed (lib_AsAPIService ex_store_lib) u)) (''apiservices'', [], n)),
     api_MWC_Get = (\<lambda>n. sw_get (typed (lib_AsMutatingWebhookConfiguration ex_store_lib)) (''mutatingwebhookconfigurations'', [], n)),
     api_MWC_Delete = (\<lambda>n. sw_delete (''mutatingwebhookconfigurations'', [], n)),
     api_VAP_Get = (\<lambda>n. sw_get (typed (lib_AsValidatingAdmissionPolicy ex_store_lib)) (''validatingadmissionpolicies'', [], n)),
     api_VAPB_Get = (\<lambda>n. sw_get (typed (lib_AsValidatingAdmissionPolicyBinding ex_store_lib)) (''validatingadmissionpolicybindings'', [], n)),
     dyn_Create = (\<lambda>gvr ns u w. let i = (gvr_Resource gvr, ns, u_GetName u)
       in if cl_objects (sw_cluster w) i = None then (Inr u, w\<lparr>sw_cluster := cl_put i u (sw_cluster w)\<rparr>) else (Inl ex_exists, w)),
     dyn_Get = (\<lambda>gvr ns n. sw_get Inr (gvr_Resource gvr, ns, n)),
     dyn_Patch = (\<lambda>gvr ns n b w. let i = (gvr_Resource gvr, ns, n); c = parse_object b
       in if b = [] then (Inl (ErrorString ''empty patch''), w)
          else if cl_objects (sw_cluster w) i = None then (Inl ex_not_found, w)
          else (Inr c, w\<lparr>sw_cluster := cl_put i c (sw_cluster w)\<rparr>))\<rparr>"

definition ex_store_opts :: "store_world Options" where
  "ex_store_opts = \<lparr>opt_lib = ex_store_lib, opt_api = ex_store_api, opt_OperandContext = ex_ctx, opt_Asset = ex_v,
     opt_IsStandalone = True, opt_tolerationSeconds = 0\<rparr>"

text \<open>The resource is there, and no other object.\<close>

definition ex_empty :: store_world where
  "ex_empty = \<lparr>sw_time = 0, sw_cluster = \<lparr>cl_objects = (\<lambda>i. None), cl_resource = [''cluster'' \<mapsto> ex_cro]\<rparr>\<rparr>"

lemma ex_store_installs:
  "(case fst (CRO_Reconcile ex_store_opts ''cluster'' ex_empty) of Returned r \<Rightarrow> snd r = None | Panicked \<Rightarrow> False)"
  by code_simp

section \<open>It is a storing cluster\<close>

lemma ex_store_converts: "converts ex_store_lib"
  by (auto simp: converts_def ex_store_lib_def enc_object_fields dec_annotations_entry dec_owners_def Let_def comp_def)

lemma sw_view_objects [simp]: "cl_objects (sw_view w) = cl_objects (sw_cluster w)"
  by (simp add: sw_view_def)

lemma sw_get_reads: "reads sw_view (sw_get dec i) dec i"
  by (auto simp: reads_def sw_get_def ex_not_found_def split: option.split)

lemma sw_view_drop: "sw_view (w\<lparr>sw_cluster := cl_drop i (sw_cluster w)\<rparr>) = cl_drop i (sw_view w)"
  and sw_view_put: "sw_view (w\<lparr>sw_cluster := cl_put i u (sw_cluster w)\<rparr>) = cl_put i u (sw_view w)"
  and sw_view_time: "sw_view (w\<lparr>sw_time := t\<rparr>) = sw_view w"
  by (simp_all add: sw_view_def cl_drop_def cl_put_def)

lemma sw_view_resource:
  "sw_view (w\<lparr>sw_cluster := cl_set_resource n c (sw_cluster w)\<rparr>)
    = cl_set_resource n (c\<lparr>o_Meta := (o_Meta c)\<lparr>om_Name := n\<rparr>\<rparr>) (sw_view w)"
  by (auto simp: sw_view_def cl_set_resource_def fun_eq_iff)

lemma sw_delete_deletes: "deletes sw_view (sw_delete i) i"
  by (auto simp: deletes_def sw_delete_def sw_view_drop ex_not_found_def IsNotFound_opt_def split: option.split)

lemma ex_store_reads: "reads_stored ex_store_lib ex_store_api sw_view"
proof -
  have "reads_resource sw_view (api_CRO_Get ex_store_api)"
    by (auto simp: reads_resource_def ex_store_api_def ex_not_found_def sw_view_def split: option.split)
  moreover have "reads sw_view (dyn_Get ex_store_api APIServerGVR [] ''cluster'') Inr tls_id"
    using sw_get_reads [of Inr tls_id] by (simp add: ex_store_api_def APIServerGVR_def tls_id_def)
  moreover have "case dyn_Get ex_store_api gvr ns n w of
      (Inl e, w') \<Rightarrow> sw_view w' = sw_view w
    | (Inr u, w') \<Rightarrow> sw_view w' = sw_view w \<and> cl_objects (sw_view w) (gvr_Resource gvr, ns, n) = Some u" for gvr ns n w
    by (simp add: ex_store_api_def sw_get_def split: option.split)
  ultimately show ?thesis
    unfolding reads_stored_def
    by (auto simp: ex_store_api_def keeps_def sw_view_time sw_get_reads intro!: exI [of _ "\<lambda>u. Inr ex_secret"])
qed

lemma sw_view_name: "cl_resource (sw_view w) n = Some c \<Longrightarrow> om_Name (o_Meta c) = n"
  by (auto simp: sw_view_def)

lemma ex_store_patch: "PatchWithUnstructured ex_store_lib original modified x = Inr b \<longleftrightarrow> b = print_object modified"
  by (auto simp: PatchWithUnstructured_def ex_store_lib_def)

lemma ex_store_writes: "writes_stored ex_store_lib ex_store_api sw_view"
  by (auto simp: writes_stored_def ex_store_patch ex_store_api_def sw_delete_deletes sw_view_put
      sw_view_resource carries_def Let_def split: option.split)

lemma ex_store_operand: "operand_cluster ex_store_opts sw_view"
  using ex_store_converts ex_store_reads ex_store_writes
  by (simp add: operand_cluster_def storing_cluster_def ex_store_opts_def ex_v_def)

section \<open>It accepts what the operator sends\<close>

lemma ex_store_accepts: "accepts ex_store_lib ex_store_api"
  unfolding accepts_def
proof
  fix x
  have "accepted ex_store_lib ex_store_api x (enc_object x) w" for w
    by (cases "cl_objects (sw_cluster w) (resource_of x, u_GetNamespace (enc_object x), u_GetName (enc_object x))")
      (simp_all add: accepted_def ex_store_patch ex_store_api_def sw_get_def GetGVR_def ex_exists_def IsAlreadyExists_def Let_def)
  moreover have "lib_ToUnstructured ex_store_lib x = Inr (enc_object x)" by (simp add: ex_store_lib_def)
  ultimately show "\<exists>u. lib_ToUnstructured ex_store_lib x = Inr u \<and> (\<forall>w. accepted ex_store_lib ex_store_api x u w)" by blast
qed

lemma ex_store_cooperative: "cooperative ex_store_opts sw_view"
proof -
  have "stored_decode sw_view ''deployments'' (lib_AsDeployment ex_store_lib)"
    "stored_decode sw_view ''apiservices'' (lib_AsAPIService ex_store_lib)"
    "stored_decode sw_view r (lib_AsConfigMap ex_store_lib)" "stored_decode sw_view r (lib_AsService ex_store_lib)"
    "stored_decode sw_view r (lib_AsMutatingWebhookConfiguration ex_store_lib)"
    "stored_decode sw_view r (lib_AsValidatingAdmissionPolicy ex_store_lib)"
    "stored_decode sw_view r (lib_AsValidatingAdmissionPolicyBinding ex_store_lib)" for r
    by (simp_all add: stored_decode_def ex_store_lib_def ex_lib_def Let_def)
  moreover have "\<exists>b. lib_yaml_Marshal ex_store_lib p = Inr b" for p by (simp add: ex_store_lib_def ex_lib_def)
  moreover have "\<exists>g gs. lib_ObjectKinds ex_store_lib t = Inr (g # gs) \<and> \<not> gvk_Empty g" for t
    by (simp add: ex_store_lib_def gvk_Empty_def)
  moreover have "case fst (api_Secret_Get ex_store_api ns n w) of Inl e \<Rightarrow> IsNotFound e | Inr x \<Rightarrow> True" for ns n w
    by (simp add: ex_store_api_def sw_get_def ex_not_found_def split: option.split)
  moreover have "cl_objects (sw_view w) i \<noteq> None \<Longrightarrow> fst (sw_delete i w) = None" for i w
    by (auto simp: sw_delete_def)
  then have "cl_objects (sw_view w) (''secrets'', ns, n) \<noteq> None \<Longrightarrow> fst (api_Secret_Delete ex_store_api ns n w) = None"
    "cl_objects (sw_view w) (''mutatingwebhookconfigurations'', [], n) \<noteq> None \<Longrightarrow> fst (api_MWC_Delete ex_store_api n w) = None" for ns n w
    by (simp_all add: ex_store_api_def)
  moreover have "cl_resource (sw_view w) (om_Name (o_Meta c)) \<noteq> None \<Longrightarrow> fst (api_CRO_UpdateStatus ex_store_api c w) = None" for c w
    by (auto simp: ex_store_api_def)
  ultimately show ?thesis
    using ex_store_operand ex_store_accepts by (simp add: cooperative_def ex_store_opts_def Let_def)
qed

lemma ex_store_simps [simp]:
  "opt_OperandContext ex_store_opts = ex_ctx" "opt_Asset ex_store_opts = ex_v"
  "cl_resource (sw_view ex_empty) ''cluster'' = Some ex_cro" "cl_objects (sw_cluster ex_empty) i = None"
  by (simp_all add: ex_store_opts_def ex_empty_def sw_view_def ex_cro_def new_ObjectMeta_def)

lemma ex_store_spec: "spec_valid (cro_Spec ex_cro)" "do_Tolerations (spec_DeploymentOverrides (cro_Spec ex_cro)) = []"
  by (simp_all add: spec_valid_def ex_cro_def ex_spec_def valid_percentages_def DeploymentOverrides_Validate_def)

lemma ex_store_run: "\<exists>w'. CRO_Reconcile ex_store_opts ''cluster'' ex_empty = (Returned (empty_Result, None), w')"
proof -
  obtain err w' where run: "CRO_Reconcile ex_store_opts ''cluster'' ex_empty = (Returned (empty_Result, err), w')"
    using Reconcile_progress [OF ex_store_cooperative, of ex_empty ex_cro] by (auto simp: ex_store_spec)
  with ex_store_installs have "err = None" by simp
  with run show ?thesis by blast
qed

end
