(* ===== verification/FakeTracker.thy ===== *)
theory FakeTracker
  imports InformerFactory Registration "HOL-Library.Product_Lexorder"
begin

text \<open>
  The store behind the fake clientset: client-go's object tracker (testing/fixture.go) over the scheme of
  the fakes (fake/register.go), with its watchers (apimachinery watch.go), and the reaction that applies an
  action of a client to the tracker.

  Objects are values: a deep copy is the object itself, with the addresses of its pointers, which the
  tracker never reads. A nil and an empty item slice of a list are the same. The locks of the tracker
  order the operations; the model takes them in that order. The managed fields tracker is not used here.
\<close>

section \<open>Objects the scheme knows, and one without metadata\<close>

record 'o api_list =
  al_ResourceVersion :: string
  al_Items :: "'o list"

datatype api_object =
    CROObject ClusterResourceOverride
  | ROObject ResourceOverride
  | CROListObject "ClusterResourceOverride api_list"
  | ROListObject "ResourceOverride api_list"
  | BareObject string

fun struct_type :: "api_object \<Rightarrow> string" where
  "struct_type (CROObject x) = ''operatorv1.ClusterResourceOverride''"
| "struct_type (ROObject x) = ''autoscalingv1.ResourceOverride''"
| "struct_type (CROListObject l) = ''operatorv1.ClusterResourceOverrideList''"
| "struct_type (ROListObject l) = ''autoscalingv1.ResourceOverrideList''"
| "struct_type (BareObject t) = t"

fun api_Accessor :: "api_object \<Rightarrow> error + ObjectMeta" where
  "api_Accessor (CROObject x) = Inr (o_Meta x)"
| "api_Accessor (ROObject x) = Inr (o_Meta x)"
| "api_Accessor obj = Inl not_object"

text \<open>\<open>SetNamespace\<close> and \<open>GetName\<close>, \<open>GetNamespace\<close> through the accessor.\<close>

fun meta_SetNamespace :: "string \<Rightarrow> api_object \<Rightarrow> api_object" where
  "meta_SetNamespace ns (CROObject x) = CROObject (x\<lparr>o_Meta := (o_Meta x)\<lparr>om_Namespace := ns\<rparr>\<rparr>)"
| "meta_SetNamespace ns (ROObject x) = ROObject (x\<lparr>o_Meta := (o_Meta x)\<lparr>om_Namespace := ns\<rparr>\<rparr>)"
| "meta_SetNamespace ns obj = obj"

fun IsListType :: "api_object \<Rightarrow> bool" where
  "IsListType (CROListObject l) = True"
| "IsListType (ROListObject l) = True"
| "IsListType obj = False"

fun ExtractList :: "api_object \<Rightarrow> api_object list" where
  "ExtractList (CROListObject l) = map CROObject (al_Items l)"
| "ExtractList (ROListObject l) = map ROObject (al_Items l)"
| "ExtractList obj = []"

fun list_SetResourceVersion :: "string \<Rightarrow> api_object \<Rightarrow> api_object" where
  "list_SetResourceVersion v (CROListObject l) = CROListObject (l\<lparr>al_ResourceVersion := v\<rparr>)"
| "list_SetResourceVersion v (ROListObject l) = ROListObject (l\<lparr>al_ResourceVersion := v\<rparr>)"
| "list_SetResourceVersion v obj = obj"

definition cannot_assign :: "nat \<Rightarrow> api_object \<Rightarrow> string \<Rightarrow> error" where
  "cannot_assign i src dest = ErrorString (''item['' @ fmt_d (int i) @ '']: can'' @ [CHR 0x27] @ ''t assign or convert ''
     @ struct_type src @ '' into '' @ dest)"

text \<open>\<open>meta.SetList\<close>: every object must have the type of the items.\<close>

fun cro_items :: "nat \<Rightarrow> api_object list \<Rightarrow> error + ClusterResourceOverride list" where
  "cro_items i [] = Inr []"
| "cro_items i (CROObject x # objs) = (case cro_items (Suc i) objs of Inl e \<Rightarrow> Inl e | Inr xs \<Rightarrow> Inr (x # xs))"
| "cro_items i (obj # objs) = Inl (cannot_assign i obj ''operatorv1.ClusterResourceOverride'')"

fun ro_items :: "nat \<Rightarrow> api_object list \<Rightarrow> error + ResourceOverride list" where
  "ro_items i [] = Inr []"
| "ro_items i (ROObject x # objs) = (case ro_items (Suc i) objs of Inl e \<Rightarrow> Inl e | Inr xs \<Rightarrow> Inr (x # xs))"
| "ro_items i (obj # objs) = Inl (cannot_assign i obj ''autoscalingv1.ResourceOverride'')"

fun SetList :: "api_object \<Rightarrow> api_object list \<Rightarrow> error + api_object" where
  "SetList (CROListObject l) objs = map_sum id (\<lambda>xs. CROListObject (l\<lparr>al_Items := xs\<rparr>)) (cro_items 0 objs)"
| "SetList (ROListObject l) objs = map_sum id (\<lambda>xs. ROListObject (l\<lparr>al_Items := xs\<rparr>)) (ro_items 0 objs)"
| "SetList obj objs = Inl (ErrorString ''expected pointer, but got invalid kind'')"

text \<open>\<open>reflect.New\<close> of a type of the scheme: the zero value.\<close>

definition empty_ObjectMeta :: ObjectMeta where "empty_ObjectMeta = new_ObjectMeta [] [] [] []"

definition new_ClusterResourceOverride :: ClusterResourceOverride where
  "new_ClusterResourceOverride = \<lparr>o_TypeMeta = empty_TypeMeta, o_Meta = empty_ObjectMeta,
     cro_Spec = \<lparr>spec_PodResourceOverride = \<lparr>pro_TypeMeta = empty_TypeMeta,
         pro_Spec = PodResourceOverrideSpec.make False 0 0 0 0\<rparr>,
       spec_DeploymentOverrides = \<lparr>do_NodeSelector = [], do_Tolerations = [], do_Replicas = None\<rparr>\<rparr>,
     cro_Status = \<lparr>st_Resources = ClusterResourceOverrideResources.make None None None None None None None,
       st_HashConfiguration = [], st_Conditions = None, st_Version = [], st_Image = []\<rparr>\<rparr>"

definition new_ResourceOverride :: ResourceOverride where
  "new_ResourceOverride = \<lparr>o_TypeMeta = empty_TypeMeta, o_Meta = empty_ObjectMeta,
     ro_Spec = \<lparr>ros_PodResourceOverride = PodResourceOverrideSpec.make False 0 0 0 0, ros_PodSelector = None\<rparr>,
     ro_Status = \<lparr>ro_Conditions = None\<rparr>\<rparr>"

definition empty_list :: "'o api_list" where "empty_list = \<lparr>al_ResourceVersion = [], al_Items = []\<rparr>"

definition reflect_New :: "string \<Rightarrow> api_object" where
  "reflect_New t =
     (if t = ''operatorv1.ClusterResourceOverride'' then CROObject new_ClusterResourceOverride
      else if t = ''autoscalingv1.ResourceOverride'' then ROObject new_ResourceOverride
      else if t = ''operatorv1.ClusterResourceOverrideList'' then CROListObject empty_list
      else if t = ''autoscalingv1.ResourceOverrideList'' then ROListObject empty_list
      else BareObject t)"

section \<open>The scheme of the fakes (fake/register.go) and what is read from it\<close>

definition fake_localSchemeBuilder :: "(Scheme \<Rightarrow> Scheme outcome) list" where
  "fake_localSchemeBuilder = [autoscaling_AddToScheme, operator_AddToScheme]"

definition fake_AddToScheme :: "Scheme \<Rightarrow> Scheme outcome" where
  "fake_AddToScheme = SchemeBuilder_AddToScheme fake_localSchemeBuilder"

definition fake_scheme :: "Scheme outcome" where
  "fake_scheme = outcome_bind (AddToGroupVersion ([], ''v1'') NewScheme)
     (\<lambda>s. outcome_bind (fake_AddToScheme s) (\<lambda>s. Must (None, s)))"

text \<open>The texts of \<open>notRegisteredErr\<close>; the name of a scheme is the line that made it.\<close>

definition not_registered_type :: "string \<Rightarrow> string \<Rightarrow> error" where
  "not_registered_type schemeName t = ErrorString (''no kind is registered for the type '' @ t @ '' in scheme '' @ fmt_q schemeName)"

definition not_registered_kind :: "string \<Rightarrow> GroupVersionKind \<Rightarrow> error" where
  "not_registered_kind schemeName gvk =
     (let gv = GroupVersion_String (gvk_Group gvk) (gvk_Version gvk); scheme = '' in scheme '' @ fmt_q schemeName
      in ErrorString
        (if gvk_Kind gvk = [] then ''no version '' @ fmt_q gv @ '' has been registered'' @ scheme
         else if gvk_Version gvk = APIVersionInternal
         then ''no kind '' @ fmt_q (gvk_Kind gvk) @ '' is registered for the internal version of group ''
           @ fmt_q (gvk_Group gvk) @ scheme
         else ''no kind '' @ fmt_q (gvk_Kind gvk) @ '' is registered for version '' @ fmt_q gv @ scheme))"

text \<open>\<open>strings.ToLower\<close> on 7-bit text, and the guess of a kind's resource (api/meta restmapper.go).\<close>

definition lower_char :: "char \<Rightarrow> char" where
  "lower_char c = (let n = of_char c :: nat in if 65 \<le> n \<and> n \<le> 90 then char_of (n + 32) else c)"

definition strings_ToLower :: "string \<Rightarrow> string" where "strings_ToLower s = map lower_char s"

definition UnsafeGuessKindToResource :: "GroupVersionKind \<Rightarrow> GroupVersionResource" where
  "UnsafeGuessKindToResource kind =
     (if gvk_Kind kind = [] then \<lparr>gvr_Group = [], gvr_Version = [], gvr_Resource = []\<rparr>
      else
        (let singular = strings_ToLower (gvk_Kind kind)
         in \<lparr>gvr_Group = gvk_Group kind, gvr_Version = gvk_Version kind, gvr_Resource =
              (if suffix ''endpoints'' singular then singular
               else if last singular = CHR ''s'' then singular @ ''es''
               else if last singular = CHR ''y'' then butlast singular @ ''ies''
               else singular @ ''s'')\<rparr>))"

section \<open>Numbers read back (strconv)\<close>

fun ParseUint_loop :: "string \<Rightarrow> nat \<Rightarrow> string + nat" where
  "ParseUint_loop [] n = Inr n"
| "ParseUint_loop (c # s) n =
     (let k = of_char c :: nat
      in if k < 48 \<or> 57 < k then Inl ''invalid syntax''
         else if 2 ^ 64 \<le> n * 10 + (k - 48) then Inl ''value out of range''
         else ParseUint_loop s (n * 10 + (k - 48)))"

definition num_error :: "string \<Rightarrow> string \<Rightarrow> error" where
  "num_error s what = ErrorString (''strconv.ParseInt: parsing '' @ fmt_q s @ '': '' @ what)"

definition strconv_ParseInt64 :: "string \<Rightarrow> error + int64" where
  "strconv_ParseInt64 s =
     (let neg = (s \<noteq> [] \<and> hd s = CHR ''-'');
          digits = (if s \<noteq> [] \<and> (hd s = CHR ''-'' \<or> hd s = CHR ''+'') then tl s else s)
      in if digits = [] then Inl (num_error s ''invalid syntax'')
         else case ParseUint_loop digits 0 of
           Inl what \<Rightarrow> Inl (num_error s what)
         | Inr un \<Rightarrow>
             if \<not> neg \<and> 2 ^ 63 \<le> un \<or> neg \<and> 2 ^ 63 < un then Inl (num_error s ''value out of range'')
             else Inr (if neg then - word_of_nat un else word_of_nat un))"

section \<open>Watchers (apimachinery watch.go)\<close>

datatype tracker_event = WatchAdded api_object | WatchModified api_object | WatchDeleted api_object

record RaceFreeFakeWatcher =
  rw_result :: "tracker_event list"
  rw_Stopped :: bool

definition DefaultChanSize :: nat where "DefaultChanSize = 100"

definition NewRaceFreeFake :: RaceFreeFakeWatcher where
  "NewRaceFreeFake = \<lparr>rw_result = [], rw_Stopped = False\<rparr>"

text \<open>\<open>Add\<close>, \<open>Modify\<close> and \<open>Delete\<close>: an event a full channel cannot take is a panic.\<close>

definition fake_send :: "tracker_event \<Rightarrow> RaceFreeFakeWatcher \<Rightarrow> RaceFreeFakeWatcher outcome" where
  "fake_send e f = (if rw_Stopped f then Returned f
     else if length (rw_result f) < DefaultChanSize then Returned (f\<lparr>rw_result := rw_result f @ [e]\<rparr>)
     else Panicked)"

definition fake_Stop :: "RaceFreeFakeWatcher \<Rightarrow> RaceFreeFakeWatcher" where
  "fake_Stop f = f\<lparr>rw_Stopped := True\<rparr>"

section \<open>The tracker (testing/fixture.go)\<close>

record versionedObject =
  vo_resourceVersion :: int64
  vo_Object :: api_object

type_synonym objects = "((string \<times> string) \<times> versionedObject) list"

text \<open>The watchers are shared with their readers: the tracker keeps their addresses, here numbers.\<close>

record tracker =
  tr_scheme :: Scheme
  tr_schemeName :: string
  tr_objects :: "GroupVersionResource \<Rightarrow> objects option"
  tr_watchers :: "GroupVersionResource \<Rightarrow> string \<Rightarrow> nat list"
  tr_resourceVersions :: "GroupVersionResource \<Rightarrow> int64 option"
  tr_heap :: "RaceFreeFakeWatcher list"

definition NewObjectTracker :: "Scheme \<Rightarrow> string \<Rightarrow> tracker" where
  "NewObjectTracker scheme name = \<lparr>tr_scheme = scheme, tr_schemeName = name, tr_objects = Map.empty,
     tr_watchers = (\<lambda>_ _. []), tr_resourceVersions = Map.empty, tr_heap = []\<rparr>"

definition GroupResource :: "GroupVersionResource \<Rightarrow> string \<times> string" where
  "GroupResource gvr = (gvr_Group gvr, gvr_Resource gvr)"

definition GroupResource_String :: "string \<times> string \<Rightarrow> string" where
  "GroupResource_String gr = (if fst gr = [] then snd gr else snd gr @ ''.'' @ fst gr)"

definition NewAlreadyExists :: "string \<times> string \<Rightarrow> string \<Rightarrow> error" where
  "NewAlreadyExists gr name = StatusError ''AlreadyExists'' 409
     (GroupResource_String gr @ '' '' @ fmt_q name @ '' already exists'')"

definition NewBadRequest :: "string \<Rightarrow> error" where
  "NewBadRequest reason = StatusError ''BadRequest'' 400 reason"

definition namespace_mismatch :: "string \<Rightarrow> string \<Rightarrow> error" where
  "namespace_mismatch ns objNs = NewBadRequest (''request namespace does not match object namespace, request: ''
     @ fmt_q ns @ '' object: '' @ fmt_q objNs)"

definition getWatches :: "GroupVersionResource \<Rightarrow> string \<Rightarrow> tracker \<Rightarrow> nat list" where
  "getWatches gvr ns t = tr_watchers t gvr ns @ (if ns \<noteq> [] then tr_watchers t gvr [] else [])"

fun broadcast :: "nat list \<Rightarrow> tracker_event \<Rightarrow> RaceFreeFakeWatcher list \<Rightarrow> RaceFreeFakeWatcher list outcome" where
  "broadcast [] e ws = Returned ws"
| "broadcast (w # watches) e ws =
     outcome_bind (fake_send e (ws ! w)) (\<lambda>f. broadcast watches e (ws[w := f]))"

definition notify :: "GroupVersionResource \<Rightarrow> string \<Rightarrow> tracker_event \<Rightarrow> tracker \<Rightarrow> tracker outcome" where
  "notify gvr ns e t = outcome_bind (broadcast (getWatches gvr ns t) e (tr_heap t)) (\<lambda>ws. Returned (t\<lparr>tr_heap := ws\<rparr>))"

definition objects_at :: "tracker \<Rightarrow> GroupVersionResource \<Rightarrow> objects" where
  "objects_at t gvr = (case tr_objects t gvr of None \<Rightarrow> [] | Some objs \<Rightarrow> objs)"

definition version_at :: "tracker \<Rightarrow> GroupVersionResource \<Rightarrow> int64" where
  "version_at t gvr = (case tr_resourceVersions t gvr of None \<Rightarrow> 1 | Some v \<Rightarrow> v)"

definition tracker_add :: "GroupVersionResource \<Rightarrow> api_object \<Rightarrow> string \<Rightarrow> bool \<Rightarrow> tracker \<Rightarrow> (error option \<times> tracker) outcome" where
  "tracker_add gvr obj ns replaceExisting t =
     (case api_Accessor obj of
        Inl err \<Rightarrow> Returned (Some err, t)
      | Inr m \<Rightarrow>
          (let newObj = (if om_Namespace m = [] then meta_SetNamespace ns obj else obj);
               newNs = (if om_Namespace m = [] then ns else om_Namespace m)
           in if ns \<noteq> newNs then Returned (Some (namespace_mismatch ns newNs), t)
              else
                (let objs = objects_at t gvr; t = t\<lparr>tr_objects := (tr_objects t)(gvr \<mapsto> objs)\<rparr>;
                     resourceVersion = version_at t gvr + 1; namespacedName = (newNs, om_Name m);
                     stored = t\<lparr>tr_resourceVersions := (tr_resourceVersions t)(gvr \<mapsto> resourceVersion),
                       tr_objects := (tr_objects t)(gvr \<mapsto> AList.update namespacedName
                         \<lparr>vo_resourceVersion = resourceVersion, vo_Object = newObj\<rparr> objs)\<rparr>
                 in if map_of objs namespacedName \<noteq> None then
                      if replaceExisting
                      then outcome_bind (notify gvr ns (WatchModified newObj) stored) (\<lambda>t. Returned (None, t))
                      else Returned (Some (NewAlreadyExists (GroupResource gvr) (om_Name m)), t)
                    else if replaceExisting
                    then Returned (Some (NewNotFound (GroupResource gvr) (om_Name m)), t)
                    else outcome_bind (notify gvr ns (WatchAdded newObj) stored) (\<lambda>t. Returned (None, t)))))"

definition tracker_Get :: "GroupVersionResource \<Rightarrow> string \<Rightarrow> string \<Rightarrow> tracker \<Rightarrow> error + api_object" where
  "tracker_Get gvr ns name t =
     (case tr_objects t gvr of
        None \<Rightarrow> Inl (NewNotFound (GroupResource gvr) name)
      | Some objs \<Rightarrow> (case map_of objs (ns, name) of
          None \<Rightarrow> Inl (NewNotFound (GroupResource gvr) name)
        | Some matchingObj \<Rightarrow> Inr (vo_Object matchingObj)))"

definition tracker_Delete :: "GroupVersionResource \<Rightarrow> string \<Rightarrow> string \<Rightarrow> tracker \<Rightarrow> (error option \<times> tracker) outcome" where
  "tracker_Delete gvr ns name t =
     (case tr_objects t gvr of
        None \<Rightarrow> Returned (Some (NewNotFound (GroupResource gvr) name), t)
      | Some objs \<Rightarrow> (case map_of objs (ns, name) of
          None \<Rightarrow> Returned (Some (NewNotFound (GroupResource gvr) name), t)
        | Some obj \<Rightarrow> outcome_bind
            (notify gvr ns (WatchDeleted (vo_Object obj))
              (t\<lparr>tr_objects := (tr_objects t)(gvr \<mapsto> AList.delete (ns, name) objs)\<rparr>))
            (\<lambda>t. Returned (None, t))))"

text \<open>
  \<open>filterByNamespace\<close>, sorted by namespace and name, which differ between the objects of a resource: the
  order in which the map is read does not matter.
\<close>

definition object_name :: "api_object \<Rightarrow> string \<times> string" where
  "object_name obj = (case api_Accessor obj of Inl e \<Rightarrow> ([], []) | Inr m \<Rightarrow> (om_Namespace m, om_Name m))"

definition filterByNamespace :: "objects \<Rightarrow> string \<Rightarrow> error + versionedObject list" where
  "filterByNamespace objs ns =
     (case find (\<lambda>(k, vo). isl (api_Accessor (vo_Object vo))) objs of
        Some (k, vo) \<Rightarrow> Inl (projl (api_Accessor (vo_Object vo)))
      | None \<Rightarrow> Inr (sort_key (\<lambda>vo. object_name (vo_Object vo))
          (filter (\<lambda>vo. ns = [] \<or> fst (object_name (vo_Object vo)) = ns) (map snd objs))))"

definition tracker_List :: "GroupVersionResource \<Rightarrow> GroupVersionKind \<Rightarrow> string \<Rightarrow> tracker \<Rightarrow> error + api_object" where
  "tracker_List gvr gvk ns t =
     (let listGVK = gvk\<lparr>gvk_Kind := gvk_Kind gvk @ ''List''\<rparr>;
          listGVK = (if gvk_Version listGVK = [] then listGVK\<lparr>gvk_Version := APIVersionInternal\<rparr> else listGVK)
      in case scheme_New listGVK (tr_scheme t) of
           None \<Rightarrow> Inl (not_registered_kind (tr_schemeName t) listGVK)
         | Some typ \<Rightarrow>
             (let list = reflect_New typ
              in if \<not> IsListType list then Inl (ErrorString (fmt_q (gvk_Kind listGVK) @ '' is not a list type''))
                 else
                   (let list = list_SetResourceVersion (fmt_d (sint (version_at t gvr))) list
                    in case tr_objects t gvr of
                         None \<Rightarrow> Inr list
                       | Some objs \<Rightarrow> (case filterByNamespace objs ns of
                           Inl err \<Rightarrow> Inl err
                         | Inr matching \<Rightarrow> SetList list (map vo_Object matching)))))"

text \<open>A new watcher is at the next address. Without options no existing object is delivered.\<close>

fun send_all :: "tracker_event list \<Rightarrow> RaceFreeFakeWatcher \<Rightarrow> RaceFreeFakeWatcher outcome" where
  "send_all [] f = Returned f"
| "send_all (e # es) f = outcome_bind (fake_send e f) (send_all es)"

definition watch_from :: "ListOptions option \<Rightarrow> error + int64 option" where
  "watch_from opts =
     (case opts of
        None \<Rightarrow> Inr None
      | Some lo \<Rightarrow> if lo_ResourceVersion lo = [] then Inr (Some 0)
          else (case strconv_ParseInt64 (lo_ResourceVersion lo) of
            Inl err \<Rightarrow> Inl (WrapError (''invalid ResourceVersion '' @ fmt_q (lo_ResourceVersion lo)
              @ '' in ListOptions, must be int64: '' @ Error err) err)
          | Inr rv \<Rightarrow> Inr (Some rv)))"

definition tracker_Watch :: "GroupVersionResource \<Rightarrow> string \<Rightarrow> ListOptions option \<Rightarrow> tracker \<Rightarrow> ((error + nat) \<times> tracker) outcome" where
  "tracker_Watch gvr ns opts t =
     (case watch_from opts of
        Inl err \<Rightarrow> Returned (Inl err, t)
      | Inr start \<Rightarrow>
          (let w = length (tr_heap t);
               t = t\<lparr>tr_heap := tr_heap t @ [NewRaceFreeFake],
                 tr_watchers := (tr_watchers t)(gvr := (tr_watchers t gvr)(ns := tr_watchers t gvr ns @ [w]))\<rparr>
           in case start of
                None \<Rightarrow> Returned (Inr w, t)
              | Some addFromRV \<Rightarrow> (case filterByNamespace (objects_at t gvr) ns of
                  Inl err \<Rightarrow> Returned (Inl err, t)
                | Inr matching \<Rightarrow> outcome_bind
                    (send_all (map (WatchAdded \<circ> vo_Object) (filter (\<lambda>vo. addFromRV <s vo_resourceVersion vo) matching))
                      (tr_heap t ! w))
                    (\<lambda>f. Returned (Inr w, t\<lparr>tr_heap := (tr_heap t)[w := f]\<rparr>)))))"

text \<open>
  \<open>Add\<close> guesses the resource of the object's kinds, of which a registered type has at least one; the items of a
  list are added one by one.
\<close>

fun add_kinds :: "GroupVersionKind list \<Rightarrow> api_object \<Rightarrow> string \<Rightarrow> tracker \<Rightarrow> (error option \<times> tracker) outcome" where
  "add_kinds [] obj ns t = Returned (None, t)"
| "add_kinds (gvk # gvks) obj ns t =
     (let gvr = UnsafeGuessKindToResource gvk;
          gvr = (if gvr_Version gvr = APIVersionInternal then gvr\<lparr>gvr_Version := []\<rparr> else gvr)
      in outcome_bind (tracker_add gvr obj ns False t)
           (\<lambda>(err, t). if err \<noteq> None then Returned (err, t) else add_kinds gvks obj ns t))"

definition add_object :: "api_object \<Rightarrow> tracker \<Rightarrow> (error option \<times> tracker) outcome" where
  "add_object obj t =
     (case api_Accessor obj of
        Inl err \<Rightarrow> Returned (Some err, t)
      | Inr m \<Rightarrow> (case ObjectKinds (struct_type obj) (tr_scheme t) of
          None \<Rightarrow> Returned (Some (not_registered_type (tr_schemeName t) (struct_type obj)), t)
        | Some (gvks, unversioned) \<Rightarrow> add_kinds gvks obj (om_Namespace m) t))"

fun addList :: "api_object list \<Rightarrow> tracker \<Rightarrow> (error option \<times> tracker) outcome" where
  "addList [] t = Returned (None, t)"
| "addList (obj # objs) t = outcome_bind (add_object obj t)
     (\<lambda>(err, t). if err \<noteq> None then Returned (err, t) else addList objs t)"

definition tracker_Add :: "api_object \<Rightarrow> tracker \<Rightarrow> (error option \<times> tracker) outcome" where
  "tracker_Add obj t = (if IsListType obj then addList (ExtractList obj) t else add_object obj t)"

section \<open>Actions and the reaction of the tracker\<close>

datatype action =
    GetAction GroupVersionResource string string
  | ListAction GroupVersionResource GroupVersionKind string ListOptions
  | WatchAction GroupVersionResource string ListOptions
  | CreateAction GroupVersionResource string string api_object
  | UpdateAction GroupVersionResource string string api_object
  | DeleteAction GroupVersionResource string string
  | DeleteCollectionAction GroupVersionResource string ListOptions
  | PatchAction GroupVersionResource string string string string string

text \<open>
  The arguments after the resource: kind, subresource, namespace, name, object or options; of a patch the
  subresource, namespace, name, patch type and patch.
\<close>

fun GetVerb :: "action \<Rightarrow> string" where
  "GetVerb (GetAction gvr ns name) = ''get''"
| "GetVerb (ListAction gvr gvk ns opts) = ''list''"
| "GetVerb (WatchAction gvr ns opts) = ''watch''"
| "GetVerb (CreateAction gvr sub ns obj) = ''create''"
| "GetVerb (UpdateAction gvr sub ns obj) = ''update''"
| "GetVerb (DeleteAction gvr ns name) = ''delete''"
| "GetVerb (DeleteCollectionAction gvr ns opts) = ''delete-collection''"
| "GetVerb (PatchAction gvr sub ns name pt data) = ''patch''"

fun GetResource :: "action \<Rightarrow> GroupVersionResource" where
  "GetResource (GetAction gvr ns name) = gvr"
| "GetResource (ListAction gvr gvk ns opts) = gvr"
| "GetResource (WatchAction gvr ns opts) = gvr"
| "GetResource (CreateAction gvr sub ns obj) = gvr"
| "GetResource (UpdateAction gvr sub ns obj) = gvr"
| "GetResource (DeleteAction gvr ns name) = gvr"
| "GetResource (DeleteCollectionAction gvr ns opts) = gvr"
| "GetResource (PatchAction gvr sub ns name pt data) = gvr"

fun GetSubresource :: "action \<Rightarrow> string" where
  "GetSubresource (CreateAction gvr sub ns obj) = sub"
| "GetSubresource (UpdateAction gvr sub ns obj) = sub"
| "GetSubresource (PatchAction gvr sub ns name pt data) = sub"
| "GetSubresource action = []"

text \<open>
  What the fakes take from libraries: marshalling, applying a patch (first argument) to a document, reading a
  document into an empty object, an apply patch (YAML) as a merge patch for the named object, the parsers of
  label and field selectors, and the texts an action prints as with \<open>%s\<close> and \<open>%#v\<close>.
\<close>

record fake_lib =
  fl_Marshal :: "api_object \<Rightarrow> error + string"
  fl_JSONPatch :: "string \<Rightarrow> string \<Rightarrow> error + string"
  fl_MergePatch :: "string \<Rightarrow> string \<Rightarrow> error + string"
  fl_StrategicMergePatch :: "string \<Rightarrow> string \<Rightarrow> error + string"
  fl_Unmarshal :: "string \<Rightarrow> api_object \<Rightarrow> error + api_object"
  fl_ApplyPatch :: "string \<Rightarrow> string \<Rightarrow> error + string"
  fl_ParseLabels :: "string \<Rightarrow> error + Selector"
  fl_ParseFields :: "string \<Rightarrow> error option"
  fl_fmt_s :: "action \<Rightarrow> string"
  fl_fmt_v :: "action \<Rightarrow> string"

text \<open>Whether the action was handled, the object or nil, and the error.\<close>

type_synonym reaction = "bool \<times> api_object option \<times> error option"

definition read_back :: "GroupVersionResource \<Rightarrow> string \<Rightarrow> string \<Rightarrow> tracker \<Rightarrow> api_object option \<times> error option" where
  "read_back gvr ns name t = (case tracker_Get gvr ns name t of Inl err \<Rightarrow> (None, Some err) | Inr obj \<Rightarrow> (Some obj, None))"

definition react_Create :: "GroupVersionResource \<Rightarrow> string \<Rightarrow> string \<Rightarrow> api_object \<Rightarrow> tracker
    \<Rightarrow> ((api_object option \<times> error option) \<times> tracker) outcome" where
  "react_Create gvr subresource ns obj t =
     (case api_Accessor obj of
        Inl err \<Rightarrow> Returned ((None, Some err), t)
      | Inr objMeta \<Rightarrow>
          if subresource = [] then
            outcome_bind (tracker_add gvr obj ns False t) (\<lambda>(err, t). Returned
              (if err \<noteq> None then (None, err) else read_back gvr ns (om_Name objMeta) t, t))
          else (case tracker_Get gvr ns (om_Name objMeta) t of
              Inl err \<Rightarrow> Returned ((None, Some err), t)
            | Inr oldObj \<Rightarrow>
                if struct_type oldObj = struct_type obj then
                  outcome_bind (tracker_add gvr obj ns True t) (\<lambda>(err, t). Returned
                    (if err \<noteq> None then (None, err) else read_back gvr ns (om_Name objMeta) t, t))
                else Returned ((Some obj, None), t)))"

definition react_Update :: "GroupVersionResource \<Rightarrow> string \<Rightarrow> api_object \<Rightarrow> tracker
    \<Rightarrow> ((api_object option \<times> error option) \<times> tracker) outcome" where
  "react_Update gvr ns obj t =
     (case api_Accessor obj of
        Inl err \<Rightarrow> Returned ((None, Some err), t)
      | Inr objMeta \<Rightarrow> outcome_bind (tracker_add gvr obj ns True t) (\<lambda>(err, t). Returned
          (if err \<noteq> None then (None, err) else read_back gvr ns (om_Name objMeta) t, t)))"

definition sum_bind :: "error + 'a \<Rightarrow> ('a \<Rightarrow> error + 'b) \<Rightarrow> error + 'b" where
  "sum_bind r f = (case r of Inl e \<Rightarrow> Inl e | Inr x \<Rightarrow> f x)"

definition patched_object :: "fake_lib \<Rightarrow> string \<Rightarrow> string \<Rightarrow> api_object \<Rightarrow> error + api_object" where
  "patched_object lib patchType patch obj =
     sum_bind (fl_Marshal lib obj) (\<lambda>old.
     sum_bind
       (if patchType = ''application/json-patch+json'' then fl_JSONPatch lib patch old
        else if patchType = ''application/merge-patch+json'' then fl_MergePatch lib patch old
        else if patchType = ''application/strategic-merge-patch+json'' then fl_StrategicMergePatch lib patch old
        else Inl (ErrorString (''PatchType '' @ patchType @ '' is not supported'')))
       (\<lambda>modified. fl_Unmarshal lib modified (reflect_New (struct_type obj))))"

text \<open>\<open>Patch\<close> returns the object it sent to the tracker, \<open>Apply\<close> the stored one.\<close>

definition react_Patch :: "fake_lib \<Rightarrow> GroupVersionResource \<Rightarrow> string \<Rightarrow> string \<Rightarrow> string \<Rightarrow> string \<Rightarrow> tracker
    \<Rightarrow> ((api_object option \<times> error option) \<times> tracker) outcome" where
  "react_Patch lib gvr ns name patchType patch t =
     (case sum_bind (tracker_Get gvr ns name t) (patched_object lib patchType patch) of
        Inl err \<Rightarrow> Returned ((None, Some err), t)
      | Inr obj \<Rightarrow> outcome_bind (tracker_add gvr obj ns True t) (\<lambda>(err, t). Returned
          (if err \<noteq> None then (None, err) else (Some obj, None), t)))"

definition merged_object :: "fake_lib \<Rightarrow> string \<Rightarrow> api_object \<Rightarrow> error + api_object" where
  "merged_object lib merge obj =
     sum_bind (fl_Marshal lib obj) (\<lambda>old.
     sum_bind (fl_StrategicMergePatch lib merge old) (\<lambda>merged. fl_Unmarshal lib merged (reflect_New (struct_type obj))))"

definition react_Apply :: "fake_lib \<Rightarrow> GroupVersionResource \<Rightarrow> string \<Rightarrow> string \<Rightarrow> string \<Rightarrow> tracker
    \<Rightarrow> ((api_object option \<times> error option) \<times> tracker) outcome" where
  "react_Apply lib gvr ns name patch t =
     (case sum_bind (fl_ApplyPatch lib name patch) (\<lambda>merge.
           sum_bind (tracker_Get gvr ns name t) (merged_object lib merge)) of
        Inl err \<Rightarrow> Returned ((None, Some err), t)
      | Inr obj \<Rightarrow> outcome_bind (tracker_add gvr obj ns True t) (\<lambda>(err, t). Returned
          (if err \<noteq> None then (None, err) else read_back gvr ns name t, t)))"

definition handled :: "(api_object option \<times> error option) \<times> tracker \<Rightarrow> (reaction \<times> tracker) outcome" where
  "handled r = Returned ((True, fst r), snd r)"

fun ObjectReaction :: "fake_lib \<Rightarrow> action \<Rightarrow> tracker \<Rightarrow> (reaction \<times> tracker) outcome" where
  "ObjectReaction lib (ListAction gvr gvk ns opts) t = Returned (case tracker_List gvr gvk ns t of
     Inl err \<Rightarrow> ((True, None, Some err), t) | Inr list \<Rightarrow> ((True, Some list, None), t))"
| "ObjectReaction lib (GetAction gvr ns name) t = handled (read_back gvr ns name t, t)"
| "ObjectReaction lib (CreateAction gvr sub ns obj) t = outcome_bind (react_Create gvr sub ns obj t) handled"
| "ObjectReaction lib (UpdateAction gvr sub ns obj) t = outcome_bind (react_Update gvr ns obj t) handled"
| "ObjectReaction lib (DeleteAction gvr ns name) t = outcome_bind (tracker_Delete gvr ns name t) (\<lambda>(err, t). handled ((None, err), t))"
| "ObjectReaction lib (PatchAction gvr sub ns name pt data) t =
     outcome_bind (if pt = ''application/apply-patch+yaml'' then react_Apply lib gvr ns name data t
       else react_Patch lib gvr ns name pt data t) handled"
| "ObjectReaction lib action t = Returned ((False, None, Some (ErrorString (''no reaction implemented for '' @ fl_fmt_s lib action))), t)"

end
