(* ===== verification/FakeClient.thy ===== *)
theory FakeClient
  imports FakeTracker Clientset
begin

text \<open>
  The fake clientset (pkg/generated/clientset/versioned/fake and the fake packages of the typed clients):
  the recorder and reaction chains of client-go's \<open>testing.Fake\<close> (testing/fake.go, fixture.go), the generic
  fake client (gentype/fake.go), and its abstract contract, a map from keys to objects.
\<close>

section \<open>Recording and reacting (testing/fake.go)\<close>

record reactor =
  r_Verb :: string
  r_Resource :: string
  r_Reaction :: "action \<Rightarrow> tracker \<Rightarrow> (reaction \<times> tracker) outcome"

record watch_reactor =
  wr_Resource :: string
  wr_Reaction :: "action \<Rightarrow> tracker \<Rightarrow> ((bool \<times> nat option \<times> error option) \<times> tracker) outcome"

definition resourceCovers :: "string \<Rightarrow> action \<Rightarrow> bool" where
  "resourceCovers resource action \<longleftrightarrow>
     resource = ''*'' \<or> resource = gvr_Resource (GetResource action)
     \<or> CHR ''/'' \<in> set resource \<and> takeWhile (\<lambda>c. c \<noteq> CHR ''/'') resource = gvr_Resource (GetResource action)
       \<and> tl (dropWhile (\<lambda>c. c \<noteq> CHR ''/'') resource) = GetSubresource action"

definition reactor_Handles :: "reactor \<Rightarrow> action \<Rightarrow> bool" where
  "reactor_Handles r action \<longleftrightarrow> (r_Verb r = ''*'' \<or> r_Verb r = GetVerb action) \<and> resourceCovers (r_Resource r) action"

text \<open>The fake clientset with the tracker its reactors close over.\<close>

record FakeClientset =
  fk_actions :: "action list"
  fk_ReactionChain :: "reactor list"
  fk_WatchReactionChain :: "watch_reactor list"
  fk_tracker :: tracker

fun try_reactors :: "reactor list \<Rightarrow> action \<Rightarrow> api_object \<Rightarrow> tracker \<Rightarrow> ((api_object option \<times> error option) \<times> tracker) outcome" where
  "try_reactors [] action defaultReturnObj t = Returned ((Some defaultReturnObj, None), t)"
| "try_reactors (r # rs) action defaultReturnObj t =
     (if \<not> reactor_Handles r action then try_reactors rs action defaultReturnObj t
      else outcome_bind (r_Reaction r action t) (\<lambda>((handled, ret, err), t).
        if \<not> handled then try_reactors rs action defaultReturnObj t else Returned ((ret, err), t)))"

definition Invokes :: "action \<Rightarrow> api_object \<Rightarrow> FakeClientset \<Rightarrow> ((api_object option \<times> error option) \<times> FakeClientset) outcome" where
  "Invokes action defaultReturnObj c =
     outcome_bind (try_reactors (fk_ReactionChain c) action defaultReturnObj (fk_tracker c))
       (\<lambda>(r, t). Returned (r, c\<lparr>fk_actions := fk_actions c @ [action], fk_tracker := t\<rparr>))"

fun try_watch_reactors :: "fake_lib \<Rightarrow> watch_reactor list \<Rightarrow> action \<Rightarrow> tracker
    \<Rightarrow> ((nat option \<times> error option) \<times> tracker) outcome" where
  "try_watch_reactors lib [] action t =
     Returned ((None, Some (ErrorString (''unhandled watch: '' @ fl_fmt_v lib action))), t)"
| "try_watch_reactors lib (r # rs) action t =
     (if \<not> resourceCovers (wr_Resource r) action then try_watch_reactors lib rs action t
      else outcome_bind (wr_Reaction r action t) (\<lambda>((handled, ret, err), t).
        if \<not> handled then try_watch_reactors lib rs action t else Returned ((ret, err), t)))"

definition InvokesWatch :: "fake_lib \<Rightarrow> action \<Rightarrow> FakeClientset \<Rightarrow> ((nat option \<times> error option) \<times> FakeClientset) outcome" where
  "InvokesWatch lib action c =
     outcome_bind (try_watch_reactors lib (fk_WatchReactionChain c) action (fk_tracker c))
       (\<lambda>(r, t). Returned (r, c\<lparr>fk_actions := fk_actions c @ [action], fk_tracker := t\<rparr>))"

section \<open>The fake clientset (fake/clientset\_generated.go)\<close>

fun seed :: "api_object list \<Rightarrow> tracker \<Rightarrow> tracker outcome" where
  "seed [] o' = Returned o'"
| "seed (obj # objects) o' = outcome_bind (tracker_Add obj o')
     (\<lambda>(err, o'). if err \<noteq> None then Panicked else seed objects o')"

definition watch_reaction :: "action \<Rightarrow> tracker \<Rightarrow> ((bool \<times> nat option \<times> error option) \<times> tracker) outcome" where
  "watch_reaction action t =
     (case action of
        WatchAction gvr ns opts \<Rightarrow> outcome_bind (tracker_Watch gvr ns (Some opts) t) (\<lambda>(r, t). Returned
          (case r of Inl err \<Rightarrow> ((False, None, Some err), t) | Inr w \<Rightarrow> ((True, Some w, None), t)))
      | _ \<Rightarrow> Returned ((False, None, None), t))"

definition NewSimpleClientset :: "fake_lib \<Rightarrow> string \<Rightarrow> api_object list \<Rightarrow> FakeClientset outcome" where
  "NewSimpleClientset lib schemeName objects =
     outcome_bind fake_scheme (\<lambda>scheme.
     outcome_bind (seed objects (NewObjectTracker scheme schemeName)) (\<lambda>o'.
       Returned \<lparr>fk_actions = [],
         fk_ReactionChain = [\<lparr>r_Verb = ''*'', r_Resource = ''*'', r_Reaction = ObjectReaction lib\<rparr>],
         fk_WatchReactionChain = [\<lparr>wr_Resource = ''*'', wr_Reaction = watch_reaction\<rparr>],
         fk_tracker = o'\<rparr>))"

section \<open>The generic fake client (gentype/fake.go)\<close>

record FakeClient =
  fc_ns :: string
  fc_resource :: GroupVersionResource
  fc_kind :: GroupVersionKind
  fc_newObject :: api_object
  fc_newList :: api_object
  fc_copyListMeta :: "api_object \<Rightarrow> api_object \<Rightarrow> api_object"
  fc_setItems :: "api_object \<Rightarrow> api_object list \<Rightarrow> api_object"

text \<open>\<open>obj.(T)\<close> of a non-nil object panics for another type; nil becomes the empty result.\<close>

definition as_T :: "api_object \<Rightarrow> api_object option \<times> error option \<Rightarrow> (api_object \<times> error option) outcome" where
  "as_T emptyResult r = (case fst r of
     None \<Rightarrow> Returned (emptyResult, snd r)
   | Some obj \<Rightarrow> if struct_type obj = struct_type emptyResult then Returned (obj, snd r) else Panicked)"

definition invoke_T :: "action \<Rightarrow> api_object \<Rightarrow> FakeClientset \<Rightarrow> ((api_object \<times> error option) \<times> FakeClientset) outcome" where
  "invoke_T action emptyResult c =
     outcome_bind (Invokes action emptyResult c) (\<lambda>(r, c). outcome_bind (as_T emptyResult r) (\<lambda>a. Returned (a, c)))"

definition fake_Get :: "FakeClient \<Rightarrow> string \<Rightarrow> FakeClientset \<Rightarrow> ((api_object \<times> error option) \<times> FakeClientset) outcome" where
  "fake_Get fc name = invoke_T (GetAction (fc_resource fc) (fc_ns fc) name) (fc_newObject fc)"

definition fake_Create :: "FakeClient \<Rightarrow> api_object \<Rightarrow> FakeClientset \<Rightarrow> ((api_object \<times> error option) \<times> FakeClientset) outcome" where
  "fake_Create fc obj = invoke_T (CreateAction (fc_resource fc) [] (fc_ns fc) obj) (fc_newObject fc)"

definition fake_Update :: "FakeClient \<Rightarrow> api_object \<Rightarrow> FakeClientset \<Rightarrow> ((api_object \<times> error option) \<times> FakeClientset) outcome" where
  "fake_Update fc obj = invoke_T (UpdateAction (fc_resource fc) [] (fc_ns fc) obj) (fc_newObject fc)"

definition fake_UpdateStatus :: "FakeClient \<Rightarrow> api_object \<Rightarrow> FakeClientset \<Rightarrow> ((api_object \<times> error option) \<times> FakeClientset) outcome" where
  "fake_UpdateStatus fc obj = invoke_T (UpdateAction (fc_resource fc) ''status'' (fc_ns fc) obj) (fc_newObject fc)"

definition fake_Delete :: "FakeClient \<Rightarrow> string \<Rightarrow> FakeClientset \<Rightarrow> (error option \<times> FakeClientset) outcome" where
  "fake_Delete fc name c = outcome_bind (Invokes (DeleteAction (fc_resource fc) (fc_ns fc) name) (fc_newObject fc) c)
     (\<lambda>((obj, err), c). Returned (err, c))"

text \<open>\<open>path.Join\<close> of clean elements.\<close>

definition path_Join :: "string list \<Rightarrow> string" where
  "path_Join elems = strings_Join (filter (\<lambda>e. e \<noteq> []) elems) ''/''"

definition fake_Patch :: "FakeClient \<Rightarrow> string \<Rightarrow> string \<Rightarrow> string \<Rightarrow> string list \<Rightarrow> FakeClientset
    \<Rightarrow> ((api_object \<times> error option) \<times> FakeClientset) outcome" where
  "fake_Patch fc name pt data subresources =
     invoke_T (PatchAction (fc_resource fc) (path_Join subresources) (fc_ns fc) name pt data) (fc_newObject fc)"

text \<open>A selector that cannot be parsed is a panic; the parser never answers a nil selector.\<close>

definition ExtractFromListOptions :: "fake_lib \<Rightarrow> ListOptions \<Rightarrow> Selector outcome" where
  "ExtractFromListOptions lib opts =
     (case (fl_ParseLabels lib (lo_LabelSelector opts), fl_ParseFields lib (lo_FieldSelector opts)) of
        (Inr label, None) \<Rightarrow> Returned label
      | _ \<Rightarrow> Panicked)"

fun item_labels :: "api_object \<Rightarrow> go_map option" where
  "item_labels obj = (case api_Accessor obj of Inl e \<Rightarrow> None | Inr m \<Rightarrow> Some (om_Labels m))"

definition fake_List :: "fake_lib \<Rightarrow> FakeClient \<Rightarrow> ListOptions \<Rightarrow> FakeClientset \<Rightarrow> ((api_object \<times> error option) \<times> FakeClientset) outcome" where
  "fake_List lib fc opts c =
     outcome_bind (ExtractFromListOptions lib opts) (\<lambda>label.
     outcome_bind (Invokes (ListAction (fc_resource fc) (fc_kind fc) (fc_ns fc) opts) (fc_newList fc) c) (\<lambda>(r, c).
       if fst r = None then Returned ((fc_newList fc, snd r), c)
       else outcome_bind (as_T (fc_newList fc) r) (\<lambda>(obj, err).
         Returned ((fc_setItems fc (fc_copyListMeta fc (fc_newList fc) obj)
           (filter (\<lambda>item. case item_labels item of None \<Rightarrow> False | Some ls \<Rightarrow> sel_Matches label ls) (ExtractList obj)), err), c))))"

definition fake_Watch :: "fake_lib \<Rightarrow> FakeClient \<Rightarrow> ListOptions \<Rightarrow> FakeClientset \<Rightarrow> ((nat option \<times> error option) \<times> FakeClientset) outcome" where
  "fake_Watch lib fc opts c =
     (let opts = opts\<lparr>lo_Watch := True\<rparr>
      in outcome_bind (ExtractFromListOptions lib opts)
           (\<lambda>_. InvokesWatch lib (WatchAction (fc_resource fc) (fc_ns fc) opts) c))"

definition fake_DeleteCollection :: "fake_lib \<Rightarrow> FakeClient \<Rightarrow> ListOptions \<Rightarrow> FakeClientset \<Rightarrow> (error option \<times> FakeClientset) outcome" where
  "fake_DeleteCollection lib fc listOpts c =
     outcome_bind (ExtractFromListOptions lib listOpts) (\<lambda>_.
     outcome_bind (Invokes (DeleteCollectionAction (fc_resource fc) (fc_ns fc) listOpts) (fc_newList fc) c)
       (\<lambda>((obj, err), c). Returned (err, c)))"

section \<open>The two fake clients (fake\_clusterresourceoverride.go, fake\_resourceoverride.go)\<close>

definition WithResource :: "group_version \<Rightarrow> string \<Rightarrow> GroupVersionResource" where
  "WithResource gv resource = \<lparr>gvr_Group = fst gv, gvr_Version = snd gv, gvr_Resource = resource\<rparr>"

text \<open>Copying the list metadata and setting the items of the typed lists; the items have the type of the client.\<close>

fun cro_copyListMeta :: "api_object \<Rightarrow> api_object \<Rightarrow> api_object" where
  "cro_copyListMeta (CROListObject dst) (CROListObject src) = CROListObject (dst\<lparr>al_ResourceVersion := al_ResourceVersion src\<rparr>)"
| "cro_copyListMeta dst src = dst"

fun cro_setItems :: "api_object \<Rightarrow> api_object list \<Rightarrow> api_object" where
  "cro_setItems (CROListObject list) items =
     CROListObject (list\<lparr>al_Items := concat (map (\<lambda>i. case i of CROObject x \<Rightarrow> [x] | _ \<Rightarrow> []) items)\<rparr>)"
| "cro_setItems list items = list"

fun ro_copyListMeta :: "api_object \<Rightarrow> api_object \<Rightarrow> api_object" where
  "ro_copyListMeta (ROListObject dst) (ROListObject src) = ROListObject (dst\<lparr>al_ResourceVersion := al_ResourceVersion src\<rparr>)"
| "ro_copyListMeta dst src = dst"

fun ro_setItems :: "api_object \<Rightarrow> api_object list \<Rightarrow> api_object" where
  "ro_setItems (ROListObject list) items =
     ROListObject (list\<lparr>al_Items := concat (map (\<lambda>i. case i of ROObject x \<Rightarrow> [x] | _ \<Rightarrow> []) items)\<rparr>)"
| "ro_setItems list items = list"

definition newFakeClusterResourceOverrides :: FakeClient where
  "newFakeClusterResourceOverrides =
     \<lparr>fc_ns = [], fc_resource = WithResource operator_SchemeGroupVersion ''clusterresourceoverrides'',
      fc_kind = WithKind operator_SchemeGroupVersion ''ClusterResourceOverride'',
      fc_newObject = CROObject new_ClusterResourceOverride, fc_newList = CROListObject empty_list,
      fc_copyListMeta = cro_copyListMeta, fc_setItems = cro_setItems\<rparr>"

definition newFakeResourceOverrides :: "string \<Rightarrow> FakeClient" where
  "newFakeResourceOverrides namespace =
     \<lparr>fc_ns = namespace, fc_resource = WithResource autoscaling_SchemeGroupVersion ''resourceoverrides'',
      fc_kind = WithKind autoscaling_SchemeGroupVersion ''ResourceOverride'',
      fc_newObject = ROObject new_ResourceOverride, fc_newList = ROListObject empty_list,
      fc_copyListMeta = ro_copyListMeta, fc_setItems = ro_setItems\<rparr>"

text \<open>The accessors of the clientset and of its groups; the REST client of a fake group is nil.\<close>

definition fake_ClusterResourceOverrides :: FakeClient where
  "fake_ClusterResourceOverrides = newFakeClusterResourceOverrides"

definition fake_ResourceOverrides :: "string \<Rightarrow> FakeClient" where
  "fake_ResourceOverrides namespace = newFakeResourceOverrides namespace"

definition fake_RESTClient :: "('q, 'h) RESTClient option" where "fake_RESTClient = None"

definition fake_Tracker :: "FakeClientset \<Rightarrow> tracker" where "fake_Tracker c = fk_tracker c"

definition fake_IsWatchListSemanticsUnSupported :: "FakeClientset \<Rightarrow> bool" where
  "fake_IsWatchListSemanticsUnSupported c = True"

end
