(* ===== verification/FakeStore.thy ===== *)
theory FakeStore
  imports FakeClient
begin

text \<open>
  The contract of the fake clientset: whatever calls are made on its typed clients, it answers as a map from
  keys to objects with a count of the writes per resource, and forgets nothing. The calls of the fakes are
  translated in FakeClient; here is the map, with facts that relate the tracker to it. That every call agrees
  with it is proved in FakeContract.
\<close>

section \<open>Calls on the typed clients\<close>

datatype 'o typed_call =
    DoGet string
  | DoList ListOptions
  | DoCreate 'o
  | DoUpdate 'o
  | DoUpdateStatus 'o
  | DoDelete string
  | DoDeleteCollection ListOptions
  | DoPatch string string string "string list"

datatype clientset_call =
    OnClusterResourceOverrides "ClusterResourceOverride typed_call"
  | OnResourceOverrides string "ResourceOverride typed_call"

datatype answer = ObjectAnswer api_object "error option" | ErrorAnswer "error option"

definition object_answer :: "((api_object \<times> error option) \<times> 's) outcome \<Rightarrow> (answer \<times> 's) outcome" where
  "object_answer r = outcome_bind r (\<lambda>((obj, err), c). Returned (ObjectAnswer obj err, c))"

definition error_answer :: "(error option \<times> 's) outcome \<Rightarrow> (answer \<times> 's) outcome" where
  "error_answer r = outcome_bind r (\<lambda>(err, c). Returned (ErrorAnswer err, c))"

fun do_call :: "fake_lib \<Rightarrow> FakeClient \<Rightarrow> api_object typed_call \<Rightarrow> FakeClientset \<Rightarrow> (answer \<times> FakeClientset) outcome" where
  "do_call lib fc (DoGet name) c = object_answer (fake_Get fc name c)"
| "do_call lib fc (DoList opts) c = object_answer (fake_List lib fc opts c)"
| "do_call lib fc (DoCreate obj) c = object_answer (fake_Create fc obj c)"
| "do_call lib fc (DoUpdate obj) c = object_answer (fake_Update fc obj c)"
| "do_call lib fc (DoUpdateStatus obj) c = object_answer (fake_UpdateStatus fc obj c)"
| "do_call lib fc (DoDelete name) c = error_answer (fake_Delete fc name c)"
| "do_call lib fc (DoDeleteCollection opts) c = error_answer (fake_DeleteCollection lib fc opts c)"
| "do_call lib fc (DoPatch name pt data subs) c = object_answer (fake_Patch fc name pt data subs c)"

fun clientset_do :: "fake_lib \<Rightarrow> clientset_call \<Rightarrow> FakeClientset \<Rightarrow> (answer \<times> FakeClientset) outcome" where
  "clientset_do lib (OnClusterResourceOverrides call) = do_call lib fake_ClusterResourceOverrides (map_typed_call CROObject call)"
| "clientset_do lib (OnResourceOverrides ns call) = do_call lib (fake_ResourceOverrides ns) (map_typed_call ROObject call)"

fun clientset_run :: "fake_lib \<Rightarrow> clientset_call list \<Rightarrow> FakeClientset \<Rightarrow> (answer list \<times> FakeClientset) outcome" where
  "clientset_run lib [] c = Returned ([], c)"
| "clientset_run lib (call # calls) c = outcome_bind (clientset_do lib call c) (\<lambda>(a, c).
     outcome_bind (clientset_run lib calls c) (\<lambda>(as, c). Returned (a # as, c)))"

section \<open>The map\<close>

record fake_store =
  sp_objects :: "GroupVersionResource \<Rightarrow> string \<times> string \<Rightarrow> api_object option"
  sp_writes :: "GroupVersionResource \<Rightarrow> nat"

definition empty_store :: fake_store where "empty_store = \<lparr>sp_objects = (\<lambda>_. Map.empty), sp_writes = (\<lambda>_. 0)\<rparr>"

text \<open>
  A write is to a key in the namespace of the request, which an object without one takes; a creation needs
  an absent key, an update a present one.
\<close>

definition write_check :: "GroupVersionResource \<Rightarrow> string \<Rightarrow> bool \<Rightarrow> api_object \<Rightarrow> (string \<times> string \<Rightarrow> api_object option)
    \<Rightarrow> error + (string \<times> string) \<times> api_object" where
  "write_check gvr ns replace obj m =
     (let (objNs, name) = object_name obj
      in if objNs \<noteq> [] \<and> objNs \<noteq> ns then Inl (namespace_mismatch ns objNs)
         else if replace \<and> m (ns, name) = None then Inl (NewNotFound (GroupResource gvr) name)
         else if \<not> replace \<and> m (ns, name) \<noteq> None then Inl (NewAlreadyExists (GroupResource gvr) name)
         else Inr ((ns, name), if objNs = [] then meta_SetNamespace ns obj else obj))"

definition sp_put :: "GroupVersionResource \<Rightarrow> string \<times> string \<Rightarrow> api_object \<Rightarrow> fake_store \<Rightarrow> fake_store" where
  "sp_put gvr k obj s = s\<lparr>sp_objects := (sp_objects s)(gvr := (sp_objects s gvr)(k \<mapsto> obj)),
     sp_writes := (sp_writes s)(gvr := Suc (sp_writes s gvr))\<rparr>"

definition sp_delete :: "GroupVersionResource \<Rightarrow> string \<times> string \<Rightarrow> fake_store \<Rightarrow> fake_store" where
  "sp_delete gvr k s = s\<lparr>sp_objects := (sp_objects s)(gvr := (sp_objects s gvr)(k := None))\<rparr>"

definition sp_write :: "GroupVersionResource \<Rightarrow> string \<Rightarrow> bool \<Rightarrow> api_object \<Rightarrow> api_object \<Rightarrow> fake_store \<Rightarrow> answer \<times> fake_store" where
  "sp_write gvr ns replace zero obj s =
     (case write_check gvr ns replace obj (sp_objects s gvr) of
        Inl err \<Rightarrow> (ObjectAnswer zero (Some err), s)
      | Inr (k, stored) \<Rightarrow> (ObjectAnswer stored None, sp_put gvr k stored s))"

definition sp_items :: "string \<Rightarrow> (string \<times> string \<Rightarrow> api_object option) \<Rightarrow> api_object list" where
  "sp_items ns m = map (the \<circ> m) (sorted_list_of_set {k \<in> dom m. ns = [] \<or> fst k = ns})"

definition sp_version :: "GroupVersionResource \<Rightarrow> fake_store \<Rightarrow> string" where
  "sp_version gvr s = fmt_d (sint (1 + word_of_nat (sp_writes s gvr) :: int64))"

text \<open>A patched object keeps the key of the write, but the answer is what was sent.\<close>

definition sp_patch :: "fake_lib \<Rightarrow> GroupVersionResource \<Rightarrow> string \<Rightarrow> api_object \<Rightarrow> string \<Rightarrow> string \<Rightarrow> string \<Rightarrow> fake_store \<Rightarrow> answer \<times> fake_store" where
  "sp_patch lib gvr ns zero name pt data s =
     (case sp_objects s gvr (ns, name) of
        None \<Rightarrow> (ObjectAnswer zero (Some (NewNotFound (GroupResource gvr) name)), s)
      | Some old \<Rightarrow> (case patched_object lib pt data old of
          Inl err \<Rightarrow> (ObjectAnswer zero (Some err), s)
        | Inr obj \<Rightarrow> (case sp_write gvr ns True zero obj s of
            (ObjectAnswer stored None, s') \<Rightarrow> (ObjectAnswer obj None, s')
          | r \<Rightarrow> r)))"

definition sp_apply :: "fake_lib \<Rightarrow> GroupVersionResource \<Rightarrow> string \<Rightarrow> api_object \<Rightarrow> string \<Rightarrow> string \<Rightarrow> fake_store \<Rightarrow> answer \<times> fake_store" where
  "sp_apply lib gvr ns zero name data s =
     (case fl_ApplyPatch lib name data of
        Inl err \<Rightarrow> (ObjectAnswer zero (Some err), s)
      | Inr merge \<Rightarrow> (case sp_objects s gvr (ns, name) of
          None \<Rightarrow> (ObjectAnswer zero (Some (NewNotFound (GroupResource gvr) name)), s)
        | Some old \<Rightarrow> (case merged_object lib merge old of
            Inl err \<Rightarrow> (ObjectAnswer zero (Some err), s)
          | Inr obj \<Rightarrow> (case sp_write gvr ns True zero obj s of
              (ObjectAnswer stored None, s') \<Rightarrow>
                (case sp_objects s' gvr (ns, name) of
                   None \<Rightarrow> (ObjectAnswer zero (Some (NewNotFound (GroupResource gvr) name)), s')
                 | Some found \<Rightarrow> (ObjectAnswer found None, s'))
            | r \<Rightarrow> r))))"

fun make_list :: "api_object \<Rightarrow> string \<Rightarrow> api_object list \<Rightarrow> api_object" where
  "make_list (CROObject _) v items = CROListObject
     \<lparr>al_ResourceVersion = v, al_Items = concat (map (\<lambda>i. case i of CROObject x \<Rightarrow> [x] | _ \<Rightarrow> []) items)\<rparr>"
| "make_list _ v items = ROListObject
     \<lparr>al_ResourceVersion = v, al_Items = concat (map (\<lambda>i. case i of ROObject x \<Rightarrow> [x] | _ \<Rightarrow> []) items)\<rparr>"

fun sp_call :: "fake_lib \<Rightarrow> GroupVersionResource \<Rightarrow> string \<Rightarrow> api_object \<Rightarrow> api_object typed_call \<Rightarrow> fake_store \<Rightarrow> (answer \<times> fake_store) outcome" where
  "sp_call lib gvr ns zero (DoGet name) s = Returned
     (case sp_objects s gvr (ns, name) of
        None \<Rightarrow> ObjectAnswer zero (Some (NewNotFound (GroupResource gvr) name))
      | Some obj \<Rightarrow> ObjectAnswer obj None, s)"
| "sp_call lib gvr ns zero (DoList opts) s =
     outcome_bind (ExtractFromListOptions lib opts) (\<lambda>label. Returned
       (ObjectAnswer (make_list zero (sp_version gvr s)
         (filter (\<lambda>obj. \<exists>ls. item_labels obj = Some ls \<and> sel_Matches label ls) (sp_items ns (sp_objects s gvr)))) None, s))"
| "sp_call lib gvr ns zero (DoCreate obj) s = Returned (sp_write gvr ns False zero obj s)"
| "sp_call lib gvr ns zero (DoUpdate obj) s = Returned (sp_write gvr ns True zero obj s)"
| "sp_call lib gvr ns zero (DoUpdateStatus obj) s = Returned (sp_write gvr ns True zero obj s)"
| "sp_call lib gvr ns zero (DoDelete name) s = Returned
     (case sp_objects s gvr (ns, name) of
        None \<Rightarrow> (ErrorAnswer (Some (NewNotFound (GroupResource gvr) name)), s)
      | Some obj \<Rightarrow> (ErrorAnswer None, sp_delete gvr (ns, name) s))"
| "sp_call lib gvr ns zero (DoDeleteCollection opts) s =
     outcome_bind (ExtractFromListOptions lib opts) (\<lambda>_. Returned (ErrorAnswer None, s))"
| "sp_call lib gvr ns zero (DoPatch name pt data subs) s =
     Returned (if pt = ''application/apply-patch+yaml'' then sp_apply lib gvr ns zero name data s
       else sp_patch lib gvr ns zero name pt data s)"

fun sp_do :: "fake_lib \<Rightarrow> clientset_call \<Rightarrow> fake_store \<Rightarrow> (answer \<times> fake_store) outcome" where
  "sp_do lib (OnClusterResourceOverrides call) =
     sp_call lib cro_gvr [] (CROObject new_ClusterResourceOverride) (map_typed_call CROObject call)"
| "sp_do lib (OnResourceOverrides ns call) =
     sp_call lib ro_gvr ns (ROObject new_ResourceOverride) (map_typed_call ROObject call)"

fun sp_run :: "fake_lib \<Rightarrow> clientset_call list \<Rightarrow> fake_store \<Rightarrow> (answer list \<times> fake_store) outcome" where
  "sp_run lib [] s = Returned ([], s)"
| "sp_run lib (call # calls) s = outcome_bind (sp_do lib call s) (\<lambda>(a, s).
     outcome_bind (sp_run lib calls s) (\<lambda>(as, s). Returned (a # as, s)))"

text \<open>The objects a clientset starts with: the items of a list count one by one, no key may come twice.\<close>

fun resource_for :: "api_object \<Rightarrow> GroupVersionResource option" where
  "resource_for (CROObject x) = Some cro_gvr"
| "resource_for (ROObject x) = Some ro_gvr"
| "resource_for obj = None"

fun sp_seed :: "api_object list \<Rightarrow> fake_store \<Rightarrow> fake_store option" where
  "sp_seed [] s = Some s"
| "sp_seed (obj # objs) s =
     (case resource_for obj of
        None \<Rightarrow> None
      | Some gvr \<Rightarrow> (if sp_objects s gvr (object_name obj) \<noteq> None then None
          else sp_seed objs (sp_put gvr (object_name obj) obj s)))"

definition expand :: "api_object list \<Rightarrow> api_object list" where
  "expand objs = concat (map (\<lambda>obj. if IsListType obj then ExtractList obj else [obj]) objs)"

section \<open>Facts about the tracker\<close>

definition tracker_view :: "tracker \<Rightarrow> GroupVersionResource \<Rightarrow> string \<times> string \<Rightarrow> api_object option" where
  "tracker_view t gvr k = map_option vo_Object (map_of (objects_at t gvr) k)"

text \<open>A resource holds objects of its type, each under its own namespace and name.\<close>

definition kept_at :: "GroupVersionResource \<Rightarrow> api_object \<Rightarrow> bool" where
  "kept_at gvr obj \<longleftrightarrow> resource_for obj = Some gvr"

definition tracker_ok :: "tracker \<Rightarrow> bool" where
  "tracker_ok t \<longleftrightarrow> (\<forall>gvr. distinct (map fst (objects_at t gvr))
     \<and> (\<forall>k vo. map_of (objects_at t gvr) k = Some vo \<longrightarrow> object_name (vo_Object vo) = k \<and> kept_at gvr (vo_Object vo)))"

definition same_store :: "tracker \<Rightarrow> tracker \<Rightarrow> bool" where
  "same_store t t' \<longleftrightarrow> objects_at t' = objects_at t \<and> tr_resourceVersions t' = tr_resourceVersions t
     \<and> tr_watchers t' = tr_watchers t \<and> tr_heap t' = tr_heap t \<and> tr_scheme t' = tr_scheme t"

definition put_object :: "GroupVersionResource \<Rightarrow> string \<times> string \<Rightarrow> api_object \<Rightarrow> tracker \<Rightarrow> tracker" where
  "put_object gvr k obj t = t\<lparr>tr_resourceVersions := (tr_resourceVersions t)(gvr \<mapsto> version_at t gvr + 1),
     tr_objects := (tr_objects t)(gvr \<mapsto> AList.update k \<lparr>vo_resourceVersion = version_at t gvr + 1, vo_Object = obj\<rparr>
       (objects_at t gvr))\<rparr>"

definition drop_object :: "GroupVersionResource \<Rightarrow> string \<times> string \<Rightarrow> tracker \<Rightarrow> tracker" where
  "drop_object gvr k t = t\<lparr>tr_objects := (tr_objects t)(gvr \<mapsto> AList.delete k (objects_at t gvr))\<rparr>"

lemma kept_at_cases:
  assumes "kept_at gvr obj"
  obtains (cro) x where "obj = CROObject x" "gvr = cro_gvr" | (ro) x where "obj = ROObject x" "gvr = ro_gvr"
  using assms by (cases obj) (auto simp: kept_at_def)

lemma kept_at_Accessor:
  assumes "kept_at gvr obj"
  obtains m where "api_Accessor obj = Inr m" "object_name obj = (om_Namespace m, om_Name m)"
  using assms by (cases rule: kept_at_cases) (auto simp: object_name_def)

lemma meta_SetNamespace_simps [simp]:
  "resource_for (meta_SetNamespace ns obj) = resource_for obj" "kept_at gvr (meta_SetNamespace ns obj) = kept_at gvr obj"
  "struct_type (meta_SetNamespace ns obj) = struct_type obj"
  "kept_at gvr obj \<Longrightarrow> object_name (meta_SetNamespace ns obj) = (ns, snd (object_name obj))"
  by (cases obj; simp add: kept_at_def object_name_def)+

lemma objects_at_simps [simp]:
  "objects_at (put_object gvr k obj t) = (objects_at t)(gvr :=
     AList.update k \<lparr>vo_resourceVersion = version_at t gvr + 1, vo_Object = obj\<rparr> (objects_at t gvr))"
  "objects_at (drop_object gvr k t) = (objects_at t)(gvr := AList.delete k (objects_at t gvr))"
  "version_at (t\<lparr>tr_objects := objs\<rparr>) = version_at t"
  "objects_at (t\<lparr>tr_heap := ws\<rparr>) = objects_at t" "version_at (t\<lparr>tr_heap := ws\<rparr>) = version_at t"
  "version_at (put_object gvr k obj t) = (version_at t)(gvr := version_at t gvr + 1)"
  "version_at (drop_object gvr k t) = version_at t"
  by (auto simp: objects_at_def put_object_def drop_object_def version_at_def fun_eq_iff)

lemma view_simps [simp]:
  "tracker_view (put_object gvr k obj t) = (tracker_view t)(gvr := (tracker_view t gvr)(k \<mapsto> obj))"
  "tracker_view (drop_object gvr k t) = (tracker_view t)(gvr := (tracker_view t gvr)(k := None))"
  "tracker_view (t\<lparr>tr_heap := ws\<rparr>) = tracker_view t"
  by (auto simp: tracker_view_def fun_eq_iff update_conv' delete_conv')

lemma tracker_ok_put: "tracker_ok t \<Longrightarrow> kept_at gvr obj \<Longrightarrow> tracker_ok (put_object gvr (object_name obj) obj t)"
  unfolding tracker_ok_def by (simp add: distinct_update update_conv' split_paired_all del: map_of_eq_Some_iff)

lemma tracker_ok_drop: "tracker_ok t \<Longrightarrow> tracker_ok (drop_object gvr k t)"
  unfolding tracker_ok_def by (simp add: distinct_delete delete_conv' del: map_of_eq_Some_iff)

lemma tracker_ok_heap [simp]: "tracker_ok (t\<lparr>tr_heap := ws\<rparr>) = tracker_ok t"
  by (simp add: tracker_ok_def)

lemma tracker_ok_view: "tracker_ok t \<Longrightarrow> tracker_view t gvr k = Some obj \<Longrightarrow> object_name obj = k \<and> kept_at gvr obj"
  by (cases k) (auto simp: tracker_ok_def tracker_view_def simp del: map_of_eq_Some_iff)

lemma tracker_Get_view: "tracker_Get gvr ns name t = (case tracker_view t gvr (ns, name) of
    None \<Rightarrow> Inl (NewNotFound (GroupResource gvr) name) | Some obj \<Rightarrow> Inr obj)"
  by (auto simp: tracker_Get_def tracker_view_def objects_at_def split: option.split)

text \<open>What \<open>add\<close> and \<open>Delete\<close> do, in terms of the map.\<close>

lemma write_check_Inr:
  assumes "write_check gvr ns replace obj m = Inr (k, stored)" and "kept_at gvr obj"
  shows "object_name stored = k" and "kept_at gvr stored" and "fst k = ns" and "k = (ns, snd (object_name obj))"
  using assms by (cases "object_name obj"; auto simp: write_check_def split: if_splits)+

lemma tracker_add_write:
  assumes "kept_at gvr obj"
  shows "(case write_check gvr ns replace obj (tracker_view t gvr) of
     Inl err \<Rightarrow> \<exists>t'. tracker_add gvr obj ns replace t = Returned (Some err, t') \<and> same_store t t'
   | Inr (k, stored) \<Rightarrow> tracker_add gvr obj ns replace t = outcome_bind
       (notify gvr ns (if replace then WatchModified stored else WatchAdded stored) (put_object gvr k stored t))
       (\<lambda>t. Returned (None, t)))"
proof -
  obtain m where m: "api_Accessor obj = Inr m" "object_name obj = (om_Namespace m, om_Name m)"
    using assms by (rule kept_at_Accessor)
  have same: "same_store t t" "same_store t (t\<lparr>tr_objects := (tr_objects t)(gvr \<mapsto> objects_at t gvr)\<rparr>)"
    by (auto simp: same_store_def objects_at_def fun_eq_iff)
  let ?ns = "if om_Namespace m = [] then ns else om_Namespace m"
  let ?k = "(?ns, om_Name m)"
  let ?obj = "if om_Namespace m = [] then meta_SetNamespace ns obj else obj"
  have add: "tracker_add gvr obj ns replace t =
      (if ns \<noteq> ?ns then Returned (Some (namespace_mismatch ns ?ns), t)
       else if tracker_view t gvr ?k \<noteq> None then
         (if replace then outcome_bind (notify gvr ns (WatchModified ?obj) (put_object gvr ?k ?obj t)) (\<lambda>t. Returned (None, t))
          else Returned (Some (NewAlreadyExists (GroupResource gvr) (om_Name m)),
            t\<lparr>tr_objects := (tr_objects t)(gvr \<mapsto> objects_at t gvr)\<rparr>))
       else if replace then Returned (Some (NewNotFound (GroupResource gvr) (om_Name m)),
            t\<lparr>tr_objects := (tr_objects t)(gvr \<mapsto> objects_at t gvr)\<rparr>)
       else outcome_bind (notify gvr ns (WatchAdded ?obj) (put_object gvr ?k ?obj t)) (\<lambda>t. Returned (None, t)))"
    by (simp add: tracker_add_def m(1) Let_def put_object_def tracker_view_def del: option.map_disc_iff)
  show ?thesis
  proof (cases "ns = ?ns")
    case False
    then show ?thesis using same(1) by (simp add: add write_check_def m(2) split: if_splits)
  next
    case True
    then have check: "write_check gvr ns replace obj (tracker_view t gvr) =
        (if replace \<and> tracker_view t gvr ?k = None then Inl (NewNotFound (GroupResource gvr) (om_Name m))
         else if \<not> replace \<and> tracker_view t gvr ?k \<noteq> None then Inl (NewAlreadyExists (GroupResource gvr) (om_Name m))
         else Inr (?k, ?obj))"
      by (auto simp: write_check_def m(2))
    show ?thesis unfolding check add using True same(2) by (simp split: option.split)
  qed
qed

lemma tracker_Delete_view:
  "tracker_Delete gvr ns name t = (case tracker_view t gvr (ns, name) of
     None \<Rightarrow> Returned (Some (NewNotFound (GroupResource gvr) name), t)
   | Some obj \<Rightarrow> outcome_bind (notify gvr ns (WatchDeleted obj) (drop_object gvr (ns, name) t)) (\<lambda>t. Returned (None, t)))"
  by (auto simp: tracker_Delete_def tracker_view_def objects_at_def drop_object_def split: option.split)

end
