(* ===== verification/FakeContract.thy ===== *)
theory FakeContract
  imports FakeStore
begin

text \<open>
  The fake clientset keeps its contract: it answers every call as the map of FakeStore does, starting with
  the objects it is given, and records the actions.
\<close>

section \<open>The clientset agrees with the map\<close>

definition tracker_agrees :: "tracker \<Rightarrow> fake_store \<Rightarrow> bool" where
  "tracker_agrees t s \<longleftrightarrow> fake_scheme = Returned (tr_scheme t) \<and> tracker_ok t \<and> tracker_view t = sp_objects s
     \<and> (\<forall>gvr. version_at t gvr = 1 + word_of_nat (sp_writes s gvr))"

text \<open>Without watchers nothing can block a write.\<close>

definition unwatched :: "tracker \<Rightarrow> fake_store \<Rightarrow> bool" where
  "unwatched t s \<longleftrightarrow> tracker_agrees t s \<and> tr_watchers t = (\<lambda>_ _. [])"

lemma tracker_agrees_same: "same_store t t' \<Longrightarrow> tracker_agrees t s \<Longrightarrow> tracker_agrees t' s"
  by (simp add: tracker_agrees_def same_store_def tracker_ok_def tracker_view_def version_at_def fun_eq_iff)

lemma tracker_agrees_put:
  assumes "tracker_agrees t s" and "kept_at gvr obj" and "object_name obj = k"
  shows "tracker_agrees (put_object gvr k obj t) (sp_put gvr k obj s)"
  using assms tracker_ok_put [of t gvr obj]
  by (auto simp: tracker_agrees_def sp_put_def) (simp add: put_object_def)

lemma tracker_agrees_drop: "tracker_agrees t s \<Longrightarrow> tracker_agrees (drop_object gvr k t) (sp_delete gvr k s)"
  by (auto simp: tracker_agrees_def sp_delete_def tracker_ok_drop) (simp add: drop_object_def)

lemma notify_unwatched:
  assumes "tr_watchers t = (\<lambda>_ _. [])"
  shows "notify gvr ns e t = Returned t"
  using assms by (simp add: notify_def getWatches_def)

lemma unwatched_watchers [simp]:
  "tr_watchers (put_object gvr k obj t) = tr_watchers t" "tr_watchers (drop_object gvr k t) = tr_watchers t"
  by (simp_all add: put_object_def drop_object_def)

lemma add_unwatched:
  assumes "kept_at gvr obj" and "unwatched t s"
  shows "(case write_check gvr ns replace obj (sp_objects s gvr) of
     Inl err \<Rightarrow> \<exists>t'. tracker_add gvr obj ns replace t = Returned (Some err, t') \<and> unwatched t' s
   | Inr (k, stored) \<Rightarrow> \<exists>t'. tracker_add gvr obj ns replace t = Returned (None, t') \<and> unwatched t' (sp_put gvr k stored s))"
proof -
  have agrees: "tracker_agrees t s" and watchers: "tr_watchers t = (\<lambda>_ _. [])" and tracker_view: "tracker_view t gvr = sp_objects s gvr"
    using assms(2) by (simp_all add: unwatched_def tracker_agrees_def)
  show ?thesis
  proof (cases "write_check gvr ns replace obj (tracker_view t gvr)")
    case (Inl err)
    then obtain t' where "tracker_add gvr obj ns replace t = Returned (Some err, t')" "same_store t t'"
      using tracker_add_write [OF assms(1), of ns replace t] by auto
    moreover from this have "unwatched t' s"
      using tracker_agrees_same [OF _ agrees] watchers by (simp add: unwatched_def same_store_def)
    ultimately show ?thesis using Inl by (simp add: tracker_view)
  next
    case (Inr r)
    obtain k stored where r: "r = (k, stored)" by fastforce
    have "unwatched (put_object gvr k stored t) (sp_put gvr k stored s)"
      using tracker_agrees_put [OF agrees] write_check_Inr [OF Inr [unfolded r] assms(1)] watchers
      by (simp add: unwatched_def)
    then show ?thesis
      using tracker_add_write [OF assms(1), of ns replace t] Inr watchers by (simp add: tracker_view r notify_unwatched)
  qed
qed

text \<open>A reaction that answers as the map does; an answer without error has the type of the client.\<close>

fun reacts_as :: "api_object \<Rightarrow> ((api_object option \<times> error option) \<times> tracker) outcome \<Rightarrow> answer \<times> fake_store \<Rightarrow> bool" where
  "reacts_as zero r (ObjectAnswer obj None, s) \<longleftrightarrow>
     struct_type obj = struct_type zero \<and> (\<exists>t. r = Returned ((Some obj, None), t) \<and> unwatched t s)"
| "reacts_as zero r (ObjectAnswer obj (Some err), s) \<longleftrightarrow>
     obj = zero \<and> (\<exists>t. r = Returned ((None, Some err), t) \<and> unwatched t s)"
| "reacts_as zero r (ErrorAnswer err, s) \<longleftrightarrow> (\<exists>t. r = Returned ((None, err), t) \<and> unwatched t s)"

lemma unwatched_Get: "unwatched t s \<Longrightarrow> tracker_Get gvr ns name t = (case sp_objects s gvr (ns, name) of
    None \<Rightarrow> Inl (NewNotFound (GroupResource gvr) name) | Some obj \<Rightarrow> Inr obj)"
  by (simp add: tracker_Get_view unwatched_def tracker_agrees_def)

lemma agrees_kept: "tracker_agrees t s \<Longrightarrow> sp_objects s gvr k = Some obj \<Longrightarrow> object_name obj = k \<and> kept_at gvr obj"
  using tracker_ok_view [of t gvr k obj] by (simp add: tracker_agrees_def)

lemma unwatched_kept: "unwatched t s \<Longrightarrow> sp_objects s gvr k = Some obj \<Longrightarrow> object_name obj = k \<and> kept_at gvr obj"
  by (auto simp: unwatched_def dest: agrees_kept)

lemma kept_at_type: "kept_at gvr a \<Longrightarrow> kept_at gvr b \<Longrightarrow> struct_type a = struct_type b"
  by (cases a; cases b; auto simp: kept_at_def cro_gvr_def ro_gvr_def)

definition write_answer :: "GroupVersionResource \<Rightarrow> string \<Rightarrow> bool \<Rightarrow> api_object \<Rightarrow> tracker
    \<Rightarrow> ((api_object option \<times> error option) \<times> tracker) outcome" where
  "write_answer gvr ns replace obj t = outcome_bind (tracker_add gvr obj ns replace t) (\<lambda>(err, t). Returned
     (if err \<noteq> None then (None, err) else read_back gvr ns (snd (object_name obj)) t, t))"

lemma write_answer_sp:
  assumes "kept_at gvr zero" and "kept_at gvr obj" and "unwatched t s"
  shows "reacts_as zero (write_answer gvr ns replace obj t) (sp_write gvr ns replace zero obj s)"
proof (cases "write_check gvr ns replace obj (sp_objects s gvr)")
  case (Inl err)
  then show ?thesis using add_unwatched [OF assms(2,3), of ns replace] by (auto simp: sp_write_def write_answer_def)
next
  case (Inr r)
  obtain k stored where r: "r = (k, stored)" by fastforce
  note stored = write_check_Inr [OF Inr [unfolded r] assms(2)]
  obtain t' where "tracker_add gvr obj ns replace t = Returned (None, t')" "unwatched t' (sp_put gvr k stored s)"
    using add_unwatched [OF assms(2,3), of ns replace] Inr r by auto
  moreover from this(2) have "read_back gvr ns (snd (object_name obj)) t' = (Some stored, None)"
    using stored(4) by (simp add: read_back_def unwatched_Get sp_put_def)
  ultimately show ?thesis
    using kept_at_type [OF stored(2) assms(1)] Inr r by (simp add: sp_write_def write_answer_def)
qed

lemma react_writes:
  assumes "kept_at gvr obj"
  shows "react_Create gvr [] ns obj t = write_answer gvr ns False obj t"
    and "react_Update gvr ns obj t = write_answer gvr ns True obj t"
proof -
  obtain m where m: "api_Accessor obj = Inr m" "object_name obj = (om_Namespace m, om_Name m)"
    using assms by (rule kept_at_Accessor)
  show "react_Create gvr [] ns obj t = write_answer gvr ns False obj t"
    and "react_Update gvr ns obj t = write_answer gvr ns True obj t"
    unfolding react_Create_def react_Update_def write_answer_def m snd_conv by simp_all
qed

text \<open>Reading a document into an object keeps its Go type.\<close>

definition typed_lib :: "fake_lib \<Rightarrow> bool" where
  "typed_lib lib \<longleftrightarrow> (\<forall>doc x y. fl_Unmarshal lib doc x = Inr y \<longrightarrow> resource_for y = resource_for x)"

lemma sum_bind_Inr: "sum_bind r f = Inr y \<longleftrightarrow> (\<exists>x. r = Inr x \<and> f x = Inr y)"
  by (cases r) (auto simp: sum_bind_def)

lemma reflect_New_kept: "kept_at gvr obj \<Longrightarrow> resource_for (reflect_New (struct_type obj)) = Some gvr"
  by (cases obj) (auto simp: kept_at_def reflect_New_def)

lemma patched_kept:
  assumes "typed_lib lib" and "kept_at gvr old"
  shows "patched_object lib pt data old = Inr obj \<Longrightarrow> kept_at gvr obj"
    and "merged_object lib data old = Inr obj \<Longrightarrow> kept_at gvr obj"
  using assms reflect_New_kept [OF assms(2)]
  by (auto simp: patched_object_def merged_object_def sum_bind_Inr typed_lib_def kept_at_def)

lemma react_Patch_sp:
  assumes "typed_lib lib" and "kept_at gvr zero" and "unwatched t s"
  shows "reacts_as zero (react_Patch lib gvr ns name pt data t) (sp_patch lib gvr ns zero name pt data s)"
proof (cases "sp_objects s gvr (ns, name)")
  case None
  then show ?thesis using assms(3) by (auto simp: react_Patch_def sp_patch_def unwatched_Get sum_bind_def)
next
  case (Some old)
  note old = this
  show ?thesis
  proof (cases "patched_object lib pt data old")
    case (Inl err)
    then show ?thesis using old assms(3) by (auto simp: react_Patch_def sp_patch_def unwatched_Get sum_bind_def)
  next
    case (Inr obj)
    then have kept: "kept_at gvr obj" using patched_kept(1) [OF assms(1)] unwatched_kept [OF assms(3) old] by blast
    have "react_Patch lib gvr ns name pt data t = outcome_bind (tracker_add gvr obj ns True t) (\<lambda>(err, t). Returned
        (if err \<noteq> None then (None, err) else (Some obj, None), t))"
      using Inr old assms(3) by (simp add: react_Patch_def unwatched_Get sum_bind_def)
    moreover have "sp_patch lib gvr ns zero name pt data s = (case sp_write gvr ns True zero obj s of
        (ObjectAnswer stored None, s') \<Rightarrow> (ObjectAnswer obj None, s') | r \<Rightarrow> r)"
      using Inr old by (simp add: sp_patch_def)
    ultimately show ?thesis
      using add_unwatched [OF kept assms(3), of ns True] kept_at_type [OF kept assms(2)]
      by (cases "write_check gvr ns True obj (sp_objects s gvr)") (auto simp: sp_write_def)
  qed
qed

lemma react_Apply_sp:
  assumes "typed_lib lib" and "kept_at gvr zero" and "unwatched t s"
  shows "reacts_as zero (react_Apply lib gvr ns name data t) (sp_apply lib gvr ns zero name data s)"
proof (cases "sum_bind (fl_ApplyPatch lib name data) (\<lambda>merge. sum_bind (tracker_Get gvr ns name t) (merged_object lib merge))")
  case (Inl err)
  then show ?thesis using assms(3)
    by (auto simp: react_Apply_def sp_apply_def unwatched_Get sum_bind_def split: sum.splits option.splits)
next
  case (Inr obj)
  then obtain merge old where merge: "fl_ApplyPatch lib name data = Inr merge" and old: "sp_objects s gvr (ns, name) = Some old"
    and obj: "merged_object lib merge old = Inr obj"
    using assms(3) by (auto simp: sum_bind_Inr unwatched_Get split: option.splits)
  have kept: "kept_at gvr obj" using patched_kept(2) [OF assms(1) _ obj] unwatched_kept [OF assms(3) old] by blast
  have react: "react_Apply lib gvr ns name data t = outcome_bind (tracker_add gvr obj ns True t) (\<lambda>(err, t). Returned
      (if err \<noteq> None then (None, err) else read_back gvr ns name t, t))"
    using Inr by (simp add: react_Apply_def)
  show ?thesis
  proof (cases "write_check gvr ns True obj (sp_objects s gvr)")
    case (Inl err)
    then show ?thesis using add_unwatched [OF kept assms(3), of ns True]
      by (auto simp: react sp_apply_def merge old obj sp_write_def)
  next
    case (Inr r)
    obtain k stored where r: "r = (k, stored)" by fastforce
    obtain t' where t': "tracker_add gvr obj ns True t = Returned (None, t')" "unwatched t' (sp_put gvr k stored s)"
      using add_unwatched [OF kept assms(3), of ns True] Inr r by auto
    obtain found where found: "sp_objects (sp_put gvr k stored s) gvr (ns, name) = Some found"
      using old by (cases "(ns, name) = k") (auto simp: sp_put_def)
    then have "struct_type found = struct_type zero"
      using unwatched_kept [OF t'(2) found] kept_at_type [OF _ assms(2)] by blast
    then show ?thesis using t' found Inr r
      by (auto simp: react sp_apply_def merge old obj sp_write_def read_back_def unwatched_Get)
  qed
qed

definition standard :: "fake_lib \<Rightarrow> FakeClientset \<Rightarrow> bool" where
  "standard lib c \<longleftrightarrow> fk_ReactionChain c = [\<lparr>r_Verb = ''*'', r_Resource = ''*'', r_Reaction = ObjectReaction lib\<rparr>]
     \<and> fk_WatchReactionChain c = [\<lparr>wr_Resource = ''*'', wr_Reaction = watch_reaction\<rparr>]"

definition fake_agrees :: "fake_lib \<Rightarrow> FakeClientset \<Rightarrow> fake_store \<Rightarrow> bool" where
  "fake_agrees lib c s \<longleftrightarrow> standard lib c \<and> unwatched (fk_tracker c) s"

definition after_action :: "action \<Rightarrow> tracker \<Rightarrow> FakeClientset \<Rightarrow> FakeClientset" where
  "after_action action t c = c\<lparr>fk_actions := fk_actions c @ [action], fk_tracker := t\<rparr>"

lemma Invokes_standard:
  assumes "standard lib c"
  shows "Invokes action d c = outcome_bind (ObjectReaction lib action (fk_tracker c)) (\<lambda>((handled, ret, err), t).
    Returned (if handled then (ret, err) else (Some d, None), after_action action t c))"
  using assms
  by (cases "ObjectReaction lib action (fk_tracker c)")
    (auto simp: Invokes_def standard_def reactor_Handles_def resourceCovers_def after_action_def split: prod.splits)

lemma fake_agrees_after: "standard lib c \<Longrightarrow> unwatched t s \<Longrightarrow> fake_agrees lib (after_action action t c) s"
  by (simp add: fake_agrees_def standard_def after_action_def)

lemma invoke_answer:
  assumes "standard lib c" and "ObjectReaction lib action (fk_tracker c) = outcome_bind r handled"
    and "reacts_as zero r (ObjectAnswer obj err, s)"
  shows "\<exists>c'. object_answer (invoke_T action zero c) = Returned (ObjectAnswer obj err, c') \<and> fake_agrees lib c' s"
proof -
  obtain t ret where r: "r = Returned ((ret, err), t)" "unwatched t s"
      and T: "as_T zero (ret, err) = Returned (obj, err)"
    using assms(3) by (cases err) (auto simp: as_T_def)
  have "invoke_T action zero c = Returned ((obj, err), after_action action t c)"
    using T by (simp add: invoke_T_def Invokes_standard [OF assms(1)] assms(2) r(1) handled_def)
  then show ?thesis using fake_agrees_after [OF assms(1) r(2)] by (simp add: object_answer_def)
qed

subsection \<open>Lists\<close>

lemma sort_items:
  assumes "distinct (map fst objs)" and "\<And>k vo. map_of objs k = Some vo \<Longrightarrow> object_name (vo_Object vo) = k \<and> kept_at gvr (vo_Object vo)"
  shows "\<exists>vos. filterByNamespace objs ns = Inr vos \<and> map vo_Object vos = sp_items ns (\<lambda>k. map_option vo_Object (map_of objs k))"
proof -
  let ?f = "\<lambda>vo. object_name (vo_Object vo)" and ?m = "\<lambda>k. map_option vo_Object (map_of objs k)"
  let ?P = "\<lambda>vo. ns = [] \<or> fst (?f vo) = ns"
  let ?xs = "filter ?P (map snd objs)" and ?K = "{k \<in> dom ?m. ns = [] \<or> fst k = ns}"
  have key: "?f vo = k" "kept_at gvr (vo_Object vo)" if "(k, vo) \<in> set objs" for k vo
    using assms(2) [of k vo] assms(1) that by simp_all
  have "find (\<lambda>(k, vo). isl (api_Accessor (vo_Object vo))) objs = None"
    using key(2) by (fastforce simp: find_None_iff elim: kept_at_Accessor)
  then have filtered: "filterByNamespace objs ns = Inr (sort_key ?f ?xs)" by (simp add: filterByNamespace_def)
  have keys: "map ?f ?xs = filter (\<lambda>k. ns = [] \<or> fst k = ns) (map fst objs)"
  proof -
    have "map fst objs = map ?f (map snd objs)" unfolding map_map by (rule map_cong) (auto simp: key(1))
    then show ?thesis by (simp only: filter_map comp_def)
  qed
  have "map ?f (sort_key ?f ?xs) = sort (map ?f ?xs)"
    by (intro properties_for_sort [symmetric]) (simp_all add: mset_map)
  also have "\<dots> = sorted_list_of_set (set (map ?f ?xs))"
    using assms(1) unfolding keys by (subst sorted_list_of_set_sort_remdups) (simp add: distinct_remdups_id)
  also have "set (map ?f ?xs) = ?K" unfolding keys
    using map_of_eq_None_iff [of objs] by (auto simp: dom_def image_iff simp del: map_of_eq_None_iff)
  finally have sorted: "map ?f (sort_key ?f ?xs) = sorted_list_of_set ?K" .
  have "map vo_Object (sort_key ?f ?xs) = map (the \<circ> ?m) (map ?f (sort_key ?f ?xs))"
    unfolding map_map
  proof (rule map_cong [OF refl])
    fix vo assume "vo \<in> set (sort_key ?f ?xs)"
    then obtain k where "(k, vo) \<in> set objs" by auto
    then show "vo_Object vo = ((the \<circ> ?m) \<circ> ?f) vo" using key(1) assms(1) by simp
  qed
  with filtered show ?thesis by (simp add: sorted sp_items_def)
qed

lemma fake_scheme_clientset: "clientset_Scheme = fake_scheme"
proof -
  have must: "outcome_bind m (\<lambda>s. Must (None, s)) = m" for m by (cases m) (simp_all add: Must_def)
  show ?thesis unfolding clientset_Scheme_def fake_scheme_def fake_AddToScheme_def fake_localSchemeBuilder_def must ..
qed

lemma fake_scheme_facts:
  assumes "fake_scheme = Returned s"
  shows "scheme_New (WithKind operator_SchemeGroupVersion ''ClusterResourceOverrideList'') s = Some ''operatorv1.ClusterResourceOverrideList''"
    and "scheme_New (WithKind autoscaling_SchemeGroupVersion ''ResourceOverrideList'') s = Some ''autoscalingv1.ResourceOverrideList''"
    and "ObjectKinds ''operatorv1.ClusterResourceOverride'' s = Some ([WithKind operator_SchemeGroupVersion ''ClusterResourceOverride''], False)"
    and "ObjectKinds ''autoscalingv1.ResourceOverride'' s = Some ([WithKind autoscaling_SchemeGroupVersion ''ResourceOverride''], False)"
proof -
  from assms have "clientset_Scheme = Returned s" by (simp add: fake_scheme_clientset)
  from clientset_Scheme_kinds [unfolded this] have "list_all (\<lambda>(t, gvk). ObjectKinds t s = Some ([gvk], False) \<and> scheme_New gvk s = Some t) api_kinds"
    by simp
  then show "scheme_New (WithKind operator_SchemeGroupVersion ''ClusterResourceOverrideList'') s = Some ''operatorv1.ClusterResourceOverrideList''"
    and "scheme_New (WithKind autoscaling_SchemeGroupVersion ''ResourceOverrideList'') s = Some ''autoscalingv1.ResourceOverrideList''"
    and "ObjectKinds ''operatorv1.ClusterResourceOverride'' s = Some ([WithKind operator_SchemeGroupVersion ''ClusterResourceOverride''], False)"
    and "ObjectKinds ''autoscalingv1.ResourceOverride'' s = Some ([WithKind autoscaling_SchemeGroupVersion ''ResourceOverride''], False)"
    by (simp_all add: api_kinds_def)
qed

lemma items_typed:
  "cro_items i (map CROObject cs) = Inr cs" "concat (map (\<lambda>i. case i of CROObject x \<Rightarrow> [x] | _ \<Rightarrow> []) (map CROObject cs)) = cs"
  "ro_items i (map ROObject rs) = Inr rs" "concat (map (\<lambda>i. case i of ROObject x \<Rightarrow> [x] | _ \<Rightarrow> []) (map ROObject rs)) = rs"
proof -
  show "cro_items i (map CROObject cs) = Inr cs" by (induction cs arbitrary: i) auto
  show "ro_items i (map ROObject rs) = Inr rs" by (induction rs arbitrary: i) auto
  show "concat (map (\<lambda>i. case i of CROObject x \<Rightarrow> [x] | _ \<Rightarrow> []) (map CROObject cs)) = cs" by (induction cs) auto
  show "concat (map (\<lambda>i. case i of ROObject x \<Rightarrow> [x] | _ \<Rightarrow> []) (map ROObject rs)) = rs" by (induction rs) auto
qed

text \<open>The list of a fake client, before the client filters by label.\<close>

definition is_client :: "FakeClient \<Rightarrow> bool" where
  "is_client fc \<longleftrightarrow> fc = fake_ClusterResourceOverrides \<or> (\<exists>ns. fc = fake_ResourceOverrides ns)"

lemma client_simps [simp]:
  "fc_resource fake_ClusterResourceOverrides = cro_gvr" "fc_ns fake_ClusterResourceOverrides = []"
  "fc_newObject fake_ClusterResourceOverrides = CROObject new_ClusterResourceOverride"
  "fc_newList fake_ClusterResourceOverrides = CROListObject empty_list"
  "fc_resource (fake_ResourceOverrides ns) = ro_gvr" "fc_ns (fake_ResourceOverrides ns) = ns"
  "fc_newObject (fake_ResourceOverrides ns) = ROObject new_ResourceOverride"
  "fc_newList (fake_ResourceOverrides ns) = ROListObject empty_list"
  by (simp_all add: fake_ClusterResourceOverrides_def newFakeClusterResourceOverrides_def fake_ResourceOverrides_def
      newFakeResourceOverrides_def WithResource_def operator_SchemeGroupVersion_def autoscaling_SchemeGroupVersion_def
      operator_GroupName_def operator_GroupVersion_def autoscaling_GroupName_def autoscaling_GroupVersion_def
      cro_gvr_def ro_gvr_def)

lemma sp_items_kept:
  assumes "\<And>k obj. m k = Some obj \<Longrightarrow> kept_at gvr obj" and "finite (dom m)"
  shows "list_all (kept_at gvr) (sp_items ns m)"
proof -
  have "finite {k \<in> dom m. ns = [] \<or> fst k = ns}" using assms(2) by simp
  then show ?thesis using assms(1) by (auto simp: sp_items_def list_all_iff)
qed

lemma kept_at_map:
  "list_all (kept_at cro_gvr) objs \<Longrightarrow> \<exists>cs. objs = map CROObject cs" "list_all (kept_at ro_gvr) objs \<Longrightarrow> \<exists>rs. objs = map ROObject rs"
proof -
  have differ: "cro_gvr \<noteq> ro_gvr" by (simp add: cro_gvr_def ro_gvr_def)
  show "list_all (kept_at cro_gvr) objs \<Longrightarrow> \<exists>cs. objs = map CROObject cs"
    using differ by (auto simp: list_all_iff ex_map_conv elim!: kept_at_cases)
  show "list_all (kept_at ro_gvr) objs \<Longrightarrow> \<exists>rs. objs = map ROObject rs"
    using differ by (auto simp: list_all_iff ex_map_conv elim!: kept_at_cases)
qed

lemma agrees_items:
  assumes "tracker_agrees t s"
  shows "\<exists>vos. filterByNamespace (objects_at t gvr) ns = Inr vos \<and> map vo_Object vos = sp_items ns (sp_objects s gvr)"
    and "list_all (kept_at gvr) (sp_items ns (sp_objects s gvr))"
proof -
  have ok: "tracker_ok t" and tracker_view: "tracker_view t gvr = sp_objects s gvr"
    using assms by (simp_all add: tracker_agrees_def)
  have "(\<lambda>k. map_option vo_Object (map_of (objects_at t gvr) k)) = sp_objects s gvr" unfolding tracker_view [symmetric] by (simp add: tracker_view_def fun_eq_iff)
  then show "\<exists>vos. filterByNamespace (objects_at t gvr) ns = Inr vos \<and> map vo_Object vos = sp_items ns (sp_objects s gvr)"
    using sort_items [of "objects_at t gvr" gvr ns] ok unfolding tracker_ok_def by simp
  have "finite (dom (tracker_view t gvr))"
    using finite_dom_map_of [of "objects_at t gvr"] by (rule rev_finite_subset) (auto simp: tracker_view_def dom_def)
  then show "list_all (kept_at gvr) (sp_items ns (sp_objects s gvr))"
    using sp_items_kept [of "sp_objects s gvr" gvr] agrees_kept [OF assms] by (simp add: tracker_view)
qed

lemma tracker_List_agrees:
  assumes "tracker_agrees t s" and "is_client fc"
  shows "tracker_List (fc_resource fc) (fc_kind fc) ns t =
    Inr (make_list (fc_newObject fc) (sp_version (fc_resource fc) s) (sp_items ns (sp_objects s (fc_resource fc))))"
proof -
  obtain vos where vos: "filterByNamespace (objects_at t (fc_resource fc)) ns = Inr vos"
      "map vo_Object vos = sp_items ns (sp_objects s (fc_resource fc))"
    using agrees_items(1) [OF assms(1)] by blast
  have scheme: "fake_scheme = Returned (tr_scheme t)"
    and version: "fmt_d (sint (version_at t (fc_resource fc))) = sp_version (fc_resource fc) s"
    using assms(1) by (simp_all add: tracker_agrees_def sp_version_def)
  have none: "vos = []" if "tr_objects t (fc_resource fc) = None"
    using vos(1) that by (simp add: objects_at_def filterByNamespace_def)
  have some: "filterByNamespace objs ns = Inr vos" if "tr_objects t (fc_resource fc) = Some objs" for objs
    using vos(1) that by (simp add: objects_at_def)
  note kept = agrees_items(2) [OF assms(1), of "fc_resource fc" ns]
  from assms(2) show ?thesis unfolding is_client_def
  proof (elim disjE exE)
    assume fc: "fc = fake_ClusterResourceOverrides"
    obtain cs where cs: "map vo_Object vos = map CROObject cs" using kept kept_at_map(1) by (auto simp: fc vos(2))
    then have items: "sp_items ns (sp_objects s (fc_resource fc)) = map CROObject cs" by (simp add: vos(2))
    have none': "cs = []" if "tr_objects t (fc_resource fc) = None" using none [OF that] cs by simp
    have kind: "fc_kind fc\<lparr>gvk_Kind := gvk_Kind (fc_kind fc) @ ''List''\<rparr> = WithKind operator_SchemeGroupVersion ''ClusterResourceOverrideList''"
      by (simp add: fc fake_ClusterResourceOverrides_def newFakeClusterResourceOverrides_def WithKind_def)
    have "gvk_Version (WithKind operator_SchemeGroupVersion ''ClusterResourceOverrideList'') \<noteq> []"
      by (simp add: WithKind_def operator_SchemeGroupVersion_def operator_GroupVersion_def)
    then show ?thesis using none' some version
      unfolding tracker_List_def kind Let_def items
      by (simp add: fake_scheme_facts(1) [OF scheme] reflect_New_def items cs items_typed empty_list_def split: option.split)
        (auto simp: fc comp_def)
  next
    fix ns' assume fc: "fc = fake_ResourceOverrides ns'"
    obtain rs where rs: "map vo_Object vos = map ROObject rs" using kept kept_at_map(2) by (auto simp: fc vos(2))
    then have items: "sp_items ns (sp_objects s (fc_resource fc)) = map ROObject rs" by (simp add: vos(2))
    have none': "rs = []" if "tr_objects t (fc_resource fc) = None" using none [OF that] rs by simp
    have kind: "fc_kind fc\<lparr>gvk_Kind := gvk_Kind (fc_kind fc) @ ''List''\<rparr> = WithKind autoscaling_SchemeGroupVersion ''ResourceOverrideList''"
      by (simp add: fc fake_ResourceOverrides_def newFakeResourceOverrides_def WithKind_def)
    have "gvk_Version (WithKind autoscaling_SchemeGroupVersion ''ResourceOverrideList'') \<noteq> []"
      by (simp add: WithKind_def autoscaling_SchemeGroupVersion_def autoscaling_GroupVersion_def)
    then show ?thesis using none' some version
      unfolding tracker_List_def kind Let_def items
      by (simp add: fake_scheme_facts(2) [OF scheme] reflect_New_def items rs items_typed empty_list_def split: option.split)
        (auto simp: fc comp_def)
  qed
qed

lemma list_filtered:
  fixes v :: string
  assumes "is_client fc" and "list_all (kept_at (fc_resource fc)) items"
  defines "obj \<equiv> make_list (fc_newObject fc) v items"
  shows "struct_type obj = struct_type (fc_newList fc)"
    and "fc_setItems fc (fc_copyListMeta fc (fc_newList fc) obj) (filter P (ExtractList obj)) = make_list (fc_newObject fc) v (filter P items)"
proof -
  from assms(1) have "(\<exists>cs. items = map CROObject cs \<and> fc = fake_ClusterResourceOverrides)
      \<or> (\<exists>rs ns. items = map ROObject rs \<and> fc = fake_ResourceOverrides ns)"
    using assms(2) kept_at_map by (auto simp: is_client_def)
  then show "struct_type obj = struct_type (fc_newList fc)"
    and "fc_setItems fc (fc_copyListMeta fc (fc_newList fc) obj) (filter P (ExtractList obj)) = make_list (fc_newObject fc) v (filter P items)"
    by (auto simp: obj_def fake_ClusterResourceOverrides_def newFakeClusterResourceOverrides_def
        fake_ResourceOverrides_def newFakeResourceOverrides_def empty_list_def filter_map comp_def)
qed

subsection \<open>Every call\<close>

definition follows :: "fake_lib \<Rightarrow> (answer \<times> FakeClientset) outcome \<Rightarrow> (answer \<times> fake_store) outcome \<Rightarrow> bool" where
  "follows lib m n = (case n of
     Panicked \<Rightarrow> m = Panicked
   | Returned (a, s) \<Rightarrow> \<exists>c. m = Returned (a, c) \<and> fake_agrees lib c s)"

lemma follows_invoke:
  assumes "standard lib c" and "ObjectReaction lib action (fk_tracker c) = outcome_bind r handled"
    and "reacts_as zero r as" and "\<exists>obj err. fst as = ObjectAnswer obj err"
  shows "follows lib (object_answer (invoke_T action zero c)) (Returned as)"
  using invoke_answer [OF assms(1,2), of zero] assms(3,4) by (cases as) (auto simp: follows_def)

lemma sp_write_object: "\<exists>obj err. fst (sp_write gvr ns replace zero obj' s) = ObjectAnswer obj err"
  by (auto simp: sp_write_def split: sum.splits)

lemma sp_patch_object: "\<exists>obj err. fst (sp_patch lib gvr ns zero name pt data s) = ObjectAnswer obj err"
  "\<exists>obj err. fst (sp_apply lib gvr ns zero name data s) = ObjectAnswer obj err"
  by (auto simp: sp_patch_def sp_apply_def sp_write_def split: sum.splits option.splits)

lemma client_kept: "is_client fc \<Longrightarrow> kept_at (fc_resource fc) (fc_newObject fc)"
  by (auto simp: is_client_def kept_at_def)

lemma do_call_follows:
  assumes "typed_lib lib" and agrees: "fake_agrees lib c s" and client: "is_client fc"
    and kept: "\<And>obj. obj \<in> set_typed_call call \<Longrightarrow> kept_at (fc_resource fc) obj"
  shows "follows lib (do_call lib fc call c) (sp_call lib (fc_resource fc) (fc_ns fc) (fc_newObject fc) call s)"
proof -
  let ?g = "fc_resource fc" and ?z = "fc_newObject fc" and ?t = "fk_tracker c"
  have std: "standard lib c" and unwatched: "unwatched ?t s" and map: "tracker_agrees ?t s"
    using agrees by (simp_all add: fake_agrees_def unwatched_def)
  note zero = client_kept [OF client]
  note invoke = follows_invoke [OF std]
  show ?thesis
  proof (cases call)
    case (DoGet name)
    have "reacts_as ?z (Returned (read_back ?g (fc_ns fc) name ?t, ?t)) (case sp_objects s ?g (fc_ns fc, name) of
        None \<Rightarrow> ObjectAnswer ?z (Some (NewNotFound (GroupResource ?g) name)) | Some obj \<Rightarrow> ObjectAnswer obj None, s)"
      using unwatched unwatched_kept [OF unwatched, of ?g "(fc_ns fc, name)"] kept_at_type [OF _ zero]
      by (auto simp: read_back_def unwatched_Get split: option.split)
    then show ?thesis
      using invoke [of "GetAction ?g (fc_ns fc) name" "Returned (read_back ?g (fc_ns fc) name ?t, ?t)"]
      by (auto simp: DoGet fake_Get_def split: option.split)
  next
    case (DoCreate obj)
    then have "kept_at ?g obj" using kept by simp
    then show ?thesis
      using invoke [OF _ write_answer_sp [OF zero _ unwatched], of "CreateAction ?g [] (fc_ns fc) obj" "fc_ns fc" False obj]
        sp_write_object react_writes(1) [of ?g obj]
      by (simp add: DoCreate fake_Create_def)
  next
    case (DoUpdate obj)
    then have "kept_at ?g obj" using kept by simp
    then show ?thesis
      using invoke [OF _ write_answer_sp [OF zero _ unwatched], of "UpdateAction ?g [] (fc_ns fc) obj" "fc_ns fc" True obj]
        sp_write_object react_writes(2) [of ?g obj]
      by (simp add: DoUpdate fake_Update_def)
  next
    case (DoUpdateStatus obj)
    then have "kept_at ?g obj" using kept by simp
    then show ?thesis
      using invoke [OF _ write_answer_sp [OF zero _ unwatched], of "UpdateAction ?g ''status'' (fc_ns fc) obj" "fc_ns fc" True obj]
        sp_write_object react_writes(2) [of ?g obj]
      by (simp add: DoUpdateStatus fake_UpdateStatus_def)
  next
    case (DoPatch name pt data subs)
    show ?thesis
      using invoke [OF _ react_Patch_sp [OF assms(1) zero unwatched], of "PatchAction ?g (path_Join subs) (fc_ns fc) name pt data" "fc_ns fc" name pt data]
        invoke [OF _ react_Apply_sp [OF assms(1) zero unwatched], of "PatchAction ?g (path_Join subs) (fc_ns fc) name pt data" "fc_ns fc" name data]
        sp_patch_object
      by (cases "pt = ''application/apply-patch+yaml''") (simp_all add: DoPatch fake_Patch_def)
  next
    case (DoDelete name)
    show ?thesis
    proof (cases "sp_objects s ?g (fc_ns fc, name)")
      case None
      then have "tracker_view ?t ?g (fc_ns fc, name) = None" using unwatched by (simp add: unwatched_def tracker_agrees_def)
      then show ?thesis using None fake_agrees_after [OF std unwatched]
        by (simp add: DoDelete fake_Delete_def Invokes_standard [OF std] tracker_Delete_view handled_def error_answer_def follows_def)
    next
      case (Some obj)
      then have "tracker_view ?t ?g (fc_ns fc, name) = Some obj" using unwatched by (simp add: unwatched_def tracker_agrees_def)
      moreover have "unwatched (drop_object ?g (fc_ns fc, name) ?t) (sp_delete ?g (fc_ns fc, name) s)"
        using tracker_agrees_drop unwatched by (simp add: unwatched_def)
      ultimately show ?thesis using Some fake_agrees_after [OF std] unwatched
        by (simp add: DoDelete fake_Delete_def Invokes_standard [OF std] tracker_Delete_view handled_def error_answer_def
            follows_def notify_unwatched unwatched_def)
    qed
  next
    case (DoDeleteCollection opts)
    show ?thesis using fake_agrees_after [OF std unwatched]
      by (cases "ExtractFromListOptions lib opts")
        (simp_all add: DoDeleteCollection fake_DeleteCollection_def Invokes_standard [OF std] error_answer_def follows_def)
  next
    case (DoList opts)
    let ?items = "sp_items (fc_ns fc) (sp_objects s ?g)"
    have selected: "(case item_labels item of None \<Rightarrow> False | Some ls \<Rightarrow> sel_Matches label ls)
        \<longleftrightarrow> (\<exists>ls. item_labels item = Some ls \<and> sel_Matches label ls)" for label item
      by (simp split: option.split)
    show ?thesis
      using fake_agrees_after [OF std unwatched] list_filtered [OF client agrees_items(2) [OF map, of ?g "fc_ns fc"]]
      by (cases "ExtractFromListOptions lib opts")
        (simp_all add: DoList fake_List_def Invokes_standard [OF std] tracker_List_agrees [OF map client] as_T_def
          object_answer_def follows_def selected del: item_labels.simps)
  qed
qed

lemma is_client_simps [simp]: "is_client fake_ClusterResourceOverrides" "is_client (fake_ResourceOverrides ns)"
  by (auto simp: is_client_def)

lemma clientset_do_follows:
  assumes "typed_lib lib" and "fake_agrees lib c s"
  shows "follows lib (clientset_do lib call c) (sp_do lib call s)"
proof (cases call)
  case (OnClusterResourceOverrides x1)
  have "kept_at cro_gvr obj" if "obj \<in> set_typed_call (map_typed_call CROObject x1)" for obj
    using that by (auto simp: typed_call.set_map kept_at_def)
  then show ?thesis
    using do_call_follows [OF assms, of fake_ClusterResourceOverrides "map_typed_call CROObject x1"]
    by (simp add: OnClusterResourceOverrides)
next
  case (OnResourceOverrides ns x2)
  have "kept_at ro_gvr obj" if "obj \<in> set_typed_call (map_typed_call ROObject x2)" for obj
    using that by (auto simp: typed_call.set_map kept_at_def)
  then show ?thesis
    using do_call_follows [OF assms, of "fake_ResourceOverrides ns" "map_typed_call ROObject x2"]
    by (simp add: OnResourceOverrides)
qed

lemma clientset_run_follows:
  assumes "typed_lib lib" and "fake_agrees lib c s"
  shows "case sp_run lib calls s of
     Panicked \<Rightarrow> clientset_run lib calls c = Panicked
   | Returned (as, s') \<Rightarrow> \<exists>c'. clientset_run lib calls c = Returned (as, c') \<and> fake_agrees lib c' s'"
  using assms(2)
proof (induction calls arbitrary: c s)
  case (Cons call calls)
  show ?case
  proof (cases "sp_do lib call s")
    case Panicked
    then show ?thesis using clientset_do_follows [OF assms(1) Cons.prems, of call] by (simp add: follows_def)
  next
    case (Returned r)
    obtain a s1 where r: "r = (a, s1)" by fastforce
    obtain c1 where c1: "clientset_do lib call c = Returned (a, c1)" "fake_agrees lib c1 s1"
      using clientset_do_follows [OF assms(1) Cons.prems, of call] by (auto simp: follows_def Returned r)
    show ?thesis using Cons.IH [OF c1(2)]
      by (cases "sp_run lib calls s1") (auto simp: Returned r c1(1))
  qed
qed simp

subsection \<open>The objects it starts with, and the recorded actions\<close>

lemma guessed_resources:
  "UnsafeGuessKindToResource (WithKind operator_SchemeGroupVersion ''ClusterResourceOverride'') = cro_gvr"
  "UnsafeGuessKindToResource (WithKind autoscaling_SchemeGroupVersion ''ResourceOverride'') = ro_gvr"
  by code_simp+

lemma own_namespace:
  assumes "kept_at gvr obj" and "m (object_name obj) = None"
  shows "write_check gvr (fst (object_name obj)) False obj m = Inr (object_name obj, obj)"
  using assms(1)
proof (cases rule: kept_at_cases)
  case (cro x)
  then show ?thesis using assms(2) by (cases x; cases "o_Meta x") (auto simp: write_check_def object_name_def)
next
  case (ro x)
  then show ?thesis using assms(2) by (cases x; cases "o_Meta x") (auto simp: write_check_def object_name_def)
qed

lemma add_object_resource:
  assumes "unwatched t s" and "kept_at gvr obj"
  shows "add_object obj t = tracker_add gvr obj (fst (object_name obj)) False t"
proof -
  have scheme: "fake_scheme = Returned (tr_scheme t)" using assms(1) by (simp add: unwatched_def tracker_agrees_def)
  have pass: "outcome_bind m (\<lambda>(err, t). if err \<noteq> None then Returned (err, t) else add_kinds [] x ns t) = m" for m x ns
    by (cases m) auto
  have versions: "gvr_Version cro_gvr \<noteq> APIVersionInternal" "gvr_Version ro_gvr \<noteq> APIVersionInternal"
    by (simp_all add: cro_gvr_def ro_gvr_def APIVersionInternal_def)
  from assms(2) show ?thesis
    by (cases rule: kept_at_cases)
      (simp_all add: add_object_def fake_scheme_facts(3,4) [OF scheme] guessed_resources versions Let_def object_name_def pass
        del: not_None_eq)
qed

lemma addList_seed:
  assumes "unwatched t s"
  shows "case sp_seed objs s of
     None \<Rightarrow> \<exists>err t'. addList objs t = Returned (Some err, t')
   | Some s' \<Rightarrow> \<exists>t'. addList objs t = Returned (None, t') \<and> unwatched t' s'"
  using assms
proof (induction objs arbitrary: t s)
  case (Cons obj objs)
  show ?case
  proof (cases "resource_for obj")
    case None
    then show ?thesis by (cases obj) (simp_all add: add_object_def)
  next
    case (Some gvr)
    then have kept: "kept_at gvr obj" by (simp add: kept_at_def)
    note added = add_unwatched [OF kept Cons.prems, of "fst (object_name obj)" False]
    show ?thesis
    proof (cases "sp_objects s gvr (object_name obj)")
      case None
      then obtain t' where "add_object obj t = Returned (None, t')" and t': "unwatched t' (sp_put gvr (object_name obj) obj s)"
        using added own_namespace [of gvr obj "sp_objects s gvr"] kept add_object_resource [OF Cons.prems kept] by auto
      then show ?thesis using Cons.IH [OF t'] Some None by (simp split: option.splits)
    next
      case (Some old)
      then have "\<exists>err. write_check gvr (fst (object_name obj)) False obj (sp_objects s gvr) = Inl err"
        by (cases "object_name obj") (auto simp: write_check_def)
      then obtain err t' where "add_object obj t = Returned (Some err, t')"
        using added add_object_resource [OF Cons.prems kept] by auto
      then have "addList (obj # objs) t = Returned (Some err, t')" by simp
      moreover have "sp_seed (obj # objs) s = None" using Some \<open>resource_for obj = Some gvr\<close> by simp
      ultimately show ?thesis by (simp del: addList.simps sp_seed.simps)
    qed
  qed
qed simp

lemma sp_seed_append: "sp_seed (xs @ ys) s = Option.bind (sp_seed xs s) (sp_seed ys)"
  by (induction xs arbitrary: s) (auto split: option.split)

lemma tracker_Add_items: "tracker_Add obj t = addList (if IsListType obj then ExtractList obj else [obj]) t"
  by (cases "add_object obj t") (auto simp: tracker_Add_def)

lemma seed_expand:
  assumes "unwatched t s"
  shows "case sp_seed (expand objs) s of
     None \<Rightarrow> seed objs t = Panicked
   | Some s' \<Rightarrow> \<exists>t'. seed objs t = Returned t' \<and> unwatched t' s'"
  using assms
proof (induction objs arbitrary: t s)
  case (Cons obj objs)
  let ?items = "if IsListType obj then ExtractList obj else [obj]"
  have expand: "sp_seed (expand (obj # objs)) s = Option.bind (sp_seed ?items s) (sp_seed (expand objs))"
    by (simp add: expand_def sp_seed_append)
  show ?case
  proof (cases "sp_seed ?items s")
    case None
    then show ?thesis using addList_seed [OF Cons.prems, of ?items] by (auto simp: expand tracker_Add_items)
  next
    case (Some s1)
    then obtain t1 where "addList ?items t = Returned (None, t1)" and t1: "unwatched t1 s1"
      using addList_seed [OF Cons.prems, of ?items] by auto
    then have "seed (obj # objs) t = seed objs t1" by (simp add: tracker_Add_items)
    then show ?thesis using Cons.IH [OF t1] Some
      by (cases "sp_seed (expand objs) s1") (simp_all add: expand del: seed.simps)
  qed
qed (simp add: expand_def)

lemma NewObjectTracker_unwatched: "fake_scheme = Returned scheme \<Longrightarrow> unwatched (NewObjectTracker scheme schemeName) empty_store"
  by (simp add: unwatched_def tracker_agrees_def NewObjectTracker_def empty_store_def tracker_ok_def tracker_view_def
      objects_at_def version_at_def fun_eq_iff)

lemma NewSimpleClientset_follows:
  "case sp_seed (expand objs) empty_store of
     None \<Rightarrow> NewSimpleClientset lib schemeName objs = Panicked
   | Some s \<Rightarrow> \<exists>c. NewSimpleClientset lib schemeName objs = Returned c \<and> fake_agrees lib c s \<and> fk_actions c = []"
proof (cases fake_scheme)
  case Panicked
  with clientset_Scheme_kinds show ?thesis by (simp add: fake_scheme_clientset)
next
  case (Returned scheme)
  from seed_expand [OF NewObjectTracker_unwatched [OF Returned], of objs schemeName] show ?thesis
    by (auto simp: NewSimpleClientset_def Returned fake_agrees_def standard_def split: option.splits)
qed

fun client_action :: "FakeClient \<Rightarrow> api_object typed_call \<Rightarrow> action" where
  "client_action fc (DoGet name) = GetAction (fc_resource fc) (fc_ns fc) name"
| "client_action fc (DoList opts) = ListAction (fc_resource fc) (fc_kind fc) (fc_ns fc) opts"
| "client_action fc (DoCreate obj) = CreateAction (fc_resource fc) [] (fc_ns fc) obj"
| "client_action fc (DoUpdate obj) = UpdateAction (fc_resource fc) [] (fc_ns fc) obj"
| "client_action fc (DoUpdateStatus obj) = UpdateAction (fc_resource fc) ''status'' (fc_ns fc) obj"
| "client_action fc (DoDelete name) = DeleteAction (fc_resource fc) (fc_ns fc) name"
| "client_action fc (DoDeleteCollection opts) = DeleteCollectionAction (fc_resource fc) (fc_ns fc) opts"
| "client_action fc (DoPatch name pt data subs) = PatchAction (fc_resource fc) (path_Join subs) (fc_ns fc) name pt data"

fun call_action :: "clientset_call \<Rightarrow> action" where
  "call_action (OnClusterResourceOverrides call) = client_action fake_ClusterResourceOverrides (map_typed_call CROObject call)"
| "call_action (OnResourceOverrides ns call) = client_action (fake_ResourceOverrides ns) (map_typed_call ROObject call)"

lemma Invokes_actions: "Invokes action d c = Returned (r, c') \<Longrightarrow> fk_actions c' = fk_actions c @ [action]"
  by (auto simp: Invokes_def)

lemma do_call_actions:
  "do_call lib fc call c = Returned (a, c') \<Longrightarrow> fk_actions c' = fk_actions c @ [client_action fc call]"
  by (cases call)
    (auto simp: object_answer_def error_answer_def invoke_T_def fake_Get_def fake_List_def fake_Create_def fake_Update_def
      fake_UpdateStatus_def fake_Delete_def fake_DeleteCollection_def fake_Patch_def dest!: Invokes_actions split: if_splits)

lemma clientset_run_actions:
  "clientset_run lib calls c = Returned (as, c') \<Longrightarrow> fk_actions c' = fk_actions c @ map call_action calls"
proof (induction calls arbitrary: c as)
  case (Cons call calls)
  then obtain a c1 as1 where "clientset_do lib call c = Returned (a, c1)" "clientset_run lib calls c1 = Returned (as1, c')"
    by auto
  moreover from this(1) have "fk_actions c1 = fk_actions c @ [call_action call]"
    by (cases call) (auto dest: do_call_actions)
  ultimately show ?case using Cons.IH by simp
qed simp

text \<open>The clientset answers as the map, and records what it was asked.\<close>

lemma clientset_from_start:
  assumes "typed_lib lib"
  shows "case sp_seed (expand objs) empty_store of
      None \<Rightarrow> NewSimpleClientset lib schemeName objs = Panicked
    | Some s \<Rightarrow> (case sp_run lib calls s of
        Panicked \<Rightarrow> outcome_bind (NewSimpleClientset lib schemeName objs) (clientset_run lib calls) = Panicked
      | Returned (as, s') \<Rightarrow> \<exists>c. outcome_bind (NewSimpleClientset lib schemeName objs) (clientset_run lib calls) = Returned (as, c)
          \<and> tracker_view (fake_Tracker c) = sp_objects s' \<and> fk_actions c = map call_action calls)"
proof (cases "sp_seed (expand objs) empty_store")
  case None
  then show ?thesis using NewSimpleClientset_follows [where objs = objs and lib = lib and schemeName = schemeName] by simp
next
  case (Some s)
  then obtain c where c: "NewSimpleClientset lib schemeName objs = Returned c" "fake_agrees lib c s" "fk_actions c = []"
    using NewSimpleClientset_follows [where objs = objs and lib = lib and schemeName = schemeName] by auto
  show ?thesis
    using clientset_run_follows [OF assms c(2), of calls] clientset_run_actions [of lib calls c] Some c(1,3)
    by (auto simp: fake_agrees_def unwatched_def tracker_agrees_def fake_Tracker_def split: outcome.splits)
qed

end
