(* ===== verification/FakeSteps.thy ===== *)
theory FakeSteps
  imports FakeContract
begin

text \<open>
  Calls, watches and reads of watches on the fake clientset, interleaved, as steps of its state; what a step
  does to the tracker, what every step keeps, and what it tells an open watcher.
\<close>

section \<open>Interleaved calls, watches and reads\<close>

text \<open>
  A step is a call on a typed client, the opening of a watch on cluster resource overrides (\<open>None\<close>) or on
  the resource overrides of a namespace, or what the reader of a watch does: to take an event or to stop.
\<close>

datatype fake_step =
    Request clientset_call
  | OpenWatch "string option" ListOptions
  | Receive nat
  | StopWatch nat

definition watch_client :: "string option \<Rightarrow> FakeClient" where
  "watch_client which = (case which of None \<Rightarrow> fake_ClusterResourceOverrides | Some ns \<Rightarrow> fake_ResourceOverrides ns)"

definition update_watcher :: "nat \<Rightarrow> (RaceFreeFakeWatcher \<Rightarrow> RaceFreeFakeWatcher) \<Rightarrow> FakeClientset \<Rightarrow> FakeClientset" where
  "update_watcher w f c = c\<lparr>fk_tracker := (fk_tracker c)\<lparr>tr_heap := (tr_heap (fk_tracker c))[w := f (tr_heap (fk_tracker c) ! w)]\<rparr>\<rparr>"

text \<open>The answer of a step is the event a reader took, with its watch.\<close>

fun do_step :: "fake_lib \<Rightarrow> fake_step \<Rightarrow> FakeClientset \<Rightarrow> ((nat \<times> tracker_event) list \<times> FakeClientset) outcome" where
  "do_step lib (Request call) c = outcome_bind (clientset_do lib call c) (\<lambda>(a, c). Returned ([], c))"
| "do_step lib (OpenWatch which opts) c = outcome_bind (fake_Watch lib (watch_client which) opts c) (\<lambda>(r, c). Returned ([], c))"
| "do_step lib (Receive w) c =
     (case map rw_result (take 1 (drop w (tr_heap (fk_tracker c)))) of
        [e # es] \<Rightarrow> Returned ([(w, e)], update_watcher w (\<lambda>f. f\<lparr>rw_result := es\<rparr>) c)
      | _ \<Rightarrow> Returned ([], c))"
| "do_step lib (StopWatch w) c = Returned ([], update_watcher w fake_Stop c)"

fun run_steps :: "fake_lib \<Rightarrow> fake_step list \<Rightarrow> FakeClientset \<Rightarrow> ((nat \<times> tracker_event) list \<times> FakeClientset) outcome" where
  "run_steps lib [] c = Returned ([], c)"
| "run_steps lib (step # steps) c = outcome_bind (do_step lib step c) (\<lambda>(es, c).
     outcome_bind (run_steps lib steps c) (\<lambda>(es', c). Returned (es @ es', c)))"

section \<open>What a step does to the tracker\<close>

inductive tracker_step :: "tracker \<Rightarrow> tracker \<Rightarrow> bool" where
  same: "same_store t t' \<Longrightarrow> tracker_step t t'"
| put: "kept_at gvr obj \<Longrightarrow> object_name obj = k \<Longrightarrow> e = WatchAdded obj \<or> e = WatchModified obj \<Longrightarrow>
    notify gvr (fst k) e (put_object gvr k obj t) = Returned t' \<Longrightarrow> tracker_step t t'"
| drop: "tracker_view t gvr k = Some obj \<Longrightarrow> notify gvr (fst k) (WatchDeleted obj) (drop_object gvr k t) = Returned t' \<Longrightarrow>
    tracker_step t t'"

lemma same_store_refl [simp]: "same_store t t"
  by (simp add: same_store_def)

lemma tracker_add_step:
  assumes "kept_at gvr obj" and "tracker_add gvr obj ns replace t = Returned (err, t')"
  shows "tracker_step t t'"
proof (cases "write_check gvr ns replace obj (tracker_view t gvr)")
  case (Inl e)
  with tracker_add_write [OF assms(1), of ns replace t] assms(2) show ?thesis by (auto intro: tracker_step.same)
next
  case (Inr r)
  obtain k stored where r: "r = (k, stored)" by fastforce
  note stored = write_check_Inr [OF Inr [unfolded r] assms(1)]
  have add: "tracker_add gvr obj ns replace t = outcome_bind
      (notify gvr ns (if replace then WatchModified stored else WatchAdded stored) (put_object gvr k stored t))
      (\<lambda>t. Returned (None, t))"
    using tracker_add_write [OF assms(1), of ns replace t] Inr r by simp
  from assms(2) have "notify gvr ns (if replace then WatchModified stored else WatchAdded stored) (put_object gvr k stored t) = Returned t'"
    unfolding add by auto
  then show ?thesis
    using stored by (intro tracker_step.put [of gvr stored k "if replace then WatchModified stored else WatchAdded stored"]) auto
qed

lemma tracker_Delete_step: "tracker_Delete gvr ns name t = Returned (err, t') \<Longrightarrow> tracker_step t t'"
  by (auto simp: tracker_Delete_view split: option.splits
      intro: tracker_step.same tracker_step.drop [where k = "(ns, name)"])

fun action_kept :: "action \<Rightarrow> bool" where
  "action_kept (CreateAction gvr sub ns obj) = kept_at gvr obj"
| "action_kept (UpdateAction gvr sub ns obj) = kept_at gvr obj"
| "action_kept action = True"

lemma ObjectReaction_step:
  assumes "typed_lib lib" and "tracker_ok t" and "action_kept action" and "ObjectReaction lib action t = Returned (r, t')"
  shows "tracker_step t t'"
proof (cases action)
  case (CreateAction gvr sub ns obj)
  then show ?thesis using assms(3,4) tracker_add_step
    by (auto simp: react_Create_def handled_def split: sum.splits if_splits intro: tracker_step.same)
next
  case (UpdateAction gvr sub ns obj)
  then show ?thesis using assms(3,4) tracker_add_step
    by (auto simp: react_Update_def handled_def split: sum.splits intro: tracker_step.same)
next
  case (DeleteAction gvr ns name)
  then show ?thesis using assms(4) tracker_Delete_step by (auto simp: handled_def)
next
  case (PatchAction gvr sub ns name pt data)
  have kept: "kept_at gvr old" if "tracker_Get gvr ns name t = Inr old" for old
    using that tracker_ok_view [OF assms(2), of gvr "(ns, name)" old] by (auto simp: tracker_Get_view split: option.splits)
  show ?thesis
  proof (cases "pt = ''application/apply-patch+yaml''")
    case True
    then have react: "outcome_bind (react_Apply lib gvr ns name data t) handled = Returned (r, t')"
      using assms(4) PatchAction by simp
    let ?obj = "sum_bind (fl_ApplyPatch lib name data) (\<lambda>merge. sum_bind (tracker_Get gvr ns name t) (merged_object lib merge))"
    show ?thesis
    proof (cases ?obj)
      case (Inl err)
      then show ?thesis using react by (auto simp: react_Apply_def handled_def intro: tracker_step.same)
    next
      case (Inr obj)
      then have "kept_at gvr obj" using patched_kept(2) [OF assms(1)] kept by (auto simp: sum_bind_Inr)
      then show ?thesis using react Inr tracker_add_step by (auto simp: react_Apply_def handled_def)
    qed
  next
    case False
    then have react: "outcome_bind (react_Patch lib gvr ns name pt data t) handled = Returned (r, t')"
      using assms(4) PatchAction by simp
    show ?thesis
    proof (cases "sum_bind (tracker_Get gvr ns name t) (patched_object lib pt data)")
      case (Inl err)
      then show ?thesis using react by (auto simp: react_Patch_def handled_def intro: tracker_step.same)
    next
      case (Inr obj)
      then have "kept_at gvr obj" using patched_kept(1) [OF assms(1)] kept by (auto simp: sum_bind_Inr)
      then show ?thesis using react Inr tracker_add_step by (auto simp: react_Patch_def handled_def)
    qed
  qed
qed (use assms(4) in \<open>auto simp: handled_def split: sum.splits intro: tracker_step.same\<close>)

lemma Invokes_reaction:
  assumes "standard lib c" and "Invokes action d c = Returned (r, c')"
  shows "standard lib c' \<and> (\<exists>r. ObjectReaction lib action (fk_tracker c) = Returned (r, fk_tracker c'))"
  using assms by (auto simp: Invokes_standard after_action_def standard_def)

lemma invoke_T_reaction:
  assumes "standard lib c" and "object_answer (invoke_T action d c) = Returned (r, c')"
  shows "standard lib c' \<and> (\<exists>r. ObjectReaction lib action (fk_tracker c) = Returned (r, fk_tracker c'))"
  using assms(2) Invokes_reaction [OF assms(1)] by (auto simp: object_answer_def invoke_T_def)

lemma fake_List_reaction:
  assumes "standard lib c" and "fake_List lib fc opts c = Returned (r, c')"
  shows "standard lib c' \<and> (\<exists>r. ObjectReaction lib (ListAction (fc_resource fc) (fc_kind fc) (fc_ns fc) opts) (fk_tracker c)
    = Returned (r, fk_tracker c'))"
  using assms(2) Invokes_reaction [OF assms(1)] by (fastforce simp: fake_List_def split: if_splits)

lemma do_call_step:
  assumes "typed_lib lib" and "tracker_ok (fk_tracker c)" and std: "standard lib c"
    and "\<And>obj. obj \<in> set_typed_call call \<Longrightarrow> kept_at (fc_resource fc) obj"
    and call: "do_call lib fc call c = Returned (a, c')"
  shows "tracker_step (fk_tracker c) (fk_tracker c')" and "standard lib c'"
proof -
  have "standard lib c' \<and> (\<exists>r. ObjectReaction lib (client_action fc call) (fk_tracker c) = Returned (r, fk_tracker c'))"
  proof (cases call)
    case (DoList opts)
    then obtain r where "fake_List lib fc opts c = Returned (r, c')" using call by (auto simp: object_answer_def)
    from fake_List_reaction [OF std this] DoList show ?thesis by (simp del: ObjectReaction.simps)
  next
    case (DoDelete name)
    then obtain d r where "Invokes (client_action fc call) d c = Returned (r, c')"
      using call by (auto simp: error_answer_def fake_Delete_def)
    then show ?thesis by (rule Invokes_reaction [OF std])
  next
    case (DoDeleteCollection opts)
    then obtain d r where "Invokes (client_action fc call) d c = Returned (r, c')"
      using call by (auto simp: error_answer_def fake_DeleteCollection_def)
    then show ?thesis by (rule Invokes_reaction [OF std])
  qed (use call invoke_T_reaction [OF std] in
      \<open>auto simp only: do_call.simps client_action.simps fake_Get_def fake_Create_def fake_Update_def fake_UpdateStatus_def fake_Patch_def\<close>)
  moreover have "action_kept (client_action fc call)" using assms(4) by (cases call) auto
  ultimately show "tracker_step (fk_tracker c) (fk_tracker c')" and "standard lib c'"
    using ObjectReaction_step [OF assms(1,2)] by blast+
qed

section \<open>What every step keeps\<close>

lemma notify_heap: "notify gvr ns e t = Returned t' \<Longrightarrow> \<exists>ws. broadcast (getWatches gvr ns t) e (tr_heap t) = Returned ws \<and> t' = t\<lparr>tr_heap := ws\<rparr>"
  by (auto simp: notify_def)

definition good_tracker :: "tracker \<Rightarrow> bool" where
  "good_tracker t \<longleftrightarrow> fake_scheme = Returned (tr_scheme t) \<and> tracker_ok t
     \<and> (\<forall>gvr ns. \<forall>w \<in> set (tr_watchers t gvr ns). w < length (tr_heap t))"

lemma broadcast_length: "broadcast watches e ws = Returned ws' \<Longrightarrow> length ws' = length ws"
  by (induction watches arbitrary: ws) auto

lemma fields_put_drop [simp]:
  "tr_scheme (put_object gvr k obj t) = tr_scheme t" "tr_heap (put_object gvr k obj t) = tr_heap t"
  "tr_scheme (drop_object gvr k t) = tr_scheme t" "tr_heap (drop_object gvr k t) = tr_heap t"
  by (simp_all add: put_object_def drop_object_def)

lemma good_tracker_step:
  assumes "tracker_step t t'" and "good_tracker t"
  shows "good_tracker t'"
  using assms(1)
proof cases
  case same
  then show ?thesis using assms(2) unfolding same_store_def good_tracker_def tracker_ok_def by simp
next
  case (put gvr obj k e)
  obtain ws where ws: "broadcast (getWatches gvr (fst k) (put_object gvr k obj t)) e (tr_heap t) = Returned ws"
      "t' = (put_object gvr k obj t)\<lparr>tr_heap := ws\<rparr>"
    using notify_heap [OF put(4)] by auto
  show ?thesis using assms(2) tracker_ok_put [of t gvr obj] put(1,2) broadcast_length [OF ws(1)]
    unfolding ws(2) good_tracker_def by simp
next
  case (drop gvr k obj)
  obtain ws where ws: "broadcast (getWatches gvr (fst k) (drop_object gvr k t)) (WatchDeleted obj) (tr_heap t) = Returned ws"
      "t' = (drop_object gvr k t)\<lparr>tr_heap := ws\<rparr>"
    using notify_heap [OF drop(2)] by auto
  show ?thesis using assms(2) tracker_ok_drop [of t gvr k] broadcast_length [OF ws(1)]
    unfolding ws(2) good_tracker_def by simp
qed

text \<open>
  Versions count up from 1: after \<open>n\<close> writes none is above \<open>n + 1\<close>, and every object's is above 1. They
  stay so as long as the number of writes fits in an \<open>int64\<close>.
\<close>

definition versions_within :: "nat \<Rightarrow> tracker \<Rightarrow> bool" where
  "versions_within n t \<longleftrightarrow> (\<forall>gvr. 1 \<le> sint (version_at t gvr) \<and> sint (version_at t gvr) \<le> 1 + int n
     \<and> (\<forall>k vo. map_of (objects_at t gvr) k = Some vo \<longrightarrow>
          1 < sint (vo_resourceVersion vo) \<and> sint (vo_resourceVersion vo) \<le> sint (version_at t gvr)))"

lemma sint_plus_1:
  assumes "sint (v :: int64) < 2 ^ 63 - 1"
  shows "sint (v + 1) = sint v + 1"
proof -
  have "- (2 ^ 63) \<le> sint v" using sint_greater_eq [of v] by simp
  with assms have "signed_take_bit 63 (sint v + 1) = sint v + 1"
    by (intro signed_take_bit_int_eq_self) simp_all
  then show ?thesis by (simp add: sint_word_ariths)
qed

lemma bound_63: "n + 1 < 2 ^ 62 \<Longrightarrow> 1 + int n < 2 ^ 63 - 1"
  by simp

text \<open>A step writes at most once, and changes objects and versions of one key at most.\<close>

lemma tracker_step_objects:
  assumes "tracker_step t t'"
  obtains (same) "objects_at t' = objects_at t" "version_at t' = version_at t"
  | (put) gvr obj where "kept_at gvr obj" "objects_at t' = objects_at (put_object gvr (object_name obj) obj t)"
      "version_at t' = version_at (put_object gvr (object_name obj) obj t)"
  | (drop) gvr k where "objects_at t' = objects_at (drop_object gvr k t)" "version_at t' = version_at t"
  using assms
proof cases
  case same
  then show ?thesis using that(1) by (simp add: same_store_def version_at_def fun_eq_iff)
next
  case (put gvr obj k e)
  then obtain ws where "t' = (put_object gvr k obj t)\<lparr>tr_heap := ws\<rparr>" using notify_heap by blast
  then show ?thesis using that(2) put(1,2) by simp
next
  case (drop gvr k obj)
  then obtain ws where "t' = (drop_object gvr k t)\<lparr>tr_heap := ws\<rparr>" using notify_heap by blast
  then show ?thesis using that(3) [of gvr k] by simp
qed

lemma version_up:
  assumes "versions_within n t" and "n + 1 < 2 ^ 62"
  shows "sint (version_at t gvr + 1) = sint (version_at t gvr) + 1"
proof (rule sint_plus_1)
  have "sint (version_at t gvr) \<le> 1 + int n" using assms(1) by (simp add: versions_within_def)
  then show "sint (version_at t gvr) < 2 ^ 63 - 1" using bound_63 [OF assms(2)] by linarith
qed

lemma version_bounds:
  assumes "versions_within n t"
  shows "1 \<le> sint (version_at t gvr)" and "sint (version_at t gvr) \<le> 1 + int n"
    and "map_of (objects_at t gvr) k = Some vo \<Longrightarrow> 1 < sint (vo_resourceVersion vo)"
    and "map_of (objects_at t gvr) k = Some vo \<Longrightarrow> sint (vo_resourceVersion vo) \<le> sint (version_at t gvr)"
  using assms unfolding versions_within_def by blast+

lemma versions_withinI:
  assumes "\<And>gvr. 1 \<le> sint (version_at t gvr)" and "\<And>gvr. sint (version_at t gvr) \<le> 1 + int n"
    and "\<And>gvr k vo. map_of (objects_at t gvr) k = Some vo \<Longrightarrow> 1 < sint (vo_resourceVersion vo)"
    and "\<And>gvr k vo. map_of (objects_at t gvr) k = Some vo \<Longrightarrow> sint (vo_resourceVersion vo) \<le> sint (version_at t gvr)"
  shows "versions_within n t"
  using assms unfolding versions_within_def by blast

lemma map_of_put_drop:
  "map_of (objects_at (put_object gvr k obj t) g) k' = Some vo \<Longrightarrow>
     g = gvr \<and> k' = k \<and> vo = \<lparr>vo_resourceVersion = version_at t gvr + 1, vo_Object = obj\<rparr> \<or> map_of (objects_at t g) k' = Some vo"
  "map_of (objects_at (drop_object gvr k t) g) k' = Some vo \<Longrightarrow> map_of (objects_at t g) k' = Some vo"
  by (simp_all add: update_conv' delete_conv' del: map_of_eq_Some_iff split: if_splits)

lemma versions_step:
  assumes step: "tracker_step t t'" and within: "versions_within n t" and small: "n + 1 < 2 ^ 62"
  shows "versions_within (Suc n) t'"
proof -
  note old = version_bounds [OF within]
  have up: "sint (version_at t gvr + 1) = sint (version_at t gvr) + 1" for gvr
    by (rule version_up [OF within small])
  have more: "sint (version_at t gvr) \<le> 1 + int (Suc n)" for gvr using old(2) [of gvr] by simp
  from step show ?thesis
  proof (cases rule: tracker_step_objects)
    case same
    show ?thesis by (rule versions_withinI; unfold same; (rule old(1) more | erule old(3,4)))
  next
    case (put gvr obj)
    have grows: "sint (version_at t g) \<le> sint (version_at (put_object gvr (object_name obj) obj t) g)"
      "sint (version_at (put_object gvr (object_name obj) obj t) g) \<le> 1 + int (Suc n)" for g
      using old(1,2) [of g] up by auto
    show ?thesis
    proof (rule versions_withinI, unfold put(2,3))
      show "1 \<le> sint (version_at (put_object gvr (object_name obj) obj t) g)" for g
        using old(1) grows(1) by (rule order_trans)
      show "sint (version_at (put_object gvr (object_name obj) obj t) g) \<le> 1 + int (Suc n)" for g by (rule grows)
      fix g k vo assume "map_of (objects_at (put_object gvr (object_name obj) obj t) g) k = Some vo"
      from map_of_put_drop(1) [OF this] show "1 < sint (vo_resourceVersion vo)"
        "sint (vo_resourceVersion vo) \<le> sint (version_at (put_object gvr (object_name obj) obj t) g)"
        using old(1) [of gvr] old(3,4) [of g k vo] grows(1) [of g] up by auto
    qed
  next
    case (drop gvr k)
    show ?thesis
    proof (rule versions_withinI, unfold drop)
      fix g k' vo assume "map_of (objects_at (drop_object gvr k t) g) k' = Some vo"
      note kept = map_of_put_drop(2) [OF this]
      show "1 < sint (vo_resourceVersion vo)" "sint (vo_resourceVersion vo) \<le> sint (version_at t g)"
        using old(3,4) [OF kept] by simp_all
    qed (rule old(1) more)+
  qed
qed

text \<open>An object that is not newer than version \<open>r\<close> is still the one listed then.\<close>

definition unchanged_since :: "GroupVersionResource \<Rightarrow> int \<Rightarrow> (string \<times> string \<Rightarrow> api_object option) \<Rightarrow> tracker \<Rightarrow> bool" where
  "unchanged_since gvr r listed t \<longleftrightarrow> r \<le> sint (version_at t gvr)
     \<and> (\<forall>k vo. map_of (objects_at t gvr) k = Some vo \<longrightarrow> sint (vo_resourceVersion vo) \<le> r \<longrightarrow> listed k = Some (vo_Object vo))"

lemma unchanged_step:
  assumes step: "tracker_step t t'" and within: "versions_within n t" and small: "n + 1 < 2 ^ 62"
    and old: "unchanged_since gvr r listed t"
  shows "unchanged_since gvr r listed t'"
proof -
  have up: "sint (version_at t gvr + 1) = sint (version_at t gvr) + 1"
    by (rule version_up [OF within small])
  have r: "r \<le> sint (version_at t gvr)"
    and unchanged: "map_of (objects_at t gvr) k = Some vo \<Longrightarrow> sint (vo_resourceVersion vo) \<le> r \<Longrightarrow> listed k = Some (vo_Object vo)"
    for k vo using old unfolding unchanged_since_def by blast+
  from step show ?thesis
  proof (cases rule: tracker_step_objects)
    case same
    then show ?thesis using old by (simp add: unchanged_since_def)
  next
    case (put g obj)
    show ?thesis unfolding unchanged_since_def put(2,3)
    proof (intro conjI allI impI)
      show "r \<le> sint (version_at (put_object g (object_name obj) obj t) gvr)" using r up by auto
      fix k vo assume "map_of (objects_at (put_object g (object_name obj) obj t) gvr) k = Some vo"
      from map_of_put_drop(1) [OF this] show "listed k = Some (vo_Object vo)" if "sint (vo_resourceVersion vo) \<le> r"
        using that unchanged [of k vo] r up by auto
    qed
  next
    case (drop g k)
    show ?thesis unfolding unchanged_since_def drop
      using r unchanged map_of_put_drop(2) by blast
  qed
qed

section \<open>What a watcher is told\<close>

fun event_object :: "tracker_event \<Rightarrow> api_object" where
  "event_object (WatchAdded obj) = obj"
| "event_object (WatchModified obj) = obj"
| "event_object (WatchDeleted obj) = obj"

text \<open>The event as an update of a map.\<close>

fun apply_event :: "tracker_event \<Rightarrow> (string \<times> string \<Rightarrow> api_object option) \<Rightarrow> string \<times> string \<Rightarrow> api_object option" where
  "apply_event (WatchAdded obj) m = m(object_name obj \<mapsto> obj)"
| "apply_event (WatchModified obj) m = m(object_name obj \<mapsto> obj)"
| "apply_event (WatchDeleted obj) m = m(object_name obj := None)"

text \<open>Watcher \<open>w\<close> is open, and registered once, for a resource and a namespace.\<close>

definition registered :: "nat \<Rightarrow> GroupVersionResource \<Rightarrow> string \<Rightarrow> tracker \<Rightarrow> bool" where
  "registered w gvr ns t \<longleftrightarrow> w < length (tr_heap t) \<and> \<not> rw_Stopped (tr_heap t ! w)
     \<and> (\<forall>g n. count_list (tr_watchers t g n) w = (if g = gvr \<and> n = ns then 1 else 0))"

definition queued :: "tracker \<Rightarrow> nat \<Rightarrow> tracker_event list" where
  "queued t w = rw_result (tr_heap t ! w)"

definition in_ns :: "string \<Rightarrow> string \<times> string \<Rightarrow> bool" where
  "in_ns ns k \<longleftrightarrow> ns = [] \<or> fst k = ns"

lemma fake_send_Returned:
  assumes "fake_send e f = Returned f'"
  shows "rw_Stopped f' = rw_Stopped f" and "\<not> rw_Stopped f \<Longrightarrow> rw_result f' = rw_result f @ [e]"
  using assms by (auto simp: fake_send_def split: if_splits)

lemma broadcast_watcher:
  assumes "broadcast watches e ws = Returned ws'" and "w < length ws"
  shows "rw_Stopped (ws' ! w) = rw_Stopped (ws ! w)
    \<and> (\<not> rw_Stopped (ws ! w) \<longrightarrow> rw_result (ws' ! w) = rw_result (ws ! w) @ replicate (count_list watches w) e)"
  using assms
proof (induction watches arbitrary: ws)
  case (Cons v watches)
  then obtain f where f: "fake_send e (ws ! v) = Returned f" and rest: "broadcast watches e (ws[v := f]) = Returned ws'"
    by auto
  note sent = fake_send_Returned [OF f]
  from Cons.IH [OF rest] Cons.prems(2) sent show ?case by (cases "v = w") auto
qed simp

lemma registered_count:
  assumes "registered w gvr ns t"
  shows "count_list (getWatches g n t) w = (if g = gvr \<and> (n = ns \<or> ns = []) then 1 else 0)"
  using assms by (auto simp: registered_def getWatches_def)

lemma notify_watcher:
  assumes "notify g n e t = Returned t'" and "registered w gvr ns t"
  shows "registered w gvr ns t'" and "queued t' w = queued t w @ (if g = gvr \<and> (n = ns \<or> ns = []) then [e] else [])"
proof -
  obtain ws where ws: "broadcast (getWatches g n t) e (tr_heap t) = Returned ws" "t' = t\<lparr>tr_heap := ws\<rparr>"
    using notify_heap [OF assms(1)] by blast
  have w: "w < length (tr_heap t)" "\<not> rw_Stopped (tr_heap t ! w)" using assms(2) by (simp_all add: registered_def)
  from broadcast_watcher [OF ws(1) w(1)] w registered_count [OF assms(2), of g n] broadcast_length [OF ws(1)] assms(2)
  show "registered w gvr ns t'" and "queued t' w = queued t w @ (if g = gvr \<and> (n = ns \<or> ns = []) then [e] else [])"
    by (auto simp: ws(2) registered_def queued_def)
qed

text \<open>
  So a step tells an open watcher nothing, and then no key it watches changes; or one event, and then the
  map with the event has at every key either what it had, or what the tracker has now.
\<close>

lemma watcher_step:
  assumes step: "tracker_step t t'" and reg: "registered w gvr ns t" and ok: "tracker_ok t"
  shows "registered w gvr ns t' \<and> (\<exists>es. queued t' w = queued t w @ es \<and> list_all (\<lambda>e. kept_at gvr (event_object e)) es
    \<and> (\<forall>m k. in_ns ns k \<longrightarrow> fold apply_event es m k = m k \<and> tracker_view t' gvr k = tracker_view t gvr k
        \<or> fold apply_event es m k = tracker_view t' gvr k))"
  using step
proof cases
  case same
  then have "registered w gvr ns t'" "queued t' w = queued t w @ []" "tracker_view t' = tracker_view t"
    using reg by (auto simp: same_store_def registered_def queued_def tracker_view_def fun_eq_iff)
  then show ?thesis by (intro conjI exI [of _ "[]"]) simp_all
next
  case (put g obj k e)
  let ?t = "put_object g k obj t"
  have "registered w gvr ns ?t" using reg by (simp add: registered_def)
  note told = notify_watcher [OF put(4) this]
  obtain ws where "t' = ?t\<lparr>tr_heap := ws\<rparr>" using notify_heap [OF put(4)] by blast
  then have tracker_view: "tracker_view t' = (tracker_view t)(g := (tracker_view t g)(k \<mapsto> obj))" by simp
  let ?es = "if g = gvr \<and> (fst k = ns \<or> ns = []) then [e] else []"
  have "queued t' w = queued t w @ ?es" using told(2) by (simp add: queued_def)
  moreover have "list_all (\<lambda>e. kept_at gvr (event_object e)) ?es" using put(1,3) by auto
  moreover have "fold apply_event ?es m k' = m k' \<and> tracker_view t' gvr k' = tracker_view t gvr k' \<or> fold apply_event ?es m k' = tracker_view t' gvr k'"
    if "in_ns ns k'" for m k' using that put(2,3) by (auto simp: tracker_view in_ns_def)
  ultimately show ?thesis using told(1) by blast
next
  case (drop g k obj)
  let ?t = "drop_object g k t"
  have name: "object_name obj = k" "kept_at g obj" using tracker_ok_view [OF ok drop(1)] by simp_all
  have "registered w gvr ns ?t" using reg by (simp add: registered_def)
  note told = notify_watcher [OF drop(2) this]
  obtain ws where "t' = ?t\<lparr>tr_heap := ws\<rparr>" using notify_heap [OF drop(2)] by blast
  then have tracker_view: "tracker_view t' = (tracker_view t)(g := (tracker_view t g)(k := None))" by simp
  let ?es = "if g = gvr \<and> (fst k = ns \<or> ns = []) then [WatchDeleted obj] else []"
  have "queued t' w = queued t w @ ?es" using told(2) by (simp add: queued_def)
  moreover have "list_all (\<lambda>e. kept_at gvr (event_object e)) ?es" using name(2) by auto
  moreover have "fold apply_event ?es m k' = m k' \<and> tracker_view t' gvr k' = tracker_view t gvr k' \<or> fold apply_event ?es m k' = tracker_view t' gvr k'"
    if "in_ns ns k'" for m k' using that name(1) by (auto simp: tracker_view in_ns_def)
  ultimately show ?thesis using told(1) by blast
qed

section \<open>Steps of the clientset\<close>

text \<open>Opening a watch leaves the objects alone; the watcher gets a new address.\<close>

definition opened :: "GroupVersionResource \<Rightarrow> string \<Rightarrow> tracker \<Rightarrow> tracker \<Rightarrow> bool" where
  "opened gvr ns t t' \<longleftrightarrow> tr_objects t' = tr_objects t \<and> tr_resourceVersions t' = tr_resourceVersions t \<and> tr_scheme t' = tr_scheme t
     \<and> (tr_heap t' = tr_heap t \<and> tr_watchers t' = tr_watchers t
       \<or> (\<exists>f. tr_heap t' = tr_heap t @ [f] \<and> tr_watchers t' =
           (tr_watchers t)(gvr := (tr_watchers t gvr)(ns := tr_watchers t gvr ns @ [length (tr_heap t)]))))"

lemma tracker_Watch_opened:
  assumes "tracker_Watch gvr ns opts t = Returned (r, t')"
  shows "opened gvr ns t t'"
  using assms by (auto simp: tracker_Watch_def opened_def Let_def split: sum.splits option.splits)

lemma fake_Watch_tracker:
  assumes "standard lib c" and "fake_Watch lib fc opts c = Returned (r, c')"
  shows "standard lib c' \<and> (\<exists>r'. tracker_Watch (fc_resource fc) (fc_ns fc) (Some (opts\<lparr>lo_Watch := True\<rparr>)) (fk_tracker c)
      = Returned (r', fk_tracker c') \<and> (\<forall>w. r = (Some w, None) \<longrightarrow> r' = Inr w))"
proof -
  let ?opts = "opts\<lparr>lo_Watch := True\<rparr>"
  let ?watch = "tracker_Watch (fc_resource fc) (fc_ns fc) (Some ?opts) (fk_tracker c)"
  let ?action = "WatchAction (fc_resource fc) (fc_ns fc) ?opts"
  have chain: "fk_WatchReactionChain c = [\<lparr>wr_Resource = ''*'', wr_Reaction = watch_reaction\<rparr>]"
    using assms(1) by (simp add: standard_def)
  have "InvokesWatch lib ?action c = Returned (r, c')"
    using assms(2) by (auto simp: fake_Watch_def Let_def)
  then obtain t' where tried: "try_watch_reactors lib (fk_WatchReactionChain c) ?action (fk_tracker c) = Returned (r, t')"
    and c': "c' = c\<lparr>fk_actions := fk_actions c @ [?action], fk_tracker := t'\<rparr>"
    by (auto simp: InvokesWatch_def)
  obtain r' where "?watch = Returned (r', t') \<and> (\<forall>w. r = (Some w, None) \<longrightarrow> r' = Inr w)"
  proof (cases ?watch)
    case (Returned a)
    then show thesis using that tried unfolding chain
      by (cases "fst a"; cases a) (auto simp: resourceCovers_def watch_reaction_def)
  qed (use tried in \<open>simp add: chain resourceCovers_def watch_reaction_def\<close>)
  then show ?thesis using assms(1) by (auto simp: c' standard_def)
qed

lemma objects_simps_opened:
  assumes "opened gvr ns t t'"
  shows "objects_at t' = objects_at t" "version_at t' = version_at t" "tracker_view t' = tracker_view t"
  using assms by (auto simp: opened_def objects_at_def version_at_def tracker_view_def fun_eq_iff)

lemma opened_good:
  assumes "opened gvr ns t t'" and "good_tracker t"
  shows "good_tracker t'"
proof -
  have "\<forall>w \<in> set (tr_watchers t' g n). w < length (tr_heap t')" for g n
    using assms unfolding opened_def good_tracker_def by (elim conjE disjE exE) (auto simp: less_SucI)
  moreover have "tracker_ok t'" "fake_scheme = Returned (tr_scheme t')"
    using assms objects_simps_opened [OF assms(1)] by (simp_all add: good_tracker_def tracker_ok_def opened_def)
  ultimately show ?thesis by (simp add: good_tracker_def)
qed

lemma opened_registered:
  assumes "opened g n t t'" and "registered w gvr ns t"
  shows "registered w gvr ns t'" and "queued t' w = queued t w"
  using assms by (auto simp: opened_def registered_def queued_def nth_append)

text \<open>The kinds of steps: on the tracker, the opening of a watch, and the reading or closing of one.\<close>

lemma do_step_cases:
  assumes "typed_lib lib" and "standard lib c" and good: "good_tracker (fk_tracker c)" and step: "do_step lib step c = Returned (es, c')"
  obtains (tracker) "tracker_step (fk_tracker c) (fk_tracker c')" "es = []" "standard lib c'"
  | (opened) g n where "opened g n (fk_tracker c) (fk_tracker c')" "es = []" "standard lib c'"
  | (read) v e es' where "v < length (tr_heap (fk_tracker c))" "queued (fk_tracker c) v = e # es'" "es = [(v, e)]"
      "c' = update_watcher v (\<lambda>f. f\<lparr>rw_result := es'\<rparr>) c"
  | (stop) v where "step = StopWatch v" "es = []" "c' = update_watcher v fake_Stop c"
proof (cases step)
  case (Request call)
  then obtain a where call: "clientset_do lib call c = Returned (a, c')" "es = []" using step by auto
  have ok: "tracker_ok (fk_tracker c)" using good by (simp add: good_tracker_def)
  have "tracker_step (fk_tracker c) (fk_tracker c') \<and> standard lib c'"
  proof (cases call)
    case (OnClusterResourceOverrides x)
    have "kept_at cro_gvr obj" if "obj \<in> set_typed_call (map_typed_call CROObject x)" for obj
      using that by (auto simp: typed_call.set_map kept_at_def)
    then show ?thesis
      using do_call_step [OF assms(1) ok assms(2), of "map_typed_call CROObject x" fake_ClusterResourceOverrides a c'] call(1)
      by (simp add: OnClusterResourceOverrides)
  next
    case (OnResourceOverrides n x)
    have "kept_at ro_gvr obj" if "obj \<in> set_typed_call (map_typed_call ROObject x)" for obj
      using that by (auto simp: typed_call.set_map kept_at_def)
    then show ?thesis
      using do_call_step [OF assms(1) ok assms(2), of "map_typed_call ROObject x" "fake_ResourceOverrides n" a c'] call(1)
      by (simp add: OnResourceOverrides)
  qed
  then show thesis using tracker call(2) by blast
next
  case (OpenWatch which opts)
  then obtain r where r: "fake_Watch lib (watch_client which) opts c = Returned (r, c')" "es = []" using step by auto
  then show thesis using fake_Watch_tracker [OF assms(2) r(1)] tracker_Watch_opened opened by blast
next
  case (Receive v)
  show thesis
  proof (cases "v < length (tr_heap (fk_tracker c)) \<and> queued (fk_tracker c) v \<noteq> []")
    case True
    then obtain e es' where v: "v < length (tr_heap (fk_tracker c))" "queued (fk_tracker c) v = e # es'"
      by (auto simp: neq_Nil_conv)
    then have "map rw_result (take 1 (drop v (tr_heap (fk_tracker c)))) = [e # es']"
      by (simp add: queued_def take_Suc_conv_app_nth)
    then show thesis using step read [OF v] by (simp add: Receive)
  next
    case False
    then have "map rw_result (take 1 (drop v (tr_heap (fk_tracker c)))) = [] \<or> map rw_result (take 1 (drop v (tr_heap (fk_tracker c)))) = [[]]"
      by (cases "v < length (tr_heap (fk_tracker c))") (auto simp: queued_def take_Suc_conv_app_nth)
    then have "es = []" "c' = c" using step by (auto simp: Receive)
    then show thesis using tracker assms(2) tracker_step.same [OF same_store_refl] by blast
  qed
next
  case (StopWatch v)
  then show thesis using stop step by simp
qed

lemma update_watcher_simps [simp]:
  "standard lib (update_watcher v f c) = standard lib c" "objects_at (fk_tracker (update_watcher v f c)) = objects_at (fk_tracker c)"
  "version_at (fk_tracker (update_watcher v f c)) = version_at (fk_tracker c)" "tracker_view (fk_tracker (update_watcher v f c)) = tracker_view (fk_tracker c)"
  "good_tracker (fk_tracker (update_watcher v f c)) = good_tracker (fk_tracker c)"
  by (auto simp: update_watcher_def standard_def good_tracker_def)

lemma do_step_good:
  assumes "typed_lib lib" and "standard lib c" and "good_tracker (fk_tracker c)" and "do_step lib step c = Returned (es, c')"
  shows "standard lib c' \<and> good_tracker (fk_tracker c')"
  using assms
proof (cases rule: do_step_cases)
  case tracker
  then show ?thesis using good_tracker_step assms(3) by blast
next
  case (opened g n)
  then show ?thesis using opened_good assms(3) by blast
qed (use assms(2,3) in simp_all)

lemma do_step_versions:
  assumes "typed_lib lib" and "standard lib c" and "good_tracker (fk_tracker c)" and "do_step lib step c = Returned (es, c')"
    and within: "versions_within n (fk_tracker c)" and small: "n + 1 < 2 ^ 62"
  shows "versions_within (Suc n) (fk_tracker c')
    \<and> (unchanged_since gvr r listed (fk_tracker c) \<longrightarrow> unchanged_since gvr r listed (fk_tracker c'))"
proof -
  have same: ?thesis if "objects_at (fk_tracker c') = objects_at (fk_tracker c)" "version_at (fk_tracker c') = version_at (fk_tracker c)"
    using versions_step [OF tracker_step.same [OF same_store_refl] within small] that
    by (simp add: versions_within_def unchanged_since_def)
  show ?thesis
    using assms(1-4)
  proof (cases rule: do_step_cases)
    case tracker
    then show ?thesis using versions_step [OF _ within small] unchanged_step [OF _ within small] by blast
  next
    case (opened g n)
    show ?thesis by (rule same) (simp_all add: objects_simps_opened [OF opened(1)])
  qed (rule same; simp)+
qed

end
