(* ===== verification/FakeWatch.thy ===== *)
theory FakeWatch
  imports FakeSteps
begin

text \<open>
  Listing and watching on the fake clientset, as an informer does in a test: the objects of a list and the
  events of a watch that starts at the version of the list lead a cache to the objects of the tracker, with
  one exception, an object that is deleted between the list and the watch.
\<close>

section \<open>An open watch\<close>

text \<open>
  The map with all events of watcher \<open>w\<close>, those it has delivered and those in its channel, is the map of the
  tracker in the watched namespace, but for the dead keys.
\<close>

definition watch_inv :: "nat \<Rightarrow> GroupVersionResource \<Rightarrow> string \<Rightarrow> (string \<times> string \<Rightarrow> bool) \<Rightarrow> (string \<times> string \<Rightarrow> api_object option)
    \<Rightarrow> tracker_event list \<Rightarrow> tracker \<Rightarrow> bool" where
  "watch_inv w gvr ns dead m delivered t \<longleftrightarrow> registered w gvr ns t
     \<and> list_all (\<lambda>e. kept_at gvr (event_object e)) (delivered @ queued t w)
     \<and> (\<forall>k. in_ns ns k \<longrightarrow> fold apply_event (delivered @ queued t w) m k = tracker_view t gvr k \<or> tracker_view t gvr k = None \<and> dead k)"

definition events_of :: "nat \<Rightarrow> (nat \<times> tracker_event) list \<Rightarrow> tracker_event list" where
  "events_of w es = map snd (filter (\<lambda>(v, e). v = w) es)"

lemma watch_inv_unchanged:
  assumes "watch_inv w gvr ns dead m R t" and "registered w gvr ns t'" and "R' @ queued t' w = R @ queued t w" and "tracker_view t' = tracker_view t"
  shows "watch_inv w gvr ns dead m R' t'"
  using assms unfolding watch_inv_def by simp

lemma registered_update:
  assumes "registered w gvr ns (fk_tracker c)" and "v < length (tr_heap (fk_tracker c))"
    and "v = w \<Longrightarrow> rw_Stopped (f (tr_heap (fk_tracker c) ! w)) = rw_Stopped (tr_heap (fk_tracker c) ! w)"
  shows "registered w gvr ns (fk_tracker (update_watcher v f c))"
    and "queued (fk_tracker (update_watcher v f c)) w = (if v = w then rw_result (f (tr_heap (fk_tracker c) ! w)) else queued (fk_tracker c) w)"
  using assms by (auto simp: registered_def update_watcher_def queued_def nth_list_update)

lemma do_step_watch:
  assumes "typed_lib lib" and "standard lib c" and good: "good_tracker (fk_tracker c)" and step: "do_step lib step c = Returned (es, c')"
    and inv: "watch_inv w gvr ns dead m R (fk_tracker c)" and open_w: "step \<noteq> StopWatch w"
  shows "watch_inv w gvr ns dead m (R @ events_of w es) (fk_tracker c')"
proof -
  have reg: "registered w gvr ns (fk_tracker c)" using inv by (simp add: watch_inv_def)
  show ?thesis using assms(1-4)
  proof (cases rule: do_step_cases)
    case tracker
    have "tracker_ok (fk_tracker c)" using good by (simp add: good_tracker_def)
    from watcher_step [OF tracker(1) reg this] obtain new where
      "registered w gvr ns (fk_tracker c')" "queued (fk_tracker c') w = queued (fk_tracker c) w @ new"
      "list_all (\<lambda>e. kept_at gvr (event_object e)) new"
      and new: "\<And>m k. in_ns ns k \<Longrightarrow> fold apply_event new m k = m k \<and> tracker_view (fk_tracker c') gvr k = tracker_view (fk_tracker c) gvr k
        \<or> fold apply_event new m k = tracker_view (fk_tracker c') gvr k" by blast
    moreover have "fold apply_event (R @ queued (fk_tracker c) w @ new) m k = tracker_view (fk_tracker c') gvr k
        \<or> tracker_view (fk_tracker c') gvr k = None \<and> dead k" if "in_ns ns k" for k
    proof -
      have "fold apply_event (R @ queued (fk_tracker c) w) m k = tracker_view (fk_tracker c) gvr k \<or> tracker_view (fk_tracker c) gvr k = None \<and> dead k"
        using inv that unfolding watch_inv_def by blast
      then show ?thesis using new [OF that, of "fold apply_event (R @ queued (fk_tracker c) w) m"] by auto
    qed
    ultimately show ?thesis using inv tracker(2) by (simp add: watch_inv_def events_of_def)
  next
    case (opened g n)
    then show ?thesis
      using watch_inv_unchanged [OF inv opened_registered(1) [OF opened(1) reg]] opened_registered(2) [OF opened(1) reg]
        objects_simps_opened(3) [OF opened(1)] by (simp add: events_of_def)
  next
    case (read v e es')
    let ?f = "\<lambda>f. f\<lparr>rw_result := es'\<rparr>"
    have "registered w gvr ns (fk_tracker c')"
      and "queued (fk_tracker c') w = (if v = w then es' else queued (fk_tracker c) w)"
      using registered_update [OF reg read(1), of ?f] by (simp_all add: read(4))
    then show ?thesis using read(2,3)
      by (intro watch_inv_unchanged [OF inv]) (auto simp: events_of_def read(4))
  next
    case (stop v)
    show ?thesis
    proof (cases "v < length (tr_heap (fk_tracker c))")
      case True
      then have "registered w gvr ns (fk_tracker c')" "queued (fk_tracker c') w = queued (fk_tracker c) w"
        using registered_update [OF reg True, of fake_Stop] stop(1) open_w by (auto simp: stop(3))
      then show ?thesis by (intro watch_inv_unchanged [OF inv]) (simp_all add: events_of_def stop(2,3))
    next
      case False
      then have "fk_tracker c' = fk_tracker c" by (simp add: stop(3) update_watcher_def list_update_beyond)
      then show ?thesis using inv by (simp add: events_of_def stop(2))
    qed
  qed
qed

lemma run_steps_watch:
  assumes "typed_lib lib" and "standard lib c" and "good_tracker (fk_tracker c)" and "run_steps lib steps c = Returned (es, c')"
    and "watch_inv w gvr ns dead m R (fk_tracker c)" and "StopWatch w \<notin> set steps"
  shows "watch_inv w gvr ns dead m (R @ events_of w es) (fk_tracker c')"
  using assms(2-)
proof (induction steps arbitrary: c R es)
  case (Cons step steps)
  then obtain es1 c1 es2 where step: "do_step lib step c = Returned (es1, c1)"
    and rest: "run_steps lib steps c1 = Returned (es2, c')" "es = es1 @ es2" by auto
  have "watch_inv w gvr ns dead m (R @ events_of w es1) (fk_tracker c1)"
    using do_step_watch [OF assms(1) Cons.prems(1,2) step Cons.prems(4)] Cons.prems(5) by auto
  then have "watch_inv w gvr ns dead m ((R @ events_of w es1) @ events_of w es2) (fk_tracker c')"
    using do_step_good [OF assms(1) Cons.prems(1,2) step] Cons.prems(5) by (intro Cons.IH [OF _ _ rest(1)]) simp_all
  then show ?case by (simp add: rest(2) events_of_def)
qed (simp add: events_of_def)

lemma run_steps_versions:
  assumes "typed_lib lib" and "standard lib c" and "good_tracker (fk_tracker c)" and "run_steps lib steps c = Returned (es, c')"
    and "versions_within n (fk_tracker c)" and "n + length steps < 2 ^ 62"
  shows "standard lib c' \<and> good_tracker (fk_tracker c') \<and> versions_within (n + length steps) (fk_tracker c')
    \<and> (unchanged_since gvr r listed (fk_tracker c) \<longrightarrow> unchanged_since gvr r listed (fk_tracker c'))"
  using assms(2-)
proof (induction steps arbitrary: c n es)
  case (Cons step steps)
  then obtain es1 c1 es2 where step: "do_step lib step c = Returned (es1, c1)"
    and rest: "run_steps lib steps c1 = Returned (es2, c')" by auto
  note good = do_step_good [OF assms(1) Cons.prems(1,2) step]
  have small: "n + 1 < 2 ^ 62" "Suc n + length steps < 2 ^ 62" using Cons.prems(5) by simp_all
  note versions = do_step_versions [OF assms(1) Cons.prems(1,2) step Cons.prems(4) small(1), of gvr r listed]
  show ?case using Cons.IH [OF conjunct1 [OF good] conjunct2 [OF good] rest conjunct1 [OF versions] small(2)] versions by auto
qed simp

section \<open>The version of a list, read back\<close>

lemma ParseUint_digits:
  assumes "\<forall>c \<in> set s. 48 \<le> (of_char c :: nat) \<and> (of_char c :: nat) \<le> 57"
    and "foldl (\<lambda>a c. a * 10 + (of_char c - 48)) n s < 2 ^ 64"
  shows "ParseUint_loop s n = Inr (foldl (\<lambda>a c. a * 10 + (of_char c - 48)) n s)"
  using assms
proof (induction s arbitrary: n)
  case (Cons c s)
  let ?k = "of_char c :: nat" and ?g = "\<lambda>a c. a * 10 + (of_char c - 48) :: nat"
  have grows: "n' \<le> foldl ?g n' s'" for n' s'
  proof (induction s' arbitrary: n')
    case (Cons c s')
    have "n' \<le> ?g n' c" by simp
    also have "\<dots> \<le> foldl ?g (?g n' c) s'" by (rule Cons.IH)
    finally show ?case by simp
  qed simp
  have "n * 10 + (?k - 48) < 2 ^ 64" using grows [of "n * 10 + (?k - 48)" s] Cons.prems(2) by simp
  then show ?case using Cons by (simp add: Let_def)
qed simp

lemma fmt_base_decimal: "\<forall>c \<in> set (fmt_base 10 n). \<exists>d<10. c = digit_char d"
proof (induction n rule: less_induct)
  case (less n)
  show ?case
  proof (cases "n < 10")
    case False
    then have "n div 10 < n" by simp
    with less have "\<forall>c \<in> set (fmt_base 10 (n div 10)). \<exists>d<10. c = digit_char d" by blast
    moreover have "n mod 10 < 10" by simp
    ultimately show ?thesis using False by (subst fmt_base.simps) (auto simp del: mod_less_divisor)
  qed (subst fmt_base.simps, auto)
qed

lemma digit_char_code: "d < 10 \<Longrightarrow> of_char (digit_char d) = 48 + d"
  by (simp add: digit_char_def)

lemma ParseInt64_fmt_d:
  assumes "1 \<le> sint (v :: int64)"
  shows "strconv_ParseInt64 (fmt_d (sint v)) = Inr v"
proof -
  let ?n = "nat (sint v)" and ?g = "\<lambda>a c. a * 10 + (of_char c - 48) :: nat"
  have small: "?n < 2 ^ 63" using sint_less [of v] assms by (simp add: nat_less_iff)
  have digits: "\<forall>c \<in> set (fmt_base 10 ?n). 48 \<le> (of_char c :: nat) \<and> (of_char c :: nat) \<le> 57"
    using fmt_base_decimal [of ?n] digit_char_code by fastforce
  have "char_digit c = of_char c - 48" if "c \<in> set (fmt_base 10 ?n)" for c
    using digits that by (fastforce simp: char_digit_def Let_def)
  then have "foldl ?g 0 (fmt_base 10 ?n) = parse_base 10 (fmt_base 10 ?n)"
    unfolding parse_base_def by (intro foldl_cong) simp_all
  then have val: "foldl ?g 0 (fmt_base 10 ?n) = ?n" by (simp add: parse_fmt_base)
  have loop: "ParseUint_loop (fmt_base 10 ?n) 0 = Inr ?n"
    using ParseUint_digits [OF digits, of 0] small by (simp add: val)
  have nonempty: "fmt_base 10 ?n \<noteq> []" by (subst fmt_base.simps) simp
  have "hd (fmt_base 10 ?n) \<in> set (fmt_base 10 ?n)" using nonempty by simp
  then have sign: "hd (fmt_base 10 ?n) \<noteq> CHR ''-''" "hd (fmt_base 10 ?n) \<noteq> CHR ''+''" using digits by force+
  have "(word_of_nat ?n :: int64) = of_int (sint v)" using assms by (simp add: of_nat_nat)
  then have "word_of_nat ?n = v" by simp
  then show ?thesis
    using assms small nonempty sign loop by (simp add: strconv_ParseInt64_def fmt_d_def Let_def)
qed

section \<open>The start of a watch\<close>

lemma fold_apply_cong: "m k = m' k \<Longrightarrow> fold apply_event es m k = fold apply_event es m' k"
proof (induction es arbitrary: m m')
  case (Cons e es)
  have "apply_event e m k = apply_event e m' k" using Cons.prems by (cases e) auto
  from Cons.IH [of "apply_event e m" "apply_event e m'", OF this] show ?case by simp
qed simp

lemma fold_added:
  assumes "\<And>obj. obj \<in> set objs \<Longrightarrow> v (object_name obj) = Some obj"
  shows "fold apply_event (map WatchAdded objs) m k = (if k \<in> object_name ` set objs then v k else m k)"
  using assms
proof (induction objs rule: rev_induct)
  case (snoc obj objs)
  then show ?case by auto
qed simp

lemma send_all_Returned:
  "send_all es f = Returned f' \<Longrightarrow> rw_Stopped f' = rw_Stopped f \<and> (\<not> rw_Stopped f \<longrightarrow> rw_result f' = rw_result f @ es)"
proof (induction es arbitrary: f)
  case (Cons e es)
  then obtain f1 where "fake_send e f = Returned f1" "send_all es f1 = Returned f'" by auto
  then show ?case using Cons.IH fake_send_Returned by fastforce
qed simp

lemma filterByNamespace_set:
  assumes "tracker_ok t" and "filterByNamespace (objects_at t gvr) ns = Inr vos"
  shows "vo \<in> set vos \<longleftrightarrow> (\<exists>k. map_of (objects_at t gvr) k = Some vo \<and> in_ns ns k)"
proof -
  have dist: "distinct (map fst (objects_at t gvr))" using assms(1) by (simp add: tracker_ok_def)
  have name: "map_of (objects_at t gvr) k = Some vo \<Longrightarrow> object_name (vo_Object vo) = k"
    for k vo using assms(1) by (cases k) (auto simp: tracker_ok_def simp del: map_of_eq_Some_iff)
  have "vos = sort_key (\<lambda>vo. object_name (vo_Object vo))
      (filter (\<lambda>vo. in_ns ns (object_name (vo_Object vo))) (map snd (objects_at t gvr)))"
    using assms(2) by (simp add: filterByNamespace_def in_ns_def split: option.splits prod.splits)
  then have set: "set vos = {vo \<in> snd ` set (objects_at t gvr). in_ns ns (object_name (vo_Object vo))}"
    by (simp only: set_sort set_filter set_map)
  show ?thesis
  proof
    assume "vo \<in> set vos"
    then obtain k where "(k, vo) \<in> set (objects_at t gvr)" and ns: "in_ns ns (object_name (vo_Object vo))"
      unfolding set by (auto simp: image_iff)
    then have k: "map_of (objects_at t gvr) k = Some vo" using dist by simp
    show "\<exists>k. map_of (objects_at t gvr) k = Some vo \<and> in_ns ns k"
      using k name [OF k] ns by blast
  next
    assume "\<exists>k. map_of (objects_at t gvr) k = Some vo \<and> in_ns ns k"
    then obtain k where k: "map_of (objects_at t gvr) k = Some vo" "in_ns ns k" by blast
    then show "vo \<in> set vos" using name [OF k(1)] map_of_SomeD [OF k(1)] unfolding set by force
  qed
qed

lemma watch_starts:
  assumes good: "good_tracker t" and watch: "tracker_Watch gvr ns (Some opts) t = Returned (Inr w, t')"
    and from_v: "watch_from (Some opts) = Inr (Some v)" and since: "unchanged_since gvr (sint v) listed t"
  shows "watch_inv w gvr ns (\<lambda>k. listed k \<noteq> None \<and> tracker_view t gvr k = None) listed [] t'"
proof -
  have ok: "tracker_ok t" using good by (simp add: good_tracker_def)
  obtain vos where vos: "filterByNamespace (objects_at t gvr) ns = Inr vos"
    using watch from_v by (auto simp: tracker_Watch_def Let_def objects_at_def split: sum.splits)
  note in_vos = filterByNamespace_set [OF ok vos]
  let ?new = "filter (\<lambda>vo. v <s vo_resourceVersion vo) vos"
  let ?t = "t\<lparr>tr_heap := tr_heap t @ [NewRaceFreeFake],
    tr_watchers := (tr_watchers t)(gvr := (tr_watchers t gvr)(ns := tr_watchers t gvr ns @ [length (tr_heap t)]))\<rparr>"
  have at: "objects_at ?t = objects_at t" by (simp add: objects_at_def fun_eq_iff)
  obtain f where f: "send_all (map (WatchAdded \<circ> vo_Object) ?new) NewRaceFreeFake = Returned f"
    and w: "w = length (tr_heap t)" and t': "t' = ?t\<lparr>tr_heap := tr_heap t @ [f]\<rparr>"
    using watch from_v vos by (auto simp: tracker_Watch_def Let_def at)
  have result: "rw_result f = map WatchAdded (map vo_Object ?new)" "\<not> rw_Stopped f"
    using send_all_Returned [OF f] by (simp_all add: NewRaceFreeFake_def)
  have queue: "queued t' w = map WatchAdded (map vo_Object ?new)" by (simp add: queued_def t' w result)
  have tracker_view: "tracker_view t' = tracker_view t" by (simp add: t' tracker_view_def at fun_eq_iff objects_at_def)
  have "count_list (tr_watchers t g n) w = 0" for g n
    using good unfolding good_tracker_def w count_list_0_iff by (metis less_irrefl)
  then have reg: "registered w gvr ns t'" by (simp add: registered_def t' w result(2))
  have kept: "kept_at gvr obj" "tracker_view t gvr (object_name obj) = Some obj" if new: "obj \<in> set (map vo_Object ?new)" for obj
  proof -
    obtain vo where "obj = vo_Object vo" "vo \<in> set vos" using new by auto
    moreover obtain k where "map_of (objects_at t gvr) k = Some vo" using in_vos calculation(2) by blast
    ultimately have "obj = vo_Object vo" "map_of (objects_at t gvr) k = Some vo" by simp_all
    then have "tracker_view t gvr k = Some obj" by (simp add: tracker_view_def del: map_of_eq_Some_iff)
    then show "kept_at gvr obj" "tracker_view t gvr (object_name obj) = Some obj" using tracker_ok_view [OF ok] by auto
  qed
  have "fold apply_event (queued t' w) listed k = tracker_view t gvr k \<or> tracker_view t gvr k = None \<and> listed k \<noteq> None" if k: "in_ns ns k" for k
  proof (cases "map_of (objects_at t gvr) k")
    case None
    then have none: "tracker_view t gvr k = None" by (simp add: tracker_view_def)
    then have "k \<notin> object_name ` set (map vo_Object ?new)" using kept(2) by force
    then have "fold apply_event (queued t' w) listed k = listed k"
      using fold_added [OF kept(2), of "map vo_Object ?new" listed k] by (simp add: queue)
    then show ?thesis using none by auto
  next
    case (Some vo)
    then have some: "tracker_view t gvr k = Some (vo_Object vo)" by (simp add: tracker_view_def)
    show ?thesis
    proof (cases "v <s vo_resourceVersion vo")
      case True
      moreover have "vo \<in> set vos" using in_vos Some k by blast
      ultimately have "vo_Object vo \<in> set (map vo_Object ?new)" by auto
      moreover have "object_name (vo_Object vo) = k" using tracker_ok_view [OF ok some] by simp
      ultimately have "k \<in> object_name ` set (map vo_Object ?new)" by blast
      then show ?thesis using fold_added [OF kept(2), of "map vo_Object ?new" listed k] by (simp add: queue)
    next
      case False
      then have "sint (vo_resourceVersion vo) \<le> sint v" by (simp add: word_sless_alt)
      then have "listed k = Some (vo_Object vo)" using since Some unfolding unchanged_since_def by blast
      then show ?thesis using fold_added [OF kept(2), of "map vo_Object ?new" listed k] some by (simp add: queue)
    qed
  qed
  moreover have "list_all (\<lambda>e. kept_at gvr (event_object e)) (queued t' w)" unfolding queue list_all_iff using kept(1) by auto
  ultimately show ?thesis using reg unfolding watch_inv_def append_Nil tracker_view by blast
qed

section \<open>Listing, watching and caching resource overrides\<close>

text \<open>
  What the reflector passes on: an added or modified object as changed, a deleted one as deleted; it drops an
  event with an object of another type.
\<close>

definition ro_events :: "tracker_event list \<Rightarrow> ResourceOverride event list" where
  "ro_events es = concat (map (\<lambda>e. case e of
     WatchAdded (ROObject x) \<Rightarrow> [Changed x] | WatchModified (ROObject x) \<Rightarrow> [Changed x]
   | WatchDeleted (ROObject x) \<Rightarrow> [Deleted x] | _ \<Rightarrow> []) es)"

lemma ro_events_effect:
  assumes "list_all (\<lambda>e. kept_at ro_gvr (event_object e)) es" and "map_option ROObject (m k) = m' k"
  shows "map_option ROObject (fold event_effect (ro_events es) m k) = fold apply_event es m' k"
  using assms
proof (induction es arbitrary: m m')
  case (Cons e es)
  have differ: "cro_gvr \<noteq> ro_gvr" by (simp add: cro_gvr_def ro_gvr_def)
  obtain x where x: "event_object e = ROObject x"
    using Cons.prems(1) differ by (auto elim: kept_at_cases)
  let ?d = "case e of WatchDeleted _ \<Rightarrow> Deleted x | _ \<Rightarrow> Changed x"
  have "ro_events (e # es) = ?d # ro_events es" using x by (cases e) (auto simp: ro_events_def)
  moreover have "map_option ROObject (event_effect ?d m k) = apply_event e m' k"
    using x Cons.prems(2) by (cases e) (auto simp: event_effect_def object_name_def)
  moreover have "list_all (\<lambda>e. kept_at ro_gvr (event_object e)) es" using Cons.prems(1) by simp
  ultimately show ?case using Cons.IH [of "event_effect ?d m" "apply_event e m'"] by simp
qed (simp add: ro_events_def)

definition store_of :: "tracker \<Rightarrow> fake_store" where
  "store_of t = \<lparr>sp_objects = tracker_view t, sp_writes = (\<lambda>gvr. unat (version_at t gvr - 1))\<rparr>"

lemma store_of_agrees: "good_tracker t \<Longrightarrow> tracker_agrees t (store_of t)"
  by (simp add: good_tracker_def tracker_agrees_def store_of_def)

lemma fake_List_everything:
  assumes std: "standard lib c" and good: "good_tracker (fk_tracker c)"
    and "ExtractFromListOptions lib opts = Returned labels_Everything"
  shows "\<exists>rs c'. fake_List lib (fake_ResourceOverrides ns) opts c = Returned ((ROListObject
      \<lparr>al_ResourceVersion = fmt_d (sint (version_at (fk_tracker c) ro_gvr)), al_Items = rs\<rparr>, None), c')
    \<and> map ROObject rs = sp_items ns (tracker_view (fk_tracker c) ro_gvr) \<and> fk_tracker c' = fk_tracker c \<and> standard lib c'"
proof -
  let ?fc = "fake_ResourceOverrides ns" and ?s = "store_of (fk_tracker c)"
  let ?items = "sp_items ns (tracker_view (fk_tracker c) ro_gvr)"
  have client: "is_client ?fc" by simp
  note agrees = store_of_agrees [OF good]
  have "list_all (kept_at ro_gvr) ?items" using agrees_items(2) [OF agrees, of ro_gvr ns] by (simp add: store_of_def)
  then obtain rs where rs: "?items = map ROObject rs" using kept_at_map(2) by blast
  have listed: "tracker_List ro_gvr (fc_kind ?fc) ns (fk_tracker c) = Inr (make_list (ROObject new_ResourceOverride)
      (fmt_d (sint (version_at (fk_tracker c) ro_gvr))) (map ROObject rs))"
    using tracker_List_agrees [OF agrees client, of ns] by (simp add: store_of_def sp_version_def rs del: make_list.simps)
  have "list_all (kept_at (fc_resource ?fc)) (map ROObject rs)" by (simp add: list_all_iff kept_at_def)
  note filtered = list_filtered [OF client this]
  have "fake_List lib ?fc opts c = Returned ((ROListObject
        \<lparr>al_ResourceVersion = fmt_d (sint (version_at (fk_tracker c) ro_gvr)), al_Items = rs\<rparr>, None),
        after_action (ListAction ro_gvr (fc_kind ?fc) ns opts) (fk_tracker c) c)"
    using filtered(1) filtered(2) [where P = "\<lambda>_. True"]
    by (simp add: fake_List_def assms(3) Invokes_standard [OF std] listed as_T_def filter_map comp_def labels_Everything_def)
  moreover have "standard lib (after_action (ListAction ro_gvr (fc_kind ?fc) ns opts) (fk_tracker c) c)"
    using std by (simp add: after_action_def standard_def)
  ultimately show ?thesis using rs by (intro exI conjI) (assumption, simp_all add: after_action_def)
qed

text \<open>The items of a list, as changes of an empty cache.\<close>

lemma listed_items:
  assumes "good_tracker t" and "map ROObject rs = sp_items ns (tracker_view t ro_gvr)" and "in_ns ns k"
  shows "map_option ROObject (fold event_effect (map Changed rs) Map.empty k) = tracker_view t ro_gvr k"
proof -
  let ?items = "sp_items ns (tracker_view t ro_gvr)"
  have ok: "tracker_ok t" using assms(1) by (simp add: good_tracker_def)
  have "finite (dom (tracker_view t ro_gvr))"
    using finite_dom_map_of [of "objects_at t ro_gvr"] by (rule rev_finite_subset) (auto simp: tracker_view_def dom_def)
  then have set: "set ?items = {obj. \<exists>k. tracker_view t ro_gvr k = Some obj \<and> in_ns ns k}"
    by (auto simp: sp_items_def in_ns_def dom_def image_iff) force+
  have own: "tracker_view t ro_gvr (object_name obj) = Some obj" if "obj \<in> set ?items" for obj
    using that tracker_ok_view [OF ok] by (auto simp: set)
  have events: "map Changed rs = ro_events (map WatchAdded (map ROObject rs))" by (induction rs) (auto simp: ro_events_def)
  have "map_option ROObject (fold event_effect (map Changed rs) Map.empty k) = fold apply_event (map WatchAdded (map ROObject rs)) Map.empty k"
    unfolding events by (rule ro_events_effect) (simp_all add: list_all_iff kept_at_def)
  also have "\<dots> = (if k \<in> object_name ` set ?items then tracker_view t ro_gvr k else None)"
    unfolding assms(2) by (rule fold_added [OF own])
  also have "\<dots> = tracker_view t ro_gvr k"
  proof (cases "tracker_view t ro_gvr k")
    case (Some obj)
    then have "obj \<in> set ?items" "object_name obj = k" using assms(3) tracker_ok_view [OF ok Some] unfolding set by blast+
    then have "k \<in> object_name ` set ?items" by blast
    then show ?thesis by simp
  qed simp
  finally show ?thesis .
qed

text \<open>
  An informer that lists and then watches from the version of the list: after any further steps its cache
  holds what the tracker holds, but for objects that were listed and deleted before the watch began.
\<close>

lemma list_watch_cache:
  assumes lib: "typed_lib lib" and std: "standard lib c" and good: "good_tracker (fk_tracker c)"
    and within: "versions_within n (fk_tracker c)" and small: "n + length steps < 2 ^ 62"
    and sel: "ExtractFromListOptions lib opts = Returned labels_Everything"
    and list: "fake_List lib (fake_ResourceOverrides ns) opts c = Returned ((ROListObject l, None), c1)"
    and between: "run_steps lib steps c1 = Returned (es1, c2)"
    and watch: "fake_Watch lib (fake_ResourceOverrides ns) (opts\<lparr>lo_ResourceVersion := al_ResourceVersion l\<rparr>) c2 = Returned ((Some w, None), c3)"
    and after: "run_steps lib steps' c3 = Returned (es, c4)" and "StopWatch w \<notin> set steps'"
  defines "events \<equiv> map Changed (al_Items l) @ ro_events (events_of w es @ queued (fk_tracker c4) w)"
  assumes plain: "list_all plain_event events"
  shows "\<exists>cache. handle_events events ro_indexer = Returned cache
    \<and> (\<forall>k. in_ns ns k \<longrightarrow> map_option ROObject (cached cache k) = tracker_view (fk_tracker c4) ro_gvr k
         \<or> tracker_view (fk_tracker c4) ro_gvr k = None \<and> tracker_view (fk_tracker c) ro_gvr k \<noteq> None \<and> tracker_view (fk_tracker c2) ro_gvr k = None)"
proof -
  let ?v = "version_at (fk_tracker c) ro_gvr" and ?fc = "fake_ResourceOverrides ns"
  let ?listed = "tracker_view (fk_tracker c) ro_gvr" and ?es = "events_of w es @ queued (fk_tracker c4) w"
  obtain rs where l: "al_ResourceVersion l = fmt_d (sint ?v)" "al_Items l = rs"
    and rs: "map ROObject rs = sp_items ns ?listed" and c1: "fk_tracker c1 = fk_tracker c" "standard lib c1"
    using fake_List_everything [OF std good sel, of ns] list by auto
  have since: "unchanged_since ro_gvr (sint ?v) ?listed (fk_tracker c1)"
    by (simp add: unchanged_since_def c1(1) tracker_view_def del: map_of_eq_Some_iff)
  have c2: "standard lib c2" "good_tracker (fk_tracker c2)" "unchanged_since ro_gvr (sint ?v) ?listed (fk_tracker c2)"
    using run_steps_versions [OF lib c1(2) _ between, of n ro_gvr "sint ?v" ?listed] good within small since by (simp_all add: c1(1))
  have v: "1 \<le> sint ?v" by (rule version_bounds(1) [OF within])
  let ?opts = "opts\<lparr>lo_ResourceVersion := al_ResourceVersion l, lo_Watch := True\<rparr>"
  have "fmt_d (sint ?v) \<noteq> []" using v by (subst fmt_d_def, subst (2) fmt_base.simps) simp
  then have from_v: "watch_from (Some ?opts) = Inr (Some ?v)" by (simp add: watch_from_def l(1) ParseInt64_fmt_d [OF v])
  have c3: "standard lib c3" "tracker_Watch ro_gvr ns (Some ?opts) (fk_tracker c2) = Returned (Inr w, fk_tracker c3)"
    using fake_Watch_tracker [OF c2(1) watch] by auto
  have good3: "good_tracker (fk_tracker c3)" by (rule opened_good [OF tracker_Watch_opened [OF c3(2)] c2(2)])
  note start = watch_starts [OF c2(2) c3(2) from_v c2(3)]
  have "watch_inv w ro_gvr ns (\<lambda>k. ?listed k \<noteq> None \<and> tracker_view (fk_tracker c2) ro_gvr k = None) ?listed
      (events_of w es) (fk_tracker c4)"
    using run_steps_watch [OF lib c3(1) good3 after start] assms(11) by simp
  then have kept: "list_all (\<lambda>e. kept_at ro_gvr (event_object e)) ?es"
    and inv: "in_ns ns k \<Longrightarrow> fold apply_event ?es ?listed k = tracker_view (fk_tracker c4) ro_gvr k
      \<or> tracker_view (fk_tracker c4) ro_gvr k = None \<and> ?listed k \<noteq> None \<and> tracker_view (fk_tracker c2) ro_gvr k = None" for k
    unfolding watch_inv_def by blast+
  obtain cache where cache: "handle_events events ro_indexer = Returned cache" "cached cache = fold event_effect events Map.empty"
    using handle_events_cached [OF indexers_inv(3) plain] indexers_inv(4) by auto
  have "map_option ROObject (cached cache k) = fold apply_event ?es ?listed k" if "in_ns ns k" for k
    using ro_events_effect [where m = "fold event_effect (map Changed rs) Map.empty" and m' = ?listed, OF kept listed_items [OF good rs that]] by (simp add: cache(2) events_def l(2))
  then show ?thesis using inv cache(1) by auto
qed

section \<open>From the start\<close>

lemma addList_versions:
  assumes "unwatched t s" and "addList objs t = Returned (None, t')" and "versions_within n t" and "n + length objs < 2 ^ 62"
  shows "versions_within (n + length objs) t'"
  using assms
proof (induction objs arbitrary: t s n)
  case (Cons obj objs)
  show ?case
  proof (cases "resource_for obj")
    case None
    then show ?thesis using Cons.prems(2) by (cases obj) (simp_all add: add_object_def)
  next
    case (Some gvr)
    then have kept: "kept_at gvr obj" by (simp add: kept_at_def)
    obtain t1 where t1: "add_object obj t = Returned (None, t1)" "addList objs t1 = Returned (None, t')"
      using Cons.prems(2) by (auto split: if_splits)
    have "tracker_step t t1"
      using tracker_add_step [OF kept] t1(1) add_object_resource [OF Cons.prems(1) kept] by simp
    then have versions: "versions_within (Suc n) t1" using versions_step Cons.prems(3,4) by simp
    have "addList [obj] t = Returned (None, t1)" using t1(1) by simp
    then obtain s1 where "unwatched t1 s1" using addList_seed [OF Cons.prems(1), of "[obj]"] by (auto split: option.splits)
    then show ?thesis using Cons.IH [OF _ t1(2) versions] Cons.prems(4) by simp
  qed
qed simp

lemma seed_versions:
  assumes "unwatched t s" and "seed objs t = Returned t'" and "versions_within n t" and "n + length (expand objs) < 2 ^ 62"
  shows "versions_within (n + length (expand objs)) t'"
  using assms
proof (induction objs arbitrary: t s n)
  case (Cons obj objs)
  let ?items = "if IsListType obj then ExtractList obj else [obj]"
  have len: "length (expand (obj # objs)) = length ?items + length (expand objs)" by (simp add: expand_def)
  obtain t1 where t1: "addList ?items t = Returned (None, t1)" "seed objs t1 = Returned t'"
    using Cons.prems(2) unfolding seed.simps tracker_Add_items by (auto split: if_splits)
  have versions: "versions_within (n + length ?items) t1"
    using addList_versions [OF Cons.prems(1) t1(1) Cons.prems(3)] Cons.prems(4) len by simp
  obtain s1 where "unwatched t1 s1" using addList_seed [OF Cons.prems(1), of ?items] t1(1) by (auto split: option.splits)
  then show ?case using Cons.IH [OF _ t1(2) versions] Cons.prems(4) unfolding len by (simp only: add.assoc)
qed (simp add: expand_def)

lemma NewSimpleClientset_good:
  assumes "NewSimpleClientset lib schemeName objs = Returned c" and "length (expand objs) < 2 ^ 62"
  shows "standard lib c" and "good_tracker (fk_tracker c)" and "versions_within (length (expand objs)) (fk_tracker c)"
proof -
  obtain s where agrees: "fake_agrees lib c s"
    using NewSimpleClientset_follows [where objs = objs and lib = lib and schemeName = schemeName] assms(1)
    by (auto split: option.splits)
  then show "standard lib c" and "good_tracker (fk_tracker c)"
    by (simp_all add: fake_agrees_def unwatched_def tracker_agrees_def good_tracker_def)
  obtain scheme where scheme: "fake_scheme = Returned scheme" and seeded: "seed objs (NewObjectTracker scheme schemeName) = Returned (fk_tracker c)"
    using assms(1) by (auto simp: NewSimpleClientset_def)
  have "versions_within 0 (NewObjectTracker scheme schemeName)"
    by (simp add: versions_within_def NewObjectTracker_def version_at_def objects_at_def)
  then show "versions_within (length (expand objs)) (fk_tracker c)"
    using seed_versions [OF NewObjectTracker_unwatched [OF scheme] seeded] assms(2) by fastforce
qed

lemma list_watch_from_start:
  assumes lib: "typed_lib lib" and new: "NewSimpleClientset lib schemeName objs = Returned c0"
    and before: "run_steps lib steps0 c0 = Returned (es0, c)"
    and sel: "ExtractFromListOptions lib opts = Returned labels_Everything"
    and list: "fake_List lib (fake_ResourceOverrides ns) opts c = Returned ((ROListObject l, None), c1)"
    and between: "run_steps lib steps1 c1 = Returned (es1, c2)"
    and watch: "fake_Watch lib (fake_ResourceOverrides ns) (opts\<lparr>lo_ResourceVersion := al_ResourceVersion l\<rparr>) c2 = Returned ((Some w, None), c3)"
    and after: "run_steps lib steps2 c3 = Returned (es, c4)" and unstopped: "StopWatch w \<notin> set steps2"
    and small: "length (expand objs) + length steps0 + length steps1 < 2 ^ 62"
    and plain: "list_all plain_event (map Changed (al_Items l) @ ro_events (events_of w es @ queued (fk_tracker c4) w))"
  shows "\<exists>cache. handle_events (map Changed (al_Items l) @ ro_events (events_of w es @ queued (fk_tracker c4) w)) ro_indexer = Returned cache
    \<and> (\<forall>k. in_ns ns k \<longrightarrow> map_option ROObject (cached cache k) = tracker_view (fk_tracker c4) ro_gvr k
         \<or> tracker_view (fk_tracker c4) ro_gvr k = None \<and> tracker_view (fk_tracker c) ro_gvr k \<noteq> None \<and> tracker_view (fk_tracker c2) ro_gvr k = None)"
proof -
  have "length (expand objs) < 2 ^ 62" "length (expand objs) + length steps0 < 2 ^ 62" using small by simp_all
  note start = NewSimpleClientset_good [OF new this(1)] and len = this(2)
  note now = run_steps_versions [OF lib start(1,2) before start(3) len, where gvr = ro_gvr and r = 0 and listed = Map.empty]
  show ?thesis
    using list_watch_cache [OF lib _ _ _ small sel list between watch after unstopped plain] now by blast
qed

end
