(* ===== verification/ExampleFakes.thy ===== *)
theory ExampleFakes
  imports FakeWatch ExampleCluster
begin

text \<open>
  A fake clientset with one resource override for the witnesses, and a run of an informer on it: a list, a
  creation before the watch is opened, then an update, of which the reader takes both events but one.
\<close>

definition ex_fake_lib :: fake_lib where
  "ex_fake_lib = \<lparr>fl_Marshal = (\<lambda>obj. Inr []), fl_JSONPatch = (\<lambda>p old. Inr old), fl_MergePatch = (\<lambda>p old. Inr old),
     fl_StrategicMergePatch = (\<lambda>p old. Inr old), fl_Unmarshal = (\<lambda>doc obj. Inr obj), fl_ApplyPatch = (\<lambda>name data. Inr data),
     fl_ParseLabels = (\<lambda>s. Inr labels_Everything), fl_ParseFields = (\<lambda>s. None), fl_fmt_s = (\<lambda>a. []), fl_fmt_v = (\<lambda>a. [])\<rparr>"

lemma ex_fake_typed: "typed_lib ex_fake_lib"
  by (simp add: typed_lib_def ex_fake_lib_def)

definition ex_options :: ListOptions where
  "ex_options = \<lparr>lo_LabelSelector = [], lo_FieldSelector = [], lo_ResourceVersion = [], lo_Watch = False, lo_Limit = 0,
     lo_Continue = []\<rparr>"

lemma ex_fake_selector: "ExtractFromListOptions ex_fake_lib opts = Returned labels_Everything"
  by (simp add: ExtractFromListOptions_def ex_fake_lib_def)

definition ex_ro2 :: ResourceOverride where
  "ex_ro2 = ex_ro\<lparr>o_Meta := new_ObjectMeta ''ro2'' ''app'' [] []\<rparr>"

definition ex_between :: "fake_step list" where
  "ex_between = [Request (OnResourceOverrides ''app'' (DoCreate ex_ro2))]"

definition ex_after :: "fake_step list" where
  "ex_after = [Request (OnResourceOverrides ''app'' (DoUpdate ex_ro)), Receive 0]"

text \<open>The tracker at the start, and after the creation.\<close>

definition ex_tracker :: "Scheme \<Rightarrow> tracker" where
  "ex_tracker scheme = put_object ro_gvr (''app'', ''ro'') (ROObject ex_ro) (NewObjectTracker scheme [])"

definition ex_tracker2 :: "Scheme \<Rightarrow> tracker" where
  "ex_tracker2 scheme = put_object ro_gvr (''app'', ''ro2'') (ROObject ex_ro2) (ex_tracker scheme)"

lemma ex_tracker_simps:
  "tr_watchers (ex_tracker scheme) = (\<lambda>_ _. [])" "tr_watchers (ex_tracker2 scheme) = (\<lambda>_ _. [])"
  "tr_heap (ex_tracker2 scheme) = []"
  "tracker_view (ex_tracker scheme) ro_gvr = [(''app'', ''ro'') \<mapsto> ROObject ex_ro]"
  "version_at (ex_tracker scheme) ro_gvr = 2"
  "objects_at (ex_tracker2 scheme) ro_gvr = [((''app'', ''ro''), \<lparr>vo_resourceVersion = 2, vo_Object = ROObject ex_ro\<rparr>),
     ((''app'', ''ro2''), \<lparr>vo_resourceVersion = 3, vo_Object = ROObject ex_ro2\<rparr>)]"
  by (simp_all add: ex_tracker_def ex_tracker2_def NewObjectTracker_def tracker_view_def version_at_def put_object_def objects_at_def
      fun_eq_iff)

lemma ex_ro_names [simp]:
  "om_Namespace (o_Meta ex_ro) = ''app''" "om_Name (o_Meta ex_ro) = ''ro''" "om_Namespace (o_Meta ex_ro2) = ''app''"
  "om_Name (o_Meta ex_ro2) = ''ro2''"
  by (simp_all add: ex_ro_def ex_ro2_def new_ObjectMeta_def)

lemma ex_start: "\<exists>c. NewSimpleClientset ex_fake_lib [] [ROObject ex_ro] = Returned c \<and> standard ex_fake_lib c
    \<and> fk_tracker c = ex_tracker (tr_scheme (fk_tracker c)) \<and> good_tracker (fk_tracker c)"
proof (cases fake_scheme)
  case Panicked
  with clientset_Scheme_kinds show ?thesis by (simp add: fake_scheme_clientset)
next
  case (Returned scheme)
  let ?t = "NewObjectTracker scheme []"
  have t: "unwatched ?t empty_store" by (rule NewObjectTracker_unwatched [OF Returned])
  have kept: "kept_at ro_gvr (ROObject ex_ro)" by (simp add: kept_at_def)
  have "add_object (ROObject ex_ro) ?t = Returned (None, ex_tracker scheme)"
    using add_object_resource [OF t kept] tracker_add_write [OF kept, of "''app''" False ?t]
    by (simp add: write_check_def object_name_def tracker_view_def objects_at_def ex_tracker_def notify_unwatched NewObjectTracker_def)
  then have new: "NewSimpleClientset ex_fake_lib [] [ROObject ex_ro] = Returned \<lparr>fk_actions = [],
         fk_ReactionChain = [\<lparr>r_Verb = ''*'', r_Resource = ''*'', r_Reaction = ObjectReaction ex_fake_lib\<rparr>],
         fk_WatchReactionChain = [\<lparr>wr_Resource = ''*'', wr_Reaction = watch_reaction\<rparr>], fk_tracker = ex_tracker scheme\<rparr>"
    by (simp add: NewSimpleClientset_def Returned tracker_Add_def)
  show ?thesis
    using NewSimpleClientset_good [OF new] new by (simp add: standard_def expand_def ex_tracker_def NewObjectTracker_def put_object_def)
qed

text \<open>The steps of the run.\<close>

lemma ex_key: "{k. k = (''app'', ''ro'') \<and> fst k = ''app''} = {(''app'', ''ro'')}"
  by auto

lemma ex_list:
  assumes "standard ex_fake_lib c" and "good_tracker (fk_tracker c)" and t: "fk_tracker c = ex_tracker scheme"
  shows "\<exists>c'. fake_List ex_fake_lib (fake_ResourceOverrides ''app'') ex_options c
      = Returned ((ROListObject \<lparr>al_ResourceVersion = ''2'', al_Items = [ex_ro]\<rparr>, None), c')
    \<and> fk_tracker c' = ex_tracker scheme \<and> standard ex_fake_lib c'"
proof -
  have "sint (2 :: int64) = 2" by simp
  moreover have "fmt_d 2 = ''2''" by code_simp
  moreover have "sp_items ''app'' (tracker_view (ex_tracker scheme) ro_gvr) = map ROObject [ex_ro]"
    by (simp add: sp_items_def ex_tracker_simps ex_key)
  moreover have "map ROObject rs = map ROObject [ex_ro] \<longleftrightarrow> rs = [ex_ro]" for rs by auto
  ultimately show ?thesis
    using fake_List_everything [OF assms(1,2) ex_fake_selector, of "''app''"] by (auto simp: t ex_tracker_simps)
qed

lemma ex_write:
  assumes "standard ex_fake_lib c" and "object_name (ROObject x) = (''app'', name)"
    and "tracker_add ro_gvr (ROObject x) ''app'' replace (fk_tracker c) = Returned (None, t)"
    and "tracker_view t ro_gvr (''app'', name) = Some (ROObject x)"
  shows "\<exists>c'. do_step ex_fake_lib (Request (OnResourceOverrides ''app'' (if replace then DoUpdate x else DoCreate x))) c
      = Returned ([], c') \<and> fk_tracker c' = t \<and> standard ex_fake_lib c'"
proof -
  let ?action = "(if replace then UpdateAction else CreateAction) ro_gvr [] ''app'' (ROObject x)"
  have "ObjectReaction ex_fake_lib ?action (fk_tracker c) = Returned ((True, Some (ROObject x), None), t)"
    using assms(2-4) by (cases replace)
      (simp_all add: react_Create_def react_Update_def object_name_def handled_def read_back_def tracker_Get_view)
  then have "invoke_T ?action (ROObject new_ResourceOverride) c = Returned ((ROObject x, None), after_action ?action t c)"
    by (simp add: invoke_T_def Invokes_standard [OF assms(1)] as_T_def)
  then show ?thesis using assms(1) by (cases replace)
    (simp_all add: fake_Create_def fake_Update_def object_answer_def after_action_def standard_def)
qed

lemma ex_create:
  assumes "standard ex_fake_lib c" and t: "fk_tracker c = ex_tracker scheme"
  shows "\<exists>c'. run_steps ex_fake_lib ex_between c = Returned ([], c') \<and> fk_tracker c' = ex_tracker2 scheme \<and> standard ex_fake_lib c'"
proof -
  have kept: "kept_at ro_gvr (ROObject ex_ro2)" by (simp add: kept_at_def)
  have "tracker_add ro_gvr (ROObject ex_ro2) ''app'' False (ex_tracker scheme) = Returned (None, ex_tracker2 scheme)"
    using tracker_add_write [OF kept, of "''app''" False "ex_tracker scheme"]
    by (simp add: write_check_def object_name_def ex_tracker_simps notify_unwatched ex_tracker2_def)
  then show ?thesis
    using ex_write [OF assms(1), of ex_ro2 "''ro2''" False "ex_tracker2 scheme"]
    by (auto simp: ex_between_def t object_name_def ex_tracker2_def simp del: do_step.simps)
qed

text \<open>The watcher that is opened at version 2: the second object is new to it.\<close>

definition ex_watched :: "tracker_event list \<Rightarrow> tracker \<Rightarrow> tracker" where
  "ex_watched es t = t\<lparr>tr_heap := [\<lparr>rw_result = es, rw_Stopped = False\<rparr>],
     tr_watchers := (\<lambda>_ _. [])(ro_gvr := (\<lambda>_. [])(''app'' := [0]))\<rparr>"

lemma ex_watch:
  assumes "standard ex_fake_lib c" and t: "fk_tracker c = ex_tracker2 scheme"
  shows "\<exists>c'. fake_Watch ex_fake_lib (fake_ResourceOverrides ''app'') (ex_options\<lparr>lo_ResourceVersion := ''2''\<rparr>) c
      = Returned ((Some 0, None), c')
    \<and> fk_tracker c' = ex_watched [WatchAdded (ROObject ex_ro2)] (ex_tracker2 scheme) \<and> standard ex_fake_lib c'"
proof -
  have from2: "watch_from (Some (ex_options\<lparr>lo_ResourceVersion := ''2'', lo_Watch := True\<rparr>)) = Inr (Some 2)"
    by (simp add: watch_from_def strconv_ParseInt64_def Let_def)
  have "filterByNamespace (objects_at (ex_tracker2 scheme) ro_gvr) ''app'' = Inr
      [\<lparr>vo_resourceVersion = 2, vo_Object = ROObject ex_ro\<rparr>, \<lparr>vo_resourceVersion = 3, vo_Object = ROObject ex_ro2\<rparr>]"
    by (simp add: filterByNamespace_def ex_tracker_simps object_name_def)
  moreover have "(2 :: int64) <s 3" "\<not> (2 :: int64) <s 2" by (simp_all add: word_sless_alt)
  ultimately have "tracker_Watch ro_gvr ''app'' (Some (ex_options\<lparr>lo_ResourceVersion := ''2'', lo_Watch := True\<rparr>)) (ex_tracker2 scheme)
      = Returned (Inr 0, ex_watched [WatchAdded (ROObject ex_ro2)] (ex_tracker2 scheme))"
    by (simp add: tracker_Watch_def from2 ex_tracker_simps Let_def objects_at_def fake_send_def NewRaceFreeFake_def ex_watched_def
        DefaultChanSize_def)
  then show ?thesis using assms(1)
    by (simp add: fake_Watch_def InvokesWatch_def standard_def resourceCovers_def watch_reaction_def t Let_def
        ex_fake_selector)
qed

lemma ex_update:
  assumes "standard ex_fake_lib c" and t: "fk_tracker c = ex_watched es (ex_tracker2 scheme)" and "length es < 100"
  shows "\<exists>c'. do_step ex_fake_lib (Request (OnResourceOverrides ''app'' (DoUpdate ex_ro))) c = Returned ([], c')
    \<and> tr_heap (fk_tracker c') = [\<lparr>rw_result = es @ [WatchModified (ROObject ex_ro)], rw_Stopped = False\<rparr>] \<and> standard ex_fake_lib c'"
proof -
  let ?t = "ex_watched es (ex_tracker2 scheme)" and ?k = "(''app'', ''ro'')"
  let ?t' = "(put_object ro_gvr ?k (ROObject ex_ro) ?t)\<lparr>tr_heap := [\<lparr>rw_result = es @ [WatchModified (ROObject ex_ro)], rw_Stopped = False\<rparr>]\<rparr>"
  have kept: "kept_at ro_gvr (ROObject ex_ro)" by (simp add: kept_at_def)
  have tracker_view: "tracker_view ?t ro_gvr ?k \<noteq> None"
    by (simp add: tracker_view_def objects_at_def ex_watched_def) (simp add: objects_at_def [symmetric] ex_tracker_simps)
  have "getWatches ro_gvr ''app'' (put_object ro_gvr ?k (ROObject ex_ro) ?t) = [0]"
    "tr_heap (put_object ro_gvr ?k (ROObject ex_ro) ?t) = [\<lparr>rw_result = es, rw_Stopped = False\<rparr>]"
    by (simp_all add: getWatches_def ex_watched_def put_object_def)
  then have "notify ro_gvr ''app'' (WatchModified (ROObject ex_ro)) (put_object ro_gvr ?k (ROObject ex_ro) ?t) = Returned ?t'"
    using assms(3) by (simp add: notify_def fake_send_def DefaultChanSize_def)
  then have "tracker_add ro_gvr (ROObject ex_ro) ''app'' True ?t = Returned (None, ?t')"
    using tracker_add_write [OF kept, of "''app''" True ?t] tracker_view
    by (auto simp: write_check_def object_name_def)
  moreover have "tracker_view ?t' ro_gvr ?k = Some (ROObject ex_ro)" by simp
  ultimately show ?thesis
    using ex_write [OF assms(1), of ex_ro "''ro''" True ?t'] by (auto simp: t object_name_def)
qed

lemma ex_events_taken:
  assumes "standard ex_fake_lib c" and "fk_tracker c = ex_watched [WatchAdded (ROObject ex_ro2)] (ex_tracker2 scheme)"
  shows "\<exists>c'. run_steps ex_fake_lib ex_after c = Returned ([(0, WatchAdded (ROObject ex_ro2))], c')
    \<and> queued (fk_tracker c') 0 = [WatchModified (ROObject ex_ro)]"
proof -
  from ex_update [OF assms] obtain c1 where
    "do_step ex_fake_lib (Request (OnResourceOverrides ''app'' (DoUpdate ex_ro))) c = Returned ([], c1)"
    and "tr_heap (fk_tracker c1) = [\<lparr>rw_result = [WatchAdded (ROObject ex_ro2), WatchModified (ROObject ex_ro)], rw_Stopped = False\<rparr>]"
    by auto
  then show ?thesis
    by (simp add: ex_after_def update_watcher_def queued_def del: do_step.simps(1))
qed

lemma ex_informer:
  "\<exists>c0 c1 c2 c3 c4. NewSimpleClientset ex_fake_lib [] [ROObject ex_ro] = Returned c0
    \<and> fake_List ex_fake_lib (fake_ResourceOverrides ''app'') ex_options c0
      = Returned ((ROListObject \<lparr>al_ResourceVersion = ''2'', al_Items = [ex_ro]\<rparr>, None), c1)
    \<and> run_steps ex_fake_lib ex_between c1 = Returned ([], c2)
    \<and> fake_Watch ex_fake_lib (fake_ResourceOverrides ''app'') (ex_options\<lparr>lo_ResourceVersion := ''2''\<rparr>) c2 = Returned ((Some 0, None), c3)
    \<and> run_steps ex_fake_lib ex_after c3 = Returned ([(0, WatchAdded (ROObject ex_ro2))], c4)
    \<and> queued (fk_tracker c4) 0 = [WatchModified (ROObject ex_ro)]"
  using ex_start ex_list ex_create ex_watch ex_events_taken by metis

lemma ex_ro_plain: "plain_event (Changed ex_ro)" "plain_event (Changed ex_ro2)"
  by (simp_all add: plain_event_def plain_names_def)

section \<open>A sequence of calls\<close>

definition ex_calls :: "clientset_call list" where
  "ex_calls = [OnResourceOverrides ''app'' (DoCreate ex_ro), OnResourceOverrides ''app'' (DoDeleteCollection ex_options),
     OnResourceOverrides ''app'' (DoGet ''ro''), OnResourceOverrides ''app'' (DoDelete ''ro''),
     OnResourceOverrides ''app'' (DoGet ''ro'')]"

lemma ex_calls_map:
  "case sp_seed (expand [ROObject ex_ro]) empty_store of None \<Rightarrow> False
   | Some s \<Rightarrow> (case sp_run ex_fake_lib ex_calls s of Panicked \<Rightarrow> False
     | Returned (as, s') \<Rightarrow> as = [ObjectAnswer (ROObject new_ResourceOverride) (Some (NewAlreadyExists (GroupResource ro_gvr) ''ro'')),
          ErrorAnswer None, ObjectAnswer (ROObject ex_ro) None, ErrorAnswer None,
          ObjectAnswer (ROObject new_ResourceOverride) (Some (NewNotFound (GroupResource ro_gvr) ''ro''))]
        \<and> sp_objects s' ro_gvr = Map.empty)"
  by (simp add: expand_def empty_store_def sp_put_def sp_delete_def ex_calls_def sp_write_def write_check_def object_name_def
      ex_fake_selector fun_eq_iff)

end
