(* ===== verification/ROSystem.thy ===== *)
theory ROSystem
  imports EventPath
begin

text \<open>
  The ResourceOverride controller as it runs: the API server with the ResourceOverrides and namespaces, the
  watches, both caches, the event handlers, the work queue and any number of workers, composed of the models
  of the parts. Each action is one atomic step of one of them; between two actions of a worker any others may
  come. A worker reads the ResourceOverride, then its namespace, from the caches, and then runs the rest of
  \<open>Reconcile\<close> on what it has read; the status update acts on the API server.
\<close>

section \<open>State\<close>

datatype namespace_event = NamespaceChanged Namespace | NamespaceDeleted string

text \<open>What the processor of the namespace informer is about to tell the handler.\<close>

datatype namespace_note = NoteAdd Namespace | NoteUpdate Namespace Namespace | NoteDelete string

text \<open>A worker between its reads, and with the queue operations it has left.\<close>

datatype ro_worker =
    Waiting
  | Taken Request
  | ReadObject Request "error + ResourceOverride"
  | ReadNamespace Request ResourceOverride "error + Namespace"
  | Finishing item "queue_op list"

record ro_system =
  sys_objects :: "((string \<times> string) \<times> ResourceOverride) list"
  sys_namespaces :: "(string \<times> Namespace) list"
  sys_clock :: time
  sys_events :: "ResourceOverride event list"
  sys_namespace_events :: "namespace_event list"
  sys_cache :: "ResourceOverride cache"
  sys_namespace_cache :: "Namespace threadSafeMap"
  sys_requests :: "Request list"
  sys_notes :: "namespace_note list"
  sys_queue :: "item wq"
  sys_workers :: "ro_worker list"

text \<open>
  The namespace informer indexes by namespace, which is empty for a namespace.
\<close>

definition namespace_indexer :: "Namespace threadSafeMap" where
  "namespace_indexer = NewThreadSafeStore [(NamespaceIndex, \<lambda>obj. case obj of
     Stored ns \<Rightarrow> Inr [[]] | BareMeta m \<Rightarrow> Inr [om_Namespace m])]"

definition sys_init :: "nat \<Rightarrow> ro_system" where
  "sys_init n = \<lparr>sys_objects = [], sys_namespaces = [], sys_clock = 0, sys_events = [], sys_namespace_events = [],
     sys_cache = ro_indexer, sys_namespace_cache = namespace_indexer, sys_requests = [], sys_notes = [],
     sys_queue = wq_new, sys_workers = replicate n Waiting\<rparr>"

section \<open>The API server\<close>

abbreviation ro_key :: "ResourceOverride \<Rightarrow> string \<times> string" where
  "ro_key x \<equiv> (namespace_of x, name_of x)"

definition put_resource :: "ResourceOverride \<Rightarrow> ro_system \<Rightarrow> ro_system" where
  "put_resource x s = s\<lparr>sys_objects := AList.update (ro_key x) x (sys_objects s), sys_events := sys_events s @ [Changed x]\<rparr>"

text \<open>
  An update of the status: it may be refused, stored under a new version, or stored with the answer lost on
  the way. It is refused if it is made on another version than the stored one. What is stored already is not
  stored again.
\<close>

datatype server_answer = Store string | Refuse error | Lose string error

definition conflict :: "string \<Rightarrow> error" where
  "conflict name = StatusError ''Conflict'' 409 (''resourceoverrides.autoscaling.openshift.io '' @ fmt_q name @ '' has been modified'')"

definition with_status :: "ResourceOverride \<Rightarrow> string \<Rightarrow> ResourceOverride \<Rightarrow> ResourceOverride" where
  "with_status obj v stored = stored\<lparr>ro_Status := ro_Status obj, o_Meta := (o_Meta stored)\<lparr>om_ResourceVersion := v\<rparr>\<rparr>"

definition server_UpdateStatus :: "server_answer \<Rightarrow> string \<Rightarrow> ResourceOverride \<Rightarrow> ro_system \<Rightarrow> error option \<times> ro_system" where
  "server_UpdateStatus answer ns obj s =
     (case map_of (sys_objects s) (ns, name_of obj) of
        None \<Rightarrow> (Some (NewNotFound (autoscaling_Resource ''resourceoverrides'') (name_of obj)), s)
      | Some stored \<Rightarrow>
          (let updated = (\<lambda>v. if ro_Status stored = ro_Status obj then s else put_resource (with_status obj v stored) s)
           in case answer of
                Refuse err \<Rightarrow> (Some err, s)
              | Lose v err \<Rightarrow> (Some err, if object_rv obj \<in> {[], object_rv stored} then updated v else s)
              | Store v \<Rightarrow> if object_rv obj \<in> {[], object_rv stored} then (None, updated v)
                  else (Some (conflict (name_of obj)), s)))"

section \<open>What the reconciler uses\<close>

text \<open>The namespace lister of client-go; the store of a cluster-scoped resource has names as keys.\<close>

definition NamespaceLister_Get :: "string \<Rightarrow> Namespace threadSafeMap \<Rightarrow> error + Namespace" where
  "NamespaceLister_Get name c = (case store_Get name c of
     None \<Rightarrow> Inl (NewNotFound ([], ''namespace'') name) | Some ns \<Rightarrow> Inr ns)"

text \<open>
  What a reconcile sees that has read \<open>ro\<close> and \<open>ns\<close>: the clock moves on with each reading, the update goes
  to the API server. \<open>A\<close> is whatever other clients the operator has.
\<close>

definition sys_api :: "ro_system api \<Rightarrow> server_answer \<Rightarrow> time \<Rightarrow> error + ResourceOverride \<Rightarrow> error + Namespace \<Rightarrow> ro_system api" where
  "sys_api A answer tick ro ns = A\<lparr>api_Now := (\<lambda>s. (sys_clock s, s\<lparr>sys_clock := sys_clock s + tick\<rparr>)),
     api_RO_Get := (\<lambda>_ _ s. (ro, s)), api_Namespace_Get := (\<lambda>_ s. (ns, s)),
     api_RO_UpdateStatus := server_UpdateStatus answer\<rparr>"

definition lister_api :: "ro_system api \<Rightarrow> ro_system api" where
  "lister_api A = A\<lparr>api_RO_List := \<lambda>ns s. (lister_List (sys_cache s) ns, s)\<rparr>"

section \<open>Actions\<close>

text \<open>
  What the environment does: it writes and deletes resources and namespaces, and lets time pass. What the
  controller does: an informer resyncs, delivers an event to its cache, or calls its handler; a request is
  added to the queue; a worker takes an item, reads, finishes the reconcile, or performs its next queue
  operation; a delay ends.
\<close>

datatype ro_action =
    PutResource ResourceOverride
  | DeleteResource bool string string
  | PutNamespace Namespace
  | DeleteNamespace string
  | PassTime time
  | Resync string string
  | DeliverEvent
  | DeliverNamespaceEvent
  | HandleNote
  | EnqueueRequest nat
  | TakeItem nat
  | ReadTheObject nat
  | ReadTheNamespace nat
  | Finish nat server_answer time
  | PerformOp nat int
  | FireItem item

definition namespace_ok :: "Namespace \<Rightarrow> bool" where
  "namespace_ok ns \<longleftrightarrow> ns_Name ns \<noteq> [] \<and> CHR ''/'' \<notin> set (ns_Name ns) \<and> (case ns_Labels ns of None \<Rightarrow> True | Some m \<Rightarrow> go_map_wf m)"

definition resource_ok :: "ResourceOverride \<Rightarrow> bool" where
  "resource_ok x \<longleftrightarrow> plain_names x \<and> namespace_of x \<noteq> []"

text \<open>An event of the namespace watch, in the cache, and what the handler is told.\<close>

definition deliver_namespace :: "namespace_event \<Rightarrow> Namespace threadSafeMap \<Rightarrow> (namespace_note \<times> Namespace threadSafeMap) outcome" where
  "deliver_namespace e c = (case e of
     NamespaceChanged ns \<Rightarrow> (case store_Get (ns_Name ns) c of
        Some old \<Rightarrow> outcome_bind (store_Update (\<lambda>_. []) (ns_Name ns) ns c) (\<lambda>c. Returned (NoteUpdate old ns, c))
      | None \<Rightarrow> outcome_bind (store_Add (\<lambda>_. []) (ns_Name ns) ns c) (\<lambda>c. Returned (NoteAdd ns, c)))
   | NamespaceDeleted n \<Rightarrow> outcome_bind (store_DeleteWithObject (\<lambda>_. []) n None c) (\<lambda>c. Returned (NoteDelete n, c)))"

definition handle_note :: "ro_system api \<Rightarrow> namespace_note \<Rightarrow> ro_system \<Rightarrow> Request list" where
  "handle_note A note s = fst (case note of
     NoteAdd ns \<Rightarrow> namespace_OnAdd (WatchedNamespace ns) False s
   | NoteUpdate old new \<Rightarrow> namespace_OnUpdate (lister_api A) (WatchedNamespace old) (WatchedNamespace new) s
   | NoteDelete n \<Rightarrow> namespace_OnDelete (WatchedOther n) s)"

definition set_worker :: "nat \<Rightarrow> ro_worker \<Rightarrow> ro_system \<Rightarrow> ro_system" where
  "set_worker i w s = s\<lparr>sys_workers := (sys_workers s)[i := w]\<rparr>"

definition worker_at :: "ro_system \<Rightarrow> nat \<Rightarrow> ro_worker option" where
  "worker_at s i = (if i < length (sys_workers s) then Some (sys_workers s ! i) else None)"

text \<open>The end of a reconcile, on the answers of the listers.\<close>

definition finish :: "lib \<Rightarrow> ro_system api \<Rightarrow> nat \<Rightarrow> server_answer \<Rightarrow> time \<Rightarrow> Request \<Rightarrow> error + ResourceOverride \<Rightarrow> error + Namespace
    \<Rightarrow> ro_system \<Rightarrow> ro_system outcome" where
  "finish L A i answer tick req ro ns s =
     (case RO_Reconcile L (sys_api A answer tick ro ns) req s of
        (Panicked, s) \<Rightarrow> Panicked
      | (Returned (result, err), s) \<Rightarrow>
          Returned (set_worker i (Finishing (ItemRequest req) (item_ops (ItemRequest req) result err)) s))"

text \<open>
  \<open>None\<close>: the action is not possible. With \<open>seen\<close>, a deleted namespace is not created again before the
  informer has seen the deletion.
\<close>

fun ro_act :: "lib \<Rightarrow> ro_system api \<Rightarrow> bool \<Rightarrow> ro_action \<Rightarrow> ro_system \<Rightarrow> ro_system outcome option" where
  "ro_act L A seen (PutResource x) s =
     (if resource_ok x \<and> map_of (sys_namespaces s) (namespace_of x) \<noteq> None then Some (Returned (put_resource x s)) else None)"
| "ro_act L A seen (DeleteResource missed ns n) s = (case map_of (sys_objects s) (ns, n) of
     None \<Rightarrow> None
   | Some x \<Rightarrow> Some (Returned (s\<lparr>sys_objects := AList.delete (ns, n) (sys_objects s),
       sys_events := sys_events s @ [if missed then FoundDeleted ns n else Deleted x]\<rparr>)))"
| "ro_act L A seen (PutNamespace ns) s =
     (if namespace_ok ns \<and> (seen \<longrightarrow> map_of (sys_namespaces s) (ns_Name ns) = None \<longrightarrow>
           NamespaceDeleted (ns_Name ns) \<notin> set (sys_namespace_events s))
      then Some (Returned (s\<lparr>sys_namespaces := AList.update (ns_Name ns) ns (sys_namespaces s),
        sys_namespace_events := sys_namespace_events s @ [NamespaceChanged ns]\<rparr>))
      else None)"
| "ro_act L A seen (DeleteNamespace n) s =
     (if map_of (sys_namespaces s) n \<noteq> None \<and> list_all (\<lambda>(k, x). fst k \<noteq> n) (sys_objects s)
      then Some (Returned (s\<lparr>sys_namespaces := AList.delete n (sys_namespaces s),
        sys_namespace_events := sys_namespace_events s @ [NamespaceDeleted n]\<rparr>))
      else None)"
| "ro_act L A seen (PassTime d) s = Some (Returned (s\<lparr>sys_clock := sys_clock s + d\<rparr>))"
| "ro_act L A seen (Resync ns n) s = (case cached (sys_cache s) (ns, n) of
     None \<Rightarrow> None
   | Some x \<Rightarrow> (if list_ex (\<lambda>e. event_key e = (ns, n)) (sys_events s) then None
       else Some (Returned (s\<lparr>sys_events := sys_events s @ [Changed x]\<rparr>))))"
| "ro_act L A seen DeliverEvent s = (case sys_events s of
     [] \<Rightarrow> None
   | e # es \<Rightarrow> Some (outcome_bind (processDelta e False (sys_cache s)) (\<lambda>(err, c, reqs).
       Returned (s\<lparr>sys_events := es, sys_cache := c, sys_requests := sys_requests s @ reqs\<rparr>))))"
| "ro_act L A seen DeliverNamespaceEvent s = (case sys_namespace_events s of
     [] \<Rightarrow> None
   | e # es \<Rightarrow> Some (outcome_bind (deliver_namespace e (sys_namespace_cache s)) (\<lambda>(note, c).
       Returned (s\<lparr>sys_namespace_events := es, sys_namespace_cache := c, sys_notes := sys_notes s @ [note]\<rparr>))))"
| "ro_act L A seen HandleNote s = (case sys_notes s of
     [] \<Rightarrow> None
   | note # notes \<Rightarrow> Some (Returned (s\<lparr>sys_notes := notes, sys_requests := sys_requests s @ handle_note A note s\<rparr>)))"
| "ro_act L A seen (EnqueueRequest j) s =
     (if j < length (sys_requests s)
      then Some (Returned (s\<lparr>sys_queue := wq_Add (ItemRequest (sys_requests s ! j)) (sys_queue s),
        sys_requests := take j (sys_requests s) @ drop (Suc j) (sys_requests s)\<rparr>))
      else None)"
| "ro_act L A seen (TakeItem i) s = (case (worker_at s i, wq_Get (sys_queue s)) of
     (Some Waiting, Some (Some (ItemRequest req), q)) \<Rightarrow> Some (Returned (set_worker i (Taken req) (s\<lparr>sys_queue := q\<rparr>)))
   | (Some Waiting, Some (Some (ItemOther v), q)) \<Rightarrow> Some (Returned (set_worker i
       (Finishing (ItemOther v) (item_ops (ItemOther v) empty_Result (None :: error option))) (s\<lparr>sys_queue := q\<rparr>)))
   | _ \<Rightarrow> None)"
| "ro_act L A seen (ReadTheObject i) s = (case worker_at s i of
     Some (Taken req) \<Rightarrow> Some (Returned (set_worker i (ReadObject req
       (ResourceIndexer_Get (ResourceOverrides NewResourceOverrideLister (req_Namespace req)) (sys_cache s) (req_Name req))) s))
   | _ \<Rightarrow> None)"
| "ro_act L A seen (ReadTheNamespace i) s = (case worker_at s i of
     Some (ReadObject req (Inr x)) \<Rightarrow>
       Some (Returned (set_worker i (ReadNamespace req x (NamespaceLister_Get (namespace_of x) (sys_namespace_cache s))) s))
   | _ \<Rightarrow> None)"
| "ro_act L A seen (Finish i answer tick) s = (case worker_at s i of
     Some (ReadObject req (Inl err)) \<Rightarrow> Some (finish L A i answer tick req (Inl err) (Inl err) s)
   | Some (ReadNamespace req x ns) \<Rightarrow> Some (finish L A i answer tick req (Inr x) ns s)
   | _ \<Rightarrow> None)"
| "ro_act L A seen (PerformOp i bucket) s = (case worker_at s i of
     Some (Finishing x (op # ops)) \<Rightarrow> Some (Returned (set_worker i (if ops = [] then Waiting else Finishing x ops)
       (s\<lparr>sys_queue := apply_op bucket op (sys_queue s)\<rparr>)))
   | _ \<Rightarrow> None)"
| "ro_act L A seen (FireItem x) s =
     (if x \<in> wq_waiting (sys_queue s) then Some (Returned (s\<lparr>sys_queue := wq_fire x (sys_queue s)\<rparr>)) else None)"

fun ro_run :: "lib \<Rightarrow> ro_system api \<Rightarrow> bool \<Rightarrow> ro_action list \<Rightarrow> ro_system \<Rightarrow> ro_system outcome option" where
  "ro_run L A seen [] s = Some (Returned s)"
| "ro_run L A seen (a # as) s = (case ro_act L A seen a s of
     None \<Rightarrow> None
   | Some Panicked \<Rightarrow> Some Panicked
   | Some (Returned s) \<Rightarrow> ro_run L A seen as s)"

text \<open>Nothing is left to do: no event, request or retry is pending, and no worker is busy.\<close>

definition settled_system :: "ro_system \<Rightarrow> bool" where
  "settled_system s \<longleftrightarrow> sys_events s = [] \<and> sys_namespace_events s = [] \<and> sys_requests s = [] \<and> sys_notes s = []
     \<and> wq_queue (sys_queue s) = [] \<and> wq_waiting (sys_queue s) = {} \<and> list_all (\<lambda>w. w = Waiting) (sys_workers s)"

text \<open>
  The status says what the spec and the namespace's label say: why the parameters are not accepted, if they
  are not, and whether the resource is ignored.
\<close>

definition validation_says :: "lib \<Rightarrow> ResourceOverride \<Rightarrow> string option" where
  "validation_says L x =
     (let key = namespace_of x @ ''/'' @ name_of x
      in case autoscaling_PodResourceOverrideSpec_Validate (ros_PodResourceOverride (ro_Spec x)) of
           Some err \<Rightarrow> Some (''resourceoverride '' @ key @ '' has invalid parameters: '' @ Error err)
         | None \<Rightarrow> map_option (\<lambda>err. ''resourceoverride '' @ key @ '' has invalid podSelector field: '' @ Error err)
             (Option.bind (ros_PodSelector (ro_Spec x)) (lib_LabelSelectorAsSelector L)))"

definition opt_in_says :: "ResourceOverride \<Rightarrow> Namespace \<Rightarrow> string option" where
  "opt_in_says x ns = (if ns_label ns NamespaceOptInLabelKey = ''true'' then None
     else Some (''namespace '' @ fmt_q (namespace_of x) @ '' does not have the '' @ NamespaceOptInLabelKey @ ''=true label''))"

definition says :: "ResourceOverrideConditionType \<Rightarrow> string \<Rightarrow> string option \<Rightarrow> ResourceOverrideStatus \<Rightarrow> bool" where
  "says ty reason m s \<longleftrightarrow> (case ro_Find s ty of None \<Rightarrow> False | Some k \<Rightarrow> (case m of
       None \<Rightarrow> cond_Status k = ConditionFalse \<and> cond_Reason k = [] \<and> cond_Message k = []
     | Some msg \<Rightarrow> cond_Status k = ConditionTrue \<and> cond_Reason k = reason \<and> cond_Message k = msg))"

definition up_to_date :: "lib \<Rightarrow> ResourceOverride \<Rightarrow> Namespace \<Rightarrow> bool" where
  "up_to_date L x ns \<longleftrightarrow> says ValidationFailure InvalidParameters (validation_says L x) (ro_Status x)
     \<and> says Ignored NamespaceNotOptedIn (opt_in_says x ns) (ro_Status x)"

end
