(* ===== verification/ROInvariant.thy ===== *)
theory ROInvariant
  imports ROSystem
begin

text \<open>
  Invariants of the running ResourceOverride controller: the queue and its workers, the caches with the
  events that are on their way, and the API server. No action panics.
\<close>

section \<open>The end of a reconcile\<close>

lemma sys_api_simps [simp]:
  "api_Now (sys_api A answer tick ro ns) s = (sys_clock s, s\<lparr>sys_clock := sys_clock s + tick\<rparr>)"
  "api_RO_Get (sys_api A answer tick ro ns) n m s = (ro, s)" "api_Namespace_Get (sys_api A answer tick ro ns) n s = (ns, s)"
  "api_RO_UpdateStatus (sys_api A answer tick ro ns) = server_UpdateStatus answer"
  by (simp_all add: sys_api_def)

definition condition_for :: "ResourceOverrideConditionType \<Rightarrow> string \<Rightarrow> string option \<Rightarrow> time \<Rightarrow> ResourceOverrideCondition" where
  "condition_for ty reason m now = \<lparr>cond_Type = ty, cond_Status = (if m = None then ConditionFalse else ConditionTrue),
     cond_Reason = (if m = None then [] else reason), cond_Message = (case m of None \<Rightarrow> [] | Some msg \<Rightarrow> msg),
     cond_LastTransitionTime = now\<rparr>"

lemma RO_Validate_condition:
  "RO_Validate L A x w = (case api_Now A w of (now, w1) \<Rightarrow> (set_ro_Status (ro_WithCondition
     (Some (condition_for ValidationFailure InvalidParameters (validation_says L x) now)) (ro_init (ro_Status x))) x, w1))"
  by (auto simp: RO_Validate_def validation_says_def condition_for_def ro_builder_defs split: prod.splits option.splits)

lemma checkNamespaceOptIn_condition:
  "checkNamespaceOptIn A x w = (case api_Namespace_Get A (namespace_of x) w of (Inl err, w1) \<Rightarrow> (Inl err, w1)
     | (Inr ns, w1) \<Rightarrow> (case api_Now A w1 of (now, w2) \<Rightarrow> (Inr (set_ro_Status (ro_WithCondition
         (Some (condition_for Ignored NamespaceNotOptedIn (opt_in_says x ns) now)) (ro_init (ro_Status x))) x), w2)))"
  by (auto simp: checkNamespaceOptIn_def opt_in_says_def condition_for_def ro_builder_defs split: prod.splits sum.splits)

lemma condition_for_type [simp]: "cond_Type (condition_for ty reason m now) = ty"
  by (simp add: condition_for_def)

lemma says_iff: "says ty reason m s \<longleftrightarrow> (\<exists>k. ro_Find s ty = Some k \<and> ro_Equal (condition_for ty reason m now) k)"
proof (cases "ro_Find s ty")
  case (Some k)
  then have "cond_Type k = ty" by (rule ro_conds.find_type)
  with Some show ?thesis by (cases m) (auto simp: says_def condition_for_def ro_Equal_def)
qed (simp add: says_def)

text \<open>A status that says it already is not changed; one that does not, says it afterwards.\<close>

lemma says_put:
  "says ty reason m (ro_WithCondition (Some (condition_for ty reason m now)) s)"
  "ty' \<noteq> ty \<Longrightarrow> says ty' r m' (ro_WithCondition (Some (condition_for ty reason m now)) s) = says ty' r m' s"
  using ro_conds.find_put [of "condition_for ty reason m now" s] ro_conds.find_put_other [of ty' "condition_for ty reason m now" s]
  by (simp_all add: says_iff [of _ _ _ _ now])

lemma says_init [simp]: "says ty reason m (ro_init s) = says ty reason m s"
  by (simp add: says_def ro_init_def ro_Find_def)

lemma says_same:
  assumes "says ty reason m s"
  shows "ro_WithCondition (Some (condition_for ty reason m now)) (ro_init s) = s"
proof -
  from assms have "ro_init s = s" by (auto simp: says_def ro_init_def ro_Find_def split: option.splits)
  with assms show ?thesis
    using ro_conds.put_same [of s "condition_for ty reason m now"] by (auto simp: says_iff [of _ _ _ _ now])
qed

lemma says_cong:
  assumes "namespace_of x = namespace_of y" and "name_of x = name_of y" and "ro_Spec x = ro_Spec y"
  shows "validation_says L x = validation_says L y" and "opt_in_says x n = opt_in_says y n"
    and "ro_Status x = ro_Status y \<Longrightarrow> up_to_date L x n = up_to_date L y n"
  unfolding up_to_date_def validation_says_def opt_in_says_def by (simp_all only: assms)

text \<open>
  On what it has read, a reconcile fails because the namespace was not found, or has computed an
  up to date status, which is there already or is sent to the server.
\<close>

lemma reconcile_read:
  assumes "RO_Reconcile L (sys_api A answer tick (Inr x) ns) req s = (res, s')"
  obtains (failed) err t where "ns = Inl err" "res = Returned (empty_Result, Some err)" "s' = s\<lparr>sys_clock := t\<rparr>"
  | (unchanged) n t where "ns = Inr n" "up_to_date L x n" "res = Returned (empty_Result, None)" "s' = s\<lparr>sys_clock := t\<rparr>"
  | (sent) n obj t err where "ns = Inr n" "o_Meta obj = o_Meta x" "ro_Spec obj = ro_Spec x" "up_to_date L obj n"
      "\<not> up_to_date L x n" "ro_Status obj \<noteq> ro_Status x" "server_UpdateStatus answer (namespace_of x) obj (s\<lparr>sys_clock := t\<rparr>) = (err, s')"
      "res = Returned (empty_Result, err)"
proof (cases ns)
  case (Inl err)
  with assms show thesis
    by (intro failed [of err "sys_clock s + tick"]) (auto simp: RO_Reconcile_def RO_Validate_condition checkNamespaceOptIn_condition)
next
  case (Inr n)
  let ?v = "condition_for ValidationFailure InvalidParameters (validation_says L x) (sys_clock s)"
    and ?o = "condition_for Ignored NamespaceNotOptedIn (opt_in_says x n) (sys_clock s + tick)"
    and ?t = "sys_clock s + tick + tick"
  define st where "st = ro_WithCondition (Some ?o) (ro_init (ro_WithCondition (Some ?v) (ro_init (ro_Status x))))"
  define obj where "obj = set_ro_Status st (SetGroupVersionKind ResourceOverrideGVK x)"
  have meta: "o_Meta obj = o_Meta x" "ro_Spec obj = ro_Spec x" "ro_Status obj = st" by (simp_all add: obj_def)
  have "validation_says L (SetGroupVersionKind ResourceOverrideGVK x) = validation_says L x" by (rule says_cong) simp_all
  then have res: "(res, s') = (case RO_StatusUpdater_Update (sys_api A answer tick (Inr x) ns) x obj (s\<lparr>sys_clock := ?t\<rparr>) of
      (err, s1) \<Rightarrow> (Returned (empty_Result, err), s1))"
    using assms Inr by (simp add: RO_Reconcile_def RO_Validate_condition checkNamespaceOptIn_condition obj_def st_def
        opt_in_says_def set_ro_Status_def cong: if_cong)
  have fresh: "up_to_date L obj n"
    using meta says_cong(1,2) [of obj x]
    by (simp add: up_to_date_def st_def says_put)
  show thesis
  proof (cases "up_to_date L x n")
    case True
    then have "st = ro_Status x" by (simp add: st_def up_to_date_def says_same)
    then show thesis using res True meta Inr by (intro unchanged [of n ?t]) (auto simp: RO_StatusUpdater_Update_def)
  next
    case False
    with fresh meta have "st \<noteq> ro_Status x" 
      using says_cong(1,2) [of obj x] by (auto simp: up_to_date_def)
    moreover obtain err s1 where "server_UpdateStatus answer (namespace_of x) obj (s\<lparr>sys_clock := ?t\<rparr>) = (err, s1)" by fastforce
    ultimately show thesis using res False meta Inr fresh
      by (intro sent [of n obj ?t err]) (auto simp: RO_StatusUpdater_Update_def)
  qed
qed

text \<open>What an update does to the server.\<close>

lemma UpdateStatus_cases:
  assumes "server_UpdateStatus answer ns obj s = (err, s')"
  obtains (nothing) "s' = s" "err \<noteq> None"
  | (there) stored where "s' = s" "map_of (sys_objects s) (ns, name_of obj) = Some stored" "ro_Status stored = ro_Status obj"
  | (put) stored v where "map_of (sys_objects s) (ns, name_of obj) = Some stored" "s' = put_resource (with_status obj v stored) s"
  using assms
  by (cases "map_of (sys_objects s) (ns, name_of obj)"; cases answer)
    (auto simp: server_UpdateStatus_def Let_def split: if_splits)

text \<open>The end of a reconcile changes the worker, the clock, and at most one resource on the server.\<close>

lemma reconcile_effect:
  assumes "RO_Reconcile L (sys_api A answer tick ro ns) req s = (res, s')"
  obtains (nothing) t where "s' = s\<lparr>sys_clock := t\<rparr>"
  | (put) stored obj v t k where "map_of (sys_objects s) k = Some stored"
      "s' = put_resource (with_status obj v stored) (s\<lparr>sys_clock := t\<rparr>)"
proof (cases ro)
  case (Inl e)
  with assms have "s' = s\<lparr>sys_clock := sys_clock s\<rparr>" by (auto simp: RO_Reconcile_def split: if_splits)
  then show thesis by (rule nothing)
next
  case (Inr x)
  from assms [unfolded Inr] show thesis
  proof (cases rule: reconcile_read)
    case (sent n obj t err)
    from sent(7) show thesis
    proof (cases rule: UpdateStatus_cases)
      case (put stored v)
      then show thesis using that(2) [of "(namespace_of x, name_of obj)" stored obj v t] by simp
    qed (rule nothing, assumption)+
  qed (rule nothing, assumption)+
qed

lemma finish_effect:
  obtains s' t ops where "finish L A i answer tick req ro ns s = Returned (set_worker i (Finishing (ItemRequest req) ops) s')"
    and "ends_with_done (ItemRequest req) ops"
    and "s' = s\<lparr>sys_clock := t\<rparr> \<or> (\<exists>stored obj v k. map_of (sys_objects s) k = Some stored
      \<and> s' = put_resource (with_status obj v stored) (s\<lparr>sys_clock := t\<rparr>))"
proof -
  let ?A = "sys_api A answer tick ro ns"
  obtain err s' where run: "RO_Reconcile L ?A req s = (Returned (empty_Result, err), s')"
    using RO_Reconcile_returns [of L ?A req s] by (metis prod.exhaust_sel)
  have r: "finish L A i answer tick req ro ns s
      = Returned (set_worker i (Finishing (ItemRequest req) (item_ops (ItemRequest req) empty_Result err)) s')"
    by (simp add: finish_def run)
  from run show thesis
  proof (cases rule: reconcile_effect)
    case (nothing t)
    then show thesis using that [OF r ends_with_done_item_ops] by blast
  next
    case (put stored obj v t k)
    then show thesis using that [OF r ends_with_done_item_ops] by blast
  qed
qed

section \<open>Queue and workers\<close>

text \<open>
  The workers as \<open>ControlLoop\<close> sees them: from taking an item until the reconcile is over, what is certain to
  be left is Done.
\<close>

fun abs_worker :: "ro_worker \<Rightarrow> worker" where
  "abs_worker Waiting = Idle"
| "abs_worker (Taken req) = Busy (ItemRequest req) [OpDone (ItemRequest req)]"
| "abs_worker (ReadObject req ro) = Busy (ItemRequest req) [OpDone (ItemRequest req)]"
| "abs_worker (ReadNamespace req x ns) = Busy (ItemRequest req) [OpDone (ItemRequest req)]"
| "abs_worker (Finishing x ops) = Busy x ops"

definition abs_ctl :: "ro_system \<Rightarrow> ctl" where
  "abs_ctl s = \<lparr>ctl_queue = sys_queue s, ctl_workers = map abs_worker (sys_workers s)\<rparr>"

definition queue_inv :: "ro_system \<Rightarrow> bool" where
  "queue_inv s \<longleftrightarrow> ctl_inv (abs_ctl s) \<and> \<not> wq_shuttingDown (sys_queue s) \<and> finite (wq_waiting (sys_queue s))"

lemma worker_at_Some: "worker_at s i = Some w \<longleftrightarrow> i < length (sys_workers s) \<and> sys_workers s ! i = w"
  by (simp add: worker_at_def)

lemma worker_at_simps [simp]:
  "worker_at (sys_objects_update f s) = worker_at s" "worker_at (sys_namespaces_update g s) = worker_at s"
  "worker_at (sys_clock_update h s) = worker_at s" "worker_at (sys_events_update e s) = worker_at s"
  "worker_at (sys_namespace_events_update d s) = worker_at s" "worker_at (sys_cache_update c s) = worker_at s"
  "worker_at (sys_namespace_cache_update m s) = worker_at s" "worker_at (sys_requests_update r s) = worker_at s"
  "worker_at (sys_notes_update n s) = worker_at s" "worker_at (sys_queue_update q s) = worker_at s"
  by (simp_all add: worker_at_def fun_eq_iff)

lemma set_worker_simps [simp]:
  "sys_objects (set_worker i w s) = sys_objects s" "sys_namespaces (set_worker i w s) = sys_namespaces s"
  "sys_events (set_worker i w s) = sys_events s" "sys_namespace_events (set_worker i w s) = sys_namespace_events s"
  "sys_cache (set_worker i w s) = sys_cache s" "sys_namespace_cache (set_worker i w s) = sys_namespace_cache s"
  "sys_requests (set_worker i w s) = sys_requests s" "sys_notes (set_worker i w s) = sys_notes s"
  "sys_queue (set_worker i w s) = sys_queue s" "sys_workers (set_worker i w s) = (sys_workers s)[i := w]"
  by (simp_all add: set_worker_def)

lemma put_resource_simps [simp]:
  "sys_objects (put_resource x s) = AList.update (ro_key x) x (sys_objects s)" "sys_events (put_resource x s) = sys_events s @ [Changed x]"
  "sys_namespaces (put_resource x s) = sys_namespaces s" "sys_namespace_events (put_resource x s) = sys_namespace_events s"
  "sys_cache (put_resource x s) = sys_cache s" "sys_namespace_cache (put_resource x s) = sys_namespace_cache s"
  "sys_requests (put_resource x s) = sys_requests s" "sys_notes (put_resource x s) = sys_notes s"
  "sys_queue (put_resource x s) = sys_queue s" "sys_workers (put_resource x s) = sys_workers s"
  by (simp_all add: put_resource_def)

lemma abs_ctl_worker:
  "abs_ctl (set_worker i w (s\<lparr>sys_queue := q\<rparr>)) = (abs_ctl s)\<lparr>ctl_queue := q, ctl_workers := (ctl_workers (abs_ctl s))[i := abs_worker w]\<rparr>"
  by (simp add: abs_ctl_def map_update set_worker_def)

lemma queue_inv_same: "queue_inv s \<Longrightarrow> sys_queue s' = sys_queue s \<Longrightarrow> sys_workers s' = sys_workers s \<Longrightarrow> queue_inv s'"
  by (simp add: queue_inv_def abs_ctl_def)

text \<open>A busy worker may change what is left to do.\<close>

lemma queue_inv_replan:
  assumes "queue_inv s" and "worker_at s i = Some v" and "abs_worker v = Busy x ops" and "abs_worker w = Busy x ops'"
    and "ends_with_done x ops'"
  shows "queue_inv (set_worker i w s)"
proof -
  let ?c = "abs_ctl s"
  have inv: "ctl_inv ?c" using assms(1) by (simp add: queue_inv_def)
  have i: "i < length (ctl_workers ?c)" "ctl_workers ?c ! i = Busy x ops"
    using assms(2,3) by (auto simp: worker_at_Some abs_ctl_def)
  then have held: "holds ?c i y \<longleftrightarrow> y = x" for y by (auto simp: holds_def)
  have "ctl_inv (?c\<lparr>ctl_queue := ctl_queue ?c, ctl_workers := (ctl_workers ?c)[i := Busy x ops']\<rparr>)"
  proof (rule ctl_inv_worker [OF inv i(1)])
    show "wq_inv (ctl_queue ?c)" using inv by (simp add: ctl_inv_def)
    show "Busy x ops' = Busy y ops'' \<Longrightarrow> ends_with_done y ops''" for y ops'' using assms(5) by simp
    show "Busy x ops' = Busy y ops'' \<Longrightarrow> holds ?c j y \<Longrightarrow> j = i" for j y ops''
      using ctl_inv_unique [OF inv, of j y i] held by auto
    show "y \<in> wq_processing (ctl_queue ?c) \<longleftrightarrow> (\<exists>ops''. Busy x ops' = Busy y ops'') \<or> (\<exists>j. j \<noteq> i \<and> holds ?c j y)" for y
      unfolding ctl_inv_processing [OF inv] using held [of y] by (cases "y = x") (auto simp: eq_commute [of y])
  qed
  then show ?thesis
    using assms(1,4) abs_ctl_worker [where i = i and w = w and s = s and q = "sys_queue s"] by (simp add: queue_inv_def abs_ctl_def)
qed

lemma ends_with_done_single [simp]: "ends_with_done x [OpDone x]"
  by (simp add: ends_with_done_def)

lemma wq_Add_waiting [simp]: "wq_waiting (wq_Add x q) = wq_waiting q"
  by (simp add: wq_Add_cases)

lemma apply_op_open: "wq_shuttingDown (apply_op b op q) = wq_shuttingDown q"
  "finite (wq_waiting q) \<Longrightarrow> finite (wq_waiting (apply_op b op q))"
  by (cases op; simp add: wq_Done_def wq_Forget_def wq_AddRateLimited_def wq_AddAfter_def wq_Add_cases Let_def)+

lemma queue_inv_queue:
  "queue_inv s \<Longrightarrow> wq_inv (sys_queue s') \<Longrightarrow> wq_processing (sys_queue s') = wq_processing (sys_queue s)
    \<Longrightarrow> \<not> wq_shuttingDown (sys_queue s') \<Longrightarrow> wq_waiting (sys_queue s') \<subseteq> wq_waiting (sys_queue s)
    \<Longrightarrow> sys_workers s' = sys_workers s \<Longrightarrow> queue_inv s'"
  using ctl_inv_queue [of "abs_ctl s" "sys_queue s'"] by (auto simp: queue_inv_def abs_ctl_def intro: finite_subset)

lemma queue_inv_wq: "queue_inv s \<Longrightarrow> wq_inv (sys_queue s)"
  by (simp add: queue_inv_def abs_ctl_def ctl_inv_def)

lemma queue_inv_take:
  assumes "queue_inv s" and "worker_at s i = Some Waiting" and "wq_Get (sys_queue s) = Some (Some x, q)"
    and "abs_worker w = Busy x ops" and "ends_with_done x ops"
  shows "queue_inv (set_worker i w (s\<lparr>sys_queue := q\<rparr>))"
proof -
  have "ctl_inv ((abs_ctl s)\<lparr>ctl_queue := q, ctl_workers := (ctl_workers (abs_ctl s))[i := Busy x ops]\<rparr>)"
    using assms by (intro ctl_inv_take) (auto simp: queue_inv_def abs_ctl_def worker_at_Some)
  moreover have "\<not> wq_shuttingDown q \<and> finite (wq_waiting q)" using assms(1,3) by (auto simp: queue_inv_def wq_Get_def split: list.splits if_splits)
  ultimately show ?thesis unfolding queue_inv_def abs_ctl_worker assms(4) by simp
qed

lemma queue_inv_op:
  assumes "queue_inv s" and "worker_at s i = Some (Finishing x (op # ops))"
  shows "queue_inv (set_worker i (if ops = [] then Waiting else Finishing x ops) (s\<lparr>sys_queue := apply_op b op (sys_queue s)\<rparr>))"
proof -
  have "ctl_inv ((abs_ctl s)\<lparr>ctl_queue := apply_op b op (ctl_queue (abs_ctl s)),
      ctl_workers := (ctl_workers (abs_ctl s))[i := (if ops = [] then Idle else Busy x ops)]\<rparr>)"
    using assms by (intro ctl_inv_work) (auto simp: queue_inv_def abs_ctl_def worker_at_Some)
  moreover have "abs_worker (if ops = [] then Waiting else Finishing x ops) = (if ops = [] then Idle else Busy x ops)" by simp
  ultimately show ?thesis using assms(1) unfolding queue_inv_def abs_ctl_worker
    by (cases ops) (simp_all add: apply_op_open, simp_all add: abs_ctl_def)
qed

lemma queue_inv_act:
  assumes "queue_inv s" and act: "ro_act L A seen a s = Some (Returned s')"
  shows "queue_inv s'"
proof -
  note wq = queue_inv_wq [OF assms(1)]
  have running: "\<not> wq_shuttingDown (sys_queue s)" using assms(1) by (simp add: queue_inv_def)
  show ?thesis
proof (cases a)
  case (EnqueueRequest j)
  then show ?thesis using act wq running
    by (auto simp: client_go.add_inv client_go.add_busy client_go.add_closed
        intro!: queue_inv_queue [OF assms(1)] split: if_splits)
next
  case (TakeItem i)
  then obtain x q where "worker_at s i = Some Waiting" "wq_Get (sys_queue s) = Some (Some x, q)"
    and s': "s' = set_worker i (case x of ItemRequest req \<Rightarrow> Taken req
      | ItemOther v \<Rightarrow> Finishing x (item_ops x empty_Result (None :: error option))) (s\<lparr>sys_queue := q\<rparr>)"
    using act by (auto split: option.splits ro_worker.splits prod.splits item.splits)
  then show ?thesis
    by (cases x) (simp_all add: s' queue_inv_take [OF assms(1), where w = "Taken _"]
        queue_inv_take [OF assms(1), where w = "Finishing _ _"] ends_with_done_item_ops)
next
  case (Finish i answer tick)
  then obtain v req ro ns where v: "worker_at s i = Some v" "abs_worker v = Busy (ItemRequest req) [OpDone (ItemRequest req)]"
    and fin: "finish L A i answer tick req ro ns s = Returned s'"
    using act by (auto split: option.splits ro_worker.splits sum.splits)
  obtain s0 t ops where "finish L A i answer tick req ro ns s = Returned (set_worker i (Finishing (ItemRequest req) ops) s0)"
    and ops: "ends_with_done (ItemRequest req) ops"
    and s0: "s0 = s\<lparr>sys_clock := t\<rparr> \<or> (\<exists>stored obj v k. map_of (sys_objects s) k = Some stored
      \<and> s0 = put_resource (with_status obj v stored) (s\<lparr>sys_clock := t\<rparr>))" by (rule finish_effect)
  with fin have s': "s' = set_worker i (Finishing (ItemRequest req) ops) s0" by simp
  from s0 have same: "sys_queue s0 = sys_queue s" "sys_workers s0 = sys_workers s" by auto
  then have "worker_at s0 i = Some v" using v(1) by (simp add: worker_at_Some)
  from queue_inv_replan [OF queue_inv_same [OF assms(1) same] this v(2) _ ops] show ?thesis unfolding s' by simp
next
  case (ReadTheObject i)
  then show ?thesis using act
    by (auto intro!: queue_inv_replan [OF assms(1)] split: option.splits ro_worker.splits)
next
  case (ReadTheNamespace i)
  then show ?thesis using act
    by (auto intro!: queue_inv_replan [OF assms(1)] split: option.splits ro_worker.splits sum.splits)
next
  case (PerformOp i bucket)
  then show ?thesis using act queue_inv_op [OF assms(1)]
    by (auto split: option.splits ro_worker.splits list.splits)
next
  case (FireItem x)
  then show ?thesis using act wq running
    by (auto simp: wq_fire_def client_go.add_closed client_go.add_inv client_go.add_busy
        intro!: queue_inv_queue [OF assms(1)] split: if_splits)
qed (use act in \<open>auto intro!: queue_inv_same [OF assms(1)] split: if_splits option.splits list.splits outcome.splits prod.splits\<close>)
qed

section \<open>Caches and the API server\<close>

fun namespace_effect :: "namespace_event \<Rightarrow> (string \<Rightarrow> Namespace option) \<Rightarrow> string \<Rightarrow> Namespace option" where
  "namespace_effect (NamespaceChanged ns) m = m(ns_Name ns \<mapsto> ns)"
| "namespace_effect (NamespaceDeleted n) m = m(n := None)"

fun note_for :: "namespace_event \<Rightarrow> (string \<Rightarrow> Namespace option) \<Rightarrow> namespace_note" where
  "note_for (NamespaceChanged ns) m = (case m (ns_Name ns) of None \<Rightarrow> NoteAdd ns | Some old \<Rightarrow> NoteUpdate old ns)"
| "note_for (NamespaceDeleted n) m = NoteDelete n"

fun event_ok :: "ResourceOverride event \<Rightarrow> bool" where
  "event_ok (Changed x) = resource_ok x"
| "event_ok (Deleted x) = plain_names x"
| "event_ok (FoundDeleted ns n) = (CHR ''/'' \<notin> set ns \<and> CHR ''/'' \<notin> set n)"

fun namespace_event_ok :: "namespace_event \<Rightarrow> bool" where
  "namespace_event_ok (NamespaceChanged ns) = namespace_ok ns"
| "namespace_event_ok (NamespaceDeleted n) = True"

fun note_ok :: "namespace_note \<Rightarrow> bool" where
  "note_ok (NoteUpdate old new) = (namespace_ok old \<and> namespace_ok new \<and> ns_Name old = ns_Name new)"
| "note_ok note = True"

text \<open>A cache is what the server holds, up to the events on their way.\<close>

definition caches_inv :: "ro_system \<Rightarrow> bool" where
  "caches_inv s \<longleftrightarrow> cache_inv ro_indexers (sys_cache s) \<and> store_inv (sys_namespace_cache s)
     \<and> list_all event_ok (sys_events s) \<and> list_all namespace_event_ok (sys_namespace_events s) \<and> list_all note_ok (sys_notes s)
     \<and> (\<forall>k x. cached (sys_cache s) k = Some x \<longrightarrow> ro_key x = k \<and> resource_ok x)
     \<and> (\<forall>n ns. items_of (sys_namespace_cache s) n = Some ns \<longrightarrow> ns_Name ns = n \<and> namespace_ok ns)
     \<and> fold event_effect (sys_events s) (cached (sys_cache s)) = map_of (sys_objects s)
     \<and> fold namespace_effect (sys_namespace_events s) (items_of (sys_namespace_cache s)) = map_of (sys_namespaces s)"

text \<open>Resources are in namespaces, and a namespace whose deletion is on its way is gone.\<close>

definition server_inv :: "ro_system \<Rightarrow> bool" where
  "server_inv s \<longleftrightarrow> (\<forall>k x. map_of (sys_objects s) k = Some x \<longrightarrow> map_of (sys_namespaces s) (fst k) \<noteq> None)
     \<and> (\<forall>n. NamespaceDeleted n \<in> set (sys_namespace_events s) \<longrightarrow> map_of (sys_namespaces s) n = None)"

lemma event_ok_plain: "event_ok e \<Longrightarrow> plain_event e"
  by (cases e) (auto simp: plain_event_def resource_ok_def)

lemma event_effect_ok:
  assumes "event_ok e" and "\<forall>k x. m k = Some x \<longrightarrow> ro_key x = k \<and> resource_ok x"
  shows "\<forall>k x. event_effect e m k = Some x \<longrightarrow> ro_key x = k \<and> resource_ok x"
  using assms by (cases e) (auto simp: event_effect_def)

lemma fold_effect_ok:
  assumes "list_all event_ok es" and "\<forall>k x. m k = Some x \<longrightarrow> ro_key x = k \<and> resource_ok x"
  shows "\<forall>k x. fold event_effect es m k = Some x \<longrightarrow> ro_key x = k \<and> resource_ok x"
  using assms
proof (induction es arbitrary: m)
  case (Cons e es)
  have ok: "event_ok e" "list_all event_ok es" using Cons.prems(1) by simp_all
  from Cons.IH [OF ok(2) event_effect_ok [OF ok(1) Cons.prems(2)]] show ?case by (simp only: fold_Cons o_apply)
qed (simp only: fold_Nil id_apply)

lemma server_object:
  assumes "caches_inv s" and "map_of (sys_objects s) k = Some x"
  shows "ro_key x = k" and "resource_ok x"
proof -
  have "fold event_effect (sys_events s) (cached (sys_cache s)) k = Some x" "list_all event_ok (sys_events s)"
    "\<forall>k x. cached (sys_cache s) k = Some x \<longrightarrow> ro_key x = k \<and> resource_ok x"
    using assms by (simp_all add: caches_inv_def)
  then show "ro_key x = k" "resource_ok x" using fold_effect_ok by blast+
qed

lemma cached_object:
  assumes "caches_inv s" and "cached (sys_cache s) k = Some x"
  shows "ro_key x = k" and "resource_ok x"
  using assms unfolding caches_inv_def by blast+

lemma deliver_namespace_run:
  assumes "store_inv c"
  obtains c' where "deliver_namespace e c = Returned (note_for e (items_of c), c')" and "store_inv c'"
    and "items_of c' = namespace_effect e (items_of c)"
proof (cases e)
  case (NamespaceChanged ns)
  obtain c' where "store_Update (\<lambda>_. []) (ns_Name ns) ns c = Returned c'" "store_inv c'"
      "items_of c' = (items_of c)(ns_Name ns \<mapsto> ns)"
    using store_Update_inv [OF assms, of "\<lambda>_. []" "ns_Name ns" ns] by metis
  then show thesis using NamespaceChanged
    by (intro that [of c']) (simp_all add: deliver_namespace_def store_Get_def store_Add_def split: option.split)
next
  case (NamespaceDeleted n)
  obtain c' where "store_DeleteWithObject (\<lambda>_. []) n None c = Returned c'" "store_inv c'" "items_of c' = (items_of c)(n := None)"
    using store_Delete_inv [OF assms, of "\<lambda>_. []" n None] by metis
  then show thesis using NamespaceDeleted by (intro that [of c']) (simp_all add: deliver_namespace_def)
qed

lemma deliver_event_run:
  assumes inv: "cache_inv ro_indexers c" and "event_ok e"
  obtains c' where "processDelta e False c = Returned (None, c', [key_request (event_key e)])"
    and "cache_inv ro_indexers c'" and "cached c' = event_effect e (cached c)"
proof -
  from processDelta_run [OF inv event_ok_plain [OF assms(2)]] obtain c' where
    "processDelta e False c = Returned (None, c', [key_request (event_key e)])" "handle_event e c = Returned c'"
    by blast
  moreover from informer_cache.step [OF inv event_ok_plain [OF assms(2)]] this(2) have
    "cache_inv ro_indexers c'" "cached c' = event_effect e (cached c)" by auto
  ultimately show thesis using that by blast
qed

lemma caches_inv_cache: "caches_inv s \<Longrightarrow> cache_inv ro_indexers (sys_cache s)"
  by (simp add: caches_inv_def)

lemma caches_inv_same:
  "caches_inv s \<Longrightarrow> sys_objects s' = sys_objects s \<Longrightarrow> sys_namespaces s' = sys_namespaces s \<Longrightarrow> sys_events s' = sys_events s
    \<Longrightarrow> sys_namespace_events s' = sys_namespace_events s \<Longrightarrow> sys_cache s' = sys_cache s
    \<Longrightarrow> sys_namespace_cache s' = sys_namespace_cache s \<Longrightarrow> sys_notes s' = sys_notes s \<Longrightarrow> caches_inv s'"
  by (simp add: caches_inv_def)

lemma caches_inv_put: "caches_inv s \<Longrightarrow> resource_ok x \<Longrightarrow> caches_inv (put_resource x s)"
  by (simp add: caches_inv_def event_effect_def update_conv')

lemma with_status_simps [simp]:
  "ro_key (with_status obj v stored) = ro_key stored" "resource_ok (with_status obj v stored) = resource_ok stored"
  "ro_Status (with_status obj v stored) = ro_Status obj" "ro_Spec (with_status obj v stored) = ro_Spec stored"
  by (simp_all add: with_status_def resource_ok_def plain_names_def)

lemma caches_inv_finish:
  assumes "caches_inv s"
  shows "\<exists>s'. finish L A i answer tick req ro ns s = Returned s' \<and> caches_inv s'"
proof -
  obtain s0 t ops where fin: "finish L A i answer tick req ro ns s = Returned (set_worker i (Finishing (ItemRequest req) ops) s0)"
    and "ends_with_done (ItemRequest req) ops"
    and s0: "s0 = s\<lparr>sys_clock := t\<rparr> \<or> (\<exists>stored obj v k. map_of (sys_objects s) k = Some stored
      \<and> s0 = put_resource (with_status obj v stored) (s\<lparr>sys_clock := t\<rparr>))" by (rule finish_effect)
  have clock: "caches_inv (s\<lparr>sys_clock := t\<rparr>)" by (rule caches_inv_same [OF assms]) simp_all
  then have "caches_inv s0" using s0 server_object [OF assms] by (auto intro!: caches_inv_put)
  then have "caches_inv (set_worker i (Finishing (ItemRequest req) ops) s0)" by (rule caches_inv_same) simp_all
  with fin show ?thesis by simp
qed


lemma store_inv_event:
  assumes "caches_inv s" and "sys_events s = e # es"
  shows "caches_inv (s\<lparr>sys_events := es, sys_cache := c, sys_requests := r\<rparr>) \<longleftrightarrow>
    cache_inv ro_indexers c \<and> (\<forall>k x. cached c k = Some x \<longrightarrow> ro_key x = k \<and> resource_ok x)
    \<and> fold event_effect es (cached c) = fold event_effect es (event_effect e (cached (sys_cache s)))"
  using assms by (auto simp: caches_inv_def)

text \<open>Every action keeps the caches in step with the server, and none panics.\<close>

lemma caches_inv_act:
  assumes inv: "caches_inv s" and act: "ro_act L A seen a s = Some r"
  shows "\<exists>s'. r = Returned s' \<and> caches_inv s'"
proof (cases a)
  case (PutResource x)
  with act inv show ?thesis by (auto intro!: caches_inv_put split: if_splits)
next
  case (DeleteResource missed ns n)
  with act obtain x where x: "map_of (sys_objects s) (ns, n) = Some x" by (auto split: option.splits)
  with server_object [OF inv x] have "ro_key x = (ns, n)" "plain_names x" by (auto simp: resource_ok_def)
  with act DeleteResource x inv show ?thesis
    by (auto simp: caches_inv_def event_effect_def delete_conv' plain_names_def)
next
  case (PutNamespace ns)
  with act inv show ?thesis by (auto simp: caches_inv_def update_conv' split: if_splits)
next
  case (DeleteNamespace n)
  with act inv show ?thesis by (auto simp: caches_inv_def delete_conv' split: if_splits)
next
  case (Resync ns n)
  with act obtain x where x: "cached (sys_cache s) (ns, n) = Some x" and quiet: "\<forall>e \<in> set (sys_events s). event_key e \<noteq> (ns, n)"
    and r: "r = Returned (s\<lparr>sys_events := sys_events s @ [Changed x]\<rparr>)"
    by (auto split: option.splits if_splits simp: list_ex_iff)
  have key: "ro_key x = (ns, n)" "resource_ok x" using inv x by (auto simp: caches_inv_def)
  have "map_of (sys_objects s) (ns, n) = Some x"
    using fold_effect_other [of "(ns, n)" "sys_events s" "cached (sys_cache s)"] quiet inv x by (force simp add: caches_inv_def)
  then show ?thesis using inv r key by (auto simp: caches_inv_def event_effect_def fun_upd_idem)
next
  case DeliverEvent
  with act obtain e es where e: "sys_events s = e # es" by (auto split: list.splits)
  with inv have ok: "event_ok e" by (simp add: caches_inv_def)
  from inv have old: "\<forall>k x. cached (sys_cache s) k = Some x \<longrightarrow> ro_key x = k \<and> resource_ok x" by (simp add: caches_inv_def)
  obtain c where "processDelta e False (sys_cache s) = Returned (None, c, [key_request (event_key e)])"
    "cache_inv ro_indexers c" "cached c = event_effect e (cached (sys_cache s))" by (rule deliver_event_run [OF caches_inv_cache [OF inv] ok])
  with act DeliverEvent e show ?thesis
    using event_effect_ok [OF ok old] store_inv_event [OF inv e] by auto
next
  case DeliverNamespaceEvent
  with act obtain e es where e: "sys_namespace_events s = e # es" by (auto split: list.splits)
  from inv have "store_inv (sys_namespace_cache s)" by (simp add: caches_inv_def)
  then obtain c where c: "deliver_namespace e (sys_namespace_cache s) = Returned (note_for e (items_of (sys_namespace_cache s)), c)"
    "store_inv c" "items_of c = namespace_effect e (items_of (sys_namespace_cache s))" by (rule deliver_namespace_run)
  have "namespace_event_ok e" and old: "\<forall>n ns. items_of (sys_namespace_cache s) n = Some ns \<longrightarrow> ns_Name ns = n \<and> namespace_ok ns"
    using inv e by (auto simp: caches_inv_def)
  then have "note_ok (note_for e (items_of (sys_namespace_cache s)))"
    "\<forall>n ns. namespace_effect e (items_of (sys_namespace_cache s)) n = Some ns \<longrightarrow> ns_Name ns = n \<and> namespace_ok ns"
    by (cases e; auto split: option.splits)+
  with act DeliverNamespaceEvent e c inv show ?thesis by (auto simp: caches_inv_def)
next
  case HandleNote
  with act inv show ?thesis by (auto simp: caches_inv_def split: list.splits)
next
  case (Finish i answer tick)
  with act caches_inv_finish [OF inv] show ?thesis by (auto split: option.splits ro_worker.splits sum.splits)
qed (use act in \<open>auto intro!: caches_inv_same [OF inv] split: if_splits option.splits ro_worker.splits sum.splits prod.splits item.splits list.splits\<close>)

lemma server_invI:
  "(\<And>n m x. map_of (sys_objects s) (n, m) = Some x \<Longrightarrow> map_of (sys_namespaces s) n \<noteq> None)
    \<Longrightarrow> (\<And>n. NamespaceDeleted n \<in> set (sys_namespace_events s) \<Longrightarrow> map_of (sys_namespaces s) n = None) \<Longrightarrow> server_inv s"
  by (auto simp: server_inv_def)

lemma server_invD:
  assumes "server_inv s"
  shows "map_of (sys_objects s) (n, m) = Some x \<Longrightarrow> \<exists>ns. map_of (sys_namespaces s) n = Some ns"
    and "NamespaceDeleted n \<in> set (sys_namespace_events s) \<Longrightarrow> map_of (sys_namespaces s) n = None"
  using assms by (force simp: server_inv_def)+

lemma server_inv_same:
  assumes "server_inv s" and "\<And>k x. map_of (sys_objects s') k = Some x \<Longrightarrow> map_of (sys_objects s) k \<noteq> None"
    and "sys_namespaces s' = sys_namespaces s" and "set (sys_namespace_events s') \<subseteq> set (sys_namespace_events s)"
  shows "server_inv s'"
proof (rule server_invI)
  show "map_of (sys_namespaces s') n \<noteq> None" if x: "map_of (sys_objects s') (n, m) = Some x" for n m x
    using assms(2) [OF x] server_invD(1) [OF assms(1)] assms(3) by fastforce
qed (use assms(3,4) server_invD(2) [OF assms(1)] in auto)

lemma server_inv_act:
  assumes inv: "caches_inv s" "server_inv s" and act: "ro_act L A True a s = Some (Returned s')"
  shows "server_inv s'"
proof (cases a)
  case (PutResource x)
  with act show ?thesis
    by (auto intro!: server_invI simp: update_conv' server_invD(2) [OF inv(2)] dest: server_invD(1) [OF inv(2)] split: if_splits)
next
  case (PutNamespace ns)
  with act show ?thesis
    by (auto intro!: server_invI simp: update_conv' server_invD(2) [OF inv(2)] dest: server_invD(1) [OF inv(2)] split: if_splits)
next
  case (DeleteNamespace n)
  with act have s': "s' = s\<lparr>sys_namespaces := AList.delete n (sys_namespaces s),
      sys_namespace_events := sys_namespace_events s @ [NamespaceDeleted n]\<rparr>"
    and free: "\<forall>(k, x) \<in> set (sys_objects s). fst k \<noteq> n" by (auto simp: list_all_iff split: if_splits)
  from free have "n' \<noteq> n" if "map_of (sys_objects s) (n', m) = Some x" for n' m x
    using that by (auto dest!: map_of_SomeD)
  then show ?thesis unfolding s'
    by (intro server_invI) (auto simp: delete_conv' dest: server_invD [OF inv(2)])
next
  case (Finish i answer tick)
  then obtain req ro ns where "finish L A i answer tick req ro ns s = Returned s'"
    using act by (auto split: option.splits ro_worker.splits sum.splits)
  moreover obtain s0 t ops where "finish L A i answer tick req ro ns s = Returned (set_worker i (Finishing (ItemRequest req) ops) s0)"
    and "ends_with_done (ItemRequest req) ops"
    and s0: "s0 = s\<lparr>sys_clock := t\<rparr> \<or> (\<exists>stored obj v k. map_of (sys_objects s) k = Some stored
      \<and> s0 = put_resource (with_status obj v stored) (s\<lparr>sys_clock := t\<rparr>))" by (rule finish_effect)
  ultimately have s': "s' = set_worker i (Finishing (ItemRequest req) ops) s0" by simp
  have dom: "map_of (sys_objects s) k \<noteq> None" if "map_of (sys_objects s0) k = Some x" for k x
    using s0
  proof (elim disjE exE conjE)
    fix stored obj v k' assume "map_of (sys_objects s) k' = Some stored" "s0 = put_resource (with_status obj v stored) (s\<lparr>sys_clock := t\<rparr>)"
    with that server_object(1) [OF inv(1) this(1)] show ?thesis by (auto simp: update_conv' split: if_splits)
  qed (use that in simp)
  have "sys_namespaces s0 = sys_namespaces s" "sys_namespace_events s0 = sys_namespace_events s" using s0 by auto
  then show ?thesis unfolding s' by (intro server_inv_same [OF inv(2)]) (simp_all add: dom)
qed (use act in \<open>auto intro!: server_inv_same [OF inv(2)] simp: delete_conv' split: if_splits option.splits ro_worker.splits sum.splits prod.splits item.splits list.splits outcome.splits\<close>)

end
