(* ===== verification/ROServed.thy ===== *)
theory ROServed
  imports ROInvariant
begin

text \<open>
  No change is lost between the API server and the status of a ResourceOverride: whatever is cached is up to
  date, or something that will bring it up to date is on its way.
\<close>

section \<open>What is on its way\<close>

text \<open>A worker that has yet to report what it has read, for a resource cached as \<open>x\<close>.\<close>

fun carries :: "(string \<Rightarrow> Namespace option) \<Rightarrow> string \<times> string \<Rightarrow> ResourceOverride \<Rightarrow> ro_worker \<Rightarrow> bool" where
  "carries m k x Waiting = False"
| "carries m k x (Taken req) = (req = key_request k)"
| "carries m k x (ReadObject req ro) = (req = key_request k \<and> ro = Inr x)"
| "carries m k x (ReadNamespace req y r) = (req = key_request k \<and> y = x \<and> (case r of Inl err \<Rightarrow> True
     | Inr n \<Rightarrow> (\<exists>n'. m (fst k) = Some n' \<and> ns_label n NamespaceOptInLabelKey = ns_label n' NamespaceOptInLabelKey)))"
| "carries m k x (Finishing it ops) = (it = ItemRequest (key_request k) \<and> OpAddRateLimited it \<in> set ops)"

definition requested :: "string \<times> string \<Rightarrow> ro_system \<Rightarrow> bool" where
  "requested k s \<longleftrightarrow> key_request k \<in> set (sys_requests s)
     \<or> ItemRequest (key_request k) \<in> wq_dirty (sys_queue s) \<union> wq_waiting (sys_queue s)"

definition relabelled :: "string \<Rightarrow> ro_system \<Rightarrow> bool" where
  "relabelled n s \<longleftrightarrow> (\<exists>old new. NoteUpdate old new \<in> set (sys_notes s) \<and> ns_Name new = n
     \<and> \<not> labels_DeepEqual (ns_Labels old) (ns_Labels new))"

definition served :: "lib \<Rightarrow> ro_system \<Rightarrow> string \<times> string \<Rightarrow> ResourceOverride \<Rightarrow> bool" where
  "served L s k x \<longleftrightarrow> k \<in> event_key ` set (sys_events s) \<or> requested k s \<or> relabelled (fst k) s
     \<or> (\<exists>i w. worker_at s i = Some w \<and> carries (items_of (sys_namespace_cache s)) k x w)
     \<or> (\<exists>n. items_of (sys_namespace_cache s) (fst k) = Some n \<and> up_to_date L x n)"

lemma up_to_date_label:
  "ns_label n NamespaceOptInLabelKey = ns_label n' NamespaceOptInLabelKey \<Longrightarrow> up_to_date L x n = up_to_date L x n'"
  by (simp add: up_to_date_def opt_in_says_def)

lemma served_mono:
  assumes "served L s k x" and "set (sys_events s) \<subseteq> set (sys_events s')" and "requested k s \<Longrightarrow> requested k s'"
    and "set (sys_notes s) \<subseteq> set (sys_notes s')" and "sys_namespace_cache s' = sys_namespace_cache s"
    and "sys_workers s' = sys_workers s"
  shows "served L s' k x"
proof -
  have "relabelled (fst k) s \<Longrightarrow> relabelled (fst k) s'" using assms(4) unfolding relabelled_def by blast
  moreover have "worker_at s' = worker_at s" by (simp add: worker_at_def assms(6) fun_eq_iff)
  ultimately show ?thesis using assms(1-5) unfolding served_def by auto
qed

lemma worker_set: "worker_at (set_worker i v s) j = (if i = j \<and> j < length (sys_workers s) then Some v else worker_at s j)"
  by (simp add: worker_at_def)

lemma served_carried:
  "i < length (sys_workers s) \<Longrightarrow> carries (items_of (sys_namespace_cache s)) k x v \<Longrightarrow> served L (set_worker i v s) k x"
  unfolding served_def worker_set set_worker_simps by metis

text \<open>One worker goes on.\<close>

lemma served_worker:
  assumes "served L s k x" and "worker_at s i = Some w" and "set (sys_events s) \<subseteq> set (sys_events s')"
    and "requested k s \<Longrightarrow> requested k s' \<or> carries (items_of (sys_namespace_cache s)) k x v" and "sys_notes s' = sys_notes s"
    and "sys_namespace_cache s' = sys_namespace_cache s" and "sys_workers s' = sys_workers s"
    and "carries (items_of (sys_namespace_cache s)) k x w \<Longrightarrow> served L (set_worker i v s') k x"
  shows "served L (set_worker i v s') k x"
  using assms(1) unfolding served_def [of L s]
proof (elim disjE exE conjE)
  assume "k \<in> event_key ` set (sys_events s)"
  then show ?thesis using assms(3) by (auto simp: served_def)
next
  assume "requested k s"
  with assms(4) consider "requested k s'" | "carries (items_of (sys_namespace_cache s)) k x v" by blast
  then show ?thesis
  proof cases
    case 2
    then show ?thesis using assms(2,6,7) by (auto simp: served_def worker_set worker_at_Some intro: exI [of _ i])
  qed (simp add: served_def requested_def)
next
  fix j u assume u: "worker_at s j = Some u" "carries (items_of (sys_namespace_cache s)) k x u"
  show ?thesis
  proof (cases "i = j")
    case True
    with u assms(2,8) show ?thesis by simp
  next
    case False
    with u assms(6,7) have "worker_at (set_worker i v s') j = Some u" by (simp add: worker_set worker_at_def split: if_splits)
    with u(2) assms(6) show ?thesis by (auto simp: served_def)
  qed
qed (use assms(5,6) in \<open>auto simp: served_def relabelled_def\<close>)

text \<open>The queue keeps what was requested.\<close>

lemma apply_op_requested:
  assumes "\<not> wq_shuttingDown q"
  shows "wq_dirty q \<union> wq_waiting q \<subseteq> wq_dirty (apply_op b op q) \<union> wq_waiting (apply_op b op q)"
    and "op = OpAddRateLimited x \<Longrightarrow> x \<in> wq_dirty (apply_op b op q) \<union> wq_waiting (apply_op b op q)"
  using assms
  by (cases op; auto simp: wq_Done_def wq_Forget_def wq_AddRateLimited_def wq_AddAfter_def wq_Add_def Let_def)+

section \<open>The actions\<close>

definition all_served :: "lib \<Rightarrow> ro_system \<Rightarrow> bool" where
  "all_served L s \<longleftrightarrow> (\<forall>k x. cached (sys_cache s) k = Some x \<longrightarrow> served L s k x)"

lemma served_deliver:
  assumes inv: "caches_inv s" and act: "ro_act L A True DeliverEvent s = Some (Returned s')" and all: "all_served L s"
    and x: "cached (sys_cache s') k = Some x"
  shows "served L s' k x"
proof -
  obtain e es where e: "sys_events s = e # es" using act by (auto split: list.splits)
  with inv have ok: "event_ok e" by (simp add: caches_inv_def)
  obtain c where "processDelta e False (sys_cache s) = Returned (None, c, [key_request (event_key e)])"
    "cache_inv ro_indexers c" and c: "cached c = event_effect e (cached (sys_cache s))" by (rule deliver_event_run [OF caches_inv_cache [OF inv] ok])
  with act e have s': "s' = s\<lparr>sys_events := es, sys_cache := c, sys_requests := sys_requests s @ [key_request (event_key e)]\<rparr>" by simp
  show ?thesis
  proof (cases "k = event_key e")
    case True
    then show ?thesis by (simp add: s' served_def requested_def)
  next
    case False
    with x c have "cached (sys_cache s) k = Some x" by (simp add: s' event_effect_other)
    with all have "served L s k x" unfolding all_served_def by blast
    then show ?thesis using False by (auto simp: s' e served_def requested_def relabelled_def)
  qed
qed

lemma deleted_resource:
  assumes "caches_inv s" and "server_inv s" and "cached (sys_cache s) k = Some x" and "map_of (sys_namespaces s) (fst k) = None"
  shows "k \<in> event_key ` set (sys_events s)"
proof (rule ccontr)
  assume "k \<notin> event_key ` set (sys_events s)"
  with assms(1,3) have "map_of (sys_objects s) k = Some x"
    using fold_effect_other [of k "sys_events s" "cached (sys_cache s)"] by (simp add: caches_inv_def)
  then show False using server_invD(1) [OF assms(2), of "fst k" "snd k"] assms(4) by simp
qed

lemma served_deliver_namespace:
  assumes inv: "caches_inv s" "server_inv s" and act: "ro_act L A True DeliverNamespaceEvent s = Some (Returned s')"
    and "served L s k x" and x: "cached (sys_cache s) k = Some x"
  shows "served L s' k x"
proof -
  obtain e es where e: "sys_namespace_events s = e # es" using act by (auto split: list.splits)
  let ?m = "items_of (sys_namespace_cache s)"
  from inv(1) have "store_inv (sys_namespace_cache s)" by (simp add: caches_inv_def)
  then obtain c where c: "deliver_namespace e (sys_namespace_cache s) = Returned (note_for e ?m, c)"
    "store_inv c" "items_of c = namespace_effect e ?m" by (rule deliver_namespace_run)
  have ok: "namespace_event_ok e" "\<And>n. ?m (fst k) = Some n \<Longrightarrow> namespace_ok n" using inv(1) e by (auto simp: caches_inv_def)
  from act e c have s': "s' = s\<lparr>sys_namespace_events := es, sys_namespace_cache := c, sys_notes := sys_notes s @ [note_for e ?m]\<rparr>" by simp
  have keep: "served L s' k x" if same: "\<And>n. ?m (fst k) = Some n
      \<Longrightarrow> relabelled (fst k) s' \<or> (\<exists>n'. items_of c (fst k) = Some n' \<and> ns_label n' NamespaceOptInLabelKey = ns_label n NamespaceOptInLabelKey)"
  proof -
    have "carries (items_of c) k x w" if "carries ?m k x w" "\<not> relabelled (fst k) s'" for w
      using same that by (cases w) (auto split: sum.splits)
    then have "(\<exists>i w. worker_at s i = Some w \<and> carries ?m k x w) \<Longrightarrow> served L s' k x" by (auto simp: served_def s')
    moreover have "served L s' k x" if "?m (fst k) = Some n" "up_to_date L x n" for n
      using same [OF that(1)] up_to_date_label [of _ n L x] that(2) by (auto simp: served_def s' relabelled_def)
    moreover have "relabelled (fst k) s \<Longrightarrow> served L s' k x" by (auto simp: s' served_def relabelled_def)
    moreover have "k \<in> event_key ` set (sys_events s) \<or> requested k s \<Longrightarrow> served L s' k x" by (auto simp: s' served_def requested_def)
    ultimately show ?thesis using \<open>served L s k x\<close> unfolding served_def [of L s] by blast
  qed
  show ?thesis
  proof (cases e)
    case (NamespaceDeleted n)
    show ?thesis
    proof (cases "n = fst k")
      case True
      then have "map_of (sys_namespaces s) (fst k) = None" using server_invD(2) [OF inv(2)] e NamespaceDeleted by simp
      from deleted_resource [OF inv x this] show ?thesis by (simp add: s' served_def)
    qed (use NamespaceDeleted c(3) in \<open>auto intro: keep\<close>)
  next
    case (NamespaceChanged ns)
    show ?thesis
    proof (rule keep)
      fix n assume n: "?m (fst k) = Some n"
      show "relabelled (fst k) s' \<or> (\<exists>n'. items_of c (fst k) = Some n' \<and> ns_label n' NamespaceOptInLabelKey = ns_label n NamespaceOptInLabelKey)"
      proof (cases "ns_Name ns = fst k \<and> labels_DeepEqual (ns_Labels n) (ns_Labels ns)")
        case True
        then have "ns_label n NamespaceOptInLabelKey = ns_label ns NamespaceOptInLabelKey"
          using ok(2) [OF n] ok(1) NamespaceChanged by (intro labels_DeepEqual_label) (auto simp: namespace_ok_def)
        then show ?thesis using True c(3) NamespaceChanged by auto
      next
        case False
        then show ?thesis using n c(3) NamespaceChanged
          by (cases "ns_Name ns = fst k") (simp_all add: s' relabelled_def, blast)
      qed
    qed
  qed
qed

lemma served_note:
  assumes inv: "caches_inv s" and act: "ro_act L A True HandleNote s = Some (Returned s')"
    and "served L s k x" and x: "cached (sys_cache s) k = Some x"
  shows "served L s' k x"
proof -
  obtain d rest where n: "sys_notes s = d # rest" using act by (auto split: list.splits)
  with act have s': "s' = s\<lparr>sys_notes := rest, sys_requests := sys_requests s @ handle_note A d s\<rparr>" by simp
  have "key_request k \<in> set (handle_note A d s)"
    if upd: "d = NoteUpdate old new" "ns_Name new = fst k" "\<not> labels_DeepEqual (ns_Labels old) (ns_Labels new)" for old new
  proof -
    have new: "namespace_ok new" and ci: "cache_inv ro_indexers (sys_cache s)"
      using inv n upd(1) by (simp_all add: caches_inv_def)
    note rk = cached_object(1) [OF inv x]
    have "namespace_OnUpdate (lister_api A) (WatchedNamespace old) (WatchedNamespace new) s
        = namespace_OnUpdate (A\<lparr>api_RO_List := \<lambda>ns w. (lister_List (sys_cache s) ns, w)\<rparr>)
            (WatchedNamespace old) (WatchedNamespace new) s"
      by (simp add: namespace_OnUpdate_def lister_api_def)
    moreover have "ns_Name new \<noteq> []" "CHR ''/'' \<notin> set (ns_Name new)" using new by (simp_all add: namespace_ok_def)
    ultimately obtain reqs where call: "namespace_OnUpdate (lister_api A) (WatchedNamespace old) (WatchedNamespace new) s = (reqs, s)"
      and "set reqs = request_for ` {x. \<exists>n. cached (sys_cache s) (ns_Name new, n) = Some x}"
      using namespace_OnUpdate_cached [OF ci _ _ upd(3), of A s] by metis
    moreover have "key_request k = request_for x" using rk by (auto simp: request_for_def key_request_def)
    moreover have "cached (sys_cache s) (ns_Name new, snd k) = Some x" using x upd(2) by simp
    ultimately have "key_request k \<in> set reqs" by blast
    with call show ?thesis by (simp add: handle_note_def upd(1))
  qed
  then have "relabelled (fst k) s \<Longrightarrow> relabelled (fst k) s' \<or> requested k s'" by (auto simp: relabelled_def requested_def s' n)
  moreover have "requested k s \<Longrightarrow> requested k s'" by (auto simp: requested_def s')
  ultimately show ?thesis using \<open>served L s k x\<close> by (auto simp: served_def s')
qed

lemma served_finish:
  assumes inv: "caches_inv s" and x: "cached (sys_cache s) k = Some x" and w: "worker_at s i = Some (ReadNamespace req y r)"
    and carries: "carries (items_of (sys_namespace_cache s)) k x (ReadNamespace req y r)"
    and fin: "finish L A i answer tick req (Inr y) r s = Returned s'"
  shows "served L s' k x"
proof -
  from carries have y: "y = x" "req = key_request k" by simp_all
  obtain err s0 where run: "RO_Reconcile L (sys_api A answer tick (Inr x) r) req s = (Returned (empty_Result, err), s0)"
    using RO_Reconcile_returns [of L _ req s] by (metis prod.exhaust_sel)
  with fin y have s': "s' = set_worker i (Finishing (ItemRequest req) (item_ops (ItemRequest req) empty_Result err)) s0"
    by (simp add: finish_def)
  have i: "i < length (sys_workers s)" using w by (simp add: worker_at_Some)
  have retry: "served L s' k x" if "err \<noteq> None" "sys_workers s0 = sys_workers s"
  proof -
    have "carries m k x (Finishing (ItemRequest req) (item_ops (ItemRequest req) empty_Result err))" for m
      using that(1) y(2) by (auto simp: item_ops_def worker_after_def)
    then show ?thesis unfolding served_def s' worker_set using i that(2) by auto
  qed
  note k = cached_object [OF inv x]
  from run show ?thesis
  proof (cases rule: reconcile_read)
    case (failed e t)
    then show ?thesis by (intro retry) auto
  next
    case (unchanged n t)
    with carries up_to_date_label [of n _ L x] show ?thesis by (auto simp: served_def s')
  next
    case (sent n obj t err')
    then have key: "(namespace_of x, name_of obj) = k" using k by auto
    from sent(7) show ?thesis
    proof (cases rule: UpdateStatus_cases)
      case nothing
      then show ?thesis using sent(8) by (intro retry) auto
    next
      case (there stored)
      with key sent(6) have "map_of (sys_objects s) k \<noteq> Some x" by auto
      then have "k \<in> event_key ` set (sys_events s)"
        using inv x fold_effect_other [of k "sys_events s" "cached (sys_cache s)"] by (auto simp: caches_inv_def)
      then show ?thesis using there(1) by (auto simp: served_def s')
    next
      case (put stored v)
      with key have "ro_key stored = k" using server_object(1) [OF inv, of k stored] by simp
      then show ?thesis using put(2) by (auto simp: served_def s')
    qed
  qed
qed

lemma served_act:
  assumes queue: "queue_inv s" and inv: "caches_inv s" "server_inv s" and all: "all_served L s"
    and act: "ro_act L A True a s = Some (Returned s')"
  shows "all_served L s'"
  unfolding all_served_def
proof (intro allI impI)
  fix k x assume x: "cached (sys_cache s') k = Some x"
  from queue have open_queue: "\<not> wq_shuttingDown (sys_queue s)" by (simp add: queue_inv_def)
  have sv: "served L s k x" if "cached (sys_cache s) k = Some x" using that all unfolding all_served_def by blast
  show "served L s' k x"
  proof (cases a)
    case DeliverEvent
    from served_deliver [OF inv(1) act [unfolded DeliverEvent] all x] show ?thesis .
  next
    case DeliverNamespaceEvent
    with act have "sys_cache s' = sys_cache s" by (auto split: list.splits prod.splits outcome.splits)
    then show ?thesis using served_deliver_namespace [OF inv act [unfolded DeliverNamespaceEvent] sv] x by simp
  next
    case HandleNote
    with act have "sys_cache s' = sys_cache s" by (auto split: list.splits)
    then show ?thesis using served_note [OF inv(1) act [unfolded HandleNote] sv] x by simp
  next
    case (EnqueueRequest j)
    then have j: "j < length (sys_requests s)" and s': "s' = s\<lparr>sys_queue := wq_Add (ItemRequest (sys_requests s ! j)) (sys_queue s),
        sys_requests := take j (sys_requests s) @ drop (Suc j) (sys_requests s)\<rparr>" using act by (auto split: if_splits)
    have "set (sys_requests s) = insert (sys_requests s ! j) (set (sys_requests s'))"
      using arg_cong [OF id_take_nth_drop [OF j], of set] by (simp add: s')
    then have "requested k s \<Longrightarrow> requested k s'"
      using open_queue by (auto simp: requested_def s' wq_Add_def Let_def)
    then show ?thesis using x by (intro served_mono [OF sv]) (auto simp: s')
  next
    case (TakeItem i)
    then obtain it q where w: "worker_at s i = Some Waiting" and get: "wq_Get (sys_queue s) = Some (Some it, q)"
      and s': "s' = set_worker i (case it of ItemRequest req \<Rightarrow> Taken req
        | ItemOther v \<Rightarrow> Finishing it (item_ops it empty_Result (None :: error option))) (s\<lparr>sys_queue := q\<rparr>)"
      using act by (auto split: option.splits ro_worker.splits prod.splits item.splits)
    from get have "wq_dirty q = wq_dirty (sys_queue s) - {it}" "wq_waiting q = wq_waiting (sys_queue s)"
      by (auto simp: wq_Get_def split: list.splits if_splits)
    then have taken: "requested k s \<Longrightarrow> requested k (s\<lparr>sys_queue := q\<rparr>) \<or> it = ItemRequest (key_request k)"
      by (auto simp: requested_def)
    from x have x: "cached (sys_cache s) k = Some x" by (simp add: s')
    show ?thesis unfolding s'
    proof (rule served_worker [OF sv [OF x] w])
      assume "requested k s"
      from taken [OF this] show "requested k (s\<lparr>sys_queue := q\<rparr>) \<or> carries (items_of (sys_namespace_cache s)) k x
          (case it of ItemRequest req \<Rightarrow> Taken req | ItemOther v \<Rightarrow> Finishing it (item_ops it empty_Result (None :: error option)))" by auto
    qed simp_all
  next
    case (ReadTheObject i)
    then obtain req where w: "worker_at s i = Some (Taken req)"
      and s': "s' = set_worker i (ReadObject req
       (ResourceIndexer_Get (ResourceOverrides NewResourceOverrideLister (req_Namespace req)) (sys_cache s) (req_Name req))) s"
      using act by (auto split: option.splits ro_worker.splits)
    with x have x: "cached (sys_cache s) k = Some x" by simp
    have "ResourceIndexer_Get (ResourceOverrides NewResourceOverrideLister (fst k)) (sys_cache s) (snd k) = Inr x"
      using cached_object [OF inv(1) x] x
      by (subst ResourceIndexer_Get_cached) (auto simp: resource_ok_def plain_names_def ResourceOverrides_def ResourceIndexer_NewNamespaced_def)
    then have "carries m k x (Taken req) \<Longrightarrow> carries m k x (ReadObject req
        (ResourceIndexer_Get (ResourceOverrides NewResourceOverrideLister (req_Namespace req)) (sys_cache s) (req_Name req)))"
      (is "carries m k x ?w \<Longrightarrow> carries m k x ?v") for m by (simp add: key_request_def)
    then have "served L (set_worker i ?v s) k x" if "carries (items_of (sys_namespace_cache s)) k x ?w"
      using w that by (intro served_carried) (simp_all add: worker_at_Some)
    then show ?thesis unfolding s' by (rule served_worker [OF sv [OF x] w, rotated -1]) simp_all
  next
    case (ReadTheNamespace i)
    then obtain req y where w: "worker_at s i = Some (ReadObject req (Inr y))"
      and s': "s' = set_worker i (ReadNamespace req y (NamespaceLister_Get (namespace_of y) (sys_namespace_cache s))) s"
      using act by (auto split: option.splits ro_worker.splits sum.splits)
    with x have x: "cached (sys_cache s) k = Some x" by simp
    have "namespace_of x = fst k" using cached_object(1) [OF inv(1) x] by auto
    then have "carries (items_of (sys_namespace_cache s)) k x (ReadObject req (Inr y)) \<Longrightarrow> carries (items_of (sys_namespace_cache s)) k x
        (ReadNamespace req y (NamespaceLister_Get (namespace_of y) (sys_namespace_cache s)))" (is "carries ?m k x ?w \<Longrightarrow> carries ?m k x ?v")
      by (auto simp: NamespaceLister_Get_def store_Get_def split: option.splits)
    then have "served L (set_worker i ?v s) k x" if "carries (items_of (sys_namespace_cache s)) k x ?w"
      using w that by (intro served_carried) (simp_all add: worker_at_Some)
    then show ?thesis unfolding s' by (rule served_worker [OF sv [OF x] w, rotated -1]) simp_all
  next
    case (Finish i answer tick)
    then obtain w req ro ns where w: "worker_at s i = Some w" and fin: "finish L A i answer tick req ro ns s = Returned s'"
      and reads: "(\<exists>err. w = ReadObject req (Inl err)) \<or> (\<exists>y. w = ReadNamespace req y ns \<and> ro = Inr y)"
      using act by (auto split: option.splits ro_worker.splits sum.splits)
    obtain s0 t ops where "finish L A i answer tick req ro ns s = Returned (set_worker i (Finishing (ItemRequest req) ops) s0)"
      and "ends_with_done (ItemRequest req) ops"
      and s0: "s0 = s\<lparr>sys_clock := t\<rparr> \<or> (\<exists>stored obj v k. map_of (sys_objects s) k = Some stored
        \<and> s0 = put_resource (with_status obj v stored) (s\<lparr>sys_clock := t\<rparr>))" by (rule finish_effect)
    with fin have s': "s' = set_worker i (Finishing (ItemRequest req) ops) s0" by simp
    have same: "sys_cache s0 = sys_cache s" "set (sys_events s) \<subseteq> set (sys_events s0)" "requested k s \<Longrightarrow> requested k s0"
      "sys_notes s0 = sys_notes s" "sys_namespace_cache s0 = sys_namespace_cache s" "sys_workers s0 = sys_workers s"
      using s0 by (auto simp: requested_def)
    from x have x: "cached (sys_cache s) k = Some x" by (simp add: s' same(1))
    show ?thesis unfolding s'
    proof (rule served_worker [OF sv [OF x] w])
      assume "carries (items_of (sys_namespace_cache s)) k x w"
      with served_finish [OF inv(1) x, of i req _ ns] reads w fin
      show "served L (set_worker i (Finishing (ItemRequest req) ops) s0) k x" unfolding s' by auto
    qed (use same in auto)
  next
    case (PerformOp i bucket)
    then obtain it op ops where w: "worker_at s i = Some (Finishing it (op # ops))"
      and s': "s' = set_worker i (if ops = [] then Waiting else Finishing it ops) (s\<lparr>sys_queue := apply_op bucket op (sys_queue s)\<rparr>)"
      using act by (auto split: option.splits ro_worker.splits list.splits)
    note q = apply_op_requested [OF open_queue, where b = bucket and op = op]
    from x have x: "cached (sys_cache s) k = Some x" by (simp add: s')
    have i: "i < length (sys_workers s)" using w by (simp add: worker_at_Some)
    show ?thesis unfolding s'
    proof (rule served_worker [OF sv [OF x] w])
      assume c: "carries (items_of (sys_namespace_cache s)) k x (Finishing it (op # ops))"
      show "served L (set_worker i (if ops = [] then Waiting else Finishing it ops) (s\<lparr>sys_queue := apply_op bucket op (sys_queue s)\<rparr>)) k x"
      proof (cases "op = OpAddRateLimited it")
        case True
        with q(2) c show ?thesis by (auto simp: served_def requested_def)
      next
        case False
        with c have "OpAddRateLimited it \<in> set ops" "ops \<noteq> []" by auto
        with c i show ?thesis by (intro served_carried) simp_all
      qed
    qed (use q(1) in \<open>auto simp: requested_def\<close>)
  next
    case (FireItem it)
    then show ?thesis using x act open_queue
      by (intro served_mono [OF sv]) (auto simp: requested_def wq_fire_def wq_Add_def Let_def split: if_splits)
  qed (use x act in \<open>auto intro!: served_mono [OF sv] simp: requested_def split: if_splits option.splits\<close>)
qed

section \<open>Runs\<close>

definition sys_inv :: "lib \<Rightarrow> ro_system \<Rightarrow> bool" where
  "sys_inv L s \<longleftrightarrow> queue_inv s \<and> caches_inv s \<and> server_inv s \<and> all_served L s"

lemma sys_inv_init: "sys_inv L (sys_init n)"
proof -
  have "ctl_inv (ctl_init n)" by (rule ctl_reachable_inv [OF ctl_reachable.init])
  then have "queue_inv (sys_init n)"
    by (simp add: queue_inv_def abs_ctl_def sys_init_def ctl_init_def wq_new_def map_replicate)
  moreover have "store_inv namespace_indexer"
    unfolding namespace_indexer_def
    by (rule NewThreadSafeStore_inv) (auto simp: index_func_total_def split: interface.splits)
  moreover have "items_of namespace_indexer = Map.empty"
    by (simp add: namespace_indexer_def NewThreadSafeStore_def)
  ultimately show ?thesis
    using indexers_inv(3,4) by (simp add: sys_inv_def caches_inv_def server_inv_def all_served_def sys_init_def)
qed

lemma sys_inv_act:
  assumes "sys_inv L s" and act: "ro_act L A True a s = Some r"
  obtains s' where "r = Returned s'" and "sys_inv L s'"
proof -
  have inv: "queue_inv s" "caches_inv s" "server_inv s" "all_served L s" using assms(1) by (simp_all add: sys_inv_def)
  from caches_inv_act [OF inv(2) act] obtain s' where r: "r = Returned s'" "caches_inv s'" by blast
  note step = act [unfolded r(1)]
  have "sys_inv L s'"
    using r(2) queue_inv_act [OF inv(1) step] server_inv_act [OF inv(2,3) step] served_act [OF inv step] by (simp add: sys_inv_def)
  with r(1) show thesis by (rule that)
qed

lemma sys_inv_run:
  assumes "sys_inv L s" and "ro_run L A True acts s = Some r"
  shows "\<exists>s'. r = Returned s' \<and> sys_inv L s'"
  using assms
proof (induction acts arbitrary: s)
  case (Cons a acts)
  from Cons.prems(2) obtain r1 where act: "ro_act L A True a s = Some r1" by (auto split: option.splits)
  obtain s1 where "r1 = Returned s1" "sys_inv L s1" by (rule sys_inv_act [OF Cons.prems(1) act])
  with act Cons show ?case by simp
qed auto

text \<open>With nothing on its way, the status of everything on the server is up to date.\<close>

lemma settled_up_to_date:
  assumes "sys_inv L s" and "settled_system s" and x: "map_of (sys_objects s) k = Some x"
  shows "\<exists>ns. map_of (sys_namespaces s) (fst k) = Some ns \<and> up_to_date L x ns"
proof -
  have inv: "caches_inv s" "all_served L s" using assms(1) by (simp_all add: sys_inv_def)
  have quiet: "sys_events s = []" "sys_namespace_events s = []" "sys_requests s = []" "sys_notes s = []"
    "wq_queue (sys_queue s) = []" "wq_waiting (sys_queue s) = {}" and idle: "\<And>w. w \<in> set (sys_workers s) \<Longrightarrow> w = Waiting"
    using assms(2) by (auto simp: settled_system_def list_all_iff)
  have caches: "cached (sys_cache s) = map_of (sys_objects s)" "items_of (sys_namespace_cache s) = map_of (sys_namespaces s)"
    using inv(1) quiet by (simp_all add: caches_inv_def)
  with x have "cached (sys_cache s) k = Some x" by simp
  then have sv: "served L s k x" using inv(2) unfolding all_served_def by blast
  have inv_ctl: "ctl_inv (abs_ctl s)" using assms(1) by (simp add: sys_inv_def queue_inv_def)
  have "\<not> holds (abs_ctl s) i y" for i y
    using idle [OF nth_mem, of i] by (auto simp: holds_def abs_ctl_def)
  then have "wq_processing (sys_queue s) = {}" using ctl_inv_processing [OF inv_ctl] by (auto simp: abs_ctl_def)
  then have "wq_dirty (sys_queue s) = {}"
    using inv_ctl quiet by (auto simp: ctl_inv_def abs_ctl_def wq_inv_def)
  moreover have "\<not> carries m k x w" if "worker_at s i = Some w" for m i w
    using that idle [OF nth_mem, of i] by (auto simp: worker_at_Some)
  ultimately show ?thesis
    using sv quiet by (auto simp: served_def requested_def relabelled_def caches)
qed

end
