(* ===== verification/ROLive.thy ===== *)
theory ROLive
  imports ROServed
begin

text \<open>
  The running ResourceOverride controller makes progress: whatever has happened, if the environment does
  nothing more and the server answers, the controller's own actions lead to a state in which nothing is left
  to do, with the specs and the namespaces as they were.
\<close>

section \<open>What the controller can do alone\<close>

fun controller_action :: "ro_action \<Rightarrow> bool" where
  "controller_action (Finish i answer tick) = (case answer of Store v \<Rightarrow> True | _ \<Rightarrow> False)"
| "controller_action a = (a \<in> {DeliverEvent, DeliverNamespaceEvent, HandleNote}
     \<or> (\<exists>i x b. a \<in> {EnqueueRequest i, TakeItem i, ReadTheObject i, ReadTheNamespace i, PerformOp i b, FireItem x}))"

definition reaches :: "lib \<Rightarrow> ro_system api \<Rightarrow> ro_system \<Rightarrow> ro_system \<Rightarrow> bool" where
  "reaches L A s s' \<longleftrightarrow> (\<exists>acts. list_all controller_action acts \<and> ro_run L A True acts s = Some (Returned s'))"

definition same_inputs :: "ro_system \<Rightarrow> ro_system \<Rightarrow> bool" where
  "same_inputs s s' \<longleftrightarrow> sys_namespaces s' = sys_namespaces s \<and> length (sys_workers s') = length (sys_workers s)
     \<and> (\<forall>k. map_option ro_Spec (map_of (sys_objects s') k) = map_option ro_Spec (map_of (sys_objects s) k))"

lemma ro_run_append:
  "ro_run L A seen as s = Some (Returned s1) \<Longrightarrow> ro_run L A seen (as @ bs) s = ro_run L A seen bs s1"
  by (induction as arbitrary: s) (auto split: option.splits outcome.splits)

lemma reaches_refl [simp]: "reaches L A s s"
  unfolding reaches_def by (intro exI [of _ "[]"]) simp

lemma reaches_trans:
  assumes "reaches L A s s1" and "reaches L A s1 s2"
  shows "reaches L A s s2"
proof -
  from assms obtain as bs where "list_all controller_action as" "ro_run L A True as s = Some (Returned s1)"
    "list_all controller_action bs" "ro_run L A True bs s1 = Some (Returned s2)" unfolding reaches_def by blast
  then show ?thesis unfolding reaches_def by (intro exI [of _ "as @ bs"]) (simp add: ro_run_append)
qed

lemma reaches_step:
  assumes "ro_act L A True a s = Some (Returned s')" and "controller_action a"
  shows "reaches L A s s'"
  unfolding reaches_def using assms by (intro exI [of _ "[a]"]) simp

text \<open>Progress by a measure.\<close>

lemma reaches_goal:
  assumes "wf R" and "I s" and step: "\<And>s. I s \<Longrightarrow> \<not> G s \<Longrightarrow> \<exists>s'. reaches L A s s' \<and> I s' \<and> (s', s) \<in> R"
  shows "\<exists>s'. reaches L A s s' \<and> I s' \<and> G s'"
  using assms(1,2)
proof (induction s rule: wf_induct_rule)
  case (less s)
  show ?case
  proof (cases "G s")
    case True
    with less.prems show ?thesis using reaches_refl by blast
  next
    case False
    from step [OF less.prems this] obtain s1 where "reaches L A s s1" "I s1" "(s1, s) \<in> R" by blast
    moreover from less.IH [OF this(3,2)] obtain s2 where "reaches L A s1 s2" "I s2" "G s2" by blast
    ultimately show ?thesis using reaches_trans by blast
  qed
qed

lemma same_inputs_simps: "same_inputs s s" "same_inputs s s1 \<Longrightarrow> same_inputs s1 s2 \<Longrightarrow> same_inputs s s2"
  by (simp_all add: same_inputs_def)

lemma same_inputs_fields:
  "sys_namespaces s' = sys_namespaces s \<Longrightarrow> length (sys_workers s') = length (sys_workers s) \<Longrightarrow> sys_objects s' = sys_objects s
    \<Longrightarrow> same_inputs s s'"
  by (simp add: same_inputs_def)

lemma controller_inputs:
  assumes "caches_inv s" and "controller_action a" and act: "ro_act L A True a s = Some (Returned s')"
  shows "same_inputs s s'"
proof (cases a)
  case (Finish i answer tick)
  then obtain req ro ns where "finish L A i answer tick req ro ns s = Returned s'"
    using act by (auto split: option.splits ro_worker.splits sum.splits)
  moreover obtain s0 t ops where "finish L A i answer tick req ro ns s = Returned (set_worker i (Finishing (ItemRequest req) ops) s0)"
    and "ends_with_done (ItemRequest req) ops"
    and s0: "s0 = s\<lparr>sys_clock := t\<rparr> \<or> (\<exists>stored obj v k. map_of (sys_objects s) k = Some stored
      \<and> s0 = put_resource (with_status obj v stored) (s\<lparr>sys_clock := t\<rparr>))" by (rule finish_effect)
  ultimately have s': "s' = set_worker i (Finishing (ItemRequest req) ops) s0" by simp
  from s0 have "same_inputs s s0"
  proof (elim disjE exE conjE)
    fix stored obj v k assume "map_of (sys_objects s) k = Some stored" "s0 = put_resource (with_status obj v stored) (s\<lparr>sys_clock := t\<rparr>)"
    with server_object(1) [OF assms(1) this(1)] show ?thesis by (auto simp: same_inputs_def update_conv')
  qed (simp add: same_inputs_def)
  then show ?thesis by (simp add: s' same_inputs_def)
qed (use act assms(2) in \<open>auto simp: same_inputs_def split: if_splits option.splits ro_worker.splits sum.splits prod.splits item.splits list.splits outcome.splits\<close>)

lemma reaches_keeps:
  assumes "sys_inv L s" and "reaches L A s s'"
  shows "sys_inv L s' \<and> same_inputs s s'"
proof -
  from assms(2) obtain acts where "list_all controller_action acts" "ro_run L A True acts s = Some (Returned s')"
    unfolding reaches_def by blast
  then show ?thesis using assms(1)
  proof (induction acts arbitrary: s)
    case (Cons a acts)
    from Cons.prems(2) obtain r where act: "ro_act L A True a s = Some r" by (auto split: option.splits)
    obtain s1 where r: "r = Returned s1" and s1: "sys_inv L s1" by (rule sys_inv_act [OF Cons.prems(3) act])
    with act Cons.prems have "ro_run L A True acts s1 = Some (Returned s')" "list_all controller_action acts" "controller_action a"
      by simp_all
    moreover have "same_inputs s s1"
      using Cons.prems(3) calculation(3) act r by (intro controller_inputs) (auto simp: sys_inv_def)
    ultimately show ?case using Cons.IH [of s1] s1 same_inputs_simps(2) by blast
  qed (simp add: same_inputs_simps)
qed

text \<open>One action that the controller can take.\<close>

lemma reaches_act:
  assumes "sys_inv L s" and "ro_act L A True a s = Some r" and "controller_action a"
  obtains s' where "r = Returned s'" and "reaches L A s s'" and "sys_inv L s'"
proof -
  obtain s' where "r = Returned s'" "sys_inv L s'" by (rule sys_inv_act [OF assms(1,2)])
  with that reaches_step assms(2,3) show thesis by blast
qed

section \<open>The workers come to an end\<close>

fun work_left :: "ro_worker \<Rightarrow> nat" where
  "work_left Waiting = 0" | "work_left (Taken req) = 6" | "work_left (ReadObject req ro) = 5"
| "work_left (ReadNamespace req x ns) = 4" | "work_left (Finishing x ops) = length ops"

lemma item_ops_length: "length (item_ops x result err) \<le> 3"
  by (cases x) (simp_all add: item_ops_def worker_after_def Let_def)

lemma work_left_less:
  assumes "worker_at s i = Some w" and "sys_workers s' = (sys_workers s)[i := v]" and "work_left v < work_left w"
  shows "sum_list (map work_left (sys_workers s')) < sum_list (map work_left (sys_workers s))"
proof -
  have i: "i < length (map work_left (sys_workers s))" "map work_left (sys_workers s) ! i = work_left w"
    using assms(1) by (auto simp: worker_at_Some)
  have "work_left w \<le> sum_list (map work_left (sys_workers s))"
    using elem_le_sum_list [OF i(1)] i(2) by simp
  then show ?thesis using assms(2,3) sum_list_update [OF i(1), of "work_left v"] i(2) by (simp add: map_update)
qed

lemma finish_work:
  assumes "finish L A i answer tick req ro ns s = Returned s'"
  shows "\<exists>ops. sys_workers s' = (sys_workers s)[i := Finishing (ItemRequest req) ops] \<and> length ops \<le> 3"
proof -
  obtain err s0 where run: "RO_Reconcile L (sys_api A answer tick ro ns) req s = (Returned (empty_Result, err), s0)"
    using RO_Reconcile_returns [of L _ req s] by (metis prod.exhaust_sel)
  then have "sys_workers s0 = sys_workers s" by (rule reconcile_effect) simp_all
  moreover have "s' = set_worker i (Finishing (ItemRequest req) (item_ops (ItemRequest req) empty_Result err)) s0"
    using assms run by (simp add: finish_def)
  ultimately show ?thesis using item_ops_length by auto
qed

lemma busy_worker_works:
  assumes "sys_inv L s" and w: "worker_at s i = Some w" and "w \<noteq> Waiting"
  shows "\<exists>a s' v. ro_act L A True a s = Some (Returned s') \<and> controller_action a
    \<and> sys_workers s' = (sys_workers s)[i := v] \<and> work_left v < work_left w"
proof (cases w)
  case (Taken req)
  with w show ?thesis by (intro exI [of _ "ReadTheObject i"]) (simp, fastforce)
next
  case (ReadObject req ro)
  show ?thesis
  proof (cases ro)
    case (Inl err)
    with w ReadObject have act: "ro_act L A True (Finish i (Store []) 0) s = Some (finish L A i (Store []) 0 req (Inl err) (Inl err) s)"
      by simp
    obtain s' where "finish L A i (Store []) 0 req (Inl err) (Inl err) s = Returned s'" "sys_inv L s'" by (rule sys_inv_act [OF assms(1) act])
    with act finish_work [OF this(1)] ReadObject show ?thesis by (intro exI [of _ "Finish i (Store []) 0"]) fastforce
  next
    case (Inr x)
    with w ReadObject show ?thesis by (intro exI [of _ "ReadTheNamespace i"]) (simp, fastforce)
  qed
next
  case (ReadNamespace req x ns)
  with w have act: "ro_act L A True (Finish i (Store []) 0) s = Some (finish L A i (Store []) 0 req (Inr x) ns s)" by simp
  obtain s' where "finish L A i (Store []) 0 req (Inr x) ns s = Returned s'" "sys_inv L s'" by (rule sys_inv_act [OF assms(1) act])
  with act finish_work [OF this(1)] ReadNamespace show ?thesis by (intro exI [of _ "Finish i (Store []) 0"]) fastforce
next
  case (Finishing x ops)
  have "ctl_inv (abs_ctl s)" using assms(1) by (simp add: sys_inv_def queue_inv_def)
  moreover have "i < length (ctl_workers (abs_ctl s))" "ctl_workers (abs_ctl s) ! i = Busy x ops"
    using w Finishing by (auto simp: worker_at_Some abs_ctl_def)
  ultimately have "ends_with_done x ops" unfolding ctl_inv_def by blast
  then obtain op ops' where "ops = op # ops'" by (cases ops) (auto simp: ends_with_done_def)
  with w Finishing show ?thesis
    by (intro exI [of _ "PerformOp i 0"]) (simp, fastforce)
qed (use assms(3) in simp)

definition idle_system :: "ro_system \<Rightarrow> bool" where
  "idle_system s \<longleftrightarrow> list_all (\<lambda>w. w = Waiting) (sys_workers s)"

lemma reaches_idle:
  assumes "sys_inv L s"
  shows "\<exists>s'. reaches L A s s' \<and> sys_inv L s' \<and> idle_system s'"
proof (rule reaches_goal [where R = "measure (\<lambda>s. sum_list (map work_left (sys_workers s)))"])
  fix s assume s: "sys_inv L s" "\<not> idle_system s"
  then obtain w where "w \<in> set (sys_workers s)" "w \<noteq> Waiting" by (auto simp: idle_system_def list_all_iff)
  then obtain i where w: "worker_at s i = Some w" "w \<noteq> Waiting" by (auto simp: worker_at_Some in_set_conv_nth)
  from busy_worker_works [OF s(1) this] obtain a s' v where act: "ro_act L A True a s = Some (Returned s')" "controller_action a"
    "sys_workers s' = (sys_workers s)[i := v]" "work_left v < work_left w" by blast
  have "reaches L A s s'" using act(1,2) by (rule reaches_step)
  with reaches_keeps [OF s(1)] work_left_less [OF w(1) act(3,4)]
  show "\<exists>s'. reaches L A s s' \<and> sys_inv L s' \<and> (s', s) \<in> measure (\<lambda>s. sum_list (map work_left (sys_workers s)))" by auto
qed (use assms in auto)

section \<open>Everything pending reaches the queue\<close>

definition drained :: "ro_system \<Rightarrow> bool" where
  "drained s \<longleftrightarrow> sys_events s = [] \<and> sys_namespace_events s = [] \<and> sys_requests s = [] \<and> sys_notes s = []
     \<and> wq_waiting (sys_queue s) = {}"

definition resting :: "((string \<times> string) \<times> ResourceOverride) list \<Rightarrow> lib \<Rightarrow> ro_system \<Rightarrow> bool" where
  "resting objects L s \<longleftrightarrow> sys_inv L s \<and> idle_system s \<and> sys_objects s = objects"

abbreviation pending_order :: "(ro_system \<times> ro_system) set" where
  "pending_order \<equiv> measures [\<lambda>s. length (sys_namespace_events s), \<lambda>s. length (sys_notes s), \<lambda>s. length (sys_events s),
     \<lambda>s. length (sys_requests s), \<lambda>s. card (wq_waiting (sys_queue s))]"

text \<open>An action that is possible and leaves the workers and the server alone.\<close>

lemma drain_step:
  assumes "resting objects L s" and "ro_act L A True a s = Some r" and "controller_action a"
    and "\<And>s'. r = Returned s' \<Longrightarrow> sys_workers s' = sys_workers s \<and> sys_objects s' = sys_objects s \<and> (s', s) \<in> R"
  shows "\<exists>s'. reaches L A s s' \<and> resting objects L s' \<and> (s', s) \<in> R"
proof -
  have "sys_inv L s" using assms(1) by (simp add: resting_def)
  then obtain s' where s': "r = Returned s'" "reaches L A s s'" "sys_inv L s'" by (rule reaches_act [OF _ assms(2,3)])
  note frame = assms(4) [OF s'(1)]
  have "resting objects L s'" using assms(1) s'(3) frame by (simp add: resting_def idle_system_def)
  with s'(2) frame show ?thesis by blast
qed

lemma reaches_drained:
  assumes "resting objects L s"
  shows "\<exists>s'. reaches L A s s' \<and> resting objects L s' \<and> drained s'"
proof (rule reaches_goal [where R = pending_order])
  fix s assume s: "resting objects L s" "\<not> drained s"
  then have fin: "finite (wq_waiting (sys_queue s))" by (simp add: resting_def sys_inv_def queue_inv_def)
  show "\<exists>s'. reaches L A s s' \<and> resting objects L s' \<and> (s', s) \<in> pending_order"
  proof (cases "sys_namespace_events s")
    case (Cons e es)
    then have "ro_act L A True DeliverNamespaceEvent s = Some (outcome_bind (deliver_namespace e (sys_namespace_cache s)) (\<lambda>(note, c).
       Returned (s\<lparr>sys_namespace_events := es, sys_namespace_cache := c, sys_notes := sys_notes s @ [note]\<rparr>)))" by simp
    then show ?thesis by (rule drain_step [OF s(1)]) (auto simp: Cons)
  next
    case nil1: Nil
    show ?thesis
    proof (cases "sys_notes s")
      case (Cons d ds)
      then have "ro_act L A True HandleNote s
          = Some (Returned (s\<lparr>sys_notes := ds, sys_requests := sys_requests s @ handle_note A d s\<rparr>))" by simp
      then show ?thesis by (rule drain_step [OF s(1)]) (auto simp: Cons nil1)
    next
      case nil2: Nil
      show ?thesis
      proof (cases "sys_events s")
        case (Cons e es)
        then have "ro_act L A True DeliverEvent s = Some (outcome_bind (processDelta e False (sys_cache s)) (\<lambda>(err, c, reqs).
          Returned (s\<lparr>sys_events := es, sys_cache := c, sys_requests := sys_requests s @ reqs\<rparr>)))" by simp
        then show ?thesis by (rule drain_step [OF s(1)]) (auto simp: Cons nil1 nil2)
      next
        case nil3: Nil
        show ?thesis
        proof (cases "sys_requests s")
          case (Cons r rs)
          then have "ro_act L A True (EnqueueRequest 0) s
            = Some (Returned (s\<lparr>sys_queue := wq_Add (ItemRequest r) (sys_queue s), sys_requests := rs\<rparr>))" by simp
          then show ?thesis by (rule drain_step [OF s(1)]) (auto simp: Cons nil1 nil2 nil3)
        next
          case nil4: Nil
          with s(2) nil1 nil2 nil3 obtain x where x: "x \<in> wq_waiting (sys_queue s)" by (auto simp: drained_def)
          then have act: "ro_act L A True (FireItem x) s = Some (Returned (s\<lparr>sys_queue := wq_fire x (sys_queue s)\<rparr>))" by simp
          have "\<not> wq_shuttingDown (sys_queue s)" using s(1) by (simp add: resting_def sys_inv_def queue_inv_def)
          then have "card (wq_waiting (wq_fire x (sys_queue s))) < card (wq_waiting (sys_queue s))"
            using card_Diff1_less [OF fin x] by (simp add: wq_fire_def)
          then show ?thesis by (intro drain_step [OF s(1) act]) (auto simp: nil1 nil2 nil3 nil4)
        qed
      qed
    qed
  qed
qed (use assms in auto)

section \<open>One item\<close>

text \<open>The resources whose status is not what the spec and the label say.\<close>

definition stale :: "lib \<Rightarrow> ro_system \<Rightarrow> (string \<times> string) set" where
  "stale L s = {k. \<exists>x. map_of (sys_objects s) k = Some x
     \<and> \<not> (\<exists>ns. map_of (sys_namespaces s) (fst k) = Some ns \<and> up_to_date L x ns)}"

lemma finite_stale: "finite (stale L s)"
  by (rule finite_subset [OF _ finite_dom_map_of [of "sys_objects s"]]) (auto simp: stale_def)

text \<open>With everything delivered, the caches are the server.\<close>

lemma drained_caches:
  assumes "sys_inv L s" and "drained s"
  shows "cached (sys_cache s) = map_of (sys_objects s)" and "items_of (sys_namespace_cache s) = map_of (sys_namespaces s)"
  using assms by (simp_all add: sys_inv_def caches_inv_def drained_def)

text \<open>
  A reconcile that has read the current object finds the status up to date, or brings it up to date with one
  write. Then Forget and Done are left.
\<close>

abbreviation closing :: "Request \<Rightarrow> ro_worker" where
  "closing req \<equiv> Finishing (ItemRequest req) [OpForget (ItemRequest req), OpDone (ItemRequest req)]"

lemma finish_run:
  assumes "RO_Reconcile L (sys_api A answer tick ro ns) req s = (Returned (empty_Result, None), s0)"
  shows "finish L A i answer tick req ro ns s = Returned (set_worker i (closing req) s0)"
  by (simp add: finish_def assms item_ops_def worker_after_def empty_Result_def)

lemma finish_stored:
  assumes x: "map_of (sys_objects s) (ro_key x) = Some x"
  obtains (unchanged) t where "up_to_date L x n"
      "finish L A i (Store v) tick req (Inr x) (Inr n) s = Returned (set_worker i (closing req) (s\<lparr>sys_clock := t\<rparr>))"
  | (put) y t where "\<not> up_to_date L x n" "up_to_date L y n" "ro_key y = ro_key x" "resource_ok y = resource_ok x"
      "finish L A i (Store v) tick req (Inr x) (Inr n) s = Returned (set_worker i (closing req) (put_resource y (s\<lparr>sys_clock := t\<rparr>)))"
proof -
  obtain err s' where run: "RO_Reconcile L (sys_api A (Store v) tick (Inr x) (Inr n)) req s = (Returned (empty_Result, err), s')"
    using RO_Reconcile_returns [of L _ req s] by (metis prod.exhaust_sel)
  then show thesis
  proof (cases rule: reconcile_read)
    case (unchanged n' t)
    then show thesis using that(1) [of t] finish_run [of L A "Store v" tick "Inr x" "Inr n" req s s' i] run by auto
  next
    case (sent n' obj t err')
    have "(namespace_of x, name_of obj) = ro_key x" "object_rv obj = object_rv x" using sent(2) by (auto simp: object_rv_def)
    then have s': "err = None" "s' = put_resource (with_status obj v x) (s\<lparr>sys_clock := t\<rparr>)"
      using x sent(6,7,8) by (auto simp: server_UpdateStatus_def)
    have "up_to_date L (with_status obj v x) n = up_to_date L obj n"
      using sent(2,3) by (intro says_cong(3)) (simp_all add: with_status_def)
    then show thesis
      using that(2) [of "with_status obj v x" t] sent(1,4,5) s' finish_run [of L A "Store v" tick "Inr x" "Inr n" req s s' i] run by auto
  qed simp
qed

text \<open>A worker with nothing to retry forgets its item.\<close>

lemma finish_item:
  assumes "sys_workers s = Finishing it [OpForget it, OpDone it] # ws"
  shows "ro_run L A seen [PerformOp 0 0, PerformOp 0 0] s
    = Some (Returned (s\<lparr>sys_queue := wq_Done it (wq_Forget it (sys_queue s)), sys_workers := Waiting # ws\<rparr>))"
  by (simp add: assms worker_at_def set_worker_def)

text \<open>What the lister answers is on the server.\<close>

lemma lister_answer:
  assumes "sys_inv L s" and "drained s"
  obtains (missing) err where "ResourceIndexer_Get (ResourceOverrides NewResourceOverrideLister ns) (sys_cache s) n = Inl err" "IsNotFound err"
  | (found) x where "ResourceIndexer_Get (ResourceOverrides NewResourceOverrideLister ns) (sys_cache s) n = Inr x"
      "map_of (sys_objects s) (ro_key x) = Some x"
proof (cases "ResourceIndexer_Get (ResourceOverrides NewResourceOverrideLister ns) (sys_cache s) n")
  case (Inl err)
  then show thesis by (intro missing) (auto simp: ResourceIndexer_Get_def NewNotFound_def Let_def split: option.splits)
next
  case (Inr x)
  then obtain key where "cache_GetByKey key (sys_cache s) = Some x" by (auto simp: ResourceIndexer_Get_def Let_def split: option.splits)
  moreover have "cache_inv ro_indexers (sys_cache s)" using assms(1) by (simp add: sys_inv_def caches_inv_def)
  ultimately have "plain_names x" "key = key_string (namespace_of x) (name_of x)"
    by (simp_all add: cache_inv_def cache_GetByKey_def store_Get_def)
  with \<open>cache_GetByKey key (sys_cache s) = Some x\<close> have "cached (sys_cache s) (ro_key x) = Some x"
    by (simp add: cached_def plain_names_def)
  with Inr show thesis using drained_caches(1) [OF assms] by (intro found) simp_all
qed

text \<open>
  One round: from the head of the queue to an idle worker. \<open>holding s q w ws\<close> is the system with the first worker
  at \<open>w\<close>.
\<close>

definition holding :: "ro_system \<Rightarrow> item wq \<Rightarrow> ro_worker \<Rightarrow> ro_worker list \<Rightarrow> ro_system" where
  "holding s q w ws = s\<lparr>sys_queue := q, sys_workers := w # ws\<rparr>"

lemma holding_simps [simp]:
  "sys_objects (holding s q w ws) = sys_objects s" "sys_namespaces (holding s q w ws) = sys_namespaces s"
  "worker_at (holding s q w ws) 0 = Some w" "set_worker 0 v (holding s q w ws) = holding s q v ws"
  "sys_cache (holding s q w ws) = sys_cache s" "sys_namespace_cache (holding s q w ws) = sys_namespace_cache s"
  "sys_clock_update f (holding s q w ws) = holding (sys_clock_update f s) q w ws"
  "put_resource y (holding s q w ws) = holding (put_resource y s) q w ws"
  by (simp_all add: holding_def worker_at_def set_worker_def put_resource_def)

lemma drained_idle:
  assumes "drained s" and "list_all (\<lambda>w. w = Waiting) ws" and "wq_waiting q = {}"
  shows "drained (holding (s\<lparr>sys_clock := t\<rparr>) q Waiting ws)" and "idle_system (holding (s\<lparr>sys_clock := t\<rparr>) q Waiting ws)"
    and "stale L (holding (s\<lparr>sys_clock := t\<rparr>) q Waiting ws) = stale L s"
  using assms by (simp_all add: drained_def holding_def idle_system_def stale_def)

lemma reaches_closed:
  "reaches L A s (holding s0 q (Finishing it [OpForget it, OpDone it]) ws)
    \<Longrightarrow> reaches L A s (holding s0 (wq_Done it (wq_Forget it q)) Waiting ws)"
  using finish_item [of "holding s0 q (Finishing it [OpForget it, OpDone it]) ws" it ws L A True]
  by (elim reaches_trans) (auto simp: holding_def reaches_def intro!: exI [of _ "[PerformOp 0 0, PerformOp 0 0]"])

lemma serve_other:
  assumes "sys_workers s = Waiting # ws" and "wq_Get (sys_queue s) = Some (Some (ItemOther v), q)"
  shows "reaches L A s (holding s (wq_Done (ItemOther v) (wq_Forget (ItemOther v) q)) Waiting ws)"
proof (rule reaches_closed, rule reaches_step [of _ _ "TakeItem 0"])
  show "ro_act L A True (TakeItem 0) s = Some (Returned (holding s q (Finishing (ItemOther v) [OpForget (ItemOther v), OpDone (ItemOther v)]) ws))"
    using assms by (simp add: worker_at_def set_worker_def item_ops_def holding_def)
qed simp

lemma serve_request:
  assumes inv: "sys_inv L s" and drained: "drained s"
    and workers: "sys_workers s = Waiting # ws" and get: "wq_Get (sys_queue s) = Some (Some (ItemRequest req), q)"
  obtains (nothing) t where "reaches L A s (holding (s\<lparr>sys_clock := t\<rparr>) (wq_Done (ItemRequest req) (wq_Forget (ItemRequest req) q)) Waiting ws)"
  | (put) y t where "ro_key y \<in> stale L s" "ro_key y \<notin> stale L (put_resource y s)"
      "reaches L A s (holding (put_resource y (s\<lparr>sys_clock := t\<rparr>)) (wq_Done (ItemRequest req) (wq_Forget (ItemRequest req) q)) Waiting ws)"
proof -
  let ?r = "ResourceIndexer_Get (ResourceOverrides NewResourceOverrideLister (req_Namespace req)) (sys_cache s) (req_Name req)"
  have "reaches L A s (holding s q (Taken req) ws)"
    by (rule reaches_step [of _ _ "TakeItem 0"]) (simp_all add: workers worker_at_def get set_worker_def holding_def)
  moreover have "reaches L A (holding s q (Taken req) ws) (holding s q (ReadObject req ?r) ws)"
    by (rule reaches_step [of _ _ "ReadTheObject 0"]) simp_all
  ultimately have read: "reaches L A s (holding s q (ReadObject req ?r) ws)" by (rule reaches_trans)
  have finished: "reaches L A s (holding s0 (wq_Done (ItemRequest req) (wq_Forget (ItemRequest req) q)) Waiting ws)"
    if "reaches L A s (holding s q w ws)" "ro_act L A True (Finish 0 (Store []) 0) (holding s q w ws)
      = Some (Returned (holding s0 q (closing req) ws))" for w s0
    using reaches_closed [OF reaches_trans [OF that(1) reaches_step [OF that(2)]]] by simp
  from inv drained show thesis
  proof (cases rule: lister_answer [where ns = "req_Namespace req" and n = "req_Name req"])
    case (missing err)
    have "RO_Reconcile L (sys_api A (Store []) 0 (Inl err) (Inl err)) req (holding s q (ReadObject req ?r) ws)
        = (Returned (empty_Result, None), holding s q (ReadObject req ?r) ws)"
      using missing(2) by (simp add: RO_Reconcile_def)
    from finish_run [OF this, of 0] missing(1)
    have act: "ro_act L A True (Finish 0 (Store []) 0) (holding s q (ReadObject req ?r) ws)
        = Some (Returned (holding (s\<lparr>sys_clock := sys_clock s\<rparr>) q (closing req) ws))" by simp
    show thesis by (rule nothing) (rule finished [OF read act])
  next
    case (found x)
    obtain n where n: "map_of (sys_namespaces s) (namespace_of x) = Some n"
      using server_invD(1) inv found(2) by (fastforce simp: sys_inv_def)
    have "NamespaceLister_Get (namespace_of x) (sys_namespace_cache s) = Inr n"
      using n drained_caches(2) [OF inv drained] by (simp add: NamespaceLister_Get_def store_Get_def)
    then have "reaches L A (holding s q (ReadObject req ?r) ws) (holding s q (ReadNamespace req x (Inr n)) ws)"
      by (intro reaches_step [of _ _ "ReadTheNamespace 0"]) (simp_all add: found(1))
    with read have w: "reaches L A s (holding s q (ReadNamespace req x (Inr n)) ws)" by (rule reaches_trans)
    from found(2) have "map_of (sys_objects (holding s q (ReadNamespace req x (Inr n)) ws)) (ro_key x) = Some x" by simp
    then show thesis
    proof (cases rule: finish_stored [where L = L and A = A and i = 0 and v = "[]" and tick = 0 and req = req and n = n])
      case (unchanged t)
      then have act: "ro_act L A True (Finish 0 (Store []) 0) (holding s q (ReadNamespace req x (Inr n)) ws)
          = Some (Returned (holding (s\<lparr>sys_clock := t\<rparr>) q (closing req) ws))" by simp
      show thesis by (rule nothing) (rule finished [OF w act])
    next
      case (put y t)
      then have "ro_act L A True (Finish 0 (Store []) 0) (holding s q (ReadNamespace req x (Inr n)) ws)
          = Some (Returned (holding (put_resource y (s\<lparr>sys_clock := t\<rparr>)) q (closing req) ws))" by simp
      then have "reaches L A s (holding (put_resource y (s\<lparr>sys_clock := t\<rparr>)) (wq_Done (ItemRequest req)
          (wq_Forget (ItemRequest req) q)) Waiting ws)" by (rule finished [OF w])
      then show thesis using put(1-3) found(2) n by (intro that(2)) (auto simp: stale_def update_conv')
    qed
  qed
qed

text \<open>The item at the head of the queue leaves it, or some status has been brought up to date.\<close>

lemma serve_item:
  assumes inv: "sys_inv L s" and idle: "idle_system s" "sys_workers s \<noteq> []" and "drained s"
    and q: "wq_queue (sys_queue s) = it # rest"
  shows "\<exists>s'. reaches L A s s' \<and> idle_system s'
    \<and> (stale L s' \<subset> stale L s \<or> stale L s' = stale L s \<and> drained s' \<and> wq_queue (sys_queue s') = rest)"
proof -
  obtain ws where ws: "sys_workers s = Waiting # ws" "list_all (\<lambda>w. w = Waiting) ws"
    using idle by (cases "sys_workers s") (auto simp: idle_system_def)
  define q1 where "q1 = (sys_queue s)\<lparr>wq_queue := rest, wq_processing := insert it (wq_processing (sys_queue s)),
      wq_dirty := wq_dirty (sys_queue s) - {it}\<rparr>"
  define q2 where "q2 = wq_Done it (wq_Forget it q1)"
  have get: "wq_Get (sys_queue s) = Some (Some it, q1)" by (simp add: wq_Get_def q q1_def)
  have q2: "wq_queue q2 = rest" "wq_waiting q2 = {}"
    using \<open>drained s\<close> by (simp_all add: q2_def wq_Done_def wq_Forget_def q1_def drained_def)
  have served_it: ?thesis if "reaches L A s (holding (s\<lparr>sys_clock := t\<rparr>) q2 Waiting ws)" for t
    using that drained_idle [OF \<open>drained s\<close> ws(2) q2(2), where t = t] q2(1)
    by (intro exI [of _ "holding (s\<lparr>sys_clock := t\<rparr>) q2 Waiting ws"]) (auto simp: holding_def)
  show ?thesis
  proof (cases it)
    case (ItemOther v)
    from serve_other [OF ws(1) get [unfolded ItemOther], of L A] show ?thesis
      using served_it [of "sys_clock s"] by (simp add: q2_def ItemOther)
  next
    case (ItemRequest req)
    from inv \<open>drained s\<close> ws(1) get [unfolded ItemRequest] show ?thesis
    proof (cases rule: serve_request [where A = A])
      case (nothing t)
      then show ?thesis using served_it [of t] by (simp add: q2_def ItemRequest)
    next
      case (put y t)
      let ?s' = "holding (put_resource y (s\<lparr>sys_clock := t\<rparr>)) q2 Waiting ws"
      have "stale L ?s' = stale L (put_resource y s)" by (simp add: stale_def)
      moreover have "stale L (put_resource y s) - {ro_key y} = stale L s - {ro_key y}"
        by (auto simp: stale_def update_conv' split: if_splits)
      ultimately have "stale L ?s' \<subset> stale L s" using put(1,2) by blast
      moreover have "idle_system ?s'" using ws(2) by (simp add: holding_def idle_system_def)
      moreover have "reaches L A s ?s'" using put(3) by (simp add: q2_def ItemRequest)
      ultimately show ?thesis by blast
    qed
  qed
qed

section \<open>Nothing left to do\<close>

lemma reaches_settled:
  assumes "sys_inv L s" and "sys_workers s \<noteq> []"
  shows "\<exists>s'. reaches L A s s' \<and> sys_inv L s' \<and> settled_system s'"
proof -
  let ?I = "\<lambda>s. sys_inv L s \<and> sys_workers s \<noteq> [] \<and> idle_system s \<and> drained s"
  let ?R = "measures [\<lambda>s. card (stale L s), \<lambda>s. length (wq_queue (sys_queue s))]"
  have rest: "\<exists>s'. reaches L A s s' \<and> ?I s' \<and> stale L s' = stale L s"
    if s: "sys_inv L s" "sys_workers s \<noteq> []" "idle_system s" for s
  proof -
    have "resting (sys_objects s) L s" using s by (simp add: resting_def)
    then obtain s' where s': "reaches L A s s'" "resting (sys_objects s) L s'" "drained s'" using reaches_drained by blast
    have "same_inputs s s'" using reaches_keeps [OF s(1) s'(1)] by blast
    then have "sys_namespaces s' = sys_namespaces s" "sys_workers s' \<noteq> []" using s(2) by (auto simp: same_inputs_def)
    then show ?thesis using s' by (auto simp: resting_def stale_def)
  qed
  obtain s1 where s1: "reaches L A s s1" "sys_inv L s1" "idle_system s1" using reaches_idle [OF assms(1)] by blast
  have "sys_workers s1 \<noteq> []" using reaches_keeps [OF assms(1) s1(1)] assms(2) by (auto simp: same_inputs_def)
  with rest s1 obtain s2 where s2: "reaches L A s1 s2" "?I s2" by blast
  have "\<exists>s'. reaches L A s2 s' \<and> ?I s' \<and> wq_queue (sys_queue s') = []"
  proof (rule reaches_goal [where R = ?R])
    fix s assume I: "?I s" and "wq_queue (sys_queue s) \<noteq> []"
    then obtain it its where q: "wq_queue (sys_queue s) = it # its" by (cases "wq_queue (sys_queue s)") auto
    from serve_item [OF _ _ _ _ q, where L = L and A = A] I obtain s' where s': "reaches L A s s'" "idle_system s'"
      "stale L s' \<subset> stale L s \<or> stale L s' = stale L s \<and> drained s' \<and> wq_queue (sys_queue s') = its" by blast
    have inv: "sys_inv L s'" "sys_workers s' \<noteq> []" using reaches_keeps [OF _ s'(1)] I by (auto simp: same_inputs_def)
    from s'(3) show "\<exists>s'. reaches L A s s' \<and> ?I s' \<and> (s', s) \<in> ?R"
    proof (elim disjE conjE)
      assume "stale L s' \<subset> stale L s"
      then have "card (stale L s') < card (stale L s)" by (intro psubset_card_mono finite_stale)
      moreover obtain s'' where "reaches L A s' s''" "?I s''" "stale L s'' = stale L s'" using rest [OF inv s'(2)] by blast
      ultimately show ?thesis using reaches_trans [OF s'(1)] by (intro exI [of _ s'']) simp
    next
      assume "stale L s' = stale L s" "drained s'" "wq_queue (sys_queue s') = its"
      then show ?thesis using s' inv q by (intro exI [of _ s']) simp
    qed
  qed (use s2 in auto)
  then obtain s3 where s3: "reaches L A s2 s3" "?I s3" "wq_queue (sys_queue s3) = []" by blast
  then have "settled_system s3" by (simp add: settled_system_def drained_def idle_system_def)
  with s3 show ?thesis using reaches_trans s1(1) s2(1) by blast
qed

lemma act_workers: "ro_act L A seen a s = Some (Returned s') \<Longrightarrow> length (sys_workers s') = length (sys_workers s)"
  by (cases a) (auto dest!: finish_work split: if_splits option.splits ro_worker.splits sum.splits prod.splits item.splits
      list.splits outcome.splits)

lemma run_workers: "ro_run L A seen acts s = Some (Returned s') \<Longrightarrow> length (sys_workers s') = length (sys_workers s)"
  by (induction acts arbitrary: s) (auto dest: act_workers split: option.splits outcome.splits)

text \<open>From whatever a run has led to, the controller alone gets everything up to date.\<close>

lemma reaches_up_to_date:
  assumes run: "ro_run L A True acts (sys_init n) = Some (Returned s)" and "0 < n"
  shows "\<exists>acts' s'. list_all controller_action acts' \<and> ro_run L A True acts' s = Some (Returned s')
    \<and> settled_system s' \<and> same_inputs s s'
    \<and> (\<forall>k x. map_of (sys_objects s') k = Some x \<longrightarrow> (\<exists>ns. map_of (sys_namespaces s') (fst k) = Some ns \<and> up_to_date L x ns))"
proof -
  have inv: "sys_inv L s" using sys_inv_run [OF sys_inv_init run] by auto
  have "sys_workers s \<noteq> []" using run_workers [OF run] \<open>0 < n\<close> by (auto simp: sys_init_def)
  from reaches_settled [OF inv this] obtain s' where "reaches L A s s'" "sys_inv L s'" "settled_system s'" by blast
  moreover have "same_inputs s s'" using reaches_keeps inv calculation(1) by blast
  ultimately show ?thesis using settled_up_to_date unfolding reaches_def by blast
qed

end
