(* ===== verification/ExampleRO.thy ===== *)
theory ExampleRO
  imports ROLive ExampleCluster
begin

text \<open>Runs of the ResourceOverride controller on the namespace and the ResourceOverride of the examples.\<close>

definition ex_ns :: "bool \<Rightarrow> Namespace" where
  "ex_ns opted = \<lparr>ns_Name = ''app'', ns_Labels = (if opted then Some [(NamespaceOptInLabelKey, ''true'')] else None)\<rparr>"

definition ex_req :: Request where "ex_req = \<lparr>req_Namespace = ''app'', req_Name = ''ro''\<rparr>"

lemma ex_ns_simps [simp]: "ns_Name (ex_ns b) = ''app''" "namespace_ok (ex_ns b)"
  by (simp_all add: ex_ns_def namespace_ok_def go_map_wf_def)

lemma ex_ro_key [simp]: "om_Namespace (o_Meta ex_ro) = ''app''" "om_Name (o_Meta ex_ro) = ''ro''" "resource_ok ex_ro"
  by (simp_all add: ex_ro_def new_ObjectMeta_def resource_ok_def plain_names_def)

section \<open>A run\<close>

definition ex_start_actions :: "ro_action list" where
  "ex_start_actions = [PutNamespace (ex_ns True), PutResource ex_ro]"

lemma ex_start_run:
  "ro_run L A True ex_start_actions (sys_init n) = Some (Returned ((sys_init n)\<lparr>sys_namespaces := [(''app'', ex_ns True)],
    sys_namespace_events := [NamespaceChanged (ex_ns True)], sys_objects := [(ro_key ex_ro, ex_ro)], sys_events := [Changed ex_ro]\<rparr>))"
  by (simp add: ex_start_actions_def sys_init_def put_resource_def)

lemma ex_settled_run:
  obtains acts s x where "ro_run L A True (ex_start_actions @ acts) (sys_init 1) = Some (Returned s)" and "settled_system s"
    and "map_of (sys_objects s) (''app'', ''ro'') = Some x" and "map_of (sys_namespaces s) ''app'' = Some (ex_ns True)"
proof -
  from reaches_up_to_date [OF ex_start_run, of 1 L A] obtain acts s where run: "ro_run L A True acts ((sys_init 1)\<lparr>
      sys_namespaces := [(''app'', ex_ns True)], sys_namespace_events := [NamespaceChanged (ex_ns True)],
      sys_objects := [(ro_key ex_ro, ex_ro)], sys_events := [Changed ex_ro]\<rparr>) = Some (Returned s)"
    and s: "settled_system s" "same_inputs ((sys_init 1)\<lparr>
      sys_namespaces := [(''app'', ex_ns True)], sys_namespace_events := [NamespaceChanged (ex_ns True)],
      sys_objects := [(ro_key ex_ro, ex_ro)], sys_events := [Changed ex_ro]\<rparr>) s" by auto
  have "map_option ro_Spec (map_of (sys_objects s) (''app'', ''ro'')) = Some (ro_Spec ex_ro)"
    using s(2) by (simp add: same_inputs_def)
  then obtain x where "map_of (sys_objects s) (''app'', ''ro'') = Some x" by auto
  moreover have "map_of (sys_namespaces s) ''app'' = Some (ex_ns True)" using s(2) by (simp add: same_inputs_def)
  ultimately show thesis using that s(1) run by (simp add: ro_run_append [OF ex_start_run])
qed

section \<open>A namespace that is deleted and created again\<close>

text \<open>
  A system with one worker. The ResourceOverride is reconciled with what the informer still has of the
  namespace that was deleted; then the deletion and the new namespace are delivered.
\<close>

definition ex_sys :: "((string \<times> string) \<times> ResourceOverride) list \<Rightarrow> Namespace \<Rightarrow> time \<Rightarrow> ResourceOverride event list
    \<Rightarrow> namespace_event list \<Rightarrow> ResourceOverride cache \<Rightarrow> Namespace threadSafeMap \<Rightarrow> item wq \<Rightarrow> ro_worker \<Rightarrow> ro_system" where
  "ex_sys objects ns t es nes c m q w = \<lparr>sys_objects = objects, sys_namespaces = [(''app'', ns)], sys_clock = t, sys_events = es,
     sys_namespace_events = nes, sys_cache = c, sys_namespace_cache = m, sys_requests = [], sys_notes = [], sys_queue = q,
     sys_workers = [w]\<rparr>"

definition ex_taken_queue :: "item wq" where
  "ex_taken_queue = wq_new\<lparr>wq_processing := {ItemRequest ex_req}\<rparr>"

text \<open>From an event to the reads.\<close>

lemma ex_reads:
  assumes "cache_inv ro_indexers c" and "resource_ok x" and "ro_key x = (''app'', ''ro'')" and "items_of m ''app'' = Some n"
  obtains c' where "cache_inv ro_indexers c'"
    and "ro_run L A seen [DeliverEvent, EnqueueRequest 0, TakeItem 0, ReadTheObject 0, ReadTheNamespace 0]
      (ex_sys objects ns t [Changed x] nes c m wq_new Waiting)
      = Some (Returned (ex_sys objects ns t [] nes c' m ex_taken_queue (ReadNamespace ex_req x (Inr n))))"
proof -
  have "event_ok (Changed x)" using assms(2) by simp
  obtain c' where deliver: "processDelta (Changed x) False c = Returned (None, c', [key_request (event_key (Changed x))])"
    and c': "cache_inv ro_indexers c'" "cached c' = event_effect (Changed x) (cached c)"
    by (rule deliver_event_run [OF assms(1) \<open>event_ok (Changed x)\<close>])
  have req: "key_request (event_key (Changed x)) = ex_req" using assms(3) by (simp add: key_request_def ex_req_def)
  have "ResourceIndexer_Get (ResourceOverrides NewResourceOverrideLister ''app'') c' ''ro'' = Inr x"
    using assms(3) c'(2)
    by (subst ResourceIndexer_Get_cached) (simp_all add: ResourceOverrides_def ResourceIndexer_NewNamespaced_def event_effect_def)
  moreover have "NamespaceLister_Get (namespace_of x) m = Inr n"
    using assms(3,4) by (simp add: NamespaceLister_Get_def store_Get_def)
  ultimately have "ro_run L A seen [DeliverEvent, EnqueueRequest 0, TakeItem 0, ReadTheObject 0, ReadTheNamespace 0]
      (ex_sys objects ns t [Changed x] nes c m wq_new Waiting)
      = Some (Returned (ex_sys objects ns t [] nes c' m ex_taken_queue (ReadNamespace ex_req x (Inr n))))"
    using deliver req
    by (simp add: ex_sys_def worker_at_def set_worker_def wq_new_def wq_Add_def wq_Get_def ex_taken_queue_def ex_req_def)
  with c'(1) show thesis by (rule that)
qed

lemma ex_close:
  "ro_run L A seen [PerformOp 0 0, PerformOp 0 0] (ex_sys objects ns t es nes c m ex_taken_queue (closing ex_req))
    = Some (Returned (ex_sys objects ns t es nes c m wq_new Waiting))"
  by (subst finish_item [where it = "ItemRequest ex_req" and ws = "[]"])
    (simp_all add: ex_sys_def ex_taken_queue_def wq_Done_def wq_Forget_def wq_new_def Let_def fun_upd_idem)

text \<open>A reconcile that reads the namespace as it was, and what it leaves.\<close>

lemma ex_round:
  assumes c: "cache_inv ro_indexers c" and x: "resource_ok x" "ro_key x = (''app'', ''ro'')" and m: "items_of m ''app'' = Some n"
  obtains y c' t' where "cache_inv ro_indexers c'" and "resource_ok y" and "ro_key y = (''app'', ''ro'')" and "up_to_date L y n"
    and "ro_run L A seen [DeliverEvent, EnqueueRequest 0, TakeItem 0, ReadTheObject 0, ReadTheNamespace 0, Finish 0 (Store v) 1,
        PerformOp 0 0, PerformOp 0 0] (ex_sys [(ro_key x, x)] ns t [Changed x] nes c m wq_new Waiting)
      = Some (Returned (ex_sys [(ro_key x, y)] ns t' (if up_to_date L x n then [] else [Changed y]) nes c' m wq_new Waiting))"
proof -
  obtain c' where c': "cache_inv ro_indexers c'"
    and reads: "ro_run L A seen [DeliverEvent, EnqueueRequest 0, TakeItem 0, ReadTheObject 0, ReadTheNamespace 0]
      (ex_sys [(ro_key x, x)] ns t [Changed x] nes c m wq_new Waiting)
      = Some (Returned (ex_sys [(ro_key x, x)] ns t [] nes c' m ex_taken_queue (ReadNamespace ex_req x (Inr n))))"
    by (rule ex_reads [OF c x m])
  let ?s = "\<lambda>w. ex_sys [(ro_key x, x)] ns t [] nes c' m ex_taken_queue w"
  let ?t = "\<lambda>y t es. ex_sys [(ro_key x, y)] ns t es nes c' m"
  have steps: "ro_run L A seen [DeliverEvent, EnqueueRequest 0, TakeItem 0, ReadTheObject 0, ReadTheNamespace 0, Finish 0 (Store v) 1,
        PerformOp 0 0, PerformOp 0 0] (ex_sys [(ro_key x, x)] ns t [Changed x] nes c m wq_new Waiting)
      = Some (Returned (?t y t' es wq_new Waiting))"
    if "finish L A 0 (Store v) 1 ex_req (Inr x) (Inr n) (?s (ReadNamespace ex_req x (Inr n))) = Returned (?t y t' es ex_taken_queue (closing ex_req))"
    for y t' es
  proof -
    have "ro_run L A seen [Finish 0 (Store v) 1] (?s (ReadNamespace ex_req x (Inr n))) = Some (Returned (?t y t' es ex_taken_queue (closing ex_req)))"
      using that by (simp add: worker_at_def ex_sys_def)
    from ro_run_append [OF reads, of "[Finish 0 (Store v) 1] @ [PerformOp 0 0, PerformOp 0 0]"]
      ro_run_append [OF this, of "[PerformOp 0 0, PerformOp 0 0]"] show ?thesis
      by (simp only: append_Cons append_Nil ex_close)
  qed
  have "map_of (sys_objects (?s (ReadNamespace ex_req x (Inr n)))) (ro_key x) = Some x" by (simp add: ex_sys_def)
  then show thesis
  proof (cases rule: finish_stored [where L = L and A = A and i = 0 and v = v and tick = 1 and req = ex_req and n = n])
    case (unchanged t')
    then have "finish L A 0 (Store v) 1 ex_req (Inr x) (Inr n) (?s (ReadNamespace ex_req x (Inr n)))
        = Returned (?t x t' [] ex_taken_queue (closing ex_req))" by (simp add: ex_sys_def set_worker_def)
    from that [OF c' x unchanged(1)] steps [OF this] unchanged(1) show thesis by simp
  next
    case (put y t')
    then have "finish L A 0 (Store v) 1 ex_req (Inr x) (Inr n) (?s (ReadNamespace ex_req x (Inr n)))
        = Returned (?t y t' [Changed y] ex_taken_queue (closing ex_req))" by (simp add: ex_sys_def set_worker_def put_resource_def)
    from that [OF c' _ _ put(2)] steps [OF this] put x show thesis by simp
  qed
qed

text \<open>The namespace informer tells its handler about a deletion and an addition, and the handler does nothing.\<close>

lemma ex_namespace_events:
  assumes "store_inv m"
  obtains m' where "store_inv m'" and "items_of m' = (items_of m)(''app'' \<mapsto> n)"
    and "ns_Name n = ''app'' \<Longrightarrow> ro_run L A seen [DeliverNamespaceEvent, DeliverNamespaceEvent, HandleNote, HandleNote]
      (ex_sys objects ns t es [NamespaceDeleted ''app'', NamespaceChanged n] c m q w)
      = Some (Returned (ex_sys objects ns t es [] c m' q w))"
proof -
  let ?d = "NamespaceDeleted ''app''" and ?e = "NamespaceChanged n"
  obtain m1 where m1: "deliver_namespace ?d m = Returned (note_for ?d (items_of m), m1)" "store_inv m1"
    "items_of m1 = namespace_effect ?d (items_of m)" by (rule deliver_namespace_run [OF assms])
  obtain m2 where m2: "deliver_namespace ?e m1 = Returned (note_for ?e (items_of m1), m2)" "store_inv m2"
    "items_of m2 = namespace_effect ?e (items_of m1)" by (rule deliver_namespace_run [OF m1(2)])
  from m1(3) m2(3) have items: "items_of m1 ''app'' = None" "ns_Name n = ''app'' \<Longrightarrow> items_of m2 = (items_of m)(''app'' \<mapsto> n)" by simp_all
  show thesis
  proof (cases "ns_Name n = ''app''")
    case True
    have "ro_run L A seen [DeliverNamespaceEvent, DeliverNamespaceEvent, HandleNote, HandleNote]
      (ex_sys objects ns t es [?d, ?e] c m q w) = Some (Returned (ex_sys objects ns t es [] c m2 q w))"
      using m1(1) m2(1) items True
      by (simp add: ex_sys_def handle_note_def namespace_OnAdd_def namespace_OnDelete_def)
    with m2(2) items(2) [OF True] show thesis by (intro that [of m2])
  next
    case False
    obtain m3 where "store_inv m3" "items_of m3 = (items_of m)(''app'' \<mapsto> n)"
      using store_Update_inv [OF assms, of "\<lambda>_. []" "''app''" n] by metis
    with False show thesis by (intro that [of m3]) simp_all
  qed
qed

definition ex_recreate :: "ro_action list" where
  "ex_recreate = [PutNamespace (ex_ns True), DeliverNamespaceEvent, HandleNote, DeleteNamespace ''app'', PutNamespace (ex_ns False),
     PutResource ex_ro]"

lemma ex_recreated:
  obtains m where "store_inv m" and "items_of m ''app'' = Some (ex_ns True)"
    and "ro_run L A False ex_recreate (sys_init 1) = Some (Returned (ex_sys [(ro_key ex_ro, ex_ro)] (ex_ns False) 0 [Changed ex_ro]
      [NamespaceDeleted ''app'', NamespaceChanged (ex_ns False)] ro_indexer m wq_new Waiting))"
proof -
  let ?e = "NamespaceChanged (ex_ns True)"
  have indexer: "store_inv namespace_indexer" "items_of namespace_indexer = Map.empty"
    using sys_inv_init [of L 1] by (simp_all add: sys_inv_def caches_inv_def sys_init_def)
  obtain m where m: "deliver_namespace ?e namespace_indexer = Returned (note_for ?e (items_of namespace_indexer), m)" "store_inv m"
    "items_of m = namespace_effect ?e (items_of namespace_indexer)" by (rule deliver_namespace_run [OF indexer(1)])
  have "ro_run L A False ex_recreate (sys_init 1) = Some (Returned (ex_sys [(ro_key ex_ro, ex_ro)] (ex_ns False) 0 [Changed ex_ro]
      [NamespaceDeleted ''app'', NamespaceChanged (ex_ns False)] ro_indexer m wq_new Waiting))"
    using m(1) by (simp add: ex_recreate_def sys_init_def ex_sys_def handle_note_def namespace_OnAdd_def indexer(2) put_resource_def)
  with m show thesis by (intro that [of m]) simp_all
qed

lemma ex_ro_stale: "\<not> up_to_date L ex_ro n"
  by (simp add: up_to_date_def says_def ro_Find_def ex_ro_def)

lemma ex_namespace_stale:
  assumes "up_to_date L x (ex_ns True)" shows "\<not> says Ignored NamespaceNotOptedIn (opt_in_says x (ex_ns False)) (ro_Status x)"
  using assms by (auto simp: up_to_date_def says_def opt_in_says_def ex_ns_def ns_label_def go_get_def split: option.splits)

lemma ex_recreated_stale:
  "\<exists>acts s x. ro_run L A False acts (sys_init 1) = Some (Returned s) \<and> settled_system s
    \<and> map_of (sys_objects s) (''app'', ''ro'') = Some x \<and> map_of (sys_namespaces s) ''app'' = Some (ex_ns False)
    \<and> \<not> says Ignored NamespaceNotOptedIn (opt_in_says x (ex_ns False)) (ro_Status x)"
proof -
  let ?round = "\<lambda>v. [DeliverEvent, EnqueueRequest 0, TakeItem 0, ReadTheObject 0, ReadTheNamespace 0, Finish 0 (Store v) 1,
        PerformOp 0 0, PerformOp 0 0]"
    and ?nes = "[NamespaceDeleted ''app'', NamespaceChanged (ex_ns False)]"
  obtain m where m: "store_inv m" "items_of m ''app'' = Some (ex_ns True)"
    and run1: "ro_run L A False ex_recreate (sys_init 1)
      = Some (Returned (ex_sys [(ro_key ex_ro, ex_ro)] (ex_ns False) 0 [Changed ex_ro] ?nes ro_indexer m wq_new Waiting))"
    by (rule ex_recreated)
  obtain y c t where y: "resource_ok y" "ro_key y = (''app'', ''ro'')" "up_to_date L y (ex_ns True)" and c: "cache_inv ro_indexers c"
    and run2: "ro_run L A False (?round ''v1'') (ex_sys [(ro_key ex_ro, ex_ro)] (ex_ns False) 0 [Changed ex_ro] ?nes ro_indexer m wq_new Waiting)
      = Some (Returned (ex_sys [(ro_key ex_ro, y)] (ex_ns False) t [Changed y] ?nes c m wq_new Waiting))"
    by (rule ex_round [OF indexers_inv(3) ex_ro_key(3) _ m(2), of L A False "''v1''" "ex_ns False" 0 ?nes]) (simp_all add: ex_ro_stale)
  obtain z c' t' where z: "ro_key z = (''app'', ''ro'')" "up_to_date L z (ex_ns True)"
    and run3: "ro_run L A False (?round ''v2'') (ex_sys [(ro_key y, y)] (ex_ns False) t [Changed y] ?nes c m wq_new Waiting)
      = Some (Returned (ex_sys [(ro_key y, z)] (ex_ns False) t' [] ?nes c' m wq_new Waiting))"
    by (rule ex_round [OF c y(1,2) m(2), of L A False "''v2''" "ex_ns False" t ?nes]) (simp_all add: y(3))
  obtain m' where run4: "ro_run L A False [DeliverNamespaceEvent, DeliverNamespaceEvent, HandleNote, HandleNote]
      (ex_sys [(ro_key y, z)] (ex_ns False) t' [] ?nes c' m wq_new Waiting)
      = Some (Returned (ex_sys [(ro_key y, z)] (ex_ns False) t' [] [] c' m' wq_new Waiting))"
    by (rule ex_namespace_events [OF m(1), where n = "ex_ns False"]) simp_all
  let ?s = "ex_sys [(ro_key y, z)] (ex_ns False) t' [] [] c' m' wq_new Waiting"
  have keys: "ro_key ex_ro = ro_key y" using y(2) by simp
  have "ro_run L A False (ex_recreate @ ?round ''v1'' @ ?round ''v2''
      @ [DeliverNamespaceEvent, DeliverNamespaceEvent, HandleNote, HandleNote]) (sys_init 1) = Some (Returned ?s)"
    unfolding ro_run_append [OF run1] ro_run_append [OF run2] unfolding keys ro_run_append [OF run3] by (rule run4)
  moreover have "settled_system ?s" by (simp add: settled_system_def ex_sys_def wq_new_def)
  moreover have "map_of (sys_objects ?s) (''app'', ''ro'') = Some z" "map_of (sys_namespaces ?s) ''app'' = Some (ex_ns False)"
    using y(2) by (simp_all add: ex_sys_def)
  ultimately show ?thesis using ex_namespace_stale [OF z(2)] by blast
qed

end
