(* ===== verification/Spec2Isabelle.thy ===== *)
theory Spec2Isabelle
  imports ExampleClients ExampleStore ExampleFakes ExampleRO
begin

text \<open>
  A model of the Cluster Resource Override Admission Operator (Go, \<open>src/pkg\<close>) and the theorems that
  make it correct. The operator watches a singleton \<open>ClusterResourceOverride\<close> named \<open>cluster\<close>, installs an
  admission webhook that rewrites pod resource requests, keeps it installed, and reports the state in the
  resource's status. A second controller validates the namespaced \<open>ResourceOverride\<close> resources.

  \<^bold>\<open>How the parts interact.\<close> Informers deliver events to handlers (\<open>pkg/controller/handler.go\<close>,
  \<open>pkg/secondarywatch\<close>, \<open>pkg/resourceoverride/namespace_handler.go\<close>), which add requests to a
  rate-limited queue. Workers take them (\<open>pkg/controller/worker.go\<close>) and call a reconciler. The
  reconciler of the cluster resource runs a chain of ten handlers, each of which compares a part of the
  operand with what it should be and creates or patches it, and ends with one status update.

  \<^bold>\<open>Theories and sources.\<close>

  \<^item> \<open>Prelude\<close>: Go's integers, maps, \<open>fmt\<close>, \<open>strings\<close>, panics as an outcome, lemma collections.
  \<^item> \<open>Kube\<close>: the Kubernetes data that is handled; API errors, group versions and object references of
    the vendored apimachinery and client-go. \<open>Ownership\<close>: \<open>pkg/runtime\<close>.
  \<^item> \<open>PodOverride\<close>, \<open>ApiTypes\<close>: \<open>pkg/apis\<close>, types, validation, printing, hashing, and the deep copy as
    the reconciler sees it: it only changes the addresses of the tolerations' periods.
  \<^item> \<open>GoHeap\<close>, \<open>GoStructs\<close>, \<open>DeepCopyMeta\<close>, \<open>DeepCopy\<close>, \<open>DeepCopyFacts\<close>: the generated deep copies
    (\<open>zz_generated.deepcopy.go\<close> of both groups and of the metadata types) on a heap of cells, with structs
    that hold addresses; that they copy everything and share nothing, and that they refine the copy above.
  \<^item> \<open>Registration\<close>: the API groups in a scheme (\<open>register.go\<close>, \<open>install.go\<close>, apimachinery's scheme).
  \<^item> \<open>World\<close>: what the operator calls outside its source. The record \<open>lib\<close> holds the pure third-party
    functions (YAML and JSON marshalling, strategic merge patch, digest, scheme, TLS profile tables), the record
    \<open>'w api\<close> the effects, each a function from a world to an answer and the next world. Both are
    arguments of the definitions and arbitrary in the theorems.
  \<^item> \<open>Asset\<close>, \<open>Rbac\<close>: \<open>pkg/asset\<close>, the objects of the operand with every field the source sets.
  \<^item> \<open>Dynamic\<close>: \<open>pkg/dynamic\<close> and \<open>pkg/ensurer\<close>, create or patch. \<open>Deploy\<close>: \<open>pkg/deploy\<close>.
    \<open>TlsProfile\<close>: \<open>pkg/tlsprofile\<close>, \<open>pkg/infrastructure\<close>.
  \<^item> \<open>Conditions\<close>: both condition builders and the typed errors.
  \<^item> \<open>HandlerBase\<close>, \<open>ConfigHandlers\<close>, \<open>DeployHandler\<close>, \<open>WebhookHandlers\<close>: the handlers, one
    definition \<open><handler>_Handle\<close> each (\<open>pkg/clusterresourceoverride/internal/handlers\<close>).
  \<^item> \<open>Reconciler\<close>: chain, Reconcile and status update. \<open>Recorded\<close>, \<open>ChainStatus\<close>, \<open>ReconcileFacts\<close>,
    \<open>Steady\<close>, \<open>Rollout\<close>: lemmas about them (which calls are made, what the status says, no panic, what
    happens in a cluster at rest, the order of a rollout).
  \<^item> \<open>Cluster\<close>: what it means that a cluster stores what is written, as predicates on \<open>lib\<close> and \<open>api\<close>.
    \<open>Settle\<close>, \<open>Converge\<close>: what each handler leaves in such a cluster, and that a successful reconcile leaves
    it at rest. \<open>Progress\<close>: a cluster that accepts what is sent, where only the rollout is waited for.
  \<^item> \<open>ResourceOverrideCtl\<close>: \<open>pkg/resourceoverride\<close>. \<open>SecondaryWatch\<close>: \<open>pkg/secondarywatch\<close> and
    the enqueuer of \<open>pkg/clusterresourceoverride\<close>.
  \<^item> \<open>WorkQueue\<close>: client-go's queue, from its vendored source. \<open>ControllerCore\<close>: \<open>pkg/controller\<close>.
    \<open>ControlLoop\<close>: queue, workers and events running concurrently, as a step relation.
  \<^item> \<open>StoreIndex\<close>, \<open>InformerCache\<close>: client-go's indexed store, the cache over it and the listers of
    \<open>pkg/generated/listers\<close>. \<open>EventPath\<close>: how an event passes through the cache into the queue.
  \<^item> \<open>InformerFactory\<close>, \<open>Clientset\<close>: \<open>pkg/generated/informers\<close> and \<open>pkg/generated/clientset\<close>, with the
    requests that the clients send. \<open>Watches\<close>: the informers of the secondary objects and of the namespaces.
  \<^item> \<open>FakeTracker\<close>, \<open>FakeClient\<close>: the fake clientset of the tests (the \<open>fake\<close> packages under
    \<open>pkg/generated/clientset\<close>) with client-go's object tracker, reactions and generic fake client. \<open>FakeStore\<close>: the
    map it is to be, and the tracker seen as that map. \<open>FakeContract\<close>: every call agrees with the map.
    \<open>FakeSteps\<close>, \<open>FakeWatch\<close>: calls, watches and reads interleaved; what a watch delivers to a cache.
  \<^item> \<open>ROSystem\<close>: the ResourceOverride controller as it runs: API server, watches, caches, event handlers, queue
    and workers composed of the models of the parts, one action per atomic step. \<open>ROInvariant\<close>, \<open>ROServed\<close>: its
    invariants, up to the one that no change is lost. \<open>ROLive\<close>: that it can always catch up.
  \<^item> \<open>OperatorMain\<close>: \<open>pkg/operator\<close>, \<open>pkg/cmd/operator\<close>, as the sequence of a start. \<open>Controllers\<close>: the
    constructors of the clients and of both controllers, and the start over them, which refines it.
  \<^item> \<open>SpecHash\<close>, \<open>OperandFacts\<close>: lemmas on the hashes and on how the operand's objects fit together.
  \<^item> \<open>ExampleCluster\<close>, \<open>ExampleHeap\<close>, \<open>ExampleClients\<close>: one concrete cluster, heap and set of clients, on
    which the witnesses evaluate the definitions. \<open>ExampleStore\<close> (with \<open>ExampleJson\<close>): a cluster that stores and
    accepts, in which the operand is installed from nothing. \<open>ExampleFakes\<close>: an informer on a fake clientset.
    \<open>ExampleRO\<close>: runs of the ResourceOverride controller.

  \<^bold>\<open>How state is represented.\<close> A handler gets a pointer to the resource and a context; its model maps the
  resource and the world to an outcome (a result, or a panic), the resource it leaves, and the next
  world. A read through a lister and a read from the API server have the same shape, so that the cluster
  may change between any two calls; theorems over all worlds cover every interleaving with the
  environment. \<open>recording\<close> runs the same definitions with the writing calls kept in order. Integers keep
  their width (\<open>32 word\<close>, \<open>64 word\<close>, read as signed where Go's type is). A Go map is a list of pairs
  with distinct keys, in one of the orders in which a range loop may visit it. Times are nanoseconds.
  Log calls are left out.

  Where the memory itself matters, for deep copies, a heap maps addresses to cells and a struct holds
  addresses; a slice is an array's address with offset and length.

  \<^bold>\<open>Interfaces.\<close> Where one part relies on a contract of another it is a locale with the laws as its
  assumptions, interpreted on the model: \<open>condition_store\<close> (both builders), \<open>handler_contract\<close> and
  \<open>handler_writes\<close> and \<open>panic_free\<close> (every handler), \<open>handler_chain\<close> and \<open>recorded_chain\<close> (the
  reconciler's chain), \<open>enqueuer\<close>, \<open>work_queue\<close> (client-go's queue), \<open>reconciler_contract\<close> (both
  reconcilers, as the worker sees them), \<open>heap_reader\<close> and \<open>deep_copier\<close> (every copied type),
  \<open>object_store\<close> (the store and the cache).

  \<^bold>\<open>What the properties show.\<close> C1 to C9: the reconciler as a whole, what a successful run has
  established, that it is quiet in a cluster at rest, that a successful run leaves the cluster at rest, that
  only the rollout can keep it from succeeding, which calls it makes, what it does with an invalid
  spec, that it does not panic, the order and the condition of a rollout. C10 to C16: an event changes the
  caches and the queue together, no request is lost or processed twice at a time, the listers answer what
  the events said, workers end and retries are delayed within bounds. C17: a reconcile of the second
  controller. C18 to C20: that controller as it runs, from the API server over caches, queue and workers back to the
  API server: with nothing left to do every status is up to date, this can always be reached, and the one
  race that breaks it. C21: deep copies. C22 to C25: create or patch, availability, the chain. C26 to C30: the
  operand's objects, their owner, and the events that lead back to it. C31 to C34: startup, informers and
  clients. C35 and C36: the fake clientset is a map, and informers follow it. C37 and C38: kinds, hashing. C39
  and C40: behaviour that surprises, stated so that a change of it is noticed.

  \<^bold>\<open>Bounds.\<close> No definition uses fuel: every loop of the program runs over a finite list and is a
  structural recursion. The worker's endless loop runs over the list of answers the queue gives it; C15
  shows that it ends with the shutdown. The step relation of \<open>ControlLoop\<close> is unbounded, for any number of
  workers, and so is the reachability of an informer factory. C36 takes fewer than \<open>2 ^ 62\<close> writes before the
  watch, so that the version counter, an \<open>int64\<close>, does not wrap.

  \<^bold>\<open>Not modelled.\<close> The reflector and the delta queue between the watch and the cache, transport and decoding
  of the clients, defaulting and conversion, the fake discovery client, flag parsing, signal handling, the health
  endpoint, metrics and the rate of the token bucket. Delays are not measured: a delayed item may fire at
  any later step. The cluster never writes into an object a lister has handed out. \<open>%q\<close> is modelled for
  7-bit text.

  \<^bold>\<open>Of the running controller.\<close> C18 to C20 take the deltas of one informer in the order of the watch. The
  two informers, the handlers and the workers are not ordered against each other. The API server is
  no code of the repository: of a status update the runs use what the API promises, that it changes nothing but
  status and version, only on the version that was read, and nothing if the status is there already; it may also
  be refused, or stored with the answer lost. Resyncs of the ResourceOverride informer are
  actions; those of the namespace informer change no label and are left out, and the race of C20 lasts until a
  resync or another change of the resource. Shutdown is not part of these runs; C15 and \<open>ControlLoop\<close> cover it.

  \<^bold>\<open>Next.\<close> The same composition for the controller of the cluster resource, with the secondary informers.
\<close>

section \<open>The ClusterResourceOverride controller\<close>

text \<open>
  C1: a reconcile that returns no error has installed the operand: the spec is valid, the status it
  leaves carries the hash of the spec, the operator's version and image and references to the
  configuration, service, API service, webhook and policy objects, reports no readiness failure and says
  whether the operand is available. Either the store holds this status already or the reconcile has
  written it successfully.
\<close>

theorem reconcile_success_installs:
  assumes "CRO_Reconcile opts (ResourceName (opt_OperandContext opts)) w = (Returned (res, None), w')"
    and "api_CRO_Get (opt_api opts) (ResourceName (opt_OperandContext opts)) w = (Inr original, w1)"
  shows "\<exists>c w3. installed (lib_sha256 (opt_lib opts)) (opt_OperandContext opts) c \<and> same_resource c original
    \<and> StatusUpdater_Update (opt_api opts) original (Some c) w3 = (Returned None, w')"
  by (rule Reconcile_installed [OF assms])

theorem reconcile_success_installs_witness:
  "\<exists>c w3 w'. installed (lib_sha256 ex_lib) ex_ctx c \<and> same_resource c ex_cro
    \<and> StatusUpdater_Update ex_api ex_cro (Some c) w3 = (Returned None, w')"
proof -
  obtain res w' where "CRO_Reconcile ex_opts ''cluster'' 0 = (Returned (res, None), w')"
    using ex_reconcile_run by blast
  then show ?thesis
    using reconcile_success_installs [of ex_opts 0 res w' ex_cro 0] by (simp add: ex_opts_simps) blast
qed

text \<open>
  C2: a reconcile changes nothing in a cluster at rest, one that holds the operand as a successful
  reconcile has left it and where the status says so: its only writing call is the deletion of the
  legacy daemon set, which is not there, and no status update is made. This needs overrides without
  toleration periods: printed with their address, they change the hash from one copy to the next.
\<close>

theorem reconcile_at_rest_is_quiet:
  assumes "at_rest opts A P c"
    and "answers P (api_CRO_Get A (ResourceName (opt_OperandContext opts))) (\<lambda>r. r = Inr c)" and "P (fst s)"
    and "list_all (\<lambda>t. tol_TolerationSeconds t = None) (do_Tolerations (spec_DeploymentOverrides (cro_Spec c)))"
  shows "\<exists>s'. CRO_Reconcile (recording opts A) (ResourceName (opt_OperandContext opts)) s
      = (Returned (empty_Result, None), s')
    \<and> snd s' = snd s @ [CallDeleteDaemonSet (v_Namespace (opt_Asset opts)) (daemonset_Name (opt_Asset opts))]
    \<and> P (fst s')"
  by (rule Reconcile_at_rest [OF assms(2,1,3,4)])

theorem reconcile_at_rest_is_quiet_witness:
  "\<exists>s'. CRO_Reconcile (recording ex_rec_opts ex_rest_api) ''cluster'' (0, []) = (Returned (empty_Result, None), s')
    \<and> snd s' = [CallDeleteDaemonSet (v_Namespace ex_v) (daemonset_Name ex_v)]"
  using reconcile_at_rest_is_quiet [OF ex_at_rest, of "(0, [])"] by (simp add: answers_def)

text \<open>
  C3: a reconcile that succeeds has settled the cluster. In a cluster that stores what is written (creates,
  patches and deletes change the object named, reads answer it, conversion keeps metadata), any number of
  further reconciles return no error, make no writing call but the deletion of the absent legacy daemon set,
  and leave every stored object and the status as they are. The handlers write the references and hashes that
  the next run compares, and a later handler does not undo what an earlier one checks.
\<close>

theorem reconcile_settles:
  assumes "operand_cluster opts view"
    and "CRO_Reconcile opts (ResourceName (opt_OperandContext opts)) w = (Returned (res, None), w')"
    and "cl_resource (view w) (ResourceName (opt_OperandContext opts)) = Some c"
    and "cl_objects (view w) (''daemonsets'', v_Namespace (opt_Asset opts), daemonset_Name (opt_Asset opts)) = None"
    and "list_all (\<lambda>t. tol_TolerationSeconds t = None) (do_Tolerations (spec_DeploymentOverrides (cro_Spec c)))"
  shows "\<exists>s'. reconcile_times (recording opts (opt_api opts)) n (w', []) = (replicate n (Returned (empty_Result, None)), s')
    \<and> snd s' = replicate n (CallDeleteDaemonSet (v_Namespace (opt_Asset opts)) (daemonset_Name (opt_Asset opts)))
    \<and> view (fst s') = view w'"
  using reconcile_settles_times [OF assms, of n "[]"] by simp

theorem reconcile_settles_witness:
  "\<exists>w' s'. CRO_Reconcile ex_store_opts ''cluster'' ex_empty = (Returned (empty_Result, None), w')
    \<and> reconcile_times (recording ex_store_opts (opt_api ex_store_opts)) 3 (w', []) = (replicate 3 (Returned (empty_Result, None)), s')
    \<and> sw_view (fst s') = sw_view w'"
proof -
  obtain w' where "CRO_Reconcile ex_store_opts ''cluster'' ex_empty = (Returned (empty_Result, None), w')"
    using ex_store_run by blast
  then show ?thesis
    using reconcile_settles [OF ex_store_operand, of ex_empty empty_Result w' ex_cro 3] by (auto simp: ex_store_spec)
qed

text \<open>
  C4: in a cluster that also accepts what the operator sends, a reconcile of a valid resource fails for one
  reason only: it returns no error when the stored deployment is rolled out afterwards, and otherwise the
  error that the deployment is not ready. With C3 the operator converges as soon as the rollout does.
\<close>

theorem reconcile_progress:
  assumes "cooperative opts view"
    and "cl_resource (view w) (ResourceName (opt_OperandContext opts)) = Some c" and "spec_valid (cro_Spec c)"
    and "cl_objects (view w) (''daemonsets'', v_Namespace (opt_Asset opts), daemonset_Name (opt_Asset opts)) = None"
  shows "\<exists>err w'. CRO_Reconcile opts (ResourceName (opt_OperandContext opts)) w = (Returned (empty_Result, err), w')
    \<and> (if rolled_out opts (view w') then err = None else \<exists>e. err = Some (InstallReadinessError DeploymentNotReady (Some e)))"
  by (rule Reconcile_progress [OF assms])

theorem reconcile_progress_witness:
  "\<exists>err w'. CRO_Reconcile ex_store_opts ''cluster'' ex_empty = (Returned (empty_Result, err), w')
    \<and> (if rolled_out ex_store_opts (sw_view w') then err = None else \<exists>e. err = Some (InstallReadinessError DeploymentNotReady (Some e)))"
  using reconcile_progress [OF ex_store_cooperative, of ex_empty ex_cro] by (simp add: ex_store_spec)

text \<open>
  C5: whatever the cluster answers, a reconcile makes no other writing calls than creating or patching
  objects of the operand's kinds, deleting the legacy daemon set, a stale serving secret or the
  operand's own webhook configuration, and then at most one status update, of the same resource with
  the same spec and a status that differs from the stored one. When the resource cannot be read, it
  makes no writing call at all.
\<close>

theorem reconcile_calls_bounded:
  "case api_CRO_Get A (ResourceName (opt_OperandContext opts)) (fst s) of
     (Inl e, w1) \<Rightarrow> snd (snd (CRO_Reconcile (recording opts A) (ResourceName (opt_OperandContext opts)) s)) = snd s
   | (Inr original, w1) \<Rightarrow>
       \<exists>cs us. snd (snd (CRO_Reconcile (recording opts A) (ResourceName (opt_OperandContext opts)) s)) = snd s @ cs @ us
         \<and> list_all (operand_call (opt_OperandContext opts) (opt_Asset opts)) cs
         \<and> (us = [] \<or> (\<exists>c. us = [CallUpdateStatusCRO c] \<and> same_resource c original \<and> cro_Status c \<noteq> cro_Status original))"
proof (cases "api_CRO_Get A (ResourceName (opt_OperandContext opts)) (fst s)")
  case (Pair x w1)
  show ?thesis
  proof (cases x)
    case (Inl e)
    with Pair have "api_CRO_Get (opt_api (recording opts A)) (ResourceName (opt_OperandContext (recording opts A))) s
      = (Inl e, (w1, snd s))" by (simp add: on_fst_def)
    from Reconcile_not_found [OF this] Pair Inl show ?thesis by simp
  next
    case (Inr original)
    with Pair Reconcile_found_calls [OF prod.collapse [symmetric], of A opts s original w1] show ?thesis by simp
  qed
qed

text \<open>
  C6: an invalid spec changes nothing in the cluster but the status: the reconcile makes no call besides
  the status update, returns an error, and the status reports the invalid parameters as a readiness
  failure.
\<close>

theorem invalid_spec_changes_nothing:
  assumes "api_CRO_Get A (ResourceName (opt_OperandContext opts)) (fst s) = (Inr original, w1)"
    and "\<not> spec_valid (cro_Spec original)"
  shows "\<exists>c err s'. CRO_Reconcile (recording opts A) (ResourceName (opt_OperandContext opts)) s = (Returned (empty_Result, Some err), s')
    \<and> snd s' = snd s @ (if cro_Status original = cro_Status c then [] else [CallUpdateStatusCRO c])
    \<and> (\<exists>k. cro_Find (cro_Status c) InstallReadinessFailure = Some k \<and> cond_Status k = ConditionTrue
         \<and> cond_Reason k = InvalidParameters)"
  using Reconcile_invalid [OF prod.collapse [symmetric] assms] by (metis prod.collapse)

theorem invalid_spec_changes_nothing_witness:
  "\<exists>c err s'. CRO_Reconcile (recording ex_rec_opts ex_bad_api) ''cluster'' (0, []) = (Returned (empty_Result, Some err), s')
    \<and> snd s' = (if cro_Status ex_bad_cro = cro_Status c then [] else [CallUpdateStatusCRO c])
    \<and> (\<exists>k. cro_Find (cro_Status c) InstallReadinessFailure = Some k \<and> cond_Status k = ConditionTrue
         \<and> cond_Reason k = InvalidParameters)"
  using invalid_spec_changes_nothing [of ex_bad_api ex_rec_opts "(0, [])" ex_bad_cro 0]
  by (simp add: ex_opts_simps)

text \<open>
  C7: a reconcile never panics, for any cluster behaviour, as long as the API server client never
  answers a get of the APIService with nil and no error.
\<close>

theorem reconcile_never_panics:
  assumes "APIService_Get_answers (opt_api opts)"
  shows "fst (CRO_Reconcile opts name w) \<noteq> Panicked"
  by (rule Reconcile_returns [OF assms])

theorem reconcile_never_panics_witness:
  "APIService_Get_answers (opt_api ex_opts) \<and> fst (CRO_Reconcile ex_opts ''cluster'' 0) \<noteq> Panicked"
  using reconcile_never_panics [of ex_opts "''cluster''" 0]
  by (simp add: APIService_Get_answers_def ex_opts_simps)

text \<open>
  C8: a rollout deletes the webhook configuration first, then ensures the RBAC objects, and writes the
  deployment only after every RBAC object was created or found, in the order of the list.
\<close>

theorem rollout_order:
  "\<exists>rb dep. snd (snd (deploymentHandler_Ensure (recording opts A) cro args s)) =
      snd s @ CallDeleteMWC (mutatingWebhookConfiguration_Name (opt_Asset opts)) # rb @ dep
    \<and> list_all (upsert_of rbac_resources) rb \<and> list_all (upsert_of [''deployments'']) dep
    \<and> (dep = [] \<or> created rb = map rbac_Resource (rbac_New (opt_Asset opts)))"
  using deploymentHandler_Ensure_order [of opts A cro args s, OF prod.collapse [symmetric]] by blast

text \<open>
  C9: a deployment that carries the annotations written by a rollout is left alone exactly as long as
  the configuration hash, the TLS arguments, the image and the version have not changed since.
\<close>

theorem ensured_deployment_is_current:
  "\<not> needs_ensure (asset_New ctx) cro' args' (Some (d\<lparr>o_Meta := (o_Meta d)\<lparr>om_Annotations :=
      om_Annotations (o_Meta (ApplyToDeploymentObject (opts\<lparr>opt_Asset := asset_New ctx\<rparr>) cro args d0))\<rparr>\<rparr>)) \<longleftrightarrow>
     st_HashConfiguration (cro_Status cro') = st_HashConfiguration (cro_Status cro)
     \<and> Args_Hash args' = Args_Hash args
     \<and> OperandImage ctx = st_Image (cro_Status cro') \<and> OperandVersion ctx = st_Version (cro_Status cro')"
  using ensured_is_current [of "opts\<lparr>opt_Asset := asset_New ctx\<rparr>" ctx "d\<lparr>o_Meta := (o_Meta d)\<lparr>om_Annotations :=
      om_Annotations (o_Meta (ApplyToDeploymentObject (opts\<lparr>opt_Asset := asset_New ctx\<rparr>) cro args d0))\<rparr>\<rparr>" cro args d0]
  by (auto simp: asset_New_def)

section \<open>Events, caches and the queue\<close>



text \<open>
  C11: with any number of workers, in every reachable state no two workers hold the same request, so a
  resource is never reconciled twice at the same time.
\<close>

theorem one_worker_per_request:
  assumes "ctl_reachable n c" and "holds c i x" and "holds c j x"
  shows "i = j"
  by (rule one_worker_per_item [OF assms])

theorem one_worker_per_request_witness:
  "ctl_reachable 2 ex_taken \<and> holds ex_taken 0 ex_item \<and> {j. holds ex_taken j ex_item} = {0}"
  using one_worker_per_request [of 2 ex_taken 0 ex_item] ex_taken_facts by blast

text \<open>
  C12: no request is lost: in every reachable state a request that was made and not yet taken is in the
  queue, or its item is in the hands of a worker, whose Done will put it back.
\<close>

theorem no_request_lost:
  assumes "ctl_reachable n c" and "x \<in> wq_dirty (ctl_queue c)"
  shows "x \<in> set (wq_queue (ctl_queue c)) \<or> (\<exists>i. holds c i x \<and> x \<in> set (wq_queue (wq_Done x (ctl_queue c))))"
  using dirty_is_served [OF assms] assms(2) by (auto simp: wq_Done_def Let_def)

theorem no_request_lost_witness:
  "ctl_reachable 2 ex_asked \<and> ex_item \<in> wq_dirty (ctl_queue ex_asked)
    \<and> (ex_item \<in> set (wq_queue (ctl_queue ex_asked))
       \<or> (\<exists>i. holds ex_asked i ex_item \<and> ex_item \<in> set (wq_queue (wq_Done ex_item (ctl_queue ex_asked)))))"
  using no_request_lost [of 2 ex_asked ex_item] ex_asked_facts by blast

text \<open>
  C13: the lister of the ResourceOverrides reads the last event of each object: after any events, a get
  answers the object last added or updated under the name, or that it is not found when it was deleted
  last or never seen, and a list of a namespace answers exactly the objects it holds then.
\<close>

theorem lister_reads_events:
  assumes "list_all plain_event es" and "ns \<noteq> []" and "CHR ''/'' \<notin> set ns" and "CHR ''/'' \<notin> set n"
  shows "\<exists>c xs. handle_events es ro_indexer = Returned c
    \<and> ResourceIndexer_Get (ResourceOverrides NewResourceOverrideLister ns) c n =
        (case fold event_effect es Map.empty (ns, n) of
           None \<Rightarrow> Inl (NewNotFound (autoscaling_Resource ''resourceoverride'') n) | Some x \<Rightarrow> Inr x)
    \<and> ResourceIndexer_List (ResourceOverrides NewResourceOverrideLister ns) c labels_Everything = Returned (None, xs)
    \<and> set xs = {x. \<exists>n. fold event_effect es Map.empty (ns, n) = Some x}"
proof -
  obtain c where "handle_events es ro_indexer = Returned c" "cache_inv ro_indexers c"
      "cached c = fold event_effect es Map.empty"
    using handle_events_cached [OF indexers_inv(3) assms(1)] indexers_inv(4) by auto
  with ResourceOverrides_cached [OF this(2) assms(2-4)] show ?thesis by auto
qed

theorem lister_reads_events_witness:
  "\<exists>c. handle_events [Changed ex_ro] ro_indexer = Returned c
    \<and> ResourceIndexer_Get (ResourceOverrides NewResourceOverrideLister (namespace_of ex_ro)) c (name_of ex_ro) = Inr ex_ro"
  using lister_reads_events [of "[Changed ex_ro]" "namespace_of ex_ro" "name_of ex_ro"]
  by (auto simp: plain_event_def plain_names_def ex_ro_def new_ObjectMeta_def event_effect_def)

text \<open>
  C14: the store under the caches stays well formed: after any updates, deletions and replacements it has
  not panicked, its items are those the operations leave, no index entry is empty, and every index holds
  exactly the keys of the items that have the indexed value.
\<close>

theorem store_answers:
  assumes "distinct (map fst indexers)" and "\<forall>(name, f) \<in> set indexers. index_func_total f"
    and "list_all store_op_ok ops" and "map_of indexers name = Some f"
  shows "\<exists>c. apply_store_ops rv ops (NewThreadSafeStore indexers) = Returned c \<and> store_inv c
    \<and> items_of c = fold store_effect ops Map.empty \<and> the_index (tsm_index c) name val \<noteq> Some {}
    \<and> keys_at (the_index (tsm_index c) name) val = {key. \<exists>x. items_of c key = Some x \<and> val \<in> values_of f x}"
proof -
  obtain c where c: "apply_store_ops rv ops (NewThreadSafeStore indexers) = Returned c" "store_inv c"
      "indexers_of c = indexers" "items_of c = fold store_effect ops Map.empty"
    using apply_store_ops_inv [OF assms(1-3)] by blast
  have "the_index (tsm_index c) name val \<noteq> Some {}"
    using c(2,3) map_of_SomeD [OF assms(4)] by (force simp: store_inv_def index_inv_def index_agrees_def)
  with c keys_of_index [OF c(2), of name f val] assms(4) show ?thesis by auto
qed

theorem store_answers_witness:
  "\<exists>c. apply_store_ops object_rv [StoreUpdate ''ns/ro'' ex_ro, StoreDelete ''ns/ro'' None]
      (NewThreadSafeStore [(NamespaceIndex, MetaNamespaceIndexFunc)]) = Returned c
    \<and> items_of c = Map.empty \<and> keys_at (the_index (tsm_index c) NamespaceIndex) (namespace_of ex_ro) = {}"
  using store_answers [of "[(NamespaceIndex, MetaNamespaceIndexFunc)]" "[StoreUpdate ''ns/ro'' ex_ro, StoreDelete ''ns/ro'' None]"
      NamespaceIndex MetaNamespaceIndexFunc object_rv "namespace_of ex_ro"]
  by (auto simp: index_func_total_def MetaNamespaceIndexFunc_def)




section \<open>The ResourceOverride controller\<close>

text \<open>
  C17: reconciling a ResourceOverride that exists either returns the error of the namespace lookup and
  changes nothing, or brings the status to what the spec and the namespace's label say: the validation
  condition is true exactly when the percentages or the selector are invalid, the ignored condition
  exactly when the namespace is not opted in; one status update is made when that differs from the
  stored status, and none otherwise.
\<close>

theorem resourceoverride_status:
  assumes "api_RO_Get A (req_Namespace req) (req_Name req) (fst s) = (Inr original, w1)"
  shows "(\<exists>e s' w2 w3. RO_Reconcile L (traced A) req s = (Returned (empty_Result, Some e), s') \<and> snd s' = snd s
        \<and> api_Namespace_Get A (om_Namespace (o_Meta original)) w2 = (Inl e, w3))
    \<or> (\<exists>copy ns w2 w3 e s'. RO_Reconcile L (traced A) req s = (Returned (empty_Result, e), s')
        \<and> api_Namespace_Get A (om_Namespace (o_Meta original)) w2 = (Inr ns, w3)
        \<and> o_Meta copy = o_Meta original \<and> ro_Spec copy = ro_Spec original
        \<and> reports ValidationFailure (\<not> ro_valid L original) InvalidParameters (ro_Status copy)
        \<and> reports Ignored (ns_label ns NamespaceOptInLabelKey \<noteq> ''true'') NamespaceNotOptedIn (ro_Status copy)
        \<and> snd s' = snd s @ (if ro_Status original = ro_Status copy then []
            else [CallUpdateStatusRO (om_Namespace (o_Meta original)) copy])
        \<and> (if ro_Status original = ro_Status copy then e = None else True))"
proof -
  obtain r s' where run: "RO_Reconcile L (traced A) req s = (r, s')" by (meson surj_pair)
  from RO_Reconcile_found [OF run assms] run show ?thesis by blast
qed

theorem resourceoverride_status_witness:
  "(\<exists>e s' w2 w3. RO_Reconcile ex_lib (traced ex_ro_api) ex_request (0, []) = (Returned (empty_Result, Some e), s')
        \<and> snd s' = snd (0 :: int, []) \<and> api_Namespace_Get ex_ro_api (om_Namespace (o_Meta ex_ro)) w2 = (Inl e, w3))
    \<or> (\<exists>copy ns w2 w3 e s'. RO_Reconcile ex_lib (traced ex_ro_api) ex_request (0, []) = (Returned (empty_Result, e), s')
        \<and> api_Namespace_Get ex_ro_api (om_Namespace (o_Meta ex_ro)) w2 = (Inr ns, w3)
        \<and> o_Meta copy = o_Meta ex_ro \<and> ro_Spec copy = ro_Spec ex_ro
        \<and> reports ValidationFailure (\<not> ro_valid ex_lib ex_ro) InvalidParameters (ro_Status copy)
        \<and> reports Ignored (ns_label ns NamespaceOptInLabelKey \<noteq> ''true'') NamespaceNotOptedIn (ro_Status copy)
        \<and> snd s' = snd (0 :: int, []) @ (if ro_Status ex_ro = ro_Status copy then []
            else [CallUpdateStatusRO (om_Namespace (o_Meta ex_ro)) copy])
        \<and> (if ro_Status ex_ro = ro_Status copy then e = None else True))"
  by (rule resourceoverride_status [of _ _ _ _ 0]) simp

section \<open>The ResourceOverride controller as it runs\<close>

text \<open>
  C18: no change is lost on the way from the API server to the status of a ResourceOverride. In every run of the
  controller, with any number of workers, whatever is written, deleted or relabelled meanwhile, in whatever
  order the informers deliver it, whether the server stores, refuses or loses the updates: nothing panics, and
  when nothing is left to do, every ResourceOverride on the server says exactly what its spec and the label of
  its namespace ask for. This is for runs in which a deleted namespace is not created again before the
  informer has seen the deletion.
\<close>

theorem controller_loses_no_change:
  assumes "ro_run L A True acts (sys_init n) = Some r"
  shows "\<exists>s. r = Returned s \<and> (settled_system s \<longrightarrow> (\<forall>k x. map_of (sys_objects s) k = Some x \<longrightarrow>
    (\<exists>ns. map_of (sys_namespaces s) (fst k) = Some ns \<and> up_to_date L x ns)))"
  using sys_inv_run [OF sys_inv_init assms] settled_up_to_date by blast

theorem controller_loses_no_change_witness:
  "\<forall>A. \<exists>acts s x. ro_run ex_lib A True (ex_start_actions @ acts) (sys_init 1) = Some (Returned s) \<and> settled_system s
    \<and> map_of (sys_objects s) (''app'', ''ro'') = Some x \<and> up_to_date ex_lib x (ex_ns True)"
proof
  fix A
  obtain acts s x where run: "ro_run ex_lib A True (ex_start_actions @ acts) (sys_init 1) = Some (Returned s)" "settled_system s"
    "map_of (sys_objects s) (''app'', ''ro'') = Some x" "map_of (sys_namespaces s) ''app'' = Some (ex_ns True)"
    by (rule ex_settled_run)
  from controller_loses_no_change [OF run(1)] run
  show "\<exists>acts s x. ro_run ex_lib A True (ex_start_actions @ acts) (sys_init 1) = Some (Returned s) \<and> settled_system s
    \<and> map_of (sys_objects s) (''app'', ''ro'') = Some x \<and> up_to_date ex_lib x (ex_ns True)" by fastforce
qed

text \<open>
  C19: the controller catches up. After any run, if the environment stops and the server stores what it is sent,
  the controller's own actions lead to a state with nothing left to do: the namespaces and the specs of all
  ResourceOverrides are as they were, and every status is up to date. So no reachable state is a dead end,
  and no error is retried for ever.
\<close>

theorem controller_catches_up:
  assumes "ro_run L A True acts (sys_init n) = Some (Returned s)" and "0 < n"
  shows "\<exists>acts' s'. list_all controller_action acts' \<and> ro_run L A True acts' s = Some (Returned s')
    \<and> settled_system s' \<and> same_inputs s s'
    \<and> (\<forall>k x. map_of (sys_objects s') k = Some x \<longrightarrow> (\<exists>ns. map_of (sys_namespaces s') (fst k) = Some ns \<and> up_to_date L x ns))"
  by (rule reaches_up_to_date [OF assms])

theorem controller_catches_up_witness:
  "\<forall>A. \<exists>s acts s'. ro_run ex_lib A True ex_start_actions (sys_init 1) = Some (Returned s) \<and> list_all controller_action acts
    \<and> ro_run ex_lib A True acts s = Some (Returned s') \<and> settled_system s' \<and> same_inputs s s'"
proof
  fix A
  obtain s where run: "ro_run ex_lib A True ex_start_actions (sys_init 1) = Some (Returned s)" using ex_start_run by blast
  from controller_catches_up [OF run] run show "\<exists>s acts s'. ro_run ex_lib A True ex_start_actions (sys_init 1) = Some (Returned s)
    \<and> list_all controller_action acts \<and> ro_run ex_lib A True acts s = Some (Returned s') \<and> settled_system s' \<and> same_inputs s s'"
    by fastforce
qed

text \<open>
  C20: without that restriction a change is lost. A namespace that is opted in is deleted and created again
  without the label; a ResourceOverride in it is reconciled before the namespace informer has delivered both.
  The handler then gets a deletion and an addition, and ignores either: nothing is left to do, and the
  status still says that the namespace is opted in.
\<close>

theorem recreated_namespace_missed:
  "\<exists>acts s x. ro_run L A False acts (sys_init 1) = Some (Returned s) \<and> settled_system s
    \<and> map_of (sys_objects s) (''app'', ''ro'') = Some x \<and> map_of (sys_namespaces s) ''app'' = Some (ex_ns False)
    \<and> \<not> says Ignored NamespaceNotOptedIn (opt_in_says x (ex_ns False)) (ro_Status x)"
  by (rule ex_recreated_stale)

section \<open>Deep copies\<close>

text \<open>
  C21: a deep copy of a ClusterResourceOverride in memory reads as the copy that the reconciler works on,
  with fresh addresses for the toleration periods; the original reads as before, and whatever is
  written later to the memory of the copy, the original still reads as before.
\<close>

theorem deep_copy_refines:
  assumes "readable view_ClusterResourceOverride_ptr foot_ClusterResourceOverride_ptr h (Some a)"
  shows "\<exists>b h' w. ClusterResourceOverride_DeepCopy (Some a) h = (Some b, h')
    \<and> CRO_at h' b = fst (ClusterResourceOverride_copy new_loc (CRO_at h a) w) \<and> CRO_at h' a = CRO_at h a
    \<and> foot_ClusterResourceOverride_ptr h (Some a) \<inter> foot_ClusterResourceOverride_ptr h' (Some b) = {}
    \<and> (\<forall>ws. list_all (\<lambda>(l, c). l \<in> foot_ClusterResourceOverride_ptr h' (Some b)) ws \<longrightarrow>
         view_ClusterResourceOverride_ptr (fold (\<lambda>(l, c). store l c) ws h') (Some a) = view_ClusterResourceOverride_ptr h (Some a))"
proof -
  obtain b h' w where run: "ClusterResourceOverride_DeepCopy (Some a) h = (Some b, h')"
      "CRO_at h' b = fst (ClusterResourceOverride_copy new_loc (CRO_at h a) w)" "CRO_at h' a = CRO_at h a"
    using DeepCopy_api [OF assms] by blast
  note copied = ClusterResourceOverride_ptr.copies [OF assms, unfolded run(1), simplified]
  have foot: "list_all (\<lambda>(l, c). lim h \<le> l) ws"
    if "list_all (\<lambda>(l, c). l \<in> foot_ClusterResourceOverride_ptr h' (Some b)) ws" for ws :: "(loc \<times> cell) list"
    using that copied unfolding copied_def list_all_iff by fastforce
  have "extends h h'" using copied by (simp add: copied_def)
  then show ?thesis
    using run foot ClusterResourceOverride_ptr.writes_to_copy [OF _ assms]
      ClusterResourceOverride_ptr.copied_disjoint [OF copied assms]
      ClusterResourceOverride_ptr.reads_extended(2) [of h h' "Some a"] assms by (auto simp: readable_def)
qed

theorem deep_copy_refines_witness:
  "\<exists>b h' w. ClusterResourceOverride_DeepCopy (Some 0) ex_heap = (Some b, h')
    \<and> CRO_at h' b = fst (ClusterResourceOverride_copy new_loc (CRO_at ex_heap 0) w)"
  using deep_copy_refines [OF ex_heap_readable(1)] by blast

section \<open>Create or patch, availability and the chain\<close>

text \<open>
  C22: ensuring an object makes no call when it cannot be converted; otherwise one Create, and one Patch
  of the same resource and namespace only when the Create answered that the object exists and the
  stored one could be read.
\<close>

theorem ensure_calls:
  "case ToUnstructured L object of
     Inl e \<Rightarrow> snd (snd (client_Ensure L (traced A) resource object s)) = snd s
   | Inr u \<Rightarrow>
       snd (snd (client_Ensure L (traced A) resource object s)) = snd s @ [CallCreate (GetGVR resource u) (u_GetNamespace u) u]
       \<or> (\<exists>e w1 w2 orig b. dyn_Create A (GetGVR resource u) (u_GetNamespace u) u (fst s) = (Inl e, w1) \<and> IsAlreadyExists e
            \<and> dyn_Get A (GetGVR resource u) (u_GetNamespace u) (u_GetName u) w1 = (Inr orig, w2)
            \<and> snd (snd (client_Ensure L (traced A) resource object s)) =
                snd s @ [CallCreate (GetGVR resource u) (u_GetNamespace u) u,
                 CallPatch (GetGVR resource u) (u_GetNamespace u) (u_GetName (prepare_modified orig u)) b])"
proof (cases "ToUnstructured L object")
  case (Inl e)
  then show ?thesis by (simp add: client_Ensure_unconverted)
next
  case (Inr u)
  from client_Ensure_calls [OF prod.collapse [symmetric] Inr, of A resource s] Inr show ?thesis by simp
qed

text \<open>
  C23: a deployment counts as available exactly when its rollout is complete (the updated replicas reach
  the wanted number, no old replica is left, every updated one is available), its progress deadline has
  not passed, and, where the generation is checked, the controller has observed the current spec.
  Replica counts are compared as signed 32-bit numbers.
\<close>

theorem deployment_available_iff:
  "fst (GetDeploymentStatus d checkGeneration) \<longleftrightarrow>
     rollout_complete d \<and> \<not> deadline_exceeded d
     \<and> (if checkGeneration then sint (om_Generation (o_Meta d)) \<le> sint (ds_ObservedGeneration (dep_Status d)) else True)"
  by (simp add: GetDeploymentStatus_done_iff)

text \<open>
  C24: when the chain fails with a readiness error, the status of the object it returns reports exactly
  that failure: the condition is true and carries the reason and the message of the error.
\<close>

theorem readiness_failure_reported:
  assumes "HandlerChain_Handle A hs cro w = (Returned (Some c, res, Some (InstallReadinessError reason (Some e))), w')"
  shows "\<exists>k. cro_Find (cro_Status c) InstallReadinessFailure = Some k \<and> cond_Status k = ConditionTrue
    \<and> cond_Reason k = reason \<and> cond_Message k = Error e"
proof -
  from chain_loop_error [OF assms [unfolded HandlerChain_Handle_def]] obtain c' :: ClusterResourceOverride and w1
    where "WithError A (Some (InstallReadinessError reason (Some e))) (cro_Status c') w1 = (Returned (cro_Status c), w')"
    by blast
  then show ?thesis by (rule WithError_reports)
qed

theorem readiness_failure_reported_witness:
  "\<exists>c w' k. HandlerChain_Handle ex_api [validationHandler_Handle] ex_bad_cro 0 =
      (Returned (Some c, empty_Result, Some (InstallReadinessError InvalidParameters
         (Some (ErrorString ''invalid value for Replicas, must be a positive value'')))), w')
    \<and> cro_Find (cro_Status c) InstallReadinessFailure = Some k \<and> cond_Status k = ConditionTrue
    \<and> cond_Reason k = InvalidParameters"
proof -
  have "\<exists>c w'. HandlerChain_Handle ex_api [validationHandler_Handle] ex_bad_cro 0 =
      (Returned (Some c, empty_Result, Some (InstallReadinessError InvalidParameters
         (Some (ErrorString ''invalid value for Replicas, must be a positive value'')))), w')"
    by (simp add: HandlerChain_Handle_def validationHandler_Handle_def ex_bad_cro_def ex_bad_spec_def ex_spec_def
        ex_cro_def PodResourceOverrideSpec_Validate_def DeploymentOverrides_Validate_def word_sless_alt
        NewInstallReadinessError_def WithError_def ex_api_def Let_def)
  then obtain c w' where run: "HandlerChain_Handle ex_api [validationHandler_Handle] ex_bad_cro 0 =
      (Returned (Some c, empty_Result, Some (InstallReadinessError InvalidParameters
         (Some (ErrorString ''invalid value for Replicas, must be a positive value'')))), w')" by blast
  from readiness_failure_reported [OF run] run show ?thesis by blast
qed

text \<open>
  C25: a patch is computed towards an object with the stored UID and resource version, so that it applies
  only to the version that was read, and the secrets of a service account are carried over.
\<close>

theorem patch_targets_stored_version:
  assumes "map_of m ''metadata'' = Some (JObject mm)"
  shows "u_GetUID (prepare_modified orig m) = u_GetUID orig
    \<and> u_GetResourceVersion (prepare_modified orig m) = u_GetResourceVersion orig
    \<and> u_GetName (prepare_modified orig m) = u_GetName m
    \<and> (case (u_GetKind m = ''ServiceAccount'', map_of orig ''secrets'') of
         (True, Some (JList l)) \<Rightarrow> map_of (prepare_modified orig m) ''secrets'' = Some (JList l) | _ \<Rightarrow> True)"
  using prepare_modified_identity [OF assms] prepare_modified_secrets [of m orig]
  by (auto split: option.splits json.splits bool.splits)

theorem patch_targets_stored_version_witness:
  "u_GetUID (prepare_modified [(''metadata'', JObject [(''uid'', JString ''u''), (''resourceVersion'', JString ''7'')]),
        (''secrets'', JList [JString ''s''])]
      [(''kind'', JString ''ServiceAccount''), (''metadata'', JObject [(''name'', JString ''n'')])]) = ''u''"
  using patch_targets_stored_version [of "[(''kind'', JString ''ServiceAccount''), (''metadata'', JObject [(''name'', JString ''n'')])]"
      "[(''name'', JString ''n'')]" "[(''metadata'', JObject [(''uid'', JString ''u''), (''resourceVersion'', JString ''7'')]),
        (''secrets'', JList [JString ''s''])]"]
  by (simp add: u_GetUID_def [of "[_, _]"] NestedString_def)

section \<open>The objects of the operand\<close>

text \<open>
  C26: the pods of the ensured deployment: the overrides of the resource replace node selector and
  tolerations; without overrides a standalone cluster schedules on the control plane; the arguments are
  those of the operand followed by the TLS arguments; labels and service account stay.
\<close>

theorem operand_pod_template:
  "let t = dep_Template (dep_Spec (deployment_New a v)); p = ApplyToToPodTemplate opts cro args t;
       overrides = spec_DeploymentOverrides (cro_Spec cro)
   in pod_NodeSelector (pt_Spec p) = (if do_NodeSelector overrides \<noteq> [] then do_NodeSelector overrides
          else if opt_IsStandalone opts then standalone_NodeSelector else [])
    \<and> pod_Tolerations (pt_Spec p) = (if do_Tolerations overrides \<noteq> [] then do_Tolerations overrides
          else if opt_IsStandalone opts then DefaultTolerations a @ standalone_Tolerations else DefaultTolerations a)
    \<and> map ctr_Args (pod_Containers (pt_Spec p)) = [ctr_Args (deployment_Container v)
         @ (if MinVersion args \<noteq> [] then [''--tls-min-version='' @ MinVersion args] else [])
         @ (if CipherSuites args \<noteq> [] then [''--tls-cipher-suites='' @ CipherSuites args] else [])]
    \<and> om_Labels (pt_Meta p) = om_Labels (pt_Meta t)
    \<and> pod_ServiceAccountName (pt_Spec p) = v_ServiceAccountName v"
  unfolding Let_def pod_template_facts
  by (simp add: deployment_New_def deployment_PodSpec_def DefaultNodeSelector_def deployment_args)



text \<open>
  C28: an event on an object with the owner reference of an ensured one, also a missed deletion, enqueues
  exactly the ClusterResourceOverride that owns it.
\<close>

theorem secondary_event_enqueues:
  assumes "controlled_by x cro" and "GetGroupVersionKind cro = ClusterResourceOverrideGVK"
    and "om_OwnerReferences (o_Meta obj) = om_OwnerReferences (runtime_Meta x)"
    and "om_Name (o_Meta cro) \<noteq> []" and "api_CRO_Get A (om_Name (o_Meta cro)) w = (Inr stored, w')"
  shows "resource_OnAdd (Enqueue A key) (MetaObj obj) b w = ([request_for stored], w')
    \<and> resource_OnDelete (Enqueue A key) (Tombstone k (MetaObj obj)) w = ([request_for stored], w')"
  using owned_event_enqueues [OF assms] by blast

theorem secondary_event_enqueues_witness:
  "resource_OnAdd (Enqueue ex_api ''key'') (MetaObj ex_owned) True 0 = ([request_for ex_cro], 0)
    \<and> resource_OnDelete (Enqueue ex_api ''key'') (Tombstone [] (MetaObj ex_owned)) 0 = ([request_for ex_cro], 0)"
  by (rule secondary_event_enqueues [of "RtService (ControllerSetter (service_New ex_v) ex_cro)" ex_cro])
    (simp_all add: ex_owned_facts)

text \<open>
  C29: the webhook is called for a pod of a namespace exactly when the ResourceOverride controller takes
  the namespace as opted in and its run level is not exempt.
\<close>

theorem webhook_namespaces:
  "webhook_selects (asset_New ctx) labels \<longleftrightarrow>
     ns_label \<lparr>ns_Name = n, ns_Labels = Some labels\<rparr> NamespaceOptInLabelKey = ''true'' \<and> \<not> exempt_run_level labels"
  by (rule webhook_selects_iff)

text \<open>
  C30: the objects refer to each other by the right names: the deployment, the service and the
  anti-affinity select the operand's pods, the service's ports are open, the volumes are the secret the
  service asks for and the configuration map, and the webhook's path leads through the API service to
  the service.
\<close>

theorem operand_objects_agree:
  "labels_agree (deployment_New a (asset_New ctx)) (service_New (asset_New ctx))
    \<and> ports_agree (deployment_New a (asset_New ctx)) (service_New (asset_New ctx))
    \<and> volumes_agree (deployment_New a (asset_New ctx)) (service_New (asset_New ctx)) (configuration_New (asset_New ctx))
    \<and> webhook_path_agrees (asset_New ctx)"
  using operand_agrees [OF refl] webhook_path by blast

section \<open>Clients, informers and startup\<close>

text \<open>
  C31: starting the operator, with the clients, controllers and informer factories it constructs, follows the
  abstract sequence of a start: it does not panic, sends exactly one message on the error channel and
  closes the done channel last, and the message is nil exactly when the clients could be built, the
  namespace informer and the ten secondary informers and both primary informers synced.
\<close>

theorem operator_startup:
  "\<exists>evs w'. runner_Run_full L K lib A addr restConfig config sync w = (Returned evs, w')
    \<and> evs = operator_Run (startup_of L K restConfig sync)
    \<and> length (op_sent evs) = 1 \<and> last evs = OpCloseDone
    \<and> (op_sent evs = [None] \<longleftrightarrow> all_up (startup_of L K restConfig sync))"
proof -
  obtain w' where "runner_Run_full L K lib A addr restConfig config sync w
      = (Returned (operator_Run (startup_of L K restConfig sync)), w')"
    using runner_Run_full_refines [of L K lib A addr restConfig config sync w] by auto
  then show ?thesis by (simp add: operator_Run_once operator_Run_ready_iff)
qed

text \<open>
  C32: the listers of the secondary objects read the informers that got the event handler, and all of them
  run once the watch is started; each lists its resource in the operator's namespace, if it has one. The
  start succeeds exactly when all ten informers synced; otherwise its message shows how many did not,
  but not which: the types are pointer types, which have no name.
\<close>

theorem secondary_watch_start:
  "let (lister :: ('c, 't) Lister, f) = secondarywatch_New client resyncPeriod ns;
       r = secondarywatch_Start f (secondary_version (secondary_factory client resyncPeriod ns)) isDirect primary hasSynced api;
       types = map kk_type secondary_kube_kinds
   in wr_handled r = Lister_informers lister \<and> set (f_running (wr_factory r)) = set types
    \<and> map (\<lambda>i. (call_gvr (inf_ListFunc i opts), call_namespace (inf_ListFunc i opts))) (Lister_informers lister)
        = map (\<lambda>kind. (kk_gvr kind, if kk_namespaced kind then ns else [])) secondary_kube_kinds
    \<and> wr_result r = (case filter (\<lambda>t. \<not> hasSynced t) types of
         [] \<Rightarrow> None
       | t # unsynced \<Rightarrow> Some (ErrorString (''WaitForCacheSync did not successfully complete resources=[''
           @ replicate (length unsynced) CHR '' '' @ '']'')))"
proof (cases "secondarywatch_New client resyncPeriod ns :: ('c, 't) Lister \<times> ('c, 't) sharedInformerFactory")
  case (Pair lister f)
  define r where "r = secondarywatch_Start f \<lparr>ver_namespace = ns, ver_tweakListOptions = None\<rparr> isDirect primary hasSynced api"
  note run = secondarywatch_Start_run [OF Pair r_def]
  have "wr_result r = snd (secondary_start isDirect primary (map (\<lambda>t. ([], hasSynced t)) (map kk_type secondary_kube_kinds)) api)"
    by (simp only: run(4) snd_conv)
  then show ?thesis
    using run(1-3) secondary_start_unnamed [of hasSynced "map kk_type secondary_kube_kinds" _ _ isDirect primary api]
    by (auto simp: Pair secondary_factory_simps r_def [symmetric] secondarywatch_New_informers(2) [OF Pair]
        fresh_informer_calls Let_def filter_empty_conv list_all_iff split: list.split)
qed

text \<open>
  C33: in any use of an informer factory, there is one informer per type, none is run twice or before it was
  asked for, and waiting for the caches reports exactly the informers that were started; a start runs all
  that are there unless the factory is shutting down.
\<close>

theorem informers_run_once:
  assumes "factory_reachable (NewSharedInformerFactoryWithOptions client resyncPeriod [WithNamespace ns]) f"
  shows "distinct (informer_types f) \<and> distinct (f_running f) \<and> set (f_running f) \<subseteq> set (informer_types f)
    \<and> WaitForCacheSync hasSynced cause f t = (if t \<in> set (f_running f) then Some (hasSynced t) else None)
    \<and> set (f_running (StartWithContext f)) = (if f_shuttingDown f then set (f_running f) else set (informer_types f))"
proof -
  have "factory_inv f"
    by (rule factory_inv_reachable [OF assms]) (rule NewSharedInformerFactoryWithOptions_inv, simp)
  then show ?thesis
    using factory_inv_Start(2) [of f] WaitForCacheSync_started [of f] by (auto simp: factory_inv_def split: if_splits)
qed

theorem informers_run_once_witness:
  "set (f_running (StartWithContext ex_started)) = {ro_type} \<and> distinct (f_running ex_started)
    \<and> WaitForCacheSync (\<lambda>_. True) None ex_started ro_type = Some True"
  using informers_run_once [OF ex_started_reachable, of "\<lambda>_. True" None ro_type] by (simp add: ex_started_simps)



section \<open>The fake clientset\<close>



text \<open>
  C36: an informer on the fake clientset. It lists the resource overrides and watches from the version of
  the list; calls, watches and reads go on before, between and after. The listed objects and the
  events of the watch, those read and those still queued, then lead an empty cache to exactly what the clientset
  holds, with one exception: of an object that is listed and deleted before the watch is opened, the watch says
  nothing, and it stays in the cache.
\<close>

theorem fake_list_watch:
  assumes "typed_lib lib" and "NewSimpleClientset lib schemeName objs = Returned c0"
    and "run_steps lib steps0 c0 = Returned (es0, c)"
    and "ExtractFromListOptions lib opts = Returned labels_Everything"
    and "fake_List lib (fake_ResourceOverrides ns) opts c = Returned ((ROListObject l, None), c1)"
    and "run_steps lib steps1 c1 = Returned (es1, c2)"
    and "fake_Watch lib (fake_ResourceOverrides ns) (opts\<lparr>lo_ResourceVersion := al_ResourceVersion l\<rparr>) c2 = Returned ((Some w, None), c3)"
    and "run_steps lib steps2 c3 = Returned (es, c4)" and "StopWatch w \<notin> set steps2"
    and "length (expand objs) + length steps0 + length steps1 < 2 ^ 62"
    and "list_all plain_event (map Changed (al_Items l) @ ro_events (events_of w es @ queued (fk_tracker c4) w))"
  shows "\<exists>cache. handle_events (map Changed (al_Items l) @ ro_events (events_of w es @ queued (fk_tracker c4) w)) ro_indexer = Returned cache
    \<and> (\<forall>k. in_ns ns k \<longrightarrow> map_option ROObject (cached cache k) = tracker_view (fk_tracker c4) ro_gvr k
         \<or> tracker_view (fk_tracker c4) ro_gvr k = None \<and> tracker_view (fk_tracker c) ro_gvr k \<noteq> None \<and> tracker_view (fk_tracker c2) ro_gvr k = None)"
  by (rule list_watch_from_start [OF assms])

theorem fake_list_watch_witness:
  "\<exists>c0 c1 c2 c3 c4 cache. NewSimpleClientset ex_fake_lib [] [ROObject ex_ro] = Returned c0
    \<and> run_steps ex_fake_lib ex_between c1 = Returned ([], c2)
    \<and> run_steps ex_fake_lib ex_after c3 = Returned ([(0, WatchAdded (ROObject ex_ro2))], c4)
    \<and> handle_events [Changed ex_ro, Changed ex_ro2, Changed ex_ro] ro_indexer = Returned cache
    \<and> (\<forall>k. in_ns ''app'' k \<longrightarrow> map_option ROObject (cached cache k) = tracker_view (fk_tracker c4) ro_gvr k
         \<or> tracker_view (fk_tracker c4) ro_gvr k = None \<and> tracker_view (fk_tracker c0) ro_gvr k \<noteq> None \<and> tracker_view (fk_tracker c2) ro_gvr k = None)"
proof -
  obtain c0 c1 c2 c3 c4 where
    new: "NewSimpleClientset ex_fake_lib [] [ROObject ex_ro] = Returned c0"
    and list: "fake_List ex_fake_lib (fake_ResourceOverrides ''app'') ex_options c0
      = Returned ((ROListObject \<lparr>al_ResourceVersion = ''2'', al_Items = [ex_ro]\<rparr>, None), c1)"
    and between: "run_steps ex_fake_lib ex_between c1 = Returned ([], c2)"
    and watch: "fake_Watch ex_fake_lib (fake_ResourceOverrides ''app'') (ex_options\<lparr>lo_ResourceVersion := ''2''\<rparr>) c2 = Returned ((Some 0, None), c3)"
    and after: "run_steps ex_fake_lib ex_after c3 = Returned ([(0, WatchAdded (ROObject ex_ro2))], c4)"
    and queue: "queued (fk_tracker c4) 0 = [WatchModified (ROObject ex_ro)]"
    using ex_informer by blast
  have "\<exists>cache. handle_events [Changed ex_ro, Changed ex_ro2, Changed ex_ro] ro_indexer = Returned cache
    \<and> (\<forall>k. in_ns ''app'' k \<longrightarrow> map_option ROObject (cached cache k) = tracker_view (fk_tracker c4) ro_gvr k
         \<or> tracker_view (fk_tracker c4) ro_gvr k = None \<and> tracker_view (fk_tracker c0) ro_gvr k \<noteq> None \<and> tracker_view (fk_tracker c2) ro_gvr k = None)"
    using fake_list_watch [OF ex_fake_typed new _ ex_fake_selector list between _ after, of "[]" "[]"] watch queue
    by (simp add: expand_def ex_between_def ex_after_def events_of_def ro_events_def ex_ro_plain)
  then obtain cache where "handle_events [Changed ex_ro, Changed ex_ro2, Changed ex_ro] ro_indexer = Returned cache"
    "\<forall>k. in_ns ''app'' k \<longrightarrow> map_option ROObject (cached cache k) = tracker_view (fk_tracker c4) ro_gvr k
       \<or> tracker_view (fk_tracker c4) ro_gvr k = None \<and> tracker_view (fk_tracker c0) ro_gvr k \<noteq> None \<and> tracker_view (fk_tracker c2) ro_gvr k = None" by blast
  with new between after show ?thesis by (intro exI conjI)
qed

section \<open>Parameters and hashes\<close>

text \<open>
  C37: in the scheme of the clientset, which registers both API groups without a panic, each of their four
  types has exactly one kind, of its own group and version, is versioned, and creating an object of that
  kind gives the type back; so it is for every kind of every type. Installing the groups once more
  changes none of this.
\<close>

theorem scheme_roundtrip:
  "\<exists>s s'. clientset_Scheme = Returned s \<and> outcome_bind (operator_Install s) autoscaling_Install = Returned s'
    \<and> list_all (\<lambda>(t, kind). ObjectKinds t s = Some ([kind], False) \<and> scheme_New kind s = Some t) api_kinds
    \<and> list_all (\<lambda>(t, kind). ObjectKinds t s' = Some ([kind], False) \<and> scheme_New kind s' = Some t) api_kinds
    \<and> (\<forall>t. list_all (\<lambda>kind. scheme_New kind s = Some t) (typeToGVK s t))"
proof -
  obtain s where s: "clientset_Scheme = Returned s"
    using clientset_Scheme_kinds by (cases clientset_Scheme) auto
  obtain s' where s': "outcome_bind (operator_Install s) autoscaling_Install = Returned s'"
    using Install_again by (cases "outcome_bind (operator_Install s) autoscaling_Install") (auto simp: s)
  have "list_all (\<lambda>kind. scheme_New kind s = Some t) (typeToGVK s t)" for t
    using scheme_inv_kinds [OF clientset_Scheme_inv [OF s]] by (simp add: list_all_iff)
  moreover have "list_all (\<lambda>(t, kind). ObjectKinds t s = Some ([kind], False) \<and> scheme_New kind s = Some t) api_kinds"
    using clientset_Scheme_kinds by (simp add: s)
  moreover have "list_all (\<lambda>(t, kind). ObjectKinds t s' = Some ([kind], False) \<and> scheme_New kind s' = Some t) api_kinds"
    using Install_again by (simp add: s s' del: outcome_bind_Returned)
  ultimately show ?thesis using s s' by blast
qed

text \<open>
  C38: a change of the pod override parameters changes the hash of the spec, provided the digest prints
  without a comma and does not collide on the strings that are hashed.
\<close>

theorem spec_hash_detects_change:
  assumes "\<forall>x. CHR '','' \<notin> set (sha x)"
    and "no_collision sha (spec_string sha s) (spec_string sha t)"
    and "no_collision sha (PodResourceOverrideSpec_String (pro_Spec (spec_PodResourceOverride s)))
      (PodResourceOverrideSpec_String (pro_Spec (spec_PodResourceOverride t)))"
    and "pro_Spec (spec_PodResourceOverride s) \<noteq> pro_Spec (spec_PodResourceOverride t)"
  shows "ClusterResourceOverrideSpec_Hash sha s \<noteq> ClusterResourceOverrideSpec_Hash sha t"
  using Spec_Hash_detects [of sha s t] assms by blast

theorem spec_hash_detects_change_witness:
  "ClusterResourceOverrideSpec_Hash hex_dump ex_spec \<noteq> ClusterResourceOverrideSpec_Hash hex_dump ex_other_spec"
  by (rule spec_hash_detects_change)
    (simp_all add: hex_dump_plain no_collision_def hex_dump_inject ex_spec_def ex_other_spec_def)

section \<open>Behaviour that surprises\<close>

text \<open>
  C39: a failure to delete the legacy daemon set ends the chain with an error that no condition reports:
  every condition is the same as before.
\<close>

theorem daemonset_error_unreported:
  assumes "api_DaemonSet_Delete (opt_api opts) (v_Namespace (opt_Asset opts)) (daemonset_Name (opt_Asset opts)) w = (Some e, w1)"
    and "\<not> IsNotFound e"
  shows "\<exists>c err w'. HandlerChain_Handle (opt_api opts) (deploymentHandler_Handle opts # hs) cro w
      = (Returned (Some c, empty_Result, Some err), w')
    \<and> (\<forall>t. cro_Find (cro_Status c) t = cro_Find (cro_Status cro) t)"
proof -
  let ?e = "PlainError (ErrorString (''failed to delete DaemonSet - '' @ Error e))"
  from assms have run: "deploymentHandler_Handle opts cro w = (Returned (cro, empty_Result, Some ?e), w1)"
    by (simp add: deploymentHandler_Handle_def Let_def handle_err_def)
  obtain x w2 where we: "WithError (opt_api opts) (Some ?e) (cro_Status cro) w1 = (x, w2)"
    by (cases "WithError (opt_api opts) (Some ?e) (cro_Status cro) w1")
  then obtain st where x: "x = Returned st" by (auto simp: WithError_def Let_def split: prod.splits)
  with we run have "HandlerChain_Handle (opt_api opts) (deploymentHandler_Handle opts # hs) cro w
      = (Returned (Some (set_Status st cro), empty_Result, Some ?e), w2)"
    by (simp add: HandlerChain_Handle_def)
  with WithError_plain [OF we [unfolded x]] show ?thesis by auto
qed

theorem daemonset_error_unreported_witness:
  "\<exists>c err w'. HandlerChain_Handle ex_ds_api (deploymentHandler_Handle (ex_opts\<lparr>opt_api := ex_ds_api\<rparr>) # []) ex_cro 0
      = (Returned (Some c, empty_Result, Some err), w')
    \<and> (\<forall>t. cro_Find (cro_Status c) t = cro_Find (cro_Status ex_cro) t)"
  using daemonset_error_unreported [of "ex_opts\<lparr>opt_api := ex_ds_api\<rparr>" 0 "ErrorString ''denied''" 0 "[]" ex_cro]
  by (simp add: ex_ds_api_def)



end
